(* ===== verification/Rina_Prelude.thy ===== *)
theory Rina_Prelude
  imports Main "HOL-Library.Word"
begin

text \<open>
  Shared vocabulary of the development: the C integer types of the sources, pointers that may
  be NULL, return codes, outcomes of kernel allocations, the checks of
  \<^verbatim>\<open>kernel/common.c\<close>, generic list lemmas, and the two interfaces that several components
  provide or use: the FIFO queue contract and its draining loop.

  Conventions. A signed C integer is an \<open>int\<close>, an unsigned one a machine word of its width.
  A pointer that the code compares with NULL is a value of type \<open>'a ptr\<close> with \<open>None\<close> for NULL.
  A function returning a status returns an \<open>int\<close> (0 on success, as the code does). Every
  allocation that can fail takes its outcome as an argument: a \<open>bool\<close>, or a list of outcomes
  for code that allocates several times.
\<close>

named_theorems queue_simps \<open>characteristic equations of the queue operations\<close>
named_theorems code_simps \<open>definitions unfolded when a concrete input is evaluated\<close>

section \<open>C types\<close>

type_synonym u8 = "8 word"
type_synonym u16 = "16 word"
type_synonym u32 = "32 word"
type_synonym u64 = "64 word"

type_synonym 'a ptr = "'a option"
type_synonym rc = int

type_synonym port_id_t = int
type_synonym cep_id_t = int
type_synonym qos_id_t = int
type_synonym address_t = u32
type_synonym seq_num_t = u32
type_synonym uint_t = u32
type_synonym timeout_t = u32

abbreviation (input) PORT_ID_WRONG :: port_id_t where "PORT_ID_WRONG \<equiv> -1"
abbreviation (input) CEP_ID_WRONG :: cep_id_t where "CEP_ID_WRONG \<equiv> -1"
abbreviation (input) QOS_ID_WRONG :: qos_id_t where "QOS_ID_WRONG \<equiv> -1"
abbreviation (input) ADDRESS_WRONG :: address_t where "ADDRESS_WRONG \<equiv> -1"

section \<open>The checks of common.c\<close>

definition port_id_bad :: port_id_t where
  "port_id_bad = PORT_ID_WRONG"

definition is_port_id_ok :: "port_id_t \<Rightarrow> bool" where
  "is_port_id_ok i \<longleftrightarrow> i \<ge> 0"

definition cep_id_bad :: cep_id_t where
  "cep_id_bad = CEP_ID_WRONG"

definition is_cep_id_ok :: "cep_id_t \<Rightarrow> bool" where
  "is_cep_id_ok i \<longleftrightarrow> i \<ge> 0"

definition address_bad :: address_t where
  "address_bad = ADDRESS_WRONG"

definition is_address_ok :: "address_t \<Rightarrow> bool" where
  "is_address_ok a \<longleftrightarrow> a \<noteq> ADDRESS_WRONG"

definition qos_id_bad :: qos_id_t where
  "qos_id_bad = QOS_ID_WRONG"

definition is_qos_id_ok :: "qos_id_t \<Rightarrow> bool" where
  "is_qos_id_ok i \<longleftrightarrow> i \<noteq> QOS_ID_WRONG"

lemmas common_defs [code_simps] =
  port_id_bad_def is_port_id_ok_def cep_id_bad_def is_cep_id_ok_def address_bad_def
  is_address_ok_def qos_id_bad_def is_qos_id_ok_def

section \<open>Calls that fault\<close>

text \<open>
  \<open>Fault\<close> is the outcome of an operation that dereferences NULL or reads or writes outside the
  object it works on.
\<close>

datatype 'a outcome = Done 'a | Fault

fun obind :: "'a outcome \<Rightarrow> ('a \<Rightarrow> 'b outcome) \<Rightarrow> 'b outcome" where
  "obind (Done x) f = f x"
| "obind Fault f = Fault"

text \<open>The same as an option, for code modelled in the option monad.\<close>

primrec got :: "'a outcome \<Rightarrow> 'a option" where
  "got (Done x) = Some x"
| "got Fault = None"

section \<open>Outcomes of kernel allocations\<close>

text \<open>
  \<open>allocs\<close> lists the outcomes of the coming allocations; once it is used up, every further
  allocation succeeds.
\<close>

type_synonym allocs = "bool list"

fun rkmalloc :: "allocs \<Rightarrow> bool \<times> allocs" where
  "rkmalloc [] = (True, [])"
| "rkmalloc (b # bs) = (b, bs)"

fun rkmalloc_n :: "nat \<Rightarrow> allocs \<Rightarrow> bool \<times> allocs" where
  "rkmalloc_n 0 ms = (True, ms)"
| "rkmalloc_n (Suc n) ms =
     (case rkmalloc ms of
        (False, ms') \<Rightarrow> (False, ms')
      | (True, ms') \<Rightarrow> rkmalloc_n n ms')"

lemma rkmalloc_n_Nil [simp]: "rkmalloc_n n [] = (True, [])"
  by (induction n) auto

section \<open>Lists\<close>

lemma take_Suc_append_nth:
  "n < length xs \<Longrightarrow> take (Suc n) (xs[n := x]) = take n xs @ [x]"
  by (simp add: take_Suc_conv_app_nth)

lemma tl_append_replicate: "xs \<noteq> [] \<Longrightarrow> tl xs @ ys = tl (xs @ ys)"
  by (cases xs) auto

lemma takeWhile_dropWhile_sorted:
  fixes a :: "'a::linorder"
  assumes "sorted (map f xs)"
  shows "dropWhile (\<lambda>x. f x \<le> a) xs = filter (\<lambda>x. \<not> f x \<le> a) xs"
  using assms
proof (induction xs)
  case (Cons x xs)
  show ?case
  proof (cases "f x \<le> a")
    case False
    with Cons.prems have "\<forall>y\<in>set xs. \<not> f y \<le> a" by auto
    with False show ?thesis by (simp add: filter_id_conv)
  qed (use Cons in simp)
qed simp

section \<open>The FIFO contract\<close>

text \<open>
  Draining: the loop \<^verbatim>\<open>while (!is_empty(q)) { x = pop(q); if (x) ... }\<close> that DTP runs on its
  \<open>to_post\<close> and \<open>to_send\<close> queues, with the number of rounds bounded by a fuel argument.
\<close>

fun drain :: "('q \<Rightarrow> bool) \<Rightarrow> ('q \<Rightarrow> 'a ptr \<times> 'q) \<Rightarrow> nat \<Rightarrow> 'q \<Rightarrow> 'a list \<times> 'q" where
  "drain emp pop 0 q = ([], q)"
| "drain emp pop (Suc n) q =
     (if emp q then ([], q)
      else (case pop q of
              (None, q') \<Rightarrow> drain emp pop n q'
            | (Some x, q') \<Rightarrow> (let (xs, q'') = drain emp pop n q' in (x # xs, q''))))"

text \<open>
  Operation sequences on a queue, and what a queue must answer: a push is accepted or refused
  as \<open>accept\<close> says (from the outcome of the allocation of the entry and the number of queued
  elements), a pop gives the oldest element or NULL.
\<close>

datatype 'a qop = QPush bool 'a | QPop
datatype 'a qres = QCode rc | QGot "'a ptr"

fun q_run :: "(bool \<Rightarrow> 'q \<Rightarrow> 'a \<Rightarrow> rc \<times> 'q) \<Rightarrow> ('q \<Rightarrow> 'a ptr \<times> 'q) \<Rightarrow> 'q \<Rightarrow> 'a qop list
    \<Rightarrow> 'a qres list \<times> 'q" where
  "q_run push pop q [] = ([], q)"
| "q_run push pop q (QPush ok x # ops) =
     (let (c, q') = push ok q x; (rs, q'') = q_run push pop q' ops in (QCode c # rs, q''))"
| "q_run push pop q (QPop # ops) =
     (let (d, q') = pop q; (rs, q'') = q_run push pop q' ops in (QGot d # rs, q''))"

fun fifo_run :: "(bool \<Rightarrow> nat \<Rightarrow> bool) \<Rightarrow> 'a list \<Rightarrow> 'a qop list \<Rightarrow> 'a qres list \<times> 'a list" where
  "fifo_run accept xs [] = ([], xs)"
| "fifo_run accept xs (QPush ok x # ops) =
     (let a = accept ok (length xs);
          (rs, ys) = fifo_run accept (if a then xs @ [x] else xs) ops
      in (QCode (if a then 0 else -1) # rs, ys))"
| "fifo_run accept xs (QPop # ops) =
     (let (rs, ys) = fifo_run accept (tl xs) ops
      in (QGot (case xs of [] \<Rightarrow> None | x # _ \<Rightarrow> Some x) # rs, ys))"

locale fifo_queue =
  fixes push :: "bool \<Rightarrow> 'q \<Rightarrow> 'a \<Rightarrow> rc \<times> 'q"
    and pop :: "'q \<Rightarrow> 'a ptr \<times> 'q"
    and is_empty :: "'q \<Rightarrow> bool"
    and invar :: "'q \<Rightarrow> bool"
    and contents :: "'q \<Rightarrow> 'a list"
    and accept :: "bool \<Rightarrow> nat \<Rightarrow> bool"
  assumes push_code: "invar q \<Longrightarrow>
      fst (push ok q x) = (if accept ok (length (contents q)) then 0 else -1)"
    and push_contents: "invar q \<Longrightarrow> contents (snd (push ok q x)) =
      (if accept ok (length (contents q)) then contents q @ [x] else contents q)"
    and push_invar: "invar q \<Longrightarrow> invar (snd (push ok q x))"
    and pop_fst: "invar q \<Longrightarrow> fst (pop q) = (case contents q of [] \<Rightarrow> None | x # _ \<Rightarrow> Some x)"
    and pop_snd: "invar q \<Longrightarrow> contents (snd (pop q)) = tl (contents q)"
    and pop_invar: "invar q \<Longrightarrow> invar (snd (pop q))"
    and is_empty_iff: "invar q \<Longrightarrow> is_empty q \<longleftrightarrow> contents q = []"
begin

lemmas laws = push_code push_contents push_invar pop_fst pop_snd pop_invar is_empty_iff

lemma run_refines:
  "invar q \<Longrightarrow>
     fst (q_run push pop q ops) = fst (fifo_run accept (contents q) ops) \<and>
     contents (snd (q_run push pop q ops)) = snd (fifo_run accept (contents q) ops) \<and>
     invar (snd (q_run push pop q ops))"
proof (induction ops arbitrary: q)
  case (Cons op ops)
  show ?case
  proof (cases op)
    case (QPush ok x)
    with Cons.IH [of "snd (push ok q x)"] Cons.prems show ?thesis
      by (simp add: laws split_beta Let_def)
  next
    case QPop
    with Cons.IH [of "snd (pop q)"] Cons.prems show ?thesis
      by (simp add: laws split_beta Let_def)
  qed
qed simp

lemma drain_all:
  assumes "invar q" "length (contents q) \<le> n"
  shows "fst (drain is_empty pop n q) = contents q \<and>
         contents (snd (drain is_empty pop n q)) = [] \<and> invar (snd (drain is_empty pop n q))"
  using assms
proof (induction n arbitrary: q)
  case (Suc n)
  show ?case
  proof (cases "contents q")
    case Nil
    with Suc.prems show ?thesis by (simp add: laws)
  next
    case (Cons x xs)
    with Suc.prems obtain q' where q': "pop q = (Some x, q')" "contents q' = xs" "invar q'"
      using pop_fst [of q] pop_snd [of q] pop_invar [of q] by (cases "pop q") auto
    with Suc.IH [of q'] Suc.prems Cons show ?thesis
      by (simp add: laws split_beta Let_def)
  qed
qed simp

end

end
