(* ===== verification/Id_Mgmt.thy ===== *)
theory Id_Mgmt
  imports Rina_Prelude
begin

text \<open>
  The managers of identifiers: \<open>pidm\<close> (port-ids, \<^verbatim>\<open>kernel/pidm.c\<close>), \<open>cidm\<close> (connection
  endpoint ids, \<^verbatim>\<open>kernel/cidm.c\<close>) and the bitmap allocator \<open>rbmp\<close> (\<^verbatim>\<open>kernel/rds/rbmp.c\<close>).

  \<open>pidm\<close> and \<open>cidm\<close> keep the list of identifiers in use and the last one given out, and search
  upwards from it, wrapping at the maximum. The search has no exit when every identifier is in
  use, so it is a partial function: \<open>None\<close> is a call that never returns. Both provide the
  contract \<open>id_pool\<close>.
\<close>

section \<open>The search for a free identifier\<close>

text \<open>
  The loop of \<^verbatim>\<open>pidm_allocate\<close> and \<^verbatim>\<open>cidm_allocate\<close>; \<open>allocated\<close> is the test the loop calls,
  which may change the state.
\<close>

definition id_step :: "int \<Rightarrow> int \<Rightarrow> int" where
  "id_step maxid i = (if i = maxid then 1 else i + 1)"

partial_function (option) id_search ::
    "('s \<Rightarrow> int \<Rightarrow> bool \<times> 's) \<Rightarrow> int \<Rightarrow> 's \<Rightarrow> int \<Rightarrow> (int \<times> 's) option" where
  "id_search allocated maxid s i =
     (if fst (allocated s i)
      then id_search allocated maxid (snd (allocated s i)) (id_step maxid i)
      else Some (i, snd (allocated s i)))"

section \<open>pidm.c\<close>

record pidm =
  allocated_ports :: "port_id_t list"
  pm_last_allocated :: port_id_t

definition MAX_PORT_ID :: int where
  "MAX_PORT_ID = (2 * 2 ^ 8) * 4 - 1"

definition pidm_create :: "bool \<Rightarrow> pidm ptr" where
  "pidm_create ok = (if ok then Some \<lparr>allocated_ports = [], pm_last_allocated = 0\<rparr> else None)"

definition pidm_allocated :: "pidm \<Rightarrow> port_id_t \<Rightarrow> bool \<times> pidm" where
  "pidm_allocated p i = (i \<in> set (allocated_ports p), p)"

text \<open>\<open>ok\<close> is the outcome of the allocation of the new list element.\<close>

definition pidm_allocate :: "bool \<Rightarrow> pidm ptr \<Rightarrow> (port_id_t \<times> pidm ptr) option" where
  "pidm_allocate ok q =
     (case q of
        None \<Rightarrow> Some (port_id_bad, None)
      | Some p \<Rightarrow>
          (let i0 = id_step MAX_PORT_ID (pm_last_allocated p)
           in case id_search pidm_allocated MAX_PORT_ID p i0 of
                None \<Rightarrow> None
              | Some (i, p') \<Rightarrow>
                  (if ok then Some (i, Some (p'\<lparr>allocated_ports := i # allocated_ports p',
                                                pm_last_allocated := i\<rparr>))
                   else Some (port_id_bad, Some p'))))"

text \<open>The release goes through the whole list and answers 0 also when nothing was found.\<close>

definition pidm_release :: "pidm ptr \<Rightarrow> port_id_t \<Rightarrow> rc \<times> pidm ptr" where
  "pidm_release q i =
     (if \<not> is_port_id_ok i then (-1, q)
      else case q of
             None \<Rightarrow> (-1, None)
           | Some p \<Rightarrow>
               (0, Some (p\<lparr>allocated_ports := filter (\<lambda>j. j \<noteq> i) (allocated_ports p)\<rparr>)))"

definition pidm_destroy :: "pidm ptr \<Rightarrow> rc \<times> pidm ptr" where
  "pidm_destroy q = (case q of None \<Rightarrow> (-1, None) | Some p \<Rightarrow> (0, None))"

section \<open>cidm.c\<close>

text \<open>
  \<open>cm_lock\<close> counts the acquisitions of the spinlock minus its releases: \<^verbatim>\<open>cidm_allocated\<close>
  releases the lock whenever it finds the identifier, although its caller goes on.
\<close>

record cidm =
  allocated_cep_ids :: "cep_id_t list"
  cm_last_allocated :: cep_id_t
  cm_lock :: int

definition MAX_CEP_ID :: int where
  "MAX_CEP_ID = (2 * 2 ^ 8) * 4 - 1"

definition cidm_create :: "bool \<Rightarrow> cidm ptr" where
  "cidm_create ok =
     (if ok then Some \<lparr>allocated_cep_ids = [], cm_last_allocated = 0, cm_lock = 0\<rparr> else None)"

definition cidm_allocated :: "cidm \<Rightarrow> cep_id_t \<Rightarrow> bool \<times> cidm" where
  "cidm_allocated c i =
     (if i \<in> set (allocated_cep_ids c) then (True, c\<lparr>cm_lock := cm_lock c - 1\<rparr>) else (False, c))"

definition cidm_allocate :: "bool \<Rightarrow> cidm ptr \<Rightarrow> (cep_id_t \<times> cidm ptr) option" where
  "cidm_allocate ok q =
     (case q of
        None \<Rightarrow> Some (port_id_bad, None)
      | Some c0 \<Rightarrow>
          (let c = c0\<lparr>cm_lock := cm_lock c0 + 1\<rparr>;
               i0 = id_step MAX_CEP_ID (cm_last_allocated c)
           in case id_search cidm_allocated MAX_CEP_ID c i0 of
                None \<Rightarrow> None
              | Some (i, c') \<Rightarrow>
                  (if ok then Some (i, Some (c'\<lparr>allocated_cep_ids := i # allocated_cep_ids c',
                                                cm_last_allocated := i,
                                                cm_lock := cm_lock c' - 1\<rparr>))
                   else Some (cep_id_bad, Some (c'\<lparr>cm_lock := cm_lock c' - 1\<rparr>)))))"

text \<open>The release removes the first match and answers -1 when there is none.\<close>

definition cidm_release :: "cidm ptr \<Rightarrow> cep_id_t \<Rightarrow> rc \<times> cidm ptr" where
  "cidm_release q i =
     (if \<not> is_port_id_ok i then (-1, q)
      else case q of
             None \<Rightarrow> (-1, None)
           | Some c \<Rightarrow>
               (if i \<in> set (allocated_cep_ids c)
                then (0, Some (c\<lparr>allocated_cep_ids := remove1 i (allocated_cep_ids c)\<rparr>))
                else (-1, Some c)))"

definition cidm_destroy :: "cidm ptr \<Rightarrow> rc \<times> cidm ptr" where
  "cidm_destroy q = (case q of None \<Rightarrow> (-1, None) | Some c \<Rightarrow> (0, None))"

section \<open>rbmp.c\<close>

text \<open>
  \<open>rb_bitmap\<close> has the \<open>BITS_IN_BITMAP\<close> bits of the structure, whatever \<open>rb_size\<close> says. The
  kernel's \<^verbatim>\<open>bitmap_find_next_zero_area\<close> gives the first zero bit, and when there is none an
  index behind the bitmap, never a negative number. A bit set or cleared outside the bitmap is
  the outcome \<open>Fault\<close>. The upper bound in \<^verbatim>\<open>is_id_ok\<close> is compared at the unsigned type.
\<close>

definition BITS_IN_BITMAP :: nat where
  "BITS_IN_BITMAP = (2 * 2 ^ 8) * 8"

record rbmp =
  rb_offset :: int
  rb_size :: u64
  rb_bitmap :: "bool list"

definition rbmp_create :: "bool \<Rightarrow> u64 \<Rightarrow> int \<Rightarrow> rbmp ptr" where
  "rbmp_create ok bits offset =
     (if bits = 0 then None
      else if \<not> ok then None
      else Some \<lparr>rb_offset = offset, rb_size = bits,
                  rb_bitmap = replicate BITS_IN_BITMAP False\<rparr>)"

definition rbmp_destroy :: "rbmp ptr \<Rightarrow> rc \<times> rbmp ptr" where
  "rbmp_destroy q = (case q of None \<Rightarrow> (-1, None) | Some b \<Rightarrow> (0, None))"

definition first_zero :: "bool list \<Rightarrow> nat" where
  "first_zero bs = length (takeWhile (\<lambda>b. b) bs)"

definition rbmp_allocate :: "rbmp ptr \<Rightarrow> (int \<times> rbmp ptr) outcome" where
  "rbmp_allocate q =
     (case q of
        None \<Rightarrow> Fault
      | Some b \<Rightarrow>
          (let i = first_zero (rb_bitmap b)
           in if i < length (rb_bitmap b)
              then Done (int i + rb_offset b, Some (b\<lparr>rb_bitmap := (rb_bitmap b)[i := True]\<rparr>))
              else Fault))"

definition is_id_ok :: "rbmp \<Rightarrow> int \<Rightarrow> bool" where
  "is_id_ok b i \<longleftrightarrow> \<not> (i < rb_offset b \<or> word_of_int (rb_offset b) + rb_size b < word_of_int i)"

definition rbmp_is_id_ok :: "rbmp ptr \<Rightarrow> int \<Rightarrow> bool" where
  "rbmp_is_id_ok q i = (case q of None \<Rightarrow> False | Some b \<Rightarrow> is_id_ok b i)"

text \<open>The bit cleared is the one at \<open>i\<close>, not the one at \<open>i - rb_offset b\<close>.\<close>

definition rbmp_release :: "rbmp ptr \<Rightarrow> int \<Rightarrow> (rc \<times> rbmp ptr) outcome" where
  "rbmp_release q i =
     (case q of
        None \<Rightarrow> Done (-1, None)
      | Some b \<Rightarrow>
          (if \<not> is_id_ok b i then Done (-1, q)
           else if 0 \<le> i \<and> i < int (length (rb_bitmap b))
                then Done (0, Some (b\<lparr>rb_bitmap := (rb_bitmap b)[nat i := False]\<rparr>))
                else Fault))"

section \<open>The search terminates exactly when an identifier is free\<close>

lemma id_step_range: "1 \<le> m \<Longrightarrow> 1 \<le> i \<Longrightarrow> i \<le> m \<Longrightarrow> 1 \<le> id_step m i \<and> id_step m i \<le> m"
  by (simp add: id_step_def)

lemma id_step_up: "i + int n \<le> m \<Longrightarrow> (id_step m ^^ n) i = i + int n"
  by (induction n) (simp_all add: id_step_def)

lemma id_step_reach:
  assumes "1 \<le> i" "i \<le> m" "1 \<le> j" "j \<le> m"
  shows "\<exists>n. (id_step m ^^ n) i = j"
proof (cases "i \<le> j")
  case True
  with assms id_step_up [of i "nat (j - i)" m] show ?thesis by auto
next
  case False
  have "(id_step m ^^ nat (m - i)) i = m"
    using assms id_step_up [of i "nat (m - i)" m] by simp
  then have "(id_step m ^^ Suc (nat (m - i))) i = 1"
    by (simp add: id_step_def)
  moreover have "(id_step m ^^ nat (j - 1)) 1 = j"
    using assms id_step_up [of 1 "nat (j - 1)" m] by simp
  ultimately have "(id_step m ^^ (nat (j - 1) + Suc (nat (m - i)))) i = j"
    by (simp only: funpow_add o_apply)
  then show ?thesis ..
qed

locale id_scan =
  fixes allocated :: "'s \<Rightarrow> int \<Rightarrow> bool \<times> 's"
    and ids :: "'s \<Rightarrow> int list"
    and last_id :: "'s \<Rightarrow> int"
    and maxid :: int
  assumes found: "fst (allocated s i) \<longleftrightarrow> i \<in> set (ids s)"
    and keeps: "ids (snd (allocated s i)) = ids s"
    and keeps_last: "last_id (snd (allocated s i)) = last_id s"
    and max_pos: "1 \<le> maxid"
begin

lemma search_returns:
  "(id_step maxid ^^ n) i \<notin> set (ids s) \<Longrightarrow> \<exists>r. id_search allocated maxid s i = Some r"
proof (induction n arbitrary: i s)
  case 0
  then show ?case by (simp add: id_search.simps [of allocated maxid s i] found)
next
  case (Suc n)
  then have "(id_step maxid ^^ n) (id_step maxid i) \<notin> set (ids (snd (allocated s i)))"
    by (simp add: keeps funpow_swap1)
  with Suc.IH obtain r where
    "id_search allocated maxid (snd (allocated s i)) (id_step maxid i) = Some r" by blast
  then show ?case
    by (cases "fst (allocated s i)") (simp_all add: id_search.simps [of allocated maxid s i])
qed

lemma search_first_free_aux:
  "id_search al m s i = Some r \<Longrightarrow> al = allocated \<Longrightarrow> m = maxid \<Longrightarrow>
     ids (snd r) = ids s \<and> last_id (snd r) = last_id s \<and> fst r \<notin> set (ids s) \<and>
     (\<exists>k. fst r = (id_step maxid ^^ k) i \<and> (\<forall>l<k. (id_step maxid ^^ l) i \<in> set (ids s)))"
proof (induction al m s i r rule: id_search.raw_induct [rotated, consumes 1, case_names step])
  case (step f al m s i r)
  note IH = step(1) and eq = step(2) and args = step(3,4)
  show ?case
  proof (cases "fst (al s i)")
    case True
    with eq args IH [of al m "snd (al s i)" "id_step m i" r] obtain k where
      k: "fst r = (id_step maxid ^^ k) (id_step maxid i)"
         "\<forall>l<k. (id_step maxid ^^ l) (id_step maxid i) \<in> set (ids s)"
      and r: "ids (snd r) = ids s" "last_id (snd r) = last_id s" "fst r \<notin> set (ids s)"
      by (auto simp: keeps keeps_last)
    have "\<forall>l<Suc k. (id_step maxid ^^ l) i \<in> set (ids s)"
      using k(2) True args by (auto simp: less_Suc_eq_0_disj found funpow_swap1)
    moreover have "fst r = (id_step maxid ^^ Suc k) i"
      using k(1) by (simp add: funpow_swap1)
    ultimately show ?thesis using r by blast
  next
    case False
    with eq args show ?thesis
      by (auto simp: found keeps keeps_last intro: exI [of _ 0])
  qed
qed

lemma search_first_free:
  assumes "id_search allocated maxid s i = Some (j, s')"
  shows "ids s' = ids s \<and> last_id s' = last_id s \<and> j \<notin> set (ids s) \<and>
     (\<exists>k. j = (id_step maxid ^^ k) i \<and> (\<forall>l<k. (id_step maxid ^^ l) i \<in> set (ids s)))"
  using search_first_free_aux [OF assms refl refl] by simp

lemma funpow_range: "1 \<le> i \<Longrightarrow> i \<le> maxid \<Longrightarrow>
    1 \<le> (id_step maxid ^^ k) i \<and> (id_step maxid ^^ k) i \<le> maxid"
  by (induction k) (simp_all add: id_step_range max_pos)

lemma search_terminates_iff:
  assumes "1 \<le> i" "i \<le> maxid"
  shows "(\<exists>r. id_search allocated maxid s i = Some r) \<longleftrightarrow> \<not> {1..maxid} \<subseteq> set (ids s)"
proof
  assume "\<exists>r. id_search allocated maxid s i = Some r"
  then obtain j s' where "id_search allocated maxid s i = Some (j, s')" by auto
  from search_first_free [OF this] obtain k where
    "j \<notin> set (ids s)" "j = (id_step maxid ^^ k) i" by blast
  with funpow_range [OF assms, of k] show "\<not> {1..maxid} \<subseteq> set (ids s)" by auto
next
  assume "\<not> {1..maxid} \<subseteq> set (ids s)"
  then obtain j where "1 \<le> j" "j \<le> maxid" "j \<notin> set (ids s)"
    by (meson atLeastAtMost_iff subsetI)
  with id_step_reach [OF assms] search_returns show "\<exists>r. id_search allocated maxid s i = Some r"
    by metis
qed

lemma search_next:
  assumes "0 \<le> l" "l \<le> maxid"
    and "id_search allocated maxid s (id_step maxid l) = Some (j, s')"
  shows "ids s' = ids s \<and> last_id s' = last_id s \<and> j \<notin> set (ids s) \<and> 1 \<le> j \<and> j \<le> maxid"
proof -
  have "1 \<le> id_step maxid l \<and> id_step maxid l \<le> maxid"
    using assms(1,2) max_pos by (auto simp: id_step_def)
  with search_first_free [OF assms(3)] funpow_range show ?thesis by metis
qed

lemma search_next_returns:
  assumes "0 \<le> l" "l \<le> maxid"
  shows "(\<exists>r. id_search allocated maxid s (id_step maxid l) = Some r) \<longleftrightarrow>
     \<not> {1..maxid} \<subseteq> set (ids s)"
  by (rule search_terminates_iff) (use assms max_pos in \<open>auto simp: id_step_def\<close>)

end

interpretation pidm_scan: id_scan pidm_allocated allocated_ports pm_last_allocated MAX_PORT_ID
  by unfold_locales (simp_all add: pidm_allocated_def MAX_PORT_ID_def)

interpretation cidm_scan: id_scan cidm_allocated allocated_cep_ids cm_last_allocated MAX_CEP_ID
  by unfold_locales (simp_all add: cidm_allocated_def MAX_CEP_ID_def)

section \<open>The contract of an identifier manager\<close>

definition pidm_ids :: "pidm ptr \<Rightarrow> int list" where
  "pidm_ids q = (case q of None \<Rightarrow> [] | Some p \<Rightarrow> allocated_ports p)"

definition pidm_inv :: "pidm ptr \<Rightarrow> bool" where
  "pidm_inv q = (case q of None \<Rightarrow> False
     | Some p \<Rightarrow> distinct (allocated_ports p) \<and> set (allocated_ports p) \<subseteq> {1..MAX_PORT_ID} \<and>
         0 \<le> pm_last_allocated p \<and> pm_last_allocated p \<le> MAX_PORT_ID)"

definition cidm_ids :: "cidm ptr \<Rightarrow> int list" where
  "cidm_ids q = (case q of None \<Rightarrow> [] | Some c \<Rightarrow> allocated_cep_ids c)"

definition cidm_inv :: "cidm ptr \<Rightarrow> bool" where
  "cidm_inv q = (case q of None \<Rightarrow> False
     | Some c \<Rightarrow> distinct (allocated_cep_ids c) \<and> set (allocated_cep_ids c) \<subseteq> {1..MAX_CEP_ID} \<and>
         0 \<le> cm_last_allocated c \<and> cm_last_allocated c \<le> MAX_CEP_ID)"

datatype idop = IdAlloc bool | IdRelease int

text \<open>
  A sequence of requests to a manager: the identifiers it answered, and its final state; \<open>None\<close>
  when one of the calls does not return.
\<close>

fun id_run :: "(bool \<Rightarrow> 's \<Rightarrow> (int \<times> 's) option) \<Rightarrow> ('s \<Rightarrow> int \<Rightarrow> rc \<times> 's) \<Rightarrow> 's \<Rightarrow> idop list
    \<Rightarrow> (int list \<times> 's) option" where
  "id_run alloc release s [] = Some ([], s)"
| "id_run alloc release s (IdAlloc ok # ops) =
     (case alloc ok s of
        None \<Rightarrow> None
      | Some (i, s') \<Rightarrow>
          (case id_run alloc release s' ops of
             None \<Rightarrow> None
           | Some (is, s'') \<Rightarrow> Some (i # is, s'')))"
| "id_run alloc release s (IdRelease i # ops) = id_run alloc release (snd (release s i)) ops"

text \<open>
  What the answers must be, with \<open>L\<close> the set of live identifiers: an identifier in range that is
  not live, or -1 when memory ran out.
\<close>

fun id_answers_ok :: "int \<Rightarrow> int set \<Rightarrow> idop list \<Rightarrow> int list \<Rightarrow> bool" where
  "id_answers_ok m L [] is \<longleftrightarrow> is = []"
| "id_answers_ok m L (IdAlloc ok # ops) is \<longleftrightarrow>
     (case is of
        [] \<Rightarrow> False
      | i # is' \<Rightarrow>
          (if ok then 1 \<le> i \<and> i \<le> m \<and> i \<notin> L \<and> id_answers_ok m (insert i L) ops is'
           else i = -1 \<and> id_answers_ok m L ops is'))"
| "id_answers_ok m L (IdRelease i # ops) is \<longleftrightarrow> id_answers_ok m (L - {i}) ops is"

definition n_allocs :: "idop list \<Rightarrow> nat" where
  "n_allocs ops = length (filter (\<lambda>p. case p of IdAlloc _ \<Rightarrow> True | IdRelease _ \<Rightarrow> False) ops)"

lemma n_allocs_simps [simp]:
  "n_allocs [] = 0" "n_allocs (IdAlloc ok # ops) = Suc (n_allocs ops)"
  "n_allocs (IdRelease i # ops) = n_allocs ops"
  by (simp_all add: n_allocs_def)

lemma short_list_misses:
  assumes "int (length xs) < m"
  shows "\<not> {1..m} \<subseteq> set xs"
proof
  assume "{1..m} \<subseteq> set xs"
  from card_mono [OF _ this] have "nat m \<le> card (set xs)" by simp
  with card_length [of xs] assms show False by linarith
qed

locale id_pool =
  fixes alloc :: "bool \<Rightarrow> 's \<Rightarrow> (int \<times> 's) option"
    and release :: "'s \<Rightarrow> int \<Rightarrow> rc \<times> 's"
    and ids :: "'s \<Rightarrow> int list"
    and invar :: "'s \<Rightarrow> bool"
    and maxid :: int
  assumes alloc_returns:
      "invar s \<Longrightarrow> (\<exists>r. alloc ok s = Some r) \<longleftrightarrow> \<not> {1..maxid} \<subseteq> set (ids s)"
    and alloc_fresh: "invar s \<Longrightarrow> alloc True s = Some (i, s') \<Longrightarrow>
      i \<notin> set (ids s) \<and> 1 \<le> i \<and> i \<le> maxid \<and> ids s' = i # ids s \<and> invar s'"
    and alloc_nomem: "invar s \<Longrightarrow> alloc False s = Some (i, s') \<Longrightarrow>
      i = -1 \<and> ids s' = ids s \<and> invar s'"
    and release_ids: "invar s \<Longrightarrow> ids (snd (release s i)) = filter (\<lambda>j. j \<noteq> i) (ids s)"
    and release_invar: "invar s \<Longrightarrow> invar (snd (release s i))"
begin

lemma run_sound:
  "invar s \<Longrightarrow> id_run alloc release s ops = Some (is, s') \<Longrightarrow>
     id_answers_ok maxid (set (ids s)) ops is \<and> invar s'"
proof (induction ops arbitrary: s "is")
  case (Cons p ops)
  show ?case
  proof (cases p)
    case (IdAlloc ok)
    with Cons.prems obtain i t is' where a: "alloc ok s = Some (i, t)"
      and r: "id_run alloc release t ops = Some (is', s')" "is = i # is'"
      by (auto split: option.splits prod.splits)
    show ?thesis
    proof (cases ok)
      case True
      with alloc_fresh [of s i t] Cons.prems a have "i \<notin> set (ids s) \<and> 1 \<le> i \<and> i \<le> maxid"
        "ids t = i # ids s" "invar t" by simp_all
      with Cons.IH [of t is'] r True IdAlloc show ?thesis by simp
    next
      case False
      with alloc_nomem [of s i t] Cons.prems a have "i = -1" "ids t = ids s" "invar t"
        by simp_all
      with Cons.IH [of t is'] r False IdAlloc show ?thesis by simp
    qed
  next
    case (IdRelease i)
    have "set (filter (\<lambda>j. j \<noteq> i) (ids s)) = set (ids s) - {i}" by auto
    with IdRelease Cons.prems Cons.IH [of "snd (release s i)" "is"] show ?thesis
      by (simp add: release_ids release_invar)
  qed
qed simp

lemma run_returns:
  "invar s \<Longrightarrow> int (length (ids s) + n_allocs ops) \<le> maxid \<Longrightarrow>
     \<exists>r. id_run alloc release s ops = Some r"
proof (induction ops arbitrary: s)
  case (Cons p ops)
  show ?case
  proof (cases p)
    case (IdAlloc ok)
    with Cons.prems have "int (length (ids s)) < maxid" by simp
    from short_list_misses [OF this] alloc_returns [of s ok] Cons.prems(1) obtain i t where
      a: "alloc ok s = Some (i, t)" by (metis surj_pair)
    with Cons.prems(1) have "length (ids t) \<le> Suc (length (ids s)) \<and> invar t"
      using alloc_fresh [of s i t] alloc_nomem [of s i t] by (cases ok) auto
    with Cons.IH [of t] Cons.prems IdAlloc a show ?thesis by fastforce
  next
    case (IdRelease i)
    have "length (filter (\<lambda>j. j \<noteq> i) (ids s)) \<le> length (ids s)" by (rule length_filter_le)
    with IdRelease Cons.prems Cons.IH [of "snd (release s i)"] show ?thesis
      by (simp add: release_ids release_invar)
  qed
qed simp

lemma run_correct:
  assumes "invar s" "int (length (ids s) + n_allocs ops) \<le> maxid"
  shows "\<exists>is s'. id_run alloc release s ops = Some (is, s') \<and>
           id_answers_ok maxid (set (ids s)) ops is"
  using run_returns [OF assms] run_sound [OF assms(1)] by fastforce

end

section \<open>pidm and cidm provide it\<close>

lemma pidm_allocate_Some:
  "pidm_allocate ok (Some p) =
     (case id_search pidm_allocated MAX_PORT_ID p (id_step MAX_PORT_ID (pm_last_allocated p)) of
        None \<Rightarrow> None
      | Some (i, p') \<Rightarrow>
          Some (if ok then (i, Some (p'\<lparr>allocated_ports := i # allocated_ports p',
                                        pm_last_allocated := i\<rparr>))
                else (-1, Some p')))"
  by (simp add: pidm_allocate_def port_id_bad_def split: option.split)

lemma cidm_allocate_Some:
  "cidm_allocate ok (Some c) =
     (case id_search cidm_allocated MAX_CEP_ID (c\<lparr>cm_lock := cm_lock c + 1\<rparr>)
             (id_step MAX_CEP_ID (cm_last_allocated c)) of
        None \<Rightarrow> None
      | Some (i, c') \<Rightarrow>
          Some (if ok then (i, Some (c'\<lparr>allocated_cep_ids := i # allocated_cep_ids c',
                                        cm_last_allocated := i, cm_lock := cm_lock c' - 1\<rparr>))
                else (-1, Some (c'\<lparr>cm_lock := cm_lock c' - 1\<rparr>))))"
  by (simp add: cidm_allocate_def cep_id_bad_def Let_def split: option.split)

lemma pidm_invE:
  assumes "pidm_inv q"
  obtains p where "q = Some p" "distinct (allocated_ports p)"
    "set (allocated_ports p) \<subseteq> {1..MAX_PORT_ID}" "0 \<le> pm_last_allocated p"
    "pm_last_allocated p \<le> MAX_PORT_ID"
  using assms by (auto simp: pidm_inv_def split: option.splits)

lemma cidm_invE:
  assumes "cidm_inv q"
  obtains c where "q = Some c" "distinct (allocated_cep_ids c)"
    "set (allocated_cep_ids c) \<subseteq> {1..MAX_CEP_ID}" "0 \<le> cm_last_allocated c"
    "cm_last_allocated c \<le> MAX_CEP_ID"
  using assms by (auto simp: cidm_inv_def split: option.splits)

lemma filter_out_of_range:
  "set xs \<subseteq> {1..m} \<Longrightarrow> \<not> 0 \<le> (i::int) \<Longrightarrow> filter (\<lambda>j. j \<noteq> i) xs = xs"
  by (auto simp: filter_id_conv)

lemma filter_notin: "i \<notin> set xs \<Longrightarrow> filter (\<lambda>j. j \<noteq> i) xs = xs"
  by (auto simp: filter_id_conv)

lemma remove1_filter: "distinct xs \<Longrightarrow> remove1 i xs = filter (\<lambda>j. j \<noteq> i) xs"
  by (induction xs) (auto simp: filter_notin)

interpretation pidm_pool: id_pool pidm_allocate pidm_release pidm_ids pidm_inv MAX_PORT_ID
proof (unfold_locales, goal_cases)
  case (1 q ok)
  then obtain p where p: "q = Some p" "0 \<le> pm_last_allocated p" "pm_last_allocated p \<le> MAX_PORT_ID"
    by (rule pidm_invE)
  from pidm_scan.search_next_returns [OF p(2,3), of p] show ?case
    by (cases "id_search pidm_allocated MAX_PORT_ID p (id_step MAX_PORT_ID (pm_last_allocated p))")
      (simp_all add: p(1) pidm_allocate_Some pidm_ids_def split_beta)
next
  case (2 q i q')
  then show ?case
    by (auto elim!: pidm_invE simp: pidm_allocate_Some pidm_ids_def pidm_inv_def
             split: option.splits dest!: pidm_scan.search_next [rotated 2])
next
  case (3 q i q')
  then show ?case
    by (auto elim!: pidm_invE simp: pidm_allocate_Some pidm_ids_def pidm_inv_def
             split: option.splits dest!: pidm_scan.search_next [rotated 2])
next
  case (4 q i)
  then show ?case
    by (auto elim!: pidm_invE simp: pidm_release_def pidm_ids_def is_port_id_ok_def
               filter_out_of_range)
next
  case (5 q i)
  then show ?case
    by (auto simp: pidm_release_def pidm_inv_def split: option.splits)
qed

interpretation cidm_pool: id_pool cidm_allocate cidm_release cidm_ids cidm_inv MAX_CEP_ID
proof (unfold_locales, goal_cases)
  case (1 q ok)
  then obtain c where c: "q = Some c" "0 \<le> cm_last_allocated c" "cm_last_allocated c \<le> MAX_CEP_ID"
    by (rule cidm_invE)
  from cidm_scan.search_next_returns [OF c(2,3), of "c\<lparr>cm_lock := cm_lock c + 1\<rparr>"] show ?case
    by (cases "id_search cidm_allocated MAX_CEP_ID (c\<lparr>cm_lock := cm_lock c + 1\<rparr>)
                 (id_step MAX_CEP_ID (cm_last_allocated c))")
      (simp_all add: c(1) cidm_allocate_Some cidm_ids_def split_beta)
next
  case (2 q i q')
  then show ?case
    by (auto elim!: cidm_invE simp: cidm_allocate_Some cidm_ids_def cidm_inv_def
             split: option.splits dest!: cidm_scan.search_next [rotated 2])
next
  case (3 q i q')
  then show ?case
    by (auto elim!: cidm_invE simp: cidm_allocate_Some cidm_ids_def cidm_inv_def
             split: option.splits dest!: cidm_scan.search_next [rotated 2])
next
  case (4 q i)
  then show ?case
    by (auto elim!: cidm_invE simp: cidm_release_def cidm_ids_def is_port_id_ok_def
               filter_out_of_range remove1_filter filter_notin)
next
  case (5 q i)
  then show ?case
    by (auto simp: cidm_release_def cidm_inv_def split: option.splits
             dest: notin_set_remove1 set_remove1_subset [THEN subsetD])
qed

lemma pidm_create_inv: "pidm_inv (pidm_create True)" "pidm_ids (pidm_create True) = []"
  by (simp_all add: pidm_inv_def pidm_ids_def pidm_create_def MAX_PORT_ID_def)

lemma cidm_create_inv: "cidm_inv (cidm_create True)" "cidm_ids (cidm_create True) = []"
  by (simp_all add: cidm_inv_def cidm_ids_def cidm_create_def MAX_CEP_ID_def)

section \<open>Properties\<close>

text \<open>
  C3. Port-id manager: from a fresh manager, every sequence of allocations and releases with at
  most 2047 allocations returns, each successful allocation answers an identifier between 1 and
  2047 that is not live at that moment, and an allocation that runs out of memory answers -1 and
  leaves the live identifiers as they were.
\<close>

theorem pidm_run_correct:
  assumes "int (n_allocs ops) \<le> MAX_PORT_ID"
  shows "\<exists>is q. id_run pidm_allocate pidm_release (pidm_create True) ops = Some (is, q) \<and>
           id_answers_ok MAX_PORT_ID {} ops is"
  using pidm_pool.run_correct [OF pidm_create_inv(1), of ops] assms
  by (simp add: pidm_create_inv(2))

theorem pidm_run_correct_witness:
  "\<exists>is q. id_run pidm_allocate pidm_release (pidm_create True)
             [IdAlloc True, IdAlloc False, IdAlloc True, IdRelease 1, IdAlloc True] = Some (is, q) \<and>
           id_answers_ok MAX_PORT_ID {}
             [IdAlloc True, IdAlloc False, IdAlloc True, IdRelease 1, IdAlloc True] is"
  by (rule pidm_run_correct) (simp add: MAX_PORT_ID_def)

text \<open>
  C4. Termination of the port-id search: in every consistent state \<^verbatim>\<open>pidm_allocate\<close> returns if and
  only if one of the port-ids 1 to 2047 is free; with all of them in use the loop runs forever.
\<close>

theorem pidm_allocate_returns_iff:
  assumes "pidm_inv q"
  shows "(\<exists>r. pidm_allocate ok q = Some r) \<longleftrightarrow> \<not> {1..MAX_PORT_ID} \<subseteq> set (pidm_ids q)"
  using assms by (rule pidm_pool.alloc_returns)

theorem pidm_allocate_returns_iff_witness:
  "pidm_inv (Some \<lparr>allocated_ports = [3, 1], pm_last_allocated = 2047\<rparr>) \<and>
   (\<exists>r. pidm_allocate True (Some \<lparr>allocated_ports = [3, 1], pm_last_allocated = 2047\<rparr>) = Some r)"
proof -
  let ?q = "Some \<lparr>allocated_ports = [3, 1], pm_last_allocated = 2047\<rparr>"
  have inv: "pidm_inv ?q" by (simp add: pidm_inv_def MAX_PORT_ID_def)
  have "2 \<in> {1..MAX_PORT_ID} \<and> 2 \<notin> set (pidm_ids ?q)"
    by (simp add: pidm_ids_def MAX_PORT_ID_def)
  then have "\<not> {1..MAX_PORT_ID} \<subseteq> set (pidm_ids ?q)" by blast
  with pidm_allocate_returns_iff [OF inv, of True] inv show ?thesis by simp
qed

text \<open>
  Connection-endpoint-id manager: the same contract as for port-ids, with the identifiers of
  \<^verbatim>\<open>cidm_allocate\<close> and \<^verbatim>\<open>cidm_release\<close>.
\<close>

lemma cidm_run_correct:
  assumes "int (n_allocs ops) \<le> MAX_CEP_ID"
  shows "\<exists>is q. id_run cidm_allocate cidm_release (cidm_create True) ops = Some (is, q) \<and>
           id_answers_ok MAX_CEP_ID {} ops is"
  using cidm_pool.run_correct [OF cidm_create_inv(1), of ops] assms
  by (simp add: cidm_create_inv(2))

section \<open>Where the code goes wrong\<close>

text \<open>
  Each identifier that \<^verbatim>\<open>cidm_allocate\<close> finds in use costs one release of the lock too many: after
  a wrap onto a live identifier the balance of the lock is off by one.
\<close>

lemma cidm_allocate_unbalances_lock:
  assumes "cm_last_allocated c = MAX_CEP_ID" "1 \<in> set (allocated_cep_ids c)"
    "2 \<notin> set (allocated_cep_ids c)"
  shows "\<exists>c'. cidm_allocate True (Some c) = Some (2, Some c') \<and> cm_lock c' = cm_lock c - 1"
  using assms
  by (simp add: cidm_allocate_Some id_search.simps [of cidm_allocated] id_step_def
      cidm_allocated_def MAX_CEP_ID_def)

text \<open>
  \<^verbatim>\<open>rbmp_release\<close> clears the bit with the number of the identifier instead of its offset in the
  bitmap: with offset 1, giving back identifier 1 makes identifier 2, still live, the next answer.
\<close>

lemma rbmp_release_frees_live_id:
  assumes "rb_offset b = 1" "rb_size b = 8" "rb_bitmap b = True # True # True # bs"
  shows "\<exists>b' b''. rbmp_release (Some b) 1 = Done (0, b') \<and> rbmp_allocate b' = Done (2, b'')"
  using assms by (simp add: rbmp_release_def rbmp_allocate_def is_id_ok_def first_zero_def)

text \<open>A full bitmap makes \<^verbatim>\<open>rbmp_allocate\<close> set a bit behind its end.\<close>

lemma rbmp_allocate_full_faults: "\<forall>x\<in>set (rb_bitmap b). x \<Longrightarrow> rbmp_allocate (Some b) = Fault"
  by (simp add: rbmp_allocate_def first_zero_def takeWhile_eq_all_conv [THEN iffD2])

end
