(* ===== verification/Pci.thy ===== *)
theory Pci
  imports Rina_Prelude
begin

text \<open>
  The protocol control information of a PDU (\<^verbatim>\<open>kernel/pci.c\<close>, \<^verbatim>\<open>kernel/pci.h\<close>): the table of
  field offsets computed from the data transfer constants of the DIF, the getters and setters over
  the header bytes, and \<^verbatim>\<open>pci_format\<close>.

  The header is the list of bytes that starts at \<^verbatim>\<open>pci->h\<close>; the multi-byte accesses of the code
  are in host order, here the little-endian order of the platforms the module is built for. An
  access outside the bytes is the outcome \<open>Fault\<close>. The field index is the value of
  \<^verbatim>\<open>enum pci_field_index\<close>; the names of the enumeration are abbreviations for these numbers.
\<close>

unbundle bit_operations_syntax

section \<open>The enumeration of fields\<close>

abbreviation (input) PCI_BASE_VERSION :: nat where "PCI_BASE_VERSION \<equiv> 0"
abbreviation (input) PCI_BASE_DST_ADD :: nat where "PCI_BASE_DST_ADD \<equiv> 1"
abbreviation (input) PCI_BASE_SRC_ADD :: nat where "PCI_BASE_SRC_ADD \<equiv> 2"
abbreviation (input) PCI_BASE_QOS_ID :: nat where "PCI_BASE_QOS_ID \<equiv> 3"
abbreviation (input) PCI_BASE_DST_CEP :: nat where "PCI_BASE_DST_CEP \<equiv> 4"
abbreviation (input) PCI_BASE_SRC_CEP :: nat where "PCI_BASE_SRC_CEP \<equiv> 5"
abbreviation (input) PCI_BASE_TYPE :: nat where "PCI_BASE_TYPE \<equiv> 6"
abbreviation (input) PCI_BASE_FLAGS :: nat where "PCI_BASE_FLAGS \<equiv> 7"
abbreviation (input) PCI_BASE_LEN :: nat where "PCI_BASE_LEN \<equiv> 8"
abbreviation (input) PCI_DT_MGMT_SN :: nat where "PCI_DT_MGMT_SN \<equiv> 9"
abbreviation (input) PCI_DT_MGMT_SIZE :: nat where "PCI_DT_MGMT_SIZE \<equiv> 10"
abbreviation (input) PCI_CTRL_SN :: nat where "PCI_CTRL_SN \<equiv> 11"
abbreviation (input) PCI_FC_NEW_RWE :: nat where "PCI_FC_NEW_RWE \<equiv> 12"
abbreviation (input) PCI_FC_MY_LWE :: nat where "PCI_FC_MY_LWE \<equiv> 13"
abbreviation (input) PCI_FC_MY_RWE :: nat where "PCI_FC_MY_RWE \<equiv> 14"
abbreviation (input) PCI_FC_SNDR_RATE :: nat where "PCI_FC_SNDR_RATE \<equiv> 15"
abbreviation (input) PCI_FC_TIME_FRAME :: nat where "PCI_FC_TIME_FRAME \<equiv> 16"
abbreviation (input) PCI_FC_SIZE :: nat where "PCI_FC_SIZE \<equiv> 17"
abbreviation (input) PCI_CACK_LAST_CSN_RCVD :: nat where "PCI_CACK_LAST_CSN_RCVD \<equiv> 18"
abbreviation (input) PCI_CACK_NEW_LWE :: nat where "PCI_CACK_NEW_LWE \<equiv> 19"
abbreviation (input) PCI_CACK_NEW_RWE :: nat where "PCI_CACK_NEW_RWE \<equiv> 20"
abbreviation (input) PCI_CACK_MY_LWE :: nat where "PCI_CACK_MY_LWE \<equiv> 21"
abbreviation (input) PCI_CACK_MY_RWE :: nat where "PCI_CACK_MY_RWE \<equiv> 22"
abbreviation (input) PCI_CACK_SNDR_RATE :: nat where "PCI_CACK_SNDR_RATE \<equiv> 23"
abbreviation (input) PCI_CACK_TIME_FRAME :: nat where "PCI_CACK_TIME_FRAME \<equiv> 24"
abbreviation (input) PCI_CACK_SIZE :: nat where "PCI_CACK_SIZE \<equiv> 25"
abbreviation (input) PCI_ACK_ACKED_SN :: nat where "PCI_ACK_ACKED_SN \<equiv> 26"
abbreviation (input) PCI_ACK_SIZE :: nat where "PCI_ACK_SIZE \<equiv> 27"
abbreviation (input) PCI_ACK_FC_ACKED_SN :: nat where "PCI_ACK_FC_ACKED_SN \<equiv> 28"
abbreviation (input) PCI_ACK_FC_LAST_CSN_RCVD :: nat where "PCI_ACK_FC_LAST_CSN_RCVD \<equiv> 29"
abbreviation (input) PCI_ACK_FC_NEW_LWE :: nat where "PCI_ACK_FC_NEW_LWE \<equiv> 30"
abbreviation (input) PCI_ACK_FC_NEW_RWE :: nat where "PCI_ACK_FC_NEW_RWE \<equiv> 31"
abbreviation (input) PCI_ACK_FC_MY_LWE :: nat where "PCI_ACK_FC_MY_LWE \<equiv> 32"
abbreviation (input) PCI_ACK_FC_MY_RWE :: nat where "PCI_ACK_FC_MY_RWE \<equiv> 33"
abbreviation (input) PCI_ACK_FC_SNDR_RATE :: nat where "PCI_ACK_FC_SNDR_RATE \<equiv> 34"
abbreviation (input) PCI_ACK_FC_TIME_FRAME :: nat where "PCI_ACK_FC_TIME_FRAME \<equiv> 35"
abbreviation (input) PCI_ACK_FC_SIZE :: nat where "PCI_ACK_FC_SIZE \<equiv> 36"
abbreviation (input) PCI_RVOUS_LAST_CSN_RCVD :: nat where "PCI_RVOUS_LAST_CSN_RCVD \<equiv> 37"
abbreviation (input) PCI_RVOUS_NEW_LWE :: nat where "PCI_RVOUS_NEW_LWE \<equiv> 38"
abbreviation (input) PCI_RVOUS_NEW_RWE :: nat where "PCI_RVOUS_NEW_RWE \<equiv> 39"
abbreviation (input) PCI_RVOUS_MY_LWE :: nat where "PCI_RVOUS_MY_LWE \<equiv> 40"
abbreviation (input) PCI_RVOUS_MY_RWE :: nat where "PCI_RVOUS_MY_RWE \<equiv> 41"
abbreviation (input) PCI_RVOUS_SNDR_RATE :: nat where "PCI_RVOUS_SNDR_RATE \<equiv> 42"
abbreviation (input) PCI_RVOUS_TIME_FRAME :: nat where "PCI_RVOUS_TIME_FRAME \<equiv> 43"
abbreviation (input) PCI_RVOUS_SIZE :: nat where "PCI_RVOUS_SIZE \<equiv> 44"
abbreviation (input) PCI_FIELD_INDEX_MAX :: nat where "PCI_FIELD_INDEX_MAX \<equiv> 45"

section \<open>PDU types and flags\<close>

type_synonym pdu_type_t = u8
type_synonym pdu_flags_t = u8
type_synonym version_t = u8

abbreviation (input) PDU_TYPE_DT :: pdu_type_t where "PDU_TYPE_DT \<equiv> 0x80"
abbreviation (input) PDU_TYPE_CACK :: pdu_type_t where "PDU_TYPE_CACK \<equiv> 0xC0"
abbreviation (input) PDU_TYPE_ACK :: pdu_type_t where "PDU_TYPE_ACK \<equiv> 0xC1"
abbreviation (input) PDU_TYPE_NACK :: pdu_type_t where "PDU_TYPE_NACK \<equiv> 0xC2"
abbreviation (input) PDU_TYPE_FC :: pdu_type_t where "PDU_TYPE_FC \<equiv> 0xC4"
abbreviation (input) PDU_TYPE_ACK_AND_FC :: pdu_type_t where "PDU_TYPE_ACK_AND_FC \<equiv> 0xC5"
abbreviation (input) PDU_TYPE_NACK_AND_FC :: pdu_type_t where "PDU_TYPE_NACK_AND_FC \<equiv> 0xC6"
abbreviation (input) PDU_TYPE_SACK :: pdu_type_t where "PDU_TYPE_SACK \<equiv> 0xC9"
abbreviation (input) PDU_TYPE_SNACK :: pdu_type_t where "PDU_TYPE_SNACK \<equiv> 0xCA"
abbreviation (input) PDU_TYPE_SACK_AND_FC :: pdu_type_t where "PDU_TYPE_SACK_AND_FC \<equiv> 0xCD"
abbreviation (input) PDU_TYPE_SNACK_AND_FC :: pdu_type_t where "PDU_TYPE_SNACK_AND_FC \<equiv> 0xCE"
abbreviation (input) PDU_TYPE_RENDEZVOUS :: pdu_type_t where "PDU_TYPE_RENDEZVOUS \<equiv> 0xCF"
abbreviation (input) PDU_TYPE_MGMT :: pdu_type_t where "PDU_TYPE_MGMT \<equiv> 0x40"
abbreviation (input) PDU_FLAGS_EXPLICIT_CONGESTION :: pdu_flags_t where "PDU_FLAGS_EXPLICIT_CONGESTION \<equiv> 0x01"
abbreviation (input) PDU_FLAGS_DATA_RUN :: pdu_flags_t where "PDU_FLAGS_DATA_RUN \<equiv> 0x80"
abbreviation (input) PDU_FLAGS_BAD :: pdu_flags_t where "PDU_FLAGS_BAD \<equiv> 0xFF"

definition pdu_type_is_ok :: "pdu_type_t \<Rightarrow> bool" where
  "pdu_type_is_ok t \<longleftrightarrow>
     t \<in> {PDU_TYPE_DT, PDU_TYPE_CACK, PDU_TYPE_SACK, PDU_TYPE_NACK, PDU_TYPE_FC, PDU_TYPE_ACK,
          PDU_TYPE_ACK_AND_FC, PDU_TYPE_SACK_AND_FC, PDU_TYPE_SNACK_AND_FC, PDU_TYPE_RENDEZVOUS,
          PDU_TYPE_MGMT}"

definition pdu_type_is_control :: "pdu_type_t \<Rightarrow> bool" where
  "pdu_type_is_control t \<longleftrightarrow>
     t \<in> {PDU_TYPE_CACK, PDU_TYPE_SACK, PDU_TYPE_NACK, PDU_TYPE_FC, PDU_TYPE_ACK,
          PDU_TYPE_ACK_AND_FC, PDU_TYPE_SACK_AND_FC, PDU_TYPE_RENDEZVOUS, PDU_TYPE_SNACK_AND_FC}"

section \<open>Data transfer constants and the offset table\<close>

text \<open>
  The lengths are 16 bit fields of \<^verbatim>\<open>struct dt_cons\<close>; the sums of the table stay far below the
  range of \<^verbatim>\<open>ssize_t\<close>, so they are natural numbers here.
\<close>

record dt_cons =
  address_length :: nat
  cep_id_length :: nat
  length_length :: nat
  qos_id_length :: nat
  seq_num_length :: nat
  ctrl_seq_num_length :: nat
  max_pdu_size :: nat
  rate_length :: nat
  frame_length :: nat

definition VERSION_SIZE :: nat where "VERSION_SIZE = 1"
definition FLAGS_SIZE :: nat where "FLAGS_SIZE = 1"
definition TYPE_SIZE :: nat where "TYPE_SIZE = 1"
definition VERSION :: version_t where "VERSION = 1"

text \<open>One round of the loop: the switch on the field, over the pair of offset and base offset.\<close>

definition pci_offset_step :: "dt_cons \<Rightarrow> nat \<Rightarrow> nat \<times> nat \<Rightarrow> nat \<times> nat" where
  "pci_offset_step dc i ob = (let (off, base) = ob in
     if i = PCI_BASE_VERSION then (off + VERSION_SIZE, base)
     else if i \<in> {PCI_BASE_DST_ADD, PCI_BASE_SRC_ADD} then (off + address_length dc, base)
     else if i = PCI_BASE_QOS_ID then (off + qos_id_length dc, base)
     else if i \<in> {PCI_BASE_DST_CEP, PCI_BASE_SRC_CEP} then (off + cep_id_length dc, base)
     else if i = PCI_BASE_TYPE then (off + TYPE_SIZE, base)
     else if i = PCI_BASE_FLAGS then (off + FLAGS_SIZE, base)
     else if i = PCI_BASE_LEN then (off + length_length dc, off + length_length dc)
     else if i \<in> {PCI_DT_MGMT_SN, PCI_FC_NEW_RWE, PCI_FC_MY_LWE, PCI_FC_MY_RWE, PCI_CACK_NEW_LWE,
                   PCI_CACK_NEW_RWE, PCI_CACK_MY_LWE, PCI_CACK_MY_RWE, PCI_ACK_FC_ACKED_SN,
                   PCI_ACK_ACKED_SN, PCI_ACK_FC_NEW_LWE, PCI_ACK_FC_NEW_RWE, PCI_ACK_FC_MY_LWE,
                   PCI_ACK_FC_MY_RWE, PCI_RVOUS_NEW_LWE, PCI_RVOUS_NEW_RWE, PCI_RVOUS_MY_LWE,
                   PCI_RVOUS_MY_RWE} then (off + seq_num_length dc, base)
     else if i = PCI_CTRL_SN then (off + ctrl_seq_num_length dc, base + ctrl_seq_num_length dc)
     else if i \<in> {PCI_CACK_LAST_CSN_RCVD, PCI_ACK_FC_LAST_CSN_RCVD, PCI_RVOUS_LAST_CSN_RCVD}
          then (off + ctrl_seq_num_length dc, base)
     else if i \<in> {PCI_FC_SNDR_RATE, PCI_CACK_SNDR_RATE, PCI_ACK_FC_SNDR_RATE, PCI_RVOUS_SNDR_RATE}
          then (off + rate_length dc, base)
     else if i \<in> {PCI_FC_TIME_FRAME, PCI_CACK_TIME_FRAME, PCI_ACK_FC_TIME_FRAME,
                   PCI_RVOUS_TIME_FRAME} then (off + frame_length dc, base)
     else if i \<in> {PCI_DT_MGMT_SIZE, PCI_FC_SIZE, PCI_CACK_SIZE, PCI_ACK_SIZE, PCI_RVOUS_SIZE,
                   PCI_ACK_FC_SIZE} then (base, base)
     else (off, base))"

fun pci_offset_loop :: "dt_cons \<Rightarrow> nat \<Rightarrow> nat \<Rightarrow> nat \<times> nat \<Rightarrow> nat list" where
  "pci_offset_loop dc i 0 ob = []"
| "pci_offset_loop dc i (Suc n) ob = fst ob # pci_offset_loop dc (Suc i) n (pci_offset_step dc i ob)"

definition pci_offset_table_create :: "bool \<Rightarrow> dt_cons \<Rightarrow> nat list ptr" where
  "pci_offset_table_create ok dc =
     (if ok then Some (pci_offset_loop dc 0 PCI_FIELD_INDEX_MAX (0, 0)) else None)"

record efcp_config =
  ec_dt_cons :: dt_cons
  pci_offset_table :: "nat list"

section \<open>Bytes\<close>

fun bytes_of :: "nat \<Rightarrow> u32 \<Rightarrow> u8 list" where
  "bytes_of 0 v = []"
| "bytes_of (Suc n) v = ucast v # bytes_of n (drop_bit 8 v)"

fun of_bytes :: "u8 list \<Rightarrow> u32" where
  "of_bytes [] = 0"
| "of_bytes (b # bs) = ucast b OR push_bit 8 (of_bytes bs)"

definition load :: "nat \<Rightarrow> u8 list \<Rightarrow> nat \<Rightarrow> u32 outcome" where
  "load n h off = (if off + n \<le> length h then Done (of_bytes (take n (drop off h))) else Fault)"

definition store :: "nat \<Rightarrow> u8 list \<Rightarrow> nat \<Rightarrow> u32 \<Rightarrow> u8 list outcome" where
  "store n h off v =
     (if off + n \<le> length h then Done (take off h @ bytes_of n v @ drop (off + n) h) else Fault)"

section \<open>Getters and setters\<close>

text \<open>
  The macros. A getter reads 1, 2 or 4 bytes and casts, and answers -1 (\<open>bad\<close>) for any other
  length; a setter with any other length writes nothing and answers 0 all the same.
\<close>

definition PCI_GETTER :: "efcp_config \<Rightarrow> nat \<Rightarrow> nat \<Rightarrow> (u32 \<Rightarrow> 'a) \<Rightarrow> 'a \<Rightarrow> u8 list \<Rightarrow> 'a outcome" where
  "PCI_GETTER cfg i n cast bad h =
     (if n \<in> {1, 2, 4} then map_outcome cast (load n h (pci_offset_table cfg ! i)) else Done bad)"

definition PCI_SETTER :: "efcp_config \<Rightarrow> nat \<Rightarrow> nat \<Rightarrow> u32 \<Rightarrow> u8 list \<Rightarrow> (rc \<times> u8 list) outcome" where
  "PCI_SETTER cfg i n v h =
     (if n \<in> {1, 2, 4} then map_outcome (Pair 0) (store n h (pci_offset_table cfg ! i) v)
      else Done (0, h))"

text \<open>The casts to the signed identifier types.\<close>

definition to_cep_id :: "u32 \<Rightarrow> cep_id_t" where
  "to_cep_id v = sint v"

definition to_qos_id :: "u32 \<Rightarrow> qos_id_t" where
  "to_qos_id v = sint (ucast v :: 16 word)"

definition pci_version :: "efcp_config \<Rightarrow> u8 list \<Rightarrow> version_t outcome" where
  "pci_version cfg = PCI_GETTER cfg PCI_BASE_VERSION VERSION_SIZE ucast (-1)"

definition pci_cep_source :: "efcp_config \<Rightarrow> u8 list \<Rightarrow> cep_id_t outcome" where
  "pci_cep_source cfg = PCI_GETTER cfg PCI_BASE_SRC_CEP (cep_id_length (ec_dt_cons cfg)) to_cep_id (-1)"

definition pci_cep_destination :: "efcp_config \<Rightarrow> u8 list \<Rightarrow> cep_id_t outcome" where
  "pci_cep_destination cfg = PCI_GETTER cfg PCI_BASE_DST_CEP (cep_id_length (ec_dt_cons cfg)) to_cep_id (-1)"

definition pci_destination :: "efcp_config \<Rightarrow> u8 list \<Rightarrow> address_t outcome" where
  "pci_destination cfg = PCI_GETTER cfg PCI_BASE_DST_ADD (address_length (ec_dt_cons cfg)) (\<lambda>v. v) (-1)"

definition pci_source :: "efcp_config \<Rightarrow> u8 list \<Rightarrow> address_t outcome" where
  "pci_source cfg = PCI_GETTER cfg PCI_BASE_SRC_ADD (address_length (ec_dt_cons cfg)) (\<lambda>v. v) (-1)"

definition pci_qos_id :: "efcp_config \<Rightarrow> u8 list \<Rightarrow> qos_id_t outcome" where
  "pci_qos_id cfg = PCI_GETTER cfg PCI_BASE_QOS_ID (qos_id_length (ec_dt_cons cfg)) to_qos_id (-1)"

definition pci_type :: "efcp_config \<Rightarrow> u8 list \<Rightarrow> pdu_type_t outcome" where
  "pci_type cfg = PCI_GETTER cfg PCI_BASE_TYPE TYPE_SIZE ucast (-1)"

definition pci_flags_get :: "efcp_config \<Rightarrow> u8 list \<Rightarrow> pdu_flags_t outcome" where
  "pci_flags_get cfg = PCI_GETTER cfg PCI_BASE_FLAGS FLAGS_SIZE ucast (-1)"

definition pci_length :: "efcp_config \<Rightarrow> u8 list \<Rightarrow> int outcome" where
  "pci_length cfg = PCI_GETTER cfg PCI_BASE_LEN (length_length (ec_dt_cons cfg)) uint (-1)"

definition pci_version_set :: "efcp_config \<Rightarrow> version_t \<Rightarrow> u8 list \<Rightarrow> (rc \<times> u8 list) outcome" where
  "pci_version_set cfg v = PCI_SETTER cfg PCI_BASE_VERSION VERSION_SIZE (ucast v)"

definition pci_sequence_number_set :: "efcp_config \<Rightarrow> seq_num_t \<Rightarrow> u8 list \<Rightarrow> (rc \<times> u8 list) outcome" where
  "pci_sequence_number_set cfg v = PCI_SETTER cfg PCI_DT_MGMT_SN (seq_num_length (ec_dt_cons cfg)) v"

definition pci_cep_source_set :: "efcp_config \<Rightarrow> cep_id_t \<Rightarrow> u8 list \<Rightarrow> (rc \<times> u8 list) outcome" where
  "pci_cep_source_set cfg v = PCI_SETTER cfg PCI_BASE_SRC_CEP (cep_id_length (ec_dt_cons cfg)) (word_of_int v)"

definition pci_cep_destination_set :: "efcp_config \<Rightarrow> cep_id_t \<Rightarrow> u8 list \<Rightarrow> (rc \<times> u8 list) outcome" where
  "pci_cep_destination_set cfg v = PCI_SETTER cfg PCI_BASE_DST_CEP (cep_id_length (ec_dt_cons cfg)) (word_of_int v)"

definition pci_destination_set :: "efcp_config \<Rightarrow> address_t \<Rightarrow> u8 list \<Rightarrow> (rc \<times> u8 list) outcome" where
  "pci_destination_set cfg v = PCI_SETTER cfg PCI_BASE_DST_ADD (address_length (ec_dt_cons cfg)) v"

definition pci_source_set :: "efcp_config \<Rightarrow> address_t \<Rightarrow> u8 list \<Rightarrow> (rc \<times> u8 list) outcome" where
  "pci_source_set cfg v = PCI_SETTER cfg PCI_BASE_SRC_ADD (address_length (ec_dt_cons cfg)) v"

definition pci_qos_id_set :: "efcp_config \<Rightarrow> qos_id_t \<Rightarrow> u8 list \<Rightarrow> (rc \<times> u8 list) outcome" where
  "pci_qos_id_set cfg v = PCI_SETTER cfg PCI_BASE_QOS_ID (qos_id_length (ec_dt_cons cfg)) (word_of_int v)"

definition pci_type_set :: "efcp_config \<Rightarrow> pdu_type_t \<Rightarrow> u8 list \<Rightarrow> (rc \<times> u8 list) outcome" where
  "pci_type_set cfg v = PCI_SETTER cfg PCI_BASE_TYPE TYPE_SIZE (ucast v)"

definition pci_flags_set :: "efcp_config \<Rightarrow> pdu_flags_t \<Rightarrow> u8 list \<Rightarrow> (rc \<times> u8 list) outcome" where
  "pci_flags_set cfg v = PCI_SETTER cfg PCI_BASE_FLAGS FLAGS_SIZE (ucast v)"

definition pci_len_set :: "efcp_config \<Rightarrow> int \<Rightarrow> u8 list \<Rightarrow> (rc \<times> u8 list) outcome" where
  "pci_len_set cfg v = PCI_SETTER cfg PCI_BASE_LEN (length_length (ec_dt_cons cfg)) (word_of_int v)"

text \<open>
  A chain \<^verbatim>\<open>a || b || ...\<close> of setters: it stops at the first that does not answer 0, which makes
  the caller answer -1.
\<close>

type_synonym setter = "u8 list \<Rightarrow> (rc \<times> u8 list) outcome"

fun set_chain :: "setter list \<Rightarrow> setter" where
  "set_chain [] h = Done (0, h)"
| "set_chain (f # fs) h =
     obind (f h) (\<lambda>(c, h'). if c \<noteq> 0 then Done (-1, h') else set_chain fs h')"

definition pci_format ::
    "efcp_config \<Rightarrow> cep_id_t \<Rightarrow> cep_id_t \<Rightarrow> address_t \<Rightarrow> address_t \<Rightarrow> seq_num_t \<Rightarrow> qos_id_t \<Rightarrow>
     pdu_flags_t \<Rightarrow> int \<Rightarrow> pdu_type_t \<Rightarrow> setter" where
  "pci_format cfg src_cep_id dst_cep_id src_address dst_address sequence_number qos_id flags len
       type =
     set_chain
       [pci_version_set cfg VERSION, pci_type_set cfg type,
        pci_cep_destination_set cfg dst_cep_id, pci_cep_source_set cfg src_cep_id,
        pci_destination_set cfg dst_address, pci_source_set cfg src_address,
        pci_sequence_number_set cfg sequence_number, pci_qos_id_set cfg qos_id,
        pci_flags_set cfg flags, pci_len_set cfg len]"

definition pci_calculate_size :: "efcp_config \<Rightarrow> pdu_type_t \<Rightarrow> int" where
  "pci_calculate_size cfg type =
     (if type \<in> {PDU_TYPE_DT, PDU_TYPE_MGMT} then int (pci_offset_table cfg ! PCI_DT_MGMT_SIZE)
      else if type = PDU_TYPE_FC then int (pci_offset_table cfg ! PCI_FC_SIZE)
      else if type = PDU_TYPE_ACK then int (pci_offset_table cfg ! PCI_ACK_SIZE)
      else if type = PDU_TYPE_ACK_AND_FC then int (pci_offset_table cfg ! PCI_ACK_FC_SIZE)
      else if type = PDU_TYPE_CACK then int (pci_offset_table cfg ! PCI_CACK_SIZE)
      else if type = PDU_TYPE_RENDEZVOUS then int (pci_offset_table cfg ! PCI_RVOUS_SIZE)
      else -1)"

record pci =
  pci_h :: "u8 list"
  pci_len :: nat

definition pci_is_ok :: "efcp_config \<Rightarrow> pci ptr \<Rightarrow> bool outcome" where
  "pci_is_ok cfg p =
     (case p of
        None \<Rightarrow> Done False
      | Some c \<Rightarrow>
          (if pci_len c > 0 then map_outcome pdu_type_is_ok (pci_type cfg (pci_h c))
           else Done False))"

section \<open>Accessors that depend on the PDU type\<close>

definition pci_sequence_number_get :: "efcp_config \<Rightarrow> u8 list \<Rightarrow> seq_num_t outcome" where
  "pci_sequence_number_get cfg h = obind (pci_type cfg h) (\<lambda>t.
     if t \<in> {PDU_TYPE_DT, PDU_TYPE_MGMT}
     then PCI_GETTER cfg PCI_DT_MGMT_SN (seq_num_length (ec_dt_cons cfg)) (\<lambda>v. v) (-1) h
     else PCI_GETTER cfg PCI_CTRL_SN (ctrl_seq_num_length (ec_dt_cons cfg)) (\<lambda>v. v) (-1) h)"

definition pci_control_ack_seq_num :: "efcp_config \<Rightarrow> u8 list \<Rightarrow> u32 outcome" where
  "pci_control_ack_seq_num cfg h = obind (pci_type cfg h) (\<lambda>t.
     if t = PDU_TYPE_ACK
     then PCI_GETTER cfg PCI_ACK_ACKED_SN (seq_num_length (ec_dt_cons cfg)) (\<lambda>v. v) (-1) h
     else if t = PDU_TYPE_ACK_AND_FC
     then PCI_GETTER cfg PCI_ACK_FC_ACKED_SN (seq_num_length (ec_dt_cons cfg)) (\<lambda>v. v) (-1) h
     else Done (-1))"

definition pci_control_new_rt_wind_edge :: "efcp_config \<Rightarrow> u8 list \<Rightarrow> u32 outcome" where
  "pci_control_new_rt_wind_edge cfg h = obind (pci_type cfg h) (\<lambda>t.
     if t = PDU_TYPE_FC
     then PCI_GETTER cfg PCI_FC_NEW_RWE (seq_num_length (ec_dt_cons cfg)) (\<lambda>v. v) (-1) h
     else if t \<in> {PDU_TYPE_RENDEZVOUS, PDU_TYPE_CACK}
     then PCI_GETTER cfg PCI_CACK_NEW_RWE (seq_num_length (ec_dt_cons cfg)) (\<lambda>v. v) (-1) h
     else if t = PDU_TYPE_ACK_AND_FC
     then PCI_GETTER cfg PCI_ACK_FC_NEW_RWE (seq_num_length (ec_dt_cons cfg)) (\<lambda>v. v) (-1) h
     else Done (-1))"

definition pci_control_new_left_wind_edge :: "efcp_config \<Rightarrow> u8 list \<Rightarrow> u32 outcome" where
  "pci_control_new_left_wind_edge cfg h = obind (pci_type cfg h) (\<lambda>t.
     if t \<in> {PDU_TYPE_RENDEZVOUS, PDU_TYPE_CACK}
     then PCI_GETTER cfg PCI_CACK_NEW_LWE (seq_num_length (ec_dt_cons cfg)) (\<lambda>v. v) (-1) h
     else if t = PDU_TYPE_ACK_AND_FC
     then PCI_GETTER cfg PCI_ACK_FC_NEW_LWE (seq_num_length (ec_dt_cons cfg)) (\<lambda>v. v) (-1) h
     else Done (-1))"

definition pci_control_my_rt_wind_edge :: "efcp_config \<Rightarrow> u8 list \<Rightarrow> u32 outcome" where
  "pci_control_my_rt_wind_edge cfg h = obind (pci_type cfg h) (\<lambda>t.
     if t = PDU_TYPE_FC
     then PCI_GETTER cfg PCI_FC_MY_RWE (seq_num_length (ec_dt_cons cfg)) (\<lambda>v. v) (-1) h
     else if t \<in> {PDU_TYPE_RENDEZVOUS, PDU_TYPE_CACK}
     then PCI_GETTER cfg PCI_CACK_MY_RWE (seq_num_length (ec_dt_cons cfg)) (\<lambda>v. v) (-1) h
     else if t = PDU_TYPE_ACK_AND_FC
     then PCI_GETTER cfg PCI_ACK_FC_MY_RWE (seq_num_length (ec_dt_cons cfg)) (\<lambda>v. v) (-1) h
     else Done (-1))"

definition pci_control_my_left_wind_edge :: "efcp_config \<Rightarrow> u8 list \<Rightarrow> u32 outcome" where
  "pci_control_my_left_wind_edge cfg h = obind (pci_type cfg h) (\<lambda>t.
     if t = PDU_TYPE_FC
     then PCI_GETTER cfg PCI_FC_MY_LWE (seq_num_length (ec_dt_cons cfg)) (\<lambda>v. v) (-1) h
     else if t \<in> {PDU_TYPE_RENDEZVOUS, PDU_TYPE_CACK}
     then PCI_GETTER cfg PCI_CACK_MY_LWE (seq_num_length (ec_dt_cons cfg)) (\<lambda>v. v) (-1) h
     else if t = PDU_TYPE_ACK_AND_FC
     then PCI_GETTER cfg PCI_ACK_FC_MY_LWE (seq_num_length (ec_dt_cons cfg)) (\<lambda>v. v) (-1) h
     else Done (-1))"

definition pci_control_last_seq_num_rcvd :: "efcp_config \<Rightarrow> u8 list \<Rightarrow> u32 outcome" where
  "pci_control_last_seq_num_rcvd cfg h = obind (pci_type cfg h) (\<lambda>t.
     if t \<in> {PDU_TYPE_RENDEZVOUS, PDU_TYPE_CACK}
     then PCI_GETTER cfg PCI_CACK_LAST_CSN_RCVD (seq_num_length (ec_dt_cons cfg)) (\<lambda>v. v) (-1) h
     else if t = PDU_TYPE_ACK_AND_FC
     then PCI_GETTER cfg PCI_ACK_FC_LAST_CSN_RCVD (seq_num_length (ec_dt_cons cfg)) (\<lambda>v. v) (-1) h
     else Done (-1))"

definition pci_control_sndr_rate :: "efcp_config \<Rightarrow> u8 list \<Rightarrow> u32 outcome" where
  "pci_control_sndr_rate cfg h = obind (pci_type cfg h) (\<lambda>t.
     if t = PDU_TYPE_FC
     then PCI_GETTER cfg PCI_FC_SNDR_RATE (rate_length (ec_dt_cons cfg)) (\<lambda>v. v) (-1) h
     else if t \<in> {PDU_TYPE_RENDEZVOUS, PDU_TYPE_CACK}
     then PCI_GETTER cfg PCI_CACK_SNDR_RATE (rate_length (ec_dt_cons cfg)) (\<lambda>v. v) (-1) h
     else if t = PDU_TYPE_ACK_AND_FC
     then PCI_GETTER cfg PCI_ACK_FC_SNDR_RATE (rate_length (ec_dt_cons cfg)) (\<lambda>v. v) (-1) h
     else Done (0))"

definition pci_control_time_frame :: "efcp_config \<Rightarrow> u8 list \<Rightarrow> u32 outcome" where
  "pci_control_time_frame cfg h = obind (pci_type cfg h) (\<lambda>t.
     if t = PDU_TYPE_FC
     then PCI_GETTER cfg PCI_FC_TIME_FRAME (frame_length (ec_dt_cons cfg)) (\<lambda>v. v) (-1) h
     else if t = PDU_TYPE_CACK
     then PCI_GETTER cfg PCI_CACK_TIME_FRAME (frame_length (ec_dt_cons cfg)) (\<lambda>v. v) (-1) h
     else if t = PDU_TYPE_ACK_AND_FC
     then PCI_GETTER cfg PCI_ACK_FC_TIME_FRAME (frame_length (ec_dt_cons cfg)) (\<lambda>v. v) (-1) h
     else Done (0))"

definition pci_control_ack_seq_num_set :: "efcp_config \<Rightarrow> u32 \<Rightarrow> u8 list \<Rightarrow> (rc \<times> u8 list) outcome" where
  "pci_control_ack_seq_num_set cfg v h = obind (pci_type cfg h) (\<lambda>t.
     if t = PDU_TYPE_ACK
     then PCI_SETTER cfg PCI_ACK_ACKED_SN (seq_num_length (ec_dt_cons cfg)) v h
     else if t = PDU_TYPE_ACK_AND_FC
     then PCI_SETTER cfg PCI_ACK_FC_ACKED_SN (seq_num_length (ec_dt_cons cfg)) v h
     else Done (-1, h))"

definition pci_control_new_rt_wind_edge_set :: "efcp_config \<Rightarrow> u32 \<Rightarrow> u8 list \<Rightarrow> (rc \<times> u8 list) outcome" where
  "pci_control_new_rt_wind_edge_set cfg v h = obind (pci_type cfg h) (\<lambda>t.
     if t = PDU_TYPE_FC
     then PCI_SETTER cfg PCI_FC_NEW_RWE (seq_num_length (ec_dt_cons cfg)) v h
     else if t \<in> {PDU_TYPE_RENDEZVOUS, PDU_TYPE_CACK}
     then PCI_SETTER cfg PCI_CACK_NEW_RWE (seq_num_length (ec_dt_cons cfg)) v h
     else if t = PDU_TYPE_ACK_AND_FC
     then PCI_SETTER cfg PCI_ACK_FC_NEW_RWE (seq_num_length (ec_dt_cons cfg)) v h
     else Done (-1, h))"

definition pci_control_new_left_wind_edge_set :: "efcp_config \<Rightarrow> u32 \<Rightarrow> u8 list \<Rightarrow> (rc \<times> u8 list) outcome" where
  "pci_control_new_left_wind_edge_set cfg v h = obind (pci_type cfg h) (\<lambda>t.
     if t \<in> {PDU_TYPE_RENDEZVOUS, PDU_TYPE_CACK}
     then PCI_SETTER cfg PCI_CACK_NEW_LWE (seq_num_length (ec_dt_cons cfg)) v h
     else if t = PDU_TYPE_ACK_AND_FC
     then PCI_SETTER cfg PCI_ACK_FC_NEW_LWE (seq_num_length (ec_dt_cons cfg)) v h
     else Done (-1, h))"

definition pci_control_my_rt_wind_edge_set :: "efcp_config \<Rightarrow> u32 \<Rightarrow> u8 list \<Rightarrow> (rc \<times> u8 list) outcome" where
  "pci_control_my_rt_wind_edge_set cfg v h = obind (pci_type cfg h) (\<lambda>t.
     if t = PDU_TYPE_FC
     then PCI_SETTER cfg PCI_FC_MY_RWE (seq_num_length (ec_dt_cons cfg)) v h
     else if t \<in> {PDU_TYPE_RENDEZVOUS, PDU_TYPE_CACK}
     then PCI_SETTER cfg PCI_CACK_MY_RWE (seq_num_length (ec_dt_cons cfg)) v h
     else if t = PDU_TYPE_ACK_AND_FC
     then PCI_SETTER cfg PCI_ACK_FC_MY_RWE (seq_num_length (ec_dt_cons cfg)) v h
     else Done (-1, h))"

definition pci_control_my_left_wind_edge_set :: "efcp_config \<Rightarrow> u32 \<Rightarrow> u8 list \<Rightarrow> (rc \<times> u8 list) outcome" where
  "pci_control_my_left_wind_edge_set cfg v h = obind (pci_type cfg h) (\<lambda>t.
     if t = PDU_TYPE_FC
     then PCI_SETTER cfg PCI_FC_MY_LWE (seq_num_length (ec_dt_cons cfg)) v h
     else if t \<in> {PDU_TYPE_RENDEZVOUS, PDU_TYPE_CACK}
     then PCI_SETTER cfg PCI_CACK_MY_LWE (seq_num_length (ec_dt_cons cfg)) v h
     else if t = PDU_TYPE_ACK_AND_FC
     then PCI_SETTER cfg PCI_ACK_FC_MY_LWE (seq_num_length (ec_dt_cons cfg)) v h
     else Done (-1, h))"

definition pci_control_last_seq_num_rcvd_set :: "efcp_config \<Rightarrow> u32 \<Rightarrow> u8 list \<Rightarrow> (rc \<times> u8 list) outcome" where
  "pci_control_last_seq_num_rcvd_set cfg v h = obind (pci_type cfg h) (\<lambda>t.
     if t \<in> {PDU_TYPE_RENDEZVOUS, PDU_TYPE_CACK}
     then PCI_SETTER cfg PCI_CACK_LAST_CSN_RCVD (seq_num_length (ec_dt_cons cfg)) v h
     else if t = PDU_TYPE_ACK_AND_FC
     then PCI_SETTER cfg PCI_ACK_FC_LAST_CSN_RCVD (seq_num_length (ec_dt_cons cfg)) v h
     else Done (-1, h))"

definition pci_control_sndr_rate_set :: "efcp_config \<Rightarrow> u32 \<Rightarrow> u8 list \<Rightarrow> (rc \<times> u8 list) outcome" where
  "pci_control_sndr_rate_set cfg v h = obind (pci_type cfg h) (\<lambda>t.
     if t = PDU_TYPE_FC
     then PCI_SETTER cfg PCI_FC_SNDR_RATE (rate_length (ec_dt_cons cfg)) v h
     else if t \<in> {PDU_TYPE_RENDEZVOUS, PDU_TYPE_CACK}
     then PCI_SETTER cfg PCI_CACK_SNDR_RATE (rate_length (ec_dt_cons cfg)) v h
     else if t = PDU_TYPE_ACK_AND_FC
     then PCI_SETTER cfg PCI_ACK_FC_SNDR_RATE (rate_length (ec_dt_cons cfg)) v h
     else Done (-1, h))"

definition pci_control_time_frame_set :: "efcp_config \<Rightarrow> u32 \<Rightarrow> u8 list \<Rightarrow> (rc \<times> u8 list) outcome" where
  "pci_control_time_frame_set cfg v h = obind (pci_type cfg h) (\<lambda>t.
     if t = PDU_TYPE_FC
     then PCI_SETTER cfg PCI_FC_TIME_FRAME (frame_length (ec_dt_cons cfg)) v h
     else if t = PDU_TYPE_CACK
     then PCI_SETTER cfg PCI_CACK_TIME_FRAME (frame_length (ec_dt_cons cfg)) v h
     else if t = PDU_TYPE_ACK_AND_FC
     then PCI_SETTER cfg PCI_ACK_FC_TIME_FRAME (frame_length (ec_dt_cons cfg)) v h
     else Done (-1, h))"

lemmas pci_getter_defs =
  pci_version_def pci_cep_source_def pci_cep_destination_def pci_destination_def pci_source_def
  pci_qos_id_def pci_type_def pci_flags_get_def pci_length_def

lemmas pci_setter_defs =
  pci_version_set_def pci_sequence_number_set_def pci_cep_source_set_def
  pci_cep_destination_set_def pci_destination_set_def pci_source_set_def pci_qos_id_set_def
  pci_type_set_def pci_flags_set_def pci_len_set_def

lemmas pci_control_getter_defs =
  pci_control_ack_seq_num_def pci_control_new_rt_wind_edge_def
  pci_control_new_left_wind_edge_def pci_control_my_rt_wind_edge_def
  pci_control_my_left_wind_edge_def pci_control_last_seq_num_rcvd_def pci_control_sndr_rate_def
  pci_control_time_frame_def

lemmas pci_control_setter_defs =
  pci_control_ack_seq_num_set_def pci_control_new_rt_wind_edge_set_def
  pci_control_new_left_wind_edge_set_def pci_control_my_rt_wind_edge_set_def
  pci_control_my_left_wind_edge_set_def pci_control_last_seq_num_rcvd_set_def
  pci_control_sndr_rate_set_def pci_control_time_frame_set_def

section \<open>Bytes and words\<close>

lemma length_bytes_of [simp]: "length (bytes_of n v) = n"
  by (induction n arbitrary: v) auto

lemma of_bytes_bytes_of: "of_bytes (bytes_of n v) = take_bit (8 * n) v"
proof (induction n arbitrary: v)
  case (Suc n)
  have "ucast (ucast v :: u8) OR push_bit 8 (take_bit (8 * n) (drop_bit 8 v)) =
        take_bit (8 * Suc n) (v :: u32)"
    by (rule bit_word_eqI) (auto simp: bit_simps)
  with Suc show ?case by simp
qed simp

section \<open>Consecutive fields\<close>

text \<open>
  A header layout: fields with offsets and widths that follow each other without gap or overlap.
  Reading and writing such fields behaves as reading and writing the components of a tuple.
\<close>

fun consecutive :: "('f \<Rightarrow> nat) \<Rightarrow> ('f \<Rightarrow> nat) \<Rightarrow> nat \<Rightarrow> 'f list \<Rightarrow> bool" where
  "consecutive off wid b [] \<longleftrightarrow> True"
| "consecutive off wid b (f # fs) \<longleftrightarrow> off f = b \<and> consecutive off wid (b + wid f) fs"

lemma consecutive_bounds:
  "consecutive off wid b fs \<Longrightarrow> f \<in> set fs \<Longrightarrow>
     b \<le> off f \<and> off f + wid f \<le> b + sum_list (map wid fs)"
  by (induction fs arbitrary: b) fastforce+

lemma consecutive_disjoint:
  "consecutive off wid b fs \<Longrightarrow> f \<in> set fs \<Longrightarrow> g \<in> set fs \<Longrightarrow> f \<noteq> g \<Longrightarrow>
     off f + wid f \<le> off g \<or> off g + wid g \<le> off f"
  by (induction fs arbitrary: b) (auto dest: consecutive_bounds)

definition rd :: "nat \<Rightarrow> nat \<Rightarrow> u8 list \<Rightarrow> u32" where
  "rd off n h = of_bytes (take n (drop off h))"

definition wr :: "nat \<Rightarrow> nat \<Rightarrow> u32 \<Rightarrow> u8 list \<Rightarrow> u8 list" where
  "wr off n v h = take off h @ bytes_of n v @ drop (off + n) h"

lemma length_wr: "off + n \<le> length h \<Longrightarrow> length (wr off n v h) = length h"
  by (simp add: wr_def)

lemma rd_wr_same: "off + n \<le> length h \<Longrightarrow> rd off n (wr off n v h) = take_bit (8 * n) v"
  by (simp add: rd_def wr_def of_bytes_bytes_of)

lemma rd_wr_other:
  assumes "off + n \<le> length h" "off + n \<le> off' \<or> off' + m \<le> off"
  shows "rd off' m (wr off n v h) = rd off' m h"
proof -
  have "take m (drop off' (wr off n v h)) = take m (drop off' h)"
    using assms by (auto simp: wr_def take_drop min_def)
  then show ?thesis by (simp add: rd_def)
qed

locale header_layout =
  fixes off :: "'f \<Rightarrow> nat"
    and wid :: "'f \<Rightarrow> nat"
    and fields :: "'f list"
  assumes consecutive: "consecutive off wid 0 fields"
begin

lemma inside: "f \<in> set fields \<Longrightarrow> sum_list (map wid fields) \<le> n \<Longrightarrow> off f + wid f \<le> n"
  using consecutive_bounds [OF consecutive] by fastforce

lemma length_set:
  "f \<in> set fields \<Longrightarrow> sum_list (map wid fields) \<le> length h \<Longrightarrow>
     length (wr (off f) (wid f) v h) = length h"
  using inside by (simp add: length_wr)

lemma get_set:
  "f \<in> set fields \<Longrightarrow> g \<in> set fields \<Longrightarrow> sum_list (map wid fields) \<le> length h \<Longrightarrow>
     rd (off g) (wid g) (wr (off f) (wid f) v h) =
       (if f = g then take_bit (8 * wid f) v else rd (off g) (wid g) h)"
  using inside consecutive_disjoint [OF consecutive, of f g]
  by (auto simp: rd_wr_same rd_wr_other)

end

section \<open>The layouts of the offset table\<close>

definition pci_off :: "dt_cons \<Rightarrow> nat \<Rightarrow> nat" where
  "pci_off dc i = pci_offset_loop dc 0 PCI_FIELD_INDEX_MAX (0, 0) ! i"

definition field_width :: "dt_cons \<Rightarrow> nat \<Rightarrow> nat" where
  "field_width dc i = fst (pci_offset_step dc i (0, 0))"

definition base_fields :: "nat list" where
  "base_fields = [PCI_BASE_VERSION, PCI_BASE_DST_ADD, PCI_BASE_SRC_ADD, PCI_BASE_QOS_ID,
     PCI_BASE_DST_CEP, PCI_BASE_SRC_CEP, PCI_BASE_TYPE, PCI_BASE_FLAGS, PCI_BASE_LEN]"

definition pdu_fields :: "pdu_type_t \<Rightarrow> nat list" where
  "pdu_fields t = base_fields @
     (if t \<in> {PDU_TYPE_DT, PDU_TYPE_MGMT} then [PCI_DT_MGMT_SN]
      else if t = PDU_TYPE_FC
        then [PCI_CTRL_SN, PCI_FC_NEW_RWE, PCI_FC_MY_LWE, PCI_FC_MY_RWE, PCI_FC_SNDR_RATE,
              PCI_FC_TIME_FRAME]
      else if t = PDU_TYPE_ACK then [PCI_CTRL_SN, PCI_ACK_ACKED_SN]
      else if t = PDU_TYPE_ACK_AND_FC
        then [PCI_CTRL_SN, PCI_ACK_FC_ACKED_SN, PCI_ACK_FC_LAST_CSN_RCVD, PCI_ACK_FC_NEW_LWE,
              PCI_ACK_FC_NEW_RWE, PCI_ACK_FC_MY_LWE, PCI_ACK_FC_MY_RWE, PCI_ACK_FC_SNDR_RATE,
              PCI_ACK_FC_TIME_FRAME]
      else if t \<in> {PDU_TYPE_CACK, PDU_TYPE_RENDEZVOUS}
        then [PCI_CTRL_SN, PCI_CACK_LAST_CSN_RCVD, PCI_CACK_NEW_LWE, PCI_CACK_NEW_RWE,
              PCI_CACK_MY_LWE, PCI_CACK_MY_RWE, PCI_CACK_SNDR_RATE, PCI_CACK_TIME_FRAME]
      else [])"

text \<open>
  The table follows the running offset: each entry is the previous one plus the width of the
  field, except behind a size entry, where the offset goes back to the base.
\<close>

definition pci_obs :: "dt_cons \<Rightarrow> nat \<Rightarrow> nat \<times> nat" where
  "pci_obs dc n = fold (pci_offset_step dc) [0..<n] (0, 0)"

lemma pci_obs_Suc: "pci_obs dc (Suc n) = pci_offset_step dc n (pci_obs dc n)"
  by (simp add: pci_obs_def)

lemma pci_offset_loop_nth:
  "k < n \<Longrightarrow> pci_offset_loop dc i n ob ! k = fst (fold (pci_offset_step dc) [i..<i + k] ob)"
proof (induction n arbitrary: i ob k)
  case (Suc n)
  show ?case
  proof (cases k)
    case (Suc k')
    with Suc.IH [of k' "Suc i"] Suc.prems show ?thesis
      by (simp add: upt_conv_Cons del: upt_Suc)
  qed simp
qed simp

lemma pci_off_obs: "i < PCI_FIELD_INDEX_MAX \<Longrightarrow> pci_off dc i = fst (pci_obs dc i)"
  by (simp add: pci_off_def pci_obs_def pci_offset_loop_nth)

abbreviation (input) size_fields :: "nat set" where
  "size_fields \<equiv> {PCI_DT_MGMT_SIZE, PCI_FC_SIZE, PCI_CACK_SIZE, PCI_ACK_SIZE, PCI_ACK_FC_SIZE,
     PCI_RVOUS_SIZE}"

lemma pci_offset_step_fst:
  "i \<notin> size_fields \<Longrightarrow> fst (pci_offset_step dc i ob) = fst ob + field_width dc i"
  by (cases ob) (simp add: pci_offset_step_def field_width_def)

lemma pci_offset_step_snd:
  "i \<noteq> PCI_BASE_LEN \<Longrightarrow> i \<noteq> PCI_CTRL_SN \<Longrightarrow> snd (pci_offset_step dc i ob) = snd ob"
  by (cases ob) (simp add: pci_offset_step_def)

lemma pci_offset_step_size: "i \<in> size_fields \<Longrightarrow> fst (pci_offset_step dc i ob) = snd ob"
  by (cases ob) (auto simp: pci_offset_step_def)

lemma pci_off_Suc:
  "i \<notin> size_fields \<Longrightarrow> Suc i < PCI_FIELD_INDEX_MAX \<Longrightarrow>
     pci_off dc (Suc i) = pci_off dc i + field_width dc i"
  by (simp add: pci_off_obs pci_obs_Suc pci_offset_step_fst)

lemma pci_base_obs: "PCI_CTRL_SN < i \<Longrightarrow> snd (pci_obs dc i) = snd (pci_obs dc (Suc PCI_CTRL_SN))"
proof (induction i)
  case (Suc i)
  then show ?case
    by (cases "i = PCI_CTRL_SN") (simp_all add: pci_obs_Suc [of dc i] pci_offset_step_snd)
qed simp

lemma pci_off_0: "pci_off dc 0 = 0"
  by (simp add: pci_off_obs pci_obs_def)

lemma pci_obs_base: "snd (pci_obs dc 9) = fst (pci_obs dc 9)"
  using pci_obs_Suc [of dc 8] by (cases "pci_obs dc 8") (simp add: pci_offset_step_def)

lemma pci_obs_10: "snd (pci_obs dc 10) = fst (pci_obs dc 9)"
  using pci_obs_Suc [of dc 9] by (simp add: pci_offset_step_snd pci_obs_base)

lemma pci_off_ctrl: "pci_off dc PCI_CTRL_SN = pci_off dc PCI_DT_MGMT_SN"
  using pci_obs_Suc [of dc 10]
  by (simp add: pci_off_obs pci_offset_step_size pci_obs_10)

lemma pci_off_after_ctrl: "snd (pci_obs dc 12) = pci_off dc PCI_FC_NEW_RWE"
  using pci_obs_Suc [of dc 11] pci_obs_Suc [of dc 10]
  by (cases "pci_obs dc 10") (simp add: pci_off_obs pci_offset_step_def)

lemma pci_off_reset:
  "i \<in> size_fields \<Longrightarrow> PCI_CTRL_SN < i \<Longrightarrow> Suc i < PCI_FIELD_INDEX_MAX \<Longrightarrow>
     pci_off dc (Suc i) = pci_off dc PCI_FC_NEW_RWE"
  using pci_off_after_ctrl [of dc] pci_base_obs [of i dc]
  by (simp only: pci_off_obs pci_obs_Suc [of dc i] pci_offset_step_size) simp

lemma pci_off_step:
  "j = Suc i \<Longrightarrow> i \<notin> size_fields \<Longrightarrow> j < PCI_FIELD_INDEX_MAX \<Longrightarrow>
     pci_off dc j = pci_off dc i + field_width dc i"
  using pci_off_Suc by blast

lemma pci_off_resets:
  "pci_off dc PCI_CACK_LAST_CSN_RCVD = pci_off dc PCI_FC_NEW_RWE"
  "pci_off dc PCI_ACK_ACKED_SN = pci_off dc PCI_FC_NEW_RWE"
  "pci_off dc PCI_ACK_FC_ACKED_SN = pci_off dc PCI_FC_NEW_RWE"
  "pci_off dc PCI_RVOUS_LAST_CSN_RCVD = pci_off dc PCI_FC_NEW_RWE"
  using pci_off_reset [of PCI_FC_SIZE dc] pci_off_reset [of PCI_CACK_SIZE dc]
    pci_off_reset [of PCI_ACK_SIZE dc] pci_off_reset [of PCI_ACK_FC_SIZE dc] by simp_all

lemma pci_off_steps:
  "pci_off dc 1 = pci_off dc 0 + field_width dc 0" "pci_off dc 2 = pci_off dc 1 + field_width dc 1"
  "pci_off dc 3 = pci_off dc 2 + field_width dc 2" "pci_off dc 4 = pci_off dc 3 + field_width dc 3"
  "pci_off dc 5 = pci_off dc 4 + field_width dc 4" "pci_off dc 6 = pci_off dc 5 + field_width dc 5"
  "pci_off dc 7 = pci_off dc 6 + field_width dc 6" "pci_off dc 8 = pci_off dc 7 + field_width dc 7"
  "pci_off dc 9 = pci_off dc 8 + field_width dc 8" "pci_off dc 10 = pci_off dc 9 + field_width dc 9"
  "pci_off dc 12 = pci_off dc 11 + field_width dc 11" "pci_off dc 13 = pci_off dc 12 + field_width dc 12"
  "pci_off dc 14 = pci_off dc 13 + field_width dc 13" "pci_off dc 15 = pci_off dc 14 + field_width dc 14"
  "pci_off dc 16 = pci_off dc 15 + field_width dc 15" "pci_off dc 17 = pci_off dc 16 + field_width dc 16"
  "pci_off dc 19 = pci_off dc 18 + field_width dc 18" "pci_off dc 20 = pci_off dc 19 + field_width dc 19"
  "pci_off dc 21 = pci_off dc 20 + field_width dc 20" "pci_off dc 22 = pci_off dc 21 + field_width dc 21"
  "pci_off dc 23 = pci_off dc 22 + field_width dc 22" "pci_off dc 24 = pci_off dc 23 + field_width dc 23"
  "pci_off dc 25 = pci_off dc 24 + field_width dc 24" "pci_off dc 27 = pci_off dc 26 + field_width dc 26"
  "pci_off dc 29 = pci_off dc 28 + field_width dc 28" "pci_off dc 30 = pci_off dc 29 + field_width dc 29"
  "pci_off dc 31 = pci_off dc 30 + field_width dc 30" "pci_off dc 32 = pci_off dc 31 + field_width dc 31"
  "pci_off dc 33 = pci_off dc 32 + field_width dc 32" "pci_off dc 34 = pci_off dc 33 + field_width dc 33"
  "pci_off dc 35 = pci_off dc 34 + field_width dc 34" "pci_off dc 36 = pci_off dc 35 + field_width dc 35"
  "pci_off dc 38 = pci_off dc 37 + field_width dc 37" "pci_off dc 39 = pci_off dc 38 + field_width dc 38"
  "pci_off dc 40 = pci_off dc 39 + field_width dc 39" "pci_off dc 41 = pci_off dc 40 + field_width dc 40"
  "pci_off dc 42 = pci_off dc 41 + field_width dc 41" "pci_off dc 43 = pci_off dc 42 + field_width dc 42"
  "pci_off dc 44 = pci_off dc 43 + field_width dc 43"
  by (rule pci_off_step; simp)+

lemmas pci_off_rules =
  pci_off_0 pci_off_ctrl pci_off_resets pci_off_steps pci_off_steps(1) [unfolded One_nat_def]

interpretation pdu_layout: header_layout "pci_off dc" "field_width dc" "pdu_fields t" for dc t
  by unfold_locales (simp add: pdu_fields_def base_fields_def pci_off_rules add.assoc)

lemma pdu_layout_size:
  "sum_list (map (field_width dc) (pdu_fields PDU_TYPE_DT)) = pci_off dc PCI_DT_MGMT_SIZE"
  "sum_list (map (field_width dc) (pdu_fields PDU_TYPE_MGMT)) = pci_off dc PCI_DT_MGMT_SIZE"
  "sum_list (map (field_width dc) (pdu_fields PDU_TYPE_FC)) = pci_off dc PCI_FC_SIZE"
  "sum_list (map (field_width dc) (pdu_fields PDU_TYPE_ACK)) = pci_off dc PCI_ACK_SIZE"
  "sum_list (map (field_width dc) (pdu_fields PDU_TYPE_ACK_AND_FC)) = pci_off dc PCI_ACK_FC_SIZE"
  "sum_list (map (field_width dc) (pdu_fields PDU_TYPE_CACK)) = pci_off dc PCI_CACK_SIZE"
  by (simp_all add: pdu_fields_def base_fields_def pci_off_rules add.assoc)

lemma field_width_simps:
  "field_width dc PCI_BASE_VERSION = 1"
  "field_width dc PCI_BASE_DST_ADD = address_length dc"
  "field_width dc PCI_BASE_SRC_ADD = address_length dc"
  "field_width dc PCI_BASE_QOS_ID = qos_id_length dc"
  "field_width dc PCI_BASE_DST_CEP = cep_id_length dc"
  "field_width dc PCI_BASE_SRC_CEP = cep_id_length dc"
  "field_width dc PCI_BASE_TYPE = 1"
  "field_width dc PCI_BASE_FLAGS = 1"
  "field_width dc PCI_BASE_LEN = length_length dc"
  "field_width dc PCI_DT_MGMT_SN = seq_num_length dc"
  "field_width dc PCI_CTRL_SN = ctrl_seq_num_length dc"
  "i \<in> {PCI_FC_NEW_RWE, PCI_FC_MY_LWE, PCI_FC_MY_RWE, PCI_CACK_NEW_LWE,
         PCI_CACK_NEW_RWE, PCI_CACK_MY_LWE, PCI_CACK_MY_RWE, PCI_ACK_FC_ACKED_SN,
         PCI_ACK_ACKED_SN, PCI_ACK_FC_NEW_LWE, PCI_ACK_FC_NEW_RWE, PCI_ACK_FC_MY_LWE,
         PCI_ACK_FC_MY_RWE, PCI_RVOUS_NEW_LWE, PCI_RVOUS_NEW_RWE, PCI_RVOUS_MY_LWE,
         PCI_RVOUS_MY_RWE} \<Longrightarrow> field_width dc i = seq_num_length dc"
  "i \<in> {PCI_CACK_LAST_CSN_RCVD, PCI_ACK_FC_LAST_CSN_RCVD, PCI_RVOUS_LAST_CSN_RCVD} \<Longrightarrow>
     field_width dc i = ctrl_seq_num_length dc"
  "i \<in> {PCI_FC_SNDR_RATE, PCI_CACK_SNDR_RATE, PCI_ACK_FC_SNDR_RATE, PCI_RVOUS_SNDR_RATE} \<Longrightarrow>
     field_width dc i = rate_length dc"
  "i \<in> {PCI_FC_TIME_FRAME, PCI_CACK_TIME_FRAME, PCI_ACK_FC_TIME_FRAME,
         PCI_RVOUS_TIME_FRAME} \<Longrightarrow> field_width dc i = frame_length dc"
  by (auto simp: field_width_def pci_offset_step_def VERSION_SIZE_def TYPE_SIZE_def FLAGS_SIZE_def)

lemma pdu_layout_size_rvous:
  "sum_list (map (field_width dc) (pdu_fields PDU_TYPE_RENDEZVOUS)) = pci_off dc PCI_RVOUS_SIZE"
  by (simp add: pdu_fields_def base_fields_def pci_off_rules add.assoc)
    (simp add: field_width_simps)

section \<open>The accessors over a layout\<close>

definition lens_ok :: "dt_cons \<Rightarrow> bool" where
  "lens_ok dc = list_all (\<lambda>n. n \<in> {1, 2, 4})
     [address_length dc, cep_id_length dc, length_length dc, qos_id_length dc, seq_num_length dc,
      ctrl_seq_num_length dc, rate_length dc, frame_length dc]"

definition cfg_ok :: "efcp_config \<Rightarrow> bool" where
  "cfg_ok cfg \<longleftrightarrow> lens_ok (ec_dt_cons cfg) \<and>
     pci_offset_table_create True (ec_dt_cons cfg) = Some (pci_offset_table cfg)"

definition pdu_size :: "dt_cons \<Rightarrow> pdu_type_t \<Rightarrow> nat" where
  "pdu_size dc t = sum_list (map (field_width dc) (pdu_fields t))"

definition fget :: "dt_cons \<Rightarrow> nat \<Rightarrow> u8 list \<Rightarrow> u32" where
  "fget dc i h = rd (pci_off dc i) (field_width dc i) h"

definition fset :: "dt_cons \<Rightarrow> nat \<Rightarrow> u32 \<Rightarrow> u8 list \<Rightarrow> u8 list" where
  "fset dc i v h = wr (pci_off dc i) (field_width dc i) v h"

lemma cfg_ok_nth: "cfg_ok cfg \<Longrightarrow> pci_offset_table cfg ! i = pci_off (ec_dt_cons cfg) i"
  by (simp add: cfg_ok_def pci_offset_table_create_def pci_off_def)

lemma length_fset:
  "i \<in> set (pdu_fields t) \<Longrightarrow> pdu_size dc t \<le> length h \<Longrightarrow> length (fset dc i v h) = length h"
  unfolding fset_def pdu_size_def by (rule pdu_layout.length_set)

lemma fget_fset:
  "i \<in> set (pdu_fields t) \<Longrightarrow> j \<in> set (pdu_fields t) \<Longrightarrow> pdu_size dc t \<le> length h \<Longrightarrow>
     fget dc j (fset dc i v h) =
       (if i = j then take_bit (8 * field_width dc i) v else fget dc j h)"
  unfolding fget_def fset_def pdu_size_def by (rule pdu_layout.get_set)

lemma PCI_GETTER_fget:
  assumes "cfg_ok cfg" "i \<in> set (pdu_fields t)" "n = field_width (ec_dt_cons cfg) i"
    "n \<in> {1, 2, 4}" "pdu_size (ec_dt_cons cfg) t \<le> length h"
  shows "PCI_GETTER cfg i n cast bad h = Done (cast (fget (ec_dt_cons cfg) i h))"
  using assms pdu_layout.inside [of i t "ec_dt_cons cfg" "length h"]
  by (simp add: PCI_GETTER_def load_def cfg_ok_nth fget_def rd_def pdu_size_def)

lemma PCI_SETTER_fset:
  assumes "cfg_ok cfg" "i \<in> set (pdu_fields t)" "n = field_width (ec_dt_cons cfg) i"
    "n \<in> {1, 2, 4}" "pdu_size (ec_dt_cons cfg) t \<le> length h"
  shows "PCI_SETTER cfg i n v h = Done (0, fset (ec_dt_cons cfg) i v h)"
  using assms pdu_layout.inside [of i t "ec_dt_cons cfg" "length h"]
  by (simp add: PCI_SETTER_def store_def cfg_ok_nth fset_def wr_def pdu_size_def)

lemma base_in_pdu_fields:
  "i \<le> PCI_BASE_LEN \<Longrightarrow> i \<in> set (pdu_fields t)"
  by (auto simp: pdu_fields_def base_fields_def)

lemma cfg_ok_lens:
  assumes "cfg_ok cfg"
  shows "address_length (ec_dt_cons cfg) \<in> {1, 2, 4}" "cep_id_length (ec_dt_cons cfg) \<in> {1, 2, 4}"
    "length_length (ec_dt_cons cfg) \<in> {1, 2, 4}" "qos_id_length (ec_dt_cons cfg) \<in> {1, 2, 4}"
    "seq_num_length (ec_dt_cons cfg) \<in> {1, 2, 4}" "ctrl_seq_num_length (ec_dt_cons cfg) \<in> {1, 2, 4}"
    "rate_length (ec_dt_cons cfg) \<in> {1, 2, 4}" "frame_length (ec_dt_cons cfg) \<in> {1, 2, 4}"
  using assms by (simp_all add: cfg_ok_def lens_ok_def)

lemmas width_rules =
  field_width_simps field_width_simps(2) [unfolded One_nat_def] VERSION_SIZE_def TYPE_SIZE_def
  FLAGS_SIZE_def

lemma base_setters:
  assumes "cfg_ok cfg" "pdu_size (ec_dt_cons cfg) t \<le> length h"
  shows "pci_version_set cfg b h = Done (0, fset (ec_dt_cons cfg) PCI_BASE_VERSION (ucast b) h)"
    "pci_cep_source_set cfg c h = Done (0, fset (ec_dt_cons cfg) PCI_BASE_SRC_CEP (word_of_int c) h)"
    "pci_cep_destination_set cfg c h =
       Done (0, fset (ec_dt_cons cfg) PCI_BASE_DST_CEP (word_of_int c) h)"
    "pci_destination_set cfg a h = Done (0, fset (ec_dt_cons cfg) PCI_BASE_DST_ADD a h)"
    "pci_source_set cfg a h = Done (0, fset (ec_dt_cons cfg) PCI_BASE_SRC_ADD a h)"
    "pci_qos_id_set cfg c h = Done (0, fset (ec_dt_cons cfg) PCI_BASE_QOS_ID (word_of_int c) h)"
    "pci_type_set cfg b h = Done (0, fset (ec_dt_cons cfg) PCI_BASE_TYPE (ucast b) h)"
    "pci_flags_set cfg b h = Done (0, fset (ec_dt_cons cfg) PCI_BASE_FLAGS (ucast b) h)"
    "pci_len_set cfg c h = Done (0, fset (ec_dt_cons cfg) PCI_BASE_LEN (word_of_int c) h)"
  unfolding pci_setter_defs
  by (rule PCI_SETTER_fset [OF assms(1) base_in_pdu_fields _ _ assms(2)];
      use cfg_ok_lens [OF assms(1)] in \<open>simp add: width_rules\<close>)+

lemma base_getters:
  assumes "cfg_ok cfg" "pdu_size (ec_dt_cons cfg) t \<le> length h"
  shows "pci_version cfg h = Done (ucast (fget (ec_dt_cons cfg) PCI_BASE_VERSION h))"
    "pci_cep_source cfg h = Done (to_cep_id (fget (ec_dt_cons cfg) PCI_BASE_SRC_CEP h))"
    "pci_cep_destination cfg h = Done (to_cep_id (fget (ec_dt_cons cfg) PCI_BASE_DST_CEP h))"
    "pci_destination cfg h = Done (fget (ec_dt_cons cfg) PCI_BASE_DST_ADD h)"
    "pci_source cfg h = Done (fget (ec_dt_cons cfg) PCI_BASE_SRC_ADD h)"
    "pci_qos_id cfg h = Done (to_qos_id (fget (ec_dt_cons cfg) PCI_BASE_QOS_ID h))"
    "pci_type cfg h = Done (ucast (fget (ec_dt_cons cfg) PCI_BASE_TYPE h))"
    "pci_flags_get cfg h = Done (ucast (fget (ec_dt_cons cfg) PCI_BASE_FLAGS h))"
    "pci_length cfg h = Done (uint (fget (ec_dt_cons cfg) PCI_BASE_LEN h))"
  unfolding pci_getter_defs
  by (rule PCI_GETTER_fget [OF assms(1) base_in_pdu_fields _ _ assms(2)];
      use cfg_ok_lens [OF assms(1)] in \<open>simp add: width_rules\<close>)+

text \<open>
  The sequence number: data and management PDUs keep it in \<open>PCI_DT_MGMT_SN\<close>, control PDUs in
  \<open>PCI_CTRL_SN\<close>, which starts at the same byte. The setter always uses the width of the former.
\<close>

definition sn_field :: "pdu_type_t \<Rightarrow> nat" where
  "sn_field t = (if t \<in> {PDU_TYPE_DT, PDU_TYPE_MGMT} then PCI_DT_MGMT_SN else PCI_CTRL_SN)"

definition sized_type :: "pdu_type_t \<Rightarrow> bool" where
  "sized_type t \<longleftrightarrow> t \<in> {PDU_TYPE_DT, PDU_TYPE_MGMT, PDU_TYPE_FC, PDU_TYPE_ACK,
     PDU_TYPE_ACK_AND_FC, PDU_TYPE_CACK, PDU_TYPE_RENDEZVOUS}"

definition sn_width_ok :: "dt_cons \<Rightarrow> pdu_type_t \<Rightarrow> bool" where
  "sn_width_ok dc t \<longleftrightarrow>
     t \<in> {PDU_TYPE_DT, PDU_TYPE_MGMT} \<or> seq_num_length dc = ctrl_seq_num_length dc"

lemma sn_field_in: "sized_type t \<Longrightarrow> sn_field t \<in> set (pdu_fields t)"
  by (auto simp: sized_type_def sn_field_def pdu_fields_def)

lemma PCI_SETTER_sn:
  "PCI_SETTER cfg PCI_DT_MGMT_SN n v h = PCI_SETTER cfg PCI_CTRL_SN n v h" if "cfg_ok cfg"
  using that by (simp add: PCI_SETTER_def cfg_ok_nth pci_off_ctrl)

lemma sequence_number_set:
  assumes "cfg_ok cfg" "pdu_size (ec_dt_cons cfg) t \<le> length h" "sized_type t"
    "sn_width_ok (ec_dt_cons cfg) t"
  shows "pci_sequence_number_set cfg v h = Done (0, fset (ec_dt_cons cfg) (sn_field t) v h)"
proof -
  have "pci_sequence_number_set cfg v h =
      PCI_SETTER cfg (sn_field t) (seq_num_length (ec_dt_cons cfg)) v h"
    using PCI_SETTER_sn [OF assms(1)] by (simp add: pci_sequence_number_set_def sn_field_def)
  also have "\<dots> = Done (0, fset (ec_dt_cons cfg) (sn_field t) v h)"
    using assms(4) cfg_ok_lens [OF assms(1)]
    by (intro PCI_SETTER_fset [OF assms(1) sn_field_in [OF assms(3)] _ _ assms(2)])
      (auto simp: sn_field_def sn_width_ok_def width_rules)
  finally show ?thesis .
qed

lemma sequence_number_get:
  assumes "cfg_ok cfg" "pdu_size (ec_dt_cons cfg) t \<le> length h" "sized_type t"
    "pci_type cfg h = Done t"
  shows "pci_sequence_number_get cfg h = Done (fget (ec_dt_cons cfg) (sn_field t) h)"
proof -
  have "pci_sequence_number_get cfg h =
      PCI_GETTER cfg (sn_field t) (field_width (ec_dt_cons cfg) (sn_field t)) (\<lambda>v. v) (-1) h"
    using assms(4) by (simp add: pci_sequence_number_get_def sn_field_def width_rules)
  also have "\<dots> = Done (fget (ec_dt_cons cfg) (sn_field t) h)"
    using cfg_ok_lens [OF assms(1)]
    by (intro PCI_GETTER_fget [OF assms(1) sn_field_in [OF assms(3)] _ _ assms(2)])
      (simp_all add: sn_field_def width_rules)
  finally show ?thesis .
qed

section \<open>Formatting and reading back\<close>

definition fits :: "nat \<Rightarrow> int \<Rightarrow> bool" where
  "fits n v \<longleftrightarrow> 0 \<le> v \<and> v < 2 ^ (8 * n)"

lemma take_bit_fits: "fits n (uint v) \<Longrightarrow> take_bit (8 * n) (v :: u32) = v"
  by (simp add: fits_def word_uint_eq_iff unsigned_take_bit_eq take_bit_int_eq_self)

lemma take_bit_of_int_fits: "fits n c \<Longrightarrow> take_bit (8 * n) (word_of_int c :: u32) = word_of_int c"
  by (simp add: fits_def take_bit_of_int take_bit_int_eq_self)

lemma to_cep_id_fits: "fits n c \<Longrightarrow> c < 2 ^ 31 \<Longrightarrow>
    to_cep_id (take_bit (8 * n) (word_of_int c)) = c"
  by (simp add: take_bit_of_int_fits to_cep_id_def)
    (simp add: fits_def signed_of_int signed_take_bit_int_eq_self)

lemma to_qos_id_fits:
  assumes "fits n c" "c < 2 ^ 15"
  shows "to_qos_id (take_bit (8 * n) (word_of_int c)) = c"
proof -
  have "(ucast (word_of_int c :: u32) :: 16 word) = word_of_int c"
    by (rule bit_word_eqI) (auto simp: bit_simps)
  with assms show ?thesis
    by (simp add: take_bit_of_int_fits to_qos_id_def)
      (simp add: fits_def signed_of_int signed_take_bit_int_eq_self)
qed

lemma uint_fits: "fits n c \<Longrightarrow> c < 2 ^ 32 \<Longrightarrow> uint (take_bit (8 * n) (word_of_int c :: u32)) = c"
  by (simp add: take_bit_of_int_fits)
    (simp add: fits_def unsigned_of_int take_bit_int_eq_self)

lemma ucast_byte: "ucast (take_bit 8 (ucast (b :: u8) :: u32)) = b"
  by (rule bit_word_eqI) (auto simp: bit_simps)

definition pdu_args_fit ::
    "dt_cons \<Rightarrow> cep_id_t \<Rightarrow> cep_id_t \<Rightarrow> address_t \<Rightarrow> address_t \<Rightarrow> seq_num_t \<Rightarrow> qos_id_t \<Rightarrow> int \<Rightarrow> bool" where
  "pdu_args_fit dc src_cep dst_cep src dst sn qos len \<longleftrightarrow>
     fits (cep_id_length dc) src_cep \<and> src_cep < 2 ^ 31 \<and>
     fits (cep_id_length dc) dst_cep \<and> dst_cep < 2 ^ 31 \<and>
     fits (address_length dc) (uint src) \<and> fits (address_length dc) (uint dst) \<and>
     fits (seq_num_length dc) (uint sn) \<and> fits (qos_id_length dc) qos \<and> qos < 2 ^ 15 \<and>
     fits (length_length dc) len \<and> len < 2 ^ 32"

lemma pci_format_fset:
  assumes "cfg_ok cfg" "pdu_size (ec_dt_cons cfg) t \<le> length h" "sized_type t"
    "sn_width_ok (ec_dt_cons cfg) t"
  shows "pci_format cfg sc dc sa da sn q fl len t h =
    Done (0, (fset (ec_dt_cons cfg) PCI_BASE_LEN (word_of_int len) \<circ>
      fset (ec_dt_cons cfg) PCI_BASE_FLAGS (ucast fl) \<circ>
      fset (ec_dt_cons cfg) PCI_BASE_QOS_ID (word_of_int q) \<circ>
      fset (ec_dt_cons cfg) (sn_field t) sn \<circ>
      fset (ec_dt_cons cfg) PCI_BASE_SRC_ADD sa \<circ>
      fset (ec_dt_cons cfg) PCI_BASE_DST_ADD da \<circ>
      fset (ec_dt_cons cfg) PCI_BASE_SRC_CEP (word_of_int sc) \<circ>
      fset (ec_dt_cons cfg) PCI_BASE_DST_CEP (word_of_int dc) \<circ>
      fset (ec_dt_cons cfg) PCI_BASE_TYPE (ucast t) \<circ>
      fset (ec_dt_cons cfg) PCI_BASE_VERSION (ucast VERSION)) h)"
  using assms
  by (simp add: pci_format_def base_setters [of _ t] sequence_number_set [of _ t]
      length_fset [of _ t] base_in_pdu_fields sn_field_in)

lemma sn_field_not_base: "i \<le> PCI_BASE_LEN \<Longrightarrow> sn_field t \<noteq> i"
  by (simp add: sn_field_def)

lemma sn_field_width:
  "sn_width_ok dc t \<Longrightarrow> field_width dc (sn_field t) = seq_num_length dc"
  by (auto simp: sn_width_ok_def sn_field_def width_rules)

lemma pci_format_fields:
  assumes "cfg_ok cfg" and len: "pdu_size (ec_dt_cons cfg) t \<le> length h"
    and "sized_type t" "sn_width_ok (ec_dt_cons cfg) t"
  shows "\<exists>h'. pci_format cfg sc dc sa da sn q fl ln t h = Done (0, h') \<and> length h' = length h \<and>
     fget (ec_dt_cons cfg) PCI_BASE_VERSION h' = take_bit 8 (ucast VERSION) \<and>
     fget (ec_dt_cons cfg) PCI_BASE_TYPE h' = take_bit 8 (ucast t) \<and>
     fget (ec_dt_cons cfg) PCI_BASE_SRC_CEP h' =
       take_bit (8 * cep_id_length (ec_dt_cons cfg)) (word_of_int sc) \<and>
     fget (ec_dt_cons cfg) PCI_BASE_DST_CEP h' =
       take_bit (8 * cep_id_length (ec_dt_cons cfg)) (word_of_int dc) \<and>
     fget (ec_dt_cons cfg) PCI_BASE_SRC_ADD h' = take_bit (8 * address_length (ec_dt_cons cfg)) sa \<and>
     fget (ec_dt_cons cfg) PCI_BASE_DST_ADD h' = take_bit (8 * address_length (ec_dt_cons cfg)) da \<and>
     fget (ec_dt_cons cfg) (sn_field t) h' = take_bit (8 * seq_num_length (ec_dt_cons cfg)) sn \<and>
     fget (ec_dt_cons cfg) PCI_BASE_QOS_ID h' =
       take_bit (8 * qos_id_length (ec_dt_cons cfg)) (word_of_int q) \<and>
     fget (ec_dt_cons cfg) PCI_BASE_FLAGS h' = take_bit 8 (ucast fl) \<and>
     fget (ec_dt_cons cfg) PCI_BASE_LEN h' =
       take_bit (8 * length_length (ec_dt_cons cfg)) (word_of_int ln)"
  using len sn_field_not_base [of _ t]
  by (simp add: pci_format_fset [OF assms] fget_fset [of _ t] length_fset [of _ t]
      base_in_pdu_fields sn_field_in [OF assms(3)] sn_field_not_base
      sn_field_not_base [symmetric] sn_field_width [OF assms(4)] width_rules)

lemma pci_calculate_size_pdu_size:
  assumes "cfg_ok cfg" "sized_type t"
  shows "pci_calculate_size cfg t = int (pdu_size (ec_dt_cons cfg) t)"
  using assms
  by (auto simp: sized_type_def pci_calculate_size_def cfg_ok_nth pdu_size_def pdu_layout_size
      pdu_layout_size_rvous)

lemma pci_format_reads_all:
  assumes "cfg_ok cfg" "sized_type t" "sn_width_ok (ec_dt_cons cfg) t"
    and size: "pdu_size (ec_dt_cons cfg) t \<le> length h"
    and fit: "pdu_args_fit (ec_dt_cons cfg) src_cep dst_cep src dst sn qos len"
  shows "\<exists>h'. pci_format cfg src_cep dst_cep src dst sn qos flags len t h = Done (0, h') \<and>
     length h' = length h \<and> pci_version cfg h' = Done VERSION \<and> pci_type cfg h' = Done t \<and>
     pci_cep_source cfg h' = Done src_cep \<and> pci_cep_destination cfg h' = Done dst_cep \<and>
     pci_source cfg h' = Done src \<and> pci_destination cfg h' = Done dst \<and>
     pci_sequence_number_get cfg h' = Done sn \<and> pci_qos_id cfg h' = Done qos \<and>
     pci_flags_get cfg h' = Done flags \<and> pci_length cfg h' = Done len"
proof -
  let ?dc = "ec_dt_cons cfg"
  note len = size
  obtain h' where f: "pci_format cfg src_cep dst_cep src dst sn qos flags len t h = Done (0, h')"
    and h': "length h' = length h" "fget ?dc PCI_BASE_VERSION h' = take_bit 8 (ucast VERSION)"
      "fget ?dc PCI_BASE_TYPE h' = take_bit 8 (ucast t)"
      "fget ?dc PCI_BASE_SRC_CEP h' = take_bit (8 * cep_id_length ?dc) (word_of_int src_cep)"
      "fget ?dc PCI_BASE_DST_CEP h' = take_bit (8 * cep_id_length ?dc) (word_of_int dst_cep)"
      "fget ?dc PCI_BASE_SRC_ADD h' = take_bit (8 * address_length ?dc) src"
      "fget ?dc PCI_BASE_DST_ADD h' = take_bit (8 * address_length ?dc) dst"
      "fget ?dc (sn_field t) h' = take_bit (8 * seq_num_length ?dc) sn"
      "fget ?dc PCI_BASE_QOS_ID h' = take_bit (8 * qos_id_length ?dc) (word_of_int qos)"
      "fget ?dc PCI_BASE_FLAGS h' = take_bit 8 (ucast flags)"
      "fget ?dc PCI_BASE_LEN h' = take_bit (8 * length_length ?dc) (word_of_int len)"
    using pci_format_fields [OF assms(1) len assms(2,3)] by blast
  have t: "pci_type cfg h' = Done t"
    using h' len by (simp add: base_getters [OF assms(1), of t] ucast_byte)
  moreover have "pci_sequence_number_get cfg h' = Done sn"
    using h' len fit sequence_number_get [OF assms(1) _ assms(2) t]
    by (simp add: pdu_args_fit_def take_bit_fits)
  ultimately show ?thesis
    using f h' len fit
    by (simp add: base_getters [OF assms(1), of t] ucast_byte pdu_args_fit_def take_bit_fits
        to_cep_id_fits to_qos_id_fits uint_fits)
qed

lemma pci_format_reads:
  assumes "cfg_ok cfg" "sized_type t" "sn_width_ok (ec_dt_cons cfg) t"
    and "pdu_size (ec_dt_cons cfg) t \<le> length h"
    and "pdu_args_fit (ec_dt_cons cfg) src_cep dst_cep src dst sn qos len"
    and "pci_format cfg src_cep dst_cep src dst sn qos flags len t h = Done (0, h')"
  shows "length h' = length h" "pci_type cfg h' = Done t" "pci_length cfg h' = Done len"
  using pci_format_reads_all [OF assms(1-5), of flags] assms(6) by auto

section \<open>The control accessors\<close>

datatype ctrl_field = AckSeq | NewRt | NewLeft | MyRt | MyLeft | LastCsn | SndrRate | TimeFrame

fun ctrl_get :: "ctrl_field \<Rightarrow> efcp_config \<Rightarrow> u8 list \<Rightarrow> u32 outcome" where
  "ctrl_get AckSeq = pci_control_ack_seq_num"
| "ctrl_get NewRt = pci_control_new_rt_wind_edge"
| "ctrl_get NewLeft = pci_control_new_left_wind_edge"
| "ctrl_get MyRt = pci_control_my_rt_wind_edge"
| "ctrl_get MyLeft = pci_control_my_left_wind_edge"
| "ctrl_get LastCsn = pci_control_last_seq_num_rcvd"
| "ctrl_get SndrRate = pci_control_sndr_rate"
| "ctrl_get TimeFrame = pci_control_time_frame"

fun ctrl_set :: "ctrl_field \<Rightarrow> efcp_config \<Rightarrow> u32 \<Rightarrow> u8 list \<Rightarrow> (rc \<times> u8 list) outcome" where
  "ctrl_set AckSeq = pci_control_ack_seq_num_set"
| "ctrl_set NewRt = pci_control_new_rt_wind_edge_set"
| "ctrl_set NewLeft = pci_control_new_left_wind_edge_set"
| "ctrl_set MyRt = pci_control_my_rt_wind_edge_set"
| "ctrl_set MyLeft = pci_control_my_left_wind_edge_set"
| "ctrl_set LastCsn = pci_control_last_seq_num_rcvd_set"
| "ctrl_set SndrRate = pci_control_sndr_rate_set"
| "ctrl_set TimeFrame = pci_control_time_frame_set"

fun ctrl_width :: "dt_cons \<Rightarrow> ctrl_field \<Rightarrow> nat" where
  "ctrl_width dc SndrRate = rate_length dc"
| "ctrl_width dc TimeFrame = frame_length dc"
| "ctrl_width dc _ = seq_num_length dc"

text \<open>Where a PDU of type \<open>t\<close> keeps the field, if it has it.\<close>

definition ctrl_index :: "pdu_type_t \<Rightarrow> ctrl_field \<Rightarrow> nat option" where
  "ctrl_index t f =
     (if t = PDU_TYPE_ACK then (if f = AckSeq then Some PCI_ACK_ACKED_SN else None)
      else if t = PDU_TYPE_FC then
        (case f of NewRt \<Rightarrow> Some PCI_FC_NEW_RWE | MyLeft \<Rightarrow> Some PCI_FC_MY_LWE
         | MyRt \<Rightarrow> Some PCI_FC_MY_RWE | SndrRate \<Rightarrow> Some PCI_FC_SNDR_RATE
         | TimeFrame \<Rightarrow> Some PCI_FC_TIME_FRAME | _ \<Rightarrow> None)
      else if t = PDU_TYPE_ACK_AND_FC then
        (case f of AckSeq \<Rightarrow> Some PCI_ACK_FC_ACKED_SN | LastCsn \<Rightarrow> Some PCI_ACK_FC_LAST_CSN_RCVD
         | NewLeft \<Rightarrow> Some PCI_ACK_FC_NEW_LWE | NewRt \<Rightarrow> Some PCI_ACK_FC_NEW_RWE
         | MyLeft \<Rightarrow> Some PCI_ACK_FC_MY_LWE | MyRt \<Rightarrow> Some PCI_ACK_FC_MY_RWE
         | SndrRate \<Rightarrow> Some PCI_ACK_FC_SNDR_RATE | TimeFrame \<Rightarrow> Some PCI_ACK_FC_TIME_FRAME)
      else if t \<in> {PDU_TYPE_CACK, PDU_TYPE_RENDEZVOUS} then
        (case f of AckSeq \<Rightarrow> None | LastCsn \<Rightarrow> Some PCI_CACK_LAST_CSN_RCVD
         | NewLeft \<Rightarrow> Some PCI_CACK_NEW_LWE | NewRt \<Rightarrow> Some PCI_CACK_NEW_RWE
         | MyLeft \<Rightarrow> Some PCI_CACK_MY_LWE | MyRt \<Rightarrow> Some PCI_CACK_MY_RWE
         | SndrRate \<Rightarrow> Some PCI_CACK_SNDR_RATE
         | TimeFrame \<Rightarrow> if t = PDU_TYPE_CACK then Some PCI_CACK_TIME_FRAME else None)
      else None)"

lemma ctrl_index_field:
  "ctrl_index t f = Some i \<Longrightarrow> i \<in> set (pdu_fields t) \<and> PCI_CTRL_SN < i"
  by (auto simp: ctrl_index_def pdu_fields_def split: if_splits ctrl_field.splits)

lemma ctrl_index_width:
  "ctrl_index t f = Some i \<Longrightarrow> seq_num_length dc = ctrl_seq_num_length dc \<Longrightarrow>
     field_width dc i = ctrl_width dc f"
  by (auto simp: ctrl_index_def field_width_simps split: if_splits ctrl_field.splits)

lemma ctrl_index_inj:
  "ctrl_index t f = Some i \<Longrightarrow> ctrl_index t g = Some i \<Longrightarrow> f = g"
  by (auto simp: ctrl_index_def split: if_splits ctrl_field.splits)

lemma ctrl_set_index:
  assumes "pci_type cfg h = Done t"
  shows "ctrl_set f cfg v h =
    (case ctrl_index t f of
       None \<Rightarrow> Done (-1, h)
     | Some i \<Rightarrow> PCI_SETTER cfg i (ctrl_width (ec_dt_cons cfg) f) v h)"
  using assms
  by (cases f) (simp_all add: ctrl_index_def pci_control_setter_defs)

lemma ctrl_get_index:
  assumes "pci_type cfg h = Done t"
  shows "ctrl_get f cfg h =
    (case ctrl_index t f of
       None \<Rightarrow> Done (if f \<in> {SndrRate, TimeFrame} then 0 else -1)
     | Some i \<Rightarrow> PCI_GETTER cfg i (ctrl_width (ec_dt_cons cfg) f) (\<lambda>v. v) (-1) h)"
  using assms
  by (cases f) (simp_all add: ctrl_index_def pci_control_getter_defs)

lemma ctrl_width_ok: "cfg_ok cfg \<Longrightarrow> ctrl_width (ec_dt_cons cfg) f \<in> {1, 2, 4}"
  using cfg_ok_lens [of cfg] by (cases f) simp_all

section \<open>Properties\<close>

text \<open>The configuration that \<^verbatim>\<open>efcp_container_config_set\<close> builds from data transfer constants.\<close>

definition cfg_of :: "dt_cons \<Rightarrow> efcp_config" where
  "cfg_of dc = \<lparr>ec_dt_cons = dc, pci_offset_table = the (pci_offset_table_create True dc)\<rparr>"

definition sample_dt_cons :: dt_cons where
  "sample_dt_cons = \<lparr>address_length = 2, cep_id_length = 2, length_length = 2, qos_id_length = 2,
     seq_num_length = 4, ctrl_seq_num_length = 4, max_pdu_size = 1400, rate_length = 4,
     frame_length = 4\<rparr>"

lemma cfg_of_ok: "lens_ok dc \<Longrightarrow> cfg_ok (cfg_of dc) \<and> ec_dt_cons (cfg_of dc) = dc"
  by (simp add: cfg_ok_def cfg_of_def pci_offset_table_create_def)

lemma sample_cfg: "cfg_ok (cfg_of sample_dt_cons)" "ec_dt_cons (cfg_of sample_dt_cons) = sample_dt_cons"
  using cfg_of_ok [of sample_dt_cons] by (simp_all add: lens_ok_def sample_dt_cons_def)

lemma sample_lens:
  "address_length sample_dt_cons = 2" "cep_id_length sample_dt_cons = 2"
  "length_length sample_dt_cons = 2" "qos_id_length sample_dt_cons = 2"
  "seq_num_length sample_dt_cons = 4" "ctrl_seq_num_length sample_dt_cons = 4"
  by (simp_all add: sample_dt_cons_def)

text \<open>
  C5. Format and read back: for a configuration whose field lengths are 1, 2 or 4 bytes, a header
  of at least the size \<^verbatim>\<open>pci_calculate_size\<close> gives for the type, and arguments that fit their
  fields, \<^verbatim>\<open>pci_format\<close> succeeds within the header and every getter answers the value it was
  given. For control PDUs this needs the two sequence number lengths to be equal.
\<close>

theorem pci_format_roundtrip:
  assumes "cfg_ok cfg" "sized_type t" "sn_width_ok (ec_dt_cons cfg) t"
    and size: "pci_calculate_size cfg t \<le> int (length h)"
    and fit: "pdu_args_fit (ec_dt_cons cfg) src_cep dst_cep src dst sn qos len"
  shows "\<exists>h'. pci_format cfg src_cep dst_cep src dst sn qos flags len t h = Done (0, h') \<and>
     length h' = length h \<and> pci_version cfg h' = Done VERSION \<and> pci_type cfg h' = Done t \<and>
     pci_cep_source cfg h' = Done src_cep \<and> pci_cep_destination cfg h' = Done dst_cep \<and>
     pci_source cfg h' = Done src \<and> pci_destination cfg h' = Done dst \<and>
     pci_sequence_number_get cfg h' = Done sn \<and> pci_qos_id cfg h' = Done qos \<and>
     pci_flags_get cfg h' = Done flags \<and> pci_length cfg h' = Done len"
  using assms pci_format_reads_all [OF assms(1-3) _ fit, of h flags]
  by (simp add: pci_calculate_size_pdu_size)

theorem pci_format_roundtrip_witness:
  "\<exists>h'. pci_format (cfg_of sample_dt_cons) 1 2 22 23 2533 1 PDU_FLAGS_DATA_RUN 40 PDU_TYPE_MGMT
          (replicate 40 0) = Done (0, h') \<and>
     length h' = length (replicate 40 (0 :: u8)) \<and> pci_version (cfg_of sample_dt_cons) h' = Done VERSION \<and>
     pci_type (cfg_of sample_dt_cons) h' = Done PDU_TYPE_MGMT \<and>
     pci_cep_source (cfg_of sample_dt_cons) h' = Done 1 \<and>
     pci_cep_destination (cfg_of sample_dt_cons) h' = Done 2 \<and>
     pci_source (cfg_of sample_dt_cons) h' = Done 22 \<and>
     pci_destination (cfg_of sample_dt_cons) h' = Done 23 \<and>
     pci_sequence_number_get (cfg_of sample_dt_cons) h' = Done 2533 \<and>
     pci_qos_id (cfg_of sample_dt_cons) h' = Done 1 \<and>
     pci_flags_get (cfg_of sample_dt_cons) h' = Done PDU_FLAGS_DATA_RUN \<and>
     pci_length (cfg_of sample_dt_cons) h' = Done 40"
proof (rule pci_format_roundtrip [OF sample_cfg(1)])
  show "sized_type PDU_TYPE_MGMT" by (simp add: sized_type_def)
  show "sn_width_ok (ec_dt_cons (cfg_of sample_dt_cons)) PDU_TYPE_MGMT" by (simp add: sn_width_ok_def)
  show "pci_calculate_size (cfg_of sample_dt_cons) PDU_TYPE_MGMT \<le> int (length (replicate 40 (0 :: u8)))"
    by code_simp
  show "pdu_args_fit (ec_dt_cons (cfg_of sample_dt_cons)) 1 2 22 23 2533 1 40"
    by (simp add: sample_cfg pdu_args_fit_def fits_def sample_lens)
qed

text \<open>
  Control fields: on a control PDU, setting one of the control fields its type has, with equal
  sequence number lengths, makes the getter of that field answer the value (at the width of the
  field) and leaves every other control field, the PDU type, the sequence number and the
  destination as they were.
\<close>

lemma pci_control_get_set:
  assumes "cfg_ok cfg" "sized_type t"
    and w: "seq_num_length (ec_dt_cons cfg) = ctrl_seq_num_length (ec_dt_cons cfg)"
    and size: "pci_calculate_size cfg t \<le> int (length h)"
    and t: "pci_type cfg h = Done t"
    and set: "ctrl_set f cfg v h = Done (0, h')"
  shows "length h' = length h \<and> pci_type cfg h' = Done t \<and>
     pci_sequence_number_get cfg h' = pci_sequence_number_get cfg h \<and>
     pci_cep_destination cfg h' = pci_cep_destination cfg h \<and>
     pci_destination cfg h' = pci_destination cfg h \<and>
     ctrl_get f cfg h' = Done (take_bit (8 * ctrl_width (ec_dt_cons cfg) f) v) \<and>
     (\<forall>g. g \<noteq> f \<longrightarrow> ctrl_get g cfg h' = ctrl_get g cfg h)"
proof -
  let ?dc = "ec_dt_cons cfg"
  from size assms(1,2) have len: "pdu_size ?dc t \<le> length h"
    by (simp add: pci_calculate_size_pdu_size)
  from set ctrl_set_index [OF t] obtain i where i: "ctrl_index t f = Some i"
    and s: "PCI_SETTER cfg i (ctrl_width ?dc f) v h = Done (0, h')"
    by (auto split: option.splits)
  note fi = ctrl_index_field [OF i] ctrl_index_width [OF i w]
  have h': "h' = fset ?dc i v h"
    using s PCI_SETTER_fset [OF assms(1) _ _ ctrl_width_ok [OF assms(1)] len, of i f v] fi by simp
  have len': "length h' = length h" using fi len by (simp add: h' length_fset [of _ t])
  have get: "fget ?dc j h' = (if i = j then take_bit (8 * ctrl_width ?dc f) v else fget ?dc j h)"
    if "j \<in> set (pdu_fields t)" for j
    using fget_fset [of i t j ?dc h v] that fi len by (auto simp: h')
  note l' = len [folded len'] and base = base_getters [OF assms(1)]
  have t': "pci_type cfg h' = Done t"
    using t base(7) [OF l'] base(7) [OF len] get [of PCI_BASE_TYPE] fi
    by (simp add: base_in_pdu_fields)
  have "ctrl_get g cfg h' = ctrl_get g cfg h" if "g \<noteq> f" for g
  proof (cases "ctrl_index t g")
    case (Some j)
    note gj = ctrl_index_field [OF Some] ctrl_index_width [OF Some w]
    have "i \<noteq> j" using ctrl_index_inj [OF i] Some that by blast
    then show ?thesis
      using Some gj get [of j] t t' len l' ctrl_width_ok [OF assms(1), of g]
      by (simp add: ctrl_get_index PCI_GETTER_fget [OF assms(1), of _ t])
  qed (use t t' in \<open>simp add: ctrl_get_index\<close>)
  moreover have "ctrl_get f cfg h' = Done (take_bit (8 * ctrl_width ?dc f) v)"
    using i fi get [of i] t' l' ctrl_width_ok [OF assms(1), of f]
    by (simp add: ctrl_get_index PCI_GETTER_fget [OF assms(1), of _ t])
  moreover have "pci_sequence_number_get cfg h' = pci_sequence_number_get cfg h"
    using sequence_number_get [OF assms(1) _ assms(2)] t t' len l' get [OF sn_field_in [OF assms(2)]]
      fi by (simp add: sn_field_def)
  ultimately show ?thesis
    using len' t' base(3,4) [OF l'] base(3,4) [OF len] get [of PCI_BASE_DST_CEP]
      get [of PCI_BASE_DST_ADD] fi by (simp add: base_in_pdu_fields)
qed

section \<open>Where the code goes wrong\<close>

text \<open>
  The accessors of the last control sequence number use \<open>seq_num_length\<close>, the offset table
  reserves \<open>ctrl_seq_num_length\<close>: with the former larger, setting it overwrites the left window
  edge behind it.
\<close>

lemma last_seq_num_overwrites_new_lwe:
  fixes dc h
  defines "dc \<equiv> sample_dt_cons\<lparr>ctrl_seq_num_length := 2\<rparr>"
  defines "h \<equiv> (replicate 60 0)[11 := PDU_TYPE_CACK] :: u8 list"
  shows "pci_control_new_left_wind_edge (cfg_of dc) h = Done 0 \<and>
    map_outcome (\<lambda>(c, h'). pci_control_new_left_wind_edge (cfg_of dc) h')
      (pci_control_last_seq_num_rcvd_set (cfg_of dc) 0x12345678 h) = Done (Done 0x1234)"
  unfolding dc_def h_def by code_simp

text \<open>The time frame of a rendezvous PDU can be neither set nor read.\<close>

lemma rendezvous_has_no_time_frame:
  "pci_type cfg h = Done PDU_TYPE_RENDEZVOUS \<Longrightarrow>
     pci_control_time_frame_set cfg v h = Done (-1, h) \<and> pci_control_time_frame cfg h = Done 0"
  by (simp add: pci_control_time_frame_set_def pci_control_time_frame_def)

end
