(* ===== verification/Du.thy ===== *)
theory Du
  imports Pci
begin

text \<open>
  Data units (\<^verbatim>\<open>kernel/du.c\<close>, \<^verbatim>\<open>kernel/du.h\<close>): a socket buffer with the position of the protocol
  control information in it, the operations that grow and shrink it at both ends, encapsulation
  and decapsulation, and lists of data units.

  A socket buffer is its whole linear memory with the position and the length of the data in it.
  The kernel functions on socket buffers that the code uses are modelled by their documented
  behaviour: \<^verbatim>\<open>skb_push\<close> and \<^verbatim>\<open>skb_put\<close> panic beyond the head and the tail room (\<open>Fault\<close>),
  \<^verbatim>\<open>skb_pull\<close> gives NULL on a buffer that is too short, \<^verbatim>\<open>pskb_expand_head\<close> moves the data to a
  larger buffer and must not be used on a shared one. Fresh memory has the unspecified contents
  \<open>mem\<close>. A pointer into the buffer (\<^verbatim>\<open>pci.h\<close>) is a position in it.
\<close>

section \<open>Socket buffers\<close>

record skb =
  sk_buf :: "u8 list"
  sk_data :: nat
  sk_len :: nat
  sk_users :: nat

type_synonym fresh_mem = "nat \<Rightarrow> u8"

definition skb_headroom :: "skb \<Rightarrow> nat" where
  "skb_headroom s = sk_data s"

definition skb_tailroom :: "skb \<Rightarrow> nat" where
  "skb_tailroom s = length (sk_buf s) - (sk_data s + sk_len s)"

definition alloc_skb :: "fresh_mem \<Rightarrow> nat \<Rightarrow> skb" where
  "alloc_skb mem n = \<lparr>sk_buf = map mem [0..<n], sk_data = 0, sk_len = 0, sk_users = 1\<rparr>"

definition skb_reserve :: "nat \<Rightarrow> skb \<Rightarrow> skb" where
  "skb_reserve n s = s\<lparr>sk_data := sk_data s + n\<rparr>"

definition skb_put :: "nat \<Rightarrow> skb \<Rightarrow> skb outcome" where
  "skb_put n s = (if n \<le> skb_tailroom s then Done (s\<lparr>sk_len := sk_len s + n\<rparr>) else Fault)"

definition skb_push :: "nat \<Rightarrow> skb \<Rightarrow> skb outcome" where
  "skb_push n s =
     (if n \<le> skb_headroom s then Done (s\<lparr>sk_data := sk_data s - n, sk_len := sk_len s + n\<rparr>)
      else Fault)"

definition skb_pull :: "nat \<Rightarrow> skb \<Rightarrow> nat ptr \<times> skb" where
  "skb_pull n s =
     (if sk_len s < n then (None, s)
      else (Some (sk_data s + n), s\<lparr>sk_data := sk_data s + n, sk_len := sk_len s - n\<rparr>))"

definition skb_trim :: "nat \<Rightarrow> skb \<Rightarrow> skb" where
  "skb_trim n s = (if n < sk_len s then s\<lparr>sk_len := n\<rparr> else s)"

definition pskb_expand_head :: "bool \<Rightarrow> fresh_mem \<Rightarrow> nat \<Rightarrow> nat \<Rightarrow> skb \<Rightarrow> (rc \<times> skb) outcome" where
  "pskb_expand_head ok mem nhead ntail s =
     (if sk_users s \<noteq> 1 then Fault
      else if \<not> ok then Done (-12, s)
      else Done (0, s\<lparr>sk_buf := map mem [0..<nhead] @ sk_buf s @ map mem [0..<ntail],
                      sk_data := sk_data s + nhead\<rparr>))"

definition skb_bytes :: "skb \<Rightarrow> u8 list" where
  "skb_bytes s = take (sk_len s) (drop (sk_data s) (sk_buf s))"

definition skb_ok :: "skb \<Rightarrow> bool" where
  "skb_ok s \<longleftrightarrow> sk_data s + sk_len s \<le> length (sk_buf s) \<and> 0 < sk_users s"

section \<open>Data units\<close>

record du =
  du_cfg :: "efcp_config ptr"
  du_pci_h :: "nat ptr"
  du_pci_len :: nat
  du_skb :: "skb ptr"

definition MAX_PCIS_LEN :: nat where "MAX_PCIS_LEN = 40 * 5"
definition MAX_TAIL_LEN :: nat where "MAX_TAIL_LEN = 20"

text \<open>A use of \<^verbatim>\<open>du->skb\<close> without a check for NULL.\<close>

definition with_skb :: "du \<Rightarrow> (skb \<Rightarrow> 'a outcome) \<Rightarrow> 'a outcome" where
  "with_skb d f = (case du_skb d of None \<Rightarrow> Fault | Some s \<Rightarrow> f s)"

text \<open>\<^verbatim>\<open>kfree_skb\<close> gives back one reference; the unit itself goes with the last one.\<close>

definition du_destroy :: "du \<Rightarrow> rc \<times> du ptr" where
  "du_destroy d =
     (case du_skb d of
        Some s \<Rightarrow> (0, if sk_users s = 1 then None else Some (d\<lparr>du_skb := Some (s\<lparr>sk_users := sk_users s - 1\<rparr>)\<rparr>))
      | None \<Rightarrow> (0, None))"

definition is_du_ok :: "du ptr \<Rightarrow> bool" where
  "is_du_ok q = (case q of None \<Rightarrow> False | Some d \<Rightarrow> du_skb d \<noteq> None)"

definition du_detach_skb :: "du \<Rightarrow> skb ptr \<times> du" where
  "du_detach_skb d = (du_skb d, d\<lparr>du_skb := None\<rparr>)"

definition du_attach_skb :: "du \<Rightarrow> skb \<Rightarrow> du" where
  "du_attach_skb d s = d\<lparr>du_skb := Some s\<rparr>"

text \<open>The two allocations: the unit and its socket buffer.\<close>

definition du_create :: "allocs \<Rightarrow> fresh_mem \<Rightarrow> nat \<Rightarrow> (du ptr \<times> allocs) outcome" where
  "du_create ms mem data_len =
     (case rkmalloc_n 2 ms of
        (False, ms') \<Rightarrow> Done (None, ms')
      | (True, ms') \<Rightarrow>
          obind (skb_put data_len
                   (skb_reserve MAX_PCIS_LEN (alloc_skb mem (MAX_PCIS_LEN + data_len + MAX_TAIL_LEN))))
            (\<lambda>s. Done (Some \<lparr>du_cfg = None, du_pci_h = None, du_pci_len = 0, du_skb = Some s\<rparr>, ms')))"

definition du_buffer :: "du \<Rightarrow> nat outcome" where
  "du_buffer d = with_skb d (\<lambda>s. Done (sk_data s))"

definition du_len :: "du \<Rightarrow> nat outcome" where
  "du_len d = with_skb d (\<lambda>s. Done (sk_len s))"

definition du_consume_data :: "nat \<Rightarrow> du \<Rightarrow> du outcome" where
  "du_consume_data n d = with_skb d (\<lambda>s. Done (d\<lparr>du_skb := Some (snd (skb_pull n s))\<rparr>))"

text \<open>The bytes the accessors of the control information work on start at \<^verbatim>\<open>pci.h\<close>.\<close>

definition du_encap :: "du \<Rightarrow> pdu_type_t \<Rightarrow> (rc \<times> du) outcome" where
  "du_encap d type =
     (case du_cfg d of
        None \<Rightarrow> Fault
      | Some cfg \<Rightarrow>
          (let n = pci_calculate_size cfg type
           in if n > 0
              then with_skb d (\<lambda>s. obind (skb_push (nat n) s) (\<lambda>s'.
                     Done (0, d\<lparr>du_skb := Some s', du_pci_h := Some (sk_data s'),
                               du_pci_len := nat n\<rparr>)))
              else Done (-1, d)))"

text \<open>The length of a trimmed buffer is computed at \<^verbatim>\<open>unsigned int\<close>.\<close>

definition trim_by :: "int \<Rightarrow> skb \<Rightarrow> skb" where
  "trim_by n s = skb_trim (nat ((int (sk_len s) - n) mod 2 ^ 32)) s"

definition du_tail_shrink :: "int \<Rightarrow> du \<Rightarrow> (rc \<times> du) outcome" where
  "du_tail_shrink n d = with_skb d (\<lambda>s. Done (0, d\<lparr>du_skb := Some (trim_by n s)\<rparr>))"

definition du_decap :: "du \<Rightarrow> (rc \<times> du) outcome" where
  "du_decap d0 =
     with_skb d0 (\<lambda>s. case du_cfg d0 of
        None \<Rightarrow> Fault
      | Some cfg \<Rightarrow>
          (let d = d0\<lparr>du_pci_h := Some (sk_data s)\<rparr>;
               h = drop (sk_data s) (sk_buf s)
           in obind (pci_type cfg h) (\<lambda>type.
              if \<not> pdu_type_is_ok type then Done (-1, d)
              else let n = pci_calculate_size cfg type
                   in if n \<le> 0 then Done (-1, d)
                      else obind (pci_length cfg h) (\<lambda>plen.
                        let s' = (if int (sk_len s) > plen then trim_by (int (sk_len s) - plen) s else s)
                        in Done (0, d\<lparr>du_skb := Some (snd (skb_pull (nat n) s')),
                                      du_pci_len := nat n\<rparr>)))))"

definition du_dup :: "allocs \<Rightarrow> du \<Rightarrow> (du ptr \<times> allocs) outcome" where
  "du_dup ms d =
     (case rkmalloc ms of
        (False, ms1) \<Rightarrow> Done (None, ms1)
      | (True, ms1) \<Rightarrow>
          with_skb d (\<lambda>s. case rkmalloc ms1 of
             (False, ms2) \<Rightarrow> Done (None, ms2)
           | (True, ms2) \<Rightarrow> Done (Some (d\<lparr>du_skb := Some (s\<lparr>sk_users := 1\<rparr>)\<rparr>), ms2)))"

definition du_data_len :: "du \<Rightarrow> int outcome" where
  "du_data_len d = with_skb d (\<lambda>s.
     if du_pci_h d \<noteq> Some (sk_data s) then Done (int (sk_len s))
     else Done (int (sk_len s) - int (du_pci_len d)))"

definition du_create_from_skb :: "bool \<Rightarrow> skb ptr \<Rightarrow> du ptr" where
  "du_create_from_skb ok q =
     (case q of
        None \<Rightarrow> None
      | Some s \<Rightarrow>
          (if ok then Some \<lparr>du_cfg = None, du_pci_h = None, du_pci_len = 0, du_skb = Some s\<rparr>
           else None))"

definition du_tail_grow :: "bool \<Rightarrow> fresh_mem \<Rightarrow> nat \<Rightarrow> du \<Rightarrow> (rc \<times> du) outcome" where
  "du_tail_grow ok mem n d =
     with_skb d (\<lambda>s.
       if skb_tailroom s < n
       then obind (pskb_expand_head ok mem 0 n s) (\<lambda>(c, s1).
              if c \<noteq> 0 then Done (-1, d)
              else obind (skb_put n s1) (\<lambda>s2.
                     Done (0, d\<lparr>du_skb := Some s2,
                               du_pci_h := (case du_pci_h d of None \<Rightarrow> None
                                            | Some _ \<Rightarrow> Some (sk_data s1))\<rparr>)))
       else obind (skb_put n s) (\<lambda>s2. Done (0, d\<lparr>du_skb := Some s2\<rparr>)))"

definition pci_gap :: "du \<Rightarrow> skb \<Rightarrow> int" where
  "pci_gap d s = (case du_pci_h d of None \<Rightarrow> 0 | Some p \<Rightarrow> int (sk_data s) - int p)"

definition du_head_grow :: "bool \<Rightarrow> fresh_mem \<Rightarrow> nat \<Rightarrow> du \<Rightarrow> (rc \<times> du) outcome" where
  "du_head_grow ok mem n d =
     with_skb d (\<lambda>s.
       let gap = pci_gap d s;
           push = (\<lambda>d1 s1.
             obind (skb_push (if du_pci_h d1 = None \<or> gap \<le> 0 then n else nat gap + n) s1)
               (\<lambda>s2. Done (0, d1\<lparr>du_skb := Some s2\<rparr>)))
       in if skb_headroom s < n
          then obind (pskb_expand_head ok mem n 0 s) (\<lambda>(c, s1).
                 if c \<noteq> 0 then Done (-1, d)
                 else push (d\<lparr>du_pci_h := (case du_pci_h d of None \<Rightarrow> None
                                           | Some _ \<Rightarrow> Some (sk_data s1))\<rparr>) s1)
          else push d s)"

definition du_head_shrink :: "nat \<Rightarrow> du \<Rightarrow> (rc \<times> du) outcome" where
  "du_head_shrink n d =
     with_skb d (\<lambda>s.
       let (p, s') = skb_pull n s
       in Done (0, d\<lparr>du_skb := Some s',
                     du_pci_h := (case du_pci_h d of None \<Rightarrow> None | Some _ \<Rightarrow> p)\<rparr>))"

text \<open>A PDU with room for its control information only; a type without a size is asserted away.\<close>

definition du_create_efcp :: "allocs \<Rightarrow> fresh_mem \<Rightarrow> pdu_type_t \<Rightarrow> efcp_config \<Rightarrow> (du ptr \<times> allocs) outcome" where
  "du_create_efcp ms mem type cfg =
     (let n = pci_calculate_size cfg type
      in if n \<le> 0 then Fault
         else case rkmalloc_n 2 ms of
                (False, ms') \<Rightarrow> Done (None, ms')
              | (True, ms') \<Rightarrow>
                  obind (skb_push (nat n)
                          (skb_reserve MAX_PCIS_LEN (alloc_skb mem (MAX_PCIS_LEN + MAX_TAIL_LEN))))
                    (\<lambda>s. Done (Some \<lparr>du_cfg = Some cfg, du_pci_h = Some (sk_data s),
                                      du_pci_len = nat n, du_skb = Some s\<rparr>, ms')))"

text \<open>\<^verbatim>\<open>memcpy\<close> into the data of a unit, \<open>off\<close> bytes behind \<^verbatim>\<open>du_buffer\<close>.\<close>

definition du_write :: "nat \<Rightarrow> u8 list \<Rightarrow> du \<Rightarrow> du outcome" where
  "du_write off bs d =
     with_skb d (\<lambda>s.
       if sk_data s + off + length bs \<le> length (sk_buf s)
       then Done (d\<lparr>du_skb := Some (s\<lparr>sk_buf :=
              take (sk_data s + off) (sk_buf s) @ bs @ drop (sk_data s + off + length bs) (sk_buf s)\<rparr>)\<rparr>)
       else Fault)"

definition du_read :: "nat \<Rightarrow> nat \<Rightarrow> du \<Rightarrow> u8 list outcome" where
  "du_read off n d =
     with_skb d (\<lambda>s.
       if sk_data s + off + n \<le> length (sk_buf s)
       then Done (take n (drop (sk_data s + off) (sk_buf s)))
       else Fault)"

section \<open>Lists of data units\<close>

type_synonym du_list = "du list"

definition add_du_to_list :: "allocs \<Rightarrow> du_list \<Rightarrow> du \<Rightarrow> rc \<times> du_list \<times> allocs" where
  "add_du_to_list ms l d =
     (case rkmalloc ms of (False, ms') \<Rightarrow> (-1, l, ms') | (True, ms') \<Rightarrow> (0, l @ [d], ms'))"

definition du_list_create :: "bool \<Rightarrow> du_list ptr" where
  "du_list_create ok = (if ok then Some [] else None)"

definition du_list_clear :: "du_list ptr \<Rightarrow> rc \<times> du_list ptr" where
  "du_list_clear q = (case q of None \<Rightarrow> (-1, None) | Some l \<Rightarrow> (0, Some []))"

definition du_list_destroy :: "du_list ptr \<Rightarrow> rc \<times> du_list ptr" where
  "du_list_destroy q = (case q of None \<Rightarrow> (-1, None) | Some l \<Rightarrow> (0, None))"

definition du_bytes :: "du \<Rightarrow> u8 list" where
  "du_bytes d = (case du_skb d of None \<Rightarrow> [] | Some s \<Rightarrow> skb_bytes s)"

definition du_ok :: "du \<Rightarrow> bool" where
  "du_ok d = (case du_skb d of None \<Rightarrow> False | Some s \<Rightarrow> skb_ok s)"

lemmas skb_defs =
  skb_headroom_def skb_tailroom_def skb_reserve_def skb_put_def skb_push_def skb_pull_def
  skb_trim_def pskb_expand_head_def alloc_skb_def trim_by_def

section \<open>What the operations do to the bytes\<close>

lemma obind_Done_iff: "obind m f = Done y \<longleftrightarrow> (\<exists>x. m = Done x \<and> f x = Done y)"
  by (cases m) auto

lemma with_skb_Done_iff: "with_skb d f = Done y \<longleftrightarrow> (\<exists>s. du_skb d = Some s \<and> f s = Done y)"
  by (auto simp: with_skb_def split: option.splits)

lemma append_take_drop_assoc: "take n xs @ drop n xs @ ys = xs @ ys"
  by (simp flip: append_assoc)

text \<open>A consistent buffer is head room, data and tail room.\<close>

lemma skb_split:
  assumes "skb_ok s"
  obtains hr tr where "sk_buf s = hr @ skb_bytes s @ tr" "sk_data s = length hr"
    "sk_len s = length (skb_bytes s)"
proof
  show "sk_buf s = take (sk_data s) (sk_buf s) @ skb_bytes s @ drop (sk_data s + sk_len s) (sk_buf s)"
    by (simp add: skb_bytes_def flip: append_assoc take_add)
  show "sk_data s = length (take (sk_data s) (sk_buf s))" "sk_len s = length (skb_bytes s)"
    using assms by (auto simp: skb_ok_def skb_bytes_def)
qed

lemma skb_bytesI:
  "sk_buf s = hr @ b @ tr \<Longrightarrow> sk_data s = length hr \<Longrightarrow> sk_len s = length b \<Longrightarrow> skb_bytes s = b"
  by (simp add: skb_bytes_def)

lemma length_skb_bytes: "skb_ok s \<Longrightarrow> length (skb_bytes s) = sk_len s"
  by (erule skb_split) simp

lemma du_okE:
  assumes "du_ok d"
  obtains s hr tr where "du_skb d = Some s" "skb_ok s" "skb_bytes s = du_bytes d"
    "sk_buf s = hr @ du_bytes d @ tr" "sk_data s = length hr" "sk_len s = length (du_bytes d)"
proof -
  from assms obtain s where s: "du_skb d = Some s" "skb_ok s" "skb_bytes s = du_bytes d"
    by (auto simp: du_ok_def du_bytes_def split: option.splits)
  from s(2) show ?thesis by (rule skb_split) (use s that in auto)
qed

lemma du_bytes_update [simp]:
  "du_bytes (d\<lparr>du_skb := Some s\<rparr>) = skb_bytes s"
  "du_bytes (d\<lparr>du_pci_h := p\<rparr>) = du_bytes d"
  "du_bytes (d\<lparr>du_pci_len := n\<rparr>) = du_bytes d"
  "du_bytes (d\<lparr>du_cfg := c\<rparr>) = du_bytes d"
  by (simp_all add: du_bytes_def)

lemma du_ok_update [simp]:
  "du_ok (d\<lparr>du_skb := Some s\<rparr>) = skb_ok s"
  "du_ok (d\<lparr>du_pci_h := p\<rparr>) = du_ok d"
  "du_ok (d\<lparr>du_pci_len := n\<rparr>) = du_ok d"
  "du_ok (d\<lparr>du_cfg := c\<rparr>) = du_ok d"
  by (simp_all add: du_ok_def)

lemma du_create_Done:
  assumes "du_create ms mem n = Done (Some d, ms')"
  shows "du_ok d \<and> length (du_bytes d) = n \<and> du_cfg d = None \<and> du_pci_h d = None"
  using assms
  by (auto simp: du_create_def skb_defs MAX_PCIS_LEN_def MAX_TAIL_LEN_def du_ok_def skb_ok_def
      du_bytes_def skb_bytes_def split: prod.splits bool.splits)

lemma du_create_Nil: "\<exists>d. du_create [] mem n = Done (Some d, [])"
  by (simp add: du_create_def skb_defs MAX_PCIS_LEN_def MAX_TAIL_LEN_def)

lemma du_write_Done:
  assumes "du_ok d" "off + length bs \<le> length (du_bytes d)"
  shows "\<exists>d'. du_write off bs d = Done d' \<and> du_ok d' \<and> du_cfg d' = du_cfg d \<and>
    du_bytes d' = take off (du_bytes d) @ bs @ drop (off + length bs) (du_bytes d)"
proof -
  from assms(1) obtain s hr tr where s: "du_skb d = Some s" "skb_ok s"
    "sk_buf s = hr @ du_bytes d @ tr" "sk_data s = length hr" "sk_len s = length (du_bytes d)"
    by (rule du_okE)
  let ?b = "take off (du_bytes d) @ bs @ drop (off + length bs) (du_bytes d)"
  let ?s = "s\<lparr>sk_buf := hr @ ?b @ tr\<rparr>"
  have "du_write off bs d = Done (d\<lparr>du_skb := Some ?s\<rparr>)"
    using s assms(2) by (simp add: du_write_def with_skb_def)
  moreover have "skb_bytes ?s = ?b"
    by (rule skb_bytesI [of _ hr _ tr]) (use s assms(2) in simp_all)
  moreover have "skb_ok ?s" using s assms(2) by (simp add: skb_ok_def)
  ultimately show ?thesis by simp
qed

lemma du_read_bytes:
  assumes "du_ok d" "off + n \<le> length (du_bytes d)"
  shows "du_read off n d = Done (take n (drop off (du_bytes d)))"
  using assms by (elim du_okE) (simp add: du_read_def with_skb_def)

lemma du_len_bytes: "du_ok d \<Longrightarrow> du_len d = Done (length (du_bytes d))"
  by (erule du_okE) (simp add: du_len_def with_skb_def)

lemma du_head_shrink_bytes:
  assumes "du_ok d" "n \<le> length (du_bytes d)"
  shows "\<exists>d'. du_head_shrink n d = Done (0, d') \<and> du_ok d' \<and> du_cfg d' = du_cfg d \<and>
    du_bytes d' = drop n (du_bytes d)"
proof -
  from assms(1) obtain s hr tr where s: "du_skb d = Some s" "skb_ok s"
    "sk_buf s = hr @ du_bytes d @ tr" "sk_data s = length hr" "sk_len s = length (du_bytes d)"
    by (rule du_okE)
  let ?s = "s\<lparr>sk_data := sk_data s + n, sk_len := sk_len s - n\<rparr>"
  have "skb_bytes ?s = drop n (du_bytes d)"
    by (rule skb_bytesI [of _ "hr @ take n (du_bytes d)" _ tr])
      (use s assms(2) in \<open>simp_all add: append_take_drop_assoc\<close>)
  moreover have "skb_ok ?s" using s assms(2) by (simp add: skb_ok_def)
  ultimately show ?thesis
    using s assms(2) by (simp add: du_head_shrink_def with_skb_def skb_pull_def)
qed

text \<open>
  Growing at the head works when the unit has no control information in front of its data and
  the buffer has room or can be replaced by a larger one.
\<close>

definition head_growable :: "bool \<Rightarrow> nat \<Rightarrow> du \<Rightarrow> bool" where
  "head_growable ok n d = (case du_skb d of
     None \<Rightarrow> False
   | Some s \<Rightarrow> pci_gap d s \<le> 0 \<and> (n \<le> skb_headroom s \<or> ok \<and> sk_users s = 1))"

lemma skb_push_bytes:
  assumes "skb_ok s" "n \<le> sk_data s"
  shows "\<exists>s' b. skb_push n s = Done s' \<and> skb_ok s' \<and> length b = n \<and> skb_bytes s' = b @ skb_bytes s \<and>
    sk_data s' = sk_data s - n \<and> sk_buf s' = sk_buf s"
proof -
  from assms(1) obtain hr tr where s: "sk_buf s = hr @ skb_bytes s @ tr" "sk_data s = length hr"
    "sk_len s = length (skb_bytes s)" by (rule skb_split)
  let ?k = "length hr - n"
  let ?s = "s\<lparr>sk_data := ?k, sk_len := sk_len s + n\<rparr>"
  have "skb_bytes ?s = drop ?k hr @ skb_bytes s"
    by (rule skb_bytesI [of _ "take ?k hr" _ tr])
      (use s assms(2) in \<open>simp_all add: append_take_drop_assoc\<close>)
  moreover have "skb_ok ?s" using s assms by (simp add: skb_ok_def)
  ultimately show ?thesis
    using s assms(2)
    by (intro exI [of _ ?s] exI [of _ "drop ?k hr"]) (simp add: skb_push_def skb_headroom_def)
qed

lemma pskb_expand_bytes:
  assumes "skb_ok s" "sk_users s = 1"
  shows "\<exists>s'. pskb_expand_head True mem nh nt s = Done (0, s') \<and> skb_ok s' \<and>
    skb_bytes s' = skb_bytes s \<and> sk_data s' = sk_data s + nh \<and> sk_len s' = sk_len s \<and>
    sk_users s' = 1 \<and> length (sk_buf s') = nh + length (sk_buf s) + nt"
proof -
  from assms(1) obtain hr tr where s: "sk_buf s = hr @ skb_bytes s @ tr" "sk_data s = length hr"
    "sk_len s = length (skb_bytes s)" by (rule skb_split)
  let ?s = "s\<lparr>sk_buf := map mem [0..<nh] @ sk_buf s @ map mem [0..<nt], sk_data := sk_data s + nh\<rparr>"
  have "skb_bytes ?s = skb_bytes s"
    by (rule skb_bytesI [of _ "map mem [0..<nh] @ hr" _ "tr @ map mem [0..<nt]"]) (use s in simp_all)
  moreover have "skb_ok ?s" using s assms by (simp add: skb_ok_def)
  ultimately show ?thesis using assms by (simp add: pskb_expand_head_def)
qed

lemma du_head_grow_bytes:
  assumes "du_ok d" "head_growable ok n d"
  shows "\<exists>d' b. du_head_grow ok mem n d = Done (0, d') \<and> du_ok d' \<and> du_cfg d' = du_cfg d \<and>
    length b = n \<and> du_bytes d' = b @ du_bytes d"
proof -
  from assms(1) obtain s where s: "du_skb d = Some s" "skb_ok s" "skb_bytes s = du_bytes d"
    by (rule du_okE)
  with assms(2) have gap: "pci_gap d s \<le> 0" by (simp add: head_growable_def)
  show ?thesis
  proof (cases "skb_headroom s < n")
    case True
    with assms(2) s have "ok" "sk_users s = 1" by (auto simp: head_growable_def)
    then obtain s1 where s1: "pskb_expand_head ok mem n 0 s = Done (0, s1)" "skb_ok s1"
      "skb_bytes s1 = du_bytes d" "n \<le> sk_data s1"
      using pskb_expand_bytes [OF s(2), of mem n 0] s(3) by auto
    from skb_push_bytes [OF s1(2,4)] s s1 True gap show ?thesis
      by (auto simp: du_head_grow_def with_skb_def Let_def)
  next
    case False
    with skb_push_bytes [OF s(2), of n] s gap show ?thesis
      by (auto simp: du_head_grow_def with_skb_def Let_def skb_headroom_def)
  qed
qed

lemma skb_put_ok: "skb_put n s = Done s' \<Longrightarrow> skb_ok s \<Longrightarrow> skb_ok s'"
  by (auto simp: skb_put_def skb_ok_def skb_tailroom_def split: if_splits)

lemma skb_push_ok: "skb_push n s = Done s' \<Longrightarrow> skb_ok s \<Longrightarrow> skb_ok s'"
  by (auto simp: skb_push_def skb_ok_def skb_headroom_def split: if_splits)

lemma skb_pull_ok: "skb_ok s \<Longrightarrow> skb_ok (snd (skb_pull n s))"
  by (auto simp: skb_pull_def skb_ok_def)

lemma trim_by_ok: "skb_ok s \<Longrightarrow> skb_ok (trim_by n s)"
  by (auto simp: trim_by_def skb_trim_def skb_ok_def)

lemma pskb_expand_ok: "pskb_expand_head ok mem nh nt s = Done (c, s') \<Longrightarrow> skb_ok s \<Longrightarrow> skb_ok s'"
  by (auto simp: pskb_expand_head_def skb_ok_def split: if_splits)

lemma du_okI: "du_skb d = Some s \<Longrightarrow> skb_ok s \<Longrightarrow> du_ok d"
  by (simp add: du_ok_def)

lemma with_skb_ok:
  assumes "du_ok d" "with_skb d f = Done (c, d')"
    "\<And>s. du_skb d = Some s \<Longrightarrow> skb_ok s \<Longrightarrow> f s = Done (c, d') \<Longrightarrow> du_ok d'"
  shows "du_ok d'"
  using assms by (auto simp: with_skb_Done_iff du_ok_def)

lemmas du_ok_rules =
  skb_put_ok skb_push_ok skb_pull_ok trim_by_ok pskb_expand_ok

lemma du_encap_ok: "du_ok d \<Longrightarrow> du_encap d t = Done (c, d') \<Longrightarrow> du_ok d'"
  by (auto simp: du_encap_def Let_def obind_Done_iff with_skb_Done_iff du_ok_rules
      split: option.splits if_splits) (auto simp: du_ok_def du_ok_rules)

lemma du_decap_ok: "du_ok d \<Longrightarrow> du_decap d = Done (c, d') \<Longrightarrow> du_ok d'"
  unfolding du_decap_def
  by (erule (1) with_skb_ok)
    (auto simp: Let_def obind_Done_iff du_ok_rules intro: du_okI split: option.splits if_splits)

lemma du_tail_grow_ok: "du_ok d \<Longrightarrow> du_tail_grow ok mem n d = Done (c, d') \<Longrightarrow> du_ok d'"
  unfolding du_tail_grow_def
  by (erule (1) with_skb_ok)
    (auto simp: obind_Done_iff intro: du_okI dest: skb_put_ok pskb_expand_ok split: if_splits)

lemma du_head_grow_ok: "du_ok d \<Longrightarrow> du_head_grow ok mem n d = Done (c, d') \<Longrightarrow> du_ok d'"
  unfolding du_head_grow_def
  by (erule (1) with_skb_ok)
    (auto simp: Let_def obind_Done_iff intro: du_okI dest: skb_push_ok pskb_expand_ok
      split: if_splits)

lemma du_shrink_ok:
  "du_ok d \<Longrightarrow> du_tail_shrink k d = Done (c, d') \<Longrightarrow> du_ok d'"
  "du_ok d \<Longrightarrow> du_head_shrink n d = Done (c, d') \<Longrightarrow> du_ok d'"
  "du_ok d \<Longrightarrow> du_consume_data n d = Done d' \<Longrightarrow> du_ok d'"
  by (auto simp: du_tail_shrink_def du_head_shrink_def du_consume_data_def with_skb_Done_iff
      split_beta du_ok_def du_ok_rules)

section \<open>Decapsulation of a formatted PDU\<close>

lemma fget_append:
  "i \<in> set (pdu_fields t) \<Longrightarrow> pdu_size dc t \<le> length h \<Longrightarrow> fget dc i (h @ x) = fget dc i h"
  using pdu_layout.inside [of i t dc "length h"]
  by (simp add: fget_def rd_def pdu_size_def)

lemma getters_append:
  assumes "cfg_ok cfg" "pdu_size (ec_dt_cons cfg) t \<le> length h"
  shows "pci_type cfg (h @ x) = pci_type cfg h" "pci_length cfg (h @ x) = pci_length cfg h"
  using assms by (simp_all add: base_getters [of _ t] fget_append [of _ t] base_in_pdu_fields)

lemma sized_type_ok: "sized_type t \<Longrightarrow> pdu_type_is_ok t"
  by (auto simp: sized_type_def pdu_type_is_ok_def)

lemma pdu_size_pos: "0 < pdu_size dc t"
  by (simp add: pdu_size_def pdu_fields_def base_fields_def width_rules)

lemma du_decap_bytes:
  assumes "cfg_ok cfg" "sized_type t" "skb_ok s" "sk_len s < 2 ^ 32"
    and b: "skb_bytes s = h @ payload @ pad"
    and h: "length h = pdu_size (ec_dt_cons cfg) t" "pci_type cfg h = Done t"
      "pci_length cfg h = Done (int (length h + length payload))"
    and d: "du_skb d = Some s" "du_cfg d = Some cfg"
  shows "\<exists>d'. du_decap d = Done (0, d') \<and> du_bytes d' = payload \<and> du_pci_len d' = length h \<and>
    du_pci_h d' = Some (sk_data s) \<and> du_ok d'"
proof -
  from assms(3) obtain hr tr where s: "sk_buf s = hr @ (h @ payload @ pad) @ tr"
    "sk_data s = length hr" "sk_len s = length h + length payload + length pad"
    by (rule skb_split) (use b in simp)
  let ?s = "if pad = [] then s else trim_by (int (length pad)) s"
  have s': "sk_data ?s = length hr" "sk_buf ?s = sk_buf s" "sk_len ?s = length h + length payload"
    "skb_ok ?s"
    using s assms(3,4) by (auto simp: trim_by_def skb_trim_def skb_ok_def nat_add_distrib)
  let ?r = "snd (skb_pull (length h) ?s)"
  have r: "skb_bytes ?r = payload" "skb_ok ?r"
    using s s' skb_pull_ok [OF s'(4), of "length h"]
      skb_bytesI [of ?r "hr @ h" payload "pad @ tr"] by (simp_all add: skb_pull_def)
  have "du_decap d = Done (0, d\<lparr>du_pci_h := Some (sk_data s), du_skb := Some ?r,
      du_pci_len := length h\<rparr>)"
    using d s h assms(1,2) sized_type_ok [OF assms(2)] pdu_size_pos [of "ec_dt_cons cfg" t]
    by (simp add: du_decap_def with_skb_def pci_calculate_size_pdu_size getters_append [of _ t]
        Let_def)
  then show ?thesis using r by simp
qed

section \<open>Properties\<close>

text \<open>A sequence of operations on one data unit; it ends at the first fault.\<close>

datatype du_op =
  DuEncap pdu_type_t | DuDecap | DuTailGrow bool nat | DuTailShrink int | DuHeadGrow bool nat
| DuHeadShrink nat | DuConsume nat

fun du_apply :: "fresh_mem \<Rightarrow> du_op \<Rightarrow> du \<Rightarrow> (rc \<times> du) outcome" where
  "du_apply mem (DuEncap t) d = du_encap d t"
| "du_apply mem DuDecap d = du_decap d"
| "du_apply mem (DuTailGrow ok n) d = du_tail_grow ok mem n d"
| "du_apply mem (DuTailShrink n) d = du_tail_shrink n d"
| "du_apply mem (DuHeadGrow ok n) d = du_head_grow ok mem n d"
| "du_apply mem (DuHeadShrink n) d = du_head_shrink n d"
| "du_apply mem (DuConsume n) d = map_outcome (Pair 0) (du_consume_data n d)"

fun du_run :: "fresh_mem \<Rightarrow> du_op list \<Rightarrow> du \<Rightarrow> du outcome" where
  "du_run mem [] d = Done d"
| "du_run mem (p # ps) d = obind (du_apply mem p d) (\<lambda>(c, d'). du_run mem ps d')"

lemma du_apply_ok: "du_ok d \<Longrightarrow> du_apply mem p d = Done (c, d') \<Longrightarrow> du_ok d'"
proof (cases p)
  case (DuConsume n)
  then show "du_ok d \<Longrightarrow> du_apply mem p d = Done (c, d') \<Longrightarrow> du_ok d'"
    by (cases "du_consume_data n d") (auto dest: du_shrink_ok(3))
qed (auto dest: du_encap_ok du_decap_ok du_tail_grow_ok du_head_grow_ok du_shrink_ok)

lemma du_run_ok: "du_ok d \<Longrightarrow> du_run mem ps d = Done d' \<Longrightarrow> du_ok d'"
  by (induction ps arbitrary: d) (auto simp: obind_Done_iff dest: du_apply_ok)



text \<open>
  C7. Encapsulation and decapsulation: a PDU whose header was formatted with the length of header
  and payload is decapsulated by a receiver with the same configuration to exactly the payload,
  also when lower layers padded it at the tail.
\<close>

theorem du_decap_format:
  assumes "cfg_ok cfg" "sized_type t" "sn_width_ok (ec_dt_cons cfg) t"
    and "int (length h) = pci_calculate_size cfg t"
    and "pdu_args_fit (ec_dt_cons cfg) src_cep dst_cep src dst sn qos
           (int (length h + length payload))"
    and "pci_format cfg src_cep dst_cep src dst sn qos flags (int (length h + length payload)) t h =
           Done (0, h')"
    and "skb_ok s" "sk_len s < 2 ^ 32" "skb_bytes s = h' @ payload @ pad"
    and "du_skb d = Some s" "du_cfg d = Some cfg"
  shows "\<exists>d'. du_decap d = Done (0, d') \<and> du_bytes d' = payload \<and> du_pci_len d' = length h'"
proof -
  have len: "length h = pdu_size (ec_dt_cons cfg) t"
    using assms(1,2,4) by (simp add: pci_calculate_size_pdu_size)
  have f: "length h' = length h" "pci_type cfg h' = Done t"
    "pci_length cfg h' = Done (int (length h + length payload))"
    using pci_format_reads [OF assms(1,2,3) _ assms(5,6)] len by simp_all
  from du_decap_bytes [OF assms(1,2,7,8,9) _ f(2) _ assms(10,11)] f len show ?thesis by auto
qed

theorem du_decap_format_witness:
  "\<exists>h' d'. pci_format (cfg_of sample_dt_cons) 1 2 22 23 7 1 0 22 PDU_TYPE_MGMT (replicate 19 0) = Done (0, h') \<and>
     du_decap \<lparr>du_cfg = Some (cfg_of sample_dt_cons), du_pci_h = None, du_pci_len = 0,
       du_skb = Some \<lparr>sk_buf = h' @ [1, 2, 3] @ [0, 0], sk_data = 0, sk_len = 24, sk_users = 1\<rparr>\<rparr> =
       Done (0, d') \<and> du_bytes d' = [1, 2, 3]"
proof -
  let ?cfg = "cfg_of sample_dt_cons" and ?h = "replicate 19 (0 :: u8)"
  have t: "sized_type PDU_TYPE_MGMT" "sn_width_ok (ec_dt_cons ?cfg) PDU_TYPE_MGMT"
    by (simp_all add: sized_type_def sn_width_ok_def)
  have size: "int (length ?h) = pci_calculate_size ?cfg PDU_TYPE_MGMT" by code_simp
  then have len: "pdu_size (ec_dt_cons ?cfg) PDU_TYPE_MGMT = 19"
    by (simp add: pci_calculate_size_pdu_size [OF sample_cfg(1) t(1)])
  have fit: "pdu_args_fit (ec_dt_cons ?cfg) 1 2 22 23 7 1 (int (length ?h + length [1, 2, 3 :: u8]))"
    by (simp add: sample_cfg pdu_args_fit_def fits_def sample_lens)
  obtain h' where h': "pci_format ?cfg 1 2 22 23 7 1 0 (int (length ?h + length [1, 2, 3 :: u8]))
      PDU_TYPE_MGMT ?h = Done (0, h')" "length h' = 19"
    using pci_format_reads_all [OF sample_cfg(1) t _ fit, of ?h 0] len by auto
  let ?s = "\<lparr>sk_buf = h' @ [1, 2, 3] @ [0, 0], sk_data = 0, sk_len = 24, sk_users = 1\<rparr>"
  have s: "skb_ok ?s" "skb_bytes ?s = h' @ [1, 2, 3] @ [0, 0]"
    using h' by (simp_all add: skb_ok_def skb_bytes_def)
  from du_decap_format [OF sample_cfg(1) t size fit h'(1) s(1) _ s(2), of
      "\<lparr>du_cfg = Some ?cfg, du_pci_h = None, du_pci_len = 0, du_skb = Some ?s\<rparr>"] h'
  show ?thesis by auto
qed

section \<open>Where the code goes wrong\<close>

text \<open>
  Relaying: with the control information still in front of the data, \<^verbatim>\<open>du_head_grow\<close> compares the
  head room with the requested bytes only, but pushes the control information as well. When the
  head room is just that information, the push runs out of the buffer.
\<close>

lemma du_head_grow_relay_faults:
  assumes "du_skb d = Some s" "du_pci_h d = Some 0" "0 < sk_data s" "0 < n" "n \<le> sk_data s"
  shows "du_head_grow ok mem n d = Fault"
  using assms by (simp add: du_head_grow_def with_skb_def pci_gap_def skb_defs)

text \<open>
  When the buffer has to be replaced, \<^verbatim>\<open>pci.h\<close> is set to the new start of the data, although the
  control information lies \<open>gap\<close> bytes in front of it.
\<close>

lemma du_head_grow_relay_loses_pci:
  assumes "du_skb d = Some s" "du_pci_h d = Some p" "p < sk_data s" "sk_data s < n" "sk_users s = 1"
  shows "\<exists>d' s'. du_head_grow True mem n d = Done (0, d') \<and> du_skb d' = Some s' \<and>
    sk_data s' = p \<and> du_pci_h d' = Some (sk_data s + n)"
  using assms by (simp add: du_head_grow_def with_skb_def pci_gap_def skb_defs Let_def) arith

end
