(* ===== verification/Delim.thy ===== *)
theory Delim
  imports Du
begin

text \<open>
  Delimiting (\<^verbatim>\<open>kernel/delim-ps-default.c\<close>): an SDU longer than the maximum fragment size is cut
  into user data fields with a flags byte in front, and put together again at the receiver.

  The loop that cuts has no exit when the maximum fragment size is 0, so it is a partial function:
  \<open>None\<close> is a call that does not return. Allocations are \<open>allocs\<close>, the outcome of replacing a
  buffer when it grows at the head is \<open>eok\<close>.
\<close>

unbundle bit_operations_syntax

record delim =
  max_fragment_size :: u32

record delim_def_priv =
  pending_dus :: "du_list ptr"
  reassembly_in_process :: bool
  total_length :: int

definition delim_def_priv_create :: "allocs \<Rightarrow> delim_def_priv ptr \<times> allocs" where
  "delim_def_priv_create ms =
     (case rkmalloc ms of
        (False, ms1) \<Rightarrow> (None, ms1)
      | (True, ms1) \<Rightarrow>
          (case rkmalloc ms1 of (ok, ms2) \<Rightarrow>
             (Some \<lparr>pending_dus = du_list_create ok, reassembly_in_process = False,
                     total_length = 0\<rparr>, ms2)))"

definition delim_def_priv_reset :: "delim_def_priv \<Rightarrow> delim_def_priv" where
  "delim_def_priv_reset p =
     p\<lparr>pending_dus := snd (du_list_clear (pending_dus p)), reassembly_in_process := False,
       total_length := 0\<rparr>"

section \<open>Fragmentation\<close>

definition fragment_single_full_sdu ::
    "bool \<Rightarrow> allocs \<Rightarrow> fresh_mem \<Rightarrow> du \<Rightarrow> du_list \<Rightarrow> (rc \<times> du_list \<times> allocs) outcome" where
  "fragment_single_full_sdu eok ms mem d l =
     obind (du_head_grow eok mem 1 d) (\<lambda>(c, d1).
       if c \<noteq> 0 then Done (-1, l, ms)
       else obind (du_write 0 [0x07] d1) (\<lambda>d2.
         case add_du_to_list ms l d2 of
           (c, l', ms') \<Rightarrow> Done (if c \<noteq> 0 then -1 else 0, l', ms')))"

definition copy_du_fragment_to_list ::
    "allocs \<Rightarrow> fresh_mem \<Rightarrow> nat \<Rightarrow> nat \<Rightarrow> u8 \<Rightarrow> du \<Rightarrow> du_list \<Rightarrow> (rc \<times> du_list \<times> allocs) outcome" where
  "copy_du_fragment_to_list ms mem len offset flags d l =
     obind (du_create ms mem (len + 1)) (\<lambda>(q, ms1).
       case q of
         None \<Rightarrow> Done (-1, l, ms1)
       | Some f \<Rightarrow>
           obind (du_write 0 [flags] f) (\<lambda>f1.
           obind (du_read offset len d) (\<lambda>bs.
           obind (du_write 1 bs f1) (\<lambda>f2.
             case add_du_to_list ms1 l (f2\<lparr>du_cfg := du_cfg d\<rparr>) of
               (c, l', ms2) \<Rightarrow> Done (if c \<noteq> 0 then -1 else 0, l', ms2)))))"

partial_function (option) fragment_loop ::
    "fresh_mem \<Rightarrow> nat \<Rightarrow> du \<Rightarrow> nat \<Rightarrow> nat \<Rightarrow> bool \<Rightarrow> allocs \<Rightarrow> du_list \<Rightarrow>
     (rc \<times> du_list \<times> allocs) outcome option" where
  "fragment_loop mem m d pending offset first ms l =
     (if pending > 0 then
        let flags = (if first then 0x05 else if pending \<le> m then 0x06 else 0x04);
            len = (if pending > m then m else pending)
        in case copy_du_fragment_to_list ms mem len offset flags d l of
             Fault \<Rightarrow> Some Fault
           | Done (c, l', ms') \<Rightarrow>
               (if c \<noteq> 0 then Some (Done (-1, l', ms'))
                else fragment_loop mem m d (pending - len) (offset + len) False ms' l')
      else Some (Done (0, l, ms)))"

definition default_delim_fragment ::
    "bool \<Rightarrow> allocs \<Rightarrow> fresh_mem \<Rightarrow> delim ptr \<Rightarrow> du \<Rightarrow> du_list \<Rightarrow>
     (rc \<times> du_list \<times> allocs) outcome option" where
  "default_delim_fragment eok ms mem q d l =
     (case q of
        None \<Rightarrow> Some (Done (-1, l, ms))
      | Some dl \<Rightarrow>
          (case du_len d of
             Fault \<Rightarrow> Some Fault
           | Done n \<Rightarrow>
               (if n \<le> unat (max_fragment_size dl)
                then Some (fragment_single_full_sdu eok ms mem d l)
                else fragment_loop mem (unat (max_fragment_size dl)) d n 0 True ms l)))"

text \<open>
  The number of user data fields: a loop on a signed length minus an unsigned fragment size,
  computed at 32 bits and read back as signed.
\<close>

partial_function (option) num_udfs_loop :: "u32 \<Rightarrow> int \<Rightarrow> int \<Rightarrow> int option" where
  "num_udfs_loop m dulen n =
     (if dulen > 0 then num_udfs_loop m (signed_take_bit 31 (dulen - uint m)) (n + 1) else Some n)"

definition default_delim_num_udfs :: "delim ptr \<Rightarrow> du \<Rightarrow> int outcome option" where
  "default_delim_num_udfs q d =
     (case q of
        None \<Rightarrow> Some (Done (-1))
      | Some dl \<Rightarrow>
          (case du_len d of
             Fault \<Rightarrow> Some Fault
           | Done n \<Rightarrow> map_option Done (num_udfs_loop (max_fragment_size dl) (int n) 0)))"

section \<open>Reassembly\<close>

type_synonym udf_result = "(rc \<times> delim_def_priv \<times> du_list \<times> allocs) outcome"

definition process_single_full_sdu :: "allocs \<Rightarrow> delim_def_priv \<Rightarrow> du \<Rightarrow> du_list \<Rightarrow> udf_result" where
  "process_single_full_sdu ms p d l =
     obind (du_head_shrink 1 d) (\<lambda>(c, d').
       if c \<noteq> 0 then Done (-1, p, l, ms)
       else case add_du_to_list ms l d' of
              (c, l', ms') \<Rightarrow> Done (if c \<noteq> 0 then -1 else 0, p, l', ms'))"

definition append_pending_du :: "allocs \<Rightarrow> delim_def_priv \<Rightarrow> du \<Rightarrow> (rc \<times> delim_def_priv \<times> allocs) outcome" where
  "append_pending_du ms p0 d =
     obind (du_len d) (\<lambda>n.
       let p = p0\<lparr>total_length := total_length p0 + int n - 1\<rparr>
       in case pending_dus p of
            None \<Rightarrow> Fault
          | Some l \<Rightarrow>
              (case add_du_to_list ms l d of
                 (c, l', ms') \<Rightarrow>
                   if c \<noteq> 0 then Done (-1, delim_def_priv_reset p, ms')
                   else Done (0, p\<lparr>pending_dus := Some l'\<rparr>, ms')))"

definition process_first_fragment :: "allocs \<Rightarrow> delim_def_priv \<Rightarrow> du \<Rightarrow> (rc \<times> delim_def_priv \<times> allocs) outcome" where
  "process_first_fragment ms p0 d =
     (let p = (if reassembly_in_process p0 then delim_def_priv_reset p0 else p0)
      in append_pending_du ms (p\<lparr>reassembly_in_process := True\<rparr>) d)"

definition process_mid_fragment :: "allocs \<Rightarrow> delim_def_priv \<Rightarrow> du \<Rightarrow> (rc \<times> delim_def_priv \<times> allocs) outcome" where
  "process_mid_fragment ms p d =
     (if \<not> reassembly_in_process p then Done (-1, delim_def_priv_reset p, ms)
      else append_pending_du ms p d)"

text \<open>
  The copy loop of the last fragment: every pending unit without its flags byte. A unit without
  any byte would make the copied length negative.
\<close>

fun copy_pending :: "du_list \<Rightarrow> nat \<Rightarrow> du \<Rightarrow> du outcome" where
  "copy_pending [] offset f = Done f"
| "copy_pending (d # ds) offset f =
     obind (du_len d) (\<lambda>n. if n = 0 then Fault else
     obind (du_read 1 (n - 1) d) (\<lambda>bs.
     obind (du_write offset bs f) (\<lambda>f'. copy_pending ds (offset + (n - 1)) f')))"

definition process_last_fragment :: "allocs \<Rightarrow> fresh_mem \<Rightarrow> delim_def_priv \<Rightarrow> du \<Rightarrow> du_list \<Rightarrow> udf_result" where
  "process_last_fragment ms mem p0 d l =
     obind (process_mid_fragment ms p0 d) (\<lambda>(c, p, ms1).
       if c \<noteq> 0 then Done (-1, p, l, ms1)
       else if total_length p < 0 then Fault
       else obind (du_create ms1 mem (nat (total_length p))) (\<lambda>(q, ms2).
         case q of
           None \<Rightarrow> Done (-1, delim_def_priv_reset p, l, ms2)
         | Some f \<Rightarrow>
             obind (copy_pending (the (pending_dus p)) 0 f) (\<lambda>f'.
               case add_du_to_list ms2 l f' of
                 (c, l', ms3) \<Rightarrow> Done (if c \<noteq> 0 then -1 else 0, delim_def_priv_reset p, l', ms3))))"

definition default_delim_process_udf ::
    "allocs \<Rightarrow> fresh_mem \<Rightarrow> delim ptr \<Rightarrow> delim_def_priv ptr \<Rightarrow> du \<Rightarrow> du_list \<Rightarrow>
     (rc \<times> delim_def_priv ptr \<times> du_list \<times> allocs) outcome" where
  "default_delim_process_udf ms mem q pq d l =
     (case (q, pq) of
        (Some dl, Some p) \<Rightarrow>
          obind (du_read 0 1 d) (\<lambda>bs.
            let flags = hd bs in
            if flags AND 0x08 \<noteq> 0 then Done (-1, pq, l, ms)
            else if flags AND 0x04 \<noteq> 0 then
              (if flags AND 0x02 \<noteq> 0 \<and> flags AND 0x01 \<noteq> 0
               then map_outcome (\<lambda>(c, p', l', ms'). (c, Some p', l', ms'))
                      (process_single_full_sdu ms p d l)
               else if flags AND 0x01 \<noteq> 0
               then map_outcome (\<lambda>(c, p', ms'). (c, Some p', l, ms')) (process_first_fragment ms p d)
               else if flags AND 0x02 \<noteq> 0
               then map_outcome (\<lambda>(c, p', l', ms'). (c, Some p', l', ms'))
                      (process_last_fragment ms mem p d l)
               else map_outcome (\<lambda>(c, p', ms'). (0, Some p', l, ms')) (process_mid_fragment ms p d))
            else Done (-1, pq, l, ms))
      | _ \<Rightarrow> Done (-1, pq, l, ms))"

text \<open>The receiver takes the user data fields one after the other, with memory for each of them.\<close>

fun process_all ::
    "fresh_mem \<Rightarrow> delim ptr \<Rightarrow> delim_def_priv ptr \<Rightarrow> du_list \<Rightarrow> du_list \<Rightarrow>
     (delim_def_priv ptr \<times> du_list) outcome" where
  "process_all mem q pq [] l = Done (pq, l)"
| "process_all mem q pq (d # ds) l =
     obind (default_delim_process_udf [] mem q pq d l) (\<lambda>(c, pq', l', ms'). process_all mem q pq' ds l')"

section \<open>The fragments of an SDU\<close>

text \<open>The user data fields as byte lists: \<open>first\<close> tells whether none was cut off yet.\<close>

function udf_list :: "nat \<Rightarrow> bool \<Rightarrow> u8 list \<Rightarrow> u8 list list" where
  "udf_list m first b =
     (if m = 0 \<or> b = [] then []
      else ((if first then 0x05 else if length b \<le> m then 0x06 else 0x04) # take m b) #
           udf_list m False (drop m b))"
  by pat_completeness auto
termination
  by (relation "measure (\<lambda>(m, first, b). length b)") auto

declare udf_list.simps [simp del]

lemma copy_du_fragment_Done:
  assumes "du_ok d" "offset + len \<le> length (du_bytes d)"
  shows "\<exists>f. copy_du_fragment_to_list [] mem len offset flags d l = Done (0, l @ [f], []) \<and>
    du_ok f \<and> du_cfg f = du_cfg d \<and> du_bytes f = flags # take len (drop offset (du_bytes d))"
proof -
  obtain f where f: "du_create [] mem (Suc len) = Done (Some f, [])"
    using du_create_Nil by blast
  then have f0: "du_ok f" "length (du_bytes f) = Suc len" using du_create_Done by auto
  then obtain f1 where f1: "du_write 0 [flags] f = Done f1" "du_ok f1"
    "du_bytes f1 = flags # drop 1 (du_bytes f)"
    using du_write_Done [of f 0 "[flags]"] by auto
  let ?bs = "take len (drop offset (du_bytes d))"
  have bs: "du_read offset len d = Done ?bs" "length ?bs = len"
    using assms by (simp_all add: du_read_bytes)
  obtain f2 where f2: "du_write 1 ?bs f1 = Done f2" "du_ok f2" "du_bytes f2 = flags # ?bs"
    using du_write_Done [of f1 1 ?bs] f1 f0 bs(2) by auto
  show ?thesis
    using f f1(1) f2 bs(1) by (simp add: copy_du_fragment_to_list_def add_du_to_list_def)
qed

lemma fragment_loop_Done:
  assumes "du_ok d" "0 < m" "pending = length (du_bytes d) - offset" "offset \<le> length (du_bytes d)"
  shows "\<exists>fs. fragment_loop mem m d pending offset first [] l = Some (Done (0, l @ fs, [])) \<and>
    map du_bytes fs = udf_list m first (drop offset (du_bytes d)) \<and>
    list_all du_ok fs \<and> list_all (\<lambda>f. du_cfg f = du_cfg d) fs"
  using assms(3,4)
proof (induction pending arbitrary: offset first l rule: less_induct)
  case (less pending)
  let ?b = "drop offset (du_bytes d)"
  let ?flags = "if first then 0x05 else if pending \<le> m then 0x06 else 0x04 :: u8"
  let ?len = "if pending > m then m else pending"
  show ?case
  proof (cases "pending = 0")
    case True
    with less.prems show ?thesis
      by (auto simp: fragment_loop.simps [of _ _ _ 0] udf_list.simps intro: exI [of _ "[]"])
  next
    case False
    have le: "offset + ?len \<le> length (du_bytes d)" using less.prems False by auto
    from copy_du_fragment_Done [OF assms(1) le, of mem ?flags l] obtain f where
      f: "copy_du_fragment_to_list [] mem ?len offset ?flags d l = Done (0, l @ [f], [])"
        "du_ok f" "du_cfg f = du_cfg d" "du_bytes f = ?flags # take ?len ?b" by blast
    have lt: "pending - ?len < pending" using False assms(2) by auto
    have eq: "pending - ?len = length (du_bytes d) - (offset + ?len)" using less.prems by simp
    from less.IH [OF lt eq le, of False "l @ [f]"] obtain fs where fs: "fragment_loop mem m d (pending - ?len) (offset + ?len) False [] (l @ [f]) =
        Some (Done (0, (l @ [f]) @ fs, []))"
      "map du_bytes fs = udf_list m False (drop (offset + ?len) (du_bytes d))"
      "list_all du_ok fs" "list_all (\<lambda>f. du_cfg f = du_cfg d) fs" by blast
    have "drop (offset + ?len) (du_bytes d) = drop m ?b" "take ?len ?b = take m ?b"
      using less.prems by (auto simp: add.commute)
    then have "udf_list m first ?b = du_bytes f # map du_bytes fs"
      using less.prems False assms(2) fs(2) f(4) by (simp add: udf_list.simps [of m first ?b])
    moreover have "fragment_loop mem m d pending offset first [] l = Some (Done (0, l @ f # fs, []))"
      using f(1) fs(1) False by (subst fragment_loop.simps) (simp add: Let_def)
    ultimately show ?thesis using f fs by (intro exI [of _ "f # fs"]) simp
  qed
qed

lemma fragment_single_Done:
  assumes "du_ok d" "head_growable eok 1 d"
  shows "\<exists>f. fragment_single_full_sdu eok [] mem d l = Done (0, l @ [f], []) \<and>
    du_ok f \<and> du_cfg f = du_cfg d \<and> du_bytes f = 0x07 # du_bytes d"
proof -
  obtain d1 b where d1: "du_head_grow eok mem 1 d = Done (0, d1)" "du_ok d1" "du_cfg d1 = du_cfg d"
    "length b = 1" "du_bytes d1 = b @ du_bytes d"
    using du_head_grow_bytes [OF assms, of mem] by blast
  then obtain d2 where "du_write 0 [0x07] d1 = Done d2" "du_ok d2" "du_cfg d2 = du_cfg d1"
    "du_bytes d2 = 0x07 # du_bytes d"
    using du_write_Done [of d1 0 "[0x07]"] by auto
  with d1 show ?thesis by (simp add: fragment_single_full_sdu_def add_du_to_list_def)
qed

section \<open>Putting the fragments together\<close>

definition pending_bytes :: "du_list \<Rightarrow> u8 list" where
  "pending_bytes ds = concat (map (\<lambda>d. tl (du_bytes d)) ds)"

lemma pending_bytes_simps [simp]:
  "pending_bytes [] = []"
  "pending_bytes (d # ds) = tl (du_bytes d) @ pending_bytes ds"
  "pending_bytes (ds @ es) = pending_bytes ds @ pending_bytes es"
  by (simp_all add: pending_bytes_def)

definition pending_ok :: "du_list \<Rightarrow> bool" where
  "pending_ok ds = list_all (\<lambda>d. du_ok d \<and> du_bytes d \<noteq> []) ds"

lemma copy_pending_Done:
  assumes "pending_ok ds" "du_ok f" "length (du_bytes f) = offset + length (pending_bytes ds)"
  shows "\<exists>f'. copy_pending ds offset f = Done f' \<and> du_ok f' \<and>
    du_bytes f' = take offset (du_bytes f) @ pending_bytes ds"
  using assms
proof (induction ds arbitrary: offset f)
  case (Cons d ds)
  let ?t = "tl (du_bytes d)"
  from Cons.prems have d: "du_ok d" "du_bytes d \<noteq> []" by (simp_all add: pending_ok_def)
  then have r: "du_read 1 (length (du_bytes d) - 1) d = Done ?t"
    by (simp add: du_read_bytes drop_Suc)
  obtain f' where f': "du_write offset ?t f = Done f'" "du_ok f'"
    "du_bytes f' = take offset (du_bytes f) @ ?t @ drop (offset + length ?t) (du_bytes f)"
    using du_write_Done [of f offset ?t] Cons.prems by auto
  obtain f'' where "copy_pending ds (offset + length ?t) f' = Done f''" "du_ok f''"
    "du_bytes f'' = take (offset + length ?t) (du_bytes f') @ pending_bytes ds"
    using Cons.IH [of f' "offset + length ?t"] Cons.prems f' by (auto simp: pending_ok_def)
  with d r f' Cons.prems show ?case by (simp add: du_len_bytes)
qed simp

text \<open>The state of a receiver in the middle of an SDU.\<close>

definition reassembling :: "delim_def_priv \<Rightarrow> du_list \<Rightarrow> bool" where
  "reassembling p ds \<longleftrightarrow> reassembly_in_process p \<and> pending_dus p = Some ds \<and> pending_ok ds \<and>
     total_length p = int (length (pending_bytes ds))"

definition idle :: "delim_def_priv \<Rightarrow> bool" where
  "idle p \<longleftrightarrow> p = \<lparr>pending_dus = Some [], reassembly_in_process = False, total_length = 0\<rparr>"

lemma append_pending_Done:
  assumes "reassembling p ds" "du_ok d" "du_bytes d \<noteq> []"
  shows "\<exists>p'. append_pending_du [] p d = Done (0, p', []) \<and> reassembling p' (ds @ [d])"
  using assms
  by (simp add: reassembling_def append_pending_du_def du_len_bytes add_du_to_list_def Let_def
      pending_ok_def of_nat_diff Suc_leI)

lemma reset_idle: "pending_dus p = Some ds \<Longrightarrow> idle (delim_def_priv_reset p)"
  by (simp add: idle_def delim_def_priv_reset_def du_list_clear_def)

lemma process_first_Done:
  assumes "idle p" "du_ok d" "du_bytes d = 0x05 # b"
  shows "\<exists>p'. default_delim_process_udf [] mem (Some dl) (Some p) d l = Done (0, Some p', l, []) \<and>
    reassembling p' [d]"
proof -
  have "reassembling (p\<lparr>reassembly_in_process := True\<rparr>) []"
    using assms(1) by (simp add: reassembling_def idle_def pending_ok_def)
  from append_pending_Done [OF this assms(2)] assms show ?thesis
    by (auto simp: default_delim_process_udf_def du_read_bytes process_first_fragment_def idle_def)
qed

lemma process_mid_Done:
  assumes "reassembling p ds" "du_ok d" "du_bytes d = 0x04 # b"
  shows "\<exists>p'. default_delim_process_udf [] mem (Some dl) (Some p) d l = Done (0, Some p', l, []) \<and>
    reassembling p' (ds @ [d])"
  using append_pending_Done [OF assms(1,2)] assms
  by (auto simp: default_delim_process_udf_def du_read_bytes process_mid_fragment_def
      reassembling_def)

lemma process_last_Done:
  assumes "reassembling p ds" "du_ok d" "du_bytes d = 0x06 # b"
  shows "\<exists>p' f. default_delim_process_udf [] mem (Some dl) (Some p) d l = Done (0, Some p', l @ [f], []) \<and>
    idle p' \<and> du_ok f \<and> du_bytes f = pending_bytes ds @ b"
proof -
  obtain p1 where p1: "append_pending_du [] p d = Done (0, p1, [])" "reassembling p1 (ds @ [d])"
    using append_pending_Done [OF assms(1,2)] assms(3) by auto
  let ?n = "length (pending_bytes (ds @ [d]))"
  have p1': "pending_dus p1 = Some (ds @ [d])" "total_length p1 = int ?n" "pending_ok (ds @ [d])"
    using p1(2) by (simp_all add: reassembling_def)
  obtain f where f: "du_create [] mem ?n = Done (Some f, [])" using du_create_Nil by blast
  then have "du_ok f" "length (du_bytes f) = 0 + ?n" using du_create_Done by auto
  from copy_pending_Done [OF p1'(3) this] obtain f' where
    f': "copy_pending (ds @ [d]) 0 f = Done f'" "du_ok f'" "du_bytes f' = pending_bytes (ds @ [d])"
    by auto
  have "process_last_fragment [] mem p d l = Done (0, delim_def_priv_reset p1, l @ [f'], [])"
    using assms(1) p1(1) p1' f f'(1)
    by (simp add: process_last_fragment_def process_mid_fragment_def reassembling_def
        add_du_to_list_def del: pending_bytes_simps)
  with f' assms(2,3) reset_idle [OF p1'(1)] show ?thesis
    by (simp add: default_delim_process_udf_def du_read_bytes)
qed

lemma process_single_Done:
  assumes "du_ok d" "du_bytes d = 0x07 # b"
  shows "\<exists>f. default_delim_process_udf [] mem (Some dl) (Some p) d l = Done (0, Some p, l @ [f], []) \<and>
    du_ok f \<and> du_bytes f = b"
  using assms du_head_shrink_bytes [OF assms(1), of 1]
  by (auto simp: default_delim_process_udf_def du_read_bytes process_single_full_sdu_def
      add_du_to_list_def)

lemma process_all_rest:
  assumes "reassembling p ds" "list_all du_ok fs" "map du_bytes fs = udf_list m False b" "b \<noteq> []" "0 < m"
  shows "\<exists>p' f. process_all mem (Some dl) (Some p) fs l = Done (Some p', l @ [f]) \<and> idle p' \<and>
    du_ok f \<and> du_bytes f = pending_bytes ds @ b"
  using assms
proof (induction "length b" arbitrary: b p ds fs rule: less_induct)
  case less
  from less.prems(3-5) obtain f fs' where fs: "fs = f # fs'"
    "du_bytes f = (if length b \<le> m then 0x06 else 0x04) # take m b"
    "map du_bytes fs' = udf_list m False (drop m b)"
    by (auto simp: udf_list.simps [of m False b])
  show ?case
  proof (cases "length b \<le> m")
    case True
    with fs have "fs' = []" by (simp add: udf_list.simps)
    with process_last_Done [of p ds f b mem dl l] less.prems fs True show ?thesis by auto
  next
    case False
    with fs(2) have "du_bytes f = 0x04 # take m b" by simp
    with process_mid_Done [of p ds f "take m b" mem dl l] less.prems fs obtain p' where
      p': "default_delim_process_udf [] mem (Some dl) (Some p) f l = Done (0, Some p', l, [])"
        "reassembling p' (ds @ [f])" by auto
    from less.hyps [of "drop m b" p' "ds @ [f]" fs'] p' less.prems fs False show ?thesis by auto
  qed
qed

lemma process_all_udfs:
  assumes "idle p" "list_all du_ok fs" "map du_bytes fs = udf_list m True b" "b \<noteq> []" "m < length b"
    "0 < m"
  shows "\<exists>p' f. process_all mem (Some dl) (Some p) fs l = Done (Some p', l @ [f]) \<and> idle p' \<and>
    du_ok f \<and> du_bytes f = b"
proof -
  from assms(3-6) obtain f fs' where fs: "fs = f # fs'" "du_bytes f = 0x05 # take m b"
    "map du_bytes fs' = udf_list m False (drop m b)"
    by (auto simp: udf_list.simps [of m True b])
  with process_first_Done [of p f "take m b" mem dl l] assms(1,2) obtain p' where
    p': "default_delim_process_udf [] mem (Some dl) (Some p) f l = Done (0, Some p', l, [])"
      "reassembling p' [f]" by auto
  from process_all_rest [OF p'(2), of fs' m "drop m b" mem dl l] p' fs assms show ?thesis by auto
qed

lemma udf_list_short: "xs \<in> set (udf_list m first b) \<Longrightarrow> length xs \<le> Suc m"
  by (induction m first b rule: udf_list.induct) (subst (asm) udf_list.simps, auto split: if_splits)

text \<open>What \<^verbatim>\<open>default_delim_fragment\<close> produces when memory suffices.\<close>

lemma delim_fragment_Done:
  assumes "du_ok d" "head_growable eok 1 d" "0 < max_fragment_size dl"
  shows "\<exists>fs. default_delim_fragment eok [] mem (Some dl) d [] = Some (Done (0, fs, [])) \<and>
    list_all du_ok fs \<and> map du_bytes fs =
      (if length (du_bytes d) \<le> unat (max_fragment_size dl) then [0x07 # du_bytes d]
       else udf_list (unat (max_fragment_size dl)) True (du_bytes d))"
proof (cases "length (du_bytes d) \<le> unat (max_fragment_size dl)")
  case True
  with fragment_single_Done [OF assms(1,2), of mem "[]"] assms(1) show ?thesis
    by (auto simp: default_delim_fragment_def du_len_bytes)
next
  case False
  have "0 < unat (max_fragment_size dl)" using assms(3) by (simp add: word_less_nat_alt)
  from fragment_loop_Done [OF assms(1) this, of "length (du_bytes d)" 0 mem True "[]"] False assms(1)
  show ?thesis by (auto simp: default_delim_fragment_def du_len_bytes)
qed

lemma num_udfs_udf_list:
  assumes "0 < m" "uint m < 2 ^ 31" "length b < 2 ^ 31"
  shows "num_udfs_loop m (int (length b)) n = Some (n + int (length (udf_list (unat m) first b)))"
  using assms(3)
proof (induction "length b" arbitrary: b n first rule: less_induct)
  case less
  have m: "0 < unat m" using assms(1) by (simp add: word_less_nat_alt)
  show ?case
  proof (cases "b = []")
    case True
    then show ?thesis by (simp add: num_udfs_loop.simps udf_list.simps)
  next
    case False
    let ?k = "int (length b) - uint m"
    have k: "signed_take_bit 31 ?k = ?k"
    proof (rule signed_take_bit_int_eq_self)
      have "int (length b) < 2 ^ 31" "0 \<le> uint m" using less.prems by simp_all
      then show "- (2 ^ 31) \<le> ?k" "?k < 2 ^ 31" using assms(2) by linarith+
    qed
    show ?thesis
    proof (cases "length b \<le> unat m")
      case True
      then have "?k \<le> 0" by (metis diff_le_0_iff_le of_nat_le_iff of_nat_unat)
      with True k False m show ?thesis
        by (simp add: num_udfs_loop.simps [of m "int (length b)"] num_udfs_loop.simps [of m ?k]
            udf_list.simps [of _ first b] udf_list.simps [of _ False "[]"])
    next
      case False
      then have kk: "?k = int (length (drop (unat m) b))" by (simp add: of_nat_diff)
      have "num_udfs_loop m (int (length b)) n = num_udfs_loop m (signed_take_bit 31 ?k) (n + 1)"
        using \<open>b \<noteq> []\<close> by (subst num_udfs_loop.simps) simp
      also have "\<dots> = num_udfs_loop m (int (length (drop (unat m) b))) (n + 1)"
        by (simp only: k, simp only: kk)
      also have "\<dots> = Some (n + 1 + int (length (udf_list (unat m) False (drop (unat m) b))))"
        by (rule less.hyps) (use less.prems m \<open>b \<noteq> []\<close> in simp_all)
      finally show ?thesis
        using m \<open>b \<noteq> []\<close> by (simp add: udf_list.simps [of _ first b])
    qed
  qed
qed

section \<open>Properties\<close>

definition sample_du :: du where
  "sample_du = \<lparr>du_cfg = None, du_pci_h = None, du_pci_len = 0,
     du_skb = Some \<lparr>sk_buf = replicate 10 0 @ [1, 2, 3, 4, 5], sk_data = 10, sk_len = 5, sk_users = 1\<rparr>\<rparr>"

lemma sample_du_facts:
  "du_ok sample_du" "head_growable True 1 sample_du" "du_bytes sample_du = [1, 2, 3, 4, 5]"
  by (simp_all add: sample_du_def du_ok_def skb_ok_def head_growable_def pci_gap_def skb_headroom_def
      du_bytes_def skb_bytes_def)



text \<open>
  Counting: for a non-empty SDU below two gigabytes and a positive maximum fragment size in
  the signed range, \<^verbatim>\<open>default_delim_num_udfs\<close> returns, and its answer is the number of user data
  fields that \<^verbatim>\<open>default_delim_fragment\<close> produces.
\<close>

lemma delim_num_udfs_agrees:
  assumes "du_ok d" "head_growable eok 1 d" "0 < max_fragment_size dl"
    "uint (max_fragment_size dl) < 2 ^ 31" "du_bytes d \<noteq> []" "length (du_bytes d) < 2 ^ 31"
  shows "\<exists>fs. default_delim_fragment eok [] mem (Some dl) d [] = Some (Done (0, fs, [])) \<and>
    default_delim_num_udfs (Some dl) d = Some (Done (int (length fs)))"
proof -
  let ?m = "unat (max_fragment_size dl)" and ?b = "du_bytes d"
  have m: "0 < ?m" using assms(3) by (simp add: word_less_nat_alt)
  obtain fs where fs: "default_delim_fragment eok [] mem (Some dl) d [] = Some (Done (0, fs, []))"
    "map du_bytes fs = (if length ?b \<le> ?m then [0x07 # ?b] else udf_list ?m True ?b)"
    using delim_fragment_Done [OF assms(1-3)] by blast
  have "length (udf_list ?m True ?b) = length (map du_bytes fs)"
  proof (cases "length ?b \<le> ?m")
    case True
    with fs(2) m assms(5) show ?thesis
      by (simp add: udf_list.simps [of _ True] udf_list.simps [of _ False "[]"])
  qed (use fs(2) in simp)
  with num_udfs_udf_list [OF assms(3,4,6), of 0 True] fs(1) assms(1) show ?thesis
    by (simp add: default_delim_num_udfs_def du_len_bytes)
qed

section \<open>Where the code goes wrong\<close>

text \<open>An empty SDU is sent as one user data field but counted as none.\<close>

lemma num_udfs_empty: "du_ok d \<Longrightarrow> du_bytes d = [] \<Longrightarrow> default_delim_num_udfs (Some dl) d = Some (Done 0)"
  by (simp add: default_delim_num_udfs_def du_len_bytes num_udfs_loop.simps)

text \<open>A middle fragment without a first one is dropped, but the answer is 0.\<close>

lemma orphan_mid_fragment_answers_0:
  assumes "idle p" "du_ok d" "du_bytes d = 0x04 # b"
  shows "\<exists>p'. default_delim_process_udf ms mem (Some dl) (Some p) d l = Done (0, Some p', l, ms)"
  using assms
  by (simp add: default_delim_process_udf_def du_read_bytes process_mid_fragment_def idle_def)

text \<open>With a maximum fragment size of 0 the fragmentation of a non-empty SDU never returns.\<close>

lemma fragment_loop_diverges_aux:
  "fragment_loop mem m d pending offset first ms l = Some r \<Longrightarrow>
     m = 0 \<Longrightarrow> du_ok d \<Longrightarrow> 0 < pending \<Longrightarrow> offset \<le> length (du_bytes d) \<Longrightarrow> ms = [] \<Longrightarrow> False"
proof (induction mem m d pending offset first ms l r
    rule: fragment_loop.raw_induct [rotated, consumes 1, case_names step])
  case (step loop mem m d pending offset first ms l r)
  obtain f where "copy_du_fragment_to_list [] mem 0 offset (if first then 5 else 4) d l =
      Done (0, l @ [f], [])"
    using copy_du_fragment_Done [of d offset 0 mem] step.prems by auto
  with step(2) step.prems have "loop mem 0 d pending offset False [] (l @ [f]) = Some r"
    by (simp add: Let_def split: if_splits)
  from step(1) [OF this] step.prems show False by simp
qed

lemma fragment_diverges_without_size:
  assumes "du_ok d" "du_bytes d \<noteq> []" "max_fragment_size dl = 0"
  shows "default_delim_fragment eok [] mem (Some dl) d l = None"
proof (cases "fragment_loop mem 0 d (length (du_bytes d)) 0 True [] l")
  case None
  with assms show ?thesis by (simp add: default_delim_fragment_def du_len_bytes)
next
  case (Some r)
  from fragment_loop_diverges_aux [OF this] assms have False by simp
  then show ?thesis ..
qed

end
