(* ===== verification/Pff.thy ===== *)
theory Pff
  imports Pci
begin

text \<open>
  The PDU forwarding function: the default policy set (\<^verbatim>\<open>kernel/pff-ps-default.c\<close>) with its list of
  entries, and the dispatch of \<^verbatim>\<open>kernel/pff.c\<close>.

  A pointer to an entry of the list is the index of the entry. The work items that mirror the
  entries in sysfs are not modelled.
\<close>

section \<open>Entries\<close>

record pft_entry =
  pe_destination :: address_t
  pe_qos_id :: qos_id_t
  pe_ports :: "port_id_t list"

type_synonym pff_ps_priv = "pft_entry list"

text \<open>An alternative list of ports is the list \<open>ports\<close>; its \<^verbatim>\<open>num_ports\<close> is the length.\<close>

record mod_pff_entry =
  fwd_info :: address_t
  mp_qos_id :: qos_id_t
  port_id_altlists :: "port_id_t list list"

definition pfte_create :: "address_t \<Rightarrow> qos_id_t \<Rightarrow> pft_entry" where
  "pfte_create destination qos_id =
     \<lparr>pe_destination = destination, pe_qos_id = qos_id, pe_ports = []\<rparr>"

definition pfte_port_find :: "pft_entry \<Rightarrow> port_id_t \<Rightarrow> port_id_t ptr" where
  "pfte_port_find e i = find (\<lambda>p. p = i) (pe_ports e)"

definition pfte_port_add :: "allocs \<Rightarrow> pft_entry \<Rightarrow> port_id_t \<Rightarrow> rc \<times> pft_entry \<times> allocs" where
  "pfte_port_add ms e i =
     (if pfte_port_find e i \<noteq> None then (0, e, ms)
      else case rkmalloc ms of
             (False, ms') \<Rightarrow> (-1, e, ms')
           | (True, ms') \<Rightarrow> (0, e\<lparr>pe_ports := i # pe_ports e\<rparr>, ms'))"

definition pfte_port_remove :: "pft_entry \<Rightarrow> port_id_t \<Rightarrow> pft_entry" where
  "pfte_port_remove e i = e\<lparr>pe_ports := remove1 i (pe_ports e)\<rparr>"

text \<open>
  The caller hands over an array \<open>old\<close> of ports, which is replaced when it has not the size of the
  entry's list; the new array is the result.
\<close>

definition pfte_ports_copy :: "allocs \<Rightarrow> pft_entry \<Rightarrow> port_id_t list \<Rightarrow> rc \<times> port_id_t list \<times> allocs" where
  "pfte_ports_copy ms e old =
     (if length old \<noteq> length (pe_ports e)
      then (if length (pe_ports e) > 0
            then (case rkmalloc ms of
                    (False, ms') \<Rightarrow> (-1, [], ms')
                  | (True, ms') \<Rightarrow> (0, pe_ports e, ms'))
            else (0, [], ms))
      else (0, pe_ports e, ms))"

section \<open>The table\<close>

definition pft_match :: "address_t \<Rightarrow> qos_id_t \<Rightarrow> pft_entry \<Rightarrow> bool" where
  "pft_match d q e \<longleftrightarrow> pe_destination e = d \<and> (pe_qos_id e = 0 \<or> pe_qos_id e = q)"

fun pft_find :: "pff_ps_priv \<Rightarrow> address_t \<Rightarrow> qos_id_t \<Rightarrow> nat ptr" where
  "pft_find [] d q = None"
| "pft_find (e # es) d q = (if pft_match d q e then Some 0 else map_option Suc (pft_find es d q))"

definition pfte_destroy :: "pff_ps_priv \<Rightarrow> nat \<Rightarrow> pff_ps_priv" where
  "pfte_destroy es i = take i es @ drop (Suc i) es"

text \<open>The loop over the alternatives: the first port of each list that has one.\<close>

fun add_alts :: "allocs \<Rightarrow> pft_entry \<Rightarrow> port_id_t list list \<Rightarrow> rc \<times> pft_entry \<times> allocs" where
  "add_alts ms e [] = (0, e, ms)"
| "add_alts ms e ([] # as) = add_alts ms e as"
| "add_alts ms e ((p # ps) # as) =
     (case pfte_port_add ms e p of
        (c, e', ms') \<Rightarrow> if c \<noteq> 0 then (-1, e', ms') else add_alts ms' e' as)"

definition pff_add_entry :: "allocs \<Rightarrow> pff_ps_priv \<Rightarrow> mod_pff_entry \<Rightarrow> rc \<times> pff_ps_priv \<times> allocs" where
  "pff_add_entry ms es m =
     (let add = (\<lambda>ms1 es1 i.
            case add_alts ms1 (es1 ! i) (port_id_altlists m) of
              (c, e, ms2) \<Rightarrow> if c \<noteq> 0 then (-1, pfte_destroy es1 i, ms2) else (0, es1[i := e], ms2))
      in case pft_find es (fwd_info m) (mp_qos_id m) of
           Some i \<Rightarrow> add ms es i
         | None \<Rightarrow>
             (case rkmalloc ms of
                (False, ms') \<Rightarrow> (-1, es, ms')
              | (True, ms') \<Rightarrow> add ms' (pfte_create (fwd_info m) (mp_qos_id m) # es) 0))"

definition default_add ::
    "allocs \<Rightarrow> pff_ps_priv ptr \<Rightarrow> mod_pff_entry ptr \<Rightarrow> rc \<times> pff_ps_priv ptr \<times> allocs" where
  "default_add ms q mq =
     (case (q, mq) of
        (Some es, Some m) \<Rightarrow>
          (if \<not> is_address_ok (fwd_info m) then (-1, q, ms)
           else if \<not> is_qos_id_ok (mp_qos_id m) then (-1, q, ms)
           else case pff_add_entry ms es m of (c, es', ms') \<Rightarrow> (c, Some es', ms'))
      | _ \<Rightarrow> (-1, q, ms))"

fun remove_alts :: "pft_entry \<Rightarrow> port_id_t list list \<Rightarrow> pft_entry" where
  "remove_alts e [] = e"
| "remove_alts e ([] # as) = remove_alts e as"
| "remove_alts e ((p # ps) # as) = remove_alts (pfte_port_remove e p) as"

definition default_remove :: "pff_ps_priv ptr \<Rightarrow> mod_pff_entry ptr \<Rightarrow> rc \<times> pff_ps_priv ptr" where
  "default_remove q mq =
     (case (q, mq) of
        (Some es, Some m) \<Rightarrow>
          (if \<not> is_address_ok (fwd_info m) then (-1, q)
           else if \<not> is_qos_id_ok (mp_qos_id m) then (-1, q)
           else case pft_find es (fwd_info m) (mp_qos_id m) of
                  None \<Rightarrow> (-1, q)
                | Some i \<Rightarrow>
                    (let e = remove_alts (es ! i) (port_id_altlists m)
                     in (0, Some (if pe_ports e = [] then pfte_destroy es i else es[i := e]))))
      | _ \<Rightarrow> (-1, q))"

definition default_is_empty :: "pff_ps_priv ptr \<Rightarrow> bool" where
  "default_is_empty q = (case q of None \<Rightarrow> False | Some es \<Rightarrow> es = [])"

definition default_flush :: "pff_ps_priv ptr \<Rightarrow> rc \<times> pff_ps_priv ptr" where
  "default_flush q = (case q of None \<Rightarrow> (-1, None) | Some es \<Rightarrow> (0, Some []))"

text \<open>The loop of the modification; the answers of the single additions are not looked at.\<close>

fun modify_loop :: "allocs \<Rightarrow> pff_ps_priv \<Rightarrow> mod_pff_entry list \<Rightarrow> pff_ps_priv \<times> allocs" where
  "modify_loop ms es [] = (es, ms)"
| "modify_loop ms es (m # xs) =
     (if \<not> is_address_ok (fwd_info m) then modify_loop ms es xs
      else if \<not> is_qos_id_ok (mp_qos_id m) then modify_loop ms es xs
      else case pff_add_entry ms es m of (c, es', ms') \<Rightarrow> modify_loop ms' es' xs)"

definition default_modify ::
    "allocs \<Rightarrow> pff_ps_priv ptr \<Rightarrow> mod_pff_entry list \<Rightarrow> rc \<times> pff_ps_priv ptr \<times> allocs" where
  "default_modify ms q xs =
     (case q of
        None \<Rightarrow> (-1, None, ms)
      | Some es \<Rightarrow> (case modify_loop ms [] xs of (es', ms') \<Rightarrow> (0, Some es', ms')))"

text \<open>The destination and the QoS-id are those of the PDU's control information.\<close>

definition default_nhop ::
    "allocs \<Rightarrow> pff_ps_priv ptr \<Rightarrow> address_t \<Rightarrow> qos_id_t \<Rightarrow> port_id_t list \<Rightarrow> rc \<times> port_id_t list \<times> allocs" where
  "default_nhop ms q destination qos_id old =
     (case q of
        None \<Rightarrow> (-1, old, ms)
      | Some es \<Rightarrow>
          (if \<not> is_address_ok destination then (-1, old, ms)
           else if \<not> is_qos_id_ok qos_id then (-1, old, ms)
           else case pft_find es destination qos_id of
                  None \<Rightarrow> (-1, old, ms)
                | Some i \<Rightarrow>
                    (case pfte_ports_copy ms (es ! i) old of
                       (c, ports, ms') \<Rightarrow> (if c \<noteq> 0 then -1 else 0, ports, ms'))))"

definition altlists_of :: "port_id_t list \<Rightarrow> port_id_t list list" where
  "altlists_of ps = map (\<lambda>p. [p]) ps"

text \<open>Each dumped entry takes one allocation, and two for each of its ports.\<close>

fun dump_loop :: "allocs \<Rightarrow> pff_ps_priv \<Rightarrow> mod_pff_entry list \<Rightarrow> rc \<times> mod_pff_entry list \<times> allocs" where
  "dump_loop ms [] out = (0, out, ms)"
| "dump_loop ms (e # es) out =
     (case rkmalloc_n (1 + 2 * length (pe_ports e)) ms of
        (False, ms') \<Rightarrow> (-1, out, ms')
      | (True, ms') \<Rightarrow>
          dump_loop ms' es
            (\<lparr>fwd_info = pe_destination e, mp_qos_id = pe_qos_id e,
               port_id_altlists = altlists_of (pe_ports e)\<rparr> # out))"

definition default_dump ::
    "allocs \<Rightarrow> pff_ps_priv ptr \<Rightarrow> mod_pff_entry list \<Rightarrow> rc \<times> mod_pff_entry list \<times> allocs" where
  "default_dump ms q out = (case q of None \<Rightarrow> (-1, out, ms) | Some es \<Rightarrow> dump_loop ms es out)"

section \<open>pff.c\<close>

text \<open>
  A policy set is the record of its functions; an instance is the policy set it has selected with
  the private state of that set. Every dispatch turns any answer of the policy but 0 into -1.
\<close>

record 's pff_ps =
  ps_add :: "allocs \<Rightarrow> 's \<Rightarrow> mod_pff_entry ptr \<Rightarrow> rc \<times> 's \<times> allocs"
  ps_remove :: "'s \<Rightarrow> mod_pff_entry ptr \<Rightarrow> rc \<times> 's"
  ps_is_empty :: "'s \<Rightarrow> bool"
  ps_flush :: "'s \<Rightarrow> rc \<times> 's"
  ps_modify :: "allocs \<Rightarrow> 's \<Rightarrow> mod_pff_entry list \<Rightarrow> rc \<times> 's \<times> allocs"
  ps_nhop :: "allocs \<Rightarrow> 's \<Rightarrow> address_t \<Rightarrow> qos_id_t \<Rightarrow> port_id_t list \<Rightarrow> rc \<times> port_id_t list \<times> allocs"
  ps_dump :: "allocs \<Rightarrow> 's \<Rightarrow> mod_pff_entry list \<Rightarrow> rc \<times> mod_pff_entry list \<times> allocs"
  ps_port_state_change :: "('s \<Rightarrow> port_id_t \<Rightarrow> bool \<Rightarrow> rc \<times> 's) ptr"

record 's pff =
  pf_ps :: "'s pff_ps"
  pf_priv :: 's

definition to_rc :: "rc \<Rightarrow> rc" where
  "to_rc c = (if c \<noteq> 0 then -1 else 0)"

definition pff_is_empty :: "'s pff ptr \<Rightarrow> bool" where
  "pff_is_empty q = (case q of None \<Rightarrow> True | Some f \<Rightarrow> ps_is_empty (pf_ps f) (pf_priv f))"

definition pff_flush :: "'s pff ptr \<Rightarrow> rc \<times> 's pff ptr" where
  "pff_flush q =
     (case q of
        None \<Rightarrow> (-1, None)
      | Some f \<Rightarrow> (case ps_flush (pf_ps f) (pf_priv f) of (c, s) \<Rightarrow> (to_rc c, Some (f\<lparr>pf_priv := s\<rparr>))))"

definition pff_add :: "allocs \<Rightarrow> 's pff ptr \<Rightarrow> mod_pff_entry ptr \<Rightarrow> rc \<times> 's pff ptr \<times> allocs" where
  "pff_add ms q m =
     (case q of
        None \<Rightarrow> (-1, None, ms)
      | Some f \<Rightarrow>
          (if m = None then (-1, q, ms)
           else case ps_add (pf_ps f) ms (pf_priv f) m of
                  (c, s, ms') \<Rightarrow> (to_rc c, Some (f\<lparr>pf_priv := s\<rparr>), ms')))"

definition pff_remove :: "'s pff ptr \<Rightarrow> mod_pff_entry ptr \<Rightarrow> rc \<times> 's pff ptr" where
  "pff_remove q m =
     (case q of
        None \<Rightarrow> (-1, None)
      | Some f \<Rightarrow>
          (if m = None then (-1, q)
           else case ps_remove (pf_ps f) (pf_priv f) m of
                  (c, s) \<Rightarrow> (to_rc c, Some (f\<lparr>pf_priv := s\<rparr>))))"

definition pff_port_state_change :: "'s pff ptr \<Rightarrow> port_id_t \<Rightarrow> bool \<Rightarrow> rc \<times> 's pff ptr" where
  "pff_port_state_change q i up =
     (case q of
        None \<Rightarrow> (-1, None)
      | Some f \<Rightarrow>
          (case ps_port_state_change (pf_ps f) of
             None \<Rightarrow> (0, q)
           | Some g \<Rightarrow> (case g (pf_priv f) i up of (c, s) \<Rightarrow> (to_rc c, Some (f\<lparr>pf_priv := s\<rparr>)))))"

text \<open>\<open>pci\<close> is the destination and QoS-id of the control information, if that is valid.\<close>

definition pff_nhop ::
    "allocs \<Rightarrow> 's pff ptr \<Rightarrow> (address_t \<times> qos_id_t) ptr \<Rightarrow> port_id_t list \<Rightarrow> rc \<times> port_id_t list \<times> allocs" where
  "pff_nhop ms q pci old =
     (case q of
        None \<Rightarrow> (-1, old, ms)
      | Some f \<Rightarrow>
          (case pci of
             None \<Rightarrow> (-1, old, ms)
           | Some (d, qos) \<Rightarrow>
               (case ps_nhop (pf_ps f) ms (pf_priv f) d qos old of
                  (c, ports, ms') \<Rightarrow> (to_rc c, ports, ms'))))"

definition pff_dump :: "allocs \<Rightarrow> 's pff ptr \<Rightarrow> mod_pff_entry list \<Rightarrow> rc \<times> mod_pff_entry list \<times> allocs" where
  "pff_dump ms q out =
     (case q of
        None \<Rightarrow> (-1, out, ms)
      | Some f \<Rightarrow>
          (case ps_dump (pf_ps f) ms (pf_priv f) out of (c, out', ms') \<Rightarrow> (to_rc c, out', ms')))"

definition pff_modify :: "allocs \<Rightarrow> 's pff ptr \<Rightarrow> mod_pff_entry list \<Rightarrow> rc \<times> 's pff ptr \<times> allocs" where
  "pff_modify ms q xs =
     (case q of
        None \<Rightarrow> (-1, None, ms)
      | Some f \<Rightarrow>
          (case ps_modify (pf_ps f) ms (pf_priv f) xs of
             (c, s, ms') \<Rightarrow> (to_rc c, Some (f\<lparr>pf_priv := s\<rparr>), ms')))"

text \<open>The default policy set; it has no port state change policy.\<close>

definition pff_ps_default :: "pff_ps_priv ptr pff_ps" where
  "pff_ps_default =
     \<lparr>ps_add = default_add, ps_remove = default_remove, ps_is_empty = default_is_empty,
       ps_flush = default_flush, ps_modify = default_modify, ps_nhop = default_nhop,
       ps_dump = default_dump, ps_port_state_change = None\<rparr>"

section \<open>The contract of a forwarding table\<close>

text \<open>
  Abstractly a table maps pairs of destination and QoS-id to sets of ports. An addition joins the
  first port of every alternative, a removal takes them away and drops the pair with its last port,
  a modification starts from the empty table.
\<close>

type_synonym fwd_table = "address_t \<times> qos_id_t \<Rightarrow> port_id_t set option"

definition first_ports :: "mod_pff_entry \<Rightarrow> port_id_t set" where
  "first_ports m = set (concat (map (take 1) (port_id_altlists m)))"

definition mod_ok :: "mod_pff_entry \<Rightarrow> bool" where
  "mod_ok m \<longleftrightarrow> is_address_ok (fwd_info m) \<and> is_qos_id_ok (mp_qos_id m)"

definition key :: "mod_pff_entry \<Rightarrow> address_t \<times> qos_id_t" where
  "key m = (fwd_info m, mp_qos_id m)"

definition spec_add :: "fwd_table \<Rightarrow> mod_pff_entry \<Rightarrow> fwd_table" where
  "spec_add t m =
     (if mod_ok m then t(key m \<mapsto> (case t (key m) of None \<Rightarrow> {} | Some s \<Rightarrow> s) \<union> first_ports m) else t)"

definition spec_remove :: "fwd_table \<Rightarrow> mod_pff_entry \<Rightarrow> fwd_table" where
  "spec_remove t m =
     (if mod_ok m then
        (case t (key m) of
           None \<Rightarrow> t
         | Some s \<Rightarrow> if s - first_ports m = {} then t(key m := None) else t(key m \<mapsto> s - first_ports m))
      else t)"

datatype pff_op = PffAdd mod_pff_entry | PffRemove mod_pff_entry | PffFlush | PffModify "mod_pff_entry list"

fun spec_step :: "fwd_table \<Rightarrow> pff_op \<Rightarrow> rc \<times> fwd_table" where
  "spec_step t (PffAdd m) = (if mod_ok m then 0 else -1, spec_add t m)"
| "spec_step t (PffRemove m) = (if mod_ok m \<and> t (key m) \<noteq> None then 0 else -1, spec_remove t m)"
| "spec_step t PffFlush = (0, Map.empty)"
| "spec_step t (PffModify xs) = (0, foldl spec_add Map.empty xs)"

fun pff_step :: "'s pff ptr \<Rightarrow> pff_op \<Rightarrow> rc \<times> 's pff ptr" where
  "pff_step q (PffAdd m) = (case pff_add [] q (Some m) of (c, q', _) \<Rightarrow> (c, q'))"
| "pff_step q (PffRemove m) = pff_remove q (Some m)"
| "pff_step q PffFlush = pff_flush q"
| "pff_step q (PffModify xs) = (case pff_modify [] q xs of (c, q', _) \<Rightarrow> (c, q'))"

fun op_entries :: "pff_op \<Rightarrow> mod_pff_entry list" where
  "op_entries (PffAdd m) = [m]"
| "op_entries (PffRemove m) = [m]"
| "op_entries PffFlush = []"
| "op_entries (PffModify xs) = xs"

fun run_ops :: "('s \<Rightarrow> 'o \<Rightarrow> rc \<times> 's) \<Rightarrow> 's \<Rightarrow> 'o list \<Rightarrow> rc list \<times> 's" where
  "run_ops step s [] = ([], s)"
| "run_ops step s (p # ps) =
     (case step s p of (c, s') \<Rightarrow> (case run_ops step s' ps of (cs, s'') \<Rightarrow> (c # cs, s'')))"

locale pff_policy =
  fixes ps :: "'s pff_ps"
    and invar :: "'s \<Rightarrow> bool"
    and abs :: "'s \<Rightarrow> fwd_table"
    and entry_ok :: "mod_pff_entry \<Rightarrow> bool"
  assumes add_code: "invar s \<Longrightarrow> entry_ok m \<Longrightarrow>
      fst (ps_add ps [] s (Some m)) = (if mod_ok m then 0 else -1)"
    and add_abs: "invar s \<Longrightarrow> entry_ok m \<Longrightarrow>
      abs (fst (snd (ps_add ps [] s (Some m)))) = spec_add (abs s) m"
    and add_invar: "invar s \<Longrightarrow> entry_ok m \<Longrightarrow> invar (fst (snd (ps_add ps [] s (Some m))))"
    and remove_code: "invar s \<Longrightarrow> entry_ok m \<Longrightarrow>
      fst (ps_remove ps s (Some m)) = (if mod_ok m \<and> abs s (key m) \<noteq> None then 0 else -1)"
    and remove_abs: "invar s \<Longrightarrow> entry_ok m \<Longrightarrow>
      abs (snd (ps_remove ps s (Some m))) = spec_remove (abs s) m"
    and remove_invar: "invar s \<Longrightarrow> entry_ok m \<Longrightarrow> invar (snd (ps_remove ps s (Some m)))"
    and flush: "invar s \<Longrightarrow> fst (ps_flush ps s) = 0 \<and> abs (snd (ps_flush ps s)) = Map.empty \<and>
      invar (snd (ps_flush ps s))"
    and modify_code: "invar s \<Longrightarrow> fst (ps_modify ps [] s xs) = 0"
    and modify_abs: "invar s \<Longrightarrow> list_all entry_ok xs \<Longrightarrow>
      abs (fst (snd (ps_modify ps [] s xs))) = foldl spec_add Map.empty xs"
    and modify_invar: "invar s \<Longrightarrow> list_all entry_ok xs \<Longrightarrow> invar (fst (snd (ps_modify ps [] s xs)))"
begin

definition inst_ok :: "'s pff ptr \<Rightarrow> bool" where
  "inst_ok q = (case q of None \<Rightarrow> False | Some f \<Rightarrow> pf_ps f = ps \<and> invar (pf_priv f))"

definition inst_abs :: "'s pff ptr \<Rightarrow> fwd_table" where
  "inst_abs q = (case q of None \<Rightarrow> Map.empty | Some f \<Rightarrow> abs (pf_priv f))"

lemma step_refines:
  assumes "inst_ok q" "list_all entry_ok (op_entries p)"
  shows "fst (pff_step q p) = fst (spec_step (inst_abs q) p) \<and>
    inst_abs (snd (pff_step q p)) = snd (spec_step (inst_abs q) p) \<and> inst_ok (snd (pff_step q p))"
proof -
  from assms(1) obtain f where f: "q = Some f" "pf_ps f = ps" "invar (pf_priv f)"
    by (auto simp: inst_ok_def split: option.splits)
  with assms(2) show ?thesis
    by (cases p) (simp_all add: inst_ok_def inst_abs_def split_beta to_rc_def
        pff_add_def add_code add_abs add_invar pff_remove_def remove_code remove_abs remove_invar
        pff_flush_def flush pff_modify_def modify_code modify_abs modify_invar)
qed

lemma run_refines:
  assumes "inst_ok q" "list_all (\<lambda>p. list_all entry_ok (op_entries p)) ops"
  shows "fst (run_ops pff_step q ops) = fst (run_ops spec_step (inst_abs q) ops) \<and>
    inst_abs (snd (run_ops pff_step q ops)) = snd (run_ops spec_step (inst_abs q) ops) \<and>
    inst_ok (snd (run_ops pff_step q ops))"
  using assms
proof (induction ops arbitrary: q)
  case (Cons p ops)
  with step_refines [of q p] Cons.IH [of "snd (pff_step q p)"] show ?case
    by (simp add: split_beta)
qed simp

end

section \<open>The default policy set provides it\<close>

text \<open>
  The entry with QoS-id 0 is a wildcard that matches every QoS-id of its destination. Without
  wildcards the list is a map.
\<close>

definition ekey :: "pft_entry \<Rightarrow> address_t \<times> qos_id_t" where
  "ekey e = (pe_destination e, pe_qos_id e)"

definition table :: "pff_ps_priv \<Rightarrow> fwd_table" where
  "table es = map_of (map (\<lambda>e. (ekey e, set (pe_ports e))) es)"

definition entries_ok :: "pff_ps_priv \<Rightarrow> bool" where
  "entries_ok es \<longleftrightarrow> distinct (map ekey es) \<and>
     list_all (\<lambda>e. is_address_ok (pe_destination e) \<and> is_qos_id_ok (pe_qos_id e) \<and>
       pe_qos_id e \<noteq> 0 \<and> distinct (pe_ports e)) es"

definition pff_inv :: "pff_ps_priv ptr \<Rightarrow> bool" where
  "pff_inv q = (case q of None \<Rightarrow> False | Some es \<Rightarrow> entries_ok es)"

definition pff_abs :: "pff_ps_priv ptr \<Rightarrow> fwd_table" where
  "pff_abs q = (case q of None \<Rightarrow> Map.empty | Some es \<Rightarrow> table es)"

definition no_wildcard :: "mod_pff_entry \<Rightarrow> bool" where
  "no_wildcard m \<longleftrightarrow> mp_qos_id m \<noteq> 0"

lemma table_simps [simp]:
  "table [] = Map.empty" "table (e # es) = (table es)(ekey e \<mapsto> set (pe_ports e))"
  by (simp_all add: table_def)

lemma table_None_iff: "table es k = None \<longleftrightarrow> k \<notin> ekey ` set es"
  by (induction es) auto

lemma pft_find_table:
  assumes "entries_ok es"
  shows "(case pft_find es d q of
            None \<Rightarrow> table es (d, q) = None
          | Some i \<Rightarrow> i < length es \<and> ekey (es ! i) = (d, q) \<and>
              table es (d, q) = Some (set (pe_ports (es ! i))))"
  using assms
proof (induction es)
  case (Cons e es)
  have "pft_match d q e \<longleftrightarrow> ekey e = (d, q)"
    using Cons.prems by (auto simp: pft_match_def ekey_def entries_ok_def)
  with Cons show ?case
    by (auto simp: entries_ok_def split: option.splits)
qed simp

lemma entries_ok_nth:
  "entries_ok es \<Longrightarrow> i < length es \<Longrightarrow> is_address_ok (pe_destination (es ! i)) \<and>
     is_qos_id_ok (pe_qos_id (es ! i)) \<and> pe_qos_id (es ! i) \<noteq> 0 \<and> distinct (pe_ports (es ! i))"
  by (simp add: entries_ok_def list_all_length)

lemma entries_ok_update:
  assumes "entries_ok es" "ekey e = ekey (es ! i)" "distinct (pe_ports e)" "i < length es"
  shows "entries_ok (es[i := e])"
proof -
  have "map ekey (es[i := e]) = map ekey es"
    using assms(2,4) by (metis list_update_id map_update nth_map)
  moreover have "is_address_ok (pe_destination e) \<and> is_qos_id_ok (pe_qos_id e) \<and> pe_qos_id e \<noteq> 0"
    using assms entries_ok_nth [of es i] by (simp add: ekey_def)
  ultimately show ?thesis
    using assms by (simp add: entries_ok_def list_all_length nth_list_update)
qed

lemma table_update:
  "distinct (map ekey es) \<Longrightarrow> i < length es \<Longrightarrow> ekey e = ekey (es ! i) \<Longrightarrow>
     table (es[i := e]) = (table es)(ekey e \<mapsto> set (pe_ports e))"
proof (induction es arbitrary: i)
  case (Cons x es)
  then show ?case
  proof (cases i)
    case (Suc j)
    with Cons.prems have "ekey x \<noteq> ekey e" by auto
    with Suc Cons.prems Cons.IH [of j] show ?thesis by (intro ext) simp
  qed (intro ext, simp)
qed simp

lemma table_destroy:
  "distinct (map ekey es) \<Longrightarrow> i < length es \<Longrightarrow>
     table (pfte_destroy es i) = (table es)(ekey (es ! i) := None)"
proof (induction es arbitrary: i)
  case (Cons x es)
  then show ?case
  proof (cases i)
    case 0
    with Cons.prems show ?thesis by (auto simp: pfte_destroy_def table_None_iff fun_eq_iff)
  next
    case (Suc j)
    with Cons.prems have "ekey x \<noteq> ekey (es ! j)" by auto
    with Suc Cons show ?thesis by (auto simp: pfte_destroy_def fun_upd_twist)
  qed
qed simp

lemma entries_ok_destroy: "entries_ok es \<Longrightarrow> entries_ok (pfte_destroy es i)"
  unfolding entries_ok_def pfte_destroy_def
  by (auto simp: list_all_iff set_take_disj_set_drop_if_distinct simp flip: take_map drop_map
      dest: in_set_takeD in_set_dropD)

lemma add_alts_Nil:
  "distinct (pe_ports e) \<Longrightarrow> \<exists>e'. add_alts [] e as = (0, e', []) \<and> ekey e' = ekey e \<and>
     distinct (pe_ports e') \<and> set (pe_ports e') = set (pe_ports e) \<union> set (concat (map (take 1) as))"
proof (induction as arbitrary: e)
  case (Cons a as)
  show ?case
  proof (cases a)
    case (Cons p ps)
    let ?e = "if p \<in> set (pe_ports e) then e else e\<lparr>pe_ports := p # pe_ports e\<rparr>"
    have e: "pfte_port_add [] e p = (0, ?e, [])"
      by (auto simp: pfte_port_add_def pfte_port_find_def find_None_iff)
    have "distinct (pe_ports ?e)" "ekey ?e = ekey e"
      "set (pe_ports ?e) = insert p (set (pe_ports e))"
      using Cons.prems by (auto simp: ekey_def)
    with Cons.IH [of ?e] e Cons show ?thesis by auto
  qed (use Cons in simp)
qed simp

lemma remove_alts_ports:
  "distinct (pe_ports e) \<Longrightarrow> ekey (remove_alts e as) = ekey e \<and> distinct (pe_ports (remove_alts e as)) \<and>
     set (pe_ports (remove_alts e as)) = set (pe_ports e) - set (concat (map (take 1) as))"
  by (induction e as rule: remove_alts.induct) (auto simp: pfte_port_remove_def ekey_def)

lemma pff_add_entry_Nil:
  assumes "entries_ok es" "no_wildcard m" "mod_ok m"
  shows "\<exists>es'. pff_add_entry [] es m = (0, es', []) \<and> entries_ok es' \<and>
    table es' = (table es)(key m \<mapsto> (case table es (key m) of None \<Rightarrow> {} | Some s \<Rightarrow> s) \<union> first_ports m)"
proof (cases "pft_find es (fwd_info m) (mp_qos_id m)")
  case None
  with pft_find_table [OF assms(1), of "fwd_info m" "mp_qos_id m"] have
    n: "table es (key m) = None" by (simp add: key_def)
  obtain e where e: "add_alts [] (pfte_create (fwd_info m) (mp_qos_id m)) (port_id_altlists m) = (0, e, [])"
    "ekey e = key m" "distinct (pe_ports e)" "set (pe_ports e) = first_ports m"
    using add_alts_Nil [of "pfte_create (fwd_info m) (mp_qos_id m)" "port_id_altlists m"]
    by (auto simp: pfte_create_def ekey_def key_def first_ports_def)
  have "entries_ok (e # es)"
    using assms e n by (auto simp: entries_ok_def table_None_iff no_wildcard_def ekey_def key_def
        mod_ok_def)
  with None e n show ?thesis by (simp add: pff_add_entry_def)
next
  case (Some i)
  with pft_find_table [OF assms(1), of "fwd_info m" "mp_qos_id m"] have
    i: "i < length es" "ekey (es ! i) = key m" "table es (key m) = Some (set (pe_ports (es ! i)))"
    by (simp_all add: key_def)
  obtain e where e: "add_alts [] (es ! i) (port_id_altlists m) = (0, e, [])" "ekey e = key m"
    "distinct (pe_ports e)" "set (pe_ports e) = set (pe_ports (es ! i)) \<union> first_ports m"
    using add_alts_Nil [of "es ! i" "port_id_altlists m"] entries_ok_nth [OF assms(1) i(1)] i(2)
    by (auto simp: first_ports_def)
  have "entries_ok (es[i := e])" using entries_ok_update [OF assms(1)] e i by simp
  moreover have "table (es[i := e]) = (table es)(ekey e \<mapsto> set (pe_ports e))"
    using table_update assms(1) e i by (simp add: entries_ok_def)
  ultimately show ?thesis using Some e i by (simp add: pff_add_entry_def)
qed

lemma modify_loop_Nil:
  assumes "entries_ok es" "list_all no_wildcard xs"
  shows "\<exists>es'. modify_loop [] es xs = (es', []) \<and> entries_ok es' \<and> table es' = foldl spec_add (table es) xs"
  using assms
proof (induction xs arbitrary: es)
  case (Cons m xs)
  show ?case
  proof (cases "mod_ok m")
    case True
    obtain es1 where "pff_add_entry [] es m = (0, es1, [])" "entries_ok es1"
      "table es1 = spec_add (table es) m"
      using pff_add_entry_Nil [of es m] Cons.prems True by (auto simp: spec_add_def)
    with Cons.IH [of es1] Cons.prems True show ?thesis by (auto simp: mod_ok_def)
  next
    case False
    then show ?thesis
      using Cons.IH [OF Cons.prems(1)] Cons.prems by (auto simp: mod_ok_def spec_add_def)
  qed
qed simp

lemma default_add_Nil:
  assumes "pff_inv s" "no_wildcard m"
  shows "\<exists>s'. default_add [] s (Some m) = (if mod_ok m then 0 else -1, s', []) \<and> pff_inv s' \<and>
    pff_abs s' = spec_add (pff_abs s) m"
proof -
  from assms(1) obtain es where es: "s = Some es" "entries_ok es"
    by (auto simp: pff_inv_def split: option.splits)
  with pff_add_entry_Nil [OF es(2) assms(2)] show ?thesis
    by (cases "mod_ok m") (auto simp: default_add_def mod_ok_def spec_add_def pff_inv_def pff_abs_def)
qed

lemma default_remove_spec:
  assumes "pff_inv s" "no_wildcard m"
  shows "\<exists>s'. default_remove s (Some m) = (if mod_ok m \<and> pff_abs s (key m) \<noteq> None then 0 else -1, s') \<and>
    pff_inv s' \<and> pff_abs s' = spec_remove (pff_abs s) m"
proof -
  from assms(1) obtain es where es: "s = Some es" "entries_ok es"
    by (auto simp: pff_inv_def split: option.splits)
  note find = pft_find_table [OF es(2), of "fwd_info m" "mp_qos_id m", folded key_def]
  show ?thesis
  proof (cases "pft_find es (fwd_info m) (mp_qos_id m)")
    case None
    with find es show ?thesis
      by (auto simp: default_remove_def mod_ok_def spec_remove_def pff_inv_def pff_abs_def)
  next
    case (Some i)
    with find have i: "i < length es" "ekey (es ! i) = key m"
      "table es (key m) = Some (set (pe_ports (es ! i)))" by simp_all
    let ?e = "remove_alts (es ! i) (port_id_altlists m)"
    have e: "ekey ?e = key m" "distinct (pe_ports ?e)"
      "set (pe_ports ?e) = set (pe_ports (es ! i)) - first_ports m"
      using remove_alts_ports [of "es ! i"] entries_ok_nth [OF es(2) i(1)] i(2)
      by (simp_all add: first_ports_def)
    have d: "distinct (map ekey es)" using es(2) by (simp add: entries_ok_def)
    show ?thesis
      using Some i e es table_update [OF d i(1), of ?e] table_destroy [OF d i(1)]
        entries_ok_update [OF es(2), of ?e i] entries_ok_destroy [OF es(2), of i]
      by (auto simp: default_remove_def mod_ok_def spec_remove_def pff_inv_def pff_abs_def Let_def
          simp flip: e(3))
  qed
qed

interpretation default_pff: pff_policy pff_ps_default pff_inv pff_abs no_wildcard
proof (unfold_locales, goal_cases)
  case (1 s m) then show ?case using default_add_Nil [of s m] by (auto simp: pff_ps_default_def)
next
  case (2 s m) then show ?case using default_add_Nil [of s m] by (auto simp: pff_ps_default_def)
next
  case (3 s m) then show ?case using default_add_Nil [of s m] by (auto simp: pff_ps_default_def)
next
  case (4 s m) then show ?case using default_remove_spec [of s m] by (auto simp: pff_ps_default_def)
next
  case (5 s m) then show ?case using default_remove_spec [of s m] by (auto simp: pff_ps_default_def)
next
  case (6 s m) then show ?case using default_remove_spec [of s m] by (auto simp: pff_ps_default_def)
next
  case (7 s)
  then show ?case
    by (auto simp: pff_ps_default_def default_flush_def pff_inv_def pff_abs_def entries_ok_def
        split: option.splits)
next
  case (8 s xs)
  then show ?case
    by (auto simp: pff_ps_default_def default_modify_def pff_inv_def split: option.splits prod.splits)
next
  case (9 s xs)
  then show ?case
    using modify_loop_Nil [of "[]" xs]
    by (auto simp: pff_ps_default_def default_modify_def pff_inv_def pff_abs_def entries_ok_def
        split: option.splits)
next
  case (10 s xs)
  then show ?case
    using modify_loop_Nil [of "[]" xs]
    by (auto simp: pff_ps_default_def default_modify_def pff_inv_def entries_ok_def
        split: option.splits)
qed

lemma default_nhop_spec:
  assumes "pff_inv s" "is_address_ok d" "is_qos_id_ok q"
  shows "(case pff_abs s (d, q) of
            None \<Rightarrow> default_nhop [] s d q old = (-1, old, [])
          | Some S \<Rightarrow> \<exists>ps. default_nhop [] s d q old = (0, ps, []) \<and> distinct ps \<and> set ps = S)"
proof -
  from assms(1) obtain es where es: "s = Some es" "entries_ok es"
    by (auto simp: pff_inv_def split: option.splits)
  have c: "pfte_ports_copy [] e old = (0, pe_ports e, [])" for e
    by (auto simp: pfte_ports_copy_def)
  show ?thesis
    using pft_find_table [OF es(2), of d q] es assms(2,3) entries_ok_nth [OF es(2)]
    by (auto simp: default_nhop_def pff_abs_def c split: option.splits)
qed

definition mod_of :: "pft_entry \<Rightarrow> mod_pff_entry" where
  "mod_of e = \<lparr>fwd_info = pe_destination e, mp_qos_id = pe_qos_id e,
     port_id_altlists = altlists_of (pe_ports e)\<rparr>"

lemma dump_loop_Nil: "dump_loop [] es out = (0, rev (map mod_of es) @ out, [])"
  by (induction es arbitrary: out) (simp_all add: mod_of_def)

lemma first_ports_mod_of: "first_ports (mod_of e) = set (pe_ports e)"
  by (auto simp: first_ports_def mod_of_def altlists_of_def)

lemma foldl_dump:
  "entries_ok es \<Longrightarrow> foldl spec_add Map.empty (rev (map mod_of es)) = table es"
proof (induction es)
  case (Cons e es)
  then have "table es (ekey e) = None" by (auto simp: entries_ok_def table_None_iff)
  moreover have "mod_ok (mod_of e)" "key (mod_of e) = ekey e"
    using Cons.prems by (simp_all add: entries_ok_def mod_ok_def mod_of_def key_def ekey_def)
  moreover have "entries_ok es" using Cons.prems by (simp add: entries_ok_def)
  ultimately show ?case
    using Cons.IH by (simp add: spec_add_def first_ports_mod_of)
qed simp

section \<open>Properties\<close>


definition sample_mod :: "address_t \<Rightarrow> qos_id_t \<Rightarrow> port_id_t list \<Rightarrow> mod_pff_entry" where
  "sample_mod d q ps = \<lparr>fwd_info = d, mp_qos_id = q, port_id_altlists = [ps]\<rparr>"


text \<open>
  C10. Dump and modify: replacing any table by the dump of a table without wildcards gives the same
  forwarding behaviour as the dumped table.
\<close>

theorem pff_dump_modify_roundtrip:
  assumes "pff_inv s"
  shows "\<exists>xs s'. default_dump [] s [] = (0, xs, []) \<and>
    default_modify [] (Some es0) xs = (0, s', []) \<and> pff_inv s' \<and> pff_abs s' = pff_abs s"
proof -
  from assms obtain es where es: "s = Some es" "entries_ok es"
    by (auto simp: pff_inv_def split: option.splits)
  have "list_all no_wildcard (rev (map mod_of es))"
    using es(2) by (auto simp: entries_ok_def list_all_iff no_wildcard_def mod_of_def)
  with modify_loop_Nil [of "[]" "rev (map mod_of es)"] foldl_dump [OF es(2)] es show ?thesis
    by (auto simp: default_dump_def dump_loop_Nil default_modify_def pff_inv_def pff_abs_def
        entries_ok_def)
qed

theorem pff_dump_modify_roundtrip_witness:
  "\<exists>xs s'. default_dump []
       (Some [\<lparr>pe_destination = 16, pe_qos_id = 1, pe_ports = [7, 5]\<rparr>,
              \<lparr>pe_destination = 16, pe_qos_id = 2, pe_ports = []\<rparr>]) [] = (0, xs, []) \<and>
     default_modify [] (Some []) xs = (0, s', []) \<and> pff_inv s' \<and>
     pff_abs s' = pff_abs (Some [\<lparr>pe_destination = 16, pe_qos_id = 1, pe_ports = [7, 5]\<rparr>,
              \<lparr>pe_destination = 16, pe_qos_id = 2, pe_ports = []\<rparr>])"
  by (rule pff_dump_modify_roundtrip)
    (simp add: pff_inv_def entries_ok_def ekey_def is_address_ok_def is_qos_id_ok_def)

section \<open>Where the code goes wrong\<close>

text \<open>
  With a wildcard entry in the table, an addition for a particular QoS-id of the same destination
  does not create an entry of its own: its port becomes a next hop of every QoS-id.
\<close>

lemma wildcard_swallows_addition:
  assumes "is_address_ok d" "is_qos_id_ok q" "p \<noteq> r"
  shows "default_add [] (Some [\<lparr>pe_destination = d, pe_qos_id = 0, pe_ports = [p]\<rparr>])
           (Some \<lparr>fwd_info = d, mp_qos_id = q, port_id_altlists = [[r]]\<rparr>) =
         (0, Some [\<lparr>pe_destination = d, pe_qos_id = 0, pe_ports = [r, p]\<rparr>], [])"
  using assms
  by (simp add: default_add_def pff_add_entry_def pft_match_def pfte_port_add_def
      pfte_port_find_def)

text \<open>
  When an addition runs out of memory for a port, the whole entry is destroyed, with the next hops
  that were there before.
\<close>

lemma failed_addition_loses_entry:
  assumes "is_address_ok d" "is_qos_id_ok q" "p \<noteq> r"
  shows "default_add [False] (Some [\<lparr>pe_destination = d, pe_qos_id = q, pe_ports = [p]\<rparr>])
           (Some \<lparr>fwd_info = d, mp_qos_id = q, port_id_altlists = [[r]]\<rparr>) = (-1, Some [], [])"
  using assms
  by (simp add: default_add_def pff_add_entry_def pft_match_def pfte_port_add_def
      pfte_port_find_def pfte_destroy_def)

end
