(* ===== verification/Efcp_Pdu.thy ===== *)
theory Efcp_Pdu
  imports Pci
begin

text \<open>
  PDUs as EFCP sees them. DTP and DTCP reach the header of a PDU only through the accessors of
  \<^verbatim>\<open>kernel/pci.c\<close>. The record \<open>pdu\<close> keeps the values these accessors give; \<open>pdu_hdr\<close> says that the
  bytes of a header stand for a record, and the lemmas show that \<^verbatim>\<open>pci_format\<close> and the setters
  of the control fields act on the record as they act on the bytes.
\<close>

record pdu =
  p_type :: pdu_type_t
  p_flags :: pdu_flags_t
  p_src_cep :: cep_id_t
  p_dst_cep :: cep_id_t
  p_src :: address_t
  p_dst :: address_t
  p_qos :: qos_id_t
  p_seq :: seq_num_t
  p_ctrl :: "ctrl_field \<Rightarrow> u32"
  p_data :: "u8 list"

section \<open>The control accessors on records\<close>

definition pdu_ctrl_get :: "ctrl_field \<Rightarrow> pdu \<Rightarrow> u32" where
  "pdu_ctrl_get f p =
     (case ctrl_index (p_type p) f of
        None \<Rightarrow> (if f \<in> {SndrRate, TimeFrame} then 0 else -1)
      | Some i \<Rightarrow> p_ctrl p f)"

definition pdu_ctrl_set :: "ctrl_field \<Rightarrow> u32 \<Rightarrow> pdu \<Rightarrow> rc \<times> pdu" where
  "pdu_ctrl_set f v p =
     (case ctrl_index (p_type p) f of
        None \<Rightarrow> (-1, p)
      | Some i \<Rightarrow> (0, p\<lparr>p_ctrl := (p_ctrl p)(f := v)\<rparr>))"

text \<open>
  The record that \<^verbatim>\<open>pci_format\<close> gives; the control fields of a new header are what the memory
  held.
\<close>

definition pdu_format ::
    "cep_id_t \<Rightarrow> cep_id_t \<Rightarrow> address_t \<Rightarrow> address_t \<Rightarrow> seq_num_t \<Rightarrow> qos_id_t \<Rightarrow> pdu_flags_t \<Rightarrow> pdu_type_t \<Rightarrow>
     (ctrl_field \<Rightarrow> u32) \<Rightarrow> u8 list \<Rightarrow> pdu" where
  "pdu_format src_cep dst_cep src dst sn qos flags t junk bs =
     \<lparr>p_type = t, p_flags = flags, p_src_cep = src_cep, p_dst_cep = dst_cep, p_src = src,
      p_dst = dst, p_qos = qos, p_seq = sn, p_ctrl = junk, p_data = bs\<rparr>"

section \<open>Headers and records\<close>

definition pdu_hdr :: "efcp_config \<Rightarrow> u8 list \<Rightarrow> pdu \<Rightarrow> bool" where
  "pdu_hdr cfg h p \<longleftrightarrow> pdu_size (ec_dt_cons cfg) (p_type p) \<le> length h \<and> sized_type (p_type p) \<and>
     pci_type cfg h = Done (p_type p) \<and> pci_flags_get cfg h = Done (p_flags p) \<and>
     pci_cep_source cfg h = Done (p_src_cep p) \<and> pci_cep_destination cfg h = Done (p_dst_cep p) \<and>
     pci_source cfg h = Done (p_src p) \<and> pci_destination cfg h = Done (p_dst p) \<and>
     pci_qos_id cfg h = Done (p_qos p) \<and> pci_sequence_number_get cfg h = Done (p_seq p) \<and>
     (\<forall>f. ctrl_get f cfg h = Done (pdu_ctrl_get f p))"

text \<open>Data transfer constants with four byte sequence numbers, rates and time frames.\<close>

definition wide :: "efcp_config \<Rightarrow> bool" where
  "wide cfg \<longleftrightarrow> cfg_ok cfg \<and> (\<forall>f. ctrl_width (ec_dt_cons cfg) f = 4) \<and>
     seq_num_length (ec_dt_cons cfg) = ctrl_seq_num_length (ec_dt_cons cfg)"

lemma ctrl_get_fget:
  assumes "wide cfg" "pdu_size (ec_dt_cons cfg) t \<le> length h" "pci_type cfg h = Done t"
  shows "ctrl_get f cfg h = Done (case ctrl_index t f of
     None \<Rightarrow> (if f \<in> {SndrRate, TimeFrame} then 0 else -1) | Some i \<Rightarrow> fget (ec_dt_cons cfg) i h)"
proof (cases "ctrl_index t f")
  case (Some i)
  then show ?thesis
    using assms ctrl_index_field [OF Some] ctrl_index_width [OF Some, of "ec_dt_cons cfg"]
    by (simp add: ctrl_get_index wide_def PCI_GETTER_fget [of cfg _ t])
qed (use assms in \<open>simp add: ctrl_get_index\<close>)

lemma ctrl_set_fset:
  assumes "wide cfg" "pdu_size (ec_dt_cons cfg) t \<le> length h" "pci_type cfg h = Done t"
  shows "ctrl_set f cfg v h = (case ctrl_index t f of
     None \<Rightarrow> Done (-1, h) | Some i \<Rightarrow> Done (0, fset (ec_dt_cons cfg) i v h))"
proof (cases "ctrl_index t f")
  case (Some i)
  then show ?thesis
    using assms ctrl_index_field [OF Some] ctrl_index_width [OF Some, of "ec_dt_cons cfg"]
    by (simp add: ctrl_set_index wide_def PCI_SETTER_fset [of cfg _ t])
qed (use assms in \<open>simp add: ctrl_set_index\<close>)

lemma pdu_format_hdr:
  assumes "wide cfg" "sized_type t" "pdu_size (ec_dt_cons cfg) t \<le> length h"
    and "pdu_args_fit (ec_dt_cons cfg) src_cep dst_cep src dst sn qos len"
  shows "\<exists>h' junk. pci_format cfg src_cep dst_cep src dst sn qos flags len t h = Done (0, h') \<and>
     length h' = length h \<and>
     pdu_hdr cfg h' (pdu_format src_cep dst_cep src dst sn qos flags t junk bs)"
proof -
  have ok: "cfg_ok cfg" "sn_width_ok (ec_dt_cons cfg) t"
    using assms(1) by (simp_all add: wide_def sn_width_ok_def)
  from pci_format_reads_all [OF ok(1) assms(2) ok(2) assms(3,4), of flags]
  obtain h' where f: "pci_format cfg src_cep dst_cep src dst sn qos flags len t h = Done (0, h')"
    and h': "length h' = length h" "pci_type cfg h' = Done t"
      "pci_cep_source cfg h' = Done src_cep" "pci_cep_destination cfg h' = Done dst_cep"
      "pci_source cfg h' = Done src" "pci_destination cfg h' = Done dst"
      "pci_sequence_number_get cfg h' = Done sn" "pci_qos_id cfg h' = Done qos"
      "pci_flags_get cfg h' = Done flags"
    by blast
  let ?junk = "\<lambda>f. case ctrl_index t f of None \<Rightarrow> 0 | Some i \<Rightarrow> fget (ec_dt_cons cfg) i h'"
  have "pdu_hdr cfg h' (pdu_format src_cep dst_cep src dst sn qos flags t ?junk bs)"
    using h' assms(2,3) ctrl_get_fget [OF assms(1) _ h'(2)]
    by (simp add: pdu_hdr_def pdu_format_def pdu_ctrl_get_def split: option.split)
  with f h'(1) show ?thesis by blast
qed

lemma pdu_ctrl_set_hdr:
  assumes "wide cfg" "pdu_hdr cfg h p"
  shows "\<exists>h'. ctrl_set f cfg v h = Done (fst (pdu_ctrl_set f v p), h') \<and> length h' = length h \<and>
     pdu_hdr cfg h' (snd (pdu_ctrl_set f v p))"
proof (cases "ctrl_index (p_type p) f")
  case None
  with assms show ?thesis
    using ctrl_set_fset [OF assms(1), of "p_type p" h f v] by (simp add: pdu_hdr_def pdu_ctrl_set_def)
next
  case (Some i)
  let ?dc = "ec_dt_cons cfg" and ?t = "p_type p" and ?h = "fset (ec_dt_cons cfg) i v h"
  from assms have h: "pdu_size ?dc ?t \<le> length h" "sized_type ?t" "pci_type cfg h = Done ?t"
    and ok: "cfg_ok cfg" and w4: "ctrl_width ?dc f = 4"
    and eq: "seq_num_length ?dc = ctrl_seq_num_length ?dc"
    by (simp_all add: pdu_hdr_def wide_def)
  note fi = ctrl_index_field [OF Some] ctrl_index_width [OF Some eq]
  have len: "length ?h = length h" using fi h by (simp add: length_fset [of _ ?t])
  have get: "fget ?dc j ?h = (if i = j then v else fget ?dc j h)" if "j \<in> set (pdu_fields ?t)" for j
    using fget_fset [of i ?t j ?dc h v] that fi h w4 by (auto simp: take_bit_word_eq_self)
  have base: "fget ?dc j ?h = fget ?dc j h" if "j \<le> PCI_BASE_LEN" for j
    using get [OF base_in_pdu_fields [OF that]] fi that by auto
  have t': "pci_type cfg ?h = Done ?t"
    using h base_getters(7) [OF ok h(1)] base_getters(7) [OF ok, of ?t ?h] len base by simp
  have sn: "pci_sequence_number_get cfg ?h = pci_sequence_number_get cfg h"
    using sequence_number_get [OF ok _ h(2)] h t' len get [OF sn_field_in [OF h(2)]] fi
    by (simp add: sn_field_def)
  have "ctrl_get g cfg ?h = Done (pdu_ctrl_get g (snd (pdu_ctrl_set f v p)))" for g
  proof (cases "ctrl_index ?t g")
    case None
    then show ?thesis
      using ctrl_get_fget [OF assms(1) _ t', of g] len h(1) Some
      by (simp add: pdu_ctrl_get_def pdu_ctrl_set_def)
  next
    case Some': (Some j)
    have "ctrl_get g cfg ?h = Done (if i = j then v else fget ?dc j h)"
      using ctrl_get_fget [OF assms(1) _ t', of g] len h(1) Some' get [of j] ctrl_index_field [OF Some']
      by simp
    moreover have "p_ctrl p g = fget ?dc j h"
      using ctrl_get_fget [OF assms(1) h(1,3), of g] assms(2) Some'
      by (simp add: pdu_hdr_def pdu_ctrl_get_def)
    moreover have "i = j \<longleftrightarrow> f = g" using ctrl_index_inj [of ?t f i g] Some Some' by auto
    ultimately show ?thesis using Some Some' by (auto simp: pdu_ctrl_get_def pdu_ctrl_set_def)
  qed
  moreover have "pci_flags_get cfg ?h = pci_flags_get cfg h" "pci_cep_source cfg ?h = pci_cep_source cfg h"
    "pci_cep_destination cfg ?h = pci_cep_destination cfg h" "pci_source cfg ?h = pci_source cfg h"
    "pci_destination cfg ?h = pci_destination cfg h" "pci_qos_id cfg ?h = pci_qos_id cfg h"
    using len h(1) by (simp_all add: base_getters [OF ok, of ?t] base)
  ultimately show ?thesis
    using Some ctrl_set_fset [OF assms(1) h(1,3), of f v] assms(2) t' sn len
    by (simp add: pdu_hdr_def pdu_ctrl_set_def)
qed

section \<open>Properties\<close>

fun pdu_ctrl_sets :: "(ctrl_field \<times> u32) list \<Rightarrow> pdu \<Rightarrow> pdu" where
  "pdu_ctrl_sets [] p = p"
| "pdu_ctrl_sets ((f, v) # fs) p = pdu_ctrl_sets fs (snd (pdu_ctrl_set f v p))"

fun hdr_ctrl_sets :: "efcp_config \<Rightarrow> (ctrl_field \<times> u32) list \<Rightarrow> u8 list \<Rightarrow> u8 list outcome" where
  "hdr_ctrl_sets cfg [] h = Done h"
| "hdr_ctrl_sets cfg ((f, v) # fs) h =
     obind (ctrl_set f cfg v h) (\<lambda>(_, h'). hdr_ctrl_sets cfg fs h')"

lemma hdr_ctrl_sets_refines:
  assumes "wide cfg" "pdu_hdr cfg h p"
  shows "\<exists>h'. hdr_ctrl_sets cfg fs h = Done h' \<and> length h' = length h \<and> pdu_hdr cfg h' (pdu_ctrl_sets fs p)"
  using assms(2)
proof (induction fs arbitrary: h p)
  case (Cons fv fs)
  obtain f v where fv: "fv = (f, v)" by (cases fv)
  from pdu_ctrl_set_hdr [OF assms(1) Cons.prems, of f v] Cons.IH show ?case
    by (fastforce simp: fv)
qed simp


lemma sample_wide: "wide (cfg_of sample_dt_cons)"
proof -
  have "ctrl_width sample_dt_cons f = 4" for f by (cases f) (simp_all add: sample_dt_cons_def)
  then show ?thesis by (simp add: wide_def sample_cfg) (simp add: sample_dt_cons_def)
qed


end
