(* ===== verification/Rds_Queues.thy ===== *)
theory Rds_Queues
  imports Rina_Prelude
begin

text \<open>
  The queues of \<^verbatim>\<open>kernel/rds\<close>: \<open>rqueue\<close> (a linked list with a length counter), \<open>rfifo\<close> (a
  wrapper that uses an \<open>rqueue\<close> as a FIFO) and \<open>ringq\<close> (a fixed number of entries on a circular
  list, a cursor to the next free entry and an occupation counter). All three provide the
  contract \<open>fifo_queue\<close> of the prelude.
\<close>

section \<open>rqueue.c\<close>

text \<open>The list is the one reached from \<^verbatim>\<open>q->head\<close>, first entry first.\<close>

record 'a rqueue =
  rq_head :: "'a list"
  rq_length :: nat

definition rqueue_create :: "bool \<Rightarrow> 'a rqueue ptr" where
  "rqueue_create ok = (if ok then Some \<lparr>rq_head = [], rq_length = 0\<rparr> else None)"

definition rqueue_length :: "'a rqueue ptr \<Rightarrow> int" where
  "rqueue_length q = (case q of None \<Rightarrow> -1 | Some r \<Rightarrow> int (rq_length r))"

text \<open>
  The flush deletes entry after entry, counting the length down; the destructor is called on
  the data of each, in this order.
\<close>

fun rqueue_flush_loop :: "'a list \<Rightarrow> nat \<Rightarrow> 'a list \<times> nat" where
  "rqueue_flush_loop [] n = ([], n)"
| "rqueue_flush_loop (x # xs) n = (let (ds, m) = rqueue_flush_loop xs (n - 1) in (x # ds, m))"

definition rqueue_flush :: "'a rqueue \<Rightarrow> 'a list \<times> 'a rqueue" where
  "rqueue_flush r =
     (let (ds, n) = rqueue_flush_loop (rq_head r) (rq_length r)
      in (ds, r\<lparr>rq_head := [], rq_length := n\<rparr>))"

text \<open>
  \<^verbatim>\<open>rqueue_destroy\<close>: -1 without queue or destructor, else the data handed to the destructor.
\<close>

definition rqueue_destroy :: "'a rqueue ptr \<Rightarrow> bool \<Rightarrow> rc \<times> 'a list" where
  "rqueue_destroy q dtor =
     (case q of
        None \<Rightarrow> (-1, [])
      | Some r \<Rightarrow> (if dtor then (0, fst (rqueue_flush r)) else (-1, [])))"

definition rqueue_head_push :: "bool \<Rightarrow> 'a rqueue ptr \<Rightarrow> 'a \<Rightarrow> rc \<times> 'a rqueue ptr" where
  "rqueue_head_push ok q x =
     (case q of
        None \<Rightarrow> (-1, None)
      | Some r \<Rightarrow>
          (if ok then (0, Some (r\<lparr>rq_head := x # rq_head r, rq_length := rq_length r + 1\<rparr>))
           else (-1, q)))"

definition rqueue_head_pop :: "'a rqueue ptr \<Rightarrow> 'a ptr \<times> 'a rqueue ptr" where
  "rqueue_head_pop q =
     (case q of
        None \<Rightarrow> (None, None)
      | Some r \<Rightarrow>
          (case rq_head r of
             [] \<Rightarrow> (None, q)
           | x # xs \<Rightarrow> (Some x, Some (r\<lparr>rq_head := xs, rq_length := rq_length r - 1\<rparr>))))"

definition rqueue_head_peek :: "'a rqueue ptr \<Rightarrow> 'a ptr" where
  "rqueue_head_peek q =
     (case q of
        None \<Rightarrow> None
      | Some r \<Rightarrow> (case rq_head r of [] \<Rightarrow> None | x # xs \<Rightarrow> Some x))"

definition rqueue_tail_push :: "bool \<Rightarrow> 'a rqueue ptr \<Rightarrow> 'a \<Rightarrow> rc \<times> 'a rqueue ptr" where
  "rqueue_tail_push ok q x =
     (case q of
        None \<Rightarrow> (-1, None)
      | Some r \<Rightarrow>
          (if ok then (0, Some (r\<lparr>rq_head := rq_head r @ [x], rq_length := rq_length r + 1\<rparr>))
           else (-1, q)))"

text \<open>
  \<^verbatim>\<open>rqueue_tail_pop\<close> moves the list head behind \<open>h\<close>, a pointer that is NULL at that point: on a
  non-empty queue it dereferences NULL. \<open>Fault\<close> is that outcome.
\<close>

definition rqueue_tail_pop :: "'a rqueue ptr \<Rightarrow> ('a ptr \<times> 'a rqueue ptr) outcome" where
  "rqueue_tail_pop q =
     (case q of
        None \<Rightarrow> Done (None, None)
      | Some r \<Rightarrow> (if rq_head r = [] then Done (None, q) else Fault))"

definition rqueue_is_empty :: "'a rqueue ptr \<Rightarrow> bool" where
  "rqueue_is_empty q = (case q of None \<Rightarrow> False | Some r \<Rightarrow> rq_head r = [])"

text \<open>The invariant of an existing queue, and the list it stands for.\<close>

definition rqueue_inv :: "'a rqueue ptr \<Rightarrow> bool" where
  "rqueue_inv q = (case q of None \<Rightarrow> False | Some r \<Rightarrow> rq_length r = length (rq_head r))"

definition rqueue_list :: "'a rqueue ptr \<Rightarrow> 'a list" where
  "rqueue_list q = (case q of None \<Rightarrow> [] | Some r \<Rightarrow> rq_head r)"

section \<open>rfifo.c\<close>

record 'a rfifo =
  rf_q :: "'a rqueue ptr"

definition rfifo_create :: "bool \<Rightarrow> bool \<Rightarrow> 'a rfifo ptr" where
  "rfifo_create ok1 ok2 =
     (if ok1 then (case rqueue_create ok2 of None \<Rightarrow> None | Some q \<Rightarrow> Some \<lparr>rf_q = Some q\<rparr>)
      else None)"

definition rfifo_destroy :: "'a rfifo ptr \<Rightarrow> bool \<Rightarrow> rc \<times> 'a list" where
  "rfifo_destroy f dtor =
     (case f of
        None \<Rightarrow> (-1, [])
      | Some g \<Rightarrow> (if dtor then rqueue_destroy (rf_q g) dtor else (-1, [])))"

definition rfifo_push :: "bool \<Rightarrow> 'a rfifo ptr \<Rightarrow> 'a \<Rightarrow> rc \<times> 'a rfifo ptr" where
  "rfifo_push ok f x =
     (case f of
        None \<Rightarrow> (-1, None)
      | Some g \<Rightarrow> (let (r, q) = rqueue_tail_push ok (rf_q g) x in (r, Some (g\<lparr>rf_q := q\<rparr>))))"

definition rfifo_head_push :: "bool \<Rightarrow> 'a rfifo ptr \<Rightarrow> 'a \<Rightarrow> rc \<times> 'a rfifo ptr" where
  "rfifo_head_push ok f x =
     (case f of
        None \<Rightarrow> (-1, None)
      | Some g \<Rightarrow> (let (r, q) = rqueue_head_push ok (rf_q g) x in (r, Some (g\<lparr>rf_q := q\<rparr>))))"

definition rfifo_pop :: "'a rfifo ptr \<Rightarrow> 'a ptr \<times> 'a rfifo ptr" where
  "rfifo_pop f =
     (case f of
        None \<Rightarrow> (None, None)
      | Some g \<Rightarrow> (let (x, q) = rqueue_head_pop (rf_q g) in (x, Some (g\<lparr>rf_q := q\<rparr>))))"

definition rfifo_peek :: "'a rfifo ptr \<Rightarrow> 'a ptr" where
  "rfifo_peek f = (case f of None \<Rightarrow> None | Some g \<Rightarrow> rqueue_head_peek (rf_q g))"

definition rfifo_is_empty :: "'a rfifo ptr \<Rightarrow> bool" where
  "rfifo_is_empty f = (case f of None \<Rightarrow> False | Some g \<Rightarrow> rqueue_is_empty (rf_q g))"

definition rfifo_length :: "'a rfifo ptr \<Rightarrow> int" where
  "rfifo_length f = (case f of None \<Rightarrow> -1 | Some g \<Rightarrow> rqueue_length (rf_q g))"

definition rfifo_inv :: "'a rfifo ptr \<Rightarrow> bool" where
  "rfifo_inv f = (case f of None \<Rightarrow> False | Some g \<Rightarrow> rqueue_inv (rf_q g))"

definition rfifo_list :: "'a rfifo ptr \<Rightarrow> 'a list" where
  "rfifo_list f = (case f of None \<Rightarrow> [] | Some g \<Rightarrow> rqueue_list (rf_q g))"

section \<open>ringq.c\<close>

text \<open>
  \<open>rg_entries\<close> lists the \<^verbatim>\<open>data\<close> fields of the entries in list order. \<open>rg_cur\<close> is the position
  of the entry the cursor points to; the position \<open>length rg_entries\<close> is the list head itself,
  which is what \<^verbatim>\<open>nxt_entry\<close> of the last entry and \<^verbatim>\<open>list_first_entry\<close> of an empty list give and
  which is no entry: writing its \<^verbatim>\<open>data\<close> is a write outside the ring.
\<close>

record 'a ringq =
  rg_entries :: "'a ptr list"
  rg_cur :: nat
  rg_length :: nat
  rg_occupation :: nat

definition ringq_create :: "allocs \<Rightarrow> nat \<Rightarrow> 'a ringq ptr" where
  "ringq_create ms n =
     (if fst (rkmalloc_n (Suc n) ms)
      then Some \<lparr>rg_entries = replicate n None, rg_cur = 0, rg_length = n, rg_occupation = 0\<rparr>
      else None)"

definition ringq_destroy :: "'a ringq ptr \<Rightarrow> bool \<Rightarrow> rc \<times> 'a list" where
  "ringq_destroy q dtor =
     (case q of
        None \<Rightarrow> (-1, [])
      | Some r \<Rightarrow> (if dtor then (0, List.map_filter id (rg_entries r)) else (-1, [])))"

definition nxt_entry :: "nat \<Rightarrow> nat" where
  "nxt_entry i = Suc i"

definition entry_add :: "'a ringq \<Rightarrow> 'a \<Rightarrow> 'a ringq" where
  "entry_add r x =
     r\<lparr>rg_entries := (rg_entries r)[rg_cur r := Some x],
       rg_cur := (if rg_occupation r < rg_length r - 1 then nxt_entry (rg_cur r) else rg_cur r),
       rg_occupation := rg_occupation r + 1\<rparr>"

definition ringq_push :: "'a ringq ptr \<Rightarrow> 'a \<Rightarrow> rc \<times> 'a ringq ptr" where
  "ringq_push q x =
     (case q of
        None \<Rightarrow> (-1, None)
      | Some r \<Rightarrow>
          (if rg_length r \<le> rg_occupation r then (-1, q)
           else (0, Some (r\<lparr>rg_entries := (rg_entries r)[rg_cur r := Some x],
                            rg_cur := (if rg_occupation r < rg_length r - 1
                                       then nxt_entry (rg_cur r) else rg_cur r),
                            rg_occupation := rg_occupation r + 1\<rparr>))))"

text \<open>
  The pop takes the first entry, moves it to the tail of the list (every other entry comes one
  position forward), clears its data, and when the queue was full advances the cursor.
\<close>

definition ringq_pop :: "'a ringq ptr \<Rightarrow> 'a ptr \<times> 'a ringq ptr" where
  "ringq_pop q =
     (case q of
        None \<Rightarrow> (None, None)
      | Some r \<Rightarrow>
          (if rg_occupation r = 0 then (None, q)
           else (case rg_entries r of
                   [] \<Rightarrow> (None, q)
                 | d # ds \<Rightarrow>
                     (let cur = (if rg_cur r = 0 then length ds else rg_cur r - 1)
                      in (d, Some (r\<lparr>rg_entries := ds @ [None],
                                     rg_cur := (if rg_occupation r = rg_length r
                                                then nxt_entry cur else cur),
                                     rg_occupation := rg_occupation r - 1\<rparr>))))))"

definition ringq_is_empty :: "'a ringq ptr \<Rightarrow> bool" where
  "ringq_is_empty q = (case q of None \<Rightarrow> False | Some r \<Rightarrow> rg_occupation r = 0)"

definition ringq_len :: "'a ringq ptr \<Rightarrow> int" where
  "ringq_len q = (case q of None \<Rightarrow> -1 | Some r \<Rightarrow> int (rg_length r))"

definition ringq_occ :: "'a ringq ptr \<Rightarrow> int" where
  "ringq_occ q = (case q of None \<Rightarrow> -1 | Some r \<Rightarrow> int (rg_occupation r))"

text \<open>
  The invariant: as many entries as the length says and at least two, the occupied entries at
  the front, and the cursor on the first free entry, or on the last one when none is free.
\<close>

definition ring_ok :: "'a ringq \<Rightarrow> bool" where
  "ring_ok r \<longleftrightarrow>
     2 \<le> rg_length r \<and> length (rg_entries r) = rg_length r \<and>
     rg_occupation r \<le> rg_length r \<and>
     rg_cur r = min (rg_occupation r) (rg_length r - 1) \<and>
     (\<forall>i < rg_length r. (rg_entries r ! i \<noteq> None) = (i < rg_occupation r))"

definition ringq_inv :: "nat \<Rightarrow> 'a ringq ptr \<Rightarrow> bool" where
  "ringq_inv cap q = (case q of None \<Rightarrow> False | Some r \<Rightarrow> ring_ok r \<and> rg_length r = cap)"

definition ringq_list :: "'a ringq ptr \<Rightarrow> 'a list" where
  "ringq_list q = (case q of None \<Rightarrow> [] | Some r \<Rightarrow> map the (take (rg_occupation r) (rg_entries r)))"

lemmas rqueue_defs [queue_simps, code_simps] =
  rqueue_create_def rqueue_length_def rqueue_flush_def rqueue_destroy_def rqueue_head_push_def
  rqueue_head_pop_def rqueue_head_peek_def rqueue_tail_push_def rqueue_tail_pop_def
  rqueue_is_empty_def rqueue_inv_def rqueue_list_def

lemmas rfifo_defs [queue_simps, code_simps] =
  rfifo_create_def rfifo_destroy_def rfifo_push_def rfifo_head_push_def rfifo_pop_def
  rfifo_peek_def rfifo_is_empty_def rfifo_length_def rfifo_inv_def rfifo_list_def

lemmas ringq_defs [code_simps] =
  ringq_create_def ringq_destroy_def nxt_entry_def entry_add_def ringq_push_def ringq_pop_def
  ringq_is_empty_def ringq_len_def ringq_occ_def ringq_inv_def ringq_list_def

section \<open>Correctness\<close>

lemma rqueue_flush_loop_eq: "rqueue_flush_loop xs n = (xs, n - length xs)"
  by (induction xs n rule: rqueue_flush_loop.induct) auto

interpretation rqueue_fifo: fifo_queue rqueue_tail_push rqueue_head_pop rqueue_is_empty
  rqueue_inv rqueue_list "\<lambda>ok n. ok"
  by unfold_locales (auto simp: queue_simps split: option.splits list.splits if_splits)

interpretation rfifo_fifo: fifo_queue rfifo_push rfifo_pop rfifo_is_empty rfifo_inv rfifo_list
  "\<lambda>ok n. ok"
  by unfold_locales (auto simp: queue_simps split: option.splits list.splits if_splits)

lemma ring_ok_push:
  assumes "ring_ok r" "rg_occupation r < rg_length r"
  shows "ring_ok (entry_add r x)"
proof -
  let ?o = "rg_occupation r" and ?n = "rg_length r"
  have len: "length (rg_entries r) = ?n" "?o < ?n" "2 \<le> ?n" and cur: "rg_cur r = ?o"
    using assms by (auto simp: ring_ok_def)
  have "\<forall>i < ?n. ((rg_entries r)[?o := Some x] ! i \<noteq> None) = (i < Suc ?o)"
    using assms len by (auto simp: ring_ok_def nth_list_update less_Suc_eq)
  then show ?thesis
    using len cur by (simp add: ring_ok_def entry_add_def nxt_entry_def) linarith
qed

lemma ringq_list_push:
  assumes "ring_ok r" "rg_occupation r < rg_length r"
  shows "ringq_list (Some (entry_add r x)) = ringq_list (Some r) @ [x]"
proof -
  have "rg_cur r = rg_occupation r" "rg_occupation r < length (rg_entries r)"
    using assms by (auto simp: ring_ok_def)
  then show ?thesis
    by (simp add: ringq_list_def entry_add_def take_Suc_append_nth)
qed

lemma ringq_push_eq:
  "ringq_push (Some r) x =
     (if rg_length r \<le> rg_occupation r then (-1, Some r) else (0, Some (entry_add r x)))"
  by (simp add: ringq_push_def entry_add_def)

text \<open>One pop on a non-empty ring, as an update of the record.\<close>

definition ring_rot :: "'a ringq \<Rightarrow> 'a ringq" where
  "ring_rot r =
     r\<lparr>rg_entries := tl (rg_entries r) @ [None],
       rg_cur := rg_occupation r - 1, rg_occupation := rg_occupation r - 1\<rparr>"

lemma ringq_pop_eq:
  assumes "ring_ok r" "0 < rg_occupation r"
  shows "ringq_pop (Some r) = (Some (the (hd (rg_entries r))), Some (ring_rot r))"
proof -
  obtain d ds where e: "rg_entries r = d # ds"
    using assms by (cases "rg_entries r") (auto simp: ring_ok_def)
  have "\<forall>i < rg_length r. ((d # ds) ! i \<noteq> None) = (i < rg_occupation r)"
    using assms e by (simp add: ring_ok_def)
  then have "d \<noteq> None"
    using assms by (auto simp: ring_ok_def dest: spec [of _ 0])
  moreover have "(if rg_occupation r = rg_length r
      then Suc (if rg_cur r = 0 then length ds else rg_cur r - 1)
      else if rg_cur r = 0 then length ds else rg_cur r - 1) = rg_occupation r - 1"
    using assms e by (auto simp: ring_ok_def min_def)
  ultimately show ?thesis
    using assms e by (auto simp: ringq_pop_def ring_rot_def nxt_entry_def Let_def)
qed

lemma ring_ok_rot:
  assumes "ring_ok r" "0 < rg_occupation r"
  shows "ring_ok (ring_rot r)"
proof -
  obtain d ds where e: "rg_entries r = d # ds"
    using assms by (cases "rg_entries r") (auto simp: ring_ok_def)
  have occ: "\<forall>i < rg_length r. ((d # ds) ! i \<noteq> None) = (i < rg_occupation r)"
    and len: "Suc (length ds) = rg_length r" "rg_occupation r \<le> rg_length r" "2 \<le> rg_length r"
    using assms e by (auto simp: ring_ok_def)
  have "((ds @ [None]) ! i \<noteq> None) = (i < rg_occupation r - 1)" if "i < rg_length r" for i
  proof (cases "i < length ds")
    case True
    then have "(ds ! i \<noteq> None) = (Suc i < rg_occupation r)"
      using occ [rule_format, of "Suc i"] len by simp
    with True show ?thesis by (auto simp: nth_append)
  next
    case False
    with that len have "i = length ds" by simp
    with len show ?thesis by simp
  qed
  with e len show ?thesis
    by (auto simp: ring_ok_def ring_rot_def)
qed

lemma ringq_list_rot:
  assumes "ring_ok r" "0 < rg_occupation r"
  shows "ringq_list (Some r) = the (hd (rg_entries r)) # ringq_list (Some (ring_rot r))"
proof -
  obtain d ds n where e: "rg_entries r = d # ds" "rg_occupation r = Suc n"
    using assms by (cases "rg_entries r"; cases "rg_occupation r") (auto simp: ring_ok_def)
  with assms have "n \<le> length ds" by (auto simp: ring_ok_def)
  with e show ?thesis by (simp add: ringq_list_def ring_rot_def)
qed

lemma ringq_list_Nil: "ring_ok r \<Longrightarrow> ringq_list (Some r) = [] \<longleftrightarrow> rg_occupation r = 0"
  by (auto simp: ringq_list_def ring_ok_def)

lemmas ring_laws =
  ring_ok_push ringq_list_push ringq_push_eq ringq_pop_eq ring_ok_rot ringq_list_rot
  ringq_list_Nil

lemma entry_add_length [simp]: "rg_length (entry_add r x) = rg_length r"
  by (simp add: entry_add_def)

lemma ring_rot_length [simp]: "rg_length (ring_rot r) = rg_length r"
  by (simp add: ring_rot_def)

lemma ringq_list_length: "ring_ok r \<Longrightarrow> length (ringq_list (Some r)) = rg_occupation r"
  by (auto simp: ringq_list_def ring_ok_def)

interpretation ringq_fifo: fifo_queue "\<lambda>_. ringq_push" ringq_pop ringq_is_empty "ringq_inv cap"
  ringq_list "\<lambda>ok n. n < cap" for cap
proof unfold_locales
  fix q :: "'a ringq ptr" and x :: 'a
  assume "ringq_inv cap q"
  then obtain r where q: "q = Some r" "ring_ok r" "rg_length r = cap"
    by (auto simp: ringq_inv_def split: option.splits)
  show "fst (ringq_push q x) = (if length (ringq_list q) < cap then 0 else -1)"
    using q by (simp add: ringq_push_eq ringq_list_length)
  show "ringq_list (snd (ringq_push q x)) =
      (if length (ringq_list q) < cap then ringq_list q @ [x] else ringq_list q)"
    using q by (simp add: ringq_push_eq ringq_list_length ringq_list_push)
  show "ringq_inv cap (snd (ringq_push q x))"
    using q by (simp add: ringq_push_eq ringq_inv_def ring_ok_push)
  have pop: "ringq_pop (Some r) = (if rg_occupation r = 0 then (None, Some r)
      else (Some (the (hd (rg_entries r))), Some (ring_rot r)))"
    using q by (simp add: ringq_pop_eq) (simp add: ringq_pop_def)
  show "fst (ringq_pop q) = (case ringq_list q of [] \<Rightarrow> None | x # _ \<Rightarrow> Some x)"
    using q by (simp add: pop ringq_list_rot ringq_list_Nil [THEN iffD2])
  show "ringq_list (snd (ringq_pop q)) = tl (ringq_list q)"
    using q by (simp add: pop ringq_list_rot ringq_list_Nil [THEN iffD2])
  show "ringq_inv cap (snd (ringq_pop q))"
    using q by (simp add: pop ringq_inv_def ring_ok_rot)
  show "ringq_is_empty q = (ringq_list q = [])"
    using q by (simp add: ringq_is_empty_def ringq_list_Nil)
qed

lemma ringq_create_inv:
  "2 \<le> n \<Longrightarrow> ringq_create ms n = Some r \<Longrightarrow> ringq_inv n (Some r) \<and> ringq_list (Some r) = []"
  by (auto simp: ringq_create_def ringq_inv_def ring_ok_def ringq_list_def split: if_splits)

section \<open>Properties\<close>

text \<open>
  C1. A ring queue created with a capacity of at least two entries behaves, over every sequence
  of pushes and pops, as a bounded FIFO queue: the return code of every push and the element
  given by every pop are those of a plain list with that capacity.
\<close>

theorem ringq_refines_bounded_fifo:
  assumes "2 \<le> n" "ringq_create ms n = Some r"
  shows "fst (q_run (\<lambda>_. ringq_push) ringq_pop (Some r) ops) = fst (fifo_run (\<lambda>ok k. k < n) [] ops)"
  using ringq_fifo.run_refines [of n "Some r" ops] ringq_create_inv [OF assms] by simp

theorem ringq_refines_bounded_fifo_witness:
  "fst (q_run (\<lambda>_. ringq_push) ringq_pop
      (Some \<lparr>rg_entries = [None, None], rg_cur = 0, rg_length = 2, rg_occupation = 0\<rparr>)
      [QPush True (7::nat), QPush True 8, QPush True 9, QPop, QPush True 10, QPop, QPop, QPop]) =
   [QCode 0, QCode 0, QCode (-1), QGot (Some 7), QCode 0, QGot (Some 8), QGot (Some 10), QGot None]"
proof -
  have "ringq_create [] 2 =
      Some (\<lparr>rg_entries = [None, None], rg_cur = 0, rg_length = 2, rg_occupation = 0\<rparr> :: nat ringq)"
    by (simp add: ringq_create_def numeral_2_eq_2)
  from ringq_refines_bounded_fifo [OF _ this, of "[QPush True (7::nat), QPush True 8, QPush True 9,
      QPop, QPush True 10, QPop, QPop, QPop]"]
  show ?thesis by simp
qed

text \<open>
  C2. \<open>rfifo\<close>, the queue under every RMT policy, is an unbounded FIFO: over every sequence of
  operations a push is refused exactly when its entry cannot be allocated (and then changes
  nothing), and pops give the accepted elements in order.
\<close>

theorem rfifo_refines_fifo:
  assumes "rfifo_create ok1 ok2 = Some f"
  shows "fst (q_run rfifo_push rfifo_pop (Some f) ops) = fst (fifo_run (\<lambda>ok k. ok) [] ops)"
  using rfifo_fifo.run_refines [of "Some f" ops] assms
  by (auto simp: rfifo_defs rqueue_defs split: if_splits)

theorem rfifo_refines_fifo_witness:
  "fst (q_run rfifo_push rfifo_pop (Some \<lparr>rf_q = Some \<lparr>rq_head = [], rq_length = 0\<rparr>\<rparr>)
      [QPush True (7::nat), QPush False 8, QPush True 9, QPop, QPop, QPop]) =
   [QCode 0, QCode (-1), QCode 0, QGot (Some 7), QGot (Some 9), QGot None]"
proof -
  have "rfifo_create True True = Some (\<lparr>rf_q = Some \<lparr>rq_head = [], rq_length = 0\<rparr>\<rparr> :: nat rfifo)"
    by (simp add: rfifo_create_def rqueue_create_def)
  from rfifo_refines_fifo [OF this, of "[QPush True (7::nat), QPush False 8, QPush True 9,
      QPop, QPop, QPop]"]
  show ?thesis by simp
qed

section \<open>Where the code goes wrong\<close>

text \<open>
  A ring of a single entry: after one push and one pop the cursor is the list head (position 1
  of a one-entry ring), so the next push writes outside the ring and the element is lost. The
  kernel creates its rings with 1000 and 16 entries.
\<close>

lemma ringq_one_entry_breaks:
  "let q0 = the (ringq_create [] 1); q1 = snd (ringq_push (Some q0) (5::nat));
       q2 = snd (ringq_pop q1); q3 = snd (ringq_push q2 6)
   in rg_cur (the q2) = rg_length (the q2) \<and> ringq_occ q3 = 1 \<and> fst (ringq_pop q3) = None"
  by (simp add: ringq_defs Let_def)

text \<open>\<^verbatim>\<open>rqueue_tail_pop\<close> faults on every non-empty queue.\<close>

lemma rqueue_tail_pop_faults: "rq_head r \<noteq> [] \<Longrightarrow> rqueue_tail_pop (Some r) = Fault"
  by (simp add: rqueue_tail_pop_def)

end
