(* ===== verification/Efcp_Queues.thy ===== *)
theory Efcp_Queues
  imports Efcp_Pdu Rds_Queues
begin

text \<open>
  The queues of an EFCP connection: the closed window queue, the retransmission queue and the
  round-trip-time queue of \<^verbatim>\<open>kernel/dtp-utils.c\<close>, and the sequencing queue of \<^verbatim>\<open>kernel/dtp.c\<close>.
  Time stamps are values of \<^verbatim>\<open>jiffies\<close>, which the operations that read it take as an argument.
  The retransmission and the round-trip-time queue provide the contract \<open>sn_queue\<close>: fed with
  increasing sequence numbers, they hold exactly what was pushed and not dropped since.
\<close>

section \<open>Insertion by sequence number\<close>

text \<open>
  The same insertion is written out in \<^verbatim>\<open>rtxqueue_push_ni\<close>, \<^verbatim>\<open>rttq_push_ni\<close> and
  \<^verbatim>\<open>seq_queue_push_ni\<close>: behind the last entry if the number is greater, else behind the first entry
  with a smaller number that the loop from the head meets. The three callers treat the outcomes
  differently.
\<close>

datatype placing = Placed | SameLast | SameInside | NotPlaced

fun seq_scan :: "('e \<Rightarrow> seq_num_t) \<Rightarrow> 'e \<Rightarrow> 'e list \<Rightarrow> placing \<times> 'e list" where
  "seq_scan k e [] = (NotPlaced, [])"
| "seq_scan k e (c # cs) =
     (if k e = k c then (SameInside, c # cs)
      else if k e > k c then (Placed, c # e # cs)
      else (let (r, ds) = seq_scan k e cs in (r, c # ds)))"

definition seq_insert :: "('e \<Rightarrow> seq_num_t) \<Rightarrow> 'e \<Rightarrow> 'e list \<Rightarrow> placing \<times> 'e list" where
  "seq_insert k e q =
     (if q = [] then (Placed, [e])
      else if k e = k (last q) then (SameLast, q)
      else if k e > k (last q) then (Placed, q @ [e])
      else seq_scan k e q)"

section \<open>Closed window queue\<close>

record cwq =
  cw_q :: "pdu rqueue ptr"

definition cwq_create :: "bool \<Rightarrow> bool \<Rightarrow> cwq ptr" where
  "cwq_create ok1 ok2 =
     (if ok1 then (case rqueue_create ok2 of None \<Rightarrow> None | Some r \<Rightarrow> Some \<lparr>cw_q = Some r\<rparr>)
      else None)"

text \<open>The second component is what \<^verbatim>\<open>du_destroy\<close> is called on.\<close>

definition cwq_destroy :: "cwq ptr \<Rightarrow> rc \<times> pdu list" where
  "cwq_destroy q =
     (case q of
        None \<Rightarrow> (-1, [])
      | Some c \<Rightarrow> (let (r, ds) = rqueue_destroy (cw_q c) True in (if r \<noteq> 0 then -1 else 0, ds)))"

definition cwq_push :: "bool \<Rightarrow> cwq \<Rightarrow> pdu \<Rightarrow> rc \<times> cwq" where
  "cwq_push ok c du =
     (let (r, q) = rqueue_tail_push ok (cw_q c) du in (if r \<noteq> 0 then -1 else 0, c\<lparr>cw_q := q\<rparr>))"

definition cwq_pop :: "cwq ptr \<Rightarrow> pdu ptr \<times> cwq ptr" where
  "cwq_pop q =
     (case q of
        None \<Rightarrow> (None, None)
      | Some c \<Rightarrow> (let (x, r) = rqueue_head_pop (cw_q c) in (x, Some (c\<lparr>cw_q := r\<rparr>))))"

definition cwq_is_empty :: "cwq ptr \<Rightarrow> bool" where
  "cwq_is_empty q = (case q of None \<Rightarrow> False | Some c \<Rightarrow> rqueue_is_empty (cw_q c))"

function cwq_flush_loop :: "pdu rqueue ptr \<Rightarrow> rc \<times> pdu rqueue ptr" where
  "cwq_flush_loop q =
     (if rqueue_is_empty q then (0, q)
      else (case rqueue_head_pop q of
              (None, q') \<Rightarrow> (-1, q')
            | (Some du, q') \<Rightarrow> cwq_flush_loop q'))"
  by pat_completeness auto
termination
  by (relation "measure (\<lambda>q. length (rqueue_list q))")
    (auto simp: rqueue_head_pop_def rqueue_list_def split: option.splits list.splits)

declare cwq_flush_loop.simps [simp del]

definition cwq_flush :: "cwq ptr \<Rightarrow> rc \<times> cwq ptr" where
  "cwq_flush q =
     (case q of
        None \<Rightarrow> (-1, None)
      | Some c \<Rightarrow> (let (r, q') = cwq_flush_loop (cw_q c) in (r, Some (c\<lparr>cw_q := q'\<rparr>))))"

definition cwq_size :: "cwq ptr \<Rightarrow> int" where
  "cwq_size q = (case q of None \<Rightarrow> -1 | Some c \<Rightarrow> rqueue_length (cw_q c))"

section \<open>Retransmission queue\<close>

record rtxq_entry =
  re_time_stamp :: u64
  re_du :: pdu
  re_retries :: int

record rtxqueue =
  rx_len :: int
  rx_drop_pdus :: int
  rx_head :: "rtxq_entry list"

abbreviation re_seq :: "rtxq_entry \<Rightarrow> seq_num_t" where "re_seq e \<equiv> p_seq (re_du e)"

definition rtxq_entry_create :: "bool \<Rightarrow> u64 \<Rightarrow> pdu \<Rightarrow> rtxq_entry ptr" where
  "rtxq_entry_create ok jiffies du =
     (if ok then Some \<lparr>re_time_stamp = jiffies, re_du = du, re_retries = 0\<rparr> else None)"

definition rtxqueue_create :: "bool \<Rightarrow> rtxqueue ptr" where
  "rtxqueue_create ok = (if ok then Some \<lparr>rx_len = 0, rx_drop_pdus = 0, rx_head = []\<rparr> else None)"

fun rtxqueue_flush_loop :: "rtxq_entry list \<Rightarrow> int \<Rightarrow> int" where
  "rtxqueue_flush_loop [] n = n"
| "rtxqueue_flush_loop (e # es) n = rtxqueue_flush_loop es (n - 1)"

definition rtxqueue_flush :: "rtxqueue \<Rightarrow> rtxqueue" where
  "rtxqueue_flush q = q\<lparr>rx_head := [], rx_len := rtxqueue_flush_loop (rx_head q) (rx_len q)\<rparr>"

definition rtxqueue_destroy :: "rtxqueue ptr \<Rightarrow> rc" where
  "rtxqueue_destroy q = (case q of None \<Rightarrow> -1 | Some r \<Rightarrow> 0)"

fun rtxqueue_ack_loop :: "seq_num_t \<Rightarrow> rtxq_entry list \<Rightarrow> int \<Rightarrow> rtxq_entry list \<times> int" where
  "rtxqueue_ack_loop n [] l = ([], l)"
| "rtxqueue_ack_loop n (e # es) l =
     (if re_seq e \<le> n then rtxqueue_ack_loop n es (l - 1) else (e # es, l))"

definition rtxqueue_entries_ack :: "rtxqueue \<Rightarrow> seq_num_t \<Rightarrow> rc \<times> rtxqueue" where
  "rtxqueue_entries_ack q n =
     (let (es, l) = rtxqueue_ack_loop n (rx_head q) (rx_len q) in (0, q\<lparr>rx_head := es, rx_len := l\<rparr>))"

fun entry_timestamp :: "rtxq_entry list \<Rightarrow> seq_num_t \<Rightarrow> u64" where
  "entry_timestamp [] sn = -1"
| "entry_timestamp (e # es) sn =
     (if re_seq e > sn then -1
      else if re_seq e = sn then (if re_retries e \<noteq> 0 then 0 else re_time_stamp e)
      else entry_timestamp es sn)"

definition rtxqueue_entry_timestamp :: "rtxqueue \<Rightarrow> seq_num_t \<Rightarrow> u64" where
  "rtxqueue_entry_timestamp q sn = entry_timestamp (rx_head q) sn"

definition rtxqueue_push_ni :: "bool \<Rightarrow> u64 \<Rightarrow> rtxqueue \<Rightarrow> pdu \<Rightarrow> rc \<times> rtxqueue" where
  "rtxqueue_push_ni ok jiffies q du =
     (case rtxq_entry_create ok jiffies du of
        None \<Rightarrow> (-1, q)
      | Some e \<Rightarrow>
          (case seq_insert re_seq e (rx_head q) of
             (Placed, es) \<Rightarrow> (0, q\<lparr>rx_head := es, rx_len := rx_len q + 1\<rparr>)
           | (_, es) \<Rightarrow> (-1, q)))"

definition rtxqueue_empty :: "rtxqueue ptr \<Rightarrow> bool" where
  "rtxqueue_empty q = (case q of None \<Rightarrow> True | Some r \<Rightarrow> rx_head r = [])"

text \<open>
  \<^verbatim>\<open>(1 + retries * retries) * tr\<close> is computed in 32 bits; \<open>max_wait\<close> is \<^verbatim>\<open>MAX_RTX_WAIT_TIME\<close>, the
  number of jiffies in a minute.
\<close>

definition time_to_rtx :: "u64 \<Rightarrow> rtxq_entry \<Rightarrow> u32 \<Rightarrow> u64" where
  "time_to_rtx max_wait e tr =
     (let w = ucast ((1 + word_of_int (re_retries e) * word_of_int (re_retries e)) * tr)
      in re_time_stamp e + (if w > max_wait then max_wait else w))"

section \<open>Round-trip-time queue\<close>

record rtt_entry =
  rt_time_stamp :: u64
  rt_sn :: seq_num_t

type_synonym rttq = "rtt_entry list"

definition rtt_entry_create :: "bool \<Rightarrow> u64 \<Rightarrow> seq_num_t \<Rightarrow> rtt_entry ptr" where
  "rtt_entry_create ok jiffies sn = (if ok then Some \<lparr>rt_time_stamp = jiffies, rt_sn = sn\<rparr> else None)"

definition rttq_create :: "bool \<Rightarrow> rttq ptr" where
  "rttq_create ok = (if ok then Some [] else None)"

definition rttq_flush :: "rttq \<Rightarrow> rc \<times> rttq" where
  "rttq_flush q = (0, [])"

definition rttq_destroy :: "rttq ptr \<Rightarrow> rc" where
  "rttq_destroy q = (case q of None \<Rightarrow> -1 | Some r \<Rightarrow> 0)"

fun rttqueue_entry_timestamp :: "rttq \<Rightarrow> seq_num_t \<Rightarrow> u64" where
  "rttqueue_entry_timestamp [] sn = 0"
| "rttqueue_entry_timestamp (e # es) sn =
     (if rt_sn e > sn then 0
      else if rt_sn e = sn then rt_time_stamp e
      else rttqueue_entry_timestamp es sn)"

definition rttq_entry_timestamp :: "rttq ptr \<Rightarrow> seq_num_t \<Rightarrow> u64" where
  "rttq_entry_timestamp q sn = (case q of None \<Rightarrow> 0 | Some r \<Rightarrow> rttqueue_entry_timestamp r sn)"

definition rttq_push_ni :: "bool \<Rightarrow> u64 \<Rightarrow> rttq \<Rightarrow> seq_num_t \<Rightarrow> rc \<times> rttq" where
  "rttq_push_ni ok jiffies q sn =
     (case rtt_entry_create ok jiffies sn of
        None \<Rightarrow> (-1, q)
      | Some e \<Rightarrow> (0, snd (seq_insert rt_sn e q)))"

definition rttq_push :: "bool \<Rightarrow> u64 \<Rightarrow> rttq \<Rightarrow> seq_num_t \<Rightarrow> rc \<times> rttq" where
  "rttq_push ok jiffies q sn = rttq_push_ni ok jiffies q sn"

fun rttq_drop_loop :: "seq_num_t \<Rightarrow> rttq \<Rightarrow> rttq" where
  "rttq_drop_loop sn [] = []"
| "rttq_drop_loop sn (e # es) = (if rt_sn e \<le> sn then rttq_drop_loop sn es else e # es)"

definition rttq_drop :: "rttq \<Rightarrow> seq_num_t \<Rightarrow> rc \<times> rttq" where
  "rttq_drop q sn = (0, rttq_drop_loop sn q)"

section \<open>Sequencing queue\<close>

record seq_queue_entry =
  sq_time_stamp :: u64
  sq_du :: pdu

type_synonym seq_queue = "seq_queue_entry list"

abbreviation sq_seq :: "seq_queue_entry \<Rightarrow> seq_num_t" where "sq_seq e \<equiv> p_seq (sq_du e)"

definition seq_queue_create :: "bool \<Rightarrow> seq_queue ptr" where
  "seq_queue_create ok = (if ok then Some [] else None)"

definition seq_queue_entry_create :: "bool \<Rightarrow> u64 \<Rightarrow> pdu \<Rightarrow> seq_queue_entry ptr" where
  "seq_queue_entry_create ok jiffies du =
     (if ok then Some \<lparr>sq_time_stamp = jiffies, sq_du = du\<rparr> else None)"

definition seq_queue_pop :: "seq_queue \<Rightarrow> pdu ptr \<times> seq_queue" where
  "seq_queue_pop q = (case q of [] \<Rightarrow> (None, []) | e # es \<Rightarrow> (Some (sq_du e), es))"

definition seq_queue_push_ni :: "bool \<Rightarrow> u64 \<Rightarrow> seq_queue \<Rightarrow> pdu \<Rightarrow> rc \<times> seq_queue" where
  "seq_queue_push_ni ok jiffies q du =
     (case seq_queue_entry_create ok jiffies du of
        None \<Rightarrow> (-1, q)
      | Some e \<Rightarrow>
          (case seq_insert sq_seq e q of
             (SameLast, es) \<Rightarrow> (-1, es)
           | (_, es) \<Rightarrow> (0, es)))"

definition are_there_pdus :: "seq_queue \<Rightarrow> seq_num_t \<Rightarrow> bool" where
  "are_there_pdus q LWE = (case q of [] \<Rightarrow> False | e # es \<Rightarrow> sq_seq e = LWE + 1)"

definition seqq_is_empty :: "seq_queue ptr \<Rightarrow> bool" where
  "seqq_is_empty q = (case q of None \<Rightarrow> False | Some r \<Rightarrow> r = [])"

section \<open>Queues fed in sequence\<close>

lemma seq_insert_above:
  assumes "\<forall>c\<in>set q. k c < k e"
  shows "seq_insert k e q = (Placed, q @ [e])"
proof (cases "q = []")
  case False
  then have "k (last q) < k e" using assms by simp
  then show ?thesis by (simp add: seq_insert_def False)
qed (simp add: seq_insert_def)

datatype 'x sn_op = SnPush u64 'x | SnDrop seq_num_t

fun pushed :: "'x sn_op list \<Rightarrow> 'x list" where
  "pushed [] = []"
| "pushed (SnPush now x # ps) = x # pushed ps"
| "pushed (SnDrop n # ps) = pushed ps"

text \<open>What is pushed and not dropped afterwards.\<close>

fun held :: "('x \<Rightarrow> seq_num_t) \<Rightarrow> 'x sn_op list \<Rightarrow> 'x list \<Rightarrow> 'x list" where
  "held key [] xs = xs"
| "held key (SnPush now x # ps) xs = held key ps (xs @ [x])"
| "held key (SnDrop n # ps) xs = held key ps (filter (\<lambda>x. \<not> key x \<le> n) xs)"

fun sn_run :: "(u64 \<Rightarrow> 'q \<Rightarrow> 'x \<Rightarrow> rc \<times> 'q) \<Rightarrow> ('q \<Rightarrow> seq_num_t \<Rightarrow> rc \<times> 'q) \<Rightarrow> 'q \<Rightarrow> 'x sn_op list \<Rightarrow>
    rc list \<times> 'q" where
  "sn_run push ack q [] = ([], q)"
| "sn_run push ack q (SnPush now x # ps) =
     (let (r, q1) = push now q x; (rs, q2) = sn_run push ack q1 ps in (r # rs, q2))"
| "sn_run push ack q (SnDrop n # ps) =
     (let (r, q1) = ack q n; (rs, q2) = sn_run push ack q1 ps in (r # rs, q2))"

locale sn_queue =
  fixes key :: "'x \<Rightarrow> seq_num_t"
    and push :: "u64 \<Rightarrow> 'q \<Rightarrow> 'x \<Rightarrow> rc \<times> 'q"
    and ack :: "'q \<Rightarrow> seq_num_t \<Rightarrow> rc \<times> 'q"
    and items :: "'q \<Rightarrow> 'x list"
    and ok :: "'q \<Rightarrow> bool"
  assumes push_above: "ok q \<Longrightarrow> \<forall>y\<in>set (items q). key y < key x \<Longrightarrow>
      \<exists>q'. push now q x = (0, q') \<and> ok q' \<and> items q' = items q @ [x]"
    and ack_upto: "ok q \<Longrightarrow> sorted_wrt (<) (map key (items q)) \<Longrightarrow>
      \<exists>q'. ack q n = (0, q') \<and> ok q' \<and> items q' = filter (\<lambda>x. \<not> key x \<le> n) (items q)"
begin

lemma run_holds:
  assumes "ok q" "sorted_wrt (<) (map key (items q @ pushed ps))"
  shows "\<exists>q'. sn_run push ack q ps = (replicate (length ps) 0, q') \<and> ok q' \<and>
     items q' = held key ps (items q)"
  using assms
proof (induction ps arbitrary: q)
  case (Cons p ps)
  show ?case
  proof (cases p)
    case (SnPush now x)
    then have "\<forall>y\<in>set (items q). key y < key x"
      using Cons.prems(2) by (auto simp: sorted_wrt_append)
    from push_above [OF Cons.prems(1) this, of now] obtain q1 where
      q1: "push now q x = (0, q1)" "ok q1" "items q1 = items q @ [x]" by blast
    with Cons.IH [of q1] Cons.prems(2) SnPush show ?thesis by (auto simp: sorted_wrt_append)
  next
    case (SnDrop n)
    then have sorted: "sorted_wrt (<) (map key (items q))"
      using Cons.prems(2) by (simp add: sorted_wrt_append)
    from ack_upto [OF Cons.prems(1) this, of n] obtain q1 where
      q1: "ack q n = (0, q1)" "ok q1" "items q1 = filter (\<lambda>x. \<not> key x \<le> n) (items q)" by blast
    moreover have "sorted_wrt (<) (map key (items q1 @ pushed ps))"
      using Cons.prems(2) SnDrop q1(3) sorted
      by (auto simp: sorted_wrt_append sorted_wrt_map intro: sorted_wrt_filter)
    ultimately show ?thesis using Cons.IH [of q1] SnDrop by auto
  qed
qed simp

end

lemma rtxqueue_ack_loop_filter:
  "sorted_wrt (<) (map re_seq es) \<Longrightarrow>
     rtxqueue_ack_loop n es l =
       (filter (\<lambda>e. \<not> re_seq e \<le> n) es, l - int (length (filter (\<lambda>e. re_seq e \<le> n) es)))"
proof (induction es arbitrary: l)
  case (Cons e es)
  show ?case
  proof (cases "re_seq e \<le> n")
    case False
    then have "\<forall>c\<in>set es. \<not> re_seq c \<le> n" using Cons.prems by (auto intro: order.strict_trans)
    then have "filter (\<lambda>c. \<not> re_seq c \<le> n) es = es" "filter (\<lambda>c. re_seq c \<le> n) es = []"
      by (simp_all add: filter_id_conv filter_empty_conv)
    with False show ?thesis by simp
  qed (use Cons in simp)
qed simp

lemma rttq_drop_loop_filter:
  "sorted_wrt (<) (map rt_sn es) \<Longrightarrow> rttq_drop_loop n es = filter (\<lambda>e. \<not> rt_sn e \<le> n) es"
proof (induction es)
  case (Cons e es)
  show ?case
  proof (cases "rt_sn e \<le> n")
    case False
    then have "\<forall>c\<in>set es. \<not> rt_sn c \<le> n" using Cons.prems by (auto intro: order.strict_trans)
    with False show ?thesis by (simp add: filter_id_conv)
  qed (use Cons in simp)
qed simp

lemma length_filter_not: "int (length xs) - int (length (filter P xs)) = int (length (filter (\<lambda>x. \<not> P x) xs))"
  using sum_length_filter_compl [of P xs] by simp

definition rtx_items :: "rtxqueue \<Rightarrow> pdu list" where
  "rtx_items q = map re_du (rx_head q)"

definition rtx_ok :: "rtxqueue \<Rightarrow> bool" where
  "rtx_ok q \<longleftrightarrow> rx_len q = int (length (rx_head q))"

interpretation rtx_sn: sn_queue p_seq "rtxqueue_push_ni True" rtxqueue_entries_ack rtx_items rtx_ok
proof
  fix q now and x :: pdu
  assume "rtx_ok q" "\<forall>y\<in>set (rtx_items q). p_seq y < p_seq x"
  then show "\<exists>q'. rtxqueue_push_ni True now q x = (0, q') \<and> rtx_ok q' \<and> rtx_items q' = rtx_items q @ [x]"
    by (simp add: rtxqueue_push_ni_def rtxq_entry_create_def seq_insert_above rtx_items_def rtx_ok_def)
next
  fix q n
  assume "rtx_ok q" "sorted_wrt (<) (map p_seq (rtx_items q))"
  then show "\<exists>q'. rtxqueue_entries_ack q n = (0, q') \<and> rtx_ok q' \<and>
      rtx_items q' = filter (\<lambda>x. \<not> p_seq x \<le> n) (rtx_items q)"
    by (simp add: rtxqueue_entries_ack_def rtxqueue_ack_loop_filter rtx_items_def rtx_ok_def
        length_filter_not filter_map comp_def)
qed

interpretation rtt_sn: sn_queue "\<lambda>sn. sn" "rttq_push True" rttq_drop "map rt_sn" "\<lambda>_. True"
proof
  fix q :: rttq and x now
  assume "\<forall>y\<in>set (map rt_sn q). y < x"
  then show "\<exists>q'. rttq_push True now q x = (0, q') \<and> True \<and> map rt_sn q' = map rt_sn q @ [x]"
    by (simp add: rttq_push_def rttq_push_ni_def rtt_entry_create_def seq_insert_above)
next
  fix q :: rttq and n
  assume "sorted_wrt (<) (map (\<lambda>sn. sn) (map rt_sn q))"
  then show "\<exists>q'. rttq_drop q n = (0, q') \<and> True \<and> map rt_sn q' = filter (\<lambda>x. \<not> x \<le> n) (map rt_sn q)"
    by (simp add: rttq_drop_def rttq_drop_loop_filter filter_map comp_def)
qed

section \<open>Insertion out of sequence\<close>

lemma seq_scan_above_all: "\<forall>c\<in>set q. k e < k c \<Longrightarrow> seq_scan k e q = (NotPlaced, q)"
  by (induction q) auto

text \<open>The ordered insertion the callers rely on.\<close>

fun ordered_insert :: "('e \<Rightarrow> seq_num_t) \<Rightarrow> 'e \<Rightarrow> 'e list \<Rightarrow> 'e list" where
  "ordered_insert k e [] = [e]"
| "ordered_insert k e (c # cs) = (if k e < k c then e # c # cs else c # ordered_insert k e cs)"

lemma ordered_insert_above: "\<forall>c\<in>set q. k c < k e \<Longrightarrow> ordered_insert k e q = q @ [e]"
  by (induction q) (auto simp: not_less_iff_gr_or_eq)

lemma ordered_insert_length: "length (ordered_insert k e q) = Suc (length q)"
  by (induction q) auto

lemma seq_insert_below: "q \<noteq> [] \<Longrightarrow> k e < k (last q) \<Longrightarrow> seq_insert k e q = seq_scan k e q"
  by (auto simp: seq_insert_def)

lemma last_greatest:
  assumes "sorted_wrt (<) (map k q)" "x \<in> set q"
  shows "(k x :: 'a :: linorder) \<le> k (last q)"
  using assms by (induction q) (auto intro: less_imp_le dest: last_in_set)

lemma seq_scan_not_SameLast: "fst (seq_scan k e q) \<noteq> SameLast"
  by (induction q) (auto split: prod.splits)

lemma seq_insert_ordered_iff:
  assumes "sorted_wrt (<) (map k q)" "k e \<notin> k ` set q"
  shows "snd (seq_insert k e q) = ordered_insert k e q \<longleftrightarrow>
    q = [] \<or> k (last q) < k e \<or> k (hd q) < k e \<and> (1 < length q \<longrightarrow> k e < k (q ! 1))"
proof (cases q)
  case (Cons c cs)
  show ?thesis
  proof (cases "k (last q) < k e")
    case True
    have "k x \<le> k (last q)" if "x \<in> set q" for x
      using last_greatest [OF assms(1) that] .
    then have "\<forall>x\<in>set q. k x < k e" using True by (auto intro: le_less_trans)
    with True show ?thesis by (simp add: seq_insert_above ordered_insert_above)
  next
    case False
    with assms(2) Cons have l: "k e < k (last q)"
      by (metis image_eqI last_in_set linorder_neqE list.distinct(1))
    then have ins: "seq_insert k e q = seq_scan k e q"
      using Cons by (intro seq_insert_below) simp_all
    show ?thesis
    proof (cases "k c < k e")
      case True
      then have "cs \<noteq> []" using l Cons by auto
      then obtain d ds where cs: "cs = d # ds" by (cases cs) auto
      have "e # d # ds = d # ordered_insert k e ds \<longleftrightarrow> False" if "\<not> k e < k d"
        using that assms(2) Cons cs by auto
      with True False Cons cs ins show ?thesis by auto
    next
      case False
      with assms(2) Cons have "k e < k c" by auto
      moreover have "\<forall>x\<in>set cs. k c < k x" using assms(1) Cons by simp
      ultimately have "\<forall>x\<in>set q. k e < k x" using Cons by (auto intro: order.strict_trans)
      from seq_scan_above_all [OF this] ins have "snd (seq_insert k e q) = q" by simp
      moreover have "ordered_insert k e q \<noteq> q"
        using ordered_insert_length [of k e q] by (metis n_not_Suc_n)
      ultimately show ?thesis using False l Cons \<open>\<not> k (last q) < k e\<close> by auto
    qed
  qed
qed (simp add: seq_insert_def)

section \<open>Properties\<close>

definition plain_pdu :: "seq_num_t \<Rightarrow> pdu" where
  "plain_pdu sn = pdu_format 1 2 22 23 sn 1 0 PDU_TYPE_DT (\<lambda>_. 0) [1, 2, 3]"

lemma p_seq_plain_pdu [simp]: "p_seq (plain_pdu sn) = sn"
  by (simp add: plain_pdu_def pdu_format_def)



text \<open>
  C13. Sequencing queue: for a queue in increasing order and a PDU with a new sequence number,
  \<^verbatim>\<open>seq_queue_push_ni\<close> gives the queue with the PDU at its place exactly when the queue is empty,
  or the number is above the last one, or it lies between the first and the second one. In every
  other case the PDU is lost or lands out of order.
\<close>

theorem seq_queue_push_ordered_iff:
  assumes "sorted_wrt (<) (map sq_seq q)" "p_seq du \<notin> sq_seq ` set q"
  shows "seq_queue_push_ni True now q du =
      (0, ordered_insert sq_seq \<lparr>sq_time_stamp = now, sq_du = du\<rparr> q) \<longleftrightarrow>
    q = [] \<or> sq_seq (last q) < p_seq du \<or>
    sq_seq (hd q) < p_seq du \<and> (1 < length q \<longrightarrow> p_seq du < sq_seq (q ! 1))"
proof -
  let ?e = "\<lparr>sq_time_stamp = now, sq_du = du\<rparr>"
  have "fst (seq_insert sq_seq ?e q) \<noteq> SameLast"
    using assms(2) by (auto simp: seq_insert_def seq_scan_not_SameLast)
  then have "seq_queue_push_ni True now q du = (0, snd (seq_insert sq_seq ?e q))"
    by (auto simp: seq_queue_push_ni_def seq_queue_entry_create_def split: prod.splits placing.splits)
  with seq_insert_ordered_iff [OF assms(1), of ?e] assms(2) show ?thesis by simp
qed

theorem seq_queue_push_ordered_iff_witness:
  "seq_queue_push_ni True 9 [\<lparr>sq_time_stamp = 1, sq_du = plain_pdu 5\<rparr>, \<lparr>sq_time_stamp = 2, sq_du = plain_pdu 8\<rparr>]
     (plain_pdu 7) =
   (0, [\<lparr>sq_time_stamp = 1, sq_du = plain_pdu 5\<rparr>, \<lparr>sq_time_stamp = 9, sq_du = plain_pdu 7\<rparr>,
        \<lparr>sq_time_stamp = 2, sq_du = plain_pdu 8\<rparr>])"
  using seq_queue_push_ordered_iff [of "[\<lparr>sq_time_stamp = 1, sq_du = plain_pdu 5\<rparr>, \<lparr>sq_time_stamp = 2, sq_du = plain_pdu 8\<rparr>]"
      "plain_pdu 7" 9]
  by simp

section \<open>Where the code goes wrong\<close>

text \<open>A PDU below all queued ones is dropped with the answer 0.\<close>

lemma seq_queue_push_loses_lowest:
  "seq_queue_push_ni True 9 [\<lparr>sq_time_stamp = 1, sq_du = plain_pdu 5\<rparr>] (plain_pdu 4) =
     (0, [\<lparr>sq_time_stamp = 1, sq_du = plain_pdu 5\<rparr>])"
  by (simp add: seq_queue_push_ni_def seq_queue_entry_create_def seq_insert_def)

text \<open>A PDU between the second and the third one is queued before the second one.\<close>

lemma seq_queue_push_misorders:
  "map sq_seq (snd (seq_queue_push_ni True 9
     [\<lparr>sq_time_stamp = 1, sq_du = plain_pdu 5\<rparr>, \<lparr>sq_time_stamp = 1, sq_du = plain_pdu 6\<rparr>,
      \<lparr>sq_time_stamp = 1, sq_du = plain_pdu 8\<rparr>] (plain_pdu 7))) = [5, 7, 6, 8]"
  by (simp add: seq_queue_push_ni_def seq_queue_entry_create_def seq_insert_def)

text \<open>The back-off after each retransmission is quadratic in the number of retries, not exponential.\<close>

lemma time_to_rtx_quadratic:
  "time_to_rtx 60000 \<lparr>re_time_stamp = 0, re_du = plain_pdu 5, re_retries = 5\<rparr> 100 = 2600"
  by (simp add: time_to_rtx_def Let_def)

end
