(* ===== verification/Efcp_State.thy ===== *)
theory Efcp_State
  imports Efcp_Queues "HOL-Library.Monad_Syntax"
begin

text \<open>
  The state of an EFCP connection and the operations that DTP and DTCP share: the state vectors
  of \<^verbatim>\<open>kernel/efcp-str.h\<close>, the timers of \<^verbatim>\<open>kernel/rds/rtimer.c\<close>, sending a PDU, rate accounting, the
  delivery of the closed window queue and the retransmission queue's sending operations of
  \<^verbatim>\<open>kernel/dtp-utils.c\<close>.

  An operation that may dereference NULL returns an option: \<open>None\<close> is that fault. Otherwise it
  returns its code and the new state. Everything the connection does to its surroundings is
  appended to the trace: PDUs handed to the RMT, to the container for a local flow, to the user,
  and the enabling and disabling of writing on the port. What the surroundings answer, which
  allocations succeed, the clocks and the random numbers are given in the environment; an
  exhausted list of answers means 0, an exhausted list of allocations success.
\<close>

section \<open>Records\<close>

record timespec =
  tv_sec :: int
  tv_nsec :: int

record env =
  e_jiffies :: u64
  e_hz :: u32
  jiffies_to_msecs :: "u64 \<Rightarrow> u32"
  msecs_to_jiffies :: "u32 \<Rightarrow> u64"
  e_now :: timespec
  e_ms :: allocs
  e_rmt :: "rc list"
  e_user :: "rc list"
  e_ipcp :: "rc list"
  e_rand :: "seq_num_t list"
  e_junk :: "ctrl_field \<Rightarrow> u32"

type_synonym timer = "u64 ptr"

record timers =
  tm_sender_inactivity :: timer
  tm_receiver_inactivity :: timer
  tm_a :: timer
  tm_rate_window :: timer
  tm_rtx :: timer
  tm_rendezvous :: timer

record connection =
  port_id :: port_id_t
  source_address :: address_t
  destination_address :: address_t
  source_cep_id :: cep_id_t
  destination_cep_id :: cep_id_t
  qos_id :: qos_id_t

record dtp_sv =
  sv_max_flow_pdu_size :: uint_t
  sv_max_flow_sdu_size :: uint_t
  sv_MPL :: timeout_t
  sv_R :: timeout_t
  sv_A :: timeout_t
  sv_tr :: timeout_t
  sv_rcv_left_window_edge :: seq_num_t
  sv_window_closed :: bool
  sv_drf_flag :: bool
  sv_seq_number_rollover_threshold :: uint_t
  sv_drop_pdus :: u32
  sv_err_pdus :: u32
  sv_tx_pdus :: u32
  sv_tx_bytes :: u32
  sv_rx_pdus :: u32
  sv_rx_bytes :: u32
  sv_max_seq_nr_rcv :: seq_num_t
  sv_seq_nr_to_send :: seq_num_t
  sv_max_seq_nr_sent :: seq_num_t
  sv_window_based :: bool
  sv_rexmsn_ctrl :: bool
  sv_rate_based :: bool
  sv_drf_required :: bool
  sv_rate_fulfiled :: bool

record dtcp_sv =
  cv_pdus_per_time_unit :: uint_t
  cv_next_snd_ctl_seq :: seq_num_t
  cv_last_rcv_ctl_seq :: seq_num_t
  cv_last_snd_data_ack :: seq_num_t
  cv_snd_lft_win :: seq_num_t
  cv_data_retransmit_max :: uint_t
  cv_last_rcv_data_ack :: seq_num_t
  cv_time_unit :: uint_t
  cv_sndr_credit :: uint_t
  cv_snd_rt_wind_edge :: seq_num_t
  cv_sndr_rate :: uint_t
  cv_pdus_sent_in_time_unit :: uint_t
  cv_rcvr_credit :: uint_t
  cv_rcvr_rt_wind_edge :: seq_num_t
  cv_rcvr_rate :: uint_t
  cv_pdus_rcvd_in_time_unit :: uint_t
  cv_last_time :: timespec
  cv_acks :: uint_t
  cv_flow_ctl :: uint_t
  cv_rtt :: uint_t
  cv_srtt :: uint_t
  cv_rttvar :: uint_t
  cv_rendezvous_sndr :: bool
  cv_rendezvous_rcvr :: bool

text \<open>
  The configuration, by the accessors of \<^verbatim>\<open>kernel/dtcp-conf-utils.c\<close> through which it is read, and
  the parameters of the DTCP policy set, which \<^verbatim>\<open>dtcp_select_policy_set\<close> copies from it.
\<close>

record dtcp_config =
  dtcp_flow_ctrl :: bool
  dtcp_rtx_ctrl :: bool
  dtcp_window_based_fctrl :: bool
  dtcp_rate_based_fctrl :: bool
  dtcp_max_closed_winq_length :: uint_t
  dtcp_initial_credit :: uint_t
  dtcp_sending_rate :: uint_t
  dtcp_time_period :: uint_t
  dtcp_data_retransmit_max :: uint_t
  dtcp_initial_tr :: uint_t

record dtcp_params =
  ps_flow_ctrl :: bool
  ps_rtx_ctrl :: bool
  ps_window_based :: bool
  ps_rate_based :: bool
  ps_initial_credit :: uint_t
  ps_sending_rate :: uint_t
  ps_time_period :: uint_t
  ps_data_retransmit_max :: uint_t

record dtcp =
  dc_sv :: dtcp_sv
  dc_cfg :: dtcp_config
  dc_ps :: dtcp_params
  dc_rendezvous_rcv :: timer
  dc_cpdus_in_transit :: int

record dtp_params =
  ps_in_order_delivery :: bool
  ps_incomplete_delivery :: bool
  ps_max_sdu_gap :: seq_num_t

datatype event = ToRmt pdu | ToLoop cep_id_t pdu | ToUser pdu | WriteEnabled | WriteDisabled

record dtp =
  d_dtcp :: "dtcp ptr"
  d_conn :: connection
  d_cwq :: "cwq ptr"
  d_rtxq :: "rtxqueue ptr"
  d_rttq :: "rttq ptr"
  d_sv :: dtp_sv
  d_ps :: dtp_params
  d_seqq :: seq_queue
  d_to_post :: "pdu ringq ptr"
  d_to_send :: "pdu ringq ptr"
  d_timers :: timers
  d_env :: env
  d_trace :: "event list"

definition TO_POST_LENGTH :: nat where "TO_POST_LENGTH = 1000"
definition TO_SEND_LENGTH :: nat where "TO_SEND_LENGTH = 16"

type_synonym 'a act = "dtp \<Rightarrow> ('a \<times> dtp) option"

section \<open>The surroundings\<close>

fun answer :: "rc list \<Rightarrow> rc \<times> rc list" where
  "answer [] = (0, [])"
| "answer (r # rs) = (r, rs)"

definition emit :: "event \<Rightarrow> dtp \<Rightarrow> dtp" where
  "emit ev d = d\<lparr>d_trace := d_trace d @ [ev]\<rparr>"

definition alloc :: "dtp \<Rightarrow> bool \<times> dtp" where
  "alloc d = (let (ok, ms) = rkmalloc (e_ms (d_env d)) in (ok, d\<lparr>d_env := (d_env d)\<lparr>e_ms := ms\<rparr>\<rparr>))"

definition rmt_send :: "pdu \<Rightarrow> dtp \<Rightarrow> rc \<times> dtp" where
  "rmt_send du d =
     (let (r, rs) = answer (e_rmt (d_env d))
      in (r, emit (ToRmt du) (d\<lparr>d_env := (d_env d)\<lparr>e_rmt := rs\<rparr>\<rparr>)))"

definition efcp_container_receive :: "cep_id_t \<Rightarrow> pdu \<Rightarrow> dtp \<Rightarrow> rc \<times> dtp" where
  "efcp_container_receive cep du d =
     (let (r, rs) = answer (e_rmt (d_env d))
      in (r, emit (ToLoop cep du) (d\<lparr>d_env := (d_env d)\<lparr>e_rmt := rs\<rparr>\<rparr>)))"

definition efcp_enqueue :: "pdu \<Rightarrow> dtp \<Rightarrow> rc \<times> dtp" where
  "efcp_enqueue du d =
     (let (r, rs) = answer (e_user (d_env d))
      in (r, emit (ToUser du) (d\<lparr>d_env := (d_env d)\<lparr>e_user := rs\<rparr>\<rparr>)))"

definition efcp_enable_write :: "dtp \<Rightarrow> rc \<times> dtp" where
  "efcp_enable_write d =
     (let (r, rs) = answer (e_ipcp (d_env d))
      in (if r \<noteq> 0 then -1 else 0, emit WriteEnabled (d\<lparr>d_env := (d_env d)\<lparr>e_ipcp := rs\<rparr>\<rparr>)))"

definition efcp_disable_write :: "dtp \<Rightarrow> rc \<times> dtp" where
  "efcp_disable_write d =
     (let (r, rs) = answer (e_ipcp (d_env d))
      in (if r \<noteq> 0 then -1 else 0, emit WriteDisabled (d\<lparr>d_env := (d_env d)\<lparr>e_ipcp := rs\<rparr>\<rparr>)))"

text \<open>\<^verbatim>\<open>du_dup_ni\<close>: NULL without memory.\<close>

definition dup_du :: "pdu \<Rightarrow> dtp \<Rightarrow> pdu ptr \<times> dtp" where
  "dup_du du d = (let (ok, d) = alloc d in (if ok then Some du else None, d))"

section \<open>Timers\<close>

definition rtimer_is_pending :: "timer \<Rightarrow> bool" where
  "rtimer_is_pending tm \<longleftrightarrow> tm \<noteq> None"

definition rtimer_start :: "env \<Rightarrow> u32 \<Rightarrow> timer \<Rightarrow> timer" where
  "rtimer_start e millisecs tm =
     (if rtimer_is_pending tm then tm else Some (e_jiffies e + ucast ((millisecs * e_hz e) div 1000)))"

definition rtimer_stop :: "timer \<Rightarrow> timer" where
  "rtimer_stop tm = None"

definition rtimer_restart :: "env \<Rightarrow> u32 \<Rightarrow> timer \<Rightarrow> timer" where
  "rtimer_restart e millisecs tm = rtimer_start e millisecs tm"

definition with_timers :: "(env \<Rightarrow> timers \<Rightarrow> timers) \<Rightarrow> dtp \<Rightarrow> dtp" where
  "with_timers f d = d\<lparr>d_timers := f (d_env d) (d_timers d)\<rparr>"

definition start_rendezvous :: "u32 \<Rightarrow> dtp \<Rightarrow> dtp" where
  "start_rendezvous ms = with_timers (\<lambda>e t. t\<lparr>tm_rendezvous := rtimer_start e ms (tm_rendezvous t)\<rparr>)"

definition start_rtx :: "u32 \<Rightarrow> dtp \<Rightarrow> dtp" where
  "start_rtx ms = with_timers (\<lambda>e t. t\<lparr>tm_rtx := rtimer_start e ms (tm_rtx t)\<rparr>)"

definition start_a :: "u32 \<Rightarrow> dtp \<Rightarrow> dtp" where
  "start_a ms = with_timers (\<lambda>e t. t\<lparr>tm_a := rtimer_start e ms (tm_a t)\<rparr>)"

definition time_before_eq :: "u64 \<Rightarrow> u64 \<Rightarrow> bool" where
  "time_before_eq a b \<longleftrightarrow> 0 \<le> sint (b - a)"

section \<open>State vectors\<close>

definition sv_upd :: "(dtp_sv \<Rightarrow> dtp_sv) \<Rightarrow> dtp \<Rightarrow> dtp" where
  "sv_upd f d = d\<lparr>d_sv := f (d_sv d)\<rparr>"

text \<open>Updates of what \<^verbatim>\<open>dtp->dtcp\<close> points to; nothing happens when it is NULL.\<close>

definition dtcp_upd :: "(dtcp \<Rightarrow> dtcp) \<Rightarrow> dtp \<Rightarrow> dtp" where
  "dtcp_upd f d = d\<lparr>d_dtcp := map_option f (d_dtcp d)\<rparr>"

definition cv_upd :: "(dtcp_sv \<Rightarrow> dtcp_sv) \<Rightarrow> dtp \<Rightarrow> dtp" where
  "cv_upd f = dtcp_upd (\<lambda>c. c\<lparr>dc_sv := f (dc_sv c)\<rparr>)"

definition stats_inc_drop :: "dtp \<Rightarrow> dtp" where
  "stats_inc_drop = sv_upd (\<lambda>s. s\<lparr>sv_drop_pdus := sv_drop_pdus s + 1\<rparr>)"

definition stats_inc_err :: "dtp \<Rightarrow> dtp" where
  "stats_inc_err = sv_upd (\<lambda>s. s\<lparr>sv_err_pdus := sv_err_pdus s + 1\<rparr>)"

definition stats_inc_bytes_tx :: "int \<Rightarrow> dtp \<Rightarrow> dtp" where
  "stats_inc_bytes_tx n =
     sv_upd (\<lambda>s. s\<lparr>sv_tx_pdus := sv_tx_pdus s + 1, sv_tx_bytes := sv_tx_bytes s + word_of_int n\<rparr>)"

definition stats_inc_bytes_rx :: "int \<Rightarrow> dtp \<Rightarrow> dtp" where
  "stats_inc_bytes_rx n =
     sv_upd (\<lambda>s. s\<lparr>sv_rx_pdus := sv_rx_pdus s + 1, sv_rx_bytes := sv_rx_bytes s + word_of_int n\<rparr>)"

section \<open>Sending\<close>

text \<open>
  A remote flow reads \<^verbatim>\<open>dtp->dtcp->sv\<close> before it calls the RMT. In a local flow the PDU is
  decapsulated, which changes nothing the record keeps, and handed to the container.
\<close>

definition dtp_pdu_send :: "pdu \<Rightarrow> rc act" where
  "dtp_pdu_send du d =
     (if p_src du \<noteq> p_dst du
      then do {
        c \<leftarrow> d_dtcp d;
        let (r, d) = rmt_send du d;
        Some (if r \<noteq> 0 then -1 else 0, d)
      }
      else (let (r, d) = efcp_container_receive (p_dst_cep du) du d
            in Some (if r \<noteq> 0 then -1 else 0, d)))"

definition pdu_post :: "pdu \<Rightarrow> dtp \<Rightarrow> rc \<times> dtp" where
  "pdu_post du d = (let (r, d) = efcp_enqueue du d in (if r \<noteq> 0 then -1 else 0, d))"

definition dtp_pdu_ctrl_send :: "pdu \<Rightarrow> dtp \<Rightarrow> rc \<times> dtp" where
  "dtp_pdu_ctrl_send du d = (let (r, q) = ringq_push (d_to_send d) du in (r, d\<lparr>d_to_send := q\<rparr>))"

fun send_all :: "pdu list \<Rightarrow> dtp \<Rightarrow> dtp option" where
  "send_all [] d = Some d"
| "send_all (du # dus) d = do { (r, d) \<leftarrow> dtp_pdu_send du d; send_all dus d }"

text \<open>The ring holds at most \<open>TO_SEND_LENGTH\<close> PDUs, which bounds the rounds of the loop.\<close>

definition dtp_send_pending_ctrl_pdus :: "dtp \<Rightarrow> dtp option" where
  "dtp_send_pending_ctrl_pdus d =
     (let (dus, q) = drain ringq_is_empty ringq_pop TO_SEND_LENGTH (d_to_send d)
      in send_all dus (d\<lparr>d_to_send := q\<rparr>))"

section \<open>Rates\<close>

text \<open>Division of C, which rounds towards zero.\<close>

definition cdiv :: "int \<Rightarrow> int \<Rightarrow> int" where
  "cdiv a b = sgn a * (\<bar>a\<bar> div b)"

definition msec_diff :: "timespec \<Rightarrow> timespec \<Rightarrow> u32" where
  "msec_diff t u =
     word_of_int ((tv_sec t - tv_sec u) * 1000 + cdiv (tv_nsec t - tv_nsec u) 1000000)"

definition dtcp_rate_exceeded :: "env \<Rightarrow> bool \<Rightarrow> dtcp_sv \<Rightarrow> bool \<times> dtcp_sv" where
  "dtcp_rate_exceeded e send s =
     (let s = (if msec_diff (e_now e) (cv_last_time s) \<ge> cv_time_unit s
               then s\<lparr>cv_pdus_sent_in_time_unit := 0, cv_pdus_rcvd_in_time_unit := 0,
                      cv_last_time := e_now e\<rparr>
               else s);
          (rate, lim) = (if send then (cv_pdus_sent_in_time_unit s, cv_sndr_rate s)
                         else (cv_pdus_rcvd_in_time_unit s, cv_rcvr_rate s))
      in (rate \<ge> lim, s))"

definition rate_exceeded :: "bool \<Rightarrow> bool act" where
  "rate_exceeded send d = do {
     c \<leftarrow> d_dtcp d;
     let (b, s) = dtcp_rate_exceeded (d_env d) send (dc_sv c);
     Some (b, cv_upd (\<lambda>_. s) d)
   }"

definition msec_to_next_rate :: "env \<Rightarrow> u32 \<Rightarrow> timespec \<Rightarrow> u32" where
  "msec_to_next_rate e time_frame lst = msec_diff lst (e_now e) + time_frame"

definition dtp_start_rate_timer :: "dtp \<Rightarrow> dtp option" where
  "dtp_start_rate_timer d =
     (if rtimer_is_pending (tm_rate_window (d_timers d)) then Some d
      else do {
        c \<leftarrow> d_dtcp d;
        let tf = msec_to_next_rate (d_env d) (cv_time_unit (dc_sv c)) (cv_last_time (dc_sv c));
        Some (with_timers (\<lambda>e t. t\<lparr>tm_rate_window := rtimer_start e tf (tm_rate_window t)\<rparr>) d)
      })"

text \<open>
  The accounting of a PDU of \<open>sz\<close> bytes that is written out in \<^verbatim>\<open>dtp_write\<close>, \<^verbatim>\<open>cwq_deliver\<close>,
  \<^verbatim>\<open>rtxqueue_entries_nack\<close> and \<^verbatim>\<open>rtxqueue_rtx\<close>; the sum is an unsigned one.
\<close>

definition account_sent :: "int \<Rightarrow> dtcp_sv \<Rightarrow> dtcp_sv" where
  "account_sent sz s =
     (if sz \<ge> 0
      then if word_of_int sz + cv_pdus_sent_in_time_unit s \<ge> cv_sndr_rate s
           then s\<lparr>cv_pdus_sent_in_time_unit := cv_sndr_rate s\<rparr>
           else s\<lparr>cv_pdus_sent_in_time_unit := cv_pdus_sent_in_time_unit s + word_of_int sz\<rparr>
      else s)"

definition du_data_size :: "pdu \<Rightarrow> int" where
  "du_data_size du = int (length (p_data du))"

section \<open>Policies of DTP\<close>

record dtp_ps =
  transmission_control :: "pdu \<Rightarrow> rc act"
  closed_window :: "pdu \<Rightarrow> rc act"
  snd_flow_control_overrun :: "pdu \<Rightarrow> rc act"
  initial_sequence_number :: "rc act"
  receiver_inactivity_timer :: "rc act"
  sender_inactivity_timer :: "rc act"
  reconcile_flow_conflict :: "dtp \<Rightarrow> bool"

section \<open>Retransmission queue\<close>

definition rtxq_size :: "rtxqueue ptr \<Rightarrow> int" where
  "rtxq_size q = (case q of None \<Rightarrow> -1 | Some r \<Rightarrow> rx_len r)"

definition rtxq_drop_pdus :: "rtxqueue ptr \<Rightarrow> int" where
  "rtxq_drop_pdus q = (case q of None \<Rightarrow> -1 | Some r \<Rightarrow> rx_drop_pdus r)"

definition rtxq_entry_timestamp :: "rtxqueue ptr \<Rightarrow> seq_num_t \<Rightarrow> u64" where
  "rtxq_entry_timestamp q sn = (case q of None \<Rightarrow> 0 | Some r \<Rightarrow> rtxqueue_entry_timestamp r sn)"

definition rtxq_push_ni :: "pdu \<Rightarrow> rc act" where
  "rtxq_push_ni du d = do {
     q \<leftarrow> d_rtxq d;
     let d = start_rtx (sv_tr (d_sv d)) d;
     let (ok, d) = alloc d;
     let (r, q) = rtxqueue_push_ni ok (e_jiffies (d_env d)) q du;
     Some (r, d\<lparr>d_rtxq := Some q\<rparr>)
   }"

definition rtxq_flush :: "dtp \<Rightarrow> rc \<times> dtp" where
  "rtxq_flush d =
     (case d_rtxq d of
        None \<Rightarrow> (-1, d)
      | Some q \<Rightarrow>
          (0, (with_timers (\<lambda>e t. t\<lparr>tm_rtx := rtimer_stop (tm_rtx t)\<rparr>) d)\<lparr>d_rtxq := Some (rtxqueue_flush q)\<rparr>))"

definition rtxq_ack :: "seq_num_t \<Rightarrow> u32 \<Rightarrow> dtp \<Rightarrow> rc \<times> dtp" where
  "rtxq_ack seq tr d =
     (case d_rtxq d of
        None \<Rightarrow> (-1, d)
      | Some q \<Rightarrow>
          (let (r, q) = rtxqueue_entries_ack q seq
           in (r, with_timers (\<lambda>e t. t\<lparr>tm_rtx := rtimer_restart e tr (tm_rtx t)\<rparr>) (d\<lparr>d_rtxq := Some q\<rparr>))))"

text \<open>Charging a retransmission to the rate; the answer is whether the rate is exceeded.\<close>

definition charge_rtx :: "pdu \<Rightarrow> bool act" where
  "charge_rtx du d = do {
     c \<leftarrow> d_dtcp d;
     if \<not> dtcp_rate_based_fctrl (dc_cfg c) then Some (False, d)
     else do {
       (b, d) \<leftarrow> rate_exceeded True (cv_upd (account_sent (du_data_size du)) d);
       if \<not> b then Some (False, d)
       else do {
         d \<leftarrow> dtp_start_rate_timer (sv_upd (\<lambda>s. s\<lparr>sv_rate_fulfiled := True\<rparr>) d);
         Some (True, d)
       }
     }
   }"

text \<open>
  \<^verbatim>\<open>rtxqueue_entries_nack\<close> goes through the queue from its tail; \<open>nack_loop\<close> gets the entries in this
  order and answers those that stay, in this order, and how many were dropped.
\<close>

fun nack_loop :: "seq_num_t \<Rightarrow> uint_t \<Rightarrow> rtxq_entry list \<Rightarrow> (rtxq_entry list \<times> int) act" where
  "nack_loop seq mx [] d = Some (([], 0), d)"
| "nack_loop seq mx (e # es) d =
     (if re_seq e \<ge> seq
      then (let e = e\<lparr>re_retries := re_retries e + 1\<rparr>
            in if word_of_int (re_retries e) \<ge> mx
               then do {
                 ((ks, k), d) \<leftarrow> nack_loop seq mx es d;
                 Some ((ks, k + 1), d)
               }
               else do {
                 (stop, d) \<leftarrow> charge_rtx (re_du e) d;
                 if stop then Some ((e # es, 0), d)
                 else do {
                   let (tmp, d) = dup_du (re_du e) d;
                   du \<leftarrow> tmp;
                   (r, d) \<leftarrow> dtp_pdu_send du d;
                   ((ks, k), d) \<leftarrow> nack_loop seq mx es d;
                   Some ((e # ks, k), d)
                 }
               })
      else Some ((e # es, 0), d))"

definition rtxqueue_entries_nack :: "seq_num_t \<Rightarrow> uint_t \<Rightarrow> rc act" where
  "rtxqueue_entries_nack seq mx d = do {
     q \<leftarrow> d_rtxq d;
     ((ks, k), d) \<leftarrow> nack_loop seq mx (rev (rx_head q)) d;
     Some (0, d\<lparr>d_rtxq := Some (q\<lparr>rx_head := rev ks, rx_len := rx_len q - k,
                                     rx_drop_pdus := rx_drop_pdus q + k\<rparr>)\<rparr>)
   }"

definition rtxq_nack :: "seq_num_t \<Rightarrow> u32 \<Rightarrow> rc act" where
  "rtxq_nack seq tr d =
     (case d_rtxq d of
        None \<Rightarrow> Some (-1, d)
      | Some q \<Rightarrow> do {
          c \<leftarrow> d_dtcp d;
          (r, d) \<leftarrow> rtxqueue_entries_nack seq (ps_data_retransmit_max (dc_ps c)) d;
          Some (0, with_timers (\<lambda>e t. t\<lparr>tm_rtx := rtimer_restart e tr (tm_rtx t)\<rparr>) d)
        })"

text \<open>
  The loop of \<^verbatim>\<open>rtxqueue_rtx\<close>: the entries that stay, how many were dropped, and the greatest
  sequence number among them.
\<close>

fun rtx_loop :: "u32 \<Rightarrow> uint_t \<Rightarrow> rtxq_entry list \<Rightarrow> (rtxq_entry list \<times> nat \<times> seq_num_t) act" where
  "rtx_loop tr mx [] d = Some (([], 0, 0), d)"
| "rtx_loop tr mx (e # es) d =
     (if time_before_eq (time_to_rtx (msecs_to_jiffies (d_env d) 60000) e tr) (e_jiffies (d_env d))
      then (let e = e\<lparr>re_retries := re_retries e + 1\<rparr>
            in if word_of_int (re_retries e) \<ge> mx
               then do {
                 ((ks, k, sn), d) \<leftarrow> rtx_loop tr mx es d;
                 Some ((ks, Suc k, max (re_seq e) sn), d)
               }
               else do {
                 (stop, d) \<leftarrow> charge_rtx (re_du e) d;
                 if stop then Some ((e # es, 0, 0), d)
                 else do {
                   let (tmp, d) = dup_du (re_du e) d;
                   du \<leftarrow> tmp;
                   (r, d) \<leftarrow> dtp_pdu_send du d;
                   ((ks, k, sn), d) \<leftarrow> rtx_loop tr mx es d;
                   Some ((e # ks, k, sn), d)
                 }
               })
      else Some ((e # es, 0, 0), d))"

definition rtxqueue_rtx :: "u32 \<Rightarrow> uint_t \<Rightarrow> rc act" where
  "rtxqueue_rtx tr mx d = do {
     q \<leftarrow> d_rtxq d;
     ((ks, k, sn), d) \<leftarrow> rtx_loop tr mx (rx_head q) d;
     let q = q\<lparr>rx_head := ks, rx_len := rx_len q - int k, rx_drop_pdus := rx_drop_pdus q + int k\<rparr>;
     let d = d\<lparr>d_rtxq := Some q\<rparr>;
     if k = 0 then Some (0, d)
     else do {
       let d = cv_upd (\<lambda>s. if cv_snd_lft_win s < sn then s\<lparr>cv_snd_lft_win := sn\<rparr> else s) d;
       c \<leftarrow> d_dtcp d;
       if rx_len q = 0 \<and> cwq_size (d_cwq d) = uint (dtcp_max_closed_winq_length (dc_cfg c)) \<and>
          \<not> cv_rendezvous_sndr (dc_sv c)
       then (let d = cv_upd (\<lambda>s. s\<lparr>cv_rendezvous_sndr := True\<rparr>) d
             in Some (0, start_rendezvous (jiffies_to_msecs (d_env d) (ucast (sv_tr (d_sv d)))) d))
       else Some (0, d)
     }
   }"

definition rtx_timer_func :: "dtp \<Rightarrow> dtp option" where
  "rtx_timer_func d = do {
     let tr = sv_tr (d_sv d);
     c \<leftarrow> d_dtcp d;
     (r, d) \<leftarrow> rtxqueue_rtx tr (dtcp_data_retransmit_max (dc_cfg c)) d;
     if \<not> rtxqueue_empty (d_rtxq d)
     then Some (with_timers (\<lambda>e t. t\<lparr>tm_rtx := rtimer_restart e tr (tm_rtx t)\<rparr>) d)
     else Some d
   }"

section \<open>Delivery from the closed window queue\<close>

definition can_deliver :: "dtp_ps \<Rightarrow> bool act" where
  "can_deliver ps d = do {
     c \<leftarrow> d_dtcp d;
     let is_wb = dtcp_window_based_fctrl (dc_cfg c);
     let is_rb = dtcp_rate_based_fctrl (dc_cfg c);
     let w_ret = (is_wb \<and> sv_max_seq_nr_sent (d_sv d) < cv_snd_rt_wind_edge (dc_sv c));
     (r_ret, d) \<leftarrow> (if is_rb then do { (b, d) \<leftarrow> rate_exceeded False d; Some (\<not> b, d) }
                    else Some (False, d));
     Some (if is_wb \<and> is_rb \<and> w_ret \<noteq> r_ret then reconcile_flow_conflict ps d
           else w_ret \<or> r_ret, d)
   }"

text \<open>
  A copy for the retransmission queue, or the sequence number for the round-trip-time queue;
  \<open>False\<close> when \<^verbatim>\<open>cwq_deliver\<close> returns here, and the PDU is gone.
\<close>

definition queue_copy :: "pdu \<Rightarrow> bool act" where
  "queue_copy du d = do {
     c \<leftarrow> d_dtcp d;
     if ps_rtx_ctrl (dc_ps c)
     then (case d_rtxq d of
             None \<Rightarrow> Some (False, d)
           | Some q \<Rightarrow>
               (case dup_du du d of
                  (None, d) \<Rightarrow> Some (False, d)
                | (Some tmp, d) \<Rightarrow> do { (r, d) \<leftarrow> rtxq_push_ni tmp d; Some (True, d) }))
     else (case d_rttq d of
             None \<Rightarrow> Some (True, d)
           | Some q \<Rightarrow>
               (let (ok, d) = alloc d
                in Some (True, d\<lparr>d_rttq := Some (snd (rttq_push ok (e_jiffies (d_env d)) q (p_seq du)))\<rparr>)))
   }"

text \<open>Charging the PDU to the rate; \<open>True\<close> when the loop is left here, without sending it.\<close>

definition charge_cwq :: "pdu \<Rightarrow> bool act" where
  "charge_cwq du d = do {
     c \<leftarrow> d_dtcp d;
     if ps_flow_ctrl (dc_ps c) \<and> dtcp_rate_based_fctrl (dc_cfg c)
     then Some (word_of_int (du_data_size du) + cv_pdus_sent_in_time_unit (dc_sv c) \<ge> cv_sndr_rate (dc_sv c),
                cv_upd (account_sent (du_data_size du)) d)
     else Some (False, d)
   }"

definition cwq_send :: "pdu \<Rightarrow> rc act" where
  "cwq_send du d =
     dtp_pdu_send du
       (cv_upd (\<lambda>s. s\<lparr>cv_snd_lft_win := p_seq du\<rparr>) (sv_upd (\<lambda>s. s\<lparr>sv_max_seq_nr_sent := p_seq du\<rparr>) d))"

text \<open>
  The loop, with the number of queued PDUs as fuel since every round takes one; \<open>True\<close> when the code
  behind it is reached.
\<close>

fun cwq_loop :: "dtp_ps \<Rightarrow> nat \<Rightarrow> bool act" where
  "cwq_loop ps 0 d = Some (True, d)"
| "cwq_loop ps (Suc n) d = do {
     q \<leftarrow> d_cwq d;
     if rqueue_is_empty (cw_q q) then Some (True, d)
     else do {
       (b, d) \<leftarrow> can_deliver ps d;
       if \<not> b then Some (True, d)
       else (case rqueue_head_pop (cw_q q) of
               (None, r) \<Rightarrow> Some (False, d\<lparr>d_cwq := Some (q\<lparr>cw_q := r\<rparr>)\<rparr>)
             | (Some du, r) \<Rightarrow> do {
                 (go, d) \<leftarrow> queue_copy du (d\<lparr>d_cwq := Some (q\<lparr>cw_q := r\<rparr>)\<rparr>);
                 if \<not> go then Some (False, d)
                 else do {
                   (stop, d) \<leftarrow> charge_cwq du d;
                   if stop then Some (True, d)
                   else do {
                     (rc, d) \<leftarrow> cwq_send du d;
                     cwq_loop ps n d
                   }
                 }
               })
     }
   }"

definition cwq_finish :: "dtp \<Rightarrow> dtp option" where
  "cwq_finish d = do {
     q \<leftarrow> d_cwq d;
     c \<leftarrow> d_dtcp d;
     let wb = dtcp_window_based_fctrl (dc_cfg c);
     let rb = dtcp_rate_based_fctrl (dc_cfg c);
     let d = (if wb then sv_upd (\<lambda>s. s\<lparr>sv_window_closed := \<not> rqueue_is_empty (cw_q q)\<rparr>) d else d);
     let d = (if rb then sv_upd (\<lambda>s. s\<lparr>sv_rate_fulfiled := True\<rparr>) d else d);
     if \<not> rqueue_is_empty (cw_q q)
     then (if rb then dtp_start_rate_timer d else Some d)
     else if rqueue_length (cw_q q) < uint (dtcp_max_closed_winq_length (dc_cfg c))
     then Some (snd (efcp_enable_write d))
     else Some d
   }"

definition cwq_deliver :: "dtp_ps \<Rightarrow> dtp \<Rightarrow> dtp option" where
  "cwq_deliver ps d = do {
     q \<leftarrow> d_cwq d;
     (go, d) \<leftarrow> cwq_loop ps (length (rqueue_list (cw_q q))) d;
     if go then cwq_finish d else Some d
   }"

section \<open>A-timer expiration\<close>

text \<open>
  The walk of \<^verbatim>\<open>process_A_expiration\<close> over the sequencing queue: it removes entries from the head,
  either dropping them (an expired entry under retransmission control) or pushing them on
  \<open>to_post\<close> and advancing the left window edge, until one is neither expired nor within the gap.
  The \<^verbatim>\<open>dtcp->cfg\<close> of an expired entry is read whether there is a DTCP or not. The result is the
  last PDU posted.
\<close>

fun a_loop :: "u64 \<Rightarrow> seq_queue \<Rightarrow> (pdu ptr \<times> seq_queue) act" where
  "a_loop a [] d = Some ((None, []), d)"
| "a_loop a (e # es) d =
     (let seq = sq_seq e;
          LWE = sv_rcv_left_window_edge (d_sv d);
          expired = time_before_eq (sq_time_stamp e + a) (e_jiffies (d_env d))
      in if expired \<or> seq - LWE - 1 \<le> ps_max_sdu_gap (d_ps d)
         then do {
           rtx \<leftarrow> (if expired then do { c \<leftarrow> d_dtcp d; Some (dtcp_rtx_ctrl (dc_cfg c)) } else Some False);
           if rtx then a_loop a es d
           else do {
             let d = sv_upd (\<lambda>s. s\<lparr>sv_rcv_left_window_edge := seq\<rparr>) d;
             let (r, q) = ringq_push (d_to_post d) (sq_du e);
             ((p, rest), d) \<leftarrow> a_loop a es (d\<lparr>d_to_post := q\<rparr>);
             Some ((case p of None \<Rightarrow> Some (sq_du e) | Some _ \<Rightarrow> p, rest), d)
           }
         }
         else Some ((None, e # es), d))"

fun post_all :: "pdu list \<Rightarrow> dtp \<Rightarrow> dtp" where
  "post_all [] d = d"
| "post_all (du # dus) d = post_all dus (snd (pdu_post du d))"

definition process_A_expiration :: "dtp \<Rightarrow> (pdu ptr \<times> dtp) option" where
  "process_A_expiration d = do {
     let a = (ucast (msecs_to_jiffies (d_env d) (sv_A (d_sv d))) :: u32);
     ((p, rest), d) \<leftarrow> a_loop (ucast a) (d_seqq d) d;
     let d = d\<lparr>d_seqq := rest\<rparr>;
     let (dus, q) = drain ringq_is_empty ringq_pop TO_POST_LENGTH (d_to_post d);
     Some (p, post_all dus (d\<lparr>d_to_post := q\<rparr>))
   }"

definition dtp_squeue_flush :: "dtp \<Rightarrow> dtp" where
  "dtp_squeue_flush d = d\<lparr>d_seqq := []\<rparr>"

end
