(* ===== verification/Dtcp.thy ===== *)
theory Dtcp
  imports Efcp_State
begin

text \<open>
  DTCP: \<^verbatim>\<open>kernel/dtcp.c\<close> and the default policy set of \<^verbatim>\<open>kernel/dtcp-ps-default.c\<close>. A policy set is
  a record of the functions of \<^verbatim>\<open>struct dtcp_ps\<close>; its parameters are part of the state. The
  \<^verbatim>\<open>sending_ack\<close> policy, which calls back into \<^verbatim>\<open>dtcp_sv_update\<close>, is the field of an extension of
  the record.
\<close>

record dtcp_ps =
  lost_control_pdu :: "rc act"
  rtt_estimator :: "(seq_num_t \<Rightarrow> rc act) ptr"
  rcvr_ack :: "pdu \<Rightarrow> rc act"
  sender_ack :: "seq_num_t \<Rightarrow> rc act"
  receiving_flow_control :: "pdu \<Rightarrow> rc act"
  rcvr_flow_control :: "pdu \<Rightarrow> rc act"
  rate_reduction :: "pdu \<Rightarrow> rc act"
  ps_rcvr_rendezvous :: "(pdu \<Rightarrow> rc act) ptr"

record dtcp_ps_all = dtcp_ps +
  sending_ack :: "seq_num_t \<Rightarrow> rc act"

section \<open>Control PDUs\<close>

definition cpdus_inc :: "int \<Rightarrow> dtp \<Rightarrow> dtp" where
  "cpdus_inc n = dtcp_upd (\<lambda>c. c\<lparr>dc_cpdus_in_transit := dc_cpdus_in_transit c + n\<rparr>)"

definition next_snd_ctl_seq :: "seq_num_t act" where
  "next_snd_ctl_seq d = do {
     c \<leftarrow> d_dtcp d;
     let sn = cv_next_snd_ctl_seq (dc_sv c) + 1;
     Some (sn, cv_upd (\<lambda>s. s\<lparr>cv_next_snd_ctl_seq := sn\<rparr>) d)
   }"

text \<open>
  The window and rate fields are set where the PDU type has them; only the codes of the last
  setters count.
\<close>

definition populate_ctrl_pci :: "pdu \<Rightarrow> dtp \<Rightarrow> (rc \<times> pdu) option" where
  "populate_ctrl_pci p d = do {
     c \<leftarrow> d_dtcp d;
     let s = dc_sv c;
     let LWE = sv_rcv_left_window_edge (d_sv d);
     let p = (if dtcp_flow_ctrl (dc_cfg c) \<and> dtcp_window_based_fctrl (dc_cfg c)
              then pdu_ctrl_sets [(NewLeft, LWE), (NewRt, cv_rcvr_rt_wind_edge s),
                                  (MyLeft, cv_snd_lft_win s), (MyRt, cv_snd_rt_wind_edge s)] p
              else p);
     let p = (if dtcp_flow_ctrl (dc_cfg c) \<and> dtcp_rate_based_fctrl (dc_cfg c)
              then pdu_ctrl_sets [(SndrRate, cv_sndr_rate s), (TimeFrame, cv_time_unit s)] p
              else p);
     let t = p_type p;
     Some (if t = PDU_TYPE_ACK_AND_FC
           then (let (r, p) = pdu_ctrl_set AckSeq LWE p
                 in if r \<noteq> 0 then (-1, p)
                    else (let (r, p) = pdu_ctrl_set LastCsn (cv_last_rcv_ctl_seq s) p
                          in if r \<noteq> 0 then (-1, p) else (0, p)))
           else if t = PDU_TYPE_ACK
           then (let (r, p) = pdu_ctrl_set AckSeq LWE p in if r \<noteq> 0 then (-1, p) else (0, p))
           else if t \<in> {PDU_TYPE_NACK_AND_FC, PDU_TYPE_NACK}
           then (let (r, p) = pdu_ctrl_set AckSeq (LWE + 1) p in if r \<noteq> 0 then (-1, p) else (0, p))
           else if t \<in> {PDU_TYPE_RENDEZVOUS, PDU_TYPE_CACK}
           then (let (r, p) = pdu_ctrl_set LastCsn (cv_last_rcv_ctl_seq s) p
                 in if r \<noteq> 0 then (-1, p) else (0, p))
           else (0, p))
   }"

definition pdu_ctrl_generate :: "pdu_type_t \<Rightarrow> pdu ptr act" where
  "pdu_ctrl_generate t d =
     (let (ok, d) = alloc d
      in if \<not> ok then Some (None, d)
         else do {
           (seq, d) \<leftarrow> next_snd_ctl_seq d;
           let k = d_conn d;
           let p = pdu_format (source_cep_id k) (destination_cep_id k) (source_address k)
                     (destination_address k) seq (qos_id k) 0 t (e_junk (d_env d)) [];
           (r, p) \<leftarrow> populate_ctrl_pci p d;
           Some (if r \<noteq> 0 then None else Some p, d)
         })"

definition ctrl_pdu_send :: "pdu_type_t \<Rightarrow> bool \<Rightarrow> rc act" where
  "ctrl_pdu_send t direct d = do {
     c \<leftarrow> d_dtcp d;
     (p, d) \<leftarrow> pdu_ctrl_generate t d;
     (case p of
        None \<Rightarrow> Some (-1, cpdus_inc (-1) d)
      | Some du \<Rightarrow>
          if direct
          then do {
            (r, d) \<leftarrow> dtp_pdu_send du d;
            Some (if r \<noteq> 0 then -1 else 0, cpdus_inc (-1) d)
          }
          else (let (r, d) = dtp_pdu_ctrl_send du d
                in Some (if r \<noteq> 0 then -1 else 0, cpdus_inc (-1) d)))
   }"

definition tf_rendezvous_rcv :: "dtp \<Rightarrow> dtp option" where
  "tf_rendezvous_rcv d = do {
     c \<leftarrow> d_dtcp d;
     if cv_rendezvous_rcvr (dc_sv c)
     then do {
       let rv = jiffies_to_msecs (d_env d) (ucast (sv_tr (d_sv d)));
       (r, d) \<leftarrow> ctrl_pdu_send PDU_TYPE_FC True (cpdus_inc 1 d);
       Some (dtcp_upd (\<lambda>c. c\<lparr>dc_rendezvous_rcv := rtimer_start (d_env d) rv (dc_rendezvous_rcv c)\<rparr>) d)
     }
     else Some d
   }"

definition pdu_ctrl_type_get :: "pdu_type_t act" where
  "pdu_ctrl_type_get d = do {
     c \<leftarrow> d_dtcp d;
     let LWE = sv_rcv_left_window_edge (d_sv d);
     if cv_last_snd_data_ack (dc_sv c) < LWE
     then Some (if ps_flow_ctrl (dc_ps c) then PDU_TYPE_ACK_AND_FC else PDU_TYPE_ACK,
                cv_upd (\<lambda>s. s\<lparr>cv_last_snd_data_ack := LWE\<rparr>) d)
     else Some (0, d)
   }"

definition dtcp_ack_flow_control_pdu_send :: "seq_num_t \<Rightarrow> rc act" where
  "dtcp_ack_flow_control_pdu_send seq d =
     (case d_dtcp d of
        None \<Rightarrow> Some (-1, d)
      | Some c \<Rightarrow> do {
          (t, d) \<leftarrow> pdu_ctrl_type_get (cpdus_inc 1 d);
          if t = 0 then Some (0, cpdus_inc (-1) d) else ctrl_pdu_send t False d
        })"

definition dtcp_rendezvous_pdu_send :: "rc act" where
  "dtcp_rendezvous_pdu_send d = ctrl_pdu_send PDU_TYPE_RENDEZVOUS True (cpdus_inc 1 d)"

section \<open>Receiving control PDUs\<close>

definition push_pdus_rmt :: "dtp_ps \<Rightarrow> rc act" where
  "push_pdus_rmt dps d =
     (case d_cwq d of
        None \<Rightarrow> Some (-1, d)
      | Some q \<Rightarrow> do { d \<leftarrow> cwq_deliver dps d; Some (0, d) })"

definition rcv_nack_ctl :: "'a dtcp_ps_scheme \<Rightarrow> pdu \<Rightarrow> rc act" where
  "rcv_nack_ctl ps du d = do {
     c \<leftarrow> d_dtcp d;
     let seq = pdu_ctrl_get AckSeq du;
     if ps_rtx_ctrl (dc_ps c)
     then (case d_rtxq d of
             None \<Rightarrow> Some (-1, d)
           | Some q \<Rightarrow> do {
               (r, d) \<leftarrow> rtxq_nack seq (sv_tr (d_sv d)) d;
               (case rtt_estimator ps of
                  None \<Rightarrow> Some (0, d)
                | Some f \<Rightarrow> do { (r, d) \<leftarrow> f seq d; Some (0, d) })
             })
     else Some (0, d)
   }"

text \<open>The estimator of the round-trip time where retransmission control is on; \<open>-1\<close> means stop.\<close>

definition run_estimator :: "'a dtcp_ps_scheme \<Rightarrow> bool \<Rightarrow> seq_num_t \<Rightarrow> rc act" where
  "run_estimator ps on seq d =
     (case rtt_estimator ps of
        None \<Rightarrow> Some (0, d)
      | Some f \<Rightarrow> if on then f seq d else Some (0, d))"

definition rcv_ack :: "'a dtcp_ps_scheme \<Rightarrow> pdu \<Rightarrow> rc act" where
  "rcv_ack ps du d = do {
     c \<leftarrow> d_dtcp d;
     let seq = pdu_ctrl_get AckSeq du;
     (r, d) \<leftarrow> run_estimator ps (ps_rtx_ctrl (dc_ps c)) seq d;
     if r = -1 then Some (0, d) else sender_ack ps seq d
   }"

definition update_window_and_rate :: "dtp_ps \<Rightarrow> pdu \<Rightarrow> rc act" where
  "update_window_and_rate dps du d = do {
     c \<leftarrow> d_dtcp d;
     let d = (if dtcp_window_based_fctrl (dc_cfg c)
              then cv_upd (\<lambda>s. s\<lparr>cv_snd_rt_wind_edge := pdu_ctrl_get NewRt du\<rparr>) d else d);
     let rt = pdu_ctrl_get SndrRate du;
     let tf = pdu_ctrl_get TimeFrame du;
     let d = (if dtcp_rate_based_fctrl (dc_cfg c) \<and> tf \<noteq> 0 \<and> rt \<noteq> 0
              then cv_upd (\<lambda>s. s\<lparr>cv_sndr_rate := rt, cv_time_unit := tf\<rparr>) d else d);
     let d = (if cv_rendezvous_sndr (dc_sv c)
              then with_timers (\<lambda>e t. t\<lparr>tm_rendezvous := rtimer_stop (tm_rendezvous t)\<rparr>)
                     (cv_upd (\<lambda>s. s\<lparr>cv_rendezvous_sndr := False\<rparr>) d)
              else d);
     (r, d) \<leftarrow> push_pdus_rmt dps d;
     Some (0, d)
   }"

definition rcv_flow_ctl :: "dtp_ps \<Rightarrow> 'a dtcp_ps_scheme \<Rightarrow> pdu \<Rightarrow> rc act" where
  "rcv_flow_ctl dps ps du d = do {
     c \<leftarrow> d_dtcp d;
     let sn = pdu_ctrl_get NewRt du - cv_sndr_credit (dc_sv c);
     (r, d) \<leftarrow> run_estimator ps (\<not> ps_rtx_ctrl (dc_ps c)) sn d;
     let d = (case d_rttq d of None \<Rightarrow> d | Some q \<Rightarrow> d\<lparr>d_rttq := Some (snd (rttq_drop q sn))\<rparr>);
     update_window_and_rate dps du d
   }"

definition rcv_ack_and_flow_ctl :: "dtp_ps \<Rightarrow> 'a dtcp_ps_scheme \<Rightarrow> pdu \<Rightarrow> rc act" where
  "rcv_ack_and_flow_ctl dps ps du d = do {
     c \<leftarrow> d_dtcp d;
     let seq = pdu_ctrl_get AckSeq du;
     (r, d) \<leftarrow> run_estimator ps (ps_rtx_ctrl (dc_ps c)) seq d;
     if r = -1 then Some (0, d)
     else do {
       (r, d) \<leftarrow> sender_ack ps seq d;
       update_window_and_rate dps du d
     }
   }"

definition rcvr_rendezvous :: "'a dtcp_ps_scheme \<Rightarrow> pdu \<Rightarrow> rc act" where
  "rcvr_rendezvous ps du d =
     (case ps_rcvr_rendezvous ps of None \<Rightarrow> Some (0, d) | Some f \<Rightarrow> f du d)"

definition count_duplicate :: "pdu_type_t \<Rightarrow> dtcp_sv \<Rightarrow> dtcp_sv" where
  "count_duplicate t s =
     (if t = PDU_TYPE_FC then s\<lparr>cv_flow_ctl := cv_flow_ctl s + 1\<rparr>
      else if t = PDU_TYPE_ACK then s\<lparr>cv_acks := cv_acks s + 1\<rparr>
      else if t = PDU_TYPE_ACK_AND_FC
      then s\<lparr>cv_flow_ctl := cv_flow_ctl s + 1, cv_acks := cv_acks s + 1\<rparr>
      else s)"

definition dispatch_ctrl :: "dtp_ps \<Rightarrow> 'a dtcp_ps_scheme \<Rightarrow> pdu \<Rightarrow> rc act" where
  "dispatch_ctrl dps ps du d =
     (let t = p_type du
      in if t = PDU_TYPE_ACK then rcv_ack ps du d
         else if t = PDU_TYPE_NACK then rcv_nack_ctl ps du d
         else if t = PDU_TYPE_FC then rcv_flow_ctl dps ps du d
         else if t = PDU_TYPE_ACK_AND_FC then rcv_ack_and_flow_ctl dps ps du d
         else if t = PDU_TYPE_RENDEZVOUS then rcvr_rendezvous ps du d
         else Some (-1, d))"

text \<open>
  A PDU whose control sequence number is not new is counted and forgotten; this branch leaves
  the counter of control PDUs in transit incremented.
\<close>

definition dtcp_common_rcv_control :: "dtp_ps \<Rightarrow> 'a dtcp_ps_scheme \<Rightarrow> pdu \<Rightarrow> rc act" where
  "dtcp_common_rcv_control dps ps du d = do {
     c \<leftarrow> d_dtcp d;
     let d = cpdus_inc 1 d;
     if \<not> pdu_type_is_control (p_type du) then Some (-1, cpdus_inc (-1) d)
     else do {
       let d = d\<lparr>d_conn := (d_conn d)\<lparr>destination_address := p_src du\<rparr>\<rparr>;
       let last_ctrl = cv_last_rcv_ctl_seq (dc_sv c);
       if p_seq du \<le> last_ctrl then Some (0, cv_upd (count_duplicate (p_type du)) d)
       else do {
         (r, d) \<leftarrow> (if p_seq du > last_ctrl + 1 then lost_control_pdu ps d else Some (0, d));
         let d = cv_upd (\<lambda>s. s\<lparr>cv_last_rcv_ctl_seq := p_seq du\<rparr>) d;
         (ret, d) \<leftarrow> dispatch_ctrl dps ps du d;
         d \<leftarrow> dtp_send_pending_ctrl_pdus (cpdus_inc (-1) d);
         Some (ret, d)
       }
     }
   }"

section \<open>The state vector\<close>

definition default_dtcp_sv :: dtcp_sv where
  "default_dtcp_sv =
     \<lparr>cv_pdus_per_time_unit = 0, cv_next_snd_ctl_seq = 0, cv_last_rcv_ctl_seq = 0,
      cv_last_snd_data_ack = 0, cv_snd_lft_win = 0, cv_data_retransmit_max = 0,
      cv_last_rcv_data_ack = 0, cv_time_unit = 0, cv_sndr_credit = 1, cv_snd_rt_wind_edge = 100,
      cv_sndr_rate = 0, cv_pdus_sent_in_time_unit = 0, cv_rcvr_credit = 1,
      cv_rcvr_rt_wind_edge = 100, cv_rcvr_rate = 0, cv_pdus_rcvd_in_time_unit = 0,
      cv_last_time = \<lparr>tv_sec = 0, tv_nsec = 0\<rparr>, cv_acks = 0, cv_flow_ctl = 0, cv_rtt = 0,
      cv_srtt = 0, cv_rttvar = 0, cv_rendezvous_sndr = False, cv_rendezvous_rcvr = False\<rparr>"

definition dtcp_sv_init :: "dtcp_params \<Rightarrow> seq_num_t \<Rightarrow> dtcp_sv \<Rightarrow> dtcp_sv" where
  "dtcp_sv_init ps seq_nr_to_send s =
     (let s = (if ps_rtx_ctrl ps then s\<lparr>cv_data_retransmit_max := ps_data_retransmit_max ps\<rparr> else s);
          s = (if ps_flow_ctrl ps \<and> ps_window_based ps
               then s\<lparr>cv_sndr_credit := ps_initial_credit ps,
                      cv_snd_rt_wind_edge := ps_initial_credit ps + seq_nr_to_send,
                      cv_rcvr_credit := ps_initial_credit ps,
                      cv_rcvr_rt_wind_edge := ps_initial_credit ps\<rparr>
               else s)
      in if ps_flow_ctrl ps \<and> ps_rate_based ps
         then s\<lparr>cv_sndr_rate := ps_sending_rate ps, cv_rcvr_rate := ps_sending_rate ps,
                cv_time_unit := ps_time_period ps\<rparr>
         else s)"

definition dtcp_select_policy_set :: "dtcp_config \<Rightarrow> dtcp_params" where
  "dtcp_select_policy_set cfg =
     \<lparr>ps_flow_ctrl = dtcp_flow_ctrl cfg, ps_rtx_ctrl = dtcp_rtx_ctrl cfg,
      ps_window_based = dtcp_window_based_fctrl cfg, ps_rate_based = dtcp_rate_based_fctrl cfg,
      ps_initial_credit = dtcp_initial_credit cfg, ps_sending_rate = dtcp_sending_rate cfg,
      ps_time_period = dtcp_time_period cfg, ps_data_retransmit_max = dtcp_data_retransmit_max cfg\<rparr>"

text \<open>
  \<^verbatim>\<open>dtcp_create\<close> with memory available: the length of the closed window queue is always set to 1
  under window based flow control.
\<close>

definition dtcp_create :: "dtcp_config \<Rightarrow> seq_num_t \<Rightarrow> dtcp" where
  "dtcp_create cfg seq_nr_to_send =
     (let ps = dtcp_select_policy_set cfg
      in \<lparr>dc_sv = dtcp_sv_init ps seq_nr_to_send default_dtcp_sv,
          dc_cfg = (if dtcp_flow_ctrl cfg \<and> dtcp_window_based_fctrl cfg
                    then cfg\<lparr>dtcp_max_closed_winq_length := 1\<rparr> else cfg),
          dc_ps = ps, dc_rendezvous_rcv = None, dc_cpdus_in_transit = 0\<rparr>)"

definition dtcp_sv_update :: "'a dtcp_ps_scheme \<Rightarrow> pdu \<Rightarrow> rc act" where
  "dtcp_sv_update ps p d =
     (case d_dtcp d of
        None \<Rightarrow> Some (-1, d)
      | Some c \<Rightarrow> do {
          let pp = dc_ps c;
          let keep = (\<lambda>ret r. if r \<noteq> 0 then -1 else ret :: rc);
          (r1, d) \<leftarrow> (if ps_flow_ctrl pp \<and> ps_window_based pp then rcvr_flow_control ps p d else Some (0, d));
          (r2, d) \<leftarrow> (if ps_flow_ctrl pp \<and> ps_rate_based pp then rate_reduction ps p d else Some (0, d));
          let ret = keep (keep 0 r1) r2;
          if ps_flow_ctrl pp \<and> \<not> ps_rtx_ctrl pp
          then do { (r, d) \<leftarrow> receiving_flow_control ps p d; Some (keep ret r, d) }
          else if ps_rtx_ctrl pp
          then do { (r, d) \<leftarrow> rcvr_ack ps p d; Some (keep ret r, d) }
          else Some (ret, d)
        })"

section \<open>The default policy set\<close>

definition default_lost_control_pdu :: "rc act" where
  "default_lost_control_pdu d = Some (0, d)"

definition default_rcvr_ack :: "pdu \<Rightarrow> rc act" where
  "default_rcvr_ack p d = dtcp_ack_flow_control_pdu_send (p_seq p) d"

definition default_rcvr_ack_atimer :: "pdu \<Rightarrow> rc act" where
  "default_rcvr_ack_atimer p d = Some (0, d)"

definition default_sender_ack :: "seq_num_t \<Rightarrow> rc act" where
  "default_sender_ack seq d = do {
     c \<leftarrow> d_dtcp d;
     if \<not> ps_rtx_ctrl (dc_ps c) then Some (0, d)
     else (case d_rtxq d of
             None \<Rightarrow> Some (-1, d)
           | Some q \<Rightarrow>
               (let (r, d) = rtxq_ack seq (sv_tr (d_sv d)) d
                in Some (0, cv_upd (\<lambda>s. s\<lparr>cv_snd_lft_win := seq + 1\<rparr>) d)))
   }"

definition default_sending_ack :: "'a dtcp_ps_scheme \<Rightarrow> seq_num_t \<Rightarrow> rc act" where
  "default_sending_ack ps seq d = do {
     (p, d) \<leftarrow> process_A_expiration d;
     (case p of None \<Rightarrow> Some (0, d) | Some du \<Rightarrow> dtcp_sv_update ps du d)
   }"

definition default_receiving_flow_control :: "pdu \<Rightarrow> rc act" where
  "default_receiving_flow_control p d = do {
     (du, d) \<leftarrow> pdu_ctrl_generate PDU_TYPE_FC d;
     (case du of
        None \<Rightarrow> Some (-1, d)
      | Some du \<Rightarrow> (let (r, d) = dtp_pdu_ctrl_send du d in Some (if r \<noteq> 0 then -1 else 0, d)))
   }"

definition default_rcvr_flow_control :: "pdu \<Rightarrow> rc act" where
  "default_rcvr_flow_control p d =
     Some (0, cv_upd (\<lambda>s. s\<lparr>cv_rcvr_rt_wind_edge := sv_rcv_left_window_edge (d_sv d) + cv_rcvr_credit s\<rparr>) d)"

definition default_rate_reduction :: "pdu \<Rightarrow> rc act" where
  "default_rate_reduction p d =
     (let rt = pdu_ctrl_get SndrRate p; tf = pdu_ctrl_get TimeFrame p
      in if rt = 0 \<or> tf = 0 then Some (0, d)
         else Some (0, cv_upd (\<lambda>s. s\<lparr>cv_sndr_rate := rt, cv_rcvr_rate := rt, cv_time_unit := tf\<rparr>) d))"

definition rtt_update :: "u32 \<Rightarrow> dtcp_sv \<Rightarrow> dtcp_sv" where
  "rtt_update sample s =
     (if cv_rtt s = 0
      then s\<lparr>cv_rtt := sample, cv_rttvar := drop_bit 1 sample, cv_srtt := sample\<rparr>
      else s\<lparr>cv_rtt := drop_bit 7 (cv_rtt s * 112 + push_bit 4 sample),
             cv_rttvar := drop_bit 2 (3 * cv_rttvar s) +
               drop_bit 2 (word_of_int \<bar>sint (cv_srtt s - sample)\<bar>)\<rparr>)"

definition rtt_calculation :: "u32 \<Rightarrow> dtp \<Rightarrow> dtp option" where
  "rtt_calculation start d = do {
     c \<leftarrow> d_dtcp d;
     let e = d_env d;
     let sample = jiffies_to_msecs e (e_jiffies e - ucast start);
     let s = rtt_update sample (dc_sv c);
     let trm = push_bit 2 (cv_rttvar s);
     let trm = (if 100 > trm then 100 else trm) + (cv_srtt s + jiffies_to_msecs e (ucast (sv_A (d_sv d))));
     Some (sv_upd (\<lambda>v. v\<lparr>sv_tr := ucast (msecs_to_jiffies e trm)\<rparr>) (cv_upd (\<lambda>_. s) d))
   }"

definition default_rtt_estimator :: "seq_num_t \<Rightarrow> rc act" where
  "default_rtt_estimator sn d =
     (let start = (ucast (rtxq_entry_timestamp (d_rtxq d) sn) :: u32)
      in if start = 0 then Some (0, d)
         else if start = -1 then Some (-1, d)
         else do { d \<leftarrow> rtt_calculation start d; Some (0, d) })"

definition default_rtt_estimator_nortx :: "seq_num_t \<Rightarrow> rc act" where
  "default_rtt_estimator_nortx sn d =
     (let start = (ucast (rttq_entry_timestamp (d_rttq d) sn) :: u32)
      in if start = 0 then Some (0, d)
         else do { d \<leftarrow> rtt_calculation start d; Some (0, d) })"

definition default_rcvr_rendezvous :: "pdu \<Rightarrow> rc act" where
  "default_rcvr_rendezvous p d = do {
     c \<leftarrow> d_dtcp d;
     let d = (if sv_window_based (d_sv d)
              then cv_upd (\<lambda>s. s\<lparr>cv_rcvr_rt_wind_edge := pdu_ctrl_get MyLeft p + cv_rcvr_credit s\<rparr>) d
              else d);
     let d = cv_upd (\<lambda>s. s\<lparr>cv_rendezvous_rcvr := True\<rparr>) d;
     let rv = jiffies_to_msecs (d_env d) (ucast (sv_tr (d_sv d)));
     let d = (if cv_rcvr_credit (dc_sv c) \<noteq> 0
              then dtcp_upd (\<lambda>c. c\<lparr>dc_rendezvous_rcv := rtimer_start (d_env d) rv (dc_rendezvous_rcv c)\<rparr>) d
              else d);
     ctrl_pdu_send PDU_TYPE_FC True (cpdus_inc 1 d)
   }"

definition dtcp_ps_default :: "dtcp_params \<Rightarrow> dtcp_ps" where
  "dtcp_ps_default pp =
     \<lparr>lost_control_pdu = default_lost_control_pdu,
      rtt_estimator = Some (if ps_rtx_ctrl pp then default_rtt_estimator else default_rtt_estimator_nortx),
      rcvr_ack = default_rcvr_ack, sender_ack = default_sender_ack,
      receiving_flow_control = default_receiving_flow_control,
      rcvr_flow_control = default_rcvr_flow_control, rate_reduction = default_rate_reduction,
      ps_rcvr_rendezvous = Some default_rcvr_rendezvous\<rparr>"

definition complete_ps :: "dtcp_ps \<Rightarrow> dtcp_ps_all" where
  "complete_ps ps = dtcp_ps.extend ps \<lparr>sending_ack = default_sending_ack ps\<rparr>"

definition dtcp_sending_ack_policy :: "dtcp_ps_all \<Rightarrow> rc act" where
  "dtcp_sending_ack_policy ps d =
     (case d_dtcp d of None \<Rightarrow> Some (-1, d) | Some c \<Rightarrow> sending_ack ps 0 d)"

end
