(* ===== verification/Dtp.thy ===== *)
theory Dtp
  imports Dtcp
begin

text \<open>
  DTP: the sending and the receiving side and the timers of \<^verbatim>\<open>kernel/dtp.c\<close>, and the default policy
  set of \<^verbatim>\<open>kernel/dtp-ps-default.c\<close>.
\<close>

section \<open>The state vector\<close>

definition default_sv :: dtp_sv where
  "default_sv =
     \<lparr>sv_max_flow_pdu_size = -1, sv_max_flow_sdu_size = -1, sv_MPL = 1000, sv_R = 100, sv_A = 0,
      sv_tr = 0, sv_rcv_left_window_edge = 0, sv_window_closed = False, sv_drf_flag = True,
      sv_seq_number_rollover_threshold = 0, sv_drop_pdus = 0, sv_err_pdus = 0, sv_tx_pdus = 0,
      sv_tx_bytes = 0, sv_rx_pdus = 0, sv_rx_bytes = 0, sv_max_seq_nr_rcv = 0,
      sv_seq_nr_to_send = 0, sv_max_seq_nr_sent = 0, sv_window_based = False,
      sv_rexmsn_ctrl = False, sv_rate_based = False, sv_drf_required = True,
      sv_rate_fulfiled = False\<rparr>"

definition dtp_sv_init :: "bool \<Rightarrow> bool \<Rightarrow> bool \<Rightarrow> uint_t \<Rightarrow> uint_t \<Rightarrow> u32 \<Rightarrow> timeout_t \<Rightarrow> timeout_t \<Rightarrow> timeout_t \<Rightarrow>
    dtp_sv \<Rightarrow> dtp_sv" where
  "dtp_sv_init rexmsn_ctrl window_based rate_based mfps mfss mpl a r tr s =
     s\<lparr>sv_drop_pdus := 0, sv_err_pdus := 0, sv_tx_pdus := 0, sv_tx_bytes := 0, sv_rx_pdus := 0,
       sv_rx_bytes := 0, sv_rexmsn_ctrl := rexmsn_ctrl, sv_window_based := window_based,
       sv_rate_based := rate_based, sv_max_seq_nr_sent := sv_seq_nr_to_send s,
       sv_max_seq_nr_rcv := 0, sv_max_flow_pdu_size := mfps, sv_max_flow_sdu_size := mfss,
       sv_MPL := mpl, sv_A := a, sv_R := r, sv_tr := tr\<rparr>"

section \<open>The default policy set\<close>

definition default_transmission_control :: "pdu \<Rightarrow> rc act" where
  "default_transmission_control du d = do {
     c \<leftarrow> d_dtcp d;
     let d = sv_upd (\<lambda>s. s\<lparr>sv_max_seq_nr_sent := p_seq du\<rparr>) d;
     dtp_pdu_send du (cv_upd (\<lambda>s. s\<lparr>cv_snd_lft_win := p_seq du\<rparr>) d)
   }"

definition push_cwq :: "pdu \<Rightarrow> rc act" where
  "push_cwq du d = do {
     q \<leftarrow> d_cwq d;
     let (ok, d) = alloc d;
     let (r, q) = cwq_push ok q du;
     Some (r, d\<lparr>d_cwq := Some q\<rparr>)
   }"

definition default_snd_flow_control_overrun :: "pdu \<Rightarrow> rc act" where
  "default_snd_flow_control_overrun du d = do {
     (r, d) \<leftarrow> push_cwq du d;
     if r \<noteq> 0 then Some (-1, d)
     else (let (r, d) = efcp_disable_write d in Some (if r \<noteq> 0 then -1 else 0, d))
   }"

definition default_closed_window :: "(pdu \<Rightarrow> rc act) \<Rightarrow> pdu \<Rightarrow> rc act" where
  "default_closed_window overrun du d = do {
     c \<leftarrow> d_dtcp d;
     let max_len = dtcp_max_closed_winq_length (dc_cfg c);
     if max_len \<noteq> 0 \<and> cwq_size (d_cwq d) < uint (max_len - 1)
     then do { (r, d) \<leftarrow> push_cwq du d; Some (if r \<noteq> 0 then -1 else 0, d) }
     else do { (r, d) \<leftarrow> overrun du d; Some (if r \<noteq> 0 then -1 else 0, d) }
   }"

definition initial_seq_num :: "dtp \<Rightarrow> dtp" where
  "initial_seq_num d =
     (let (sn, rs) = (case e_rand (d_env d) of [] \<Rightarrow> (0, []) | r # rs \<Rightarrow> (r, rs))
      in sv_upd (\<lambda>s. s\<lparr>sv_seq_nr_to_send := if sn = 0 then 1 else sn\<rparr>)
           (d\<lparr>d_env := (d_env d)\<lparr>e_rand := rs\<rparr>\<rparr>))"

definition default_initial_sequence_number :: "rc act" where
  "default_initial_sequence_number d = Some (0, initial_seq_num d)"

definition default_receiver_inactivity_timer :: "rc act" where
  "default_receiver_inactivity_timer d =
     (case d_dtcp d of
        None \<Rightarrow> Some (-1, d)
      | Some c \<Rightarrow>
          (let d = cv_upd (\<lambda>s. s\<lparr>cv_rcvr_rt_wind_edge := 0\<rparr>) d;
               d = sv_upd (\<lambda>s. s\<lparr>sv_rcv_left_window_edge := 0\<rparr>) d;
               d = dtp_squeue_flush d;
               d = cv_upd (\<lambda>s. s\<lparr>cv_rendezvous_rcvr := False\<rparr>) d
           in Some (0, sv_upd (\<lambda>s. s\<lparr>sv_drf_required := True\<rparr>) d)))"

definition default_sender_inactivity_timer :: "rc act" where
  "default_sender_inactivity_timer d =
     (case d_dtcp d of
        None \<Rightarrow> Some (-1, d)
      | Some c \<Rightarrow>
          (let d = initial_seq_num d;
               d = sv_upd (\<lambda>s. s\<lparr>sv_drf_flag := True, sv_window_closed := False\<rparr>) d;
               edge = sv_seq_nr_to_send (d_sv d) + dtcp_initial_credit (dc_cfg c);
               d = cv_upd (\<lambda>s. s\<lparr>cv_snd_rt_wind_edge := edge, cv_rendezvous_sndr := False\<rparr>) d;
               d = (case d_rttq d of None \<Rightarrow> d | Some q \<Rightarrow> d\<lparr>d_rttq := Some (snd (rttq_flush q))\<rparr>)
           in if ps_rtx_ctrl (dc_ps c) \<and> d_rtxq d = None then Some (-1, d)
              else (let d = (if ps_rtx_ctrl (dc_ps c) then snd (rtxq_flush d) else d)
                    in if ps_flow_ctrl (dc_ps c)
                       then (let (r, q) = cwq_flush (d_cwq d)
                             in Some (if r \<noteq> 0 then -1 else 0, d\<lparr>d_cwq := q\<rparr>))
                       else Some (0, d))))"

definition default_reconcile_flow_conflict :: "dtp \<Rightarrow> bool" where
  "default_reconcile_flow_conflict d = True"

definition dtp_ps_default :: dtp_ps where
  "dtp_ps_default =
     \<lparr>transmission_control = default_transmission_control,
      closed_window = default_closed_window default_snd_flow_control_overrun,
      snd_flow_control_overrun = default_snd_flow_control_overrun,
      initial_sequence_number = default_initial_sequence_number,
      receiver_inactivity_timer = default_receiver_inactivity_timer,
      sender_inactivity_timer = default_sender_inactivity_timer,
      reconcile_flow_conflict = default_reconcile_flow_conflict\<rparr>"

section \<open>Sending\<close>

definition window_is_closed :: "dtp_ps \<Rightarrow> seq_num_t \<Rightarrow> bool act" where
  "window_is_closed ps seq d = do {
     c \<leftarrow> d_dtcp d;
     let w_ret = (sv_window_based (d_sv d) \<and> seq > cv_snd_rt_wind_edge (dc_sv c));
     let d = (if w_ret then sv_upd (\<lambda>s. s\<lparr>sv_window_closed := True\<rparr>) d else d);
     (r_ret, d) \<leftarrow>
       (if sv_rate_based (d_sv d)
        then do {
          (b, d) \<leftarrow> rate_exceeded True d;
          Some (b, sv_upd (\<lambda>s. s\<lparr>sv_rate_fulfiled := b\<rparr>) d)
        }
        else Some (False, d));
     d \<leftarrow> (if r_ret then dtp_start_rate_timer d else Some d);
     Some (if w_ret \<and> r_ret then reconcile_flow_conflict ps d else w_ret \<or> r_ret, d)
   }"

text \<open>What \<^verbatim>\<open>dtp_write\<close> does with a PDU when the window is closed.\<close>

definition write_closed :: "dtp_ps \<Rightarrow> pdu \<Rightarrow> rc act" where
  "write_closed ps du d = do {
     (r, d) \<leftarrow> closed_window ps du d;
     if r \<noteq> 0 then Some (-1, stats_inc_err d)
     else if sv_rexmsn_ctrl (d_sv d) \<and> rtxq_size (d_rtxq d) > 0 then Some (0, d)
     else do {
       c \<leftarrow> d_dtcp d;
       if cv_rendezvous_sndr (dc_sv c) then Some (0, d)
       else (let d = cv_upd (\<lambda>s. s\<lparr>cv_rendezvous_sndr := True\<rparr>) d
             in Some (0, start_rendezvous (jiffies_to_msecs (d_env d) (ucast (sv_tr (d_sv d)))) d))
     }
   }"

text \<open>A copy for retransmission or the time stamp, before transmission; the code is an error.\<close>

definition write_copy :: "pdu \<Rightarrow> rc act" where
  "write_copy du d =
     (if sv_rexmsn_ctrl (d_sv d)
      then (case dup_du du d of
              (None, d) \<Rightarrow> Some (-1, d)
            | (Some cdu, d) \<Rightarrow> rtxq_push_ni cdu d)
      else (case d_rttq d of
              None \<Rightarrow> Some (0, d)
            | Some q \<Rightarrow>
                (let (ok, d) = alloc d
                 in Some (0, d\<lparr>d_rttq := Some (snd (rttq_push ok (e_jiffies (d_env d)) q (p_seq du)))\<rparr>))))"

definition write_open :: "dtp_ps \<Rightarrow> int \<Rightarrow> pdu \<Rightarrow> rc act" where
  "write_open ps sbytes du d = do {
     let d = (if sv_rate_based (d_sv d) then cv_upd (account_sent sbytes) d else d);
     (r, d) \<leftarrow> write_copy du d;
     if r \<noteq> 0 then Some (-1, stats_inc_err d)
     else do {
       (r, d) \<leftarrow> transmission_control ps du d;
       if r \<noteq> 0 then Some (-1, stats_inc_err d)
       else (let d = stats_inc_bytes_tx sbytes d; s = d_sv d;
                 d = with_timers (\<lambda>e t. t\<lparr>tm_sender_inactivity :=
                       rtimer_restart e (3 * (sv_MPL s + sv_R s + sv_A s)) (tm_sender_inactivity t)\<rparr>) d
             in Some (0, d))
     }
   }"

text \<open>
  The data of the SDU is \<open>bs\<close>. The encapsulation fails without memory. The state vector of DTCP is
  read before the code asks whether there is one.
\<close>

definition dtp_write :: "dtp_ps \<Rightarrow> u8 list \<Rightarrow> rc act" where
  "dtp_write ps bs d = do {
     let d = with_timers (\<lambda>e t. t\<lparr>tm_sender_inactivity := rtimer_stop (tm_sender_inactivity t)\<rparr>) d;
     let sbytes = int (length bs);
     let (ok, d) = alloc d;
     if \<not> ok then Some (-1, d)
     else do {
       let csn = sv_seq_nr_to_send (d_sv d) + 1;
       let d = sv_upd (\<lambda>s. s\<lparr>sv_seq_nr_to_send := csn\<rparr>) d;
       c \<leftarrow> d_dtcp d;
       let flags = (if sv_drf_flag (d_sv d) \<or>
                       cv_snd_lft_win (dc_sv c) = csn - 1 \<and> sv_rexmsn_ctrl (d_sv d)
                    then PDU_FLAGS_DATA_RUN else 0);
       let k = d_conn d;
       let du = pdu_format (source_cep_id k) (destination_cep_id k) (source_address k)
                  (destination_address k) csn (qos_id k) flags PDU_TYPE_DT (e_junk (d_env d)) bs;
       (closed, d) \<leftarrow> (if sv_window_based (d_sv d) \<or> sv_rate_based (d_sv d)
                       then window_is_closed ps csn d else Some (False, d));
       if closed then write_closed ps du d else write_open ps sbytes du d
     }
   }"

section \<open>Receiving\<close>

definition is_fc_overrun :: "seq_num_t \<Rightarrow> int \<Rightarrow> dtp \<Rightarrow> bool \<times> dtp" where
  "is_fc_overrun seq pdul d =
     (case d_dtcp d of
        None \<Rightarrow> (False, d)
      | Some c \<Rightarrow>
          (dtcp_window_based_fctrl (dc_cfg c) \<and> seq > cv_rcvr_rt_wind_edge (dc_sv c),
           if dtcp_rate_based_fctrl (dc_cfg c) \<and> pdul \<ge> 0
           then cv_upd (\<lambda>s. s\<lparr>cv_pdus_rcvd_in_time_unit := cv_pdus_rcvd_in_time_unit s + word_of_int pdul\<rparr>) d
           else d))"

definition restart_receiver_inactivity :: "dtp \<Rightarrow> dtp" where
  "restart_receiver_inactivity d =
     (let s = d_sv d
      in with_timers (\<lambda>e t. t\<lparr>tm_receiver_inactivity :=
           rtimer_restart e (2 * (sv_MPL s + sv_R s + sv_A s)) (tm_receiver_inactivity t)\<rparr>) d)"

text \<open>While a data run flag is required: the flag opens a new run, a PDU without it is dropped.\<close>

definition receive_drf :: "'a dtcp_ps_scheme \<Rightarrow> pdu \<Rightarrow> rc act" where
  "receive_drf ps du d =
     (let d = restart_receiver_inactivity d
      in if and (p_flags du) PDU_FLAGS_DATA_RUN \<noteq> 0
         then do {
           let d = sv_upd (\<lambda>s. s\<lparr>sv_drf_required := False, sv_rcv_left_window_edge := p_seq du\<rparr>) d;
           let d = dtp_squeue_flush d;
           let d = (case d_rttq d of None \<Rightarrow> d | Some q \<Rightarrow> d\<lparr>d_rttq := Some (snd (rttq_flush q))\<rparr>);
           (r, d) \<leftarrow> (case d_dtcp d of None \<Rightarrow> Some (0, d) | Some c \<Rightarrow> dtcp_sv_update ps du d);
           if r \<noteq> 0 then Some (-1, d)
           else do {
             d \<leftarrow> dtp_send_pending_ctrl_pdus d;
             let (r, d) = pdu_post du d;
             Some (0, stats_inc_bytes_rx (du_data_size du) d)
           }
         }
         else Some (0, stats_inc_drop d))"

text \<open>Without A-timer the PDU is delivered at once unless a retransmission will fill a gap.\<close>

definition receive_now :: "'a dtcp_ps_scheme \<Rightarrow> pdu \<Rightarrow> rc act" where
  "receive_now ps du d = do {
     c \<leftarrow> d_dtcp d;
     let LWE = sv_rcv_left_window_edge (d_sv d);
     let set_lft = (\<not> (dtcp_rtx_ctrl (dc_cfg c) \<and> p_seq du - LWE > ps_max_sdu_gap (d_ps d) + 1));
     let d = (if set_lft then sv_upd (\<lambda>s. s\<lparr>sv_rcv_left_window_edge := p_seq du\<rparr>) d else d);
     (r, d) \<leftarrow> dtcp_sv_update ps du d;
     if r \<noteq> 0 then Some (-1, d)
     else do {
       d \<leftarrow> dtp_send_pending_ctrl_pdus d;
       if \<not> set_lft then Some (0, d)
       else (let (r, d) = pdu_post du d
             in if r \<noteq> 0 then Some (-1, d) else Some (0, stats_inc_bytes_rx (du_data_size du) d))
     }
   }"

text \<open>
  The loop that takes PDUs in sequence from the sequencing queue, by recursion on the queue; the
  result is the last PDU taken.
\<close>

fun in_seq_loop :: "seq_queue \<Rightarrow> pdu ptr \<Rightarrow> dtp \<Rightarrow> pdu ptr \<times> dtp" where
  "in_seq_loop [] p d = (p, d\<lparr>d_seqq := []\<rparr>)"
| "in_seq_loop (e # es) p d =
     (if are_there_pdus (e # es) (sv_rcv_left_window_edge (d_sv d))
      then (let d = sv_upd (\<lambda>s. s\<lparr>sv_rcv_left_window_edge := sq_seq e\<rparr>) d;
                (r, q) = ringq_push (d_to_post d) (sq_du e)
            in in_seq_loop es (Some (sq_du e)) (d\<lparr>d_to_post := q\<rparr>))
      else (p, d\<lparr>d_seqq := e # es\<rparr>))"

text \<open>
  The received PDU goes to \<open>to_post\<close> when it is the next one and to the sequencing queue otherwise.
  The first component is what the pointer \<^verbatim>\<open>du\<close> then refers to: \<open>None\<close> when the sequencing queue
  destroyed the PDU as a duplicate.
\<close>

definition place_pdu :: "pdu \<Rightarrow> dtp \<Rightarrow> pdu ptr \<times> dtp" where
  "place_pdu du d =
     (if p_seq du = sv_rcv_left_window_edge (d_sv d) + 1
      then (let d = sv_upd (\<lambda>s. s\<lparr>sv_rcv_left_window_edge := p_seq du\<rparr>) d;
                (r, q) = ringq_push (d_to_post d) du
            in (Some du, d\<lparr>d_to_post := q\<rparr>))
      else (let (ok, d) = alloc d; now = e_jiffies (d_env d);
                freed = (ok \<and> fst (seq_insert sq_seq \<lparr>sq_time_stamp = now, sq_du = du\<rparr> (d_seqq d))
                          \<in> {SameLast, SameInside})
            in (if freed then None else Some du,
                d\<lparr>d_seqq := snd (seq_queue_push_ni ok now (d_seqq d) du)\<rparr>)))"

fun post_all_rx :: "pdu list \<Rightarrow> dtp \<Rightarrow> dtp" where
  "post_all_rx [] d = d"
| "post_all_rx (du # dus) d =
     post_all_rx dus (stats_inc_bytes_rx (du_data_size du) (snd (pdu_post du d)))"

definition receive_sequenced :: "'a dtcp_ps_scheme \<Rightarrow> pdu \<Rightarrow> rc act" where
  "receive_sequenced ps du d = do {
     let (p, d) = place_pdu du d;
     let (p, d) = in_seq_loop (d_seqq d) p d;
     (r, d) \<leftarrow> (case d_dtcp d of None \<Rightarrow> Some (0, d) | Some c \<Rightarrow> do { q \<leftarrow> p; dtcp_sv_update ps q d });
     d \<leftarrow> dtp_send_pending_ctrl_pdus d;
     let d = (if d_seqq d = [] then with_timers (\<lambda>e t. t\<lparr>tm_a := rtimer_stop (tm_a t)\<rparr>) d
              else start_a (sv_A (d_sv d)) d);
     let (dus, q) = drain ringq_is_empty ringq_pop TO_POST_LENGTH (d_to_post d);
     Some (0, post_all_rx dus (d\<lparr>d_to_post := q\<rparr>))
   }"

definition dtp_receive :: "'a dtcp_ps_scheme \<Rightarrow> pdu \<Rightarrow> rc act" where
  "dtp_receive ps du d =
     (if sv_drf_required (d_sv d) then receive_drf ps du d
      else if p_seq du \<le> sv_rcv_left_window_edge (d_sv d) then Some (0, stats_inc_drop d)
      else (let (overrun, d) = is_fc_overrun (p_seq du) (du_data_size du) d
            in if overrun then Some (0, stats_inc_drop d)
               else do {
                 let d = restart_receiver_inactivity d;
                 c \<leftarrow> d_dtcp d;
                 let d = (if cv_rendezvous_rcvr (dc_sv c)
                          then dtcp_upd (\<lambda>c. c\<lparr>dc_rendezvous_rcv := rtimer_stop (dc_rendezvous_rcv c)\<rparr>)
                                 (cv_upd (\<lambda>s. s\<lparr>cv_rendezvous_rcvr := False\<rparr>) d)
                          else d);
                 if sv_A (d_sv d) = 0 then receive_now ps du d else receive_sequenced ps du d
               }))"

section \<open>Timers\<close>

definition tf_sender_inactivity :: "dtp_ps \<Rightarrow> dtp \<Rightarrow> dtp option" where
  "tf_sender_inactivity ps d = do { (r, d) \<leftarrow> sender_inactivity_timer ps d; Some d }"

definition tf_receiver_inactivity :: "dtp_ps \<Rightarrow> dtp \<Rightarrow> dtp option" where
  "tf_receiver_inactivity ps d = do { (r, d) \<leftarrow> receiver_inactivity_timer ps d; Some d }"

definition tf_rendezvous :: "dtp \<Rightarrow> dtp option" where
  "tf_rendezvous d = do {
     c \<leftarrow> d_dtcp d;
     if cv_rendezvous_sndr (dc_sv c)
     then do {
       let rv = jiffies_to_msecs (d_env d) (ucast (sv_tr (d_sv d)));
       (r, d) \<leftarrow> dtcp_rendezvous_pdu_send d;
       Some (start_rendezvous rv d)
     }
     else Some d
   }"

definition AF :: timeout_t where "AF = 1"

definition tf_a :: "dtcp_ps_all \<Rightarrow> dtp \<Rightarrow> dtp option" where
  "tf_a ps d = do {
     let a = sv_A (d_sv d);
     let r = sv_R (d_sv d);
     let mpl = sv_MPL (d_sv d);
     d \<leftarrow> (case d_dtcp d of
             Some c \<Rightarrow> do {
               (rc, d) \<leftarrow> dtcp_sending_ack_policy ps d;
               dtp_send_pending_ctrl_pdus (if rc \<noteq> 0 then start_a (a div AF) d else d)
             }
           | None \<Rightarrow> do {
               (p, d) \<leftarrow> process_A_expiration d;
               Some (with_timers (\<lambda>e t. t\<lparr>tm_sender_inactivity :=
                 rtimer_restart e (3 * (mpl + r + a)) (tm_sender_inactivity t)\<rparr>) d)
             });
     Some (if d_seqq d \<noteq> [] then start_a (a div AF) d else d)
   }"

definition tf_rate_window :: "dtp_ps \<Rightarrow> dtp \<Rightarrow> dtp option" where
  "tf_rate_window ps d = do {
     c \<leftarrow> d_dtcp d;
     let d = cv_upd (\<lambda>s. s\<lparr>cv_pdus_sent_in_time_unit := 0, cv_pdus_rcvd_in_time_unit := 0,
                           cv_last_time := e_now (d_env d)\<rparr>) d;
     let d = sv_upd (\<lambda>s. s\<lparr>sv_rate_fulfiled := False\<rparr>) d;
     cwq_deliver ps (snd (efcp_enable_write d))
   }"

section \<open>A new connection\<close>

text \<open>
  \<^verbatim>\<open>dtp_create\<close> and the part of \<^verbatim>\<open>efcp_connection_create\<close> that sets up DTP and DTCP, with memory
  available and the default policy for the initial sequence number.
\<close>

definition dtp_create :: "env \<Rightarrow> connection \<Rightarrow> dtp_params \<Rightarrow> dtp" where
  "dtp_create e k pp =
     initial_seq_num
       \<lparr>d_dtcp = None, d_conn = k, d_cwq = None, d_rtxq = None, d_rttq = None, d_sv = default_sv,
        d_ps = pp, d_seqq = [], d_to_post = ringq_create [] TO_POST_LENGTH,
        d_to_send = ringq_create [] TO_SEND_LENGTH,
        d_timers = \<lparr>tm_sender_inactivity = None, tm_receiver_inactivity = None, tm_a = None,
          tm_rate_window = None, tm_rtx = None, tm_rendezvous = None\<rparr>,
        d_env = e, d_trace = []\<rparr>"

definition efcp_connection_create ::
    "env \<Rightarrow> connection \<Rightarrow> dtp_params \<Rightarrow> bool \<Rightarrow> timeout_t \<Rightarrow> dtcp_config \<Rightarrow> uint_t \<Rightarrow> u32 \<Rightarrow> dtp" where
  "efcp_connection_create e k pp dtcp_present a cfg mps mpl =
     (let d = dtp_create e k pp;
          d = d\<lparr>d_dtcp := if dtcp_present then Some (dtcp_create cfg (sv_seq_nr_to_send (d_sv d))) else None\<rparr>;
          d = d\<lparr>d_cwq := if dtcp_window_based_fctrl cfg \<or> dtcp_rate_based_fctrl cfg
                          then cwq_create True True else None\<rparr>;
          d = (if dtcp_rtx_ctrl cfg then d\<lparr>d_rtxq := rtxqueue_create True, d_rttq := None\<rparr>
               else d\<lparr>d_rttq := rttq_create True, d_rtxq := None\<rparr>);
          tr = (if dtcp_present \<and> dtcp_rtx_ctrl cfg then dtcp_initial_tr cfg else 0);
          r = (if dtcp_present \<and> dtcp_rtx_ctrl cfg then dtcp_data_retransmit_max cfg * tr else 0)
      in sv_upd (dtp_sv_init (dtcp_rtx_ctrl cfg) (dtcp_window_based_fctrl cfg) (dtcp_rate_based_fctrl cfg)
           mps mps mpl a r tr) d)"

definition sample_env :: env where
  "sample_env =
     \<lparr>e_jiffies = 5000, e_hz = 1000, jiffies_to_msecs = (\<lambda>j. ucast j), msecs_to_jiffies = (\<lambda>m. ucast m),
      e_now = \<lparr>tv_sec = 100, tv_nsec = 0\<rparr>, e_ms = [], e_rmt = [], e_user = [], e_ipcp = [],
      e_rand = [40], e_junk = (\<lambda>_. 0)\<rparr>"

definition sample_conn :: connection where
  "sample_conn =
     \<lparr>port_id = 1, source_address = 22, destination_address = 23, source_cep_id = 1,
      destination_cep_id = 2, qos_id = 1\<rparr>"

definition sample_dtcp_config :: "bool \<Rightarrow> dtcp_config" where
  "sample_dtcp_config rtx =
     \<lparr>dtcp_flow_ctrl = True, dtcp_rtx_ctrl = rtx, dtcp_window_based_fctrl = True,
      dtcp_rate_based_fctrl = False, dtcp_max_closed_winq_length = 10, dtcp_initial_credit = 2,
      dtcp_sending_rate = 0, dtcp_time_period = 0, dtcp_data_retransmit_max = 3, dtcp_initial_tr = 300\<rparr>"

definition sample_dtp_params :: dtp_params where
  "sample_dtp_params = \<lparr>ps_in_order_delivery = True, ps_incomplete_delivery = False, ps_max_sdu_gap = 0\<rparr>"

definition sample_dtp :: "bool \<Rightarrow> dtp" where
  "sample_dtp rtx =
     efcp_connection_create sample_env sample_conn sample_dtp_params True 100 (sample_dtcp_config rtx) 1400 1000"

lemmas sample_defs =
  sample_dtp_def efcp_connection_create_def dtp_create_def initial_seq_num_def sample_env_def
  sample_conn_def sample_dtcp_config_def sample_dtp_params_def dtcp_create_def
  dtcp_select_policy_set_def dtcp_sv_init_def default_dtcp_sv_def dtp_sv_init_def default_sv_def
  sv_upd_def Let_def

end
