(* ===== verification/Dtp_Receive.thy ===== *)
theory Dtp_Receive
  imports Dtp
begin

text \<open>
  What the receiving side of DTP guarantees. The DTCP policies enter through the contract
  \<open>rcv_policy\<close>: updating the DTCP state vector leaves alone what DTP keeps for delivery, and works
  whenever there is a DTCP. The default policy set fulfils it.
\<close>

section \<open>What delivery depends on\<close>

fun user_pdus :: "event list \<Rightarrow> pdu list" where
  "user_pdus [] = []"
| "user_pdus (ToUser du # evs) = du # user_pdus evs"
| "user_pdus (_ # evs) = user_pdus evs"

lemma user_pdus_append [simp]: "user_pdus (xs @ ys) = user_pdus xs @ user_pdus ys"
  by (induction xs rule: user_pdus.induct) auto

definition delivered :: "dtp \<Rightarrow> pdu list" where
  "delivered d = user_pdus (d_trace d)"

abbreviation LWE :: "dtp \<Rightarrow> seq_num_t" where
  "LWE d \<equiv> sv_rcv_left_window_edge (d_sv d)"

definition rx :: "dtp \<Rightarrow> seq_num_t \<times> bool \<times> timeout_t \<times> dtp_params \<times> seq_queue \<times> pdu ringq ptr \<times> pdu list \<times> bool" where
  "rx d = (LWE d, sv_drf_required (d_sv d), sv_A (d_sv d), d_ps d, d_seqq d, d_to_post d, delivered d,
     d_dtcp d \<noteq> None)"

lemmas state_defs =
  emit_def sv_upd_def cv_upd_def dtcp_upd_def with_timers_def cpdus_inc_def stats_inc_drop_def
  stats_inc_err_def stats_inc_bytes_tx_def stats_inc_bytes_rx_def start_rendezvous_def
  start_rtx_def start_a_def dtp_squeue_flush_def

lemmas rx_defs = rx_def delivered_def

lemma rx_alloc: "alloc d = (ok, d') \<Longrightarrow> rx d' = rx d"
  by (auto simp: alloc_def rx_defs split: prod.splits)

lemma rx_dtp_pdu_send: "dtp_pdu_send du d = Some (r, d') \<Longrightarrow> rx d' = rx d"
  by (auto simp: dtp_pdu_send_def rmt_send_def efcp_container_receive_def emit_def rx_defs
      split: if_splits prod.splits bind_splits)

lemma rx_send_all: "send_all dus d = Some d' \<Longrightarrow> rx d' = rx d"
  by (induction dus arbitrary: d) (auto split: bind_splits dest: rx_dtp_pdu_send)

lemma rx_to_send [simp]: "rx (d\<lparr>d_to_send := q\<rparr>) = rx d"
  by (simp add: rx_defs)

lemma rx_send_pending: "dtp_send_pending_ctrl_pdus d = Some d' \<Longrightarrow> rx d' = rx d"
  by (auto simp: dtp_send_pending_ctrl_pdus_def split: prod.splits dest: rx_send_all)

lemma rx_cv_upd [simp]: "rx (cv_upd f d) = rx d" "rx (cpdus_inc n d) = rx d"
    "rx (dtcp_upd g d) = rx d" "rx (with_timers h d) = rx d"
  by (simp_all add: state_defs rx_defs)

lemma dtcp_present:
  "rx d' = rx d \<Longrightarrow> d_dtcp d' \<noteq> None \<longleftrightarrow> d_dtcp d \<noteq> None"
  by (simp add: rx_def)

section \<open>The contract of the DTCP policies\<close>

locale rcv_policy =
  fixes ps :: "'a dtcp_ps_scheme"
  assumes sv_update_rx: "dtcp_sv_update ps p d = Some (r, d') \<Longrightarrow> rx d' = rx d"
    and sv_update_total: "d_dtcp d \<noteq> None \<Longrightarrow> dtcp_sv_update ps p d \<noteq> None"

lemma rx_pdu_ctrl_generate: "pdu_ctrl_generate t d = Some (p, d') \<Longrightarrow> rx d' = rx d"
  by (auto simp: pdu_ctrl_generate_def next_snd_ctl_seq_def Let_def
      split: prod.splits if_splits bind_splits dest: rx_alloc)

lemma populate_None [simp]: "populate_ctrl_pci p d = None \<longleftrightarrow> d_dtcp d = None"
  by (auto simp: populate_ctrl_pci_def Let_def split: bind_splits)

lemma pdu_ctrl_generate_total: "d_dtcp d \<noteq> None \<Longrightarrow> pdu_ctrl_generate t d \<noteq> None"
  by (auto simp: pdu_ctrl_generate_def next_snd_ctl_seq_def Let_def alloc_def state_defs
      split: prod.splits bind_splits)

lemma rx_dtp_pdu_ctrl_send: "dtp_pdu_ctrl_send du d = (r, d') \<Longrightarrow> rx d' = rx d"
  by (auto simp: dtp_pdu_ctrl_send_def split: prod.splits)

lemma rx_ctrl_pdu_send: "ctrl_pdu_send t b d = Some (r, d') \<Longrightarrow> rx d' = rx d"
  by (auto simp: ctrl_pdu_send_def Let_def split: bind_splits option.splits if_splits prod.splits
      dest!: rx_pdu_ctrl_generate rx_dtp_pdu_send rx_dtp_pdu_ctrl_send)

lemma dtp_pdu_send_None [simp]: "d_dtcp d = Some c \<Longrightarrow> dtp_pdu_send du d = None \<longleftrightarrow> False"
  by (auto simp: dtp_pdu_send_def Let_def split: prod.splits)

lemma dtp_pdu_send_total: "d_dtcp d \<noteq> None \<Longrightarrow> dtp_pdu_send du d \<noteq> None"
  by (auto simp: dtp_pdu_send_def Let_def split: prod.splits)

lemma ctrl_pdu_send_total:
  assumes "d_dtcp d \<noteq> None"
  shows "ctrl_pdu_send t b d \<noteq> None"
proof -
  from pdu_ctrl_generate_total [OF assms, of t] obtain p d1 where g: "pdu_ctrl_generate t d = Some (p, d1)"
    by auto
  have "d_dtcp d1 \<noteq> None" using dtcp_present [OF rx_pdu_ctrl_generate [OF g]] assms by simp
  then show ?thesis
    using assms g by (auto simp: ctrl_pdu_send_def split: option.splits prod.splits bind_splits)
qed

lemma rx_default_rcvr_ack: "default_rcvr_ack p d = Some (r, d') \<Longrightarrow> rx d' = rx d"
  by (auto simp: default_rcvr_ack_def dtcp_ack_flow_control_pdu_send_def pdu_ctrl_type_get_def Let_def
      split: bind_splits option.splits if_splits dest!: rx_ctrl_pdu_send)

lemma default_rcvr_ack_total: "d_dtcp d \<noteq> None \<Longrightarrow> default_rcvr_ack p d \<noteq> None"
  using ctrl_pdu_send_total
  by (auto simp: default_rcvr_ack_def dtcp_ack_flow_control_pdu_send_def pdu_ctrl_type_get_def Let_def
      state_defs split: bind_splits)

lemma rx_default_receiving_flow_control:
  "default_receiving_flow_control p d = Some (r, d') \<Longrightarrow> rx d' = rx d"
  by (auto simp: default_receiving_flow_control_def Let_def split: bind_splits option.splits prod.splits
      dest!: rx_pdu_ctrl_generate rx_dtp_pdu_ctrl_send)

lemma default_receiving_flow_control_total:
  "d_dtcp d \<noteq> None \<Longrightarrow> default_receiving_flow_control p d \<noteq> None"
  using pdu_ctrl_generate_total [of d PDU_TYPE_FC]
  by (auto simp: default_receiving_flow_control_def Let_def split: bind_splits option.splits prod.splits)

lemma rx_default_rate_reduction: "default_rate_reduction p d = Some (r, d') \<Longrightarrow> rx d' = rx d"
  by (auto simp: default_rate_reduction_def Let_def split: if_splits)

lemma default_rate_reduction_total: "default_rate_reduction p d \<noteq> None"
  by (simp add: default_rate_reduction_def Let_def)

text \<open>
  A policy set whose receiving policies leave delivery alone and always return fulfils the
  contract.
\<close>

lemma sv_update_frame:
  assumes "\<And>p d r d'. rcvr_flow_control ps p d = Some (r, d') \<Longrightarrow> rx d' = rx d"
    "\<And>p d r d'. rate_reduction ps p d = Some (r, d') \<Longrightarrow> rx d' = rx d"
    "\<And>p d r d'. receiving_flow_control ps p d = Some (r, d') \<Longrightarrow> rx d' = rx d"
    "\<And>p d r d'. rcvr_ack ps p d = Some (r, d') \<Longrightarrow> rx d' = rx d"
    and "dtcp_sv_update ps p d = Some (r, d')"
  shows "rx d' = rx d"
  using assms(5)
  by (auto simp: dtcp_sv_update_def Let_def split: option.splits bind_splits if_splits
      dest!: assms(1-4))

lemma guarded_step:
  assumes "\<forall>r d'. f d = Some (r, d') \<longrightarrow> rx d' = rx d" "f d \<noteq> None" "d_dtcp d \<noteq> None"
  shows "\<exists>r d'. (if b then f d else Some (r0, d)) = Some (r, d') \<and> d_dtcp d' \<noteq> None"
proof -
  from assms(2) obtain r d' where f: "f d = Some (r, d')" by auto
  from assms(1) f have "rx d' = rx d" by blast
  from dtcp_present [OF this] f assms(3) show ?thesis by (cases b) auto
qed

lemma send_all_total: "d_dtcp d \<noteq> None \<Longrightarrow> send_all dus d \<noteq> None"
proof (induction dus arbitrary: d)
  case (Cons du dus)
  from dtp_pdu_send_total [OF Cons.prems, of du] obtain r d1 where s: "dtp_pdu_send du d = Some (r, d1)" by auto
  have "d_dtcp d1 \<noteq> None" using dtcp_present [OF rx_dtp_pdu_send [OF s]] Cons.prems by simp
  with Cons.IH s show ?case by simp
qed simp

lemma send_pending_total: "d_dtcp d \<noteq> None \<Longrightarrow> dtp_send_pending_ctrl_pdus d \<noteq> None"
  using send_all_total by (auto simp: dtp_send_pending_ctrl_pdus_def split: prod.splits)

lemma sv_update_returns:
  assumes frame: "\<And>p d r d'. rcvr_flow_control ps p d = Some (r, d') \<Longrightarrow> rx d' = rx d"
    "\<And>p d r d'. rate_reduction ps p d = Some (r, d') \<Longrightarrow> rx d' = rx d"
    and total: "\<And>p d. d_dtcp d \<noteq> None \<Longrightarrow> rcvr_flow_control ps p d \<noteq> None"
    "\<And>p d. d_dtcp d \<noteq> None \<Longrightarrow> rate_reduction ps p d \<noteq> None"
    "\<And>p d. d_dtcp d \<noteq> None \<Longrightarrow> receiving_flow_control ps p d \<noteq> None"
    "\<And>p d. d_dtcp d \<noteq> None \<Longrightarrow> rcvr_ack ps p d \<noteq> None"
    and d: "d_dtcp d \<noteq> None"
  shows "dtcp_sv_update ps p d \<noteq> None"
proof -
  from d obtain c where c: "d_dtcp d = Some c" by auto
  let ?pp = "dc_ps c"
  have f1: "\<forall>r d'. rcvr_flow_control ps p d = Some (r, d') \<longrightarrow> rx d' = rx d" for d using frame(1) by blast
  have f2: "\<forall>r d'. rate_reduction ps p d = Some (r, d') \<longrightarrow> rx d' = rx d" for d using frame(2) by blast
  from guarded_step [where f = "rcvr_flow_control ps p", OF f1 total(1) [OF d] d] obtain r1 d1 where
    1: "(if ps_flow_ctrl ?pp \<and> ps_window_based ?pp then rcvr_flow_control ps p d else Some (0, d)) =
      Some (r1, d1)" and d1: "d_dtcp d1 \<noteq> None" by blast
  from guarded_step [where f = "rate_reduction ps p", OF f2 total(2) [OF d1] d1] obtain r2 d2 where
    2: "(if ps_flow_ctrl ?pp \<and> ps_rate_based ?pp then rate_reduction ps p d1 else Some (0, d1)) =
      Some (r2, d2)" and d2: "d_dtcp d2 \<noteq> None" by blast
  show ?thesis
    using total(3,4) [OF d2, of p] by (auto simp: dtcp_sv_update_def c Let_def 1 2)
qed

lemma rx_default_rcvr_flow_control: "default_rcvr_flow_control p d = Some (r, d') \<Longrightarrow> rx d' = rx d"
  by (auto simp: default_rcvr_flow_control_def)

lemma default_rcvr_flow_control_total: "default_rcvr_flow_control p d \<noteq> None"
  by (simp add: default_rcvr_flow_control_def)

lemma dtcp_ps_default_sel [simp]:
  "rcvr_flow_control (dtcp_ps_default pp) = default_rcvr_flow_control"
  "rate_reduction (dtcp_ps_default pp) = default_rate_reduction"
  "receiving_flow_control (dtcp_ps_default pp) = default_receiving_flow_control"
  "rcvr_ack (dtcp_ps_default pp) = default_rcvr_ack"
  "lost_control_pdu (dtcp_ps_default pp) = default_lost_control_pdu"
  "sender_ack (dtcp_ps_default pp) = default_sender_ack"
  "ps_rcvr_rendezvous (dtcp_ps_default pp) = Some default_rcvr_rendezvous"
  by (simp_all add: dtcp_ps_default_def)

interpretation default_rcv: rcv_policy "dtcp_ps_default pp" for pp
proof
  show "rx d' = rx d" if "dtcp_sv_update (dtcp_ps_default pp) p d = Some (r, d')" for p d r d'
    by (rule sv_update_frame [OF _ _ _ _ that])
      (simp_all add: rx_default_rcvr_flow_control rx_default_rate_reduction
        rx_default_receiving_flow_control rx_default_rcvr_ack)
  show "dtcp_sv_update (dtcp_ps_default pp) p d \<noteq> None" if "d_dtcp d \<noteq> None" for p d
    by (rule sv_update_returns [OF _ _ _ _ _ _ that])
      (simp_all only: dtcp_ps_default_sel rx_default_rcvr_flow_control rx_default_rate_reduction
        default_rcvr_flow_control_total default_rate_reduction_total
        default_receiving_flow_control_total default_rcvr_ack_total not_False_eq_True)
qed

section \<open>Delivery in sequence\<close>

text \<open>The \<open>n\<close> sequence numbers that follow \<open>l\<close>.\<close>

fun seqs_from :: "seq_num_t \<Rightarrow> nat \<Rightarrow> seq_num_t list" where
  "seqs_from l 0 = []"
| "seqs_from l (Suc n) = (l + 1) # seqs_from (l + 1) n"

lemma seqs_from_append: "seqs_from l (m + n) = seqs_from l m @ seqs_from (l + of_nat m) n"
  by (induction m arbitrary: l) (auto simp: add.assoc)

lemma length_seqs_from [simp]: "length (seqs_from l n) = n"
  by (induction n arbitrary: l) auto

lemma rx_stats [simp]: "rx (stats_inc_bytes_rx n d) = rx d" "rx (stats_inc_drop d) = rx d"
    "rx (restart_receiver_inactivity d) = rx d" "rx (start_a m d) = rx d"
  by (simp_all add: state_defs rx_defs restart_receiver_inactivity_def Let_def)

lemma pdu_post_rx:
  "LWE (snd (pdu_post du d)) = LWE d" "d_seqq (snd (pdu_post du d)) = d_seqq d"
  "d_to_post (snd (pdu_post du d)) = d_to_post d" "delivered (snd (pdu_post du d)) = delivered d @ [du]"
  "d_dtcp (snd (pdu_post du d)) = d_dtcp d" "d_sv (snd (pdu_post du d)) = d_sv d"
  "d_ps (snd (pdu_post du d)) = d_ps d"
  by (simp_all add: pdu_post_def efcp_enqueue_def emit_def delivered_def split: prod.split)

lemma post_all_rx_rx:
  "LWE (post_all_rx dus d) = LWE d" "d_seqq (post_all_rx dus d) = d_seqq d"
  "d_to_post (post_all_rx dus d) = d_to_post d" "delivered (post_all_rx dus d) = delivered d @ dus"
  "d_dtcp (post_all_rx dus d) = d_dtcp d" "d_ps (post_all_rx dus d) = d_ps d"
  "sv_drf_required (d_sv (post_all_rx dus d)) = sv_drf_required (d_sv d)"
  "sv_A (d_sv (post_all_rx dus d)) = sv_A (d_sv d)"
  by (induction dus arbitrary: d)
    (simp_all add: pdu_post_rx stats_inc_bytes_rx_def sv_upd_def delivered_def [of "dtp.d_sv_update _ _"]
      delivered_def [symmetric])

text \<open>What placing a PDU and the loop over the queue leave alone.\<close>

definition same_rx :: "dtp \<Rightarrow> dtp \<Rightarrow> bool" where
  "same_rx d d' \<longleftrightarrow> delivered d' = delivered d \<and> d_dtcp d' = d_dtcp d \<and> d_ps d' = d_ps d \<and>
     sv_drf_required (d_sv d') = sv_drf_required (d_sv d) \<and> sv_A (d_sv d') = sv_A (d_sv d)"

lemma same_rx_trans: "same_rx d1 d2 \<Longrightarrow> same_rx d2 d3 \<Longrightarrow> same_rx d1 d3"
  by (simp add: same_rx_def)

lemma to_post_push:
  assumes "ringq_inv TO_POST_LENGTH q" "length (ringq_list q) < TO_POST_LENGTH"
  shows "ringq_inv TO_POST_LENGTH (snd (ringq_push q x)) \<and> ringq_list (snd (ringq_push q x)) = ringq_list q @ [x]"
  using ringq_fifo.push_invar [OF assms(1)] ringq_fifo.push_contents [OF assms(1)] assms(2) by simp

lemma in_seq_loop_spec:
  assumes "ringq_inv TO_POST_LENGTH (d_to_post d)"
    "length (ringq_list (d_to_post d)) + length q \<le> TO_POST_LENGTH"
  shows "\<exists>ys rest p' d'. in_seq_loop q p d = (p', d') \<and> q = ys @ rest \<and> d_seqq d' = rest \<and>
     map sq_seq ys = seqs_from (LWE d) (length ys) \<and> LWE d' = LWE d + of_nat (length ys) \<and>
     ringq_inv TO_POST_LENGTH (d_to_post d') \<and>
     ringq_list (d_to_post d') = ringq_list (d_to_post d) @ map sq_du ys \<and> same_rx d d' \<and>
     (p' = None \<longrightarrow> p = None) \<and> (rest = [] \<or> sq_seq (hd rest) \<noteq> LWE d' + 1)"
  using assms
proof (induction q arbitrary: p d)
  case (Cons e es)
  show ?case
  proof (cases "sq_seq e = LWE d + 1")
    case False
    then show ?thesis using Cons.prems
      by (intro exI [of _ "[]"] exI [of _ "e # es"]) (auto simp: are_there_pdus_def same_rx_def delivered_def)
  next
    case True
    define d1 where "d1 = sv_upd (\<lambda>s. s\<lparr>sv_rcv_left_window_edge := sq_seq e\<rparr>) d
      \<lparr>d_to_post := snd (ringq_push (d_to_post d) (sq_du e))\<rparr>"
    have step: "in_seq_loop (e # es) p d = in_seq_loop es (Some (sq_du e)) d1"
      using True by (simp add: are_there_pdus_def Let_def d1_def sv_upd_def split: prod.split)
    have d1: "LWE d1 = LWE d + 1" "same_rx d d1" "ringq_inv TO_POST_LENGTH (d_to_post d1)"
      "ringq_list (d_to_post d1) = ringq_list (d_to_post d) @ [sq_du e]"
      using True to_post_push [OF Cons.prems(1), of "sq_du e"] Cons.prems(2)
      by (simp_all add: d1_def sv_upd_def same_rx_def delivered_def)
    have len: "length (ringq_list (d_to_post d1)) + length es \<le> TO_POST_LENGTH"
      using d1(4) Cons.prems(2) by simp
    from Cons.IH [OF d1(3) len, of "Some (sq_du e)"] obtain ys rest p' d' where
      ih: "in_seq_loop es (Some (sq_du e)) d1 = (p', d')" "es = ys @ rest" "d_seqq d' = rest"
        "map sq_seq ys = seqs_from (LWE d1) (length ys)" "LWE d' = LWE d1 + of_nat (length ys)"
        "ringq_inv TO_POST_LENGTH (d_to_post d')"
        "ringq_list (d_to_post d') = ringq_list (d_to_post d1) @ map sq_du ys" "same_rx d1 d'"
        "p' = None \<longrightarrow> Some (sq_du e) = None" "rest = [] \<or> sq_seq (hd rest) \<noteq> LWE d' + 1"
      by blast
    show ?thesis
      using ih d1 True step same_rx_trans [OF d1(2) ih(8)]
      by (intro exI [of _ "e # ys"] exI [of _ rest] exI [of _ p'] exI [of _ d']) (auto simp: add.assoc)
  qed
qed (simp add: same_rx_def delivered_def)

lemma length_seq_scan: "length (snd (seq_scan k e q)) \<le> Suc (length q)"
  by (induction q) (auto split: prod.splits)

lemma length_seq_insert: "length (snd (seq_insert k e q)) \<le> Suc (length q)"
  using length_seq_scan [of k e q] by (auto simp: seq_insert_def)

lemma length_seq_queue_push: "length (snd (seq_queue_push_ni ok now q du)) \<le> Suc (length q)"
  using length_seq_insert [of sq_seq "\<lparr>sq_time_stamp = now, sq_du = du\<rparr>" q]
  by (auto simp: seq_queue_push_ni_def seq_queue_entry_create_def split: prod.splits placing.splits)

definition rx_ok :: "nat \<Rightarrow> dtp \<Rightarrow> bool" where
  "rx_ok n d \<longleftrightarrow> \<not> sv_drf_required (d_sv d) \<and> sv_A (d_sv d) \<noteq> 0 \<and> d_dtcp d \<noteq> None \<and>
     ringq_inv TO_POST_LENGTH (d_to_post d) \<and> ringq_list (d_to_post d) = [] \<and>
     length (d_seqq d) + n < TO_POST_LENGTH"

lemma place_pdu_spec:
  assumes "ringq_inv TO_POST_LENGTH (d_to_post d)" "ringq_list (d_to_post d) = []" "LWE d < p_seq du"
  shows "\<exists>p d' xs. place_pdu du d = (p, d') \<and> same_rx d d' \<and> length (d_seqq d') + length xs \<le> Suc (length (d_seqq d)) \<and>
     map p_seq xs = seqs_from (LWE d) (length xs) \<and> LWE d' = LWE d + of_nat (length xs) \<and>
     ringq_inv TO_POST_LENGTH (d_to_post d') \<and> ringq_list (d_to_post d') = xs \<and>
     (p_seq du = LWE d + 1 \<longrightarrow> xs = [du] \<and> p = Some du \<and> d_seqq d' = d_seqq d)"
proof (cases "p_seq du = LWE d + 1")
  case True
  then show ?thesis
    using to_post_push [OF assms(1), of du] assms(2)
    by (intro exI [of _ "Some du"] exI [of _ "snd (place_pdu du d)"] exI [of _ "[du]"])
      (auto simp: place_pdu_def sv_upd_def same_rx_def delivered_def TO_POST_LENGTH_def split: prod.splits)
next
  case False
  then show ?thesis
    using assms(1,2) length_seq_queue_push
    by (intro exI [of _ "fst (place_pdu du d)"] exI [of _ "snd (place_pdu du d)"] exI [of _ "[]"])
      (auto simp: place_pdu_def same_rx_def delivered_def alloc_def Let_def split: prod.splits)
qed

text \<open>The end of \<^verbatim>\<open>dtp_receive\<close>: everything on \<open>to_post\<close> is delivered, in order.\<close>

definition flush_to_post :: "dtp \<Rightarrow> dtp" where
  "flush_to_post d =
     (let (dus, q) = drain ringq_is_empty ringq_pop TO_POST_LENGTH (d_to_post d)
      in post_all_rx dus (d\<lparr>d_to_post := q\<rparr>))"

lemma flush_to_post_spec:
  assumes "ringq_inv TO_POST_LENGTH (d_to_post d)" "length (ringq_list (d_to_post d)) \<le> TO_POST_LENGTH"
  shows "delivered (flush_to_post d) = delivered d @ ringq_list (d_to_post d)"
    "ringq_inv TO_POST_LENGTH (d_to_post (flush_to_post d))" "ringq_list (d_to_post (flush_to_post d)) = []"
    "LWE (flush_to_post d) = LWE d" "d_seqq (flush_to_post d) = d_seqq d" "d_dtcp (flush_to_post d) = d_dtcp d"
    "sv_drf_required (d_sv (flush_to_post d)) = sv_drf_required (d_sv d)" "sv_A (d_sv (flush_to_post d)) = sv_A (d_sv d)"
  using ringq_fifo.drain_all [OF assms]
  by (simp_all add: flush_to_post_def post_all_rx_rx delivered_def [of "dtp.d_to_post_update _ _"]
      delivered_def [symmetric] split_beta)

fun rcv_run :: "'a dtcp_ps_scheme \<Rightarrow> pdu list \<Rightarrow> dtp \<Rightarrow> dtp option" where
  "rcv_run ps [] d = Some d"
| "rcv_run ps (du # dus) d = do { (r, d) \<leftarrow> dtp_receive ps du d; rcv_run ps dus d }"

context rcv_policy
begin

lemma receive_sequenced_spec:
  assumes ok: "rx_ok (Suc n) d" and new: "LWE d < p_seq du"
    and run: "receive_sequenced ps du d = Some (r, d')"
  shows "\<exists>xs. delivered d' = delivered d @ xs \<and> map p_seq xs = seqs_from (LWE d) (length xs) \<and>
     LWE d' = LWE d + of_nat (length xs) \<and> rx_ok n d' \<and> r = 0 \<and>
     (p_seq du = LWE d + 1 \<longrightarrow> xs \<noteq> [] \<and> hd xs = du)"
proof -
  note ok = ok [unfolded rx_ok_def]
  from place_pdu_spec [of d du] ok new obtain p1 d1 xs where
    pl: "place_pdu du d = (p1, d1)" "same_rx d d1" "length (d_seqq d1) + length xs \<le> Suc (length (d_seqq d))"
      "map p_seq xs = seqs_from (LWE d) (length xs)" "LWE d1 = LWE d + of_nat (length xs)"
      "ringq_inv TO_POST_LENGTH (d_to_post d1)" "ringq_list (d_to_post d1) = xs"
      "p_seq du = LWE d + 1 \<longrightarrow> xs = [du] \<and> p1 = Some du \<and> d_seqq d1 = d_seqq d" by blast
  have len: "length (ringq_list (d_to_post d1)) + length (d_seqq d1) \<le> TO_POST_LENGTH"
    using pl ok by simp
  from in_seq_loop_spec [OF pl(6) len, of p1] obtain ys rest p2 d2 where
    lp: "in_seq_loop (d_seqq d1) p1 d1 = (p2, d2)" "d_seqq d1 = ys @ rest" "d_seqq d2 = rest"
      "map sq_seq ys = seqs_from (LWE d1) (length ys)" "LWE d2 = LWE d1 + of_nat (length ys)"
      "ringq_inv TO_POST_LENGTH (d_to_post d2)" "ringq_list (d_to_post d2) = xs @ map sq_du ys"
      "same_rx d1 d2" using pl(7) by blast
  let ?timer = "\<lambda>d. if d_seqq d = [] then with_timers (\<lambda>e t. t\<lparr>tm_a := rtimer_stop (tm_a t)\<rparr>) d
      else start_a (sv_A (d_sv d)) d"
  from run pl(1) lp(1) ok pl(2) lp(8) obtain q r3 d3 d4 where
    st: "dtcp_sv_update ps q d2 = Some (r3, d3)" "dtp_send_pending_ctrl_pdus d3 = Some d4"
      "r = 0" "d' = flush_to_post (?timer d4)"
    by (auto simp: receive_sequenced_def flush_to_post_def same_rx_def Let_def
        split: bind_splits option.splits prod.splits if_splits)
  have "rx (?timer d4) = rx d2"
    using sv_update_rx [OF st(1)] rx_send_pending [OF st(2)] by simp
  then have fr: "LWE (?timer d4) = LWE d2" "d_to_post (?timer d4) = d_to_post d2"
      "d_seqq (?timer d4) = rest" "delivered (?timer d4) = delivered d2"
      "sv_drf_required (d_sv (?timer d4)) = sv_drf_required (d_sv d2)"
      "sv_A (d_sv (?timer d4)) = sv_A (d_sv d2)" "d_dtcp (?timer d4) \<noteq> None \<longleftrightarrow> d_dtcp d2 \<noteq> None"
    using lp(3) by (simp_all add: rx_def del: if_split)
  have "ringq_inv TO_POST_LENGTH (d_to_post (?timer d4))"
    "length (ringq_list (d_to_post (?timer d4))) \<le> TO_POST_LENGTH"
    using lp(2,6,7) len pl(7) by (simp_all only: fr) simp
  note fl = flush_to_post_spec [OF this, folded st(4)]
  have "map p_seq (xs @ map sq_du ys) = seqs_from (LWE d) (length (xs @ map sq_du ys))"
    using pl(4,5) lp(4) by (simp add: seqs_from_append comp_def)
  moreover have "rx_ok n d'"
    using ok pl(2,3) lp(2,8) fr fl by (simp add: rx_ok_def same_rx_def del: if_split)
  ultimately show ?thesis
    using fl(1,4) fr(1,2,4) lp(5,7,8) pl(2,5,8) st(3)
    by (intro exI [of _ "xs @ map sq_du ys"]) (auto simp: same_rx_def add.assoc)
qed

lemma rx_ok_cong: "rx d' = rx d \<Longrightarrow> rx_ok n d' = rx_ok n d"
  by (simp add: rx_def rx_ok_def)

lemma rx_ok_mono: "rx_ok (Suc n) d \<Longrightarrow> rx_ok n d"
  by (simp add: rx_ok_def)

lemma rx_is_fc_overrun: "is_fc_overrun seq n d = (b, d') \<Longrightarrow> rx d' = rx d"
  by (auto simp: is_fc_overrun_def split: option.splits if_splits)

lemma receive_spec:
  assumes ok: "rx_ok (Suc n) d" and run: "dtp_receive ps du d = Some (r, d')"
  shows "\<exists>xs. delivered d' = delivered d @ xs \<and> map p_seq xs = seqs_from (LWE d) (length xs) \<and>
     LWE d' = LWE d + of_nat (length xs) \<and> rx_ok n d'"
proof (cases "rx d' = rx d")
  case True
  with rx_ok_mono [OF ok] rx_ok_cong [OF True] show ?thesis
    by (intro exI [of _ "[]"]) (simp add: rx_def)
next
  case False
  from ok have nd: "\<not> sv_drf_required (d_sv d)" "sv_A (d_sv d) \<noteq> 0" by (simp_all add: rx_ok_def)
  from False run nd have new: "LWE d < p_seq du" by (auto simp: dtp_receive_def split: if_splits)
  obtain b d1 where ov: "is_fc_overrun (p_seq du) (du_data_size du) d = (b, d1)" by fastforce
  from False run nd new ov rx_is_fc_overrun [OF ov] obtain d2 where
    d2: "receive_sequenced ps du d2 = Some (r, d')" "rx d2 = rx d"
    by (auto simp: dtp_receive_def Let_def rx_def restart_receiver_inactivity_def with_timers_def state_defs
        delivered_def split: if_splits bind_splits)
  have "rx_ok (Suc n) d2" "LWE d2 < p_seq du" "LWE d2 = LWE d" "delivered d2 = delivered d"
    using d2(2) ok new rx_ok_cong [OF d2(2)] by (simp_all add: rx_def)
  with receive_sequenced_spec [OF _ _ d2(1), of n] show ?thesis by auto
qed

lemma run_spec:
  assumes "rx_ok (length dus) d" "rcv_run ps dus d = Some d'"
  shows "\<exists>xs. delivered d' = delivered d @ xs \<and> map p_seq xs = seqs_from (LWE d) (length xs) \<and>
     LWE d' = LWE d + of_nat (length xs) \<and> rx_ok 0 d'"
  using assms
proof (induction dus arbitrary: d)
  case (Cons du dus)
  from Cons.prems(2) obtain r d1 where d1: "dtp_receive ps du d = Some (r, d1)" "rcv_run ps dus d1 = Some d'"
    by (auto split: bind_splits)
  from receive_spec [OF _ d1(1), of "length dus"] Cons.prems(1) obtain xs where
    xs: "delivered d1 = delivered d @ xs" "map p_seq xs = seqs_from (LWE d) (length xs)"
      "LWE d1 = LWE d + of_nat (length xs)" "rx_ok (length dus) d1" by auto
  from Cons.IH [OF xs(4) d1(2)] obtain ys where
    "delivered d' = delivered d1 @ ys" "map p_seq ys = seqs_from (LWE d1) (length ys)"
      "LWE d' = LWE d1 + of_nat (length ys)" "rx_ok 0 d'" by blast
  with xs show ?case
    by (intro exI [of _ "xs @ ys"]) (simp add: seqs_from_append add.assoc)
qed simp

text \<open>The next PDU in sequence, within the window, is delivered at once.\<close>

lemma receive_sequenced_next:
  assumes ok: "rx_ok (Suc n) d" and seq: "p_seq du = LWE d + 1"
  shows "receive_sequenced ps du d \<noteq> None"
proof -
  note ok = ok [unfolded rx_ok_def]
  define d1 where "d1 = sv_upd (\<lambda>s. s\<lparr>sv_rcv_left_window_edge := p_seq du\<rparr>) d
      \<lparr>d_to_post := snd (ringq_push (d_to_post d) du)\<rparr>"
  have pl: "place_pdu du d = (Some du, d1)" "d_seqq d1 = d_seqq d" "d_dtcp d1 = d_dtcp d"
    using seq by (simp_all add: place_pdu_def sv_upd_def d1_def split: prod.split)
  have r1: "ringq_inv TO_POST_LENGTH (d_to_post d1)" "ringq_list (d_to_post d1) = [du]"
    using to_post_push [of "d_to_post d" du] ok by (simp_all add: d1_def TO_POST_LENGTH_def)
  with pl ok have len: "length (ringq_list (d_to_post d1)) + length (d_seqq d1) \<le> TO_POST_LENGTH" by simp
  from in_seq_loop_spec [OF r1(1) len, of "Some du"] obtain q d2 where
    lp: "in_seq_loop (d_seqq d) (Some du) d1 = (Some q, d2)" "same_rx d1 d2" using pl(2) by force
  have dt: "d_dtcp d2 \<noteq> None" using lp(2) pl(3) ok by (simp add: same_rx_def)
  with sv_update_total obtain r3 d3 where u: "dtcp_sv_update ps q d2 = Some (r3, d3)" by fastforce
  have "d_dtcp d3 \<noteq> None" using dtcp_present [OF sv_update_rx [OF u]] dt by simp
  from send_pending_total [OF this] show ?thesis
    using pl lp u dt by (auto simp: receive_sequenced_def Let_def split: prod.splits option.splits)
qed

lemma receive_next:
  assumes ok: "rx_ok (Suc n) d" and seq: "p_seq du = LWE d + 1" "LWE d < p_seq du"
    and win: "\<not> fst (is_fc_overrun (p_seq du) (du_data_size du) d)"
  shows "\<exists>d' ys. dtp_receive ps du d = Some (0, d') \<and> delivered d' = delivered d @ du # ys"
proof -
  obtain d1 where ov: "is_fc_overrun (p_seq du) (du_data_size du) d = (False, d1)"
    using win by (cases "is_fc_overrun (p_seq du) (du_data_size du) d") auto
  from ok have nd: "\<not> sv_drf_required (d_sv d)" "sv_A (d_sv d) \<noteq> 0" "d_dtcp d \<noteq> None"
    by (simp_all add: rx_ok_def)
  note r1 = rx_is_fc_overrun [OF ov]
  then obtain c where c: "d_dtcp d1 = Some c" using dtcp_present nd(3) by fastforce
  have A1: "sv_A (d_sv d1) \<noteq> 0" using r1 nd by (simp add: rx_def)
  define d2 where "d2 = (let d = restart_receiver_inactivity d1 in
      if cv_rendezvous_rcvr (dc_sv c)
      then dtcp_upd (\<lambda>c. c\<lparr>dc_rendezvous_rcv := rtimer_stop (dc_rendezvous_rcv c)\<rparr>)
             (cv_upd (\<lambda>s. s\<lparr>cv_rendezvous_rcvr := False\<rparr>) d) else d)"
  have r2: "rx d2 = rx d" using r1 by (simp add: d2_def Let_def)
  have A2: "sv_A (d_sv d2) \<noteq> 0" using A1 r1 r2 by (simp add: rx_def)
  have go: "dtp_receive ps du d = receive_sequenced ps du d2"
    using nd seq ov c A2
    by (auto simp: dtp_receive_def d2_def Let_def restart_receiver_inactivity_def with_timers_def
        linorder_not_le split: if_splits)
  have ok2: "rx_ok (Suc n) d2" "p_seq du = LWE d2 + 1" "LWE d2 < p_seq du" "delivered d2 = delivered d"
    using ok rx_ok_cong [OF r2] seq r2 by (simp_all add: rx_def)
  from receive_sequenced_next [OF ok2(1,2)] obtain r d' where e: "receive_sequenced ps du d2 = Some (r, d')"
    by auto
  from receive_sequenced_spec [OF ok2(1,3) e] ok2(2,4) obtain xs where
    "delivered d' = delivered d @ xs" "r = 0" "xs \<noteq> []" "hd xs = du" by auto
  with go e show ?thesis by (cases xs) auto
qed

end

section \<open>Properties\<close>


definition running_dtp :: "seq_num_t \<Rightarrow> dtp" where
  "running_dtp l =
     sv_upd (\<lambda>s. s\<lparr>sv_drf_required := False, sv_rcv_left_window_edge := l\<rparr>) (sample_dtp True)"

lemma running_dtp_facts:
  "LWE (running_dtp l) = l" "delivered (running_dtp l) = []" "n < TO_POST_LENGTH \<Longrightarrow> rx_ok n (running_dtp l)"
  "is_fc_overrun sn m (running_dtp l) = (2 < sn, running_dtp l)"
proof -
  obtain r where r: "ringq_create [] TO_POST_LENGTH = Some (r :: pdu ringq)"
    by (simp add: ringq_create_def)
  have "ringq_inv TO_POST_LENGTH (Some r) \<and> ringq_list (Some r) = []"
    by (rule ringq_create_inv [OF _ r]) (simp add: TO_POST_LENGTH_def)
  then show "n < TO_POST_LENGTH \<Longrightarrow> rx_ok n (running_dtp l)"
    by (simp add: running_dtp_def sample_defs rx_ok_def r)
qed (simp_all add: running_dtp_def sample_defs is_fc_overrun_def delivered_def)


text \<open>
  C15. The next PDU is delivered: a data PDU with the sequence number behind the left window edge
  that does not overrun the receive window is accepted and delivered to the user by the same call,
  before anything the sequencing queue holds.
\<close>

theorem dtp_receive_delivers_next:
  assumes "rx_ok 1 d" "p_seq du = sv_rcv_left_window_edge (d_sv d) + 1"
    "sv_rcv_left_window_edge (d_sv d) < p_seq du"
    "\<not> fst (is_fc_overrun (p_seq du) (du_data_size du) d)"
  shows "\<exists>d' ys. dtp_receive (dtcp_ps_default pp) du d = Some (0, d') \<and> delivered d' = delivered d @ du # ys"
  using default_rcv.receive_next [of 0 d du pp] assms by simp

theorem dtp_receive_delivers_next_witness:
  "\<exists>d' ys. dtp_receive (dtcp_ps_default (dtcp_select_policy_set (sample_dtcp_config True))) (plain_pdu 2) (running_dtp 1) =
       Some (0, d') \<and> delivered d' = [] @ plain_pdu 2 # ys"
  using dtp_receive_delivers_next [of "running_dtp 1" "plain_pdu 2"]
  by (simp add: running_dtp_facts TO_POST_LENGTH_def)

section \<open>Where the code goes wrong\<close>

text \<open>Without DTCP a data PDU of a running data run makes \<^verbatim>\<open>dtp_receive\<close> read through NULL.\<close>

lemma dtp_receive_without_dtcp_faults:
  "\<not> sv_drf_required (d_sv d) \<Longrightarrow> LWE d < p_seq du \<Longrightarrow> d_dtcp d = None \<Longrightarrow> dtp_receive ps du d = None"
  by (simp add: dtp_receive_def is_fc_overrun_def Let_def state_defs restart_receiver_inactivity_def
      linorder_not_le)

text \<open>
  A second copy of a PDU that waits in the sequencing queue is destroyed there, and its header is
  read afterwards.
\<close>

lemma dtp_receive_duplicate_use_after_free:
  "dtp_receive ps (plain_pdu 2) ((running_dtp 0)\<lparr>d_seqq := [\<lparr>sq_time_stamp = 4990, sq_du = plain_pdu 2\<rparr>]\<rparr>) = None"
  by (simp add: dtp_receive_def is_fc_overrun_def running_dtp_def sample_defs state_defs Let_def
      restart_receiver_inactivity_def receive_sequenced_def place_pdu_def alloc_def seq_insert_def
      seq_queue_push_ni_def seq_queue_entry_create_def are_there_pdus_def)

text \<open>\<^verbatim>\<open>rtimer_restart\<close> leaves a pending timer as it is, so activity does not postpone the inactivity timer.\<close>

lemma rtimer_restart_keeps_deadline: "rtimer_restart e ms (Some t) = Some t"
  by (simp add: rtimer_restart_def rtimer_start_def rtimer_is_pending_def)

end
