(* ===== verification/Dtp_Send.thy ===== *)
theory Dtp_Send
  imports Dtp_Receive
begin

text \<open>
  What the sending side of DTP guarantees under window based flow control with the default
  policies, whatever control PDUs arrive: the SDUs leave in the order in which they were written and with
  consecutive sequence numbers, first transmissions stay within the window, and a window update
  empties the closed window queue as far as it reaches.
\<close>

section \<open>What sending depends on\<close>

fun out_pdus :: "event list \<Rightarrow> pdu list" where
  "out_pdus [] = []"
| "out_pdus (ToRmt du # evs) = du # out_pdus evs"
| "out_pdus (ToLoop cep du # evs) = du # out_pdus evs"
| "out_pdus (_ # evs) = out_pdus evs"

lemma out_pdus_append [simp]: "out_pdus (xs @ ys) = out_pdus xs @ out_pdus ys"
  by (induction xs rule: out_pdus.induct) auto

definition sent :: "dtp \<Rightarrow> pdu list" where
  "sent d = filter (\<lambda>p. p_type p = PDU_TYPE_DT) (out_pdus (d_trace d))"

definition queued :: "dtp \<Rightarrow> pdu list" where
  "queued d = (case d_cwq d of None \<Rightarrow> [] | Some q \<Rightarrow> rqueue_list (cw_q q))"

text \<open>The part of the state that decides what is sent.\<close>

record tx_view =
  v_next :: seq_num_t
  v_max :: seq_num_t
  v_fc :: "bool \<times> bool \<times> bool"
  v_cwq :: "cwq ptr"
  v_rtxq :: "rtxqueue ptr"
  v_sent :: "pdu list"
  v_dtcp :: "(seq_num_t \<times> dtcp_config \<times> dtcp_params) ptr"

definition tx :: "dtp \<Rightarrow> tx_view" where
  "tx d =
     \<lparr>v_next = sv_seq_nr_to_send (d_sv d), v_max = sv_max_seq_nr_sent (d_sv d),
      v_fc = (sv_window_based (d_sv d), sv_rate_based (d_sv d), sv_rexmsn_ctrl (d_sv d)),
      v_cwq = d_cwq d, v_rtxq = d_rtxq d, v_sent = sent d,
      v_dtcp = map_option (\<lambda>c. (cv_snd_rt_wind_edge (dc_sv c), dc_cfg c, dc_ps c)) (d_dtcp d)\<rparr>"

text \<open>Memory is available and only control PDUs wait on \<open>to_send\<close>.\<close>

definition side :: "dtp \<Rightarrow> bool" where
  "side d \<longleftrightarrow> e_ms (d_env d) = [] \<and> ringq_inv TO_SEND_LENGTH (d_to_send d) \<and>
     (\<forall>p\<in>set (ringq_list (d_to_send d)). p_type p \<noteq> PDU_TYPE_DT)"

definition quiet :: "dtp \<Rightarrow> dtp \<Rightarrow> bool" where
  "quiet d d' \<longleftrightarrow> tx d' = tx d \<and> (side d \<longrightarrow> side d')"

lemma quiet_refl [simp]: "quiet d d"
  by (simp add: quiet_def)

lemma quiet_trans: "quiet d1 d2 \<Longrightarrow> quiet d2 d3 \<Longrightarrow> quiet d1 d3"
  by (simp add: quiet_def)

lemmas view_defs = quiet_def tx_def side_def sent_def state_defs

lemma quiet_cong: "tx d1 = tx d \<Longrightarrow> side d1 = side d \<Longrightarrow> quiet d0 d1 = quiet d0 d \<and> quiet d1 d2 = quiet d d2"
  by (simp add: quiet_def)

lemma quiet_upd [simp]:
  "quiet d0 (with_timers h d) = quiet d0 d" "quiet (with_timers h d) d2 = quiet d d2"
  "quiet d0 (cpdus_inc n d) = quiet d0 d" "quiet (cpdus_inc n d) d2 = quiet d d2"
  "quiet d0 (emit WriteEnabled d) = quiet d0 d" "quiet d0 (emit WriteDisabled d) = quiet d0 d"
  "quiet d0 (d\<lparr>d_conn := k\<rparr>) = quiet d0 d" "quiet (d\<lparr>d_conn := k\<rparr>) d2 = quiet d d2"
  "quiet d0 (d\<lparr>d_rttq := rt\<rparr>) = quiet d0 d" "quiet (d\<lparr>d_rttq := rt\<rparr>) d2 = quiet d d2"
  "quiet d0 (stats_inc_err d) = quiet d0 d" "quiet d0 (stats_inc_bytes_tx sz d) = quiet d0 d"
  "quiet (dtcp_upd (\<lambda>c. c\<lparr>dc_rendezvous_rcv := tf c\<rparr>) d) d2 = quiet d d2"
  "quiet d0 (dtcp_upd (\<lambda>c. c\<lparr>dc_rendezvous_rcv := tf c\<rparr>) d) = quiet d0 d"
  by (auto simp: view_defs option.map_comp comp_def)

lemma quiet_cv_upd [simp]:
  assumes "\<And>s. cv_snd_rt_wind_edge (f s) = cv_snd_rt_wind_edge s"
  shows "quiet d0 (cv_upd f d) = quiet d0 d" "quiet (cv_upd f d) d2 = quiet d d2"
  using assms by (cases "d_dtcp d"; simp add: view_defs)+

lemma quiet_sv_upd [simp]:
  assumes "\<And>s. sv_seq_nr_to_send (f s) = sv_seq_nr_to_send s" "\<And>s. sv_max_seq_nr_sent (f s) = sv_max_seq_nr_sent s"
    "\<And>s. sv_window_based (f s) = sv_window_based s" "\<And>s. sv_rate_based (f s) = sv_rate_based s"
    "\<And>s. sv_rexmsn_ctrl (f s) = sv_rexmsn_ctrl s"
  shows "quiet d0 (sv_upd f d) = quiet d0 d"
  using assms by (simp add: view_defs)

lemma quiet_alloc: "alloc d = (ok, d') \<Longrightarrow> quiet d d'"
  by (cases "e_ms (d_env d)") (auto simp: alloc_def view_defs)

lemma alloc_side: "side d \<Longrightarrow> alloc d = (True, d)"
  by (simp add: side_def alloc_def)

lemma pdu_send_view:
  assumes "dtp_pdu_send du d = Some (r, d')"
  shows "tx d' = (tx d)\<lparr>v_sent := v_sent (tx d) @ (if p_type du = PDU_TYPE_DT then [du] else [])\<rparr>"
    "side d \<longrightarrow> side d'" "d_dtcp d' = d_dtcp d"
  using assms
  by (auto simp: dtp_pdu_send_def rmt_send_def efcp_container_receive_def view_defs
      split: if_splits prod.splits bind_splits)

lemma quiet_pdu_send: "dtp_pdu_send du d = Some (r, d') \<Longrightarrow> p_type du \<noteq> PDU_TYPE_DT \<Longrightarrow> quiet d d'"
  using pdu_send_view [of du d r d'] by (simp add: quiet_def)

lemma quiet_send_all:
  "send_all dus d = Some d' \<Longrightarrow> \<forall>p\<in>set dus. p_type p \<noteq> PDU_TYPE_DT \<Longrightarrow> quiet d d'"
  by (induction dus arbitrary: d)
    (auto split: bind_splits intro: quiet_trans dest: quiet_pdu_send)

lemma quiet_send_pending:
  assumes "dtp_send_pending_ctrl_pdus d = Some d'" "side d"
  shows "quiet d d'"
proof -
  let ?dr = "drain ringq_is_empty ringq_pop TO_SEND_LENGTH (d_to_send d)"
  have len: "length (ringq_list (d_to_send d)) \<le> TO_SEND_LENGTH"
    using assms(2) by (auto simp: side_def ringq_inv_def ringq_list_length ring_ok_def split: option.splits)
  have dr: "fst ?dr = ringq_list (d_to_send d)" "ringq_inv TO_SEND_LENGTH (snd ?dr)" "ringq_list (snd ?dr) = []"
    using ringq_fifo.drain_all [OF _ len] assms(2) by (auto simp: side_def)
  have "quiet d (d\<lparr>d_to_send := snd ?dr\<rparr>)"
    using dr by (simp add: view_defs)
  moreover have "send_all (fst ?dr) (d\<lparr>d_to_send := snd ?dr\<rparr>) = Some d'"
    using assms(1) by (simp add: dtp_send_pending_ctrl_pdus_def split_beta)
  ultimately show ?thesis
    using quiet_send_all dr assms(2) quiet_trans by (auto simp: side_def)
qed


section \<open>Control PDUs do not disturb the sender\<close>

lemma pdu_ctrl_set_type [simp]: "p_type (snd (pdu_ctrl_set f v p)) = p_type p"
  by (simp add: pdu_ctrl_set_def split: option.split)

lemma pdu_ctrl_sets_type [simp]: "p_type (pdu_ctrl_sets fs p) = p_type p"
  by (induction fs p rule: pdu_ctrl_sets.induct) simp_all

lemma populate_type: "populate_ctrl_pci p d = Some (r, q) \<Longrightarrow> p_type q = p_type p"
  by (auto simp: populate_ctrl_pci_def Let_def split_beta simp del: pdu_ctrl_sets.simps split: bind_splits if_splits)

lemma ctrl_generate_quiet:
  "pdu_ctrl_generate t d = Some (p, d') \<Longrightarrow> quiet d d' \<and> (\<forall>du. p = Some du \<longrightarrow> p_type du = t)"
  by (auto simp: pdu_ctrl_generate_def next_snd_ctl_seq_def Let_def pdu_format_def
      split: prod.splits if_splits bind_splits intro: quiet_trans dest!: quiet_alloc populate_type)

lemma quiet_ctrl_send:
  assumes "dtp_pdu_ctrl_send du d = (r, d')" "p_type du \<noteq> PDU_TYPE_DT"
  shows "quiet d d'"
proof -
  have "side d \<longrightarrow> side (d\<lparr>d_to_send := snd (ringq_push (d_to_send d) du)\<rparr>)"
    using ringq_fifo.push_invar [of TO_SEND_LENGTH "d_to_send d"]
      ringq_fifo.push_contents [of TO_SEND_LENGTH "d_to_send d"] assms(2)
    by (auto simp: side_def split: if_splits)
  with assms(1) show ?thesis by (auto simp: dtp_pdu_ctrl_send_def quiet_def tx_def sent_def split: prod.splits)
qed

lemma quiet_ctrl_pdu_send:
  "ctrl_pdu_send t b d = Some (r, d') \<Longrightarrow> t \<noteq> PDU_TYPE_DT \<Longrightarrow> quiet d d'"
  by (auto simp: ctrl_pdu_send_def Let_def split: bind_splits option.splits if_splits prod.splits
      dest!: ctrl_generate_quiet intro: quiet_trans [OF _ quiet_pdu_send] quiet_trans [OF _ quiet_ctrl_send])

lemma quiet_rtt_calculation: "rtt_calculation start d = Some d' \<Longrightarrow> quiet d d'"
proof (cases "d_dtcp d")
  case (Some c)
  assume "rtt_calculation start d = Some d'"
  moreover have "cv_snd_rt_wind_edge (rtt_update m s) = cv_snd_rt_wind_edge s" for m s
    by (simp add: rtt_update_def)
  ultimately show ?thesis using Some by (auto simp: rtt_calculation_def Let_def view_defs)
qed (simp add: rtt_calculation_def)

lemma quiet_estimator:
  assumes "run_estimator (dtcp_ps_default pp) on seq d = Some (r, d')"
  shows "quiet d d'"
  using assms
  by (auto simp: run_estimator_def dtcp_ps_default_def default_rtt_estimator_def default_rtt_estimator_nortx_def Let_def
      split: if_splits bind_splits dest: quiet_rtt_calculation)

lemma quiet_rendezvous: "default_rcvr_rendezvous p d = Some (r, d') \<Longrightarrow> quiet d d'"
  by (auto simp: default_rcvr_rendezvous_def Let_def split: bind_splits if_splits dest!: quiet_ctrl_pdu_send)


section \<open>The invariant of the sender\<close>

text \<open>
  Window based flow control without a rate; the closed window queue holds the sequence numbers
  between the greatest one sent and the greatest one given out; the retransmission queue holds
  sent PDUs, in order.
\<close>

definition rtx_view :: "dtcp_params \<Rightarrow> seq_num_t \<Rightarrow> rtxqueue ptr \<Rightarrow> bool" where
  "rtx_view pp m rq \<longleftrightarrow> (ps_rtx_ctrl pp \<longrightarrow>
     (\<exists>r. rq = Some r \<and> rtx_ok r \<and> sorted_wrt (<) (map p_seq (rtx_items r)) \<and> (\<forall>p\<in>set (rtx_items r). p_seq p \<le> m)))"

definition tx_inv :: "tx_view \<Rightarrow> bool" where
  "tx_inv v \<longleftrightarrow> (\<exists>edge cfg pp q. v_dtcp v = Some (edge, cfg, pp) \<and> v_cwq v = Some q \<and> rqueue_inv (cw_q q) \<and>
     dtcp_window_based_fctrl cfg \<and> \<not> dtcp_rate_based_fctrl cfg \<and> v_fc v = (True, False, ps_rtx_ctrl pp) \<and>
     map p_seq (rqueue_list (cw_q q)) = seqs_from (v_max v) (length (rqueue_list (cw_q q))) \<and>
     unat (v_next v) = unat (v_max v) + length (rqueue_list (cw_q q)) \<and>
     (\<forall>p\<in>set (rqueue_list (cw_q q)). p_type p = PDU_TYPE_DT) \<and> rtx_view pp (v_max v) (v_rtxq v))"

definition right_edge :: "dtp \<Rightarrow> seq_num_t" where
  "right_edge d = (case d_dtcp d of None \<Rightarrow> 0 | Some c \<Rightarrow> cv_snd_rt_wind_edge (dc_sv c))"

definition tx_core :: "dtp \<Rightarrow> bool" where
  "tx_core d \<longleftrightarrow> side d \<and> tx_inv (tx d)"

definition tx_ok :: "dtp \<Rightarrow> bool" where
  "tx_ok d \<longleftrightarrow> tx_core d \<and> (queued d \<noteq> [] \<longrightarrow> right_edge d \<le> sv_max_seq_nr_sent (d_sv d))"

lemma tx_sels [simp]:
  "v_next (tx d) = sv_seq_nr_to_send (d_sv d)" "v_max (tx d) = sv_max_seq_nr_sent (d_sv d)"
  "v_fc (tx d) = (sv_window_based (d_sv d), sv_rate_based (d_sv d), sv_rexmsn_ctrl (d_sv d))"
  "v_cwq (tx d) = d_cwq d" "v_rtxq (tx d) = d_rtxq d" "v_sent (tx d) = sent d"
  "v_dtcp (tx d) = map_option (\<lambda>c. (cv_snd_rt_wind_edge (dc_sv c), dc_cfg c, dc_ps c)) (d_dtcp d)"
  by (simp_all add: tx_def)

lemma view_queued: "queued d = (case v_cwq (tx d) of None \<Rightarrow> [] | Some q \<Rightarrow> rqueue_list (cw_q q))"
  by (simp add: queued_def)

lemma view_edge: "right_edge d = (case v_dtcp (tx d) of None \<Rightarrow> 0 | Some (e, _) \<Rightarrow> e)"
  by (simp add: right_edge_def split: option.split)

lemmas tx_fields = tx_sels(1,2,6) [symmetric] view_queued view_edge

lemma tx_core_elim:
  assumes "tx_core d"
  obtains c q where "side d" "d_dtcp d = Some c" "d_cwq d = Some q" "rqueue_inv (cw_q q)"
    "dtcp_window_based_fctrl (dc_cfg c)" "\<not> dtcp_rate_based_fctrl (dc_cfg c)" "sv_window_based (d_sv d)"
    "\<not> sv_rate_based (d_sv d)" "sv_rexmsn_ctrl (d_sv d) = ps_rtx_ctrl (dc_ps c)"
    "queued d = rqueue_list (cw_q q)" "right_edge d = cv_snd_rt_wind_edge (dc_sv c)"
    "map p_seq (queued d) = seqs_from (sv_max_seq_nr_sent (d_sv d)) (length (queued d))"
    "unat (sv_seq_nr_to_send (d_sv d)) = unat (sv_max_seq_nr_sent (d_sv d)) + length (queued d)"
    "\<forall>p\<in>set (queued d). p_type p = PDU_TYPE_DT"
    "rtx_view (dc_ps c) (sv_max_seq_nr_sent (d_sv d)) (d_rtxq d)"
  using assms by (auto simp: tx_core_def tx_inv_def queued_def right_edge_def)

lemma quiet_keeps:
  assumes "quiet d d'"
  shows "tx_core d \<Longrightarrow> tx_core d'" "tx_ok d \<Longrightarrow> tx_ok d'" "sent d' = sent d" "queued d' = queued d"
    "right_edge d' = right_edge d" "sv_seq_nr_to_send (d_sv d') = sv_seq_nr_to_send (d_sv d)"
    "sv_max_seq_nr_sent (d_sv d') = sv_max_seq_nr_sent (d_sv d)"
proof -
  have v: "tx d' = tx d" and sd: "side d \<longrightarrow> side d'" using assms by (simp_all add: quiet_def)
  show "sent d' = sent d" and q: "queued d' = queued d" and e: "right_edge d' = right_edge d"
    and "sv_seq_nr_to_send (d_sv d') = sv_seq_nr_to_send (d_sv d)"
    and m: "sv_max_seq_nr_sent (d_sv d') = sv_max_seq_nr_sent (d_sv d)"
    using v by (metis tx_sels(6), metis view_queued, metis view_edge, metis tx_sels(1), metis tx_sels(2))
  show c: "tx_core d \<Longrightarrow> tx_core d'" using v sd by (simp add: tx_core_def)
  show "tx_ok d \<Longrightarrow> tx_ok d'" using c q e m by (simp add: tx_ok_def)
qed

text \<open>A copy of a PDU above all sent ones goes to the end of the retransmission queue.\<close>

definition copied :: "dtcp_params \<Rightarrow> pdu \<Rightarrow> rtxqueue ptr \<Rightarrow> rtxqueue ptr \<Rightarrow> bool" where
  "copied pp du rq rq' \<longleftrightarrow> (if ps_rtx_ctrl pp
     then \<exists>r r'. rq = Some r \<and> rq' = Some r' \<and> rtx_ok r' \<and> rtx_items r' = rtx_items r @ [du] else rq' = rq)"

lemma copied_view:
  assumes "rtx_view pp m rq" "copied pp du rq rq'" "m < p_seq du"
  shows "rtx_view pp (p_seq du) rq'"
  using assms
  by (auto simp: rtx_view_def copied_def sorted_wrt_append) (meson le_less_trans less_imp_le)+

lemma rtxq_push_spec:
  assumes "side d" "rtx_view pp m (d_rtxq d)" "m < p_seq du" "ps_rtx_ctrl pp"
  shows "\<exists>rq. rtxq_push_ni du d = Some (0, (start_rtx (sv_tr (d_sv d)) d)\<lparr>d_rtxq := rq\<rparr>) \<and>
    copied pp du (d_rtxq d) rq"
proof -
  obtain r where r: "d_rtxq d = Some r" "rtx_ok r" "\<forall>y\<in>set (rtx_items r). p_seq y < p_seq du"
    using assms(2-4) le_less_trans unfolding rtx_view_def by blast
  have "alloc (start_rtx (sv_tr (d_sv d)) d) = (True, start_rtx (sv_tr (d_sv d)) d)"
    using assms(1) by (simp add: alloc_def side_def state_defs)
  with r rtx_sn.push_above [OF r(2,3), of "e_jiffies (d_env (start_rtx (sv_tr (d_sv d)) d))"] assms(4) show ?thesis
    by (auto simp: rtxq_push_ni_def copied_def)
qed

lemma tx_rtxq [simp]: "tx (d\<lparr>d_rtxq := rq\<rparr>) = (tx d)\<lparr>v_rtxq := rq\<rparr>" "side (d\<lparr>d_rtxq := rq\<rparr>) = side d"
  by (simp_all add: tx_def side_def sent_def)

lemma tx_start_rtx [simp]: "tx (start_rtx n d) = tx d" "side (start_rtx n d) = side d" "d_dtcp (start_rtx n d) = d_dtcp d"
  by (simp_all add: view_defs)

lemma tx_rttq [simp]: "tx (d\<lparr>d_rttq := rq\<rparr>) = tx d" "side (d\<lparr>d_rttq := rq\<rparr>) = side d"
  by (simp_all add: tx_def side_def sent_def)

lemma queue_copy_spec:
  assumes "side d" "d_dtcp d = Some c" "rtx_view (dc_ps c) m (d_rtxq d)" "m < p_seq du"
  shows "\<exists>rq d'. queue_copy du d = Some (True, d') \<and> copied (dc_ps c) du (d_rtxq d) rq \<and>
    tx d' = (tx d)\<lparr>v_rtxq := rq\<rparr> \<and> side d' \<and> d_dtcp d' = d_dtcp d"
proof (cases "ps_rtx_ctrl (dc_ps c)")
  case True
  from rtxq_push_spec [OF assms(1,3,4) True] obtain rq where
    rq: "rtxq_push_ni du d = Some (0, (start_rtx (sv_tr (d_sv d)) d)\<lparr>d_rtxq := rq\<rparr>)" "copied (dc_ps c) du (d_rtxq d) rq"
    by blast
  then have "d_rtxq d \<noteq> None" using True by (auto simp: copied_def)
  then show ?thesis using rq True assms(1,2)
    by (intro exI [of _ rq]) (auto simp: queue_copy_def dup_du_def alloc_side)
next
  case False
  then show ?thesis using assms(1,2)
    by (intro exI [of _ "d_rtxq d"])
      (auto simp: queue_copy_def copied_def alloc_side tx_def sent_def split: option.split)
qed

lemma write_copy_spec:
  assumes "side d" "sv_rexmsn_ctrl (d_sv d) = ps_rtx_ctrl pp" "rtx_view pp m (d_rtxq d)" "m < p_seq du"
  shows "\<exists>rq d'. write_copy du d = Some (0, d') \<and> copied pp du (d_rtxq d) rq \<and>
    tx d' = (tx d)\<lparr>v_rtxq := rq\<rparr> \<and> side d' \<and> d_dtcp d' = d_dtcp d"
proof (cases "ps_rtx_ctrl pp")
  case True
  from rtxq_push_spec [OF assms(1,3,4) True] obtain rq where
    rq: "rtxq_push_ni du d = Some (0, (start_rtx (sv_tr (d_sv d)) d)\<lparr>d_rtxq := rq\<rparr>)" "copied pp du (d_rtxq d) rq"
    by blast
  then show ?thesis using True assms(1,2)
    by (intro exI [of _ rq]) (auto simp: write_copy_def dup_du_def alloc_side)
next
  case False
  then show ?thesis using assms(1,2)
    by (intro exI [of _ "d_rtxq d"])
      (auto simp: write_copy_def copied_def alloc_side tx_def sent_def split: option.split)
qed

lemma send_data_spec:
  assumes "d_dtcp d \<noteq> None" "p_type du = PDU_TYPE_DT" "side d"
  shows "\<exists>r d'. dtp_pdu_send du (cv_upd (\<lambda>s. s\<lparr>cv_snd_lft_win := p_seq du\<rparr>) (sv_upd (\<lambda>s. s\<lparr>sv_max_seq_nr_sent := p_seq du\<rparr>) d)) = Some (r, d') \<and>
    tx d' = (tx d)\<lparr>v_max := p_seq du, v_sent := sent d @ [du]\<rparr> \<and> side d'"
proof -
  define e where "e = cv_upd (\<lambda>s. s\<lparr>cv_snd_lft_win := p_seq du\<rparr>) (sv_upd (\<lambda>s. s\<lparr>sv_max_seq_nr_sent := p_seq du\<rparr>) d)"
  have e: "tx e = (tx d)\<lparr>v_max := p_seq du\<rparr>" "side e" "d_dtcp e \<noteq> None"
    using assms(1,3) by (auto simp: e_def tx_def side_def sent_def state_defs option.map_comp comp_def)
  obtain r d' where "dtp_pdu_send du e = Some (r, d')"
    using dtp_pdu_send_total [OF e(3), of du] by auto
  with pdu_send_view [OF this] e assms(2) show ?thesis
    unfolding e_def [symmetric] by (auto simp: tx_def)
qed

lemma seq_succ:
  fixes m k :: seq_num_t
  assumes "unat k = unat m + Suc n"
  shows "unat (m + 1) = unat m + 1" "m < m + 1"
proof -
  have "unat k < 2 ^ LENGTH(32)" by (rule unsigned_less)
  with assms have "unat m + 1 < 2 ^ 32" by simp
  then show "unat (m + 1) = unat m + 1" by (simp add: unat_word_ariths)
  then show "m < m + 1" by (simp add: word_less_nat_alt)
qed

lemma tx_inv_head:
  assumes "tx_inv v" "v_cwq v = Some q" "rqueue_list (cw_q q) = p # ps"
  shows "p_seq p = v_max v + 1" "v_max v < p_seq p" "p_type p = PDU_TYPE_DT"
    "unat (p_seq p) = unat (v_max v) + 1"
  using assms seq_succ [of "v_next v" "v_max v" "length ps"] by (auto simp: tx_inv_def)

lemma tx_inv_sent:
  assumes "tx_inv v" "v_dtcp v = Some (edge, cfg, pp)" "v_cwq v = Some q" "rqueue_list (cw_q q) = p # ps"
    "rqueue_inv (cw_q q')" "rqueue_list (cw_q q') = ps" "copied pp p (v_rtxq v) rq"
  shows "tx_inv (v\<lparr>v_cwq := Some q', v_rtxq := rq, v_max := p_seq p, v_sent := xs\<rparr>)"
proof -
  have "rtx_view pp (v_max v) (v_rtxq v)" using assms(1,2) by (auto simp: tx_inv_def)
  from copied_view [OF this assms(7) tx_inv_head(2) [OF assms(1,3,4)]] have "rtx_view pp (p_seq p) rq" .
  with assms tx_inv_head(1,4) [OF assms(1,3,4)] show ?thesis by (auto simp: tx_inv_def)
qed

section \<open>Emptying the closed window queue\<close>

lemma can_deliver_window:
  assumes "d_dtcp d = Some c" "dtcp_window_based_fctrl (dc_cfg c)" "\<not> dtcp_rate_based_fctrl (dc_cfg c)"
  shows "can_deliver ps d = Some (sv_max_seq_nr_sent (d_sv d) < cv_snd_rt_wind_edge (dc_sv c), d)"
  using assms by (simp add: can_deliver_def)

lemma rqueue_pop_Cons:
  assumes "rqueue_inv q" "rqueue_list q = x # xs"
  shows "\<exists>q'. rqueue_head_pop q = (Some x, q') \<and> rqueue_inv q' \<and> rqueue_list q' = xs"
  using rqueue_fifo.pop_fst [OF assms(1)] rqueue_fifo.pop_snd [OF assms(1)] rqueue_fifo.pop_invar [OF assms(1)] assms(2)
  by (cases "rqueue_head_pop q") simp

lemma cwq_round:
  assumes "tx_core d" "queued d = p # ps" "sv_max_seq_nr_sent (d_sv d) < right_edge d"
  shows "\<exists>d'. cwq_loop dps (Suc n) d = cwq_loop dps n d' \<and> tx_core d' \<and> sent d' = sent d @ [p] \<and> queued d' = ps \<and>
    sv_max_seq_nr_sent (d_sv d') = p_seq p \<and> p_seq p \<le> right_edge d \<and> right_edge d' = right_edge d \<and>
    sv_seq_nr_to_send (d_sv d') = sv_seq_nr_to_send (d_sv d)"
proof -
  from assms(1) obtain c q where c: "side d" "d_dtcp d = Some c" "d_cwq d = Some q" "rqueue_inv (cw_q q)"
    "dtcp_window_based_fctrl (dc_cfg c)" "\<not> dtcp_rate_based_fctrl (dc_cfg c)"
    "queued d = rqueue_list (cw_q q)" "right_edge d = cv_snd_rt_wind_edge (dc_sv c)"
    "rtx_view (dc_ps c) (sv_max_seq_nr_sent (d_sv d)) (d_rtxq d)"
    by (rule tx_core_elim) blast
  obtain q' where q': "rqueue_head_pop (cw_q q) = (Some p, q')" "rqueue_inv q'" "rqueue_list q' = ps"
    using rqueue_pop_Cons [OF c(4), of p ps] assms(2) c(7) by auto
  have ls: "rqueue_list (cw_q q) = p # ps" using c(7) assms(2) by simp
  define d1 where "d1 = d\<lparr>d_cwq := Some (q\<lparr>cw_q := q'\<rparr>)\<rparr>"
  have d1: "side d1" "d_dtcp d1 = Some c" "d_rtxq d1 = d_rtxq d" "tx d1 = (tx d)\<lparr>v_cwq := Some (q\<lparr>cw_q := q'\<rparr>)\<rparr>"
    "d_sv d1 = d_sv d" "sent d1 = sent d"
    using c by (simp_all add: d1_def side_def tx_def sent_def)
  have inv: "tx_inv (tx d)" using assms(1) by (simp add: tx_core_def)
  have seq: "p_seq p = sv_max_seq_nr_sent (d_sv d) + 1" "sv_max_seq_nr_sent (d_sv d) < p_seq p" "p_type p = PDU_TYPE_DT"
    using tx_inv_head [OF inv, of q p ps] c(3,7) assms(2) by simp_all
  from queue_copy_spec [OF d1(1,2), of "sv_max_seq_nr_sent (d_sv d)" p] obtain rq d2 where
    d2: "queue_copy p d1 = Some (True, d2)" "copied (dc_ps c) p (d_rtxq d) rq" "tx d2 = (tx d1)\<lparr>v_rtxq := rq\<rparr>"
      "side d2" "d_dtcp d2 = Some c"
    using d1 c(9) seq(2) by auto
  from send_data_spec [of d2 p] obtain r d3 where
    d3: "cwq_send p d2 = Some (r, d3)" "tx d3 = (tx d2)\<lparr>v_max := p_seq p, v_sent := sent d2 @ [p]\<rparr>" "side d3"
    using d2 seq(3) by (auto simp: cwq_send_def)
  have "cwq_loop dps (Suc n) d = cwq_loop dps n d3"
    using c d1_def q' d2(1,5) d3(1) assms(3) ls by (simp add: rqueue_fifo.is_empty_iff can_deliver_window charge_cwq_def)
  moreover have v: "tx d3 = (tx d)\<lparr>v_cwq := Some (q\<lparr>cw_q := q'\<rparr>), v_rtxq := rq, v_max := p_seq p, v_sent := sent d @ [p]\<rparr>"
    using d1 d2 d3 by (simp add: tx_def)
  moreover have "tx_inv (tx d3)"
    unfolding v using tx_inv_sent [OF inv, of _ _ "dc_ps c" q p ps "q\<lparr>cw_q := q'\<rparr>" rq] c d2(2) q' assms(2) by simp
  moreover have "p_seq p \<le> right_edge d" using assms(3) seq(1) inc_le by metis
  moreover have "right_edge d3 = right_edge d"
    using c(2) by (simp only: view_edge v) simp
  ultimately show ?thesis
    using d3(3) q'(3) tx_fields(1-4) [of d3] unfolding tx_core_def v
    by (intro exI [of _ d3]) (simp add: v)
qed

text \<open>The relation between the states before and after a delivery from the queue.\<close>

definition advances :: "dtp \<Rightarrow> dtp \<Rightarrow> bool" where
  "advances d d' \<longleftrightarrow> tx_ok d' \<and> sv_seq_nr_to_send (d_sv d') = sv_seq_nr_to_send (d_sv d) \<and>
     (\<exists>xs. sent d' = sent d @ xs \<and> queued d = xs @ queued d' \<and> (\<forall>p\<in>set xs. p_seq p \<le> right_edge d'))"

lemma advances_refl: "tx_ok d \<Longrightarrow> advances d d"
  by (simp add: advances_def)

lemma advances_quiet: "advances d d' \<Longrightarrow> quiet d' d'' \<Longrightarrow> advances d d''"
  using quiet_keeps [of d' d''] by (simp add: advances_def)

lemma quiet_advances: "quiet d d' \<Longrightarrow> advances d' d'' \<Longrightarrow> advances d d''"
  using quiet_keeps [of d d'] by (simp add: advances_def)

lemma cwq_loop_advances:
  assumes "tx_core d" "length (queued d) \<le> n"
  shows "\<exists>d'. cwq_loop dps n d = Some (True, d') \<and> advances d d' \<and> right_edge d' = right_edge d"
  using assms
proof (induction n arbitrary: d)
  case 0
  then show ?case by (simp add: advances_def tx_ok_def)
next
  case (Suc n)
  from Suc.prems(1) obtain c q where c: "d_dtcp d = Some c" "d_cwq d = Some q" "rqueue_inv (cw_q q)"
    "dtcp_window_based_fctrl (dc_cfg c)" "\<not> dtcp_rate_based_fctrl (dc_cfg c)"
    "queued d = rqueue_list (cw_q q)" "right_edge d = cv_snd_rt_wind_edge (dc_sv c)"
    by (rule tx_core_elim) blast
  show ?case
  proof (cases "queued d \<noteq> [] \<and> sv_max_seq_nr_sent (d_sv d) < right_edge d")
    case False
    then have "cwq_loop dps (Suc n) d = Some (True, d)"
      using c by (auto simp: rqueue_fifo.is_empty_iff can_deliver_window)
    with False Suc.prems(1) show ?thesis by (auto simp: advances_def tx_ok_def)
  next
    case True
    then obtain p ps where p: "queued d = p # ps" by (cases "queued d") auto
    from cwq_round [OF Suc.prems(1) p] True obtain d1 where
      d1: "cwq_loop dps (Suc n) d = cwq_loop dps n d1" "tx_core d1" "sent d1 = sent d @ [p]" "queued d1 = ps"
        "p_seq p \<le> right_edge d" "right_edge d1 = right_edge d" "sv_seq_nr_to_send (d_sv d1) = sv_seq_nr_to_send (d_sv d)"
      by blast
    from Suc.IH [OF d1(2)] d1(4) Suc.prems(2) p obtain d' where
      "cwq_loop dps n d1 = Some (True, d')" "advances d1 d'" "right_edge d' = right_edge d1"
      by auto
    with d1 p show ?thesis by (auto simp: advances_def)
  qed
qed

lemma quiet_enable_write: "quiet d (snd (efcp_enable_write d))" "quiet d (snd (efcp_disable_write d))"
  by (auto simp: efcp_enable_write_def efcp_disable_write_def view_defs split: prod.splits)

lemma cwq_finish_quiet:
  assumes "tx_core d"
  shows "\<exists>d'. cwq_finish d = Some d' \<and> quiet d d'"
proof -
  from assms obtain c q where "d_dtcp d = Some c" "d_cwq d = Some q" "dtcp_window_based_fctrl (dc_cfg c)"
    "\<not> dtcp_rate_based_fctrl (dc_cfg c)"
    by (rule tx_core_elim) blast
  then show ?thesis
    by (auto simp: cwq_finish_def Let_def intro: quiet_trans [OF _ quiet_enable_write(1)])
qed

lemma cwq_deliver_advances:
  assumes "tx_core d"
  shows "\<exists>d'. cwq_deliver dps d = Some d' \<and> advances d d' \<and> right_edge d' = right_edge d"
proof -
  from assms obtain q where q: "d_cwq d = Some q" "queued d = rqueue_list (cw_q q)"
    by (rule tx_core_elim) blast
  obtain d1 where d1: "cwq_loop dps (length (queued d)) d = Some (True, d1)" "advances d d1" "right_edge d1 = right_edge d"
    using cwq_loop_advances [OF assms order_refl] by blast
  then have "tx_core d1" by (simp add: advances_def tx_ok_def)
  from cwq_finish_quiet [OF this] obtain d' where d': "cwq_finish d1 = Some d'" "quiet d1 d'" by blast
  with d1 q quiet_keeps(5) [OF d'(2)] advances_quiet [OF d1(2) d'(2)] show ?thesis
    by (simp add: cwq_deliver_def)
qed

section \<open>Control PDUs and the sender\<close>

lemma advances_cong:
  assumes "advances d1 d'" "sent d1 = sent d" "queued d1 = queued d"
    "sv_seq_nr_to_send (d_sv d1) = sv_seq_nr_to_send (d_sv d)"
  shows "advances d d'"
  using assms by (simp add: advances_def)

definition keeps :: "dtp \<Rightarrow> dtp \<Rightarrow> bool" where
  "keeps d d' \<longleftrightarrow> tx_ok d' \<and> sent d' = sent d \<and> queued d' = queued d \<and> right_edge d' = right_edge d \<and>
     sv_seq_nr_to_send (d_sv d') = sv_seq_nr_to_send (d_sv d)"

lemma keeps_advances: "keeps d d' \<Longrightarrow> advances d d'"
  by (simp add: keeps_def advances_def)

lemma keeps_then: "keeps d d' \<Longrightarrow> advances d' d'' \<Longrightarrow> advances d d''"
  by (simp add: keeps_def advances_def)

lemma keeps_trans: "keeps d d' \<Longrightarrow> keeps d' d'' \<Longrightarrow> keeps d d''"
  by (simp add: keeps_def)

lemma quiet_imp_keeps: "quiet d d' \<Longrightarrow> tx_ok d \<Longrightarrow> keeps d d'"
  using quiet_keeps [of d d'] by (simp add: keeps_def)

lemma keeps_quiet: "keeps d d' \<Longrightarrow> quiet d' d'' \<Longrightarrow> keeps d d''"
  using quiet_keeps [of d' d''] by (simp add: keeps_def)

lemma tx_ok_dtcp: "tx_ok d \<Longrightarrow> d_dtcp d \<noteq> None"
  by (auto simp: tx_ok_def elim: tx_core_elim)

lemma rtxq_ack_keeps:
  assumes "tx_ok d" "d_dtcp d = Some c" "ps_rtx_ctrl (dc_ps c)"
  shows "\<exists>r. d_rtxq d = Some r \<and> keeps d (snd (rtxq_ack seq tr d))"
proof -
  obtain r where r: "d_rtxq d = Some r" "rtx_ok r" "sorted_wrt (<) (map p_seq (rtx_items r))"
    "\<forall>p\<in>set (rtx_items r). p_seq p \<le> sv_max_seq_nr_sent (d_sv d)"
    using assms by (auto simp: tx_ok_def tx_core_def tx_inv_def rtx_view_def)
  from rtx_sn.ack_upto [OF r(2,3), of seq] obtain r' where
    r': "rtxqueue_entries_ack r seq = (0, r')" "rtx_ok r'" "rtx_items r' = filter (\<lambda>x. \<not> p_seq x \<le> seq) (rtx_items r)"
    by blast
  let ?d = "d\<lparr>d_rtxq := Some r'\<rparr>"
  have "rtx_view (dc_ps c) (sv_max_seq_nr_sent (d_sv d)) (Some r')"
    using r r' by (auto simp: rtx_view_def sorted_wrt_map intro: sorted_wrt_filter)
  then have "tx_inv (tx ?d)" "side ?d"
    using assms(1,2) by (auto simp: tx_ok_def tx_core_def tx_inv_def)
  moreover have "sent ?d = sent d" "queued ?d = queued d" "right_edge ?d = right_edge d" "d_sv ?d = d_sv d"
    by (simp_all add: sent_def queued_def right_edge_def)
  ultimately have "keeps d ?d" using assms(1) by (auto simp: keeps_def tx_ok_def tx_core_def)
  then have "keeps d (with_timers (\<lambda>e t. t\<lparr>tm_rtx := rtimer_restart e tr (tm_rtx t)\<rparr>) ?d)"
    by (rule keeps_quiet) simp
  with r(1) r'(1) show ?thesis by (simp add: rtxq_ack_def)
qed

lemma sender_ack_keeps:
  assumes "tx_ok d"
  shows "\<exists>r d'. default_sender_ack seq d = Some (r, d') \<and> keeps d d'"
proof -
  from tx_ok_dtcp [OF assms] obtain c where c: "d_dtcp d = Some c" by auto
  show ?thesis
  proof (cases "ps_rtx_ctrl (dc_ps c)")
    case True
    from rtxq_ack_keeps [OF assms c True, of seq "sv_tr (d_sv d)"] obtain r where
      "d_rtxq d = Some r" "keeps d (snd (rtxq_ack seq (sv_tr (d_sv d)) d))" by blast
    with c True show ?thesis
      by (auto simp: default_sender_ack_def split_beta Let_def intro: keeps_quiet)
  next
    case False
    with assms c show ?thesis by (auto simp: default_sender_ack_def intro: quiet_imp_keeps)
  qed
qed

lemma update_window_advances:
  assumes "tx_ok d"
  shows "\<exists>r d'. update_window_and_rate dps p d = Some (r, d') \<and> advances d d' \<and> right_edge d' = pdu_ctrl_get NewRt p"
proof -
  from assms obtain c q where c: "side d" "d_dtcp d = Some c" "d_cwq d = Some q"
    "dtcp_window_based_fctrl (dc_cfg c)" "\<not> dtcp_rate_based_fctrl (dc_cfg c)"
    using tx_core_elim [of d] unfolding tx_ok_def by metis
  define d1 where "d1 = cv_upd (\<lambda>s. s\<lparr>cv_snd_rt_wind_edge := pdu_ctrl_get NewRt p\<rparr>) d"
  define d2 where "d2 = (if cv_rendezvous_sndr (dc_sv c)
              then with_timers (\<lambda>e t. t\<lparr>tm_rendezvous := rtimer_stop (tm_rendezvous t)\<rparr>)
                     (cv_upd (\<lambda>s. s\<lparr>cv_rendezvous_sndr := False\<rparr>) d1)
              else d1)"
  have d1: "tx_core d1" "sent d1 = sent d" "queued d1 = queued d" "d_sv d1 = d_sv d"
    "right_edge d1 = pdu_ctrl_get NewRt p"
    using assms c by (auto simp: d1_def tx_ok_def tx_core_def tx_inv_def side_def sent_def queued_def right_edge_def
        cv_upd_def dtcp_upd_def tx_def)
  have q12: "quiet d1 d2" by (simp add: d2_def)
  have d2: "d_cwq d2 = Some q" using c by (simp add: d2_def d1_def state_defs)
  from cwq_deliver_advances [OF quiet_keeps(1) [OF q12 d1(1)], of dps] obtain d' where
    d': "cwq_deliver dps d2 = Some d'" "advances d2 d'" "right_edge d' = right_edge d2" by blast
  have "advances d d'"
    using advances_cong [OF quiet_advances [OF q12 d'(2)]] d1 by simp
  moreover have "update_window_and_rate dps p d = Some (0, d')"
    using c d2 d'(1) unfolding d2_def d1_def
    by (simp add: update_window_and_rate_def push_pdus_rmt_def Let_def split: if_splits)
  ultimately show ?thesis using d'(3) quiet_keeps(5) [OF q12] d1(5) by auto
qed

lemma estimator_total:
  assumes "d_dtcp d \<noteq> None"
  shows "run_estimator (dtcp_ps_default pp) on seq d \<noteq> None"
  using assms by (auto simp: run_estimator_def dtcp_ps_default_def default_rtt_estimator_def
      default_rtt_estimator_nortx_def rtt_calculation_def Let_def split: bind_splits)

lemma estimator_keeps:
  assumes "tx_ok d"
  shows "\<exists>r d'. run_estimator (dtcp_ps_default pp) on seq d = Some (r, d') \<and> keeps d d' \<and> tx_ok d'"
proof -
  from estimator_total [OF tx_ok_dtcp [OF assms], of pp on seq] obtain r d' where
    e: "run_estimator (dtcp_ps_default pp) on seq d = Some (r, d')" by auto
  from quiet_imp_keeps [OF quiet_estimator [OF e] assms] e show ?thesis by (auto simp: keeps_def)
qed

lemma ack_then_advances:
  assumes "tx_ok d" "d_dtcp d = Some c" "\<And>d. tx_ok d \<Longrightarrow> \<exists>r d'. f d = Some (r, d') \<and> advances d d'"
  shows "\<exists>r d'. do {
     (r, d) \<leftarrow> run_estimator (dtcp_ps_default pp) on seq d;
     if r = -1 then Some (0, d) else do { (r, d) \<leftarrow> default_sender_ack seq d; f d }
   } = Some (r :: rc, d') \<and> advances d d'"
proof -
  from estimator_keeps [OF assms(1), of pp on seq] obtain r d1 where
    d1: "run_estimator (dtcp_ps_default pp) on seq d = Some (r, d1)" "keeps d d1" "tx_ok d1"
    by auto
  from sender_ack_keeps [OF d1(3), of seq] obtain r' d2 where
    d2: "default_sender_ack seq d1 = Some (r', d2)" "keeps d1 d2" "tx_ok d2" by (auto simp: keeps_def)
  from assms(3) [OF d2(3)] obtain r'' d3 where "f d2 = Some (r'', d3)" "advances d2 d3" by auto
  with d1 d2 keeps_advances [OF d1(2)] show ?thesis by (auto intro: keeps_then)
qed

lemma rcv_ack_and_flow_ctl_advances:
  assumes "tx_ok d"
  shows "\<exists>r d'. rcv_ack_and_flow_ctl dps (dtcp_ps_default pp) p d = Some (r, d') \<and> advances d d'"
proof -
  from tx_ok_dtcp [OF assms] obtain c where c: "d_dtcp d = Some c" by auto
  have "\<exists>r d'. update_window_and_rate dps p d = Some (r, d') \<and> advances d d'" if "tx_ok d" for d
    using update_window_advances [OF that, of dps p] by blast
  from ack_then_advances [OF assms c this] c show ?thesis
    by (simp add: rcv_ack_and_flow_ctl_def Let_def cong: if_cong)
qed

lemma rcv_ack_advances:
  assumes "tx_ok d"
  shows "\<exists>r d'. rcv_ack (dtcp_ps_default pp) p d = Some (r, d') \<and> advances d d'"
proof -
  from tx_ok_dtcp [OF assms] obtain c where c: "d_dtcp d = Some c" by auto
  let ?seq = "pdu_ctrl_get AckSeq p"
  from estimator_keeps [OF assms, of pp "ps_rtx_ctrl (dc_ps c)" ?seq] obtain r d1 where
    d1: "run_estimator (dtcp_ps_default pp) (ps_rtx_ctrl (dc_ps c)) ?seq d = Some (r, d1)" "keeps d d1" "tx_ok d1"
    by auto
  from sender_ack_keeps [OF d1(3), of ?seq] obtain r' d2 where
    "default_sender_ack ?seq d1 = Some (r', d2)" "keeps d1 d2" by auto
  with c d1 keeps_advances [OF d1(2)] show ?thesis
    by (auto simp: rcv_ack_def Let_def cong: if_cong intro: keeps_then keeps_advances)
qed

lemma rcv_flow_ctl_advances:
  assumes "tx_ok d"
  shows "\<exists>r d'. rcv_flow_ctl dps (dtcp_ps_default pp) p d = Some (r, d') \<and> advances d d' \<and> right_edge d' = pdu_ctrl_get NewRt p"
proof -
  from tx_ok_dtcp [OF assms] obtain c where c: "d_dtcp d = Some c" by auto
  let ?sn = "pdu_ctrl_get NewRt p - cv_sndr_credit (dc_sv c)"
  from estimator_keeps [OF assms, of pp "\<not> ps_rtx_ctrl (dc_ps c)" ?sn] obtain r d1 where
    d1: "run_estimator (dtcp_ps_default pp) (\<not> ps_rtx_ctrl (dc_ps c)) ?sn d = Some (r, d1)" "keeps d d1" "tx_ok d1"
    by auto
  define d2 where "d2 = (case d_rttq d1 of None \<Rightarrow> d1 | Some q \<Rightarrow> d1\<lparr>d_rttq := Some (snd (rttq_drop q ?sn))\<rparr>)"
  have "quiet d1 d2" by (simp add: d2_def split: option.split)
  from keeps_quiet [OF d1(2) this] have d2: "keeps d d2" "tx_ok d2" by (simp_all add: keeps_def)
  from update_window_advances [OF d2(2), of dps p] obtain r' d3 where
    "update_window_and_rate dps p d2 = Some (r', d3)" "advances d2 d3" "right_edge d3 = pdu_ctrl_get NewRt p" by blast
  with c d1 keeps_then [OF d2(1)] show ?thesis by (auto simp: rcv_flow_ctl_def Let_def d2_def)
qed

text \<open>A NACK PDU has no field that \<^verbatim>\<open>pci_control_ack_seq_num\<close> could read, so it reaches no entry.\<close>

lemma rtxq_nack_keeps:
  assumes "tx_ok d" "d_dtcp d = Some c" "ps_rtx_ctrl (dc_ps c)" "sv_max_seq_nr_sent (d_sv d) < -1"
  shows "\<exists>d'. rtxq_nack (-1) tr d = Some (0, d') \<and> keeps d d' \<and> d_rtxq d \<noteq> None"
proof -
  obtain q where q: "d_rtxq d = Some q" "\<forall>p\<in>set (rtx_items q). p_seq p \<le> sv_max_seq_nr_sent (d_sv d)"
    using assms by (auto simp: tx_ok_def tx_core_def tx_inv_def rtx_view_def)
  have "nack_loop (-1) (ps_data_retransmit_max (dc_ps c)) (rev (rx_head q)) d = Some ((rev (rx_head q), 0), d)"
  proof (cases "rev (rx_head q)")
    case (Cons e es)
    then have "re_du e \<in> set (rtx_items q)" by (metis in_set_conv_decomp list.set_intros(1) rtx_items_def set_map set_rev image_eqI)
    then have "re_seq e < -1" using q(2) assms(4) le_less_trans by blast
    then show ?thesis using Cons by (simp add: not_le [symmetric])
  qed simp
  then have "rtxqueue_entries_nack (-1) (ps_data_retransmit_max (dc_ps c)) d = Some (0, d\<lparr>d_rtxq := Some q\<rparr>)"
    using q(1) by (simp add: rtxqueue_entries_nack_def)
  moreover have "d\<lparr>d_rtxq := Some q\<rparr> = d" using q(1) by simp
  ultimately show ?thesis
    using assms q(1) by (auto simp: rtxq_nack_def intro: quiet_imp_keeps)
qed

lemma rcv_nack_advances:
  assumes "tx_ok d" "p_type p = PDU_TYPE_NACK" "sv_max_seq_nr_sent (d_sv d) < -1"
  shows "\<exists>r d'. rcv_nack_ctl (dtcp_ps_default pp) p d = Some (r, d') \<and> advances d d'"
proof -
  from tx_ok_dtcp [OF assms(1)] obtain c where c: "d_dtcp d = Some c" by auto
  have seq: "pdu_ctrl_get AckSeq p = -1" using assms(2) by (simp add: pdu_ctrl_get_def ctrl_index_def)
  show ?thesis
  proof (cases "ps_rtx_ctrl (dc_ps c)")
    case True
    from rtxq_nack_keeps [OF assms(1) c True assms(3), of "sv_tr (d_sv d)"] obtain d1 where
      d1: "rtxq_nack (-1) (sv_tr (d_sv d)) d = Some (0, d1)" "keeps d d1" "d_rtxq d \<noteq> None" by auto
    then have "tx_ok d1" by (simp add: keeps_def)
    from estimator_keeps [OF this, of pp True "-1"] obtain r d2 where
      "run_estimator (dtcp_ps_default pp) True (-1) d1 = Some (r, d2)" "keeps d1 d2" by auto
    with c True d1 seq show ?thesis
      by (auto simp: rcv_nack_ctl_def Let_def run_estimator_def intro: keeps_advances keeps_trans split: option.splits)
  next
    case False
    with c assms(1) show ?thesis by (auto simp: rcv_nack_ctl_def intro: advances_refl)
  qed
qed

lemma rendezvous_total: "d_dtcp d \<noteq> None \<Longrightarrow> default_rcvr_rendezvous p d \<noteq> None"
  using ctrl_pdu_send_total by (auto simp: default_rcvr_rendezvous_def Let_def state_defs)

lemma tx_ok_max:
  assumes "tx_ok d" "sv_seq_nr_to_send (d_sv d) < -1"
  shows "sv_max_seq_nr_sent (d_sv d) < -1"
proof -
  have "unat (sv_max_seq_nr_sent (d_sv d)) \<le> unat (sv_seq_nr_to_send (d_sv d))"
    using assms(1) by (auto simp: tx_ok_def tx_core_def tx_inv_def)
  with assms(2) show ?thesis by (metis le_less_trans word_le_nat_alt)
qed

lemma dispatch_advances:
  assumes "tx_ok d" "sv_seq_nr_to_send (d_sv d) < -1"
  shows "\<exists>r d'. dispatch_ctrl dps (dtcp_ps_default pp) p d = Some (r, d') \<and> advances d d' \<and>
    (p_type p = PDU_TYPE_FC \<longrightarrow> right_edge d' = pdu_ctrl_get NewRt p)"
proof -
  have "\<exists>r d'. rcvr_rendezvous (dtcp_ps_default pp) p d = Some (r, d') \<and> advances d d'"
  proof -
    from rendezvous_total [OF tx_ok_dtcp [OF assms(1)], of p] obtain r d' where
      d': "default_rcvr_rendezvous p d = Some (r, d')" by auto
    from quiet_imp_keeps [OF quiet_rendezvous [OF d'] assms(1)] d' show ?thesis
      by (auto simp: rcvr_rendezvous_def intro: keeps_advances)
  qed
  then show ?thesis
    using rcv_ack_advances [OF assms(1), of pp p] rcv_ack_and_flow_ctl_advances [OF assms(1), of dps pp p]
      rcv_flow_ctl_advances [OF assms(1), of dps pp p] rcv_nack_advances [OF assms(1), of p pp]
      tx_ok_max [OF assms] advances_refl [OF assms(1)]
    by (auto simp: dispatch_ctrl_def Let_def)
qed

lemma send_pending_spec:
  assumes "advances d d1"
  shows "\<exists>d'. dtp_send_pending_ctrl_pdus d1 = Some d' \<and> advances d d' \<and> right_edge d' = right_edge d1"
proof -
  have ok: "tx_ok d1" "side d1" using assms by (simp_all add: advances_def tx_ok_def tx_core_def)
  from send_pending_total [OF tx_ok_dtcp [OF ok(1)]] obtain d' where d': "dtp_send_pending_ctrl_pdus d1 = Some d'" by auto
  from quiet_send_pending [OF d' ok(2)] have "quiet d1 d'" .
  with d' advances_quiet [OF assms this] quiet_keeps(5) [OF this] show ?thesis by auto
qed

lemma rcv_control_advances:
  assumes "tx_ok d" "sv_seq_nr_to_send (d_sv d) < -1"
  shows "\<exists>r d'. dtcp_common_rcv_control dps (dtcp_ps_default pp) p d = Some (r, d') \<and> advances d d' \<and>
    (p_type p = PDU_TYPE_FC \<longrightarrow> (\<forall>c. d_dtcp d = Some c \<longrightarrow> cv_last_rcv_ctl_seq (dc_sv c) < p_seq p) \<longrightarrow>
       right_edge d' = pdu_ctrl_get NewRt p)"
proof -
  from tx_ok_dtcp [OF assms(1)] obtain c where c: "d_dtcp d = Some c" by auto
  define d1 where "d1 = (cpdus_inc 1 d)\<lparr>d_conn := (d_conn (cpdus_inc 1 d))\<lparr>destination_address := p_src p\<rparr>\<rparr>"
  define d2 where "d2 = cv_upd (\<lambda>s. s\<lparr>cv_last_rcv_ctl_seq := p_seq p\<rparr>) d1"
  have quiets: "quiet d d1" "quiet d d2" "quiet d (cv_upd (count_duplicate t) d1)" for t
    by (simp_all add: d1_def d2_def count_duplicate_def)
  note k = quiets [THEN quiet_imp_keeps, OF assms(1)]
  have ok2: "tx_ok d2" "sv_seq_nr_to_send (d_sv d2) < -1" using k(2) assms(2) by (simp_all add: keeps_def)
  from dispatch_advances [OF ok2, of dps pp p] obtain r d3 where
    d3: "dispatch_ctrl dps (dtcp_ps_default pp) p d2 = Some (r, d3)" "advances d2 d3"
      "p_type p = PDU_TYPE_FC \<longrightarrow> right_edge d3 = pdu_ctrl_get NewRt p" by blast
  have a3: "advances d (cpdus_inc (-1) d3)" using keeps_then [OF k(2) d3(2)] by (rule advances_quiet) simp
  from send_pending_spec [OF a3] obtain d4 where
    d4: "dtp_send_pending_ctrl_pdus (cpdus_inc (-1) d3) = Some d4" "advances d d4" "right_edge d4 = right_edge (cpdus_inc (-1) d3)"
    by blast
  moreover have "right_edge (cpdus_inc (-1) d3) = right_edge d3" by (rule quiet_keeps(5)) simp
  moreover have "keeps d (cpdus_inc (-1) (cpdus_inc 1 d))" using assms(1) by (rule quiet_imp_keeps [rotated]) simp
  moreover have "pdu_type_is_control PDU_TYPE_FC" by (simp add: pdu_type_is_control_def)
  ultimately show ?thesis
    using c d3 k(3) [THEN keeps_advances]
    by (auto simp: dtcp_common_rcv_control_def default_lost_control_pdu_def Let_def d1_def [symmetric] d2_def [symmetric]
        intro: keeps_advances split: if_splits)
qed

text \<open>The rendezvous timer fires: the kernel has taken it off the list of pending ones.\<close>

definition fire_rendezvous :: "dtp \<Rightarrow> dtp option" where
  "fire_rendezvous d = tf_rendezvous (with_timers (\<lambda>e t. t\<lparr>tm_rendezvous := None\<rparr>) d)"

lemma fire_rendezvous_keeps:
  assumes "tx_ok d"
  shows "\<exists>d'. fire_rendezvous d = Some d' \<and> keeps d d'"
proof -
  let ?d = "with_timers (\<lambda>e t. t\<lparr>tm_rendezvous := None\<rparr>) d"
  have n: "d_dtcp ?d \<noteq> None" "d_dtcp (cpdus_inc 1 ?d) \<noteq> None"
    using tx_ok_dtcp [OF assms] by (simp_all add: state_defs)
  obtain r d' where d': "dtcp_rendezvous_pdu_send ?d = Some (r, d')"
    using ctrl_pdu_send_total [OF n(2)] by (fastforce simp: dtcp_rendezvous_pdu_send_def)
  then have "quiet ?d d'" using quiet_ctrl_pdu_send by (fastforce simp: dtcp_rendezvous_pdu_send_def)
  then have "quiet d d'" by simp
  with d' n(1) assms show ?thesis
    by (auto simp: fire_rendezvous_def tf_rendezvous_def start_rendezvous_def Let_def intro!: quiet_imp_keeps)
qed

section \<open>Writing\<close>

lemma push_cwq_spec:
  assumes "side d" "d_cwq d = Some q" "rqueue_inv (cw_q q)"
  shows "\<exists>q'. push_cwq du d = Some (0, d\<lparr>d_cwq := Some q'\<rparr>) \<and> rqueue_inv (cw_q q') \<and>
    rqueue_list (cw_q q') = rqueue_list (cw_q q) @ [du]"
  using rqueue_fifo.push_code [OF assms(3), of True du] rqueue_fifo.push_invar [OF assms(3), of True du]
    rqueue_fifo.push_contents [OF assms(3), of True du] assms(1,2)
  by (auto simp: push_cwq_def alloc_side cwq_push_def split: prod.splits)

lemma closed_window_spec:
  assumes "side d" "d_cwq d = Some q" "rqueue_inv (cw_q q)" "d_dtcp d \<noteq> None"
  shows "\<exists>r d' q'. closed_window dtp_ps_default du d = Some (r, d') \<and> quiet (d\<lparr>d_cwq := Some q'\<rparr>) d' \<and>
    d_dtcp d' \<noteq> None \<and> rqueue_inv (cw_q q') \<and> rqueue_list (cw_q q') = rqueue_list (cw_q q) @ [du]"
proof -
  obtain q' where q': "push_cwq du d = Some (0, d\<lparr>d_cwq := Some q'\<rparr>)" "rqueue_inv (cw_q q')"
    "rqueue_list (cw_q q') = rqueue_list (cw_q q) @ [du]"
    using push_cwq_spec [OF assms(1-3), of du] by blast
  have "d_dtcp (snd (efcp_disable_write d)) = d_dtcp d" for d
    by (simp add: efcp_disable_write_def emit_def split: prod.split)
  with q' assms(4) quiet_enable_write(2) show ?thesis
    by (auto simp: dtp_ps_default_def default_closed_window_def default_snd_flow_control_overrun_def split_beta Let_def
        intro!: exI [of _ q'])
qed

lemma window_is_closed_spec:
  assumes "d_dtcp d = Some c" "sv_window_based (d_sv d)" "\<not> sv_rate_based (d_sv d)"
  shows "\<exists>d'. window_is_closed ps seq d = Some (seq > cv_snd_rt_wind_edge (dc_sv c), d') \<and> quiet d d' \<and>
    d_dtcp d' = d_dtcp d \<and> d_cwq d' = d_cwq d"
  using assms by (auto simp: window_is_closed_def Let_def sv_upd_def [of _ d] view_defs)

lemma write_closed_spec:
  assumes "side d" "d_cwq d = Some q" "rqueue_inv (cw_q q)" "d_dtcp d \<noteq> None"
  shows "\<exists>r d' q'. write_closed dtp_ps_default du d = Some (r, d') \<and> quiet (d\<lparr>d_cwq := Some q'\<rparr>) d' \<and>
    rqueue_inv (cw_q q') \<and> rqueue_list (cw_q q') = rqueue_list (cw_q q) @ [du]"
proof -
  obtain r d1 q' where d1: "closed_window dtp_ps_default du d = Some (r, d1)" "quiet (d\<lparr>d_cwq := Some q'\<rparr>) d1"
    "d_dtcp d1 \<noteq> None" "rqueue_inv (cw_q q')" "rqueue_list (cw_q q') = rqueue_list (cw_q q) @ [du]"
    using closed_window_spec [OF assms, of du] by blast
  then show ?thesis
    by (intro exI [of _ "fst (the (write_closed dtp_ps_default du d))"] exI [of _ "snd (the (write_closed dtp_ps_default du d))"]
        exI [of _ q']) (auto simp: write_closed_def start_rendezvous_def Let_def)
qed

lemma write_open_spec:
  assumes "side d" "d_dtcp d = Some c" "\<not> sv_rate_based (d_sv d)" "sv_rexmsn_ctrl (d_sv d) = ps_rtx_ctrl (dc_ps c)"
    "rtx_view (dc_ps c) m (d_rtxq d)" "m < p_seq du" "p_type du = PDU_TYPE_DT"
  shows "\<exists>r d' rq. write_open dtp_ps_default sz du d = Some (r, d') \<and> side d' \<and> copied (dc_ps c) du (d_rtxq d) rq \<and>
    tx d' = (tx d)\<lparr>v_rtxq := rq, v_max := p_seq du, v_sent := sent d @ [du]\<rparr>"
proof -
  from write_copy_spec [OF assms(1,4,5,6)] obtain rq d1 where
    d1: "write_copy du d = Some (0, d1)" "copied (dc_ps c) du (d_rtxq d) rq" "tx d1 = (tx d)\<lparr>v_rtxq := rq\<rparr>" "side d1"
      "d_dtcp d1 = d_dtcp d" by blast
  from send_data_spec [of d1 du] obtain r d2 where
    d2: "default_transmission_control du d1 = Some (r, d2)"
      "tx d2 = (tx d1)\<lparr>v_max := p_seq du, v_sent := sent d1 @ [du]\<rparr>" "side d2"
    using d1 assms(2,7) by (auto simp: default_transmission_control_def)
  have "sent d1 = sent d" using arg_cong [OF d1(3), of v_sent] by simp
  then have v: "tx d2 = (tx d)\<lparr>v_rtxq := rq, v_max := p_seq du, v_sent := sent d @ [du]\<rparr>"
    using d2(2) d1(3) by simp
  have "\<exists>r d'. write_open dtp_ps_default sz du d = Some (r, d') \<and> quiet d2 d'"
    using assms(3) d1(1) d2(1) by (auto simp: write_open_def dtp_ps_default_def Let_def)
  with v d1(2) d2(3) show ?thesis by (auto simp: quiet_def)
qed

text \<open>The effect of a write: one more PDU, either sent at once or at the end of the queue.\<close>

definition wrote :: "u8 list \<Rightarrow> dtp \<Rightarrow> dtp \<Rightarrow> bool" where
  "wrote bs d d' \<longleftrightarrow> tx_ok d' \<and> sv_seq_nr_to_send (d_sv d') = sv_seq_nr_to_send (d_sv d) + 1 \<and>
     (\<exists>p xs. p_data p = bs \<and> p_seq p = sv_seq_nr_to_send (d_sv d) + 1 \<and> sent d' = sent d @ xs \<and>
       queued d @ [p] = xs @ queued d' \<and> (\<forall>x\<in>set xs. p_seq x \<le> right_edge d'))"

lemma unat_plus: "unat n = unat m + k \<Longrightarrow> n = m + of_nat k" for n m :: seq_num_t
  by (metis of_nat_add of_nat_unat ucast_id)

lemma unat_succ:
  fixes n :: seq_num_t
  assumes "n < -1"
  shows "unat (n + 1) = unat n + 1"
proof -
  have "1 + n \<noteq> 0" using assms by (metis add.commute add_eq_0_iff order_less_irrefl)
  then show ?thesis using unatSuc [of n] by (simp add: add.commute)
qed

lemma unat_minus_one_u32: "unat (-1 :: u32) = 2 ^ 32 - 1"
  by (simp add: unsigned_minus_1_eq_mask mask_eq_exp_minus_1)

lemma write_closed_ok:
  assumes ok: "tx_ok d" and lt: "sv_seq_nr_to_send (d_sv d) < -1" and p: "p_seq p = sv_seq_nr_to_send (d_sv d) + 1"
    "p_type p = PDU_TYPE_DT" "right_edge d < p_seq p" and q: "d_cwq d = Some q" "rqueue_inv (cw_q q')"
    "rqueue_list (cw_q q') = queued d @ [p]"
    and d': "side d'" "tx d' = (tx d)\<lparr>v_next := p_seq p, v_cwq := Some q'\<rparr>"
  shows "wrote (p_data p) d d'"
proof -
  let ?m = "sv_max_seq_nr_sent (d_sv d)" and ?n = "sv_seq_nr_to_send (d_sv d)" and ?k = "length (queued d)"
  have inv: "unat ?n = unat ?m + ?k" "map p_seq (queued d) = seqs_from ?m ?k" "queued d \<noteq> [] \<longrightarrow> right_edge d \<le> ?m"
    using ok unfolding tx_ok_def by (auto elim: tx_core_elim)
  have un: "unat (p_seq p) = unat ?n + 1"
    using lt unfolding p(1) by (rule unat_succ)
  have "map p_seq (queued d @ [p]) = seqs_from ?m (length (queued d @ [p]))"
    using inv(2) unat_plus [OF inv(1)] seqs_from_append [of ?m ?k 1] p(1) by simp
  moreover have "unat (p_seq p) = unat ?m + length (queued d @ [p])" using un inv(1) by simp
  ultimately have "tx_inv (tx d')"
    using ok p(2) q unfolding d'(2) tx_ok_def tx_core_def tx_inv_def by (auto simp: queued_def)
  moreover have "right_edge d \<le> ?m"
  proof (cases "queued d")
    case Nil
    with inv(1) have "?n = ?m" using unat_plus [of ?n ?m 0] by simp
    with p(1,3) un show ?thesis by (simp add: word_less_nat_alt word_le_nat_alt)
  qed (use inv(3) in simp)
  moreover have "right_edge d' = right_edge d" by (simp add: view_edge d'(2) del: tx_sels)
  ultimately show ?thesis
    using d' q(3) p(1) tx_fields(1-4) [of d'] unfolding wrote_def tx_ok_def tx_core_def
    by (auto simp: d'(2))
qed

lemma write_open_ok:
  assumes ok: "tx_ok d" and lt: "sv_seq_nr_to_send (d_sv d) < -1" and p: "p_seq p = sv_seq_nr_to_send (d_sv d) + 1"
    "p_type p = PDU_TYPE_DT" "p_seq p \<le> right_edge d" and q: "d_dtcp d = Some c" "copied (dc_ps c) p (d_rtxq d) rq"
    and d': "side d'" "tx d' = (tx d)\<lparr>v_next := p_seq p, v_rtxq := rq, v_max := p_seq p, v_sent := sent d @ [p]\<rparr>"
  shows "wrote (p_data p) d d'"
proof -
  let ?m = "sv_max_seq_nr_sent (d_sv d)" and ?n = "sv_seq_nr_to_send (d_sv d)"
  have inv: "unat ?n = unat ?m + length (queued d)" "queued d \<noteq> [] \<longrightarrow> right_edge d \<le> ?m" "rtx_view (dc_ps c) ?m (d_rtxq d)"
    using ok q(1) unfolding tx_ok_def by (auto elim: tx_core_elim)
  have un: "unat (p_seq p) = unat ?n + 1"
    using lt unfolding p(1) by (rule unat_succ)
  have nil: "queued d = []"
  proof (rule ccontr)
    assume "queued d \<noteq> []"
    with inv(2) p(3) have "p_seq p \<le> ?m" by auto
    with un inv(1) show False by (simp add: word_le_nat_alt)
  qed
  have "rtx_view (dc_ps c) (p_seq p) rq"
    using copied_view [OF inv(3) q(2)] un inv(1) by (simp add: word_less_nat_alt)
  then have "tx_inv (tx d')"
    using ok q nil unfolding d'(2) tx_ok_def tx_core_def tx_inv_def by (auto simp: queued_def)
  moreover have "right_edge d' = right_edge d" by (simp add: view_edge d'(2) del: tx_sels)
  ultimately show ?thesis
    using d' p nil tx_fields(1-4) [of d'] unfolding wrote_def tx_ok_def tx_core_def
    by (auto simp: d'(2) queued_def)
qed

text \<open>The first half of \<^verbatim>\<open>dtp_write\<close>: a PDU with the next sequence number.\<close>

lemma dtp_write_start:
  assumes "side d" "d_dtcp d = Some c" "sv_window_based (d_sv d)" "\<not> sv_rate_based (d_sv d)"
  defines "n \<equiv> sv_seq_nr_to_send (d_sv d) + 1"
  shows "\<exists>p d'. dtp_write ps bs d =
      (if cv_snd_rt_wind_edge (dc_sv c) < n then write_closed ps p d' else write_open ps (int (length bs)) p d') \<and>
    p_seq p = n \<and> p_type p = PDU_TYPE_DT \<and> p_data p = bs \<and> side d' \<and> tx d' = (tx d)\<lparr>v_next := n\<rparr> \<and> d_dtcp d' = Some c"
proof -
  define d0 where "d0 = with_timers (\<lambda>e t. t\<lparr>tm_sender_inactivity := rtimer_stop (tm_sender_inactivity t)\<rparr>) d"
  define d1 where "d1 = sv_upd (\<lambda>s. s\<lparr>sv_seq_nr_to_send := n\<rparr>) d0"
  define p where "p = pdu_format (source_cep_id (d_conn d1)) (destination_cep_id (d_conn d1)) (source_address (d_conn d1))
    (destination_address (d_conn d1)) n (qos_id (d_conn d1)) (if sv_drf_flag (d_sv d1) \<or>
       cv_snd_lft_win (dc_sv c) = n - 1 \<and> sv_rexmsn_ctrl (d_sv d1) then PDU_FLAGS_DATA_RUN else 0)
    PDU_TYPE_DT (e_junk (d_env d1)) bs"
  have p: "p_seq p = n" "p_type p = PDU_TYPE_DT" "p_data p = bs" by (simp_all add: p_def pdu_format_def)
  have d1: "side d1" "tx d1 = (tx d)\<lparr>v_next := n\<rparr>" "d_dtcp d1 = Some c" "sv_window_based (d_sv d1)" "\<not> sv_rate_based (d_sv d1)"
    using assms by (simp_all add: d1_def d0_def view_defs)
  have d0: "alloc d0 = (True, d0)" "sv_seq_nr_to_send (d_sv d0) = n - 1"
    using assms(1) by (simp_all add: d0_def alloc_def side_def state_defs n_def)
  obtain d2 where d2: "window_is_closed ps n d1 = Some (n > cv_snd_rt_wind_edge (dc_sv c), d2)" "quiet d1 d2" "d_dtcp d2 = Some c"
    using window_is_closed_spec [OF d1(3-5)] d1(3) by metis
  have "dtp_write ps bs d =
      (if cv_snd_rt_wind_edge (dc_sv c) < n then write_closed ps p d2 else write_open ps (int (length bs)) p d2)"
    using d1 d2 d0
    unfolding dtp_write_def d0_def [symmetric] Let_def by (simp add: d1_def [symmetric] p_def cong: if_cong)
  moreover have "side d2" "tx d2 = (tx d)\<lparr>v_next := n\<rparr>" using d2(2) d1(1,2) by (simp_all add: quiet_def)
  ultimately show ?thesis using p d2(3) by blast
qed

lemma dtp_write_wrote:
  assumes ok: "tx_ok d" and lt: "sv_seq_nr_to_send (d_sv d) < -1"
  shows "\<exists>r d'. dtp_write dtp_ps_default bs d = Some (r, d') \<and> wrote bs d d'"
proof -
  let ?n = "sv_seq_nr_to_send (d_sv d) + 1"
  from ok obtain c q where c: "side d" "d_dtcp d = Some c" "d_cwq d = Some q" "rqueue_inv (cw_q q)"
    "sv_window_based (d_sv d)" "\<not> sv_rate_based (d_sv d)" "sv_rexmsn_ctrl (d_sv d) = ps_rtx_ctrl (dc_ps c)"
    "queued d = rqueue_list (cw_q q)" "right_edge d = cv_snd_rt_wind_edge (dc_sv c)"
    "rtx_view (dc_ps c) (sv_max_seq_nr_sent (d_sv d)) (d_rtxq d)"
    "unat (sv_seq_nr_to_send (d_sv d)) = unat (sv_max_seq_nr_sent (d_sv d)) + length (queued d)"
    unfolding tx_ok_def using tx_core_elim [of d] by metis
  from dtp_write_start [OF c(1,2,5,6), of dtp_ps_default bs] obtain p d2 where
    step: "dtp_write dtp_ps_default bs d = (if cv_snd_rt_wind_edge (dc_sv c) < ?n then write_closed dtp_ps_default p d2
      else write_open dtp_ps_default (int (length bs)) p d2)" and p: "p_seq p = ?n" "p_type p = PDU_TYPE_DT" "p_data p = bs"
    and d2: "side d2" "tx d2 = (tx d)\<lparr>v_next := ?n\<rparr>" "d_dtcp d2 = Some c" by blast
  have v2: "d_cwq d2 = Some q" "d_rtxq d2 = d_rtxq d" "sent d2 = sent d" "\<not> sv_rate_based (d_sv d2)"
      "sv_rexmsn_ctrl (d_sv d2) = ps_rtx_ctrl (dc_ps c)"
    using tx_sels(3-6) [of d2] c unfolding d2(2) by auto
  show ?thesis
  proof (cases "cv_snd_rt_wind_edge (dc_sv c) < ?n")
    case True
    from write_closed_spec [OF d2(1) v2(1) c(4), of p] d2(3) obtain r d' q' where
      w: "write_closed dtp_ps_default p d2 = Some (r, d')" "quiet (d2\<lparr>d_cwq := Some q'\<rparr>) d'" "rqueue_inv (cw_q q')"
        "rqueue_list (cw_q q') = rqueue_list (cw_q q) @ [p]" by auto
    have "tx (d2\<lparr>d_cwq := Some q'\<rparr>) = (tx d2)\<lparr>v_cwq := Some q'\<rparr>" "side (d2\<lparr>d_cwq := Some q'\<rparr>)"
      using d2(1) by (simp_all add: tx_def side_def sent_def)
    with w(2) d2 have "side d'" "tx d' = (tx d)\<lparr>v_next := p_seq p, v_cwq := Some q'\<rparr>"
      by (simp_all add: quiet_def p(1))
    from write_closed_ok [OF ok lt p(1,2) _ c(3) w(3) _ this] True c(8,9) w(1,4) p(1,3) step show ?thesis by auto
  next
    case False
    have "sv_max_seq_nr_sent (d_sv d) < p_seq p"
      using unat_succ [OF lt] c(11) by (simp add: p(1) word_less_nat_alt)
    with v2 obtain r d' rq where
      w: "write_open dtp_ps_default (int (length bs)) p d2 = Some (r, d')" "side d'" "copied (dc_ps c) p (d_rtxq d) rq"
        "tx d' = (tx d2)\<lparr>v_rtxq := rq, v_max := p_seq p, v_sent := sent d @ [p]\<rparr>"
      using write_open_spec [OF d2(1,3), of "sv_max_seq_nr_sent (d_sv d)" p "int (length bs)"] c(10) p(2) by auto
    then have "tx d' = (tx d)\<lparr>v_next := p_seq p, v_rtxq := rq, v_max := p_seq p, v_sent := sent d @ [p]\<rparr>"
      using d2(2) p(1) by simp
    from write_open_ok [OF ok lt p(1,2) _ c(2) w(3,2) this] False c(9) w(1) p step show ?thesis by auto
  qed
qed

section \<open>Runs of the sender\<close>

datatype tx_op = TxWrite "u8 list" | TxControl pdu | TxRendezvous

fun tx_step :: "dtcp_params \<Rightarrow> tx_op \<Rightarrow> dtp \<Rightarrow> dtp option" where
  "tx_step pp (TxWrite bs) d = do { (r, d) \<leftarrow> dtp_write dtp_ps_default bs d; Some d }"
| "tx_step pp (TxControl p) d =
     do { (r, d) \<leftarrow> dtcp_common_rcv_control dtp_ps_default (dtcp_ps_default pp) p d; Some d }"
| "tx_step pp TxRendezvous d = fire_rendezvous d"

fun tx_run :: "dtcp_params \<Rightarrow> tx_op list \<Rightarrow> dtp \<Rightarrow> dtp option" where
  "tx_run pp [] d = Some d"
| "tx_run pp (op # ops) d = do { d \<leftarrow> tx_step pp op d; tx_run pp ops d }"

fun written :: "tx_op list \<Rightarrow> u8 list list" where
  "written [] = []"
| "written (TxWrite bs # ops) = bs # written ops"
| "written (_ # ops) = written ops"

text \<open>What every step gives: no fault, and PDUs that leave do so from the front and within the window.\<close>

lemma tx_step_spec:
  assumes "tx_ok d" "sv_seq_nr_to_send (d_sv d) < -1"
  shows "\<exists>d' ws xs. tx_step pp op d = Some d' \<and> tx_ok d' \<and> map p_data ws = written [op] \<and>
    map p_seq ws = seqs_from (sv_seq_nr_to_send (d_sv d)) (length ws) \<and>
    sv_seq_nr_to_send (d_sv d') = sv_seq_nr_to_send (d_sv d) + of_nat (length ws) \<and>
    sent d' = sent d @ xs \<and> queued d @ ws = xs @ queued d' \<and> (\<forall>p\<in>set xs. p_seq p \<le> right_edge d')"
proof (cases op)
  case (TxWrite bs)
  from dtp_write_wrote [OF assms, of bs] obtain r d' p xs where
    "dtp_write dtp_ps_default bs d = Some (r, d')" "tx_ok d'"
    "sv_seq_nr_to_send (d_sv d') = sv_seq_nr_to_send (d_sv d) + 1" "p_data p = bs" "p_seq p = sv_seq_nr_to_send (d_sv d) + 1"
    "sent d' = sent d @ xs" "queued d @ [p] = xs @ queued d'" "\<forall>x\<in>set xs. p_seq x \<le> right_edge d'"
    unfolding wrote_def by blast
  then show ?thesis
    using TxWrite by (intro exI [of _ d'] exI [of _ "[p]"] exI [of _ xs]) simp
next
  case (TxControl p)
  from rcv_control_advances [OF assms, of dtp_ps_default pp p] obtain r d' where
    "dtcp_common_rcv_control dtp_ps_default (dtcp_ps_default pp) p d = Some (r, d')" "advances d d'" by blast
  then show ?thesis using TxControl by (auto simp: advances_def)
next
  case TxRendezvous
  from fire_rendezvous_keeps [OF assms(1)] keeps_advances show ?thesis
    using TxRendezvous by (fastforce simp: advances_def)
qed

lemma tx_run_spec:
  assumes "tx_ok d" "unat (sv_seq_nr_to_send (d_sv d)) + length (written ops) < 2 ^ 32 - 1"
  shows "\<exists>d' ws. tx_run pp ops d = Some d' \<and> tx_ok d' \<and> map p_data ws = written ops \<and>
    map p_seq ws = seqs_from (sv_seq_nr_to_send (d_sv d)) (length ws) \<and>
    unat (sv_seq_nr_to_send (d_sv d')) = unat (sv_seq_nr_to_send (d_sv d)) + length (written ops) \<and>
    sent d' @ queued d' = sent d @ queued d @ ws"
  using assms
proof (induction ops arbitrary: d)
  case (Cons op ops)
  let ?n = "sv_seq_nr_to_send (d_sv d)"
  have w: "written (op # ops) = written [op] @ written ops" by (cases op) simp_all
  have lt: "?n < -1" using Cons.prems(2) by (simp add: word_less_nat_alt unat_minus_one_u32)
  from tx_step_spec [OF Cons.prems(1) lt, of pp op] obtain d1 ws xs where
    d1: "tx_step pp op d = Some d1" "tx_ok d1" "map p_data ws = written [op]" "map p_seq ws = seqs_from ?n (length ws)"
      "sv_seq_nr_to_send (d_sv d1) = ?n + of_nat (length ws)" "sent d1 = sent d @ xs" "queued d @ ws = xs @ queued d1"
    by blast
  have len: "length ws = length (written [op])" using d1(3) by (metis length_map)
  have n1: "unat (sv_seq_nr_to_send (d_sv d1)) = unat ?n + length (written [op])"
    using d1(5) len lt by (cases op) (simp_all add: unat_succ)
  with Cons.IH [OF d1(2)] Cons.prems(2) w obtain d' ws' where
    d': "tx_run pp ops d1 = Some d'" "tx_ok d'" "map p_data ws' = written ops"
      "map p_seq ws' = seqs_from (sv_seq_nr_to_send (d_sv d1)) (length ws')"
      "unat (sv_seq_nr_to_send (d_sv d')) = unat (sv_seq_nr_to_send (d_sv d1)) + length (written ops)"
      "sent d' @ queued d' = sent d1 @ queued d1 @ ws'"
    by auto
  have "sent d' @ queued d' = sent d @ queued d @ ws @ ws'" using d'(6) d1(6,7) by simp
  then show ?case
    using d1 d' w n1 by (intro exI [of _ d'] exI [of _ "ws @ ws'"]) (auto simp: seqs_from_append)
qed simp

text \<open>A new connection under window based flow control.\<close>

definition windowed :: "env \<Rightarrow> dtcp_config \<Rightarrow> bool" where
  "windowed e cfg \<longleftrightarrow> e_ms e = [] \<and> dtcp_window_based_fctrl cfg \<and> \<not> dtcp_rate_based_fctrl cfg"

lemma connection_create_ok:
  assumes "windowed e cfg" and d_def: "d = efcp_connection_create e k dpp True a cfg mps mpl"
  shows "tx_ok d" "sent d = []" "queued d = []"
proof -
  note defs = efcp_connection_create_def dtp_create_def initial_seq_num_def sv_upd_def Let_def
  obtain rg where rg: "ringq_create [] TO_SEND_LENGTH = Some (rg :: pdu ringq)"
    by (simp add: ringq_create_def)
  with ringq_create_inv [OF _ this] have r: "ringq_inv TO_SEND_LENGTH (d_to_send d)" "ringq_list (d_to_send d) = []"
    by (auto simp: d_def defs TO_SEND_LENGTH_def split: list.splits prod.splits)
  show "sent d = []" "queued d = []"
    using assms(1) by (auto simp: d_def windowed_def sent_def queued_def defs cwq_create_def rqueue_create_def
        rqueue_list_def split: list.splits prod.splits)
  have sd: "side d" using assms(1) r by (auto simp: side_def d_def windowed_def defs split: list.splits prod.splits)
  have "tx_inv (tx d)"
    using assms(1) by (auto simp: d_def windowed_def tx_inv_def rtx_view_def defs cwq_create_def rqueue_create_def
        rqueue_list_def rqueue_inv_def rtxqueue_create_def rtx_ok_def rtx_items_def dtcp_create_def
        dtcp_select_policy_set_def dtp_sv_init_def split: list.splits prod.splits)
  with sd \<open>queued d = []\<close> show "tx_ok d" by (simp add: tx_ok_def tx_core_def)
qed

section \<open>Properties\<close>

text \<open>
  C16. In-order transmission: on a new connection with window based flow control and the default
  policies, any sequence of writes, arriving control PDUs of any content and expirations of the
  rendezvous timer runs without a fault, as long as the sequence numbers last. The data PDUs given to the
  RMT followed by the closed window queue hold exactly the SDUs written, in order, each once, with
  consecutive sequence numbers from the initial one.
\<close>

theorem dtp_sends_in_order:
  assumes "windowed e cfg" "d = efcp_connection_create e k dpp True a cfg mps mpl"
    "unat (sv_seq_nr_to_send (d_sv d)) + length (written ops) < 2 ^ 32 - 1"
  shows "\<exists>d'. tx_run pp ops d = Some d' \<and> map p_data (sent d' @ queued d') = written ops \<and>
    map p_seq (sent d' @ queued d') = seqs_from (sv_seq_nr_to_send (d_sv d)) (length (written ops))"
proof -
  note d = connection_create_ok [OF assms(1,2)]
  from tx_run_spec [OF d(1) assms(3), of pp] obtain d' ws where
    d': "tx_run pp ops d = Some d'" "map p_data ws = written ops" "map p_seq ws = seqs_from (sv_seq_nr_to_send (d_sv d)) (length ws)"
      "sent d' @ queued d' = ws" unfolding d(2,3) append_Nil by blast
  moreover have "length ws = length (written ops)" using d'(2) by (metis length_map)
  ultimately show ?thesis by auto
qed

definition fc_pdu :: "seq_num_t \<Rightarrow> seq_num_t \<Rightarrow> pdu" where
  "fc_pdu sn edge = pdu_format 2 1 23 22 sn 1 0 PDU_TYPE_FC (\<lambda>f. if f = NewRt then edge else 0) []"

definition sample_ops :: "tx_op list" where
  "sample_ops = [TxWrite [1], TxWrite [2], TxWrite [3], TxRendezvous, TxControl (fc_pdu 1 42), TxWrite [4]]"

abbreviation sample_pp :: dtcp_params where
  "sample_pp \<equiv> dtcp_select_policy_set (sample_dtcp_config True)"

lemma sample_start:
  "windowed sample_env (sample_dtcp_config rtx)" "sv_seq_nr_to_send (d_sv (sample_dtp rtx)) = 40"
  by (simp_all add: sample_defs windowed_def)

lemma sample_run:
  "map_option (\<lambda>d. (map p_seq (sent d), map p_seq (queued d), sv_seq_nr_to_send (d_sv d),
       map_option (\<lambda>c. cv_last_rcv_ctl_seq (dc_sv c)) (d_dtcp d)))
     (tx_run sample_pp sample_ops (sample_dtp True)) = Some ([41, 42], [43, 44], 44, Some 1)"
  by code_simp

theorem dtp_sends_in_order_witness:
  "\<exists>d'. tx_run sample_pp sample_ops (sample_dtp True) = Some d' \<and>
    map p_data (sent d' @ queued d') = [[1], [2], [3], [4]] \<and> map p_seq (sent d' @ queued d') = [41, 42, 43, 44]"
  using dtp_sends_in_order [OF sample_start(1) [of True] sample_dtp_def, of sample_ops sample_pp]
  by (simp add: sample_start(2) sample_ops_def)

text \<open>
  C17. Window discipline: in every reachable state of such a connection, the data PDUs that a step
  hands to the RMT for the first time have sequence numbers up to the right window edge that
  holds after the step.
\<close>

theorem dtp_sends_within_window:
  assumes "windowed e cfg" "d = efcp_connection_create e k dpp True a cfg mps mpl"
    "unat (sv_seq_nr_to_send (d_sv d)) + length (written ops) < 2 ^ 32 - 1"
    "tx_run pp ops d = Some d1" "tx_step pp op d1 = Some d2"
  shows "\<exists>xs. sent d2 = sent d1 @ xs \<and> (\<forall>p\<in>set xs. p_seq p \<le> right_edge d2)"
proof -
  from tx_run_spec [OF connection_create_ok(1) [OF assms(1,2)] assms(3), of pp] assms(4) have
    d1: "tx_ok d1" "unat (sv_seq_nr_to_send (d_sv d1)) = unat (sv_seq_nr_to_send (d_sv d)) + length (written ops)" by auto
  then have "sv_seq_nr_to_send (d_sv d1) < -1"
    using assms(3) by (simp add: word_less_nat_alt unat_minus_one_u32)
  from tx_step_spec [OF d1(1) this, of pp op] assms(5) show ?thesis by auto
qed

theorem dtp_sends_within_window_witness:
  "\<exists>d1 d2 xs. tx_run sample_pp sample_ops (sample_dtp True) = Some d1 \<and>
    tx_step sample_pp (TxControl (fc_pdu 2 43)) d1 = Some d2 \<and> map p_seq (sent d1) = [41, 42] \<and>
    sent d2 = sent d1 @ xs \<and> (\<forall>p\<in>set xs. p_seq p \<le> right_edge d2)"
proof -
  let ?b = "unat (sv_seq_nr_to_send (d_sv (sample_dtp True))) + length (written sample_ops) < 2 ^ 32 - 1"
  have b: ?b by (simp add: sample_start(2) sample_ops_def)
  from tx_run_spec [OF connection_create_ok(1) [OF sample_start(1) [of True] sample_dtp_def] b, of sample_pp]
  obtain d1 where d1: "tx_run sample_pp sample_ops (sample_dtp True) = Some d1" "tx_ok d1" by blast
  with sample_run have s1: "map p_seq (sent d1) = [41, 42]" "sv_seq_nr_to_send (d_sv d1) = 44" by auto
  from tx_step_spec [OF d1(2), of sample_pp "TxControl (fc_pdu 2 43)"] s1(2) obtain d2 where
    "tx_step sample_pp (TxControl (fc_pdu 2 43)) d1 = Some d2" by auto
  with dtp_sends_within_window [OF sample_start(1) sample_dtp_def b d1(1) this] d1(1) s1(1) show ?thesis by (auto simp del: tx_step.simps)
qed

text \<open>
  C18. A window update opens the window: a new flow control PDU whose right window edge covers all
  sequence numbers given out so far empties the closed window queue; everything written has then
  been sent, in order.
\<close>

theorem dtp_window_update_flushes:
  assumes "windowed e cfg" "d = efcp_connection_create e k dpp True a cfg mps mpl"
    "unat (sv_seq_nr_to_send (d_sv d)) + length (written ops) < 2 ^ 32 - 1"
    "tx_run pp ops d = Some d1" "d_dtcp d1 = Some c"
    "p_type p = PDU_TYPE_FC" "cv_last_rcv_ctl_seq (dc_sv c) < p_seq p"
    "sv_seq_nr_to_send (d_sv d1) \<le> pdu_ctrl_get NewRt p"
  shows "\<exists>d2. tx_step pp (TxControl p) d1 = Some d2 \<and> queued d2 = [] \<and> map p_data (sent d2) = written ops"
proof -
  note d = connection_create_ok [OF assms(1,2)]
  from tx_run_spec [OF d(1) assms(3), of pp] assms(4) d(2,3) obtain ws where
    d1: "tx_ok d1" "unat (sv_seq_nr_to_send (d_sv d1)) = unat (sv_seq_nr_to_send (d_sv d)) + length (written ops)"
      "map p_data (sent d1 @ queued d1) = written ops" by auto
  then have "sv_seq_nr_to_send (d_sv d1) < -1"
    using assms(3) by (simp add: word_less_nat_alt unat_minus_one_u32)
  from rcv_control_advances [OF d1(1) this, of dtp_ps_default pp p] assms(5-7) obtain r d2 where
    d2: "dtcp_common_rcv_control dtp_ps_default (dtcp_ps_default pp) p d1 = Some (r, d2)" "advances d1 d2"
      "right_edge d2 = pdu_ctrl_get NewRt p" by auto
  have "queued d2 = []"
  proof (rule ccontr)
    assume ne: "queued d2 \<noteq> []"
    have u: "unat (sv_seq_nr_to_send (d_sv d2)) = unat (sv_max_seq_nr_sent (d_sv d2)) + length (queued d2)"
      "right_edge d2 \<le> sv_max_seq_nr_sent (d_sv d2)" "sv_seq_nr_to_send (d_sv d2) = sv_seq_nr_to_send (d_sv d1)"
      using d2(2) ne unfolding advances_def tx_ok_def by (auto elim: tx_core_elim)
    with assms(8) d2(3) ne show False by (cases "queued d2") (simp_all add: word_le_nat_alt)
  qed
  with d1(3) d2 show ?thesis by (auto simp: advances_def)
qed

theorem dtp_window_update_flushes_witness:
  "\<exists>d1 d2. tx_run sample_pp sample_ops (sample_dtp True) = Some d1 \<and> map p_seq (queued d1) = [43, 44] \<and>
    tx_step sample_pp (TxControl (fc_pdu 2 44)) d1 = Some d2 \<and> queued d2 = [] \<and> map p_data (sent d2) = [[1], [2], [3], [4]]"
proof -
  let ?b = "unat (sv_seq_nr_to_send (d_sv (sample_dtp True))) + length (written sample_ops) < 2 ^ 32 - 1"
  have b: ?b by (simp add: sample_start(2) sample_ops_def)
  from sample_run obtain d1 c where d1: "tx_run sample_pp sample_ops (sample_dtp True) = Some d1" "d_dtcp d1 = Some c"
    "map p_seq (queued d1) = [43, 44]" "sv_seq_nr_to_send (d_sv d1) = 44" "cv_last_rcv_ctl_seq (dc_sv c) = 1" by auto
  have p: "p_type (fc_pdu 2 44) = PDU_TYPE_FC" "cv_last_rcv_ctl_seq (dc_sv c) < p_seq (fc_pdu 2 44)"
    "sv_seq_nr_to_send (d_sv d1) \<le> pdu_ctrl_get NewRt (fc_pdu 2 44)"
    using d1(4,5) by (simp_all add: fc_pdu_def pdu_format_def pdu_ctrl_get_def ctrl_index_def)
  from dtp_window_update_flushes [OF sample_start(1) sample_dtp_def b d1(1,2) p] d1 show ?thesis
    by (auto simp: sample_ops_def)
qed

end
