(* ===== verification/Rmt.thy ===== *)
theory Rmt
  imports Efcp_Pdu Du Pff Rds_Queues "HOL-Library.Multiset" "HOL-Library.Monad_Syntax"
begin

text \<open>
  The relaying and multiplexing task (\<^verbatim>\<open>kernel/rmt.c\<close>, \<^verbatim>\<open>kernel/rmt.h\<close>, \<^verbatim>\<open>kernel/rmt-ps.h\<close>): the
  ports to the flows of the DIF below, their state machine and reference counts, sending a PDU through the
  forwarding table and the queueing policy of a port, and the worker that empties the queues.

  A policy set is a record of functions; its private data \<open>'p\<close> and its queues \<open>'q\<close> are state. The
  hash table of ports is the list of its entries in the order in which it is iterated; the hash of
  the kernel is a parameter. What the surroundings answer (memory, clock, random numbers, SDU protection
  on the way out, the write operation of the IPC process below) is given in the environment; an
  exhausted list of codes means 0. \<open>None\<close> is the use of a NULL pointer.
\<close>

section \<open>The surroundings\<close>

datatype rmt_event =
  Written port_id_t pdu | Destroyed pdu | Unbound port_id_t | RxDestroyed du | MgmtPost port_id_t du | EfcpReceive cep_id_t du

record renv =
  r_ms :: allocs
  r_time :: "u64 list"
  r_rand :: "u32 list"
  r_sdup :: "rc list"
  r_write :: "rc list"
  r_post :: "rc list"
  r_len :: "pdu \<Rightarrow> int"
  r_sched :: bool
  r_trace :: "rmt_event list"

fun next_rc :: "rc list \<Rightarrow> rc \<times> rc list" where
  "next_rc [] = (0, [])"
| "next_rc (c # cs) = (c, cs)"

definition r_emit :: "rmt_event \<Rightarrow> renv \<Rightarrow> renv" where
  "r_emit ev e = e\<lparr>r_trace := r_trace e @ [ev]\<rparr>"

definition r_alloc :: "renv \<Rightarrow> bool \<times> renv" where
  "r_alloc e = (let (ok, ms) = rkmalloc (r_ms e) in (ok, e\<lparr>r_ms := ms\<rparr>))"

definition schedule :: "renv \<Rightarrow> renv" where
  "schedule e = e\<lparr>r_sched := True\<rparr>"

definition destroy :: "pdu ptr \<Rightarrow> renv \<Rightarrow> renv option" where
  "destroy du e = do { p \<leftarrow> du; Some (r_emit (Destroyed p) e) }"

definition destroy_all :: "pdu list \<Rightarrow> renv \<Rightarrow> renv" where
  "destroy_all ps e = e\<lparr>r_trace := r_trace e @ map Destroyed ps\<rparr>"

section \<open>Policy sets\<close>

definition RMT_PS_ENQ_SEND :: rc where "RMT_PS_ENQ_SEND = 0"
definition RMT_PS_ENQ_SCHED :: rc where "RMT_PS_ENQ_SCHED = 1"
definition RMT_PS_ENQ_ERR :: rc where "RMT_PS_ENQ_ERR = 2"
definition RMT_PS_ENQ_DROP :: rc where "RMT_PS_ENQ_DROP = 3"

lemmas enq_codes = RMT_PS_ENQ_SEND_def RMT_PS_ENQ_SCHED_def RMT_PS_ENQ_ERR_def RMT_PS_ENQ_DROP_def

record ('p, 'q) rmt_ps =
  rmt_dequeue_policy :: "'q ptr \<Rightarrow> 'p \<Rightarrow> renv \<Rightarrow> pdu ptr \<times> 'q ptr \<times> 'p \<times> renv"
  rmt_enqueue_policy :: "bool \<Rightarrow> pdu ptr \<Rightarrow> 'q ptr \<Rightarrow> 'p \<Rightarrow> renv \<Rightarrow> (rc \<times> pdu ptr \<times> 'q ptr \<times> 'p \<times> renv) option"
  rmt_q_create_policy :: "port_id_t \<Rightarrow> 'p \<Rightarrow> renv \<Rightarrow> 'q ptr \<times> renv"
  rmt_q_destroy_policy :: "'q ptr \<Rightarrow> renv \<Rightarrow> rc \<times> renv"

section \<open>Ports\<close>

datatype flow_state =
  N1_PORT_STATE_ENABLED | N1_PORT_STATE_DISABLED | N1_PORT_STATE_DO_NOT_DISABLE | N1_PORT_STATE_DEALLOCATED

record n1_port_stats =
  plen :: u32
  drop_pdus :: u32
  err_pdus :: u32
  tx_pdus :: u32
  tx_bytes :: u32
  rx_pdus :: u32
  rx_bytes :: u32

record 'q rmt_n1_port =
  np_port_id :: port_id_t
  np_state :: flow_state
  np_refs_c :: int
  np_pending_du :: "pdu ptr"
  np_stats :: n1_port_stats
  np_wbusy :: bool
  np_queues :: "'q ptr"

record ('p, 'q, 's) rmt =
  rm_addresses :: "address_t list"
  rm_ports :: "'q rmt_n1_port list"
  rm_priv :: 'p
  rm_pff :: "'s pff ptr"
  rm_cache :: "port_id_t list"
  rm_cfg :: efcp_config
  rm_env :: renv

definition stats_upd :: "(n1_port_stats \<Rightarrow> n1_port_stats) \<Rightarrow> 'q rmt_n1_port \<Rightarrow> 'q rmt_n1_port" where
  "stats_upd f p = p\<lparr>np_stats := f (np_stats p)\<rparr>"

definition stats_tx :: "int \<Rightarrow> 'q rmt_n1_port \<Rightarrow> 'q rmt_n1_port" where
  "stats_tx n = stats_upd (\<lambda>s. s\<lparr>tx_pdus := tx_pdus s + 1, tx_bytes := tx_bytes s + word_of_int n\<rparr>)"

definition stats_rx :: "int \<Rightarrow> 'q rmt_n1_port \<Rightarrow> 'q rmt_n1_port" where
  "stats_rx n = stats_upd (\<lambda>s. s\<lparr>rx_pdus := rx_pdus s + 1, rx_bytes := rx_bytes s + word_of_int n\<rparr>)"

definition plen_add :: "u32 \<Rightarrow> 'q rmt_n1_port \<Rightarrow> 'q rmt_n1_port" where
  "plen_add n = stats_upd (\<lambda>s. s\<lparr>plen := plen s + n\<rparr>)"

abbreviation port_plen :: "'q rmt_n1_port \<Rightarrow> u32" where
  "port_plen p \<equiv> plen (np_stats p)"

definition n1_port_create :: "bool \<Rightarrow> port_id_t \<Rightarrow> 'q rmt_n1_port ptr" where
  "n1_port_create ok i =
     (if ok
      then Some \<lparr>np_port_id = i, np_state = N1_PORT_STATE_ENABLED, np_refs_c = 0, np_pending_du = None,
                 np_stats = \<lparr>plen = 0, drop_pdus = 0, err_pdus = 0, tx_pdus = 0, tx_bytes = 0, rx_pdus = 0, rx_bytes = 0\<rparr>,
                 np_wbusy = False, np_queues = None\<rparr>
      else None)"

text \<open>Taking the port out of the hash table is up to the callers, which hold the table.\<close>

definition n1_port_destroy :: "'q rmt_n1_port \<Rightarrow> renv \<Rightarrow> renv" where
  "n1_port_destroy p e = (case np_pending_du p of None \<Rightarrow> e | Some du \<Rightarrow> r_emit (Destroyed du) e)"

text \<open>
  The code unbinds the user of the flow and then returns -1 whatever that answered: the
  statement behind the two conditions is not part of them.
\<close>

definition n1_port_user_ipcp_unbind :: "'q rmt_n1_port \<Rightarrow> renv \<Rightarrow> rc \<times> renv" where
  "n1_port_user_ipcp_unbind p e = (-1, r_emit (Unbound (np_port_id p)) e)"

definition n1_port_cleanup :: "('p, 'q) rmt_ps ptr \<Rightarrow> 'q rmt_n1_port \<Rightarrow> renv \<Rightarrow> renv" where
  "n1_port_cleanup psp p e =
     n1_port_destroy p (case psp of None \<Rightarrow> e | Some ps \<Rightarrow> snd (rmt_q_destroy_policy ps (np_queues p) e))"

text \<open>The entry with the identifier, the first one of its bucket, is what the pointers of the code refer to.\<close>

fun find_port :: "port_id_t \<Rightarrow> 'q rmt_n1_port list \<Rightarrow> 'q rmt_n1_port ptr" where
  "find_port i [] = None"
| "find_port i (p # ps) = (if np_port_id p = i then Some p else find_port i ps)"

fun set_port :: "'q rmt_n1_port \<Rightarrow> 'q rmt_n1_port list \<Rightarrow> 'q rmt_n1_port list" where
  "set_port p [] = []"
| "set_port p (x # xs) = (if np_port_id x = np_port_id p then p # xs else x # set_port p xs)"

fun del_port :: "port_id_t \<Rightarrow> 'q rmt_n1_port list \<Rightarrow> 'q rmt_n1_port list" where
  "del_port i [] = []"
| "del_port i (x # xs) = (if np_port_id x = i then xs else x # del_port i xs)"

text \<open>\<^verbatim>\<open>hash_add\<close> puts an entry at the head of its bucket.\<close>

definition hash_add :: "(port_id_t \<Rightarrow> nat) \<Rightarrow> 'q rmt_n1_port \<Rightarrow> 'q rmt_n1_port list \<Rightarrow> 'q rmt_n1_port list" where
  "hash_add hsh p ps =
     takeWhile (\<lambda>x. hsh (np_port_id x) < hsh (np_port_id p)) ps @ p #
     dropWhile (\<lambda>x. hsh (np_port_id x) < hsh (np_port_id p)) ps"

fun cleanup_all :: "('p, 'q) rmt_ps ptr \<Rightarrow> 'q rmt_n1_port list \<Rightarrow> renv \<Rightarrow> renv" where
  "cleanup_all ps [] e = e"
| "cleanup_all ps (p # qs) e = cleanup_all ps qs (n1_port_cleanup ps p (snd (n1_port_user_ipcp_unbind p e)))"

definition n1pmap_destroy :: "('p, 'q) rmt_ps ptr \<Rightarrow> ('p, 'q, 's) rmt \<Rightarrow> rc \<times> ('p, 'q, 's) rmt" where
  "n1pmap_destroy ps r = (0, r\<lparr>rm_ports := [], rm_env := cleanup_all ps (rm_ports r) (rm_env r)\<rparr>)"

definition n1pmap_find :: "port_id_t \<Rightarrow> ('p, 'q, 's) rmt \<Rightarrow> 'q rmt_n1_port ptr \<times> ('p, 'q, 's) rmt" where
  "n1pmap_find i r =
     (if \<not> is_port_id_ok i then (None, r)
      else case find_port i (rm_ports r) of
             None \<Rightarrow> (None, r)
           | Some p \<Rightarrow>
               (if np_state p = N1_PORT_STATE_DEALLOCATED then (None, r)
                else (let p = p\<lparr>np_refs_c := np_refs_c p + 1\<rparr>
                      in (Some p, r\<lparr>rm_ports := set_port p (rm_ports r)\<rparr>))))"

text \<open>The caller's port is written back and its reference given up.\<close>

definition n1pmap_release :: "('p, 'q) rmt_ps ptr \<Rightarrow> 'q rmt_n1_port \<Rightarrow> ('p, 'q, 's) rmt \<Rightarrow> ('p, 'q, 's) rmt" where
  "n1pmap_release ps p r =
     (let p = p\<lparr>np_refs_c := np_refs_c p - 1\<rparr>
      in if np_refs_c p = 0 \<and> np_state p = N1_PORT_STATE_DEALLOCATED
         then r\<lparr>rm_ports := del_port (np_port_id p) (rm_ports r), rm_env := n1_port_cleanup ps p (rm_env r)\<rparr>
         else r\<lparr>rm_ports := set_port p (rm_ports r)\<rparr>)"

section \<open>Addresses\<close>

definition rmt_address_add :: "address_t \<Rightarrow> ('p, 'q, 's) rmt ptr \<Rightarrow> rc \<times> ('p, 'q, 's) rmt ptr" where
  "rmt_address_add a rp =
     (case rp of
        None \<Rightarrow> (-1, None)
      | Some r \<Rightarrow>
          (let (ok, e) = r_alloc (rm_env r)
           in if ok then (0, Some (r\<lparr>rm_addresses := a # rm_addresses r, rm_env := e\<rparr>))
              else (-1, Some (r\<lparr>rm_env := e\<rparr>))))"

definition rmt_address_remove :: "address_t \<Rightarrow> ('p, 'q, 's) rmt ptr \<Rightarrow> rc \<times> ('p, 'q, 's) rmt ptr" where
  "rmt_address_remove a rp =
     (case rp of
        None \<Rightarrow> (-1, None)
      | Some r \<Rightarrow>
          (if a \<in> set (rm_addresses r) then (0, Some (r\<lparr>rm_addresses := remove1 a (rm_addresses r)\<rparr>))
           else (-1, rp)))"

definition pdu_is_addressed_to_me :: "('p, 'q, 's) rmt \<Rightarrow> address_t \<Rightarrow> bool" where
  "pdu_is_addressed_to_me r a \<longleftrightarrow> a \<in> set (rm_addresses r)"

section \<open>Writing to a port\<close>

definition EAGAIN :: rc where "EAGAIN = 11"

text \<open>
  The IPC process below answers 0 when it took the PDU, or \<open>-EAGAIN\<close> when its queue is full: the PDU
  then waits in the port, which is disabled unless it was enabled meanwhile. Any other answer
  means that it destroyed the PDU.
\<close>

definition n1_port_write_du :: "'q rmt_n1_port \<Rightarrow> pdu \<Rightarrow> renv \<Rightarrow> rc \<times> 'q rmt_n1_port \<times> renv" where
  "n1_port_write_du p du e =
     (let bytes = r_len e du;
          (ret, ws) = next_rc (r_write e);
          e = e\<lparr>r_write := ws\<rparr>
      in if ret = 0 then (bytes, p, r_emit (Written (np_port_id p) du) e)
         else if ret = - EAGAIN
         then (let (p, e) = (case np_pending_du p of
                               None \<Rightarrow> (p, e)
                             | Some old \<Rightarrow> (plen_add (-1) p, r_emit (Destroyed old) e));
                   p = plen_add 1 (p\<lparr>np_pending_du := Some du\<rparr>)
               in if np_state p = N1_PORT_STATE_DO_NOT_DISABLE
                  then (ret, p\<lparr>np_state := N1_PORT_STATE_ENABLED\<rparr>, schedule e)
                  else (ret, p\<lparr>np_state := N1_PORT_STATE_DISABLED\<rparr>, e))
         else (ret, p, r_emit (Destroyed du) e))"

definition n1_port_write :: "'q rmt_n1_port \<Rightarrow> pdu \<Rightarrow> renv \<Rightarrow> rc \<times> 'q rmt_n1_port \<times> renv" where
  "n1_port_write p du e =
     (let (ret, cs) = next_rc (r_sdup e); e = e\<lparr>r_sdup := cs\<rparr>
      in if ret \<noteq> 0 then (-1, p, r_emit (Destroyed du) e)
         else (let (ret, cs) = next_rc (r_sdup e); e = e\<lparr>r_sdup := cs\<rparr>
               in if ret \<noteq> 0 then (-1, p, r_emit (Destroyed du) e)
                  else n1_port_write_du p du e))"

section \<open>The worker\<close>

definition MAX_PDUS_SENT_PER_CYCLE :: nat where "MAX_PDUS_SENT_PER_CYCLE = 10"

text \<open>The inner loop, with the PDUs that may still be sent in this cycle.\<close>

fun send_loop :: "('p, 'q) rmt_ps \<Rightarrow> nat \<Rightarrow> 'q rmt_n1_port \<Rightarrow> 'p \<Rightarrow> renv \<Rightarrow> 'q rmt_n1_port \<times> 'p \<times> renv" where
  "send_loop ps 0 p pr e = (p, pr, e)"
| "send_loop ps (Suc n) p pr e =
     (if port_plen p = 0 then (p, pr, e)
      else (case np_pending_du p of
              Some du \<Rightarrow>
                (let p = plen_add (-1) (p\<lparr>np_pending_du := None\<rparr>);
                     (ret, p, e) = n1_port_write_du p du e
                 in if ret < 0 then (p, pr, e) else send_loop ps n (stats_tx ret p) pr e)
            | None \<Rightarrow>
                (case rmt_dequeue_policy ps (np_queues p) pr e of
                   (None, q, pr, e) \<Rightarrow> (p\<lparr>np_queues := q\<rparr>, pr, e)
                 | (Some du, q, pr, e) \<Rightarrow>
                     (let p = plen_add (-1) (p\<lparr>np_queues := q\<rparr>);
                          (ret, p, e) = n1_port_write p du e
                      in if ret < 0 then (p, pr, e) else send_loop ps n (stats_tx ret p) pr e))))"

text \<open>
  The body of the loop over the ports: what becomes of the port (\<open>None\<close> when it is cleaned up) and
  whether the worker has to run again.
\<close>

definition worker_port ::
    "('p, 'q) rmt_ps \<Rightarrow> 'q rmt_n1_port \<Rightarrow> 'p \<Rightarrow> renv \<Rightarrow> 'q rmt_n1_port ptr \<times> bool \<times> 'p \<times> renv" where
  "worker_port ps p pr e =
     (if np_state p = N1_PORT_STATE_DEALLOCATED \<and> np_refs_c p = 0
      then (None, False, pr, n1_port_cleanup (Some ps) p e)
      else if np_state p = N1_PORT_STATE_DISABLED \<or> port_plen p = 0 then (Some p, False, pr, e)
      else if np_wbusy p then (Some p, True, pr, e)
      else (let p = p\<lparr>np_refs_c := np_refs_c p + 1, np_wbusy := True\<rparr>;
                (p, pr, e) = send_loop ps MAX_PDUS_SENT_PER_CYCLE p pr e;
                again = (np_state p \<in> {N1_PORT_STATE_ENABLED, N1_PORT_STATE_DO_NOT_DISABLE} \<and> port_plen p \<noteq> 0);
                p = p\<lparr>np_wbusy := False, np_refs_c := np_refs_c p - 1\<rparr>
            in if np_refs_c p = 0 \<and> np_state p = N1_PORT_STATE_DEALLOCATED
               then (None, again, pr, n1_port_cleanup (Some ps) p e)
               else (Some p, again, pr, e)))"

fun worker_ports ::
    "('p, 'q) rmt_ps \<Rightarrow> 'q rmt_n1_port list \<Rightarrow> 'p \<Rightarrow> renv \<Rightarrow> 'q rmt_n1_port list \<times> bool \<times> 'p \<times> renv" where
  "worker_ports ps [] pr e = ([], False, pr, e)"
| "worker_ports ps (p # qs) pr e =
     (let (x, b, pr, e) = worker_port ps p pr e;
          (xs, b', pr, e) = worker_ports ps qs pr e
      in (case x of None \<Rightarrow> xs | Some p \<Rightarrow> p # xs, b \<or> b', pr, e))"

text \<open>The tasklet is no longer scheduled when its function starts.\<close>

definition send_worker :: "('p, 'q) rmt_ps ptr \<Rightarrow> ('p, 'q, 's) rmt ptr \<Rightarrow> ('p, 'q, 's) rmt ptr" where
  "send_worker psp rp =
     (case rp of
        None \<Rightarrow> None
      | Some r \<Rightarrow>
          (case psp of
             None \<Rightarrow> rp
           | Some ps \<Rightarrow>
               (let (qs, again, pr, e) = worker_ports ps (rm_ports r) (rm_priv r) ((rm_env r)\<lparr>r_sched := False\<rparr>)
                in Some (r\<lparr>rm_ports := qs, rm_priv := pr, rm_env := if again then schedule e else e\<rparr>))))"

section \<open>Sending\<close>

definition rmt_send_port_id ::
    "('p, 'q) rmt_ps ptr \<Rightarrow> ('p, 'q, 's) rmt \<Rightarrow> port_id_t \<Rightarrow> pdu ptr \<Rightarrow> (rc \<times> ('p, 'q, 's) rmt) option" where
  "rmt_send_port_id psp r i du =
     (case psp of
        None \<Rightarrow> do { e \<leftarrow> destroy du (rm_env r); Some (-1, r\<lparr>rm_env := e\<rparr>) }
      | Some ps \<Rightarrow>
          (case n1pmap_find i r of
             (None, r) \<Rightarrow> do { e \<leftarrow> destroy du (rm_env r); Some (-1, r\<lparr>rm_env := e\<rparr>) }
           | (Some p, r) \<Rightarrow> do {
               let must_enqueue = (port_plen p \<noteq> 0 \<or> np_wbusy p \<or> np_state p = N1_PORT_STATE_DISABLED);
               (ret, du, q, pr, e) \<leftarrow> rmt_enqueue_policy ps must_enqueue du (np_queues p) (rm_priv r) (rm_env r);
               let p = p\<lparr>np_queues := q\<rparr>;
               let r = r\<lparr>rm_priv := pr\<rparr>;
               (ret, p, e) \<leftarrow>
                 (if ret = RMT_PS_ENQ_SCHED then Some (0, plen_add 1 p, schedule e)
                  else if ret = RMT_PS_ENQ_DROP
                  then Some (0, stats_upd (\<lambda>s. s\<lparr>drop_pdus := drop_pdus s + 1\<rparr>) p, e)
                  else if ret = RMT_PS_ENQ_ERR
                  then Some (0, stats_upd (\<lambda>s. s\<lparr>err_pdus := err_pdus s + 1\<rparr>) p, e)
                  else if ret = RMT_PS_ENQ_SEND
                  then if must_enqueue
                       then do {
                         e \<leftarrow> destroy du e;
                         Some (-1, stats_upd (\<lambda>s. s\<lparr>err_pdus := err_pdus s + 1\<rparr>) p, e)
                       }
                       else do {
                         d \<leftarrow> du;
                         let (ret, p, e) = n1_port_write (p\<lparr>np_wbusy := True\<rparr>) d e;
                         let p = p\<lparr>np_wbusy := False\<rparr>;
                         Some (if ret \<ge> 0 then (0, stats_tx ret p, e)
                               else if ret = - EAGAIN then (0, p, e) else (ret, p, e))
                       }
                  else Some (ret, p, e));
               Some (ret, n1pmap_release psp p (r\<lparr>rm_env := e\<rparr>))
             }))"

text \<open>\<^verbatim>\<open>du_dup\<close> makes two allocations and gives NULL without memory; the answers for the ports are ignored.\<close>

definition rmt_dup :: "pdu \<Rightarrow> renv \<Rightarrow> pdu ptr \<times> renv" where
  "rmt_dup du e = (let (ok, ms) = rkmalloc_n 2 (r_ms e) in (if ok then Some du else None, e\<lparr>r_ms := ms\<rparr>))"

fun send_ports :: "('p, 'q) rmt_ps ptr \<Rightarrow> port_id_t list \<Rightarrow> pdu \<Rightarrow> ('p, 'q, 's) rmt \<Rightarrow> ('p, 'q, 's) rmt option" where
  "send_ports ps [] du r = Some r"
| "send_ports ps [i] du r = do { (ret, r) \<leftarrow> rmt_send_port_id ps r i (Some du); Some r }"
| "send_ports ps (i # j # is) du r = do {
     let (p, e) = rmt_dup du (rm_env r);
     (ret, r) \<leftarrow> rmt_send_port_id ps (r\<lparr>rm_env := e\<rparr>) i p;
     send_ports ps (j # is) du r
   }"

definition rmt_send ::
    "('p, 'q) rmt_ps ptr \<Rightarrow> ('p, 'q, 's) rmt ptr \<Rightarrow> pdu ptr \<Rightarrow> (rc \<times> ('p, 'q, 's) rmt ptr) option" where
  "rmt_send ps rp dp = do {
     du \<leftarrow> dp;
     case rp of
       None \<Rightarrow> Some (-1, None)
     | Some r \<Rightarrow>
         if \<not> pdu_type_is_ok (p_type du) then Some (-1, Some (r\<lparr>rm_env := r_emit (Destroyed du) (rm_env r)\<rparr>))
         else (let (c, pids, ms) = pff_nhop (r_ms (rm_env r)) (rm_pff r) (Some (p_dst du, p_qos du)) (rm_cache r);
                   r = r\<lparr>rm_cache := pids, rm_env := (rm_env r)\<lparr>r_ms := ms\<rparr>\<rparr>
               in if c \<noteq> 0 then Some (-1, Some (r\<lparr>rm_env := r_emit (Destroyed du) (rm_env r)\<rparr>))
                  else if pids = [] then Some (0, Some (r\<lparr>rm_env := r_emit (Destroyed du) (rm_env r)\<rparr>))
                  else do { r \<leftarrow> send_ports ps pids du r; Some (0, Some r) })
   }"

section \<open>The state machine of a port\<close>

definition port_unlock_release :: "'q rmt_n1_port \<Rightarrow> 'q rmt_n1_port" where
  "port_unlock_release p = p\<lparr>np_refs_c := np_refs_c p - 1\<rparr>"

definition enable_port :: "'q rmt_n1_port \<Rightarrow> 'q rmt_n1_port" where
  "enable_port p =
     p\<lparr>np_state := if np_state p = N1_PORT_STATE_ENABLED then N1_PORT_STATE_DO_NOT_DISABLE else N1_PORT_STATE_ENABLED\<rparr>"

definition disable_port :: "'q rmt_n1_port \<Rightarrow> 'q rmt_n1_port" where
  "disable_port p =
     p\<lparr>np_state := if np_state p = N1_PORT_STATE_DO_NOT_DISABLE then N1_PORT_STATE_ENABLED else N1_PORT_STATE_DISABLED\<rparr>"

definition rmt_enable_port_id :: "('p, 'q, 's) rmt ptr \<Rightarrow> port_id_t \<Rightarrow> rc \<times> ('p, 'q, 's) rmt ptr" where
  "rmt_enable_port_id rp i =
     (case rp of
        None \<Rightarrow> (-1, None)
      | Some r \<Rightarrow>
          (if \<not> is_port_id_ok i then (-1, rp)
           else case n1pmap_find i r of
                  (None, r) \<Rightarrow> (-1, Some r)
                | (Some p, r) \<Rightarrow>
                    (0, Some (r\<lparr>rm_ports := set_port (port_unlock_release (enable_port p)) (rm_ports r),
                                rm_env := if port_plen p \<noteq> 0 then schedule (rm_env r) else rm_env r\<rparr>))))"

definition rmt_disable_port_id :: "('p, 'q, 's) rmt ptr \<Rightarrow> port_id_t \<Rightarrow> rc \<times> ('p, 'q, 's) rmt ptr" where
  "rmt_disable_port_id rp i =
     (case rp of
        None \<Rightarrow> (-1, None)
      | Some r \<Rightarrow>
          (if \<not> is_port_id_ok i then (-1, rp)
           else case n1pmap_find i r of
                  (None, r) \<Rightarrow> (-1, Some r)
                | (Some p, r) \<Rightarrow>
                    (0, Some (r\<lparr>rm_ports := set_port (port_unlock_release (disable_port p)) (rm_ports r),
                                rm_env := if np_state p = N1_PORT_STATE_DO_NOT_DISABLE \<and> port_plen p \<noteq> 0
                                          then schedule (rm_env r) else rm_env r\<rparr>))))"

text \<open>
  Binding: \<open>n1_ipcp\<close> says whether an IPC process below is given; the sysfs entry and the configuration of SDU protection succeed or fail as \<open>robj_ok\<close> and \<open>sdup_ok\<close>
  say; the port is in the table when the latter fails, and is taken out by its destruction, which
  leaves its queues behind. A port that exists keeps the reference the search took.
\<close>

definition rmt_n1port_bind ::
    "(port_id_t \<Rightarrow> nat) \<Rightarrow> bool \<Rightarrow> bool \<Rightarrow> bool \<Rightarrow> ('p, 'q) rmt_ps ptr \<Rightarrow> ('p, 'q, 's) rmt ptr \<Rightarrow> port_id_t \<Rightarrow> rc \<times> ('p, 'q, 's) rmt ptr" where
  "rmt_n1port_bind hsh n1_ipcp robj_ok sdup_ok psp rp i =
     (case rp of
        None \<Rightarrow> (-1, None)
      | Some r \<Rightarrow>
          (if \<not> is_port_id_ok i \<or> \<not> n1_ipcp then (-1, rp)
           else case n1pmap_find i r of
                  (Some p, r) \<Rightarrow> (-1, Some r)
                | (None, r) \<Rightarrow>
                    (let (ok, e) = r_alloc (rm_env r); r = r\<lparr>rm_env := e\<rparr>
                     in case n1_port_create ok i of
                          None \<Rightarrow> (-1, Some r)
                        | Some p \<Rightarrow>
                            (if \<not> robj_ok then (-1, Some r)
                             else case psp of
                                    None \<Rightarrow> (-1, Some r)
                                  | Some ps \<Rightarrow>
                                      (case rmt_q_create_policy ps i (rm_priv r) (rm_env r) of
                                         (None, e) \<Rightarrow> (-1, Some (r\<lparr>rm_env := e\<rparr>))
                                       | (Some q, e) \<Rightarrow>
                                           (if sdup_ok
                                            then (0, Some (r\<lparr>rm_env := e,
                                                   rm_ports := hash_add hsh (p\<lparr>np_queues := Some q\<rparr>) (rm_ports r)\<rparr>))
                                            else (-1, Some (r\<lparr>rm_env := e\<rparr>))))))))"

definition rmt_n1port_unbind :: "('p, 'q) rmt_ps ptr \<Rightarrow> ('p, 'q, 's) rmt ptr \<Rightarrow> port_id_t \<Rightarrow> rc \<times> ('p, 'q, 's) rmt ptr" where
  "rmt_n1port_unbind ps rp i =
     (case rp of
        None \<Rightarrow> (-1, None)
      | Some r \<Rightarrow>
          (if \<not> is_port_id_ok i then (-1, rp)
           else case n1pmap_find i r of
                  (None, r) \<Rightarrow> (0, Some r)
                | (Some p, r) \<Rightarrow> (0, Some (n1pmap_release ps (p\<lparr>np_state := N1_PORT_STATE_DEALLOCATED\<rparr>) r))))"

section \<open>Creation and destruction\<close>

definition rmt_create :: "bool \<Rightarrow> 'p \<Rightarrow> 's pff ptr \<Rightarrow> efcp_config \<Rightarrow> renv \<Rightarrow> ('p, 'q, 's) rmt ptr" where
  "rmt_create ok priv pff cfg e =
     (if \<not> ok \<or> pff = None then None
      else Some \<lparr>rm_addresses = [], rm_ports = [], rm_priv = priv, rm_pff = pff, rm_cache = [], rm_cfg = cfg, rm_env = e\<rparr>)"

definition rmt_destroy :: "('p, 'q) rmt_ps ptr \<Rightarrow> ('p, 'q, 's) rmt ptr \<Rightarrow> rc \<times> renv ptr" where
  "rmt_destroy ps rp =
     (case rp of
        None \<Rightarrow> (-1, None)
      | Some r \<Rightarrow> (0, Some (rm_env (snd (n1pmap_destroy ps r)))))"

definition is_rmt_pff_ok :: "('p, 'q, 's) rmt ptr \<Rightarrow> bool" where
  "is_rmt_pff_ok rp = (case rp of None \<Rightarrow> False | Some r \<Rightarrow> rm_pff r \<noteq> None)"

section \<open>Receiving\<close>

text \<open>
  SDU protection on the way in works on the bytes, through the policies of the port. \<open>pdu_of\<close> reads
  the record of a decapsulated unit through the accessors of its header.
\<close>

record sdup_ops =
  sdup_unprotect_pdu :: "du \<Rightarrow> (rc \<times> du) outcome"
  sdup_get_lifetime_limit :: "du \<Rightarrow> (rc \<times> du) outcome"
  sdup_dec_check_lifetime_limit :: "du \<Rightarrow> (rc \<times> du) outcome"

definition du_header :: "du \<Rightarrow> u8 list option" where
  "du_header d = do { s \<leftarrow> du_skb d; h \<leftarrow> du_pci_h d; Some (drop h (sk_buf s)) }"

fun ctrl_of :: "efcp_config \<Rightarrow> u8 list \<Rightarrow> ctrl_field \<Rightarrow> u32" where
  "ctrl_of cfg h f = (case ctrl_get f cfg h of Done v \<Rightarrow> v | Fault \<Rightarrow> 0)"

definition pdu_of :: "efcp_config \<Rightarrow> du \<Rightarrow> pdu option" where
  "pdu_of cfg d = do {
     h \<leftarrow> du_header d;
     t \<leftarrow> got (pci_type cfg h);
     fl \<leftarrow> got (pci_flags_get cfg h);
     sc \<leftarrow> got (pci_cep_source cfg h);
     dc \<leftarrow> got (pci_cep_destination cfg h);
     sa \<leftarrow> got (pci_source cfg h);
     da \<leftarrow> got (pci_destination cfg h);
     q \<leftarrow> got (pci_qos_id cfg h);
     sn \<leftarrow> got (pci_sequence_number_get cfg h);
     Some \<lparr>p_type = t, p_flags = fl, p_src_cep = sc, p_dst_cep = dc, p_src = sa, p_dst = da, p_qos = q,
           p_seq = sn, p_ctrl = ctrl_of cfg h, p_data = du_bytes d\<rparr>
   }"

definition rx_drop :: "du \<Rightarrow> ('p, 'q, 's) rmt \<Rightarrow> rc \<times> ('p, 'q, 's) rmt" where
  "rx_drop d r = (-1, r\<lparr>rm_env := r_emit (RxDestroyed d) (rm_env r)\<rparr>)"

definition process_mgmt_pdu :: "('p, 'q, 's) rmt \<Rightarrow> port_id_t \<Rightarrow> du \<Rightarrow> rc \<times> ('p, 'q, 's) rmt" where
  "process_mgmt_pdu r i d =
     (let (c, cs) = next_rc (r_post (rm_env r))
      in (if c \<noteq> 0 then -1 else 0, r\<lparr>rm_env := r_emit (MgmtPost i d) ((rm_env r)\<lparr>r_post := cs\<rparr>)\<rparr>))"

definition process_dt_pdu :: "('p, 'q, 's) rmt \<Rightarrow> port_id_t \<Rightarrow> du \<Rightarrow> (rc \<times> ('p, 'q, 's) rmt) option" where
  "process_dt_pdu r i d = do {
     h \<leftarrow> du_header d;
     dst \<leftarrow> got (pci_destination (rm_cfg r) h);
     if \<not> is_address_ok dst then Some (rx_drop d r)
     else do {
       t \<leftarrow> got (pci_type (rm_cfg r) h);
       if t = PDU_TYPE_MGMT then Some (rx_drop d r)
       else do {
         c \<leftarrow> got (pci_cep_destination (rm_cfg r) h);
         if \<not> is_cep_id_ok c then Some (rx_drop d r)
         else (let (x, cs) = next_rc (r_post (rm_env r))
               in Some (if x \<noteq> 0 then -1 else 0,
                        r\<lparr>rm_env := r_emit (EfcpReceive c d) ((rm_env r)\<lparr>r_post := cs\<rparr>)\<rparr>))
       }
     }
   }"

definition dt_types :: "pdu_type_t set" where
  "dt_types = {PDU_TYPE_CACK, PDU_TYPE_SACK, PDU_TYPE_NACK, PDU_TYPE_FC, PDU_TYPE_ACK,
     PDU_TYPE_ACK_AND_FC, PDU_TYPE_RENDEZVOUS, PDU_TYPE_DT}"

text \<open>What happens to a decapsulated PDU.\<close>

definition rmt_deliver ::
    "('p, 'q) rmt_ps ptr \<Rightarrow> sdup_ops \<Rightarrow> ('p, 'q, 's) rmt \<Rightarrow> du \<Rightarrow> port_id_t \<Rightarrow> (rc \<times> ('p, 'q, 's) rmt) option" where
  "rmt_deliver ps sd r d from = do {
     h \<leftarrow> du_header d;
     t \<leftarrow> got (pci_type (rm_cfg r) h);
     dst \<leftarrow> got (pci_destination (rm_cfg r) h);
     qos \<leftarrow> got (pci_qos_id (rm_cfg r) h);
     if \<not> pdu_type_is_ok t \<or> \<not> is_address_ok dst \<or> \<not> is_qos_id_ok qos then Some (rx_drop d r)
     else if pdu_is_addressed_to_me r dst
     then (if t = PDU_TYPE_MGMT then Some (process_mgmt_pdu r from d)
           else if t \<in> dt_types then process_dt_pdu r from d
           else Some (rx_drop d r))
     else if dst = 0 then Some (process_mgmt_pdu r from d)
     else do {
       p \<leftarrow> pdu_of (rm_cfg r) d;
       (c, d) \<leftarrow> got (du_encap d t);
       if c \<noteq> 0 then Some (-1, r)
       else do {
         (c, d) \<leftarrow> got (sdup_dec_check_lifetime_limit sd d);
         if c \<noteq> 0 then Some (rx_drop d r)
         else do {
           (c, rp) \<leftarrow> rmt_send ps (Some r) (Some p);
           r \<leftarrow> rp;
           Some (c, r)
         }
       }
     }
   }"

definition rmt_receive ::
    "('p, 'q) rmt_ps ptr \<Rightarrow> sdup_ops \<Rightarrow> ('p, 'q, 's) rmt ptr \<Rightarrow> du \<Rightarrow> port_id_t \<Rightarrow> (rc \<times> ('p, 'q, 's) rmt ptr) option" where
  "rmt_receive ps sd rp d from =
     (case rp of
        None \<Rightarrow> Some (-1, None)
      | Some r \<Rightarrow>
          (if \<not> is_port_id_ok from then (let (c, r) = rx_drop d r in Some (c, Some r))
           else do {
             bytes \<leftarrow> got (du_len d);
             let d = d\<lparr>du_cfg := Some (rm_cfg r)\<rparr>;
             (case n1pmap_find from r of
                (None, r) \<Rightarrow> (let (c, r) = rx_drop d r in Some (c, Some r))
              | (Some p, r) \<Rightarrow> do {
                  let p = stats_rx (int bytes) p;
                  let r = r\<lparr>rm_ports := set_port p (rm_ports r)\<rparr>;
                  (c, d) \<leftarrow> got (sdup_unprotect_pdu sd d);
                  if c \<noteq> 0 then (let (c, r) = rx_drop d r in Some (c, Some r))
                  else do {
                    (c, d) \<leftarrow> got (sdup_get_lifetime_limit sd d);
                    if c \<noteq> 0 then (let (c, r) = rx_drop d r in Some (c, Some r))
                    else do {
                      let r = n1pmap_release ps p r;
                      (c, d) \<leftarrow> got (du_decap d);
                      if c \<noteq> 0 then (let (c, r) = rx_drop d r in Some (c, Some r))
                      else do { (c, r) \<leftarrow> rmt_deliver ps sd r d from; Some (c, Some r) }
                    }
                  }
                })
           }))"

section \<open>The forwarding function of the RMT\<close>

definition rmt_pff_add :: "mod_pff_entry ptr \<Rightarrow> ('p, 'q, 's) rmt ptr \<Rightarrow> rc \<times> ('p, 'q, 's) rmt ptr" where
  "rmt_pff_add m rp =
     (case rp of
        Some r \<Rightarrow>
          (if is_rmt_pff_ok rp
           then (let (c, q, ms) = pff_add (r_ms (rm_env r)) (rm_pff r) m
                 in (c, Some (r\<lparr>rm_pff := q, rm_env := (rm_env r)\<lparr>r_ms := ms\<rparr>\<rparr>)))
           else (-1, rp))
      | None \<Rightarrow> (-1, None))"

definition rmt_pff_remove :: "mod_pff_entry ptr \<Rightarrow> ('p, 'q, 's) rmt ptr \<Rightarrow> rc \<times> ('p, 'q, 's) rmt ptr" where
  "rmt_pff_remove m rp =
     (case rp of
        Some r \<Rightarrow>
          (if is_rmt_pff_ok rp then (let (c, q) = pff_remove (rm_pff r) m in (c, Some (r\<lparr>rm_pff := q\<rparr>))) else (-1, rp))
      | None \<Rightarrow> (-1, None))"

definition rmt_pff_port_state_change :: "port_id_t \<Rightarrow> bool \<Rightarrow> ('p, 'q, 's) rmt ptr \<Rightarrow> rc \<times> ('p, 'q, 's) rmt ptr" where
  "rmt_pff_port_state_change i up rp =
     (case rp of
        Some r \<Rightarrow>
          (if is_rmt_pff_ok rp then (let (c, q) = pff_port_state_change (rm_pff r) i up in (c, Some (r\<lparr>rm_pff := q\<rparr>))) else (-1, rp))
      | None \<Rightarrow> (-1, None))"

definition rmt_pff_dump :: "mod_pff_entry list \<Rightarrow> ('p, 'q, 's) rmt ptr \<Rightarrow> rc \<times> mod_pff_entry list \<times> ('p, 'q, 's) rmt ptr" where
  "rmt_pff_dump out rp =
     (case rp of
        Some r \<Rightarrow>
          (if is_rmt_pff_ok rp
           then (let (c, xs, ms) = pff_dump (r_ms (rm_env r)) (rm_pff r) out
                 in (c, xs, Some (r\<lparr>rm_env := (rm_env r)\<lparr>r_ms := ms\<rparr>\<rparr>)))
           else (-1, out, rp))
      | None \<Rightarrow> (-1, out, None))"

definition rmt_pff_flush :: "('p, 'q, 's) rmt ptr \<Rightarrow> rc \<times> ('p, 'q, 's) rmt ptr" where
  "rmt_pff_flush rp =
     (case rp of
        Some r \<Rightarrow> (if is_rmt_pff_ok rp then (let (c, q) = pff_flush (rm_pff r) in (c, Some (r\<lparr>rm_pff := q\<rparr>))) else (-1, rp))
      | None \<Rightarrow> (-1, None))"

definition rmt_pff_modify :: "mod_pff_entry list \<Rightarrow> ('p, 'q, 's) rmt ptr \<Rightarrow> rc \<times> ('p, 'q, 's) rmt ptr" where
  "rmt_pff_modify xs rp =
     (case rp of
        Some r \<Rightarrow>
          (if is_rmt_pff_ok rp
           then (let (c, q, ms) = pff_modify (r_ms (rm_env r)) (rm_pff r) xs
                 in (c, Some (r\<lparr>rm_pff := q, rm_env := (rm_env r)\<lparr>r_ms := ms\<rparr>\<rparr>)))
           else (-1, rp))
      | None \<Rightarrow> (-1, None))"

end
