(* ===== verification/Rmt_Ports.thy ===== *)
theory Rmt_Ports
  imports Rmt
begin

text \<open>
  What the RMT guarantees for any queueing policy that keeps the contract \<open>rmt_policy\<close>: no PDU is lost
  or duplicated between a call of \<^verbatim>\<open>rmt_send_port_id\<close> and its transmission or destruction, the number
  of waiting PDUs kept for a port is right, and the worker, run as often as it schedules
  itself, empties the queues.
\<close>

section \<open>Accounting\<close>

fun event_pdus :: "rmt_event \<Rightarrow> pdu multiset" where
  "event_pdus (Written i du) = {#du#}"
| "event_pdus (Destroyed du) = {#du#}"
| "event_pdus _ = {#}"

definition gone :: "rmt_event list \<Rightarrow> pdu multiset" where
  "gone evs = sum_list (map event_pdus evs)"

lemma gone_simps [simp]:
  "gone [] = {#}" "gone (xs @ ys) = gone xs + gone ys" "gone [ev] = event_pdus ev"
  "gone (map Destroyed ps) = mset ps"
  by (induction ps) (simp_all add: gone_def)

definition pending :: "'q rmt_n1_port \<Rightarrow> pdu list" where
  "pending p = (case np_pending_du p of None \<Rightarrow> [] | Some du \<Rightarrow> [du])"

definition waiting :: "('q \<Rightarrow> pdu list) \<Rightarrow> 'q rmt_n1_port \<Rightarrow> pdu multiset" where
  "waiting contents p = mset (pending p) + (case np_queues p of None \<Rightarrow> {#} | Some q \<Rightarrow> mset (contents q))"

definition port_ok :: "('q \<Rightarrow> bool) \<Rightarrow> ('q \<Rightarrow> pdu list) \<Rightarrow> 'q rmt_n1_port \<Rightarrow> bool" where
  "port_ok qinv contents p \<longleftrightarrow> (\<exists>q. np_queues p = Some q \<and> qinv q) \<and> port_plen p = of_nat (size (waiting contents p))"

definition port_ready :: "('q \<Rightarrow> bool) \<Rightarrow> ('q \<Rightarrow> pdu list) \<Rightarrow> 'q rmt_n1_port \<Rightarrow> bool" where
  "port_ready qinv contents p \<longleftrightarrow> port_ok qinv contents p \<and> np_state p \<in> {N1_PORT_STATE_ENABLED, N1_PORT_STATE_DO_NOT_DISABLE} \<and>
     \<not> np_wbusy p \<and> size (waiting contents p) < 2 ^ 32"

text \<open>What the PDUs of a state are, up to the marks a policy sets: those waiting and those gone.\<close>

definition balance :: "(pdu \<Rightarrow> pdu) \<Rightarrow> ('q \<Rightarrow> pdu list) \<Rightarrow> 'q rmt_n1_port list \<Rightarrow> renv \<Rightarrow> pdu multiset" where
  "balance base contents ps e = image_mset base (sum_list (map (waiting contents) ps) + gone (r_trace e))"

text \<open>The part of the environment a policy leaves alone.\<close>

definition same_renv :: "renv \<Rightarrow> renv \<Rightarrow> bool" where
  "same_renv e e' \<longleftrightarrow> r_ms e' = r_ms e \<and> r_sdup e' = r_sdup e \<and> r_write e' = r_write e \<and> r_len e' = r_len e \<and>
     r_sched e' = r_sched e"

text \<open>The IPC processes below take every PDU.\<close>

definition willing :: "renv \<Rightarrow> bool" where
  "willing e \<longleftrightarrow> r_write e = [] \<and> r_sdup e = [] \<and> (\<forall>du. 0 \<le> r_len e du)"

section \<open>The contract of a queueing policy\<close>

text \<open>
  The outcome of an enqueue operation: the PDU, perhaps with other marks, is handed back, queued, or dropped and
  destroyed; handing it back is not allowed when it must be queued.
\<close>

definition enq_result :: "(pdu \<Rightarrow> pdu) \<Rightarrow> bool \<Rightarrow> pdu \<Rightarrow> pdu multiset \<Rightarrow> renv \<Rightarrow> rc \<Rightarrow> pdu \<Rightarrow> pdu multiset \<Rightarrow> renv \<Rightarrow> bool" where
  "enq_result base must du m e c du' m' e' \<longleftrightarrow> base du' = base du \<and>
     (c = RMT_PS_ENQ_SEND \<and> \<not> must \<and> m' = m \<and> r_trace e' = r_trace e \<or>
      c = RMT_PS_ENQ_SCHED \<and> m' = add_mset du' m \<and> r_trace e' = r_trace e \<or>
      c = RMT_PS_ENQ_DROP \<and> m' = m \<and> r_trace e' = r_trace e @ [Destroyed du'])"

locale rmt_policy =
  fixes ps :: "('p, 'q) rmt_ps"
    and pinv :: "'p \<Rightarrow> u64 list \<Rightarrow> bool"
    and qinv :: "'q \<Rightarrow> bool"
    and contents :: "'q \<Rightarrow> pdu list"
    and base :: "pdu \<Rightarrow> pdu"
  assumes enqueue: "pinv pr (r_time e) \<Longrightarrow> qinv q \<Longrightarrow> r_ms e = [] \<Longrightarrow> \<exists>c du' q' pr' e'.
      rmt_enqueue_policy ps must (Some du) (Some q) pr e = Some (c, Some du', Some q', pr', e') \<and>
      pinv pr' (r_time e') \<and> qinv q' \<and> same_renv e e' \<and> enq_result base must du (mset (contents q)) e c du' (mset (contents q')) e'"
    and dequeue: "pinv pr (r_time e) \<Longrightarrow> qinv q \<Longrightarrow> \<exists>x q' pr' e'.
      rmt_dequeue_policy ps (Some q) pr e = (x, Some q', pr', e') \<and> pinv pr' (r_time e') \<and> qinv q' \<and> same_renv e e' \<and> r_trace e' = r_trace e \<and>
      (case x of None \<Rightarrow> contents q = [] \<and> contents q' = [] | Some du \<Rightarrow> mset (contents q) = add_mset du (mset (contents q')))"
    and queue_destroy: "qinv q \<Longrightarrow> \<exists>c ds. mset ds = mset (contents q) \<and> rmt_q_destroy_policy ps (Some q) e = (c, destroy_all ds e)"
    and queue_create: "pinv pr (r_time e) \<Longrightarrow> r_ms e = [] \<Longrightarrow> \<exists>q. rmt_q_create_policy ps i pr e = (Some q, e) \<and> qinv q \<and> contents q = []"

section \<open>Single ports\<close>

lemma stats_keep [simp]:
  "np_queues (stats_upd f p) = np_queues p" "np_pending_du (stats_upd f p) = np_pending_du p"
  "np_port_id (stats_upd f p) = np_port_id p" "np_state (stats_upd f p) = np_state p"
  "np_refs_c (stats_upd f p) = np_refs_c p" "np_wbusy (stats_upd f p) = np_wbusy p"
  "np_queues (plen_add n p) = np_queues p" "np_pending_du (plen_add n p) = np_pending_du p"
  "np_port_id (plen_add n p) = np_port_id p" "np_state (plen_add n p) = np_state p"
  "np_refs_c (plen_add n p) = np_refs_c p" "np_wbusy (plen_add n p) = np_wbusy p" "port_plen (plen_add n p) = port_plen p + n"
  by (simp_all add: stats_upd_def plen_add_def)

lemma tx_keep [simp]: "np_queues (stats_tx n p) = np_queues p" "np_pending_du (stats_tx n p) = np_pending_du p"
  "np_port_id (stats_tx n p) = np_port_id p" "np_state (stats_tx n p) = np_state p" "port_plen (stats_tx n p) = port_plen p"
  "np_refs_c (stats_tx n p) = np_refs_c p" "np_wbusy (stats_tx n p) = np_wbusy p"
  by (simp_all add: stats_tx_def stats_upd_def)

lemma waiting_cong:
  "np_queues p' = np_queues p \<Longrightarrow> np_pending_du p' = np_pending_du p \<Longrightarrow> waiting contents p' = waiting contents p"
  by (simp add: waiting_def pending_def)

lemma port_ok_cong:
  "np_queues p' = np_queues p \<Longrightarrow> np_pending_du p' = np_pending_du p \<Longrightarrow> port_plen p' = port_plen p \<Longrightarrow>
     port_ok qinv contents p' = port_ok qinv contents p"
  by (simp add: port_ok_def waiting_cong [of p' p])

lemma port_upd [simp]:
  "waiting contents (p\<lparr>np_refs_c := n\<rparr>) = waiting contents p" "waiting contents (p\<lparr>np_wbusy := b\<rparr>) = waiting contents p"
  "waiting contents (p\<lparr>np_state := st\<rparr>) = waiting contents p" "waiting contents (stats_upd f p) = waiting contents p"
  "waiting contents (plen_add k p) = waiting contents p" "waiting contents (stats_tx m p) = waiting contents p"
  "port_ok qinv contents (p\<lparr>np_refs_c := n\<rparr>) = port_ok qinv contents p"
  "port_ok qinv contents (p\<lparr>np_wbusy := b\<rparr>) = port_ok qinv contents p"
  "port_ok qinv contents (p\<lparr>np_state := st\<rparr>) = port_ok qinv contents p"
  "port_ok qinv contents (stats_tx m p) = port_ok qinv contents p"
  "(\<And>s. plen (f s) = plen s) \<Longrightarrow> port_ok qinv contents (stats_upd f p) = port_ok qinv contents p"
  by (simp_all add: waiting_def port_ok_def pending_def) (simp_all add: stats_upd_def)

text \<open>A write: the PDU is gone, or it waits in the port.\<close>

definition wrote_port :: "pdu \<Rightarrow> 'q rmt_n1_port \<Rightarrow> renv \<Rightarrow> 'q rmt_n1_port \<Rightarrow> renv \<Rightarrow> bool" where
  "wrote_port du p e p' e' \<longleftrightarrow> np_queues p' = np_queues p \<and> np_port_id p' = np_port_id p \<and> np_refs_c p' = np_refs_c p \<and>
     np_wbusy p' = np_wbusy p \<and> r_ms e' = r_ms e \<and> r_time e' = r_time e \<and>
     port_plen p' = port_plen p + of_nat (length (pending p')) - of_nat (length (pending p)) \<and>
     mset (pending p') + gone (r_trace e') = add_mset du (mset (pending p) + gone (r_trace e))"

lemma write_du_spec: "n1_port_write_du p du e = (ret, p', e') \<Longrightarrow> wrote_port du p e p' e'"
  by (auto simp: wrote_port_def n1_port_write_du_def r_emit_def pending_def schedule_def plen_add_def stats_upd_def Let_def
      split: prod.splits if_splits option.splits)

lemma write_spec: "n1_port_write p du e = (ret, p', e') \<Longrightarrow> wrote_port du p e p' e'"
  by (auto simp: n1_port_write_def Let_def split: prod.splits if_splits dest!: write_du_spec)
    (auto simp: wrote_port_def r_emit_def)

lemma alloc_ok: "r_ms e = [] \<Longrightarrow> r_alloc e = (True, e)"
  by (simp add: r_alloc_def)

section \<open>Lists of ports\<close>

lemma port_list_simps:
  assumes "\<forall>a\<in>set as. np_port_id a \<noteq> i" "np_port_id p = i"
  shows "find_port i (as @ p # bs) = Some p" "del_port i (as @ p # bs) = as @ bs"
    "np_port_id p' = i \<Longrightarrow> set_port p' (as @ p # bs) = as @ p' # bs"
  using assms by (induction as) auto

lemma hash_add_mset: "set (hash_add hsh p ps) = insert p (set ps)" "sum_list (map f (hash_add hsh p ps)) = f p + sum_list (map f ps)"
    for f :: "'q rmt_n1_port \<Rightarrow> 'a multiset"
proof -
  let ?a = "takeWhile (\<lambda>x. hsh (np_port_id x) < hsh (np_port_id p)) ps"
  let ?b = "dropWhile (\<lambda>x. hsh (np_port_id x) < hsh (np_port_id p)) ps"
  have ps: "ps = ?a @ ?b" by simp
  have "set ps = set ?a \<union> set ?b" by (subst ps) (rule set_append)
  then show "set (hash_add hsh p ps) = insert p (set ps)" by (auto simp: hash_add_def)
  have "sum_list (map f ps) = sum_list (map f ?a) + sum_list (map f ?b)" by (subst ps) (simp only: map_append sum_list_append)
  then show "sum_list (map f (hash_add hsh p ps)) = f p + sum_list (map f ps)" by (simp add: hash_add_def)
qed

lemma find_port_split:
  "find_port i ps = Some x \<Longrightarrow> \<exists>as bs. ps = as @ x # bs \<and> np_port_id x = i \<and> (\<forall>a\<in>set as. np_port_id a \<noteq> i)"
proof (induction ps)
  case (Cons y ys)
  show ?case
  proof (cases "np_port_id y = i")
    case False
    with Cons obtain as bs where "ys = as @ x # bs" "np_port_id x = i" "\<forall>a\<in>set as. np_port_id a \<noteq> i" by auto
    with False show ?thesis by (intro exI [of _ "y # as"] exI [of _ bs]) auto
  qed (use Cons.prems in \<open>auto intro: exI [of _ "[]"]\<close>)
qed simp

section \<open>Runs\<close>

datatype rmt_op =
  RSend port_id_t pdu | RWorker | REnable port_id_t | RDisable port_id_t | RBind port_id_t | RUnbind port_id_t

fun rmt_step :: "(port_id_t \<Rightarrow> nat) \<Rightarrow> ('p, 'q) rmt_ps \<Rightarrow> rmt_op \<Rightarrow> ('p, 'q, 's) rmt \<Rightarrow> ('p, 'q, 's) rmt option" where
  "rmt_step hsh ps (RSend i du) r = do { (c, r) \<leftarrow> rmt_send_port_id (Some ps) r i (Some du); Some r }"
| "rmt_step hsh ps RWorker r = send_worker (Some ps) (Some r)"
| "rmt_step hsh ps (REnable i) r = snd (rmt_enable_port_id (Some r) i)"
| "rmt_step hsh ps (RDisable i) r = snd (rmt_disable_port_id (Some r) i)"
| "rmt_step hsh ps (RBind i) r = snd (rmt_n1port_bind hsh True True True (Some ps) (Some r) i)"
| "rmt_step hsh ps (RUnbind i) r = snd (rmt_n1port_unbind (Some ps) (Some r) i)"

fun rmt_run :: "(port_id_t \<Rightarrow> nat) \<Rightarrow> ('p, 'q) rmt_ps \<Rightarrow> rmt_op list \<Rightarrow> ('p, 'q, 's) rmt \<Rightarrow> ('p, 'q, 's) rmt option" where
  "rmt_run hsh ps [] r = Some r"
| "rmt_run hsh ps (op # ops) r = do { r \<leftarrow> rmt_step hsh ps op r; rmt_run hsh ps ops r }"

fun submitted :: "rmt_op list \<Rightarrow> pdu list" where
  "submitted [] = []"
| "submitted (RSend i du # ops) = du # submitted ops"
| "submitted (_ # ops) = submitted ops"

definition rmt_ok :: "('p \<Rightarrow> u64 list \<Rightarrow> bool) \<Rightarrow> ('q \<Rightarrow> bool) \<Rightarrow> ('q \<Rightarrow> pdu list) \<Rightarrow> ('p, 'q, 's) rmt \<Rightarrow> bool" where
  "rmt_ok pinv qinv contents r \<longleftrightarrow> pinv (rm_priv r) (r_time (rm_env r)) \<and> r_ms (rm_env r) = [] \<and> (\<forall>p\<in>set (rm_ports r). port_ok qinv contents p)"

definition rmt_balance :: "(pdu \<Rightarrow> pdu) \<Rightarrow> ('q \<Rightarrow> pdu list) \<Rightarrow> ('p, 'q, 's) rmt \<Rightarrow> pdu multiset" where
  "rmt_balance base contents r = balance base contents (rm_ports r) (rm_env r)"

context rmt_policy
begin

abbreviation "wt \<equiv> waiting contents"

abbreviation "pok \<equiv> port_ok qinv contents"

text \<open>A step on a port that keeps it in order and loses nothing.\<close>

definition fine :: "'q rmt_n1_port \<Rightarrow> renv \<Rightarrow> 'q rmt_n1_port \<Rightarrow> renv \<Rightarrow> bool" where
  "fine p e p' e' \<longleftrightarrow> pok p' \<and> np_port_id p' = np_port_id p \<and> np_refs_c p' = np_refs_c p \<and> np_wbusy p' = np_wbusy p \<and>
     r_ms e' = r_ms e \<and> wt p' + gone (r_trace e') = wt p + gone (r_trace e)"

lemma fine_trans: "fine p e p1 e1 \<Longrightarrow> fine p1 e1 p' e' \<Longrightarrow> fine p e p' e'"
  by (simp add: fine_def)

lemma wrote_fine:
  assumes "wrote_port du p e p' e'" "pok p"
  shows "pok p'" "wt p' + gone (r_trace e') = add_mset du (wt p + gone (r_trace e))"
proof -
  have q: "np_queues p' = np_queues p" and m: "mset (pending p') + gone (r_trace e') = add_mset du (mset (pending p) + gone (r_trace e))"
    using assms(1) by (simp_all add: wrote_port_def)
  let ?c = "case np_queues p of None \<Rightarrow> {#} | Some q \<Rightarrow> mset (contents q)"
  have w: "wt p' = mset (pending p') + ?c" "wt p = mset (pending p) + ?c" by (simp_all add: waiting_def q)
  from m show "wt p' + gone (r_trace e') = add_mset du (wt p + gone (r_trace e))"
    unfolding w by (metis add.assoc add.commute add_mset_add_single)
  show "pok p'" using assms q unfolding port_ok_def w by (auto simp: wrote_port_def)
qed

lemma wrote_after:
  assumes "pok p" "pok p1" "wt p = add_mset du (wt p1)" "np_port_id p1 = np_port_id p" "np_refs_c p1 = np_refs_c p"
    "np_wbusy p1 = np_wbusy p" "same_renv e e1" "r_trace e1 = r_trace e" "wrote_port du p1 e1 p' e'"
  shows "fine p e p' e'"
  using wrote_fine [OF assms(9,2)] assms by (simp add: fine_def wrote_port_def same_renv_def)

lemma pending_round:
  assumes "pok p" "np_pending_du p = Some du" "n1_port_write_du (plen_add (-1) (p\<lparr>np_pending_du := None\<rparr>)) du e = (ret, p', e')"
  shows "fine p e p' e'"
proof -
  let ?p = "plen_add (-1) (p\<lparr>np_pending_du := None\<rparr>)"
  have w: "wt p = add_mset du (wt ?p)" using assms(2) by (simp add: waiting_def pending_def)
  then have "pok ?p" using assms(1) by (simp add: port_ok_def)
  then show ?thesis
    by (rule wrote_after [OF assms(1) _ w _ _ _ _ _ write_du_spec [OF assms(3)]]) (simp_all add: same_renv_def)
qed

lemma dequeue_some:
  assumes "pinv pr (r_time e)" "pok p" "np_pending_du p = None" "port_plen p \<noteq> 0"
  shows "\<exists>du q pr' e1. rmt_dequeue_policy ps (np_queues p) pr e = (Some du, Some q, pr', e1) \<and> pinv pr' (r_time e1) \<and> same_renv e e1 \<and>
    r_trace e1 = r_trace e \<and> pok (plen_add (-1) (p\<lparr>np_queues := Some q\<rparr>)) \<and>
    wt p = add_mset du (wt (plen_add (-1) (p\<lparr>np_queues := Some q\<rparr>)))"
proof -
  obtain q where q: "np_queues p = Some q" "qinv q" "port_plen p = of_nat (length (contents q))"
    using assms(2,3) by (auto simp: port_ok_def waiting_def pending_def)
  have ne: "contents q \<noteq> []" using q(3) assms(4) by auto
  from dequeue [OF assms(1) q(2)] ne obtain du q' pr' e1 where
    d: "rmt_dequeue_policy ps (Some q) pr e = (Some du, Some q', pr', e1)" "pinv pr' (r_time e1)" "qinv q'" "same_renv e e1" "r_trace e1 = r_trace e"
      "mset (contents q) = add_mset du (mset (contents q'))"
    by (auto split: option.splits)
  have "length (contents q) = Suc (length (contents q'))" using d(6) by (metis size_add_mset size_mset)
  with q d assms(3) show ?thesis by (auto simp: port_ok_def waiting_def pending_def)
qed

lemma send_loop_fine:
  assumes "pinv pr (r_time e)" "pok p" "send_loop ps n p pr e = (p', pr', e')"
  shows "fine p e p' e' \<and> pinv pr' (r_time e')"
  using assms
proof (induction n arbitrary: p pr e)
  case 0
  then show ?case by (simp add: fine_def)
next
  case (Suc n)
  have tx: "fine p e p' e' \<Longrightarrow> fine p e (stats_tx ret p') e'" "pok (stats_tx ret p') = pok p'" for p' e' ret
    by (simp_all add: fine_def)
  have cont: "fine p e p' e' \<and> pinv pr' (r_time e')"
    if "pinv pr1 (r_time e1)" "fine p e p1 e1" "(if ret < 0 then (p1, pr1, e1) else send_loop ps n (stats_tx ret p1) pr1 e1) = (p', pr', e')" for p1 e1 pr1 ret
  proof (cases "ret < 0")
    case False
    have "fine (stats_tx ret p1) e1 p' e' \<and> pinv pr' (r_time e')"
      using Suc.IH [of pr1 e1 "stats_tx ret p1"] that False by (auto simp: tx(2) fine_def)
    with tx(1) [OF that(2)] fine_trans show ?thesis by blast
  qed (use that in simp)
  show ?case
  proof (cases "port_plen p = 0")
    case True
    with Suc.prems show ?thesis by (simp add: fine_def)
  next
    case False
    show ?thesis
    proof (cases "np_pending_du p")
      case (Some du)
      obtain ret p1 e1 where w: "n1_port_write_du (plen_add (-1) (p\<lparr>np_pending_du := None\<rparr>)) du e = (ret, p1, e1)"
        by (metis prod_cases3)
      have "(if ret < 0 then (p1, pr, e1) else send_loop ps n (stats_tx ret p1) pr e1) = (p', pr', e')"
        using Suc.prems(3) False Some w by (simp add: Let_def)
      moreover have "pinv pr (r_time e1)" using Suc.prems(1) write_du_spec [OF w] by (simp add: wrote_port_def)
      ultimately show ?thesis using cont [OF _ pending_round [OF Suc.prems(2) Some w]] by blast
    next
      case None
      from dequeue_some [OF Suc.prems(1,2) None False] obtain du q pr1 e1 where
        d: "rmt_dequeue_policy ps (np_queues p) pr e = (Some du, Some q, pr1, e1)" "pinv pr1 (r_time e1)" "same_renv e e1" "r_trace e1 = r_trace e"
          "pok (plen_add (-1) (p\<lparr>np_queues := Some q\<rparr>))" "wt p = add_mset du (wt (plen_add (-1) (p\<lparr>np_queues := Some q\<rparr>)))" by blast
      obtain ret p2 e2 where w: "n1_port_write (plen_add (-1) (p\<lparr>np_queues := Some q\<rparr>)) du e1 = (ret, p2, e2)"
        by (metis prod_cases3)
      have "fine p e p2 e2"
        by (rule wrote_after [OF Suc.prems(2) d(5,6) _ _ _ d(3,4) write_spec [OF w]]) simp_all
      moreover have "(if ret < 0 then (p2, pr1, e2) else send_loop ps n (stats_tx ret p2) pr1 e2) = (p', pr', e')"
        using Suc.prems(3) False None d(1) w by (simp add: Let_def)
      moreover have "pinv pr1 (r_time e2)" using d(2) write_spec [OF w] by (simp add: wrote_port_def)
      ultimately show ?thesis using cont by blast
    qed
  qed
qed

lemma cleanup_gone:
  assumes "pok p"
  shows "gone (r_trace (n1_port_cleanup (Some ps) p e)) = wt p + gone (r_trace e)" "r_ms (n1_port_cleanup (Some ps) p e) = r_ms e"
    "r_time (n1_port_cleanup (Some ps) p e) = r_time e"
proof -
  obtain q where q: "np_queues p = Some q" "qinv q" using assms by (auto simp: port_ok_def)
  from queue_destroy [OF q(2), of e] obtain c ds where "mset ds = mset (contents q)" "rmt_q_destroy_policy ps (Some q) e = (c, destroy_all ds e)" by blast
  with q(1) show "gone (r_trace (n1_port_cleanup (Some ps) p e)) = wt p + gone (r_trace e)" "r_ms (n1_port_cleanup (Some ps) p e) = r_ms e"
    "r_time (n1_port_cleanup (Some ps) p e) = r_time e"
    by (auto simp: n1_port_cleanup_def n1_port_destroy_def destroy_all_def r_emit_def waiting_def pending_def split: option.split)
qed

lemma worker_port_spec:
  assumes "pinv pr (r_time e)" "pok p" "worker_port ps p pr e = (x, b, pr', e')"
  shows "(\<forall>p'. x = Some p' \<longrightarrow> pok p' \<and> np_port_id p' = np_port_id p)" "r_ms e' = r_ms e" "pinv pr' (r_time e')"
    "(case x of None \<Rightarrow> {#} | Some p' \<Rightarrow> wt p') + gone (r_trace e') = wt p + gone (r_trace e)"
proof -
  let ?p = "p\<lparr>np_refs_c := np_refs_c p + 1, np_wbusy := True\<rparr>"
  obtain p1 pr1 e1 where l: "send_loop ps MAX_PDUS_SENT_PER_CYCLE ?p pr e = (p1, pr1, e1)" by (metis prod_cases3)
  have p: "pok ?p" "wt ?p = wt p" using assms(2) by simp_all
  from send_loop_fine [OF assms(1) p(1) l] p(2) have f: "pok p1" "np_port_id p1 = np_port_id p" "r_ms e1 = r_ms e" "pinv pr1 (r_time e1)"
    "wt p1 + gone (r_trace e1) = wt p + gone (r_trace e)" by (simp_all add: fine_def)
  let ?p1 = "p1\<lparr>np_wbusy := False, np_refs_c := np_refs_c p1 - 1\<rparr>"
  have p1: "pok ?p1" "wt ?p1 = wt p1" using f(1) by simp_all
  from assms f p1 show "(\<forall>p'. x = Some p' \<longrightarrow> pok p' \<and> np_port_id p' = np_port_id p)" "r_ms e' = r_ms e" "pinv pr' (r_time e')"
    "(case x of None \<Rightarrow> {#} | Some p' \<Rightarrow> wt p') + gone (r_trace e') = wt p + gone (r_trace e)"
    by (auto simp: worker_port_def l cleanup_gone Let_def split: if_splits)
qed

lemma worker_ports_spec:
  assumes "pinv pr (r_time e)" "\<forall>p\<in>set xs. pok p" "worker_ports ps xs pr e = (ys, b, pr', e')"
  shows "(\<forall>p\<in>set ys. pok p) \<and> r_ms e' = r_ms e \<and> pinv pr' (r_time e') \<and>
    sum_list (map wt ys) + gone (r_trace e') = sum_list (map wt xs) + gone (r_trace e)"
  using assms
proof (induction xs arbitrary: pr e ys b pr' e')
  case (Cons p xs)
  obtain x b1 pr1 e1 where w: "worker_port ps p pr e = (x, b1, pr1, e1)" by (metis prod_cases4)
  obtain zs b2 pr2 e2 where ws: "worker_ports ps xs pr1 e1 = (zs, b2, pr2, e2)" by (metis prod_cases4)
  have "pok p" using Cons.prems(2) by simp
  note s = worker_port_spec [OF Cons.prems(1) this w]
  from Cons.IH [OF s(3) _ ws] Cons.prems(2) have ih: "\<forall>p\<in>set zs. pok p" "r_ms e2 = r_ms e1" "pinv pr2 (r_time e2)"
    "sum_list (map wt zs) + gone (r_trace e2) = sum_list (map wt xs) + gone (r_trace e1)" by auto
  have out: "ys = (case x of None \<Rightarrow> zs | Some p \<Rightarrow> p # zs)" "e' = e2" "pr' = pr2" using Cons.prems(3) by (auto simp: w ws)
  have "sum_list (map wt ys) + gone (r_trace e') =
      (case x of None \<Rightarrow> {#} | Some p' \<Rightarrow> wt p') + (sum_list (map wt zs) + gone (r_trace e2))"
    by (simp add: out(1,2) add.assoc split: option.split)
  also have "\<dots> = sum_list (map wt xs) + ((case x of None \<Rightarrow> {#} | Some p' \<Rightarrow> wt p') + gone (r_trace e1))"
    unfolding ih(4) by (simp add: ac_simps)
  also have "\<dots> = sum_list (map wt (p # xs)) + gone (r_trace e)"
    unfolding s(4) by (simp add: ac_simps)
  finally have "sum_list (map wt ys) + gone (r_trace e') = sum_list (map wt (p # xs)) + gone (r_trace e)" .
  moreover have "(\<forall>p\<in>set ys. pok p) \<and> r_ms e' = r_ms e \<and> pinv pr' (r_time e')"
    using s(1) ih(1,3) unfolding out s(2) [symmetric] ih(2) by (cases x) simp_all
  ultimately show ?case by blast
qed simp

abbreviation "rok \<equiv> rmt_ok pinv qinv contents"

abbreviation "rbal \<equiv> rmt_balance base contents"

lemma worker_keeps:
  assumes "rok r" "send_worker (Some ps) (Some r) = Some r'"
  shows "rok r'" "rbal r' = rbal r"
proof -
  obtain ys b pr e where w: "worker_ports ps (rm_ports r) (rm_priv r) ((rm_env r)\<lparr>r_sched := False\<rparr>) = (ys, b, pr, e)"
    by (metis prod_cases4)
  have "pinv (rm_priv r) (r_time ((rm_env r)\<lparr>r_sched := False\<rparr>))" "\<forall>p\<in>set (rm_ports r). pok p"
    using assms(1) by (simp_all add: rmt_ok_def)
  note s = worker_ports_spec [OF this w]
  from s assms w show "rok r'" by (auto simp: send_worker_def rmt_ok_def schedule_def)
  from s [THEN conjunct2, THEN conjunct2, THEN conjunct2] assms w show "rbal r' = rbal r"
    unfolding rmt_balance_def balance_def by (auto simp: send_worker_def schedule_def simp del: image_mset_union)
qed

text \<open>A port that \<^verbatim>\<open>n1pmap_find\<close> gives, changed and written back or released.\<close>

lemma found_port:
  assumes "n1pmap_find i r = (Some p, r1)"
  obtains as bs x where "rm_ports r = as @ x # bs" "p = x\<lparr>np_refs_c := np_refs_c x + 1\<rparr>" "np_port_id p = i"
    "r1 = r\<lparr>rm_ports := as @ p # bs\<rparr>" "\<forall>a\<in>set as. np_port_id a \<noteq> i" "np_state x \<noteq> N1_PORT_STATE_DEALLOCATED"
proof -
  from assms obtain x where x: "find_port i (rm_ports r) = Some x" "p = x\<lparr>np_refs_c := np_refs_c x + 1\<rparr>"
    "r1 = r\<lparr>rm_ports := set_port p (rm_ports r)\<rparr>" "np_state x \<noteq> N1_PORT_STATE_DEALLOCATED"
    by (auto simp: n1pmap_find_def Let_def split: if_splits option.splits)
  from find_port_split [OF x(1)] obtain as bs where
    "rm_ports r = as @ x # bs" "np_port_id x = i" "\<forall>a\<in>set as. np_port_id a \<noteq> i" by blast
  with x that show ?thesis by (auto simp: port_list_simps)
qed

lemma found_id: "n1pmap_find i r = (Some p, r1) \<Longrightarrow> np_port_id p = i"
  by (erule found_port)

lemma found_ok:
  assumes "n1pmap_find i r = (Some p, r1)" "rok r"
  shows "rok r1" "rbal r1 = rbal r" "pok p" "rm_env r1 = rm_env r" "rm_priv r1 = rm_priv r"
proof -
  from assms(1) obtain as bs x where x: "rm_ports r = as @ x # bs" "p = x\<lparr>np_refs_c := np_refs_c x + 1\<rparr>"
    "r1 = r\<lparr>rm_ports := as @ p # bs\<rparr>" by (rule found_port)
  have p: "wt p = wt x" "pok p = pok x" using x(2) by simp_all
  with x assms(2) show "rok r1" "rbal r1 = rbal r" "pok p" "rm_env r1 = rm_env r" "rm_priv r1 = rm_priv r"
    by (simp_all add: rmt_ok_def rmt_balance_def balance_def)
qed

text \<open>The new state of the port and of the environment differ from the old ones by the PDUs \<open>M\<close>.\<close>

lemma set_found_ok:
  assumes "n1pmap_find i r = (Some p, r1)" "rok r" "pinv pr (r_time e)" "pok p'" "np_port_id p' = i" "r_ms e = []"
    "image_mset base (wt p' + gone (r_trace e)) = image_mset base (wt p + gone (r_trace (rm_env r))) + M"
    and r': "r' = r1\<lparr>rm_ports := set_port p' (rm_ports r1), rm_priv := pr, rm_env := e\<rparr>"
  shows "rok r'" "rbal r' = rbal r + M"
proof -
  from assms(1) obtain as bs x where x: "rm_ports r = as @ x # bs" "p = x\<lparr>np_refs_c := np_refs_c x + 1\<rparr>" "np_port_id p = i"
    "r1 = r\<lparr>rm_ports := as @ p # bs\<rparr>" "\<forall>a\<in>set as. np_port_id a \<noteq> i" by (rule found_port)
  have w: "wt p = wt x" using x(2) by simp
  have ports: "rm_ports r' = as @ p' # bs" "rm_env r' = e" "rm_priv r' = pr" using x assms(5) by (simp_all add: r' port_list_simps)
  show "rok r'" using assms(2-4,6) x(1) by (simp add: rmt_ok_def ports)
  have "rbal r' = image_mset base (sum_list (map wt as) + sum_list (map wt bs)) + image_mset base (wt p' + gone (r_trace e))"
    by (simp add: rmt_balance_def balance_def ports ac_simps)
  also have "\<dots> = rbal r + M" unfolding assms(7) w by (simp add: rmt_balance_def balance_def x(1) ac_simps)
  finally show "rbal r' = rbal r + M" .
qed

lemma release_ok:
  assumes f: "n1pmap_find i r = (Some p, r1)" and "rok r" "pinv pr (r_time e)" "pok p'" "np_port_id p' = i" "r_ms e = []"
    "image_mset base (wt p' + gone (r_trace e)) = image_mset base (wt p + gone (r_trace (rm_env r))) + M"
    and r': "r' = n1pmap_release (Some ps) p' (r1\<lparr>rm_priv := pr, rm_env := e\<rparr>)"
  shows "rok r'" "rbal r' = rbal r + M"
proof -
  let ?p = "p'\<lparr>np_refs_c := np_refs_c p' - 1\<rparr>"
  have p: "pok ?p" "wt ?p = wt p'" using assms(4) by simp_all
  have "rok r' \<and> rbal r' = rbal r + M"
  proof (cases "np_refs_c ?p = 0 \<and> np_state ?p = N1_PORT_STATE_DEALLOCATED")
    case False
    then have "r' = r1\<lparr>rm_ports := set_port ?p (rm_ports r1), rm_priv := pr, rm_env := e\<rparr>"
      by (auto simp: r' n1pmap_release_def Let_def)
    from set_found_ok [OF f assms(2,3) p(1) _ assms(6) _ this] p(2) assms(5,7) show ?thesis by simp
  next
    case True
    from f obtain as bs x where x: "rm_ports r = as @ x # bs" "p = x\<lparr>np_refs_c := np_refs_c x + 1\<rparr>" "np_port_id p = i"
      "r1 = r\<lparr>rm_ports := as @ p # bs\<rparr>" "\<forall>a\<in>set as. np_port_id a \<noteq> i" by (rule found_port)
    have w: "wt p = wt x" using x(2) by simp
    have ports: "rm_ports r' = as @ bs" "rm_env r' = n1_port_cleanup (Some ps) ?p e"
      using True x assms(5) by (simp_all add: r' n1pmap_release_def port_list_simps)
    note c = cleanup_gone [OF p(1), of e, unfolded p(2)]
    have "rbal r' = image_mset base (sum_list (map wt as) + sum_list (map wt bs)) + image_mset base (wt p' + gone (r_trace e))"
      by (simp add: rmt_balance_def balance_def ports c ac_simps)
    also have "\<dots> = rbal r + M" unfolding assms(7) w by (simp add: rmt_balance_def balance_def x(1) ac_simps)
    moreover have "rm_priv r' = pr" by (simp add: r' n1pmap_release_def Let_def)
    ultimately show ?thesis using assms(2,3,6) x(1) c(2,3) by (simp add: rmt_ok_def ports)
  qed
  then show "rok r'" "rbal r' = rbal r + M" by auto
qed

lemma enqueue_spec:
  assumes "pinv pr (r_time e)" "pok p" "r_ms e = []"
  shows "\<exists>c du' q' pr' e'. rmt_enqueue_policy ps must (Some du) (np_queues p) pr e = Some (c, Some du', Some q', pr', e') \<and>
      pinv pr' (r_time e') \<and> qinv q' \<and> same_renv e e' \<and> enq_result base must du (wt p) e c du' (wt (p\<lparr>np_queues := Some q'\<rparr>)) e'"
proof -
  obtain q where q: "np_queues p = Some q" "qinv q" using assms(2) by (auto simp: port_ok_def)
  from enqueue [OF assms(1) q(2) assms(3), of must du] obtain c du' q' pr' e' where
    en: "rmt_enqueue_policy ps must (Some du) (Some q) pr e = Some (c, Some du', Some q', pr', e')" "pinv pr' (r_time e')" "qinv q'" "same_renv e e'"
      "enq_result base must du (mset (contents q)) e c du' (mset (contents q')) e'" by (elim exE conjE) rule
  have "wt p = mset (pending p) + mset (contents q)" "wt (p\<lparr>np_queues := Some q'\<rparr>) = mset (pending p) + mset (contents q')"
    using q(1) by (simp_all add: waiting_def pending_def)
  with en(5) have "enq_result base must du (wt p) e c du' (wt (p\<lparr>np_queues := Some q'\<rparr>)) e'"
    by (auto simp: enq_result_def)
  with en q(1) show ?thesis by (intro exI [of _ c] exI [of _ du'] exI [of _ q'] exI [of _ pr'] exI [of _ e']) simp
qed

lemma find_none: "n1pmap_find i r = (None, r1) \<Longrightarrow> r1 = r"
  by (auto simp: n1pmap_find_def Let_def split: if_splits option.splits)

lemma destroyed_ok:
  assumes "rok r"
  shows "rok (r\<lparr>rm_env := r_emit (Destroyed du) (rm_env r)\<rparr>)"
    "rbal (r\<lparr>rm_env := r_emit (Destroyed du) (rm_env r)\<rparr>) = rbal r + {#base du#}"
  using assms by (simp_all add: rmt_ok_def rmt_balance_def balance_def r_emit_def)

text \<open>The port a send leaves behind, before its reference is given up.\<close>

lemma send_queued:
  assumes "pok p" "qinv q" "wt (p\<lparr>np_queues := Some q\<rparr>) = add_mset du (wt p)"
  shows "pok (plen_add 1 (p\<lparr>np_queues := Some q\<rparr>))"
  using assms by (simp add: port_ok_def)

lemma send_kept:
  assumes "pok p" "qinv q" "wt (p\<lparr>np_queues := Some q\<rparr>) = wt p"
  shows "pok (p\<lparr>np_queues := Some q\<rparr>)"
  using assms by (simp add: port_ok_def)

lemma send_direct:
  assumes "pok p" "qinv q" "wt (p\<lparr>np_queues := Some q\<rparr>) = wt p" "base du' = base du" "r_ms e = []"
    "n1_port_write (p\<lparr>np_queues := Some q, np_wbusy := True\<rparr>) du' e = (ret, p2, e2)"
    and p3: "p3 = (if ret \<ge> 0 then stats_tx ret (p2\<lparr>np_wbusy := False\<rparr>) else p2\<lparr>np_wbusy := False\<rparr>)"
  shows "pok p3" "np_port_id p3 = np_port_id p" "r_ms e2 = []" "r_time e2 = r_time e"
    "image_mset base (wt p3 + gone (r_trace e2)) = image_mset base (wt p + gone (r_trace e)) + {#base du#}"
proof -
  have "pok (p\<lparr>np_queues := Some q, np_wbusy := True\<rparr>)" using send_kept [OF assms(1-3)] by simp
  note s = wrote_fine [OF write_spec [OF assms(6)] this]
  show "pok p3" "np_port_id p3 = np_port_id p" "r_ms e2 = []" "r_time e2 = r_time e"
    using s(1) write_spec [OF assms(6)] assms(5) by (simp_all add: p3 wrote_port_def)
  have "wt p3 = wt p2" by (simp add: p3)
  then show "image_mset base (wt p3 + gone (r_trace e2)) = image_mset base (wt p + gone (r_trace e)) + {#base du#}"
    using s(2) assms(3,4) by (simp flip: image_mset_union)
qed

lemma send_done:
  assumes "n1pmap_find i r = (Some p, r1)" "rok r" "pinv pr (r_time e)" "pok p'" "np_port_id p' = i" "r_ms e = []"
    "image_mset base (wt p' + gone (r_trace e)) = image_mset base (wt p + gone (r_trace (rm_env r))) + {#base du#}"
    "rmt_send_port_id (Some ps) r i (Some du) = Some (c, n1pmap_release (Some ps) p' (r1\<lparr>rm_priv := pr, rm_env := e\<rparr>))"
  shows "\<exists>c r'. rmt_send_port_id (Some ps) r i (Some du) = Some (c, r') \<and> rok r' \<and> rbal r' = rbal r + {#base du#}"
  using release_ok [OF assms(1-7) refl] assms(8) by blast

lemma send_found:
  assumes f: "n1pmap_find i r = (Some p, r1)" and "rok r"
  shows "\<exists>c r'. rmt_send_port_id (Some ps) r i (Some du) = Some (c, r') \<and> rok r' \<and> rbal r' = rbal r + {#base du#}"
proof -
  let ?must = "port_plen p \<noteq> 0 \<or> np_wbusy p \<or> np_state p = N1_PORT_STATE_DISABLED"
  note fo = found_ok [OF f assms(2)] found_id [OF f]
  have ms: "pinv (rm_priv r) (r_time (rm_env r))" "r_ms (rm_env r) = []" using assms by (simp_all add: rmt_ok_def)
  from enqueue_spec [OF ms(1) fo(3) ms(2), of ?must du] obtain c du' q pr e where
    en: "rmt_enqueue_policy ps ?must (Some du) (np_queues p) (rm_priv r) (rm_env r) = Some (c, Some du', Some q, pr, e)"
      "pinv pr (r_time e)" "qinv q" "same_renv (rm_env r) e" "enq_result base ?must du (wt p) (rm_env r) c du' (wt (p\<lparr>np_queues := Some q\<rparr>)) e"
    by (elim exE conjE) rule
  let ?p = "p\<lparr>np_queues := Some q\<rparr>"
  have e: "r_ms e = []" "r_ms (schedule e) = []" "r_time (schedule e) = r_time e" using en(4) ms by (simp_all add: same_renv_def schedule_def)
  have b: "base du' = base du" using en(5) by (simp add: enq_result_def)
  from en(5) consider
      "c = RMT_PS_ENQ_SEND" "\<not> ?must" "wt ?p = wt p" "r_trace e = r_trace (rm_env r)"
    | "c = RMT_PS_ENQ_SCHED" "wt ?p = add_mset du' (wt p)" "r_trace e = r_trace (rm_env r)"
    | "c = RMT_PS_ENQ_DROP" "wt ?p = wt p" "r_trace e = r_trace (rm_env r) @ [Destroyed du']"
    unfolding enq_result_def by blast
  then show ?thesis
  proof cases
    case 1
    obtain ret p2 e2 where w: "n1_port_write (?p\<lparr>np_wbusy := True\<rparr>) du' e = (ret, p2, e2)" by (metis prod_cases3)
    define p3 where "p3 = (if ret \<ge> 0 then stats_tx ret (p2\<lparr>np_wbusy := False\<rparr>) else p2\<lparr>np_wbusy := False\<rparr>)"
    note d = send_direct [OF fo(3) en(3) 1(3) b e(1) w p3_def, unfolded fo(6) 1(4)]
    show ?thesis
      by (rule send_done [OF f assms(2) _ d(1-3,5), where pr = pr and c = "if ret \<ge> 0 \<or> ret = - EAGAIN then 0 else ret"])
        (use 1(1,2) en(1,2) d(4) w f fo(4,5) in \<open>simp_all add: rmt_send_port_id_def Let_def p3_def enq_codes\<close>)
  next
    case 2
    show ?thesis
      by (rule send_done [OF f assms(2) _ send_queued [OF fo(3) en(3) 2(2)] _ e(2), where pr = pr and c = 0])
        (use 2 b e(3) fo(4-6) en(1,2) f in \<open>simp_all add: rmt_send_port_id_def Let_def enq_codes schedule_def\<close>)
  next
    case 3
    show ?thesis
      by (rule send_done [OF f assms(2) en(2) _ _ e(1), where c = 0
            and p' = "stats_upd (\<lambda>s. s\<lparr>drop_pdus := drop_pdus s + 1\<rparr>) ?p"])
        (use 3 b fo(4-6) en(1) f send_kept [OF fo(3) en(3) 3(2)] in \<open>simp_all add: rmt_send_port_id_def Let_def enq_codes\<close>)
  qed
qed

lemma send_port_id_ok:
  assumes "rok r"
  shows "\<exists>c r'. rmt_send_port_id (Some ps) r i (Some du) = Some (c, r') \<and> rok r' \<and> rbal r' = rbal r + {#base du#}"
proof (cases "n1pmap_find i r")
  case (Pair x r1)
  show ?thesis
  proof (cases x)
    case None
    with Pair have "r1 = r" by (auto dest: find_none)
    with Pair None destroyed_ok [OF assms, of du] show ?thesis by (simp add: rmt_send_port_id_def destroy_def)
  qed (use Pair assms send_found in blast)
qed

lemma restate_ok:
  assumes f: "n1pmap_find i r = (Some p, r1)" and "rok r"
    and r': "r' = r1\<lparr>rm_ports := set_port (port_unlock_release (p\<lparr>np_state := st\<rparr>)) (rm_ports r1)\<rparr>"
  shows "rok r'" "rbal r' = rbal r" "rok (r'\<lparr>rm_env := schedule (rm_env r1)\<rparr>)" "rbal (r'\<lparr>rm_env := schedule (rm_env r1)\<rparr>) = rbal r"
proof -
  let ?p = "port_unlock_release (p\<lparr>np_state := st\<rparr>)"
  have p: "pok ?p" "np_port_id ?p = i" "r_ms (rm_env r) = []" "wt ?p = wt p" "pinv (rm_priv r1) (r_time (rm_env r))"
    using found_ok(3-5) [OF f assms(2)] found_id [OF f] assms(2) by (simp_all add: port_unlock_release_def rmt_ok_def)
  have "r' = r1\<lparr>rm_ports := set_port ?p (rm_ports r1), rm_priv := rm_priv r1, rm_env := rm_env r\<rparr>"
    using found_ok(4) [OF f assms(2)] by (simp add: r')
  from set_found_ok [OF f assms(2) p(5,1-3) _ this, of "{#}"] p(4) show "rok r'" "rbal r' = rbal r" by simp_all
  then show "rok (r'\<lparr>rm_env := schedule (rm_env r1)\<rparr>)" "rbal (r'\<lparr>rm_env := schedule (rm_env r1)\<rparr>) = rbal r"
    by (simp_all add: r' rmt_ok_def rmt_balance_def balance_def schedule_def)
qed

lemma enable_ok: "rok r \<Longrightarrow> \<exists>r'. snd (rmt_enable_port_id (Some r) i) = Some r' \<and> rok r' \<and> rbal r' = rbal r"
  by (cases "n1pmap_find i r")
    (auto simp: rmt_enable_port_id_def enable_port_def restate_ok [OF _ _ refl, simplified] dest: find_none split: option.split)

lemma disable_ok: "rok r \<Longrightarrow> \<exists>r'. snd (rmt_disable_port_id (Some r) i) = Some r' \<and> rok r' \<and> rbal r' = rbal r"
  by (cases "n1pmap_find i r")
    (auto simp: rmt_disable_port_id_def disable_port_def restate_ok [OF _ _ refl, simplified] dest: find_none split: option.split)

lemma unbind_ok: "rok r \<Longrightarrow> \<exists>r'. snd (rmt_n1port_unbind (Some ps) (Some r) i) = Some r' \<and> rok r' \<and> rbal r' = rbal r"
proof (cases "n1pmap_find i r")
  case (Pair x r1)
  assume r: "rok r"
  show ?thesis
  proof (cases x)
    case (Some p)
    have f: "n1pmap_find i r = (Some p, r1)" using Pair Some by simp
    let ?p = "p\<lparr>np_state := N1_PORT_STATE_DEALLOCATED\<rparr>"
    have "r1 = r1\<lparr>rm_priv := rm_priv r1, rm_env := rm_env r\<rparr>" using found_ok(4) [OF f r] by simp
    then have "n1pmap_release (Some ps) ?p r1 = n1pmap_release (Some ps) ?p (r1\<lparr>rm_priv := rm_priv r1, rm_env := rm_env r\<rparr>)" by simp
    from release_ok [OF f r _ _ _ _ _ this, of "{#}"] found_ok(3,5) [OF f r] found_id [OF f] r f show ?thesis
      by (auto simp: rmt_n1port_unbind_def rmt_ok_def)
  qed (use Pair r find_none in \<open>auto simp: rmt_n1port_unbind_def\<close>)
qed

lemma bind_ok: "rok r \<Longrightarrow> \<exists>r'. snd (rmt_n1port_bind hsh True True True (Some ps) (Some r) i) = Some r' \<and> rok r' \<and> rbal r' = rbal r"
proof (cases "n1pmap_find i r")
  case (Pair x r1)
  assume r: "rok r"
  show ?thesis
  proof (cases x)
    case (Some p)
    with Pair found_ok [of i r p r1] r show ?thesis by (simp add: rmt_n1port_bind_def)
  next
    case None
    with Pair find_none have f: "n1pmap_find i r = (None, r)" by blast
    have ms: "pinv (rm_priv r) (r_time (rm_env r))" "r_ms (rm_env r) = []" using r by (simp_all add: rmt_ok_def)
    then obtain q where q: "rmt_q_create_policy ps i (rm_priv r) (rm_env r) = (Some q, rm_env r)" "qinv q" "contents q = []"
      using queue_create by blast
    note a = alloc_ok [OF ms(2)]
    obtain p :: "'q rmt_n1_port" where p: "n1_port_create True i = Some p" "np_pending_du p = None" "port_plen p = 0" "np_port_id p = i"
      by (simp add: n1_port_create_def)
    let ?p = "p\<lparr>np_queues := Some q\<rparr>"
    let ?r = "r\<lparr>rm_ports := hash_add hsh ?p (rm_ports r)\<rparr>"
    have n: "pok ?p" "wt ?p = {#}" using p q by (simp_all add: port_ok_def waiting_def pending_def)
    have "rok ?r" "rbal ?r = rbal r" using r n by (simp_all add: rmt_ok_def rmt_balance_def balance_def hash_add_mset)
    moreover have "rmt_n1port_bind hsh True True True (Some ps) (Some r) i = (if is_port_id_ok i then (0, Some ?r) else (-1, Some r))"
      by (simp add: rmt_n1port_bind_def f a p(1) q(1))
    ultimately show ?thesis using r by simp
  qed
qed

text \<open>No operation faults, and none loses or invents a PDU.\<close>

lemma step_ok:
  assumes "rok r"
  shows "\<exists>r'. rmt_step hsh ps op r = Some r' \<and> rok r' \<and> rbal r' = rbal r + image_mset base (mset (submitted [op]))"
proof (cases op)
  case (RSend i du)
  with send_port_id_ok [OF assms, of i du] show ?thesis by auto
next
  case RWorker
  obtain r' where "send_worker (Some ps) (Some r) = Some r'" by (simp add: send_worker_def Let_def split_beta)
  with worker_keeps [OF assms this] RWorker show ?thesis by simp
qed (use assms enable_ok disable_ok bind_ok unbind_ok in simp_all)

lemma submitted_Cons: "submitted (op # ops) = submitted [op] @ submitted ops"
  by (cases op) simp_all

lemma run_ok:
  assumes "rok r"
  shows "\<exists>r'. rmt_run hsh ps ops r = Some r' \<and> rok r' \<and> rbal r' = rbal r + image_mset base (mset (submitted ops))"
  using assms
proof (induction ops arbitrary: r)
  case (Cons op ops)
  from step_ok [OF Cons.prems, of hsh op] obtain r1 where
    r1: "rmt_step hsh ps op r = Some r1" "rok r1" "rbal r1 = rbal r + image_mset base (mset (submitted [op]))" by blast
  from Cons.IH [OF r1(2)] obtain r2 where
    "rmt_run hsh ps ops r1 = Some r2" "rok r2" "rbal r2 = rbal r1 + image_mset base (mset (submitted ops))" by blast
  with r1 show ?case by (subst submitted_Cons) simp
qed simp

text \<open>One copy of a PDU goes to each of the next hops.\<close>

lemma send_ports_ok:
  assumes "rok r" "pids \<noteq> []"
  shows "\<exists>r'. send_ports (Some ps) pids du r = Some r' \<and> rok r' \<and> rbal r' = rbal r + replicate_mset (length pids) (base du)"
  using assms
proof (induction pids arbitrary: r)
  case (Cons i js)
  show ?case
  proof (cases js)
    case Nil
    with send_port_id_ok [OF Cons.prems(1), of i du] show ?thesis by auto
  next
    case (Cons j ks)
    have "rmt_dup du (rm_env r) = (Some du, rm_env r)" using Cons.prems(1) by (simp add: rmt_dup_def rmt_ok_def)
    moreover obtain c r1 where "rmt_send_port_id (Some ps) r i (Some du) = Some (c, r1)" "rok r1" "rbal r1 = rbal r + {#base du#}"
      using send_port_id_ok [OF Cons.prems(1), of i du] by blast
    moreover from Cons.IH [OF this(2)] Cons obtain r2 where
      "send_ports (Some ps) js du r1 = Some r2" "rok r2" "rbal r2 = rbal r1 + replicate_mset (length js) (base du)" by blast
    ultimately show ?thesis using Cons by simp
  qed
qed simp

lemma rmt_send_ok:
  assumes "rok r" "pff_nhop [] (rm_pff r) (Some (p_dst du, p_qos du)) (rm_cache r) = (c, pids, [])"
  shows "\<exists>r'. rmt_send (Some ps) (Some r) (Some du) = Some (if pdu_type_is_ok (p_type du) \<and> c = 0 then 0 else -1, Some r') \<and> rok r' \<and>
    rbal r' = rbal r + replicate_mset (if pdu_type_is_ok (p_type du) \<and> c = 0 \<and> pids \<noteq> [] then length pids else 1) (base du)"
proof -
  let ?r = "r\<lparr>rm_cache := pids\<rparr>"
  have ms: "r_ms (rm_env r) = []" "(rm_env r)\<lparr>r_ms := []\<rparr> = rm_env r" using assms(1) by (simp_all add: rmt_ok_def)
  have o: "rok ?r" "rbal ?r = rbal r" using assms(1) by (simp_all add: rmt_ok_def rmt_balance_def)
  show ?thesis
    using destroyed_ok [OF assms(1), of du] destroyed_ok [OF o(1), of du] send_ports_ok [OF o(1), of pids du] o(2)
    by (cases "pids = []") (auto simp: rmt_send_def assms(2) ms Let_def)
qed

text \<open>Destroying the RMT destroys whatever still waits.\<close>

lemma destroy_ok:
  assumes "rok r"
  shows "\<exists>e. rmt_destroy (Some ps) (Some r) = (0, Some e) \<and> image_mset base (gone (r_trace e)) = rbal r"
proof -
  have "\<forall>p\<in>set xs. pok p \<Longrightarrow> gone (r_trace (cleanup_all (Some ps) xs e)) = sum_list (map wt xs) + gone (r_trace e)" for xs e
  proof (induction xs arbitrary: e)
    case (Cons p xs)
    then show ?case by (simp add: cleanup_gone n1_port_user_ipcp_unbind_def r_emit_def)
  qed simp
  with assms show ?thesis by (simp add: rmt_destroy_def n1pmap_destroy_def rmt_balance_def balance_def rmt_ok_def)
qed

text \<open>
  Progress: while the IPC processes below take every PDU, a run of the worker sends ten PDUs of each
  enabled port, or all of them.
\<close>

abbreviation "ready \<equiv> port_ready qinv contents"

lemma write_du_willing:
  assumes "willing e"
  shows "\<exists>e'. n1_port_write_du p du e = (r_len e du, p, e') \<and> willing e' \<and> r_sched e' = r_sched e \<and> r_time e' = r_time e \<and>
    r_trace e' = r_trace e @ [Written (np_port_id p) du]"
  using assms by (auto simp: n1_port_write_du_def willing_def r_emit_def Let_def)

lemma write_willing:
  assumes "willing e"
  shows "\<exists>e'. n1_port_write p du e = (r_len e du, p, e') \<and> willing e' \<and> r_sched e' = r_sched e \<and> r_time e' = r_time e \<and>
    r_trace e' = r_trace e @ [Written (np_port_id p) du]"
proof -
  have e: "e\<lparr>r_sdup := []\<rparr> = e" "r_sdup e = []" using assms by (simp_all add: willing_def)
  from write_du_willing [OF assms, of p du] show ?thesis by (simp add: n1_port_write_def e Let_def)
qed

lemma plen_zero: "pok p \<Longrightarrow> size (wt p) < 2 ^ 32 \<Longrightarrow> port_plen p = 0 \<longleftrightarrow> wt p = {#}"
  using word_of_nat_eq_0_iff [where 'a = 32, of "size (wt p)"] by (auto simp: port_ok_def dest: nat_dvd_not_less)

lemma send_loop_drains:
  assumes "pinv pr (r_time e)" "willing e" "pok p" "size (wt p) < 2 ^ 32" "send_loop ps n p pr e = (p', pr', e')"
  shows "willing e' \<and> size (wt p') = size (wt p) - n \<and> np_state p' = np_state p \<and> r_sched e' = r_sched e"
  using assms
proof (induction n arbitrary: p pr e)
  case (Suc n)
  have next_round: "willing e' \<and> size (wt p') = size (wt p) - Suc n \<and> np_state p' = np_state p \<and> r_sched e' = r_sched e"
    if "pinv pr1 (r_time e1)" "willing e1" "r_sched e1 = r_sched e" "pok p1" "wt p = add_mset du (wt p1)" "np_state p1 = np_state p"
      "send_loop ps n (stats_tx l p1) pr1 e1 = (p', pr', e')" for e1 p1 du l pr1
    using Suc.IH [of pr1 e1 "stats_tx l p1"] that Suc.prems(4) by simp
  show ?case
  proof (cases "port_plen p = 0")
    case True
    with Suc.prems plen_zero [OF Suc.prems(3,4)] show ?thesis by simp
  next
    case False
    show ?thesis
    proof (cases "np_pending_du p")
      case (Some du)
      let ?p = "plen_add (-1) (p\<lparr>np_pending_du := None\<rparr>)"
      have w: "wt p = add_mset du (wt ?p)" using Some by (simp add: waiting_def pending_def)
      then have o: "pok ?p" using Suc.prems(3) by (simp add: port_ok_def)
      from write_du_willing [OF Suc.prems(2)] obtain e1 where
        e1: "n1_port_write_du ?p du e = (r_len e du, ?p, e1)" "willing e1" "r_sched e1 = r_sched e" "r_time e1 = r_time e" by blast
      have "0 \<le> r_len e du" using Suc.prems(2) by (simp add: willing_def)
      with next_round [OF _ e1(2,3) o w] Suc.prems(1,5) False Some e1(1,4) show ?thesis by (simp add: Let_def)
    next
      case None
      from dequeue_some [OF Suc.prems(1,3) None False] obtain du q pr1 e1 where
        d: "rmt_dequeue_policy ps (np_queues p) pr e = (Some du, Some q, pr1, e1)" "pinv pr1 (r_time e1)" "same_renv e e1"
          "pok (plen_add (-1) (p\<lparr>np_queues := Some q\<rparr>))" "wt p = add_mset du (wt (plen_add (-1) (p\<lparr>np_queues := Some q\<rparr>)))" by blast
      have "willing e1" using Suc.prems(2) d(3) by (simp add: willing_def same_renv_def)
      from write_willing [OF this] obtain e2 where
        e2: "n1_port_write (plen_add (-1) (p\<lparr>np_queues := Some q\<rparr>)) du e1 = (r_len e1 du, plen_add (-1) (p\<lparr>np_queues := Some q\<rparr>), e2)"
          "willing e2" "r_sched e2 = r_sched e1" "r_time e2 = r_time e1" by blast
      have "0 \<le> r_len e1 du" using \<open>willing e1\<close> by (simp add: willing_def)
      moreover have "r_sched e2 = r_sched e" using e2(3) d(3) by (simp add: same_renv_def)
      ultimately show ?thesis using next_round [OF _ e2(2) _ d(4,5)] Suc.prems(5) False None d(1,2) e2(1,4) by (simp add: Let_def)
    qed
  qed
qed simp

lemma worker_port_drains:
  assumes "pinv pr (r_time e)" "willing e" "ready p" "worker_port ps p pr e = (x, b, pr', e')"
  shows "\<exists>p'. x = Some p' \<and> ready p' \<and> size (wt p') = size (wt p) - 10 \<and> willing e' \<and> (b \<longleftrightarrow> wt p' \<noteq> {#}) \<and> r_sched e' = r_sched e \<and> pinv pr' (r_time e')"
proof -
  let ?p = "p\<lparr>np_refs_c := np_refs_c p + 1, np_wbusy := True\<rparr>"
  have p: "pok p" "np_state p \<in> {N1_PORT_STATE_ENABLED, N1_PORT_STATE_DO_NOT_DISABLE}" "\<not> np_wbusy p" "size (wt p) < 2 ^ 32"
    using assms(3) by (simp_all add: port_ready_def)
  obtain p1 pr1 e1 where l: "send_loop ps MAX_PDUS_SENT_PER_CYCLE ?p pr e = (p1, pr1, e1)" by (metis prod_cases3)
  have "pok ?p" "size (wt ?p) < 2 ^ 32" using p by simp_all
  note d = send_loop_drains [OF assms(1,2) this l] send_loop_fine [OF assms(1) this(1) l]
  show ?thesis
  proof (cases "port_plen p = 0")
    case True
    then have "wt p = {#}" using plen_zero [OF p(1,4)] by simp
    with True p assms show ?thesis by (auto simp: worker_port_def)
  next
    case False
    from d p have "pok p1" "size (wt p1) < 2 ^ 32" "np_state p1 = np_state p" by (auto simp: fine_def)
    moreover note plen_zero [OF this(1,2)]
    ultimately show ?thesis using d p False assms(4) l
      by (auto simp: worker_port_def port_ready_def Let_def MAX_PDUS_SENT_PER_CYCLE_def)
  qed
qed

lemma worker_ports_drain:
  assumes "pinv pr (r_time e)" "willing e" "\<forall>p\<in>set xs. ready p" "worker_ports ps xs pr e = (ys, b, pr', e')"
  shows "list_all2 (\<lambda>p p'. ready p' \<and> size (wt p') = size (wt p) - 10) xs ys \<and> willing e' \<and> r_sched e' = r_sched e \<and> pinv pr' (r_time e') \<and>
    (b \<longleftrightarrow> (\<exists>p\<in>set ys. wt p \<noteq> {#}))"
  using assms
proof (induction xs arbitrary: pr e ys b pr' e')
  case (Cons p xs)
  obtain x b1 pr1 e1 where w: "worker_port ps p pr e = (x, b1, pr1, e1)" by (metis prod_cases4)
  obtain zs b2 pr2 e2 where ws: "worker_ports ps xs pr1 e1 = (zs, b2, pr2, e2)" by (metis prod_cases4)
  from Cons.prems(3) have "ready p" by simp
  from worker_port_drains [OF Cons.prems(1,2) this w] obtain p' where
    p': "x = Some p'" "ready p'" "size (wt p') = size (wt p) - 10" "willing e1" "b1 \<longleftrightarrow> wt p' \<noteq> {#}" "r_sched e1 = r_sched e" "pinv pr1 (r_time e1)" by blast
  from Cons.IH [OF p'(7,4) _ ws] Cons.prems(3) p' Cons.prems(4) w ws show ?case by auto
qed simp

lemma worker_step_drains:
  assumes "pinv (rm_priv r) (r_time (rm_env r))" "willing (rm_env r)" "\<forall>p\<in>set (rm_ports r). ready p"
  shows "\<exists>r'. send_worker (Some ps) (Some r) = Some r' \<and> pinv (rm_priv r') (r_time (rm_env r')) \<and> willing (rm_env r') \<and> 
    list_all2 (\<lambda>p p'. ready p' \<and> size (wt p') = size (wt p) - 10) (rm_ports r) (rm_ports r') \<and>
    (r_sched (rm_env r') \<longleftrightarrow> (\<exists>p\<in>set (rm_ports r'). wt p \<noteq> {#}))"
proof -
  obtain ys b pr e where w: "worker_ports ps (rm_ports r) (rm_priv r) ((rm_env r)\<lparr>r_sched := False\<rparr>) = (ys, b, pr, e)"
    by (metis prod_cases4)
  have "pinv (rm_priv r) (r_time ((rm_env r)\<lparr>r_sched := False\<rparr>))" "willing ((rm_env r)\<lparr>r_sched := False\<rparr>)"
    using assms(1,2) by (simp_all add: willing_def)
  from worker_ports_drain [OF this assms(3) w] w show ?thesis
    by (auto simp: send_worker_def schedule_def willing_def)
qed

lemma worker_drains:
  assumes "pinv (rm_priv r) (r_time (rm_env r))" "willing (rm_env r)" "\<forall>p\<in>set (rm_ports r). ready p" "\<forall>p\<in>set (rm_ports r). size (wt p) \<le> 10 * n" "n \<noteq> 0"
  shows "\<exists>r'. rmt_run hsh ps (replicate n RWorker) r = Some r' \<and> (\<forall>p\<in>set (rm_ports r'). wt p = {#}) \<and> \<not> r_sched (rm_env r')"
  using assms
proof (induction n arbitrary: r)
  case (Suc n)
  from worker_step_drains [OF Suc.prems(1-3)] obtain r1 where
    r1: "send_worker (Some ps) (Some r) = Some r1" "pinv (rm_priv r1) (r_time (rm_env r1))" "willing (rm_env r1)"
      "list_all2 (\<lambda>p p'. ready p' \<and> size (wt p') = size (wt p) - 10) (rm_ports r) (rm_ports r1)"
      "r_sched (rm_env r1) \<longleftrightarrow> (\<exists>p\<in>set (rm_ports r1). wt p \<noteq> {#})" by blast
  have ports: "ready p' \<and> size (wt p') \<le> 10 * n" if "p' \<in> set (rm_ports r1)" for p'
  proof -
    from that obtain i where i: "i < length (rm_ports r1)" "p' = rm_ports r1 ! i" by (auto simp: in_set_conv_nth)
    have "rm_ports r ! i \<in> set (rm_ports r)" using i(1) list_all2_lengthD [OF r1(4)] by simp
    with Suc.prems(4) have "size (wt (rm_ports r ! i)) \<le> 10 * Suc n" by blast
    with list_all2_nthD2 [OF r1(4) i(1)] i(2) show ?thesis by simp
  qed
  show ?case
  proof (cases n)
    case 0
    with ports r1 show ?thesis by auto
  next
    case (Suc m)
    then have "n \<noteq> 0" by simp
    with Suc.IH [OF r1(2,3)] ports obtain r' where
      "rmt_run hsh ps (replicate n RWorker) r1 = Some r'" "\<forall>p\<in>set (rm_ports r'). wt p = {#}" "\<not> r_sched (rm_env r')" by blast
    with r1(1) show ?thesis by auto
  qed
qed simp

end

section \<open>Policies that keep an order\<close>

definition in_line :: "('q \<Rightarrow> pdu list) \<Rightarrow> 'q rmt_n1_port \<Rightarrow> pdu list" where
  "in_line contents p = pending p @ (case np_queues p of None \<Rightarrow> [] | Some q \<Rightarrow> contents q)"

lemma in_line_waiting: "mset (in_line contents p) = waiting contents p"
  by (simp add: in_line_def waiting_def split: option.split)

lemma in_line_upd [simp]: "in_line contents (stats_tx l p) = in_line contents p" "in_line contents (plen_add k p) = in_line contents p"
  by (simp_all add: in_line_def pending_def)

locale rmt_ordered_policy = rmt_policy +
  assumes dequeue_order: "qinv q \<Longrightarrow> rmt_dequeue_policy ps (Some q) pr e = (Some du, Some q', pr', e') \<Longrightarrow>
    contents q = du # contents q'"
begin

text \<open>The worker sends the PDUs of a port in the order of its queue, the one that was refused before first.\<close>

lemma send_loop_order:
  assumes "pinv pr (r_time e)" "willing e" "pok p" "size (wt p) < 2 ^ 32" "send_loop ps n p pr e = (p', pr', e')"
  shows "r_trace e' = r_trace e @ map (Written (np_port_id p)) (take n (in_line contents p)) \<and> in_line contents p' = drop n (in_line contents p)"
  using assms
proof (induction n arbitrary: p pr e)
  case (Suc n)
  have next_round: "r_trace e' = r_trace e @ map (Written (np_port_id p)) (take (Suc n) (in_line contents p)) \<and>
      in_line contents p' = drop (Suc n) (in_line contents p)"
    if "pinv pr1 (r_time e1)" "willing e1" "pok p1" "in_line contents p = du # in_line contents p1" "np_port_id p1 = np_port_id p"
      "r_trace e1 = r_trace e @ [Written (np_port_id p) du]" "send_loop ps n (stats_tx l p1) pr1 e1 = (p', pr', e')" for e1 p1 du l pr1
  proof -
    have "wt p = add_mset du (wt p1)" using that(4) by (simp flip: in_line_waiting)
    with Suc.IH [of pr1 e1 "stats_tx l p1"] that Suc.prems(4) show ?thesis by simp
  qed
  show ?case
  proof (cases "port_plen p = 0")
    case True
    with plen_zero [OF Suc.prems(3,4)] have "in_line contents p = []" by (simp flip: in_line_waiting)
    with True Suc.prems show ?thesis by simp
  next
    case False
    show ?thesis
    proof (cases "np_pending_du p")
      case (Some du)
      let ?p = "plen_add (-1) (p\<lparr>np_pending_du := None\<rparr>)"
      have w: "in_line contents p = du # in_line contents ?p" "wt p = add_mset du (wt ?p)"
        using Some by (simp_all add: in_line_def waiting_def pending_def)
      then have o: "pok ?p" using Suc.prems(3) by (simp add: port_ok_def)
      from write_du_willing [OF Suc.prems(2), of ?p du] obtain e1 where
        e1: "n1_port_write_du ?p du e = (r_len e du, ?p, e1)" "willing e1" "r_time e1 = r_time e"
          "r_trace e1 = r_trace e @ [Written (np_port_id p) du]" by auto
      have "0 \<le> r_len e du" using Suc.prems(2) by (simp add: willing_def)
      with next_round [OF _ e1(2) o w(1) _ e1(4)] Suc.prems(1,5) False Some e1(1,3) show ?thesis by (simp add: Let_def)
    next
      case None
      obtain q0 where q0: "np_queues p = Some q0" "qinv q0" using Suc.prems(3) by (auto simp: port_ok_def)
      from dequeue_some [OF Suc.prems(1,3) None False] obtain du q pr1 e1 where
        d: "rmt_dequeue_policy ps (np_queues p) pr e = (Some du, Some q, pr1, e1)" "pinv pr1 (r_time e1)" "same_renv e e1" "r_trace e1 = r_trace e"
          "pok (plen_add (-1) (p\<lparr>np_queues := Some q\<rparr>))" by blast
      let ?p = "plen_add (-1) (p\<lparr>np_queues := Some q\<rparr>)"
      have l: "in_line contents p = du # in_line contents ?p"
        using dequeue_order [OF q0(2), of pr e du q pr1 e1] d(1) q0(1) None by (simp add: in_line_def pending_def)
      have "willing e1" using Suc.prems(2) d(3) by (simp add: willing_def same_renv_def)
      from write_willing [OF this, of ?p du] obtain e2 where
        e2: "n1_port_write ?p du e1 = (r_len e1 du, ?p, e2)" "willing e2" "r_time e2 = r_time e1"
          "r_trace e2 = r_trace e1 @ [Written (np_port_id p) du]" by auto
      have "0 \<le> r_len e1 du" using \<open>willing e1\<close> by (simp add: willing_def)
      with next_round [OF _ e2(2) d(5) l] Suc.prems(5) False None d(1,2,4) e2(1,3,4) show ?thesis by (simp add: Let_def)
    qed
  qed
qed simp

end

section \<open>Queues of PDUs\<close>

text \<open>
  What the policies call of \<^verbatim>\<open>rfifo.c\<close>, with the allocations taken from the surroundings. The policies
  ignore the answer of \<^verbatim>\<open>rfifo_push_ni\<close>.
\<close>

definition rfifo_create_ni :: "renv \<Rightarrow> pdu rfifo ptr \<times> renv" where
  "rfifo_create_ni e =
     (let (ok1, e) = r_alloc e
      in if \<not> ok1 then (None, e) else (let (ok2, e) = r_alloc e in (rfifo_create ok1 ok2, e)))"

definition rfifo_push_ni :: "pdu rfifo ptr \<Rightarrow> pdu \<Rightarrow> renv \<Rightarrow> pdu rfifo ptr \<times> renv" where
  "rfifo_push_ni f du e = (let (ok, e) = r_alloc e in (snd (rfifo_push ok f du), e))"

lemma fifo_ni:
  assumes "r_ms e = []"
  shows "\<exists>f. rfifo_create_ni e = (Some f, e) \<and> rfifo_inv (Some f) \<and> rfifo_list (Some f) = []"
    "rfifo_inv (Some g) \<Longrightarrow> \<exists>f. rfifo_push_ni (Some g) du e = (Some f, e) \<and> rfifo_inv (Some f) \<and> rfifo_list (Some f) = rfifo_list (Some g) @ [du]"
proof -
  note a = alloc_ok [OF assms]
  show "\<exists>f. rfifo_create_ni e = (Some f, e) \<and> rfifo_inv (Some f) \<and> rfifo_list (Some f) = []"
    by (simp add: rfifo_create_ni_def a queue_simps)
  assume g: "rfifo_inv (Some g)"
  obtain f where f: "snd (rfifo_push True (Some g) du) = Some f" by (simp add: queue_simps split_beta)
  from rfifo_fifo.push_contents [OF g, of True du] rfifo_fifo.push_invar [OF g, of True du] f
  show "\<exists>f. rfifo_push_ni (Some g) du e = (Some f, e) \<and> rfifo_inv (Some f) \<and> rfifo_list (Some f) = rfifo_list (Some g) @ [du]"
    by (simp add: rfifo_push_ni_def a)
qed

lemma fifo_pop:
  assumes "rfifo_inv (Some g)"
  shows "\<exists>f. rfifo_pop (Some g) = (case rfifo_list (Some g) of [] \<Rightarrow> None | x # _ \<Rightarrow> Some x, Some f) \<and> rfifo_inv (Some f) \<and>
    rfifo_list (Some f) = tl (rfifo_list (Some g))"
proof -
  obtain x f where "rfifo_pop (Some g) = (x, Some f)" by (simp add: queue_simps split_beta)
  with rfifo_fifo.pop_fst [OF assms] rfifo_fifo.pop_snd [OF assms] rfifo_fifo.pop_invar [OF assms] show ?thesis by simp
qed

lemma fifo_all: "rfifo_inv (Some g) \<Longrightarrow> rfifo_destroy (Some g) True = (0, rfifo_list (Some g))"
  "rfifo_inv (Some g) \<Longrightarrow> rfifo_length (Some g) = int (length (rfifo_list (Some g)))"
  by (auto simp: queue_simps rqueue_flush_loop_eq split: option.splits)

end
