(* ===== verification/Rmt_Default.thy ===== *)
theory Rmt_Default
  imports Rmt_Ports
begin

text \<open>
  The default policy set of the RMT, \<^verbatim>\<open>kernel/rmt-ps-default.c\<close>: a queue for management PDUs, which is
  unbounded and served first, and one for the others, which holds at most \<open>q_max\<close> PDUs. The theory
  interprets the contracts of \<open>Rmt_Ports\<close> on it.
\<close>

record rmt_queue =
  dt_queue :: "pdu rfifo ptr"
  mgt_queue :: "pdu rfifo ptr"
  rq_pid :: port_id_t

record rmt_ps_default_data =
  q_max :: u32

definition DEFAULT_Q_MAX :: u32 where "DEFAULT_Q_MAX = 1000"

definition rmt_queue_create :: "port_id_t \<Rightarrow> renv \<Rightarrow> rmt_queue ptr \<times> renv" where
  "rmt_queue_create port e =
     (let (ok, e) = r_alloc e
      in if \<not> ok then (None, e)
         else (let (dt, e) = rfifo_create_ni e
               in if dt = None then (None, e)
                  else (let (mgt, e) = rfifo_create_ni e
                        in if mgt = None then (None, destroy_all (snd (rfifo_destroy dt True)) e)
                           else (Some \<lparr>dt_queue = dt, mgt_queue = mgt, rq_pid = port\<rparr>, e))))"

definition rmt_queue_destroy :: "rmt_queue ptr \<Rightarrow> renv \<Rightarrow> rc \<times> renv" where
  "rmt_queue_destroy qp e =
     (case qp of
        None \<Rightarrow> (-1, e)
      | Some q \<Rightarrow>
          (0, destroy_all (snd (rfifo_destroy (mgt_queue q) True)) (destroy_all (snd (rfifo_destroy (dt_queue q) True)) e)))"

definition default_rmt_q_create_policy :: "port_id_t \<Rightarrow> rmt_ps_default_data \<Rightarrow> renv \<Rightarrow> rmt_queue ptr \<times> renv" where
  "default_rmt_q_create_policy i data e = rmt_queue_create i e"

definition default_rmt_q_destroy_policy :: "rmt_queue ptr \<Rightarrow> renv \<Rightarrow> rc \<times> renv" where
  "default_rmt_q_destroy_policy qp e =
     (case qp of None \<Rightarrow> (-1, e) | Some q \<Rightarrow> (0, snd (rmt_queue_destroy qp e)))"

definition default_rmt_enqueue_policy ::
    "bool \<Rightarrow> pdu ptr \<Rightarrow> rmt_queue ptr \<Rightarrow> rmt_ps_default_data \<Rightarrow> renv \<Rightarrow>
     (rc \<times> pdu ptr \<times> rmt_queue ptr \<times> rmt_ps_default_data \<times> renv) option" where
  "default_rmt_enqueue_policy must_enqueue dp qp data e =
     Some (case (dp, qp) of
             (None, _) \<Rightarrow> (RMT_PS_ENQ_ERR, dp, qp, data, e)
           | (Some du, None) \<Rightarrow> (RMT_PS_ENQ_ERR, dp, qp, data, r_emit (Destroyed du) e)
           | (Some du, Some q) \<Rightarrow>
               if p_type du = PDU_TYPE_MGMT
               then if \<not> must_enqueue \<and> rfifo_is_empty (mgt_queue q) then (RMT_PS_ENQ_SEND, dp, qp, data, e)
                    else (let (f, e) = rfifo_push_ni (mgt_queue q) du e
                          in (RMT_PS_ENQ_SCHED, dp, Some (q\<lparr>mgt_queue := f\<rparr>), data, e))
               else if \<not> must_enqueue \<and> rfifo_is_empty (dt_queue q) then (RMT_PS_ENQ_SEND, dp, qp, data, e)
               else if rfifo_length (dt_queue q) \<ge> uint (q_max data)
               then (RMT_PS_ENQ_DROP, dp, qp, data, r_emit (Destroyed du) e)
               else (let (f, e) = rfifo_push_ni (dt_queue q) du e
                     in (RMT_PS_ENQ_SCHED, dp, Some (q\<lparr>dt_queue := f\<rparr>), data, e)))"

definition default_rmt_dequeue_policy ::
    "rmt_queue ptr \<Rightarrow> rmt_ps_default_data \<Rightarrow> renv \<Rightarrow> pdu ptr \<times> rmt_queue ptr \<times> rmt_ps_default_data \<times> renv" where
  "default_rmt_dequeue_policy qp data e =
     (case qp of
        None \<Rightarrow> (None, None, data, e)
      | Some q \<Rightarrow>
          (if \<not> rfifo_is_empty (mgt_queue q)
           then (let (du, f) = rfifo_pop (mgt_queue q) in (du, Some (q\<lparr>mgt_queue := f\<rparr>), data, e))
           else (let (du, f) = rfifo_pop (dt_queue q) in (du, Some (q\<lparr>dt_queue := f\<rparr>), data, e))))"

text \<open>\<^verbatim>\<open>kstrtoint\<close> is the kernel's: the number a string stands for, or an error.\<close>

definition rmt_ps_default_set_policy_set_param ::
    "(string \<Rightarrow> int ptr) \<Rightarrow> string ptr \<Rightarrow> string ptr \<Rightarrow> rmt_ps_default_data \<Rightarrow> rc \<times> rmt_ps_default_data" where
  "rmt_ps_default_set_policy_set_param kstrtoint name val data =
     (case (name, val) of
        (Some n, Some v) \<Rightarrow>
          (0, if n = ''q_max''
              then (case kstrtoint v of None \<Rightarrow> data | Some k \<Rightarrow> data\<lparr>q_max := word_of_int k\<rparr>)
              else data)
      | _ \<Rightarrow> (-1, data))"

definition default_ps :: "(rmt_ps_default_data, rmt_queue) rmt_ps" where
  "default_ps = \<lparr>rmt_dequeue_policy = default_rmt_dequeue_policy, rmt_enqueue_policy = default_rmt_enqueue_policy,
     rmt_q_create_policy = default_rmt_q_create_policy, rmt_q_destroy_policy = default_rmt_q_destroy_policy\<rparr>"

text \<open>The data is zeroed when it is allocated; \<open>parm\<close> is the parameter \<open>q_max\<close> of the configuration, when there is one.\<close>

definition rmt_ps_default_create ::
    "(string \<Rightarrow> int ptr) \<Rightarrow> bool \<Rightarrow> bool \<Rightarrow> bool \<Rightarrow> (string ptr \<times> string ptr) ptr \<Rightarrow>
     ((rmt_ps_default_data, rmt_queue) rmt_ps \<times> rmt_ps_default_data) ptr" where
  "rmt_ps_default_create kstrtoint ps_ok data_ok robj_ok parm =
     (if \<not> ps_ok \<or> \<not> data_ok \<or> \<not> robj_ok then None
      else Some (default_ps,
                 case parm of
                   None \<Rightarrow> \<lparr>q_max = DEFAULT_Q_MAX\<rparr>
                 | Some (n, v) \<Rightarrow> snd (rmt_ps_default_set_policy_set_param kstrtoint n v \<lparr>q_max = 0\<rparr>)))"

section \<open>The contracts\<close>

definition default_qinv :: "u32 \<Rightarrow> rmt_queue \<Rightarrow> bool" where
  "default_qinv m q \<longleftrightarrow> rfifo_inv (dt_queue q) \<and> rfifo_inv (mgt_queue q) \<and> length (rfifo_list (dt_queue q)) \<le> unat m"

definition default_contents :: "rmt_queue \<Rightarrow> pdu list" where
  "default_contents q = rfifo_list (mgt_queue q) @ rfifo_list (dt_queue q)"

definition default_pinv :: "u32 \<Rightarrow> rmt_ps_default_data \<Rightarrow> u64 list \<Rightarrow> bool" where
  "default_pinv m data ts \<longleftrightarrow> q_max data = m"

lemma default_qinvE:
  assumes "default_qinv m q"
  obtains f g where "dt_queue q = Some f" "mgt_queue q = Some g" "rfifo_inv (Some f)" "rfifo_inv (Some g)"
    "length (rfifo_list (Some f)) \<le> unat m"
  using assms by (cases "dt_queue q"; cases "mgt_queue q") (auto simp: default_qinv_def rfifo_inv_def)

lemma default_enqueue:
  assumes "q_max data = m" "default_qinv m q" "r_ms e = []"
  shows "\<exists>c q' e'. default_rmt_enqueue_policy must (Some du) (Some q) data e = Some (c, Some du, Some q', data, e') \<and>
      default_qinv m q' \<and> same_renv e e' \<and> r_time e' = r_time e \<and>
      enq_result id must du (mset (default_contents q)) e c du (mset (default_contents q')) e'"
proof -
  obtain f g where fg: "dt_queue q = Some f" "mgt_queue q = Some g" "rfifo_inv (Some f)" "rfifo_inv (Some g)"
      "length (rfifo_list (Some f)) \<le> unat m"
    using assms(2) by (rule default_qinvE)
  from fifo_ni(2) [OF assms(3) fg(3), of du] obtain f' where
    f': "rfifo_push_ni (Some f) du e = (Some f', e)" "rfifo_inv (Some f')" "rfifo_list (Some f') = rfifo_list (Some f) @ [du]" by blast
  from fifo_ni(2) [OF assms(3) fg(4), of du] obtain g' where
    g': "rfifo_push_ni (Some g) du e = (Some g', e)" "rfifo_inv (Some g')" "rfifo_list (Some g') = rfifo_list (Some g) @ [du]" by blast
  have m: "uint (q_max data) \<le> int n \<longleftrightarrow> unat m \<le> n" for n
    using assms(1) by (simp add: nat_le_iff flip: nat_uint_eq)
  show ?thesis
    unfolding default_rmt_enqueue_policy_def
    by (auto simp: fg f' g' m fifo_all default_qinv_def default_contents_def same_renv_def enq_result_def enq_codes r_emit_def)
qed

lemma default_dequeue:
  assumes "default_qinv m q"
  shows "\<exists>x q'. default_rmt_dequeue_policy (Some q) data e = (x, Some q', data, e) \<and> default_qinv m q' \<and>
    (case x of None \<Rightarrow> default_contents q = [] \<and> default_contents q' = [] | Some du \<Rightarrow> default_contents q = du # default_contents q')"
proof -
  obtain f g where fg: "dt_queue q = Some f" "mgt_queue q = Some g" "rfifo_inv (Some f)" "rfifo_inv (Some g)"
      "length (rfifo_list (Some f)) \<le> unat m"
    using assms by (rule default_qinvE)
  from fifo_pop [OF fg(3)] obtain f' where
    f': "rfifo_pop (Some f) = (case rfifo_list (Some f) of [] \<Rightarrow> None | x # _ \<Rightarrow> Some x, Some f')" "rfifo_inv (Some f')"
      "rfifo_list (Some f') = tl (rfifo_list (Some f))" by blast
  from fifo_pop [OF fg(4)] obtain g' where
    g': "rfifo_pop (Some g) = (case rfifo_list (Some g) of [] \<Rightarrow> None | x # _ \<Rightarrow> Some x, Some g')" "rfifo_inv (Some g')"
      "rfifo_list (Some g') = tl (rfifo_list (Some g))" by blast
  show ?thesis
  proof (cases "rfifo_list (Some g)")
    case Nil
    with fg f' show ?thesis
      by (cases "rfifo_list (Some f)") (auto simp: default_rmt_dequeue_policy_def rfifo_fifo.is_empty_iff default_qinv_def default_contents_def)
  next
    case (Cons x xs)
    with fg g' show ?thesis
      by (simp add: default_rmt_dequeue_policy_def rfifo_fifo.is_empty_iff default_qinv_def default_contents_def)
  qed
qed

interpretation default_policy: rmt_ordered_policy default_ps "default_pinv m" "default_qinv m" default_contents id
proof
  show "\<exists>c du' q' pr' e'. rmt_enqueue_policy default_ps must (Some du) (Some q) pr e = Some (c, Some du', Some q', pr', e') \<and>
      default_pinv m pr' (r_time e') \<and> default_qinv m q' \<and> same_renv e e' \<and>
      enq_result id must du (mset (default_contents q)) e c du' (mset (default_contents q')) e'"
    if "default_pinv m pr (r_time e)" "default_qinv m q" "r_ms e = []" for pr e q must du
    using default_enqueue [of pr m q e must du] that by (auto simp: default_ps_def default_pinv_def)
  show "\<exists>x q' pr' e'. rmt_dequeue_policy default_ps (Some q) pr e = (x, Some q', pr', e') \<and> default_pinv m pr' (r_time e') \<and>
      default_qinv m q' \<and> same_renv e e' \<and> r_trace e' = r_trace e \<and>
      (case x of None \<Rightarrow> default_contents q = [] \<and> default_contents q' = []
       | Some du \<Rightarrow> mset (default_contents q) = add_mset du (mset (default_contents q')))"
    if "default_pinv m pr (r_time e)" "default_qinv m q" for pr e q
  proof -
    from default_dequeue [OF that(2), of pr e] obtain x q' where
      "default_rmt_dequeue_policy (Some q) pr e = (x, Some q', pr, e)" "default_qinv m q'"
      "case x of None \<Rightarrow> default_contents q = [] \<and> default_contents q' = [] | Some du \<Rightarrow> default_contents q = du # default_contents q'"
      by blast
    with that(1) show ?thesis
      by (intro exI [of _ x] exI [of _ q'] exI [of _ pr] exI [of _ e]) (auto simp: default_ps_def same_renv_def split: option.splits)
  qed
  show "\<exists>c ds. mset ds = mset (default_contents q) \<and> rmt_q_destroy_policy default_ps (Some q) e = (c, destroy_all ds e)"
    if inv: "default_qinv m q" for q e
  proof -
    obtain f g where "dt_queue q = Some f" "mgt_queue q = Some g" "rfifo_inv (Some f)" "rfifo_inv (Some g)"
      using inv by (rule default_qinvE)
    then show ?thesis
      by (intro exI [of _ 0] exI [of _ "rfifo_list (dt_queue q) @ rfifo_list (mgt_queue q)"])
        (simp add: default_ps_def default_rmt_q_destroy_policy_def rmt_queue_destroy_def destroy_all_def fifo_all default_contents_def)
  qed
  show "\<exists>q. rmt_q_create_policy default_ps i pr e = (Some q, e) \<and> default_qinv m q \<and> default_contents q = []"
    if "r_ms e = []" for i pr e
  proof -
    from fifo_ni(1) [OF that] obtain f where f: "rfifo_create_ni e = (Some f, e)" "rfifo_inv (Some f)" "rfifo_list (Some f) = []" by blast
    with alloc_ok [OF that] show ?thesis
      by (simp add: default_ps_def default_rmt_q_create_policy_def rmt_queue_create_def default_qinv_def default_contents_def)
  qed
  show "default_contents q = du # default_contents q'"
    if "default_qinv m q" "rmt_dequeue_policy default_ps (Some q) pr e = (Some du, Some q', pr', e')" for q pr e du q' pr' e'
  proof -
    from default_dequeue [OF that(1), of pr e] that(2) have
      "\<exists>x q2. x = Some du \<and> q2 = q' \<and> (case x of None \<Rightarrow> default_contents q = [] \<and> default_contents q2 = []
         | Some du \<Rightarrow> default_contents q = du # default_contents q2)" by (auto simp: default_ps_def)
    then show ?thesis by simp
  qed
qed

section \<open>Properties\<close>

text \<open>
  C19. Over every sequence of sends, worker runs, port events, bindings and unbindings, on an RMT
  that starts without ports and has memory, no operation faults and no PDU is lost or
  duplicated: the PDUs handed in are, as a multiset, those written below, those destroyed
  and those that wait on a port; and the counter of a port, which decides whether the worker
  serves it, is always the number of PDUs waiting there.
\<close>

theorem rmt_default_conserves:
  assumes "rm_ports r = []" "r_ms (rm_env r) = []" "r_trace (rm_env r) = []"
  shows "\<exists>r'. rmt_run hsh default_ps ops r = Some r' \<and>
    sum_list (map (waiting default_contents) (rm_ports r')) + gone (r_trace (rm_env r')) = mset (submitted ops) \<and>
    (\<forall>p\<in>set (rm_ports r'). port_plen p = of_nat (size (waiting default_contents p)))"
proof -
  let ?m = "q_max (rm_priv r)"
  have "rmt_ok (default_pinv ?m) (default_qinv ?m) default_contents r" using assms by (simp add: rmt_ok_def default_pinv_def)
  from default_policy.run_ok [OF this, of hsh ops] assms show ?thesis
    by (auto simp: rmt_ok_def port_ok_def rmt_balance_def balance_def)
qed

text \<open>An RMT without ports, and PDUs to send.\<close>

definition ex_renv :: renv where
  "ex_renv = \<lparr>r_ms = [], r_time = [0], r_rand = [], r_sdup = [], r_write = [], r_post = [], r_len = \<lambda>_. 1, r_sched = False, r_trace = []\<rparr>"

definition ex_pdu :: "pdu_type_t \<Rightarrow> u32 \<Rightarrow> pdu" where
  "ex_pdu t sn = \<lparr>p_type = t, p_flags = 0, p_src_cep = 1, p_dst_cep = 2, p_src = 16, p_dst = 17, p_qos = 1, p_seq = sn,
     p_ctrl = \<lambda>_. 0, p_data = []\<rparr>"

definition ex_rmt :: "'p \<Rightarrow> 'q rmt_n1_port list \<Rightarrow> ('p, 'q, pff_ps_priv ptr) rmt" where
  "ex_rmt data ports = \<lparr>rm_addresses = [16], rm_ports = ports, rm_priv = data,
     rm_pff = Some \<lparr>pf_ps = pff_ps_default, pf_priv = Some [\<lparr>pe_destination = 17, pe_qos_id = 1, pe_ports = [3, 4]\<rparr>]\<rparr>, rm_cache = [],
     rm_cfg = cfg_of sample_dt_cons, rm_env = ex_renv\<rparr>"

definition ex_ops :: "rmt_op list" where
  "ex_ops = [RBind 1, RSend 1 (ex_pdu PDU_TYPE_DT 1), RDisable 1, RSend 1 (ex_pdu PDU_TYPE_DT 2), RSend 1 (ex_pdu PDU_TYPE_MGMT 1),
     REnable 1, RWorker, RUnbind 1]"

lemmas ex_defs = ex_renv_def ex_pdu_def ex_rmt_def ex_ops_def

theorem rmt_default_conserves_witness:
  "\<exists>r'. rmt_run (\<lambda>_. 0) default_ps ex_ops (ex_rmt \<lparr>q_max = 1\<rparr> []) = Some r' \<and>
    sum_list (map (waiting default_contents) (rm_ports r')) + gone (r_trace (rm_env r')) = mset (submitted ex_ops) \<and>
    (\<forall>p\<in>set (rm_ports r'). port_plen p = of_nat (size (waiting default_contents p)))"
  by (rule rmt_default_conserves) (simp_all add: ex_defs)

text \<open>
  C20. The data queue of a port never holds more than \<open>q_max\<close> PDUs, whatever the sequence of operations.
\<close>

theorem rmt_default_queue_bound:
  assumes "rm_ports r = []" "r_ms (rm_env r) = []"
  shows "\<exists>r'. rmt_run hsh default_ps ops r = Some r' \<and>
    (\<forall>p\<in>set (rm_ports r'). \<exists>q. np_queues p = Some q \<and> length (rfifo_list (dt_queue q)) \<le> unat (q_max (rm_priv r)))"
proof -
  let ?m = "q_max (rm_priv r)"
  have "rmt_ok (default_pinv ?m) (default_qinv ?m) default_contents r" using assms by (simp add: rmt_ok_def default_pinv_def)
  from default_policy.run_ok [OF this, of hsh ops] show ?thesis
    unfolding rmt_ok_def port_ok_def default_qinv_def by blast
qed

theorem rmt_default_queue_bound_witness:
  "\<exists>r'. rmt_run (\<lambda>_. 0) default_ps ex_ops (ex_rmt \<lparr>q_max = 1\<rparr> []) = Some r' \<and>
    (\<forall>p\<in>set (rm_ports r'). \<exists>q. np_queues p = Some q \<and> length (rfifo_list (dt_queue q)) \<le> 1)"
  using rmt_default_queue_bound [of "ex_rmt \<lparr>q_max = 1\<rparr> []" "\<lambda>_. 0" ex_ops] by (simp add: ex_defs)




text \<open>A port on which a PDU was refused, and a data PDU came before a management PDU.\<close>

definition ex_port :: "rmt_queue rmt_n1_port" where
  "ex_port = \<lparr>np_port_id = 1, np_state = N1_PORT_STATE_ENABLED, np_refs_c = 0, np_pending_du = Some (ex_pdu PDU_TYPE_DT 1),
     np_stats = \<lparr>plen = 3, drop_pdus = 0, err_pdus = 0, tx_pdus = 0, tx_bytes = 0, rx_pdus = 0, rx_bytes = 0\<rparr>, np_wbusy = False,
     np_queues = Some \<lparr>dt_queue = Some \<lparr>rf_q = Some \<lparr>rq_head = [ex_pdu PDU_TYPE_DT 2], rq_length = 1\<rparr>\<rparr>,
       mgt_queue = Some \<lparr>rf_q = Some \<lparr>rq_head = [ex_pdu PDU_TYPE_MGMT 1], rq_length = 1\<rparr>\<rparr>, rq_pid = 1\<rparr>\<rparr>"

lemma ex_port_ready: "port_ready (default_qinv 5) default_contents ex_port" "size (waiting default_contents ex_port) = 3"
  "in_line default_contents ex_port = [ex_pdu PDU_TYPE_DT 1, ex_pdu PDU_TYPE_MGMT 1, ex_pdu PDU_TYPE_DT 2]"
  by (simp_all add: port_ready_def port_ok_def waiting_def pending_def in_line_def ex_port_def default_qinv_def default_contents_def queue_simps)

lemma ex_willing: "willing ex_renv"
  by (simp add: willing_def ex_renv_def)


text \<open>
  C23. A cycle of the worker sends, of the PDUs of a port, first the one that was refused
  before, then the management PDUs and then the others, each class in the order of arrival,
  and leaves the rest of this line.
\<close>

theorem rmt_default_order:
  assumes "port_ready (default_qinv (q_max data)) default_contents p" "willing e"
    and "send_loop default_ps n p data e = (p', data', e')"
  shows "r_trace e' = r_trace e @ map (Written (np_port_id p)) (take n (in_line default_contents p)) \<and>
    in_line default_contents p' = drop n (in_line default_contents p)"
  using default_policy.send_loop_order [of "q_max data" data e p n p' data' e'] assms
  by (simp add: default_pinv_def port_ready_def)

theorem rmt_default_order_witness:
  "\<exists>p' data' e'. send_loop default_ps 2 ex_port \<lparr>q_max = 5\<rparr> ex_renv = (p', data', e') \<and>
    r_trace e' = [Written 1 (ex_pdu PDU_TYPE_DT 1), Written 1 (ex_pdu PDU_TYPE_MGMT 1)] \<and>
    in_line default_contents p' = [ex_pdu PDU_TYPE_DT 2]"
proof -
  obtain p' data' e' where s: "send_loop default_ps 2 ex_port \<lparr>q_max = 5\<rparr> ex_renv = (p', data', e')" by (metis prod_cases3)
  have "port_ready (default_qinv (q_max \<lparr>q_max = 5\<rparr>)) default_contents ex_port" using ex_port_ready(1) by simp
  from rmt_default_order [OF this ex_willing s] s ex_port_ready(3) show ?thesis by (simp add: ex_port_def ex_renv_def)
qed

section \<open>Where the code goes wrong\<close>

text \<open>
  The policy data is zeroed, and a \<open>q_max\<close> of the configuration that is no number leaves it so: every data
  PDU that has to wait is dropped.
\<close>

lemma default_q_max_zero:
  "rmt_ps_default_create (\<lambda>_. None) True True True (Some (Some ''q_max'', Some ''many'')) = Some (default_ps, \<lparr>q_max = 0\<rparr>)"
  "p_type du \<noteq> PDU_TYPE_MGMT \<Longrightarrow> default_qinv 0 q \<Longrightarrow>
     default_rmt_enqueue_policy True (Some du) (Some q) \<lparr>q_max = 0\<rparr> e =
       Some (RMT_PS_ENQ_DROP, Some du, Some q, \<lparr>q_max = 0\<rparr>, r_emit (Destroyed du) e)"
  by (simp add: rmt_ps_default_create_def rmt_ps_default_set_policy_set_param_def)
    (auto elim!: default_qinvE simp: default_rmt_enqueue_policy_def fifo_all)

text \<open>
  The answer of the push is ignored: without memory the PDU is neither queued nor destroyed, and
  the caller counts it as waiting.
\<close>

lemma default_push_lost:
  assumes "default_qinv m q" "r_ms e = [False]"
  shows "default_rmt_enqueue_policy True (Some (ex_pdu PDU_TYPE_MGMT 1)) (Some q) data e =
    Some (RMT_PS_ENQ_SCHED, Some (ex_pdu PDU_TYPE_MGMT 1), Some q, data, e\<lparr>r_ms := []\<rparr>)"
proof -
  from assms(1) obtain g where g: "mgt_queue q = Some g" "rfifo_inv (Some g)" by (rule default_qinvE)
  then obtain k where "rf_q g = Some k" by (cases "rf_q g") (simp_all add: queue_simps)
  with g assms(2) have "rfifo_push_ni (mgt_queue q) (ex_pdu PDU_TYPE_MGMT 1) e = (mgt_queue q, e\<lparr>r_ms := []\<rparr>)"
    by (simp add: rfifo_push_ni_def r_alloc_def queue_simps)
  then show ?thesis by (simp add: default_rmt_enqueue_policy_def ex_pdu_def)
qed

end
