(* ===== verification/Lgcshq_Rmt.thy ===== *)
theory Lgcshq_Rmt
  imports Rmt_Ports
begin

text \<open>
  The queueing policy of LGC-ShQ, \<^verbatim>\<open>plugins/lgc-shq/rmt-ps-lgcshq.c\<close>: one queue per port, a marking
  probability computed once per measurement interval from the average amount of data and the
  capacity of the link, and up to seven congestion bits of a PDU set at random with this
  probability. Times are ticks of the packet scheduler, 64 ns each.
\<close>

unbundle bit_operations_syntax

section \<open>The clock and the random numbers\<close>

text \<open>The clock stays at its last reading; random numbers that are not given are 0.\<close>

definition psched_get_time :: "renv \<Rightarrow> u64 \<times> renv" where
  "psched_get_time e =
     (case r_time e of
        [] \<Rightarrow> (0, e)
      | [t] \<Rightarrow> (t, e)
      | t # ts \<Rightarrow> (t, e\<lparr>r_time := ts\<rparr>))"

definition prandom :: "renv \<Rightarrow> u32 \<times> renv" where
  "prandom e = (case r_rand e of [] \<Rightarrow> (0, e) | x # xs \<Rightarrow> (x, e\<lparr>r_rand := xs\<rparr>))"

definition PSCHED_TICKS2NS :: "u64 \<Rightarrow> u64" where
  "PSCHED_TICKS2NS t = push_bit 6 t"

definition PSCHED_NS2TICKS :: "u64 \<Rightarrow> u64" where
  "PSCHED_NS2TICKS ns = drop_bit 6 ns"

abbreviation (input) NSEC_PER_MSEC :: u64 where "NSEC_PER_MSEC \<equiv> 1000000"

text \<open>\<^verbatim>\<open>do_div\<close> takes a divisor of 32 bits and faults when that is 0.\<close>

definition do_div :: "u64 \<Rightarrow> u64 \<Rightarrow> u64 option" where
  "do_div n b = (let b = (ucast b :: u32) in if b = 0 then None else Some (n div ucast b))"

section \<open>The policy\<close>

record lgcshq_rmt_ps_data =
  limit :: u32
  interval :: u64
  maxp :: u32
  alpha :: u32
  bandwidth :: u32
  ecn_bits :: u32
  prob :: u64
  avg_qlen :: u64
  cnt :: u64
  one_minus_alpha :: u32
  maxp64 :: u64
  last_time :: u64

record lgcshq_rmt_queue =
  lq_queue :: "pdu rfifo ptr"
  lq_port_id :: port_id_t

definition calc_probability :: "lgcshq_rmt_ps_data \<Rightarrow> u64 \<Rightarrow> u32 \<Rightarrow> renv \<Rightarrow> (lgcshq_rmt_ps_data \<times> renv) option" where
  "calc_probability data delta backlog e = do {
     let count = push_bit 16 (cnt data + ucast backlog);
     let avg = drop_bit 16 (avg_qlen data * ucast (one_minus_alpha data) + count * ucast (alpha data));
     let data = data\<lparr>avg_qlen := avg\<rparr>;
     let avg = avg * ucast (maxp data);
     maxb \<leftarrow> do_div (ucast (bandwidth data) * PSCHED_TICKS2NS delta) NSEC_PER_MSEC;
     avg \<leftarrow> do_div avg maxb;
     let avg = (if avg \<ge> maxp64 data then 0xffffffff else avg);
     let (t, e) = psched_get_time e;
     Some (data\<lparr>cnt := 0, last_time := t, prob := avg\<rparr>, e)
   }"

definition should_mark :: "u64 \<Rightarrow> renv \<Rightarrow> bool \<times> renv" where
  "should_mark p e = (let (x, e) = prandom e in (ucast x < p, e))"

definition lgcshq_queue_create :: "port_id_t \<Rightarrow> renv \<Rightarrow> lgcshq_rmt_queue ptr \<times> renv" where
  "lgcshq_queue_create i e =
     (let (ok, e) = r_alloc e
      in if \<not> ok then (None, e)
         else (let (f, e) = rfifo_create_ni e
               in if f = None then (None, e) else (Some \<lparr>lq_queue = f, lq_port_id = i\<rparr>, e)))"

definition lgcshq_rmt_queue_destroy :: "lgcshq_rmt_queue ptr \<Rightarrow> renv \<Rightarrow> rc \<times> renv" where
  "lgcshq_rmt_queue_destroy qp e =
     (case qp of None \<Rightarrow> (-1, e) | Some q \<Rightarrow> (0, destroy_all (snd (rfifo_destroy (lq_queue q) True)) e))"

definition lgcshq_rmt_q_create_policy :: "port_id_t \<Rightarrow> lgcshq_rmt_ps_data \<Rightarrow> renv \<Rightarrow> lgcshq_rmt_queue ptr \<times> renv" where
  "lgcshq_rmt_q_create_policy i data e = lgcshq_queue_create i e"

definition lgcshq_rmt_q_destroy_policy :: "lgcshq_rmt_queue ptr \<Rightarrow> renv \<Rightarrow> rc \<times> renv" where
  "lgcshq_rmt_q_destroy_policy qp e =
     (case qp of None \<Rightarrow> (-1, e) | Some q \<Rightarrow> lgcshq_rmt_queue_destroy qp e)"

text \<open>
  The seven conditions that set a bit of the flags: the number of congestion bits that enables one, and the
  bit. The first one has no such condition.
\<close>

definition ecn_marks :: "(u32 \<times> pdu_flags_t) list" where
  "ecn_marks = [(0, 0x01), (2, 0x02), (3, 0x04), (4, 0x08), (5, 0x10), (6, 0x20), (7, 0x40)]"

fun mark_loop :: "u64 \<Rightarrow> u32 \<Rightarrow> (u32 \<times> pdu_flags_t) list \<Rightarrow> pdu_flags_t \<Rightarrow> renv \<Rightarrow> pdu_flags_t \<times> renv" where
  "mark_loop p n [] fl e = (fl, e)"
| "mark_loop p n ((k, b) # ms) fl e =
     (if n \<ge> k
      then (let (m, e) = should_mark p e in mark_loop p n ms (if m then fl OR b else fl) e)
      else mark_loop p n ms fl e)"

text \<open>The part of the enqueue policy that counts the data and, at the end of an interval, computes the probability.\<close>

definition lgcshq_measure :: "lgcshq_rmt_ps_data \<Rightarrow> int \<Rightarrow> u32 \<Rightarrow> renv \<Rightarrow> (lgcshq_rmt_ps_data \<times> renv) option" where
  "lgcshq_measure data len qlen e =
     (let data = data\<lparr>cnt := cnt data + word_of_int len\<rparr>;
          (t, e) = psched_get_time e;
          delta = t - last_time data
      in if interval data < delta then calc_probability data delta qlen e else Some (data, e))"

definition lgcshq_rmt_enqueue_policy ::
    "bool \<Rightarrow> pdu ptr \<Rightarrow> lgcshq_rmt_queue ptr \<Rightarrow> lgcshq_rmt_ps_data \<Rightarrow> renv \<Rightarrow>
     (rc \<times> pdu ptr \<times> lgcshq_rmt_queue ptr \<times> lgcshq_rmt_ps_data \<times> renv) option" where
  "lgcshq_rmt_enqueue_policy must_enqueue dp qp data e =
     (case (dp, qp) of
        (None, _) \<Rightarrow> Some (RMT_PS_ENQ_ERR, dp, qp, data, e)
      | (Some du, None) \<Rightarrow> Some (RMT_PS_ENQ_ERR, dp, qp, data, r_emit (Destroyed du) e)
      | (Some du, Some q) \<Rightarrow>
          let qlen = (word_of_int (rfifo_length (lq_queue q)) :: u32)
          in if qlen \<ge> limit data \<and> p_type du \<noteq> PDU_TYPE_MGMT
             then Some (RMT_PS_ENQ_DROP, dp, qp, data, r_emit (Destroyed du) e)
             else do {
               (data, e) \<leftarrow> lgcshq_measure data (r_len e du) qlen e;
               let (fl, e) = mark_loop (prob data) (ecn_bits data) ecn_marks (p_flags du) e;
               let du = du\<lparr>p_flags := fl\<rparr>;
               if \<not> must_enqueue \<and> rfifo_is_empty (lq_queue q)
               then Some (RMT_PS_ENQ_SEND, Some du, qp, data, e)
               else (let (f, e) = rfifo_push_ni (lq_queue q) du e
                     in Some (RMT_PS_ENQ_SCHED, Some du, Some (q\<lparr>lq_queue := f\<rparr>), data, e))
             })"

definition lgcshq_rmt_dequeue_policy ::
    "lgcshq_rmt_queue ptr \<Rightarrow> lgcshq_rmt_ps_data \<Rightarrow> renv \<Rightarrow> pdu ptr \<times> lgcshq_rmt_queue ptr \<times> lgcshq_rmt_ps_data \<times> renv" where
  "lgcshq_rmt_dequeue_policy qp data e =
     (case qp of
        None \<Rightarrow> (None, None, data, e)
      | Some q \<Rightarrow> (let (du, f) = rfifo_pop (lq_queue q) in (du, Some (q\<lparr>lq_queue := f\<rparr>), data, e)))"

text \<open>\<^verbatim>\<open>kstrtouint\<close> and \<^verbatim>\<open>kstrtoull\<close> are the kernel's.\<close>

definition lgcshq_rmt_ps_set_policy_set_param ::
    "(string \<Rightarrow> u32 ptr) \<Rightarrow> (string \<Rightarrow> u64 ptr) \<Rightarrow> string ptr \<Rightarrow> string ptr \<Rightarrow> lgcshq_rmt_ps_data \<Rightarrow> rc \<times> lgcshq_rmt_ps_data" where
  "lgcshq_rmt_ps_set_policy_set_param kstrtouint kstrtoull name val data =
     (case (name, val) of
        (Some n, Some v) \<Rightarrow>
          (0, if n = ''interval''
              then (case kstrtoull v of None \<Rightarrow> data | Some k \<Rightarrow> data\<lparr>interval := PSCHED_NS2TICKS (k * NSEC_PER_MSEC)\<rparr>)
              else case kstrtouint v of
                     None \<Rightarrow> data
                   | Some k \<Rightarrow>
                       (if n = ''limit'' then data\<lparr>limit := k\<rparr>
                        else if n = ''maxp'' then data\<lparr>maxp := k\<rparr>
                        else if n = ''alpha'' then data\<lparr>alpha := k\<rparr>
                        else if n = ''bandwidth'' then data\<lparr>bandwidth := k * 125\<rparr>
                        else if n = ''ecn_bits'' \<and> k > 0 \<and> k < 8 then data\<lparr>ecn_bits := k\<rparr>
                        else data))
      | _ \<Rightarrow> (-1, data))"

definition rmt_ps_load_param ::
    "(string \<Rightarrow> u32 ptr) \<Rightarrow> (string \<Rightarrow> u64 ptr) \<Rightarrow> (string \<Rightarrow> string ptr) \<Rightarrow> string \<Rightarrow> lgcshq_rmt_ps_data \<Rightarrow> lgcshq_rmt_ps_data" where
  "rmt_ps_load_param kstrtouint kstrtoull cfg n data =
     (case cfg n of None \<Rightarrow> data | Some v \<Rightarrow> snd (lgcshq_rmt_ps_set_policy_set_param kstrtouint kstrtoull (Some n) (Some v) data))"

definition lgcshq_ps :: "(lgcshq_rmt_ps_data, lgcshq_rmt_queue) rmt_ps" where
  "lgcshq_ps = \<lparr>rmt_dequeue_policy = lgcshq_rmt_dequeue_policy, rmt_enqueue_policy = lgcshq_rmt_enqueue_policy,
     rmt_q_create_policy = lgcshq_rmt_q_create_policy, rmt_q_destroy_policy = lgcshq_rmt_q_destroy_policy\<rparr>"

text \<open>\<open>cfg\<close> finds a parameter of the configured policy set.\<close>

definition rmt_ps_lgcshq_create ::
    "(string \<Rightarrow> u32 ptr) \<Rightarrow> (string \<Rightarrow> u64 ptr) \<Rightarrow> (string \<Rightarrow> string ptr) \<Rightarrow> renv \<Rightarrow>
     ((lgcshq_rmt_ps_data, lgcshq_rmt_queue) rmt_ps \<times> lgcshq_rmt_ps_data) ptr \<times> renv" where
  "rmt_ps_lgcshq_create kstrtouint kstrtoull cfg e =
     (let (ok1, e) = r_alloc e
      in if \<not> ok1 then (None, e)
         else (let (ok2, e) = r_alloc e
               in if \<not> ok2 then (None, e)
                  else (let data = \<lparr>limit = 1000, interval = PSCHED_NS2TICKS (10 * NSEC_PER_MSEC), maxp = push_bit 16 8 div 10,
                                    alpha = push_bit 16 95 div 100, bandwidth = 12500, ecn_bits = 1, prob = 0, avg_qlen = 0,
                                    cnt = 0, one_minus_alpha = 0, maxp64 = 0, last_time = 0\<rparr>;
                            data = fold (rmt_ps_load_param kstrtouint kstrtoull cfg)
                                     [''limit'', ''interval'', ''maxp'', ''alpha'', ''bandwidth'', ''ecn_bits''] data;
                            (t, e) = psched_get_time e
                        in (Some (lgcshq_ps, data\<lparr>avg_qlen := 0, cnt := 0, one_minus_alpha := 65536 - alpha data,
                                                   maxp64 := push_bit 16 (ucast (maxp data)), last_time := t\<rparr>), e))))"

section \<open>The contract\<close>

definition unmarked :: "pdu \<Rightarrow> pdu" where
  "unmarked p = p\<lparr>p_flags := p_flags p AND 0x80\<rparr>"

definition lgc_qinv :: "lgcshq_rmt_queue \<Rightarrow> bool" where
  "lgc_qinv q \<longleftrightarrow> rfifo_inv (lq_queue q)"

definition lgc_contents :: "lgcshq_rmt_queue \<Rightarrow> pdu list" where
  "lgc_contents q = rfifo_list (lq_queue q)"

text \<open>Readings of the clock that do not go back, at most \<open>g\<close> ticks apart.\<close>

fun gaps_ok :: "u64 \<Rightarrow> u64 list \<Rightarrow> bool" where
  "gaps_ok g (s # t # ts) \<longleftrightarrow> s \<le> t \<and> t - s \<le> g \<and> gaps_ok g (t # ts)"
| "gaps_ok g ts \<longleftrightarrow> ts \<noteq> []"

text \<open>
  The link carries at least a byte in an interval, and less than 4 GiB in an interval and the longest
  time \<open>g\<close> without traffic.
\<close>

definition lgc_rate_ok :: "u64 \<Rightarrow> lgcshq_rmt_ps_data \<Rightarrow> bool" where
  "lgc_rate_ok g data \<longleftrightarrow> 1000000 \<le> 64 * unat (bandwidth data) * (unat (interval data) + 1) \<and>
     64 * unat (bandwidth data) * (unat g + unat (interval data)) < 1000000 * 2 ^ 32"

definition lgc_prob_ok :: "lgcshq_rmt_ps_data \<Rightarrow> bool" where
  "lgc_prob_ok data \<longleftrightarrow> maxp data \<le> 65536 \<and> maxp64 data = push_bit 16 (ucast (maxp data)) \<and> prob data \<le> 0xffffffff"

text \<open>The measurement in progress began at most an interval before the last reading \<open>t0\<close> of the clock.\<close>

definition lgc_pinv :: "u64 \<Rightarrow> lgcshq_rmt_ps_data \<Rightarrow> u64 list \<Rightarrow> bool" where
  "lgc_pinv g data ts \<longleftrightarrow> lgc_rate_ok g data \<and> lgc_prob_ok data \<and> ts \<noteq> [] \<and>
     (\<exists>t0. last_time data \<le> t0 \<and> t0 - last_time data \<le> interval data \<and> gaps_ok g (t0 # ts))"

lemma unat_of_nat_small: "n < 2 ^ LENGTH('a) \<Longrightarrow> unat (of_nat n :: 'a::len word) = n"
  by (simp add: unsigned_of_nat take_bit_nat_eq_self)

lemma word64_sub_trans:
  fixes l s t :: u64
  assumes "l \<le> s" "s \<le> t" "s - l \<le> i" "t - s \<le> g"
  shows "l \<le> t" "unat (t - l) \<le> unat g + unat i"
proof -
  show le: "l \<le> t" using assms by simp
  have "unat (t - l) = unat t - unat l" "unat (s - l) = unat s - unat l" "unat (t - s) = unat t - unat s"
    using assms le by (simp_all add: unat_sub)
  moreover have "unat (s - l) \<le> unat i" "unat (t - s) \<le> unat g" using assms by (simp_all add: word_le_nat_alt)
  ultimately show "unat (t - l) \<le> unat g + unat i" by linarith
qed

text \<open>The capacity of the link over the time \<open>d\<close>, in bytes.\<close>

lemma capacity:
  fixes d :: u64
  assumes "lgc_rate_ok g data" "interval data < d" "unat d \<le> unat g + unat (interval data)"
  shows "\<exists>m. do_div (ucast (bandwidth data) * PSCHED_TICKS2NS d) NSEC_PER_MSEC = Some m \<and>
     unat m = 64 * unat (bandwidth data) * unat d div 1000000 \<and> 0 < unat m \<and> unat m < 2 ^ 32"
proof -
  let ?b = "unat (bandwidth data)"
  have hi: "64 * ?b * unat d < 1000000 * 2 ^ 32"
    using assms(1,3) by (smt (verit) lgc_rate_ok_def mult_le_mono2 order_le_less_trans)
  have "unat (interval data) + 1 \<le> unat d" using assms(2) by (simp add: word_less_nat_alt)
  then have lo: "1000000 \<le> 64 * ?b * unat d"
    using assms(1) by (meson lgc_rate_ok_def mult_le_mono2 order_trans)
  have b: "unat (ucast (bandwidth data) * PSCHED_TICKS2NS d :: u64) = 64 * ?b * unat d"
  proof -
    have "ucast (bandwidth data) * PSCHED_TICKS2NS d = (of_nat (64 * ?b * unat d) :: u64)"
      by (simp add: PSCHED_TICKS2NS_def push_bit_eq_mult)
    moreover have "64 * ?b * unat d < 2 ^ 64" using hi by simp
    ultimately show ?thesis using unat_of_nat_small [where 'a = 64, of "64 * ?b * unat d"] by (simp del: of_nat_mult)
  qed
  have "unat (ucast (bandwidth data) * PSCHED_TICKS2NS d div NSEC_PER_MSEC :: u64) = 64 * ?b * unat d div 1000000"
    by (simp add: unat_div_distrib b)
  with hi lo show ?thesis by (auto simp: do_div_def div_greater_zero_iff less_mult_imp_div_less)
qed

lemma clock_step:
  assumes "gaps_ok g (t0 # r_time e)" "r_time e \<noteq> []" "psched_get_time e = (t, e')"
  shows "t0 \<le> t \<and> t - t0 \<le> g \<and> gaps_ok g (t # r_time e') \<and> r_time e' \<noteq> [] \<and> e' = e\<lparr>r_time := r_time e'\<rparr>"
  using assms by (auto simp: psched_get_time_def split: list.splits)

text \<open>The new probability: no division faults, and it fits 32 bits.\<close>

lemma calc_ok:
  assumes "lgc_rate_ok g data" "lgc_prob_ok data" "interval data < d" "unat d \<le> unat g + unat (interval data)"
    and clock: "gaps_ok g (t0 # r_time e)" "r_time e \<noteq> []"
  shows "\<exists>data' e'. calc_probability data d b e = Some (data', e') \<and> lgc_pinv g data' (r_time e') \<and> e' = e\<lparr>r_time := r_time e'\<rparr> \<and>
    limit data' = limit data"
proof -
  from capacity [OF assms(1,3,4)] obtain m where
    m: "do_div (ucast (bandwidth data) * PSCHED_TICKS2NS d) NSEC_PER_MSEC = Some m" "0 < unat m" "unat m < 2 ^ 32" by blast
  have "unat (ucast m :: u32) = unat m" using m(3) by (simp add: unsigned_ucast_eq take_bit_nat_eq_self)
  then have nz: "(ucast m :: u32) \<noteq> 0" using m(2) by (metis less_irrefl unsigned_0)
  have dv: "do_div x m = Some (x div ucast (ucast m :: u32))" for x using nz by (simp add: do_div_def)
  obtain t e' where t: "psched_get_time e = (t, e')" by fastforce
  note c = clock_step [OF clock t]
  have max: "maxp64 data \<le> 0x100000000"
  proof -
    have "unat (maxp data) \<le> 65536" using assms(2) by (simp add: lgc_prob_ok_def word_le_nat_alt)
    then have "unat (maxp64 data) \<le> 2 ^ 32" using assms(2) unat_of_nat_small [where 'a = 64, of "unat (maxp data) * 65536"]
      by (simp add: lgc_prob_ok_def push_bit_eq_mult)
    then show ?thesis by (simp add: word_le_nat_alt)
  qed
  have le: "x \<le> 0xffffffff" if "\<not> maxp64 data \<le> x" for x :: u64
    using that max by (simp add: word_le_nat_alt word_less_nat_alt)
  show ?thesis
    using assms(1,2) c le unfolding calc_probability_def
    by (auto simp: m(1) dv t Let_def lgc_pinv_def lgc_rate_ok_def lgc_prob_ok_def intro: exI [of _ t])
qed

lemma lgc_qinvE:
  assumes "lgc_qinv q"
  obtains f where "lq_queue q = Some f" "rfifo_inv (Some f)"
  using assms by (cases "lq_queue q") (auto simp: lgc_qinv_def rfifo_inv_def)

text \<open>Marking only sets congestion bits.\<close>

lemma mark_loop_keeps:
  assumes "mark_loop p n ms fl e = (fl', e')" "\<forall>(k, b)\<in>set ms. b AND 0x80 = 0"
  shows "fl' AND 0x80 = fl AND 0x80 \<and> (\<exists>xs. e' = e\<lparr>r_rand := xs\<rparr>)"
  using assms
proof (induction p n ms fl e rule: mark_loop.induct)
  case (2 p n k b ms fl e)
  obtain m e1 where m: "should_mark p e = (m, e1)" by fastforce
  then have "\<exists>xs. e1 = e\<lparr>r_rand := xs\<rparr>"
    by (cases "r_rand e") (auto simp: should_mark_def prandom_def intro: exI [of _ "[]"])
  then obtain xs where xs: "e1 = e\<lparr>r_rand := xs\<rparr>" ..
  show ?case
  proof (cases "n \<ge> k")
    case True
    have "(if m then fl OR b else fl) AND 0x80 = fl AND 0x80" using 2(4) by (simp add: bit.conj_disj_distrib2)
    moreover from 2(1) [OF True refl] m 2(3,4) True have
      "fl' AND 0x80 = (if m then fl OR b else fl) AND 0x80" "\<exists>ys. e' = e1\<lparr>r_rand := ys\<rparr>" by (simp_all add: Let_def)
    ultimately show ?thesis by (auto simp: xs)
  qed (use 2 in simp)
next
  case (1 p n fl e)
  then show ?case by (auto intro: exI [of _ "r_rand e"])
qed

lemma ecn_marks_bits: "\<forall>(k, b)\<in>set ecn_marks. b AND 0x80 = (0 :: pdu_flags_t)"
  by (simp add: ecn_marks_def)

text \<open>One measurement: the clock is read and, at the end of an interval, the probability computed.\<close>

lemma measure_ok:
  assumes "lgc_pinv g data (r_time e)"
  shows "\<exists>data' e' ts. lgcshq_measure data len b e = Some (data', e') \<and> lgc_pinv g data' (r_time e') \<and> e' = e\<lparr>r_time := ts\<rparr>"
proof -
  let ?d = "data\<lparr>cnt := cnt data + word_of_int len\<rparr>"
  have "lgc_pinv g ?d (r_time e)" using assms by (simp add: lgc_pinv_def lgc_rate_ok_def lgc_prob_ok_def)
  then obtain t0 where
    p: "lgc_rate_ok g ?d" "lgc_prob_ok ?d" "r_time e \<noteq> []" "last_time ?d \<le> t0" "t0 - last_time ?d \<le> interval ?d" "gaps_ok g (t0 # r_time e)"
    unfolding lgc_pinv_def by blast
  obtain t e1 where t: "psched_get_time e = (t, e1)" by fastforce
  note c = clock_step [OF p(6,3) t]
  then have e1: "\<exists>ts. e1 = e\<lparr>r_time := ts\<rparr>" by blast
  have le: "last_time ?d \<le> t" "unat (t - last_time ?d) \<le> unat g + unat (interval ?d)"
    using word64_sub_trans [OF p(4) _ p(5), of t g] c by simp_all
  show ?thesis
  proof (cases "interval ?d < t - last_time ?d")
    case True
    from calc_ok [OF p(1,2) True le(2), of t e1 b] c obtain data' e' where
      "calc_probability ?d (t - last_time ?d) b e1 = Some (data', e')" "lgc_pinv g data' (r_time e')" "e' = e1\<lparr>r_time := r_time e'\<rparr>"
      by blast
    with True e1 t show ?thesis by (auto simp: lgcshq_measure_def)
  next
    case False
    then have "lgcshq_measure data len b e = Some (?d, e1)" using t by (simp add: lgcshq_measure_def)
    moreover have "lgc_pinv g ?d (r_time e1)" unfolding lgc_pinv_def using False c le(1) p(1,2) by (auto intro!: exI [of _ t])
    ultimately show ?thesis using e1 by blast
  qed
qed

lemma lgc_enqueue:
  assumes "lgc_pinv g data (r_time e)" "lgc_qinv q" "r_ms e = []"
  shows "\<exists>c du' q' data' e'. lgcshq_rmt_enqueue_policy must (Some du) (Some q) data e = Some (c, Some du', Some q', data', e') \<and>
    lgc_pinv g data' (r_time e') \<and> lgc_qinv q' \<and> same_renv e e' \<and>
    enq_result unmarked must du (mset (lgc_contents q)) e c du' (mset (lgc_contents q')) e'"
proof (cases "(word_of_int (rfifo_length (lq_queue q)) :: u32) \<ge> limit data \<and> p_type du \<noteq> PDU_TYPE_MGMT")
  case True
  with assms show ?thesis
    by (auto simp: lgcshq_rmt_enqueue_policy_def enq_result_def enq_codes same_renv_def r_emit_def)
next
  case False
  from assms(2) obtain f where f: "lq_queue q = Some f" "rfifo_inv (Some f)" by (rule lgc_qinvE)
  from measure_ok [OF assms(1), of "r_len e du" "word_of_int (rfifo_length (lq_queue q))"] obtain data' e2 ts where
    m: "lgcshq_measure data (r_len e du) (word_of_int (rfifo_length (lq_queue q))) e = Some (data', e2)"
      "lgc_pinv g data' (r_time e2)" "e2 = e\<lparr>r_time := ts\<rparr>" by blast
  obtain fl e3 where fl: "mark_loop (prob data') (ecn_bits data') ecn_marks (p_flags du) e2 = (fl, e3)" by fastforce
  from mark_loop_keeps [OF fl ecn_marks_bits] obtain xs where
    k: "fl AND 0x80 = p_flags du AND 0x80" "e3 = e2\<lparr>r_rand := xs\<rparr>" by blast
  let ?du = "du\<lparr>p_flags := fl\<rparr>"
  have e3: "r_ms e3 = []" "lgc_pinv g data' (r_time e3)" "same_renv e e3" "r_trace e3 = r_trace e"
    using m(2,3) k(2) assms(3) by (simp_all add: same_renv_def)
  from fifo_ni(2) [OF e3(1) f(2), of ?du] obtain f' where
    f': "rfifo_push_ni (Some f) ?du e3 = (Some f', e3)" "rfifo_inv (Some f')" "rfifo_list (Some f') = rfifo_list (Some f) @ [?du]" by blast
  have b: "unmarked ?du = unmarked du" using k(1) by (simp add: unmarked_def)
  show ?thesis
    unfolding lgcshq_rmt_enqueue_policy_def using False e3 b assms(2)
    by (auto simp: m(1) [unfolded f(1)] fl f f' Let_def lgc_qinv_def lgc_contents_def enq_result_def enq_codes)
qed

lemma lgc_dequeue:
  assumes "lgc_qinv q"
  shows "\<exists>q'. lgcshq_rmt_dequeue_policy (Some q) data e =
      (case lgc_contents q of [] \<Rightarrow> None | du # _ \<Rightarrow> Some du, Some q', data, e) \<and> lgc_qinv q' \<and> lgc_contents q' = tl (lgc_contents q)"
proof -
  from assms obtain f where f: "lq_queue q = Some f" "rfifo_inv (Some f)" by (rule lgc_qinvE)
  from fifo_pop [OF f(2)] f(1) show ?thesis
    by (auto simp: lgcshq_rmt_dequeue_policy_def lgc_qinv_def lgc_contents_def)
qed

interpretation lgc_policy: rmt_ordered_policy lgcshq_ps "lgc_pinv g" lgc_qinv lgc_contents unmarked
proof
  show "\<exists>c du' q' pr' e'. rmt_enqueue_policy lgcshq_ps must (Some du) (Some q) pr e = Some (c, Some du', Some q', pr', e') \<and>
      lgc_pinv g pr' (r_time e') \<and> lgc_qinv q' \<and> same_renv e e' \<and>
      enq_result unmarked must du (mset (lgc_contents q)) e c du' (mset (lgc_contents q')) e'"
    if "lgc_pinv g pr (r_time e)" "lgc_qinv q" "r_ms e = []" for pr e q must du
    using lgc_enqueue [OF that, of must du] by (simp add: lgcshq_ps_def)
  show "\<exists>x q' pr' e'. rmt_dequeue_policy lgcshq_ps (Some q) pr e = (x, Some q', pr', e') \<and> lgc_pinv g pr' (r_time e') \<and>
      lgc_qinv q' \<and> same_renv e e' \<and> r_trace e' = r_trace e \<and>
      (case x of None \<Rightarrow> lgc_contents q = [] \<and> lgc_contents q' = []
       | Some du \<Rightarrow> mset (lgc_contents q) = add_mset du (mset (lgc_contents q')))"
    if "lgc_pinv g pr (r_time e)" "lgc_qinv q" for pr e q
    using lgc_dequeue [OF that(2), of pr e] that(1)
    by (cases "lgc_contents q") (auto simp: lgcshq_ps_def same_renv_def)
  show "\<exists>c ds. mset ds = mset (lgc_contents q) \<and> rmt_q_destroy_policy lgcshq_ps (Some q) e = (c, destroy_all ds e)"
    if inv: "lgc_qinv q" for q e
  proof -
    obtain f where "lq_queue q = Some f" "rfifo_inv (Some f)" using inv by (rule lgc_qinvE)
    then show ?thesis
      by (auto simp: lgcshq_ps_def lgcshq_rmt_q_destroy_policy_def lgcshq_rmt_queue_destroy_def fifo_all lgc_contents_def)
  qed
  show "\<exists>q. rmt_q_create_policy lgcshq_ps i pr e = (Some q, e) \<and> lgc_qinv q \<and> lgc_contents q = []"
    if "r_ms e = []" for i pr e
    using fifo_ni(1) [OF that] alloc_ok [OF that]
    by (auto simp: lgcshq_ps_def lgcshq_rmt_q_create_policy_def lgcshq_queue_create_def lgc_qinv_def lgc_contents_def)
  show "lgc_contents q = du # lgc_contents q'"
    if "lgc_qinv q" "rmt_dequeue_policy lgcshq_ps (Some q) pr e = (Some du, Some q', pr', e')" for q pr e du q' pr' e'
    using lgc_dequeue [OF that(1), of pr e] that(2) by (cases "lgc_contents q") (auto simp: lgcshq_ps_def)
qed

section \<open>The arithmetic of the probability\<close>

text \<open>The average and the probability in natural numbers, and the wrap-around of the code ruled out.\<close>

definition ewma :: "nat \<Rightarrow> nat \<Rightarrow> nat \<Rightarrow> nat" where
  "ewma al avg c = (avg * (65536 - al) + 65536 * c * al) div 65536"

definition mark_prob :: "nat \<Rightarrow> nat \<Rightarrow> nat \<Rightarrow> nat" where
  "mark_prob mp avg cap = (let x = avg * mp div cap in if x \<ge> mp * 65536 then 0xffffffff else x)"

lemma ewma_sum:
  fixes al avg c :: nat
  assumes "al \<le> 65536"
  shows "min avg (65536 * c) * 65536 \<le> avg * (65536 - al) + 65536 * c * al" "avg * (65536 - al) + 65536 * c * al \<le> max avg (65536 * c) * 65536"
proof -
  let ?l = "min avg (65536 * c)" and ?h = "max avg (65536 * c)"
  have "?l * (65536 - al) + ?l * al = ?l * 65536" "?h * (65536 - al) + ?h * al = ?h * 65536"
    using assms by (simp_all flip: add_mult_distrib2)
  moreover have "?l * (65536 - al) \<le> avg * (65536 - al)" "?l * al \<le> 65536 * c * al"
    "avg * (65536 - al) \<le> ?h * (65536 - al)" "65536 * c * al \<le> ?h * al" by simp_all
  ultimately show "?l * 65536 \<le> avg * (65536 - al) + 65536 * c * al" "avg * (65536 - al) + 65536 * c * al \<le> ?h * 65536" by linarith+
qed

lemma ewma_between:
  assumes "al \<le> 65536"
  shows "min avg (65536 * c) \<le> ewma al avg c" "ewma al avg c \<le> max avg (65536 * c)"
  using ewma_sum [OF assms, of avg c] unfolding ewma_def
  by (simp_all add: less_eq_div_iff_mult_less_eq div_le_mono [of _ "max avg (65536 * c) * 65536" 65536, simplified])

lemma word64_exact:
  assumes "w = of_nat n" "n < 2 ^ 64"
  shows "unat (w :: u64) = n"
  using unat_of_nat_small [where 'a = 64, of n] assms by simp

lemma average_exact:
  assumes "alpha data \<le> 65536" "one_minus_alpha data = 65536 - alpha data" "unat (avg_qlen data) < 2 ^ 48"
    "unat (cnt data) + unat b < 2 ^ 32"
  shows "unat (drop_bit 16 (avg_qlen data * ucast (one_minus_alpha data) + push_bit 16 (cnt data + ucast (b :: u32)) * ucast (alpha data))) =
    ewma (unat (alpha data)) (unat (avg_qlen data)) (unat (cnt data) + unat b)" (is "unat (drop_bit 16 ?w) = _")
proof -
  let ?a = "unat (avg_qlen data)" and ?al = "unat (alpha data)" and ?c = "unat (cnt data) + unat b"
  have al: "?al \<le> 65536" using assms(1) by (simp add: word_le_nat_alt)
  then have om: "unat (one_minus_alpha data) = 65536 - ?al" using assms(1,2) by (simp add: unat_sub)
  define k where "k = 65536 - ?al"
  have "(ucast (one_minus_alpha data) :: u64) = of_nat k" by (simp add: k_def flip: om)
  then have "?w = of_nat (?a * k + 65536 * ?c * ?al)" by (simp add: push_bit_eq_mult algebra_simps)
  then have "?w = of_nat (?a * (65536 - ?al) + 65536 * ?c * ?al)" unfolding k_def .
  moreover have "max ?a (65536 * ?c) * 65536 < 2 ^ 64" using assms(3,4) by simp
  then have "?a * (65536 - ?al) + 65536 * ?c * ?al < 2 ^ 64" by (rule order_le_less_trans [OF ewma_sum(2) [OF al]])
  ultimately have "unat ?w = ?a * (65536 - ?al) + 65536 * ?c * ?al" by (rule word64_exact)
  then show ?thesis by (simp add: ewma_def drop_bit_eq_div unat_div_distrib)
qed

lemma unat_ucast64: "unat (ucast x :: u64) = unat (x :: u32)"
proof -
  have "unat x < 2 ^ LENGTH(32)" by (rule unsigned_less)
  then show ?thesis by (simp add: unsigned_ucast_eq take_bit_nat_eq_self_iff)
qed

lemma do_div_exact:
  assumes "unat b \<noteq> 0" "unat b < 2 ^ 32"
  shows "\<exists>x. do_div n b = Some x \<and> unat x = unat n div unat b"
proof -
  have u: "unat (ucast b :: u32) = unat b" using assms(2) by (simp add: unsigned_ucast_eq take_bit_nat_eq_self)
  then have "(ucast b :: u32) \<noteq> 0" using assms(1) by (metis unsigned_0)
  then show ?thesis using u by (simp add: do_div_def unat_div_distrib unat_ucast64)
qed

lemma capacity_exact:
  assumes "64 * unat (bandwidth data) * unat d < 2 ^ 64"
  shows "\<exists>m. do_div (ucast (bandwidth data) * PSCHED_TICKS2NS d) NSEC_PER_MSEC = Some m \<and>
    unat m = 64 * unat (bandwidth data) * unat d div 1000000"
proof -
  have "ucast (bandwidth data) * PSCHED_TICKS2NS d = (of_nat (64 * unat (bandwidth data) * unat d) :: u64)"
    by (simp add: PSCHED_TICKS2NS_def push_bit_eq_mult)
  from word64_exact [OF this assms] show ?thesis
    using do_div_exact [of NSEC_PER_MSEC "ucast (bandwidth data) * PSCHED_TICKS2NS d"] by simp
qed

definition lgc_calm :: "lgcshq_rmt_ps_data \<Rightarrow> u32 \<Rightarrow> bool" where
  "lgc_calm data b \<longleftrightarrow> alpha data \<le> 65536 \<and> one_minus_alpha data = 65536 - alpha data \<and>
     maxp data \<le> 65536 \<and> maxp64 data = push_bit 16 (ucast (maxp data)) \<and>
     unat (avg_qlen data) < 2 ^ 48 \<and> unat (cnt data) + unat b < 2 ^ 32"

section \<open>Marks\<close>

text \<open>The bits to set, given one random number per enabled bit (0 for those that are not given).\<close>

fun marks_of :: "u64 \<Rightarrow> pdu_flags_t list \<Rightarrow> u32 list \<Rightarrow> pdu_flags_t" where
  "marks_of p [] xs = 0"
| "marks_of p (b # bs) [] = (if 0 < p then b else 0) OR marks_of p bs []"
| "marks_of p (b # bs) (x # xs) = (if ucast x < p then b else 0) OR marks_of p bs xs"

definition enabled_marks :: "u32 \<Rightarrow> pdu_flags_t list" where
  "enabled_marks n = map snd (filter (\<lambda>(k, b). k \<le> n) ecn_marks)"

lemma mark_loop_marks:
  "fst (mark_loop p n ms fl e) = fl OR marks_of p (map snd (filter (\<lambda>(k, b). k \<le> n) ms)) (r_rand e)"
proof (induction p n ms fl e rule: mark_loop.induct)
  case (2 p n k b ms fl e)
  then show ?case
    by (cases "r_rand e") (auto simp: should_mark_def prandom_def Let_def or.assoc)
qed simp

section \<open>Properties\<close>


text \<open>The parameters of the default configuration, and an environment with clock and random numbers.\<close>

definition ex_lgc :: lgcshq_rmt_ps_data where
  "ex_lgc = \<lparr>limit = 1000, interval = 156250, maxp = 52428, alpha = 62259, bandwidth = 12500, ecn_bits = 2, prob = 0, avg_qlen = 0,
     cnt = 0, one_minus_alpha = 3277, maxp64 = 3435921408, last_time = 1000\<rparr>"

definition ex_lenv :: renv where
  "ex_lenv = \<lparr>r_ms = [], r_time = [2000, 200000, 200100, 201000], r_rand = [5, 7, 0xffffffff], r_sdup = [], r_write = [], r_post = [],
     r_len = \<lambda>_. 1400, r_sched = False, r_trace = []\<rparr>"

definition ex_lpdu :: "pdu_type_t \<Rightarrow> u32 \<Rightarrow> pdu" where
  "ex_lpdu t sn = \<lparr>p_type = t, p_flags = 0, p_src_cep = 1, p_dst_cep = 2, p_src = 16, p_dst = 17, p_qos = 1, p_seq = sn,
     p_ctrl = \<lambda>_. 0, p_data = []\<rparr>"

definition ex_lrmt :: "(lgcshq_rmt_ps_data, lgcshq_rmt_queue, unit) rmt" where
  "ex_lrmt = \<lparr>rm_addresses = [16], rm_ports = [], rm_priv = ex_lgc, rm_pff = None, rm_cache = [], rm_cfg = cfg_of sample_dt_cons, rm_env = ex_lenv\<rparr>"

lemma ex_lgc_ok: "lgc_rate_ok 200000 ex_lgc" "lgc_prob_ok ex_lgc" "gaps_ok 200000 (last_time ex_lgc # r_time ex_lenv)"
  by (simp_all add: lgc_rate_ok_def lgc_prob_ok_def ex_lgc_def ex_lenv_def push_bit_eq_mult)




text \<open>
  C26. What the policy does with a PDU: a PDU other than a management PDU that finds \<open>limit\<close> PDUs queued is
  dropped; every other PDU is queued at the end, or sent at once when nothing is queued and it
  need not wait, with exactly those of the \<open>ecn_bits\<close> congestion bits set, beside the ones it had, whose
  random number is below the probability in force.
\<close>

theorem lgcshq_enqueue_marks:
  assumes "lgc_qinv q" "r_ms e = []" "lgcshq_measure data (r_len e du) (word_of_int (rfifo_length (lq_queue q))) e = Some (data', e')"
    and "du' = du\<lparr>p_flags := p_flags du OR marks_of (prob data') (enabled_marks (ecn_bits data')) (r_rand e')\<rparr>" "r_ms e' = []"
  shows "\<exists>e2 q'. lgcshq_rmt_enqueue_policy must (Some du) (Some q) data e =
     (if word_of_nat (length (lgc_contents q)) \<ge> limit data \<and> p_type du \<noteq> PDU_TYPE_MGMT
      then Some (RMT_PS_ENQ_DROP, Some du, Some q, data, r_emit (Destroyed du) e)
      else if \<not> must \<and> lgc_contents q = [] then Some (RMT_PS_ENQ_SEND, Some du', Some q, data', e2)
      else Some (RMT_PS_ENQ_SCHED, Some du', Some q', data', e2)) \<and>
     lgc_contents q' = lgc_contents q @ [du']"
proof -
  from assms(1) obtain f where f: "lq_queue q = Some f" "rfifo_inv (Some f)" by (rule lgc_qinvE)
  obtain fl e2 where fl: "mark_loop (prob data') (ecn_bits data') ecn_marks (p_flags du) e' = (fl, e2)" by fastforce
  have du': "du' = du\<lparr>p_flags := fl\<rparr>" using mark_loop_marks [of "prob data'" "ecn_bits data'" ecn_marks "p_flags du" e'] fl assms(4)
    by (simp add: enabled_marks_def)
  have "r_ms e2 = []" using mark_loop_keeps [OF fl ecn_marks_bits] assms(5) by auto
  from fifo_ni(2) [OF this f(2), of du'] obtain f' where
    f': "rfifo_push_ni (Some f) du' e2 = (Some f', e2)" "rfifo_list (Some f') = rfifo_list (Some f) @ [du']" by blast
  have "rfifo_is_empty (Some f) \<longleftrightarrow> rfifo_list (Some f) = []" by (rule rfifo_fifo.is_empty_iff [OF f(2)])
  with f f' fl du' show ?thesis
    unfolding lgcshq_rmt_enqueue_policy_def prod.case option.case Let_def assms(3)
    by (intro exI [of _ e2] exI [of _ "q\<lparr>lq_queue := Some f'\<rparr>"]) (simp add: fifo_all lgc_contents_def)
qed

theorem lgcshq_enqueue_marks_witness:
  "\<exists>e2 q'. lgcshq_rmt_enqueue_policy True (Some (ex_lpdu PDU_TYPE_DT 1)) (Some \<lparr>lq_queue = Some \<lparr>rf_q = Some \<lparr>rq_head = [], rq_length = 0\<rparr>\<rparr>, lq_port_id = 1\<rparr>)
      (ex_lgc\<lparr>prob := 6\<rparr>) ex_lenv =
    Some (RMT_PS_ENQ_SCHED, Some ((ex_lpdu PDU_TYPE_DT 1)\<lparr>p_flags := 1\<rparr>), Some q', ex_lgc\<lparr>prob := 6, cnt := 1400\<rparr>, e2) \<and>
    lgc_contents q' = [(ex_lpdu PDU_TYPE_DT 1)\<lparr>p_flags := 1\<rparr>]"
proof -
  let ?q = "\<lparr>lq_queue = Some \<lparr>rf_q = Some \<lparr>rq_head = [], rq_length = 0\<rparr>\<rparr>, lq_port_id = 1\<rparr> :: lgcshq_rmt_queue"
  let ?e = "ex_lenv\<lparr>r_time := [200000, 200100, 201000]\<rparr>"
  have q: "lgc_qinv ?q" "lgc_contents ?q = []" by (simp_all add: lgc_qinv_def lgc_contents_def queue_simps)
  have m: "lgcshq_measure (ex_lgc\<lparr>prob := 6\<rparr>) (r_len ex_lenv (ex_lpdu PDU_TYPE_DT 1)) (word_of_int (rfifo_length (lq_queue ?q))) ex_lenv =
      Some (ex_lgc\<lparr>prob := 6, cnt := 1400\<rparr>, ?e)"
    by (simp add: lgcshq_measure_def ex_lgc_def ex_lenv_def psched_get_time_def)
  have b: "p_flags (ex_lpdu PDU_TYPE_DT 1) OR marks_of (prob (ex_lgc\<lparr>prob := 6, cnt := 1400\<rparr>))
      (enabled_marks (ecn_bits (ex_lgc\<lparr>prob := 6, cnt := 1400\<rparr>))) (r_rand ?e) = 1"
    by (simp add: enabled_marks_def ecn_marks_def ex_lgc_def ex_lenv_def ex_lpdu_def)
  from lgcshq_enqueue_marks [OF q(1) _ m refl, of True] q(2) show ?thesis unfolding b by (simp add: ex_lenv_def ex_lgc_def)
qed

section \<open>Where the code goes wrong\<close>

text \<open>
  The capacity of the link over the interval is cut to 32 bits when the average is divided by it: with the
  default configuration, a first PDU 343.6 s after the previous one makes the kernel divide by zero,
  and one shortly after that is marked although the link was idle.
\<close>

lemma lgcshq_divides_by_zero: "calc_probability ex_lgc 5368709120 0 e = None"
  by (simp add: calc_probability_def do_div_def ex_lgc_def PSCHED_TICKS2NS_def push_bit_eq_mult)

text \<open>A bandwidth of 0, which the parameter allows, makes every measurement divide by zero.\<close>

lemma lgcshq_bandwidth_zero: "bandwidth data = 0 \<Longrightarrow> calc_probability data d b e = None"
  by (simp add: calc_probability_def do_div_def)

text \<open>
  \<^verbatim>\<open>one_minus_alpha\<close> and \<^verbatim>\<open>maxp64\<close> are computed once: changing \<open>alpha\<close> at run time leaves weights that do not add
  up to 1.
\<close>

lemma lgcshq_alpha_stale:
  "lgcshq_rmt_ps_set_policy_set_param (\<lambda>_. Some 32768) k64 (Some ''alpha'') (Some ''32768'') ex_lgc = (0, ex_lgc\<lparr>alpha := 32768\<rparr>)"
  "alpha (ex_lgc\<lparr>alpha := 32768\<rparr>) + one_minus_alpha (ex_lgc\<lparr>alpha := 32768\<rparr>) \<noteq> 65536"
  by (simp_all add: lgcshq_rmt_ps_set_policy_set_param_def ex_lgc_def)

end
