(* ===== verification/Lgcshq_Dtcp.thy ===== *)
theory Lgcshq_Dtcp
  imports Lgcshq_Rmt Dtp
begin

text \<open>
  The flow control policy of LGC-ShQ, \<^verbatim>\<open>plugins/lgc-shq/dtcp-ps-lgcshq.c\<close>: the receiver counts the congestion
  bits of the PDUs it gets and, once per observation window, computes a new sending rate by the
  logistic growth rule with tables of logarithms and powers (\<^verbatim>\<open>tcp_lgc_lut.c\<close>), derives from it
  the credit and advances the right edge of the window. Rates are bytes per millisecond,
  scaled by \<open>2 ^ 16\<close>. The tables, 65537 numbers each, are parameters.
\<close>

unbundle bit_operations_syntax

section \<open>The tables\<close>

record lgc_luts =
  log_lut :: "u32 list"
  pow_lut :: "u32 list"
  exp_lut :: "u32 list"

definition LGC_LUT_SIZE :: nat where "LGC_LUT_SIZE = 65537"

definition lut_at :: "u32 list \<Rightarrow> u32 \<Rightarrow> u32 option" where
  "lut_at t x = (if unat x < length t then Some (t ! unat x) else None)"

definition lgc_log_lut_lookup :: "lgc_luts \<Rightarrow> u32 \<Rightarrow> u32 option" where
  "lgc_log_lut_lookup l fraction = (if fraction < 65537 then lut_at (log_lut l) fraction else Some 0)"

definition lgc_pow_lut_lookup :: "lgc_luts \<Rightarrow> u32 \<Rightarrow> u32 option" where
  "lgc_pow_lut_lookup l fraction = lut_at (pow_lut l) fraction"

definition lgc_exp_lut_lookup :: "lgc_luts \<Rightarrow> u32 \<Rightarrow> u32 option" where
  "lgc_exp_lut_lookup l fraction = lut_at (exp_lut l) fraction"

section \<open>The policy\<close>

abbreviation (input) LGCSHQ_ALPHA :: u32 where "LGCSHQ_ALPHA \<equiv> 3276"
abbreviation (input) ONE :: u32 where "ONE \<equiv> 65536"
abbreviation (input) ALMOST_ONE :: u32 where "ALMOST_ONE \<equiv> 65470"
abbreviation (input) ONE_MINUS_ALPHA :: u32 where "ONE_MINUS_ALPHA \<equiv> 62259"
abbreviation (input) DEFAULT_PACKET_SIZE :: u32 where "DEFAULT_PACKET_SIZE \<equiv> 1484"

record lgcshq_dtcp_ps_data =
  init_credit :: uint_t
  sshtresh :: uint_t
  samples_received :: uint_t
  ecn_received :: uint_t
  obs_window_size :: uint_t
  lgc_max_rate :: uint_t
  dt_ecn_bits :: uint_t
  s_max_rate64 :: u64
  s_cur_rate64 :: u64
  max_rate32 :: u32
  rate_thresh :: u32
  min_RTT :: u32
  fraction :: u32

text \<open>The share of marked bits of an observation window, scaled by \<open>2 ^ 16\<close>.\<close>

definition marked_share :: "lgcshq_dtcp_ps_data \<Rightarrow> u32" where
  "marked_share data = push_bit 16 (ecn_received data) div max (samples_received data) 1"

definition new_fraction :: "lgcshq_dtcp_ps_data \<Rightarrow> u32" where
  "new_fraction data =
     (let ce = marked_share data;
          f = (if ce \<ge> rate_thresh data then ONE_MINUS_ALPHA * fraction data + LGCSHQ_ALPHA * ce
               else ONE_MINUS_ALPHA * fraction data);
          f = drop_bit 16 f
      in if f \<ge> ONE then ALMOST_ONE else f)"

text \<open>
  The new rate for the growth \<open>gr\<close> and the gradient, a signed number: the products are computed on 64 bits, and
  the shift between them is the arithmetic one.
\<close>

definition grown_rate :: "u64 \<Rightarrow> u32 \<Rightarrow> u32 \<Rightarrow> u64" where
  "grown_rate rate gr gradient =
     (let g = signed_drop_bit 16 (ucast gr * rate) * scast gradient
      in drop_bit 16 (push_bit 16 rate + g))"

definition lgc_update_rate :: "lgc_luts \<Rightarrow> lgcshq_dtcp_ps_data \<Rightarrow> lgcshq_dtcp_ps_data option" where
  "lgc_update_rate l data = do {
     let rate = s_cur_rate64 data;
     let ce = marked_share data;
     let data = data\<lparr>fraction := new_fraction data\<rparr>;
     ratio \<leftarrow> do_div rate (ucast (max_rate32 data));
     first_term \<leftarrow> lgc_log_lut_lookup l (ucast ratio);
     second_term \<leftarrow> lgc_log_lut_lookup l (ONE - fraction data);
     gr \<leftarrow> lgc_pow_lut_lookup l ce;
     let new_rate = grown_rate rate gr (first_term - second_term);
     let rate = (if new_rate > push_bit 1 rate then push_bit 1 rate else if new_rate = 0 then 65536 else new_rate);
     let rate = (if rate > s_max_rate64 data then s_max_rate64 data else rate);
     Some (data\<lparr>s_cur_rate64 := rate\<rparr>)
   }"

text \<open>The credit and the rate it stands for; the product of the second is computed on 32 bits.\<close>

definition lgc_set_cwnd :: "lgcshq_dtcp_ps_data \<Rightarrow> dtp \<Rightarrow> (lgcshq_dtcp_ps_data \<times> dtp) option" where
  "lgc_set_cwnd data d = do {
     target \<leftarrow> do_div (drop_bit 16 (s_cur_rate64 data * ucast (min_RTT data))) (ucast (DEFAULT_PACKET_SIZE * 1000));
     let cwnd = max (ucast target + 1) (10 :: u32);
     target \<leftarrow> do_div (push_bit 16 (ucast (cwnd * DEFAULT_PACKET_SIZE * 1000))) (ucast (min_RTT data));
     Some (data\<lparr>s_cur_rate64 := target\<rparr>, cv_upd (\<lambda>s. s\<lparr>cv_rcvr_credit := cwnd\<rparr>) d)
   }"

definition lgc_init_rate :: "lgcshq_dtcp_ps_data \<Rightarrow> u64 option" where
  "lgc_init_rate data = do_div (push_bit 16 (ucast (init_credit data * DEFAULT_PACKET_SIZE * 1000))) (ucast (min_RTT data))"

text \<open>The seven counting statements: the number of congestion bits that enables one, and the bit.\<close>

definition ecn_bits_at :: "(uint_t \<times> pdu_flags_t) list" where
  "ecn_bits_at = [(1, 0x01), (2, 0x02), (3, 0x04), (4, 0x08), (5, 0x10), (6, 0x20), (7, 0x40)]"

definition count_bit :: "pdu_flags_t \<Rightarrow> uint_t \<times> pdu_flags_t \<Rightarrow> lgcshq_dtcp_ps_data \<Rightarrow> lgcshq_dtcp_ps_data" where
  "count_bit fl kb data =
     (if dt_ecn_bits data \<ge> fst kb
      then data\<lparr>samples_received := samples_received data + 1,
                ecn_received := (if fl AND snd kb \<noteq> 0 then ecn_received data + 1 else ecn_received data)\<rparr>
      else data)"

text \<open>The last statement of the policy: the right edge of the window moves, and never back.\<close>

definition lgcshq_move_edge :: "dtp \<Rightarrow> dtp option" where
  "lgcshq_move_edge d = do {
     c \<leftarrow> d_dtcp d;
     let edge = sv_rcv_left_window_edge (d_sv d) + cv_rcvr_credit (dc_sv c);
     Some (if edge > cv_rcvr_rt_wind_edge (dc_sv c) then cv_upd (\<lambda>s. s\<lparr>cv_rcvr_rt_wind_edge := edge\<rparr>) d else d)
   }"

definition lgcshq_rcvr_flow_control ::
    "lgc_luts \<Rightarrow> pdu \<Rightarrow> lgcshq_dtcp_ps_data \<Rightarrow> dtp \<Rightarrow> (rc \<times> lgcshq_dtcp_ps_data \<times> dtp) option" where
  "lgcshq_rcvr_flow_control l pci data d = do {
     let data = fold (count_bit (p_flags pci)) ecn_bits_at data;
     (data, d) \<leftarrow> (if samples_received data \<ge> obs_window_size data
                  then do {
                    data \<leftarrow> lgc_update_rate l data;
                    (data, d) \<leftarrow> lgc_set_cwnd data d;
                    c \<leftarrow> d_dtcp d;
                    Some (data\<lparr>samples_received := 0, ecn_received := 0, obs_window_size := cv_rcvr_credit (dc_sv c)\<rparr>, d)
                  }
                  else Some (data, d));
     d \<leftarrow> lgcshq_move_edge d;
     Some (0, data, d)
   }"

definition dtcp_ps_set_policy_set_param ::
    "(string \<Rightarrow> int ptr) \<Rightarrow> (string \<Rightarrow> u32 ptr) \<Rightarrow> string ptr \<Rightarrow> string ptr \<Rightarrow> lgcshq_dtcp_ps_data \<Rightarrow> rc \<times> lgcshq_dtcp_ps_data" where
  "dtcp_ps_set_policy_set_param kstrtoint kstrtouint name val data =
     (case (name, val) of
        (Some n, Some v) \<Rightarrow>
          (0, if n = ''ecn_bits''
              then (case kstrtouint v of
                      None \<Rightarrow> data
                    | Some k \<Rightarrow> if 0 < sint k \<and> sint k < 8 then data\<lparr>dt_ecn_bits := k\<rparr> else data)
              else case kstrtoint v of
                     None \<Rightarrow> data
                   | Some k \<Rightarrow>
                       (if n = ''lgc_max_rate'' then data\<lparr>lgc_max_rate := word_of_int k\<rparr>
                        else if n = ''rate_thresh'' then data\<lparr>rate_thresh := word_of_int k\<rparr>
                        else if n = ''min_RTT'' then data\<lparr>min_RTT := word_of_int (k * 1010)\<rparr>
                        else data))
      | _ \<Rightarrow> (-1, data))"

definition dtcp_ps_lgcshq_load_param ::
    "(string \<Rightarrow> int ptr) \<Rightarrow> (string \<Rightarrow> u32 ptr) \<Rightarrow> (string \<Rightarrow> string ptr) \<Rightarrow> string \<Rightarrow> lgcshq_dtcp_ps_data \<Rightarrow> lgcshq_dtcp_ps_data" where
  "dtcp_ps_lgcshq_load_param kstrtoint kstrtouint cfg n data =
     (case cfg n of None \<Rightarrow> data | Some v \<Rightarrow> snd (dtcp_ps_set_policy_set_param kstrtoint kstrtouint (Some n) (Some v) data))"

text \<open>\<open>None\<close> is a fault; the answer is NULL without memory or without a DTCP.\<close>

definition dtcp_ps_lgcshq_create ::
    "(string \<Rightarrow> int ptr) \<Rightarrow> (string \<Rightarrow> u32 ptr) \<Rightarrow> (string \<Rightarrow> string ptr) \<Rightarrow> dtp \<Rightarrow> (lgcshq_dtcp_ps_data ptr \<times> dtp) option" where
  "dtcp_ps_lgcshq_create kstrtoint kstrtouint cfg d =
     (let (ok1, d) = alloc d; (ok2, d) = alloc d
      in if \<not> ok1 \<or> \<not> ok2 \<or> d_dtcp d = None then Some (None, d)
         else do {
           let data = \<lparr>init_credit = 10, sshtresh = 0xFFFFFFFF, samples_received = 0, ecn_received = 0, obs_window_size = 10,
                       lgc_max_rate = 100, dt_ecn_bits = 1, s_max_rate64 = 0, s_cur_rate64 = 0, max_rate32 = 0,
                       rate_thresh = push_bit 16 8 div 10, min_RTT = 10000, fraction = 0\<rparr>;
           let d = cv_upd (\<lambda>s. s\<lparr>cv_rcvr_credit := init_credit data\<rparr>) d;
           let data = fold (dtcp_ps_lgcshq_load_param kstrtoint kstrtouint cfg)
                        [''lgc_max_rate'', ''rate_thresh'', ''min_RTT'', ''ecn_bits''] data;
           let data = data\<lparr>max_rate32 := lgc_max_rate data * 125\<rparr>;
           let data = data\<lparr>s_max_rate64 := push_bit 16 (ucast (max_rate32 data))\<rparr>;
           rate \<leftarrow> lgc_init_rate data;
           Some (Some (data\<lparr>s_cur_rate64 := rate, fraction := 0\<rparr>), d)
         })"

section \<open>The fraction of marks\<close>

lemma word32_exact:
  assumes "w = of_nat n" "n < 2 ^ 32"
  shows "unat (w :: u32) = n"
  using unat_of_nat_small [where 'a = 32, of n] assms by simp

lemma unat_max: "unat (max a b) = max (unat a) (unat b)"
  by (simp add: max_def word_le_nat_alt)

text \<open>Whatever the counters are, the share of the marks is at most 1 when no more marks than bits were counted.\<close>

lemma marked_share_le:
  assumes "ecn_received data \<le> samples_received data"
  shows "unat (marked_share data) \<le> 65536"
proof -
  let ?e = "unat (ecn_received data)" and ?s = "unat (samples_received data)"
  have le: "?e \<le> ?s" using assms by (simp add: word_le_nat_alt)
  have u: "unat (marked_share data) = unat (push_bit 16 (ecn_received data)) div max ?s 1"
    by (simp add: marked_share_def unat_div_distrib unat_max)
  show ?thesis
  proof (cases "?e < 65536")
    case True
    then have "unat (push_bit 16 (ecn_received data)) = ?e * 65536" by (intro word32_exact) (simp_all add: push_bit_eq_mult)
    then have "unat (marked_share data) \<le> max ?s 1 * 65536 div max ?s 1" unfolding u using le by (intro div_le_mono) simp
    then show ?thesis by simp
  next
    case False
    have "unat (push_bit 16 (ecn_received data)) < 2 ^ LENGTH(32)" by (rule unsigned_less)
    then have "unat (push_bit 16 (ecn_received data)) div max ?s 1 \<le> (65536 * 65536 - 1) div 65536"
      using False le by (intro div_le_mono2 [THEN order_trans, OF _ _ div_le_mono]) simp_all
    then show ?thesis by (simp add: u)
  qed
qed

lemma marked_share_exact:
  assumes "unat (ecn_received data) < 65536"
  shows "unat (marked_share data) = unat (ecn_received data) * 65536 div max (unat (samples_received data)) 1"
proof -
  have "unat (push_bit 16 (ecn_received data)) = unat (ecn_received data) * 65536"
    using assms by (intro word32_exact) (simp_all add: push_bit_eq_mult)
  then show ?thesis by (simp add: marked_share_def unat_div_distrib unat_max)
qed

definition fraction_step :: "nat \<Rightarrow> nat \<Rightarrow> nat \<Rightarrow> nat" where
  "fraction_step thresh f ce = (62259 * f + (if thresh \<le> ce then 3276 * ce else 0)) div 65536"

lemma fraction_step_less: "f < 65536 \<Longrightarrow> ce \<le> 65536 \<Longrightarrow> fraction_step t f ce < 65536"
  by (simp add: fraction_step_def div_less_iff_less_mult)

lemma new_fraction_exact:
  assumes "unat (fraction data) < 65536" "unat (marked_share data) \<le> 65536"
  shows "unat (new_fraction data) = fraction_step (unat (rate_thresh data)) (unat (fraction data)) (unat (marked_share data))"
proof -
  let ?f = "unat (fraction data)" and ?ce = "unat (marked_share data)"
  define w where "w = (if marked_share data \<ge> rate_thresh data then ONE_MINUS_ALPHA * fraction data + LGCSHQ_ALPHA * marked_share data
      else ONE_MINUS_ALPHA * fraction data)"
  have "unat w = 62259 * ?f + (if unat (rate_thresh data) \<le> ?ce then 3276 * ?ce else 0)"
    using assms by (intro word32_exact) (simp_all add: w_def word_le_nat_alt)
  then have "unat (drop_bit 16 w) = fraction_step (unat (rate_thresh data)) ?f ?ce"
    by (simp add: drop_bit_eq_div unat_div_distrib fraction_step_def)
  moreover have "new_fraction data = (if drop_bit 16 w \<ge> ONE then ALMOST_ONE else drop_bit 16 w)"
    by (simp add: new_fraction_def w_def Let_def)
  ultimately show ?thesis using fraction_step_less [OF assms, of "unat (rate_thresh data)"] by (simp add: word_le_nat_alt)
qed

section \<open>Invariant\<close>

definition luts_ok :: "lgc_luts \<Rightarrow> bool" where
  "luts_ok l \<longleftrightarrow> length (log_lut l) = LGC_LUT_SIZE \<and> length (pow_lut l) = LGC_LUT_SIZE"

text \<open>
  The configuration: the round trip time and the capacity of the link are not 0, and the data in flight they allow is
  less than 2893 packets. The state: no more marks than bits, less than a window of them, and a
  fraction below 1.
\<close>

definition lgc_conf_ok :: "lgcshq_dtcp_ps_data \<Rightarrow> bool" where
  "lgc_conf_ok data \<longleftrightarrow> max_rate32 data \<noteq> 0 \<and> min_RTT data \<noteq> 0 \<and> s_max_rate64 data = push_bit 16 (ucast (max_rate32 data)) \<and>
     unat (max_rate32 data) * unat (min_RTT data) < 2893 * 1484000"

definition lgc_state_ok :: "lgcshq_dtcp_ps_data \<Rightarrow> bool" where
  "lgc_state_ok data \<longleftrightarrow> unat (fraction data) < 65536 \<and> ecn_received data \<le> samples_received data \<and>
     samples_received data < obs_window_size data \<and> obs_window_size data \<le> 2893"

lemma fold_count:
  assumes "ecn_received data \<le> samples_received data" "unat (samples_received data) + length kbs < 2 ^ 32"
  shows "\<exists>s c. fold (count_bit fl) kbs data = data\<lparr>samples_received := s, ecn_received := c\<rparr> \<and> c \<le> s \<and>
    unat s \<le> unat (samples_received data) + length kbs"
  using assms
proof (induction kbs arbitrary: data)
  case Nil
  then show ?case by (intro exI [of _ "samples_received data"] exI [of _ "ecn_received data"]) simp
next
  case (Cons kb kbs)
  let ?d = "count_bit fl kb data"
  have s: "unat (samples_received data + 1) = unat (samples_received data) + 1"
    using Cons.prems(2) by (intro word32_exact) simp_all
  have e: "unat (ecn_received data + 1) = unat (ecn_received data) + 1"
    using Cons.prems by (intro word32_exact) (simp_all add: word_le_nat_alt)
  have d: "ecn_received ?d \<le> samples_received ?d" "unat (samples_received ?d) \<le> unat (samples_received data) + 1"
    using Cons.prems(1) s e by (simp_all add: count_bit_def word_le_nat_alt)
  from Cons.IH [OF d(1)] d(2) Cons.prems(2) obtain s c where
    "fold (count_bit fl) kbs ?d = ?d\<lparr>samples_received := s, ecn_received := c\<rparr>" "c \<le> s" "unat s \<le> unat (samples_received ?d) + length kbs"
    by auto
  moreover have "?d\<lparr>samples_received := s, ecn_received := c\<rparr> = data\<lparr>samples_received := s, ecn_received := c\<rparr>"
    by (simp add: count_bit_def)
  ultimately show ?case using d(2) by (intro exI [of _ s] exI [of _ c]) simp
qed

lemma lut_in_range: "unat x \<le> 65536 \<Longrightarrow> length t = LGC_LUT_SIZE \<Longrightarrow> \<exists>v. lut_at t x = Some v"
  by (simp add: lut_at_def LGC_LUT_SIZE_def)

lemma do_div_u32:
  assumes "b \<noteq> 0"
  shows "\<exists>x. do_div n (ucast (b :: u32)) = Some x \<and> unat x = unat n div unat b"
proof -
  have "unat b < 2 ^ LENGTH(32)" by (rule unsigned_less)
  moreover have "unat b \<noteq> 0" using assms by (simp add: unat_eq_zero)
  ultimately show ?thesis using do_div_exact [of "ucast b" n] by (simp add: unat_ucast64)
qed

lemma update_rate_ok:
  assumes "luts_ok l" "lgc_conf_ok data" "unat (fraction data) < 65536" "ecn_received data \<le> samples_received data"
  shows "\<exists>r. lgc_update_rate l data = Some (data\<lparr>fraction := new_fraction data, s_cur_rate64 := r\<rparr>) \<and> r \<le> s_max_rate64 data \<and>
    unat (new_fraction data) < 65536"
proof -
  note ce = marked_share_le [OF assms(4)]
  have f: "unat (new_fraction data) < 65536"
    using new_fraction_exact [OF assms(3) ce] fraction_step_less [OF assms(3) ce] by simp
  obtain q where q: "do_div (s_cur_rate64 data) (ucast (max_rate32 data)) = Some q"
    using do_div_u32 [of "max_rate32 data"] assms(2) by (auto simp: lgc_conf_ok_def)
  have lg: "\<exists>v. lgc_log_lut_lookup l x = Some v" for x
    using lut_in_range [of x "log_lut l"] assms(1) by (simp add: lgc_log_lut_lookup_def luts_ok_def word_less_nat_alt)
  obtain a b where "lgc_log_lut_lookup l (ucast q) = Some a" "lgc_log_lut_lookup l (ONE - new_fraction data) = Some b"
    using lg by blast
  moreover obtain c where "lgc_pow_lut_lookup l (marked_share data) = Some c"
    using lut_in_range [OF ce, of "pow_lut l"] assms(1) by (auto simp: lgc_pow_lut_lookup_def luts_ok_def)
  ultimately show ?thesis using q f by (auto simp: lgc_update_rate_def Let_def)
qed

text \<open>The credit of a rate, and the rate of a credit, in natural numbers.\<close>

definition credit_of :: "nat \<Rightarrow> nat \<Rightarrow> nat" where
  "credit_of rtt rate = max (rate * rtt div 65536 div 1484000 + 1) 10"

definition rate_of :: "nat \<Rightarrow> nat \<Rightarrow> nat" where
  "rate_of rtt credit = credit * 1484000 * 65536 div rtt"

lemma credit_bound:
  fixes M T R :: nat
  assumes "R \<le> M * 65536" "M * T < 2893 * 1484000"
  shows "R * T < 2 ^ 64" "R * T div 65536 div 1484000 \<le> 2892"
proof -
  have "R * T \<le> M * 65536 * T" using assms(1) by (rule mult_le_mono1)
  also have "\<dots> = (M * T) * 65536" by simp
  finally have le: "R * T \<le> (M * T) * 65536" .
  moreover have "(M * T) * 65536 < 2 ^ 64" using assms(2) by simp
  ultimately show "R * T < 2 ^ 64" by (rule order_le_less_trans)
  have "R * T div 65536 \<le> M * T" using div_le_mono [OF le, of 65536] by simp
  also note assms(2)
  finally have "R * T div 65536 < 2893 * 1484000" .
  then show "R * T div 65536 div 1484000 \<le> 2892" using less_mult_imp_div_less [of _ 2893 1484000] by fastforce
qed

lemma set_cwnd_ok:
  assumes "lgc_conf_ok data" "s_cur_rate64 data \<le> s_max_rate64 data"
  shows "\<exists>r c. lgc_set_cwnd data d = Some (data\<lparr>s_cur_rate64 := r\<rparr>, cv_upd (\<lambda>s. s\<lparr>cv_rcvr_credit := c\<rparr>) d) \<and>
    unat c = credit_of (unat (min_RTT data)) (unat (s_cur_rate64 data)) \<and> unat r = rate_of (unat (min_RTT data)) (unat c) \<and>
    10 \<le> unat c \<and> unat c \<le> 2893"
proof -
  let ?R = "unat (s_cur_rate64 data)" and ?T = "unat (min_RTT data)" and ?M = "unat (max_rate32 data)"
  have conf: "min_RTT data \<noteq> 0" "s_max_rate64 data = push_bit 16 (ucast (max_rate32 data))" "?M * ?T < 2893 * 1484000"
    using assms(1) by (simp_all add: lgc_conf_ok_def)
  have "?M < 2 ^ LENGTH(32)" by (rule unsigned_less)
  then have "unat (s_max_rate64 data) = ?M * 65536" by (intro word64_exact) (simp_all add: conf(2) push_bit_eq_mult)
  then have "?R \<le> ?M * 65536" using assms(2) by (simp add: word_le_nat_alt)
  note b = credit_bound [OF this conf(3)]
  have "unat (s_cur_rate64 data * ucast (min_RTT data)) = ?R * ?T" using b(1) by (intro word64_exact) simp_all
  then have "unat (drop_bit 16 (s_cur_rate64 data * ucast (min_RTT data))) = ?R * ?T div 65536"
    by (simp add: drop_bit_eq_div unat_div_distrib)
  with do_div_u32 [of "DEFAULT_PACKET_SIZE * 1000" "drop_bit 16 (s_cur_rate64 data * ucast (min_RTT data))"] obtain t where
    t: "do_div (drop_bit 16 (s_cur_rate64 data * ucast (min_RTT data))) (ucast (DEFAULT_PACKET_SIZE * 1000)) = Some t"
      "unat t = ?R * ?T div 65536 div 1484000" by auto
  define c where "c = max (ucast t + 1) (10 :: u32)"
  have "unat (ucast t + 1 :: u32) = unat t + 1"
  proof (rule word32_exact)
    show "unat t + 1 < 2 ^ 32" using b(2) t(2) by simp
  qed simp
  then have c: "unat c = credit_of ?T ?R" by (simp add: c_def unat_max credit_of_def t(2))
  then have cl: "10 \<le> unat c" "unat c \<le> 2893" using b(2) by (simp_all add: credit_of_def)
  have p: "unat (c * DEFAULT_PACKET_SIZE * 1000) = unat c * 1484000" using cl by (intro word32_exact) simp_all
  have "unat (push_bit 16 (ucast (c * DEFAULT_PACKET_SIZE * 1000)) :: u64) = unat c * 1484000 * 65536"
  proof (rule word64_exact)
    show "unat c * 1484000 * 65536 < 2 ^ 64" using cl by simp
  qed (simp add: push_bit_eq_mult flip: p)
  with do_div_u32 [OF conf(1), of "push_bit 16 (ucast (c * DEFAULT_PACKET_SIZE * 1000))"] obtain r where
    "do_div (push_bit 16 (ucast (c * DEFAULT_PACKET_SIZE * 1000))) (ucast (min_RTT data)) = Some r" "unat r = rate_of ?T (unat c)"
    by (auto simp: rate_of_def)
  with t(1) c cl show ?thesis by (intro exI [of _ r] exI [of _ c]) (simp add: lgc_set_cwnd_def Let_def flip: c_def)
qed

text \<open>One PDU: no fault, and the invariant is kept.\<close>

definition lgc_credit_ok :: "dtp \<Rightarrow> bool" where
  "lgc_credit_ok d \<longleftrightarrow> (\<exists>c. d_dtcp d = Some c \<and> 10 \<le> unat (cv_rcvr_credit (dc_sv c)) \<and> unat (cv_rcvr_credit (dc_sv c)) \<le> 2893)"

lemma rcvr_flow_control_ok:
  assumes "luts_ok l" "lgc_conf_ok data" "lgc_state_ok data" "lgc_credit_ok d"
  shows "\<exists>data' d'. lgcshq_rcvr_flow_control l pci data d = Some (0, data', d') \<and>
    lgc_conf_ok data' \<and> lgc_state_ok data' \<and> lgc_credit_ok d'"
proof -
  have st: "ecn_received data \<le> samples_received data" "unat (samples_received data) < 2893"
    using assms(3) by (auto simp: lgc_state_ok_def word_less_nat_alt word_le_nat_alt)
  from fold_count [of data ecn_bits_at "p_flags pci"] st obtain s c where
    f: "fold (count_bit (p_flags pci)) ecn_bits_at data = data\<lparr>samples_received := s, ecn_received := c\<rparr>" "c \<le> s"
    by (auto simp: ecn_bits_at_def)
  let ?d = "data\<lparr>samples_received := s, ecn_received := c\<rparr>"
  have d: "lgc_conf_ok ?d" "unat (fraction ?d) < 65536" "ecn_received ?d \<le> samples_received ?d"
    using assms(2,3) f(2) by (simp_all add: lgc_conf_ok_def lgc_state_ok_def)
  obtain x where x: "d_dtcp d = Some x" "10 \<le> unat (cv_rcvr_credit (dc_sv x))" "unat (cv_rcvr_credit (dc_sv x)) \<le> 2893"
    using assms(4) by (auto simp: lgc_credit_ok_def)
  show ?thesis
  proof (cases "s \<ge> obs_window_size data")
    case True
    from update_rate_ok [OF assms(1) d] obtain r where
      r: "lgc_update_rate l ?d = Some (?d\<lparr>fraction := new_fraction ?d, s_cur_rate64 := r\<rparr>)" "r \<le> s_max_rate64 ?d" "unat (new_fraction ?d) < 65536"
      by blast
    let ?d1 = "?d\<lparr>fraction := new_fraction ?d, s_cur_rate64 := r\<rparr>"
    have "lgc_conf_ok ?d1" "s_cur_rate64 ?d1 \<le> s_max_rate64 ?d1" using d(1) r(2) by (simp_all add: lgc_conf_ok_def)
    from set_cwnd_ok [OF this, of d] obtain r' k where
      k: "lgc_set_cwnd ?d1 d = Some (?d1\<lparr>s_cur_rate64 := r'\<rparr>, cv_upd (\<lambda>s. s\<lparr>cv_rcvr_credit := k\<rparr>) d)" "10 \<le> unat k" "unat k \<le> 2893" by blast
    show ?thesis using assms(2) f(1) True r(1,3) k x(1)
      by (auto simp: lgcshq_rcvr_flow_control_def lgcshq_move_edge_def Let_def cv_upd_def dtcp_upd_def lgc_conf_ok_def lgc_state_ok_def lgc_credit_ok_def
          word_less_nat_alt word_le_nat_alt)
  next
    case False
    with assms(2,3) f x show ?thesis
      by (auto simp: lgcshq_rcvr_flow_control_def lgcshq_move_edge_def Let_def cv_upd_def dtcp_upd_def lgc_conf_ok_def lgc_state_ok_def lgc_credit_ok_def)
  qed
qed

fun lgc_run :: "lgc_luts \<Rightarrow> (seq_num_t \<times> pdu) list \<Rightarrow> lgcshq_dtcp_ps_data \<Rightarrow> dtp \<Rightarrow> (lgcshq_dtcp_ps_data \<times> dtp) option" where
  "lgc_run l [] data d = Some (data, d)"
| "lgc_run l ((lwe, pci) # ps) data d = do {
     (r, data, d) \<leftarrow> lgcshq_rcvr_flow_control l pci data (sv_upd (\<lambda>s. s\<lparr>sv_rcv_left_window_edge := lwe\<rparr>) d);
     lgc_run l ps data d
   }"

lemma lgc_run_ok:
  assumes "luts_ok l" "lgc_conf_ok data" "lgc_state_ok data" "lgc_credit_ok d"
  shows "\<exists>data' d'. lgc_run l ps data d = Some (data', d') \<and> lgc_conf_ok data' \<and> lgc_state_ok data' \<and> lgc_credit_ok d'"
  using assms
proof (induction ps arbitrary: data d)
  case (Cons p ps)
  obtain lwe pci where p: "p = (lwe, pci)" by fastforce
  have "lgc_credit_ok (sv_upd (\<lambda>s. s\<lparr>sv_rcv_left_window_edge := lwe\<rparr>) d)" using Cons.prems(4) by (simp add: lgc_credit_ok_def sv_upd_def)
  from rcvr_flow_control_ok [OF Cons.prems(1-3) this, of pci] Cons.IH [OF Cons.prems(1)] show ?case by (fastforce simp: p)
qed simp

section \<open>The growth of the rate\<close>

text \<open>The new rate on integers: the old one plus its share \<open>gr\<close> times the gradient, all scaled by \<open>2 ^ 16\<close>.\<close>

definition growth :: "nat \<Rightarrow> nat \<Rightarrow> int \<Rightarrow> int" where
  "growth rate gr gradient = int rate * 65536 + int (gr * rate div 65536) * gradient"

lemma sint64_small:
  assumes "unat (w :: u64) < 2 ^ 63"
  shows "sint w = int (unat w)"
proof -
  have "uint w < 2 ^ 63" using assms by (simp add: nat_less_iff flip: nat_uint_eq)
  moreover have "0 \<le> uint w" by simp
  ultimately have "signed_take_bit 63 (uint w) = uint w" by (intro signed_take_bit_int_eq_self) linarith+
  then show ?thesis by (simp add: sint_uint)
qed

lemma grown_rate_exact:
  assumes "unat rate < 2 ^ 43" "unat gr < 2 ^ 16" "\<bar>sint gradient\<bar> < 2 ^ 19" "0 \<le> growth (unat rate) (unat gr) (sint gradient)"
  shows "int (unat (grown_rate rate gr gradient)) = growth (unat rate) (unat gr) (sint gradient) div 65536"
proof -
  let ?n = "unat gr * unat rate" and ?s = "growth (unat rate) (unat gr) (sint gradient)"
  have n: "?n < 2 ^ 59" using mult_strict_mono [OF assms(2,1)] by simp
  then have un: "unat (ucast gr * rate) = ?n" by (intro word64_exact) (simp_all add: mult.commute)
  then have "sint (ucast gr * rate :: u64) = int ?n" using n sint64_small [of "ucast gr * rate"] by simp
  then have "sint (signed_drop_bit 16 (ucast gr * rate :: u64)) = int ?n div 65536"
    by (simp add: sint_signed_drop_bit_eq drop_bit_eq_div)
  then have "(of_int (sint (signed_drop_bit 16 (ucast gr * rate :: u64))) :: u64) = of_int (int ?n div 65536)" by (rule arg_cong)
  then have "signed_drop_bit 16 (ucast gr * rate :: u64) = of_int (int ?n div 65536)" by simp
  then have w: "push_bit 16 rate + signed_drop_bit 16 (ucast gr * rate) * scast gradient = (of_int ?s :: u64)"
    by (simp add: growth_def push_bit_eq_mult of_nat_div)
  have "\<bar>int (?n div 65536) * sint gradient\<bar> < 2 ^ 43 * 2 ^ 19"
  proof -
    have "?n div 65536 < 2 ^ 43" using n by (simp add: div_less_iff_less_mult)
    with assms(3) show ?thesis unfolding abs_mult by (intro mult_strict_mono) simp_all
  qed
  moreover have "int (unat rate) < 2 ^ 43" using assms(1) by (simp only: of_nat_less_numeral_power_cancel_iff)
  moreover have "r * 65536 + x < 2 ^ 64" if "\<bar>x\<bar> < 2 ^ 43 * 2 ^ 19" "r < 2 ^ 43" for r x :: int using that by simp
  ultimately have "?s < 2 ^ 64" unfolding growth_def by blast
  with assms(4) have "uint (of_int ?s :: u64) = ?s" by (simp add: unsigned_of_int take_bit_int_eq_self)
  then show ?thesis unfolding grown_rate_def Let_def w
    by (simp add: drop_bit_eq_div unat_div_distrib zdiv_int)
qed

definition lgc_luts_bound :: "lgc_luts \<Rightarrow> bool" where
  "lgc_luts_bound l \<longleftrightarrow> luts_ok l \<and> (\<forall>v\<in>set (log_lut l). v \<le> 315652) \<and> (\<forall>v\<in>set (pow_lut l). v \<le> 41021)"

definition log_of :: "lgc_luts \<Rightarrow> nat \<Rightarrow> int" where
  "log_of l x = (if x \<le> 65536 then int (unat (log_lut l ! x)) else 0)"

text \<open>The rate that the policy should compute, on integers.\<close>

definition rate_step :: "lgc_luts \<Rightarrow> nat \<Rightarrow> nat \<Rightarrow> nat \<Rightarrow> nat \<Rightarrow> int" where
  "rate_step l mx rate ce f =
     growth rate (unat (pow_lut l ! ce)) (log_of l (rate div mx mod 2 ^ 32) - log_of l (65536 - f))"

definition limited_rate :: "nat \<Rightarrow> nat \<Rightarrow> nat \<Rightarrow> nat" where
  "limited_rate mx rate new = min (if new > 2 * rate then 2 * rate else if new = 0 then 65536 else new) (mx * 65536)"

lemma log_lookup:
  assumes "lgc_luts_bound l"
  shows "\<exists>v. lgc_log_lut_lookup l x = Some v \<and> int (unat v) = log_of l (unat x) \<and> unat v \<le> 315652"
proof (cases "unat x \<le> 65536")
  case True
  then have "log_lut l ! unat x \<in> set (log_lut l)" using assms by (simp add: lgc_luts_bound_def luts_ok_def LGC_LUT_SIZE_def)
  with True assms show ?thesis
    by (auto simp: lgc_log_lut_lookup_def lut_at_def log_of_def lgc_luts_bound_def luts_ok_def LGC_LUT_SIZE_def word_less_nat_alt word_le_nat_alt)
qed (simp add: lgc_log_lut_lookup_def log_of_def word_less_nat_alt)

lemma sint_diff:
  fixes a b :: u32
  assumes "unat a \<le> 315652" "unat b \<le> 315652"
  shows "sint (a - b) = int (unat a) - int (unat b)"
proof -
  have "a - b = of_int (int (unat a) - int (unat b))" by simp
  then have "sint (a - b) = signed_take_bit 31 (int (unat a) - int (unat b))" by (simp only: signed_of_int) simp
  moreover have "signed_take_bit 31 (int x - int y) = int x - int y" if "x \<le> 315652" "y \<le> 315652" for x y :: nat
    using that by (intro signed_take_bit_int_eq_self) simp_all
  ultimately show ?thesis using assms by metis
qed

lemma limited_word:
  assumes "unat (w :: u64) = n" "unat (t :: u64) = 2 * r" "unat (m :: u64) = mx * 65536"
  shows "unat (let r = (if w > t then t else if w = 0 then 65536 else w) in if r > m then m else r) = limited_rate mx r n"
proof -
  have "w = 0 \<longleftrightarrow> n = 0" using assms(1) by (auto simp: unat_eq_zero)
  with assms show ?thesis by (auto simp: limited_rate_def word_less_nat_alt min_def)
qed

lemma update_rate_exact:
  assumes l: "lgc_luts_bound l" and conf: "lgc_conf_ok data" and f: "unat (fraction data) < 65536"
    and ce: "ecn_received data \<le> samples_received data" and rate: "unat (s_cur_rate64 data) < 2 ^ 43"
    and f': "f' = fraction_step (unat (rate_thresh data)) (unat (fraction data)) (unat (marked_share data))"
    and new: "new = rate_step l (unat (max_rate32 data)) (unat (s_cur_rate64 data)) (unat (marked_share data)) f'" "0 \<le> new"
  shows "\<exists>data'. lgc_update_rate l data = Some data' \<and> unat (fraction data') = f' \<and>
    unat (s_cur_rate64 data') = limited_rate (unat (max_rate32 data)) (unat (s_cur_rate64 data)) (nat (new div 65536))"
proof -
  let ?R = "unat (s_cur_rate64 data)" and ?M = "unat (max_rate32 data)" and ?C = "unat (marked_share data)"
  note sh = marked_share_le [OF ce]
  have F: "unat (new_fraction data) = f'" "f' < 65536" using new_fraction_exact [OF f sh] fraction_step_less [OF f sh] f' by simp_all
  then have F': "unat (ONE - new_fraction data) = 65536 - f'" by (subst unat_sub) (simp_all add: word_le_nat_alt)
  obtain q where q: "do_div (s_cur_rate64 data) (ucast (max_rate32 data)) = Some q" "unat q = ?R div ?M"
    using do_div_u32 conf by (auto simp: lgc_conf_ok_def)
  have qu: "unat (ucast q :: u32) = ?R div ?M mod 2 ^ 32" by (simp add: unsigned_ucast_eq q(2) take_bit_eq_mod)
  obtain a where a: "lgc_log_lut_lookup l (ucast q) = Some a" "int (unat a) = log_of l (?R div ?M mod 2 ^ 32)" "unat a \<le> 315652"
    using log_lookup [OF l, of "ucast q"] qu by auto
  obtain b where b: "lgc_log_lut_lookup l (ONE - new_fraction data) = Some b" "int (unat b) = log_of l (65536 - f')" "unat b \<le> 315652"
    using log_lookup [OF l, of "ONE - new_fraction data"] F' by auto
  have "?C < length (pow_lut l)" using l sh by (simp add: lgc_luts_bound_def luts_ok_def LGC_LUT_SIZE_def)
  with l have gr: "lgc_pow_lut_lookup l (marked_share data) = Some (pow_lut l ! ?C)" "unat (pow_lut l ! ?C) \<le> 41021"
    by (auto simp: lgc_pow_lut_lookup_def lut_at_def lgc_luts_bound_def word_le_nat_alt)
  note g = sint_diff [OF a(3) b(3)]
  have s: "growth ?R (unat (pow_lut l ! ?C)) (sint (a - b)) = new" by (simp only: new(1) rate_step_def g a(2) b(2))
  moreover have "\<bar>int x - int y\<bar> < 2 ^ 19" if "x \<le> 315652" "y \<le> 315652" for x y :: nat using that by simp
  then have "\<bar>sint (a - b)\<bar> < 2 ^ 19" using a(3) b(3) unfolding g by blast
  ultimately have "int (unat (grown_rate (s_cur_rate64 data) (pow_lut l ! ?C) (a - b))) = new div 65536"
    using grown_rate_exact [OF rate, of "pow_lut l ! ?C" "a - b"] gr(2) new(2) by simp
  then have G: "unat (grown_rate (s_cur_rate64 data) (pow_lut l ! ?C) (a - b)) = nat (new div 65536)" by (metis nat_int)
  define w where "w = grown_rate (s_cur_rate64 data) (pow_lut l ! ?C) (a - b)"
  have two: "unat (push_bit 1 (s_cur_rate64 data)) = 2 * ?R" using rate by (intro word64_exact) (simp_all add: push_bit_eq_mult)
  have "?M < 2 ^ LENGTH(32)" by (rule unsigned_less)
  then have mx: "unat (s_max_rate64 data) = ?M * 65536"
    using conf by (intro word64_exact) (simp_all add: lgc_conf_ok_def push_bit_eq_mult)
  have "lgc_update_rate l data = Some (data\<lparr>fraction := new_fraction data, s_cur_rate64 :=
      (let r = (if w > push_bit 1 (s_cur_rate64 data) then push_bit 1 (s_cur_rate64 data) else if w = 0 then 65536 else w)
       in if r > s_max_rate64 data then s_max_rate64 data else r)\<rparr>)"
    using q(1) a(1) b(1) gr(1) by (simp add: lgc_update_rate_def Let_def w_def)
  with F(1) limited_word [OF G [folded w_def] two mx] show ?thesis by simp
qed

section \<open>Properties\<close>


text \<open>The default configuration after its creation, and tables of the right size.\<close>

definition ex_luts :: lgc_luts where
  "ex_luts = \<lparr>log_lut = map (\<lambda>i. of_nat (65536 - i)) [0..<65537], pow_lut = replicate 65537 20000, exp_lut = replicate 65537 0\<rparr>"

definition ex_lgc_dtcp :: "uint_t \<Rightarrow> uint_t \<Rightarrow> lgcshq_dtcp_ps_data" where
  "ex_lgc_dtcp s c = \<lparr>init_credit = 10, sshtresh = 0xFFFFFFFF, samples_received = s, ecn_received = c, obs_window_size = 10,
     lgc_max_rate = 100, dt_ecn_bits = 1, s_max_rate64 = 819200000, s_cur_rate64 = 97255424, max_rate32 = 12500,
     rate_thresh = 52428, min_RTT = 10000, fraction = 0\<rparr>"

lemma ex_lgc_dtcp_created:
  "dtcp_ps_lgcshq_create (\<lambda>_. None) (\<lambda>_. None) (\<lambda>_. None) (sample_dtp True) =
     Some (Some (ex_lgc_dtcp 0 0), cv_upd (\<lambda>s. s\<lparr>cv_rcvr_credit := 10\<rparr>) (sample_dtp True))"
  by (simp add: dtcp_ps_lgcshq_create_def ex_lgc_dtcp_def dtcp_ps_lgcshq_load_param_def lgc_init_rate_def do_div_def sample_defs
      alloc_def push_bit_eq_mult)

lemma ex_lgc_dtcp_ok: "luts_ok ex_luts" "lgc_luts_bound ex_luts" "lgc_conf_ok (ex_lgc_dtcp s c)" "c \<le> s \<Longrightarrow> s < 10 \<Longrightarrow> lgc_state_ok (ex_lgc_dtcp s c)"
proof -
  show l: "luts_ok ex_luts" by (simp add: luts_ok_def ex_luts_def LGC_LUT_SIZE_def)
  have "unat (of_nat (65536 - i) :: u32) \<le> 315652" for i
    using unat_of_nat_small [where 'a = 32, of "65536 - i"] by simp
  with l show "lgc_luts_bound ex_luts" by (auto simp: lgc_luts_bound_def ex_luts_def word_le_nat_alt simp del: of_nat_diff)
qed (simp_all add: lgc_conf_ok_def lgc_state_ok_def ex_lgc_dtcp_def push_bit_eq_mult)


text \<open>The two ways through the policy differ in the credit, and not in what becomes of the edge.\<close>

definition with_credit :: "uint_t ptr \<Rightarrow> dtp \<Rightarrow> dtp" where
  "with_credit k d = (case k of None \<Rightarrow> d | Some v \<Rightarrow> cv_upd (\<lambda>s. s\<lparr>cv_rcvr_credit := v\<rparr>) d)"

lemma with_credit_none: "\<exists>k. d = with_credit k d"
  by (rule exI [of _ None]) (simp add: with_credit_def)

lemma set_cwnd_credit: "lgc_set_cwnd data d = Some (data', d') \<Longrightarrow> \<exists>k. d' = with_credit (Some k) d"
  by (auto simp: lgc_set_cwnd_def Let_def with_credit_def bind_eq_Some_conv)

lemma rcvr_flow_controlD:
  assumes "lgcshq_rcvr_flow_control l pci data d = Some (r, data', d')"
  shows "r = 0 \<and> (\<exists>k. lgcshq_move_edge (with_credit k d) = Some d')"
proof -
  let ?d = "fold (count_bit (p_flags pci)) ecn_bits_at data"
  obtain data1 d1 where d1: "(if samples_received ?d \<ge> obs_window_size ?d
      then do { data \<leftarrow> lgc_update_rate l ?d; (data, d) \<leftarrow> lgc_set_cwnd data d; c \<leftarrow> d_dtcp d;
        Some (data\<lparr>samples_received := 0, ecn_received := 0, obs_window_size := cv_rcvr_credit (dc_sv c)\<rparr>, d) }
      else Some (?d, d)) = Some (data1, d1)" and m: "lgcshq_move_edge d1 = Some d'" "r = 0"
    using assms unfolding lgcshq_rcvr_flow_control_def Let_def
    by (fastforce simp: bind_eq_Some_conv)
  from d1 have "\<exists>k. d1 = with_credit k d"
    by (auto simp: bind_eq_Some_conv with_credit_none split: if_splits dest!: set_cwnd_credit)
  with m show ?thesis by auto
qed

lemma window_after:
  assumes "d_dtcp d = Some c" "lgcshq_move_edge (with_credit k d) = Some d'"
  shows "\<exists>c'. d_dtcp d' = Some c' \<and> cv_rcvr_rt_wind_edge (dc_sv c) \<le> cv_rcvr_rt_wind_edge (dc_sv c') \<and>
    cv_rcvr_rt_wind_edge (dc_sv c') = max (cv_rcvr_rt_wind_edge (dc_sv c)) (sv_rcv_left_window_edge (d_sv d) + cv_rcvr_credit (dc_sv c'))"
  using assms by (cases k) (auto simp: lgcshq_move_edge_def with_credit_def cv_upd_def dtcp_upd_def max_def Let_def split: if_splits)

text \<open>
  C28. The right edge of the receiver's window never moves back, whatever the new credit is: it is the left edge
  plus the credit, or stays where it was because that lies behind it.
\<close>

theorem lgcshq_window_never_shrinks:
  assumes "d_dtcp d = Some c" "lgcshq_rcvr_flow_control l pci data d = Some (r, data', d')"
  shows "\<exists>c'. d_dtcp d' = Some c' \<and> r = 0 \<and> cv_rcvr_rt_wind_edge (dc_sv c) \<le> cv_rcvr_rt_wind_edge (dc_sv c') \<and>
    cv_rcvr_rt_wind_edge (dc_sv c') = max (cv_rcvr_rt_wind_edge (dc_sv c)) (sv_rcv_left_window_edge (d_sv d) + cv_rcvr_credit (dc_sv c'))"
  using assms(2) window_after [OF assms(1)] rcvr_flow_controlD [OF assms(2)] by (elim exE conjE) blast

theorem lgcshq_window_never_shrinks_witness:
  "\<exists>data' d' c'. lgcshq_rcvr_flow_control ex_luts (plain_pdu 5) (ex_lgc_dtcp 0 0)
      (cv_upd (\<lambda>s. s\<lparr>cv_rcvr_credit := 10, cv_rcvr_rt_wind_edge := 12\<rparr>) (sample_dtp True)) = Some (0, data', d') \<and>
    d_dtcp d' = Some c' \<and> 12 \<le> cv_rcvr_rt_wind_edge (dc_sv c')"
proof -
  let ?d = "cv_upd (\<lambda>s. s\<lparr>cv_rcvr_credit := 10, cv_rcvr_rt_wind_edge := 12\<rparr>) (sample_dtp True)"
  obtain c where c: "d_dtcp ?d = Some c" "cv_rcvr_rt_wind_edge (dc_sv c) = 12" by (simp add: sample_defs cv_upd_def dtcp_upd_def)
  have "lgc_credit_ok ?d" by (simp add: lgc_credit_ok_def sample_defs cv_upd_def dtcp_upd_def)
  from rcvr_flow_control_ok [OF ex_lgc_dtcp_ok(1,3,4) this, of 0 0 "plain_pdu 5"] obtain data' d' where
    r: "lgcshq_rcvr_flow_control ex_luts (plain_pdu 5) (ex_lgc_dtcp 0 0) ?d = Some (0, data', d')" by auto
  from lgcshq_window_never_shrinks [OF c(1) r] r c(2) show ?thesis by auto
qed

text \<open>
  C29. The arithmetic of the rate is exact: at the end of an observation window the fraction is the moving average of
  the share of marks, and the new rate is the logistic growth of the old one, at most doubled,
  never 0 and at most the capacity, as on integers, whenever the growth does not make the rate
  negative.
\<close>

theorem lgcshq_rate_exact:
  assumes "lgc_luts_bound l" "lgc_conf_ok data" "unat (fraction data) < 65536" "ecn_received data \<le> samples_received data"
    and "unat (s_cur_rate64 data) < 2 ^ 43" "unat (ecn_received data) < 65536"
    and "ce = unat (ecn_received data) * 65536 div max (unat (samples_received data)) 1"
    and "f' = fraction_step (unat (rate_thresh data)) (unat (fraction data)) ce"
    and "new = rate_step l (unat (max_rate32 data)) (unat (s_cur_rate64 data)) ce f'" "0 \<le> new"
  shows "\<exists>data'. lgc_update_rate l data = Some data' \<and> unat (fraction data') = f' \<and>
    unat (s_cur_rate64 data') = limited_rate (unat (max_rate32 data)) (unat (s_cur_rate64 data)) (nat (new div 65536))"
  using update_rate_exact [OF assms(1-5)] assms(6-10) marked_share_exact [OF assms(6)] by simp

theorem lgcshq_rate_exact_witness:
  "\<exists>data'. lgc_update_rate ex_luts (ex_lgc_dtcp 10 9) = Some data' \<and> unat (fraction data') = 2948 \<and> unat (s_cur_rate64 data') = 122076918"
proof -
  have "fraction_step 52428 0 58982 = 2948" by (simp add: fraction_step_def)
  moreover have "rate_step ex_luts 12500 97255424 58982 2948 = 8000432907264"
    by (simp add: rate_step_def growth_def log_of_def ex_luts_def unat_of_nat_small del: upt.simps)
  ultimately show ?thesis
    using lgcshq_rate_exact [OF ex_lgc_dtcp_ok(2,3), of 10 9 58982 2948 8000432907264]
    by (simp add: ex_lgc_dtcp_def limited_rate_def)
qed

section \<open>Where the code goes wrong\<close>

text \<open>
  The product of the credit and the packet size is computed on 32 bits: at 400 Mbit/s and a round trip time of
  101 ms the credit is 3403 PDUs, and the rate that is stored for it is that of 508 PDUs.
\<close>

lemma lgcshq_rate_overflows:
  "lgc_set_cwnd ((ex_lgc_dtcp 0 0)\<lparr>s_cur_rate64 := push_bit 16 50000, max_rate32 := 50000, min_RTT := 101000\<rparr>) d =
     Some ((ex_lgc_dtcp 0 0)\<lparr>s_cur_rate64 := 489952783, max_rate32 := 50000, min_RTT := 101000\<rparr>, cv_upd (\<lambda>s. s\<lparr>cv_rcvr_credit := 3403\<rparr>) d)"
  by (simp add: lgc_set_cwnd_def ex_lgc_dtcp_def do_div_def push_bit_eq_mult drop_bit_eq_div max_def)

text \<open>A round trip time of 0, which the parameter allows, makes the creation of the policy set divide by zero.\<close>

lemma lgcshq_rtt_zero:
  "dtcp_ps_lgcshq_create (\<lambda>_. Some 0) (\<lambda>_. None) (\<lambda>n. if n = ''min_RTT'' then Some ''0'' else None) (sample_dtp True) = None"
  by (simp add: dtcp_ps_lgcshq_create_def dtcp_ps_lgcshq_load_param_def dtcp_ps_set_policy_set_param_def lgc_init_rate_def do_div_def
      sample_defs alloc_def)

end
