(* ===== verification/Serdes_Layout.thy ===== *)
theory Serdes_Layout
  imports Rina_Prelude
begin

text \<open>
  The layout of the control messages: the message types and structures of
  \<^verbatim>\<open>include/irati/kernel-msg.h\<close> and \<^verbatim>\<open>include/irati/kucommon.h\<close>, the table of
  \<^verbatim>\<open>common/ker-numtables.c\<close> that tells the codec what a message of each type consists of, and the
  structure that \<^verbatim>\<open>allocate_irati_msg\<close> of \<^verbatim>\<open>common/serdes-utils.c\<close> allocates for a type.

  The structures are packed; a field is a value with its number of bytes, or a pointer of 8 bytes to
  one of the kinds of objects the codec knows.
\<close>

section \<open>Message types\<close>

text \<open>The message types, with their numbers.\<close>

abbreviation (input) RINA_C_MIN :: nat where "RINA_C_MIN \<equiv> 0"
abbreviation (input) RINA_C_IPCM_ASSIGN_TO_DIF_REQUEST :: nat where "RINA_C_IPCM_ASSIGN_TO_DIF_REQUEST \<equiv> 1"
abbreviation (input) RINA_C_IPCM_ASSIGN_TO_DIF_RESPONSE :: nat where "RINA_C_IPCM_ASSIGN_TO_DIF_RESPONSE \<equiv> 2"
abbreviation (input) RINA_C_IPCM_UPDATE_DIF_CONFIG_REQUEST :: nat where "RINA_C_IPCM_UPDATE_DIF_CONFIG_REQUEST \<equiv> 3"
abbreviation (input) RINA_C_IPCM_UPDATE_DIF_CONFIG_RESPONSE :: nat where "RINA_C_IPCM_UPDATE_DIF_CONFIG_RESPONSE \<equiv> 4"
abbreviation (input) RINA_C_IPCM_IPC_PROCESS_DIF_REGISTRATION_NOTIFICATION :: nat where "RINA_C_IPCM_IPC_PROCESS_DIF_REGISTRATION_NOTIFICATION \<equiv> 5"
abbreviation (input) RINA_C_IPCM_IPC_PROCESS_DIF_UNREGISTRATION_NOTIFICATION :: nat where "RINA_C_IPCM_IPC_PROCESS_DIF_UNREGISTRATION_NOTIFICATION \<equiv> 6"
abbreviation (input) RINA_C_IPCM_ALLOCATE_FLOW_REQUEST :: nat where "RINA_C_IPCM_ALLOCATE_FLOW_REQUEST \<equiv> 7"
abbreviation (input) RINA_C_IPCM_ALLOCATE_FLOW_REQUEST_ARRIVED :: nat where "RINA_C_IPCM_ALLOCATE_FLOW_REQUEST_ARRIVED \<equiv> 8"
abbreviation (input) RINA_C_IPCM_ALLOCATE_FLOW_REQUEST_RESULT :: nat where "RINA_C_IPCM_ALLOCATE_FLOW_REQUEST_RESULT \<equiv> 9"
abbreviation (input) RINA_C_IPCM_ALLOCATE_FLOW_RESPONSE :: nat where "RINA_C_IPCM_ALLOCATE_FLOW_RESPONSE \<equiv> 10"
abbreviation (input) RINA_C_IPCM_DEALLOCATE_FLOW_REQUEST :: nat where "RINA_C_IPCM_DEALLOCATE_FLOW_REQUEST \<equiv> 11"
abbreviation (input) RINA_C_IPCM_FLOW_DEALLOCATED_NOTIFICATION :: nat where "RINA_C_IPCM_FLOW_DEALLOCATED_NOTIFICATION \<equiv> 12"
abbreviation (input) RINA_C_IPCM_REGISTER_APPLICATION_REQUEST :: nat where "RINA_C_IPCM_REGISTER_APPLICATION_REQUEST \<equiv> 13"
abbreviation (input) RINA_C_IPCM_REGISTER_APPLICATION_RESPONSE :: nat where "RINA_C_IPCM_REGISTER_APPLICATION_RESPONSE \<equiv> 14"
abbreviation (input) RINA_C_IPCM_UNREGISTER_APPLICATION_REQUEST :: nat where "RINA_C_IPCM_UNREGISTER_APPLICATION_REQUEST \<equiv> 15"
abbreviation (input) RINA_C_IPCM_UNREGISTER_APPLICATION_RESPONSE :: nat where "RINA_C_IPCM_UNREGISTER_APPLICATION_RESPONSE \<equiv> 16"
abbreviation (input) RINA_C_IPCM_QUERY_RIB_REQUEST :: nat where "RINA_C_IPCM_QUERY_RIB_REQUEST \<equiv> 17"
abbreviation (input) RINA_C_IPCM_QUERY_RIB_RESPONSE :: nat where "RINA_C_IPCM_QUERY_RIB_RESPONSE \<equiv> 18"
abbreviation (input) RINA_C_RMT_MODIFY_FTE_REQUEST :: nat where "RINA_C_RMT_MODIFY_FTE_REQUEST \<equiv> 19"
abbreviation (input) RINA_C_RMT_DUMP_FT_REQUEST :: nat where "RINA_C_RMT_DUMP_FT_REQUEST \<equiv> 20"
abbreviation (input) RINA_C_RMT_DUMP_FT_REPLY :: nat where "RINA_C_RMT_DUMP_FT_REPLY \<equiv> 21"
abbreviation (input) RINA_C_IPCP_CONN_CREATE_REQUEST :: nat where "RINA_C_IPCP_CONN_CREATE_REQUEST \<equiv> 22"
abbreviation (input) RINA_C_IPCP_CONN_CREATE_RESPONSE :: nat where "RINA_C_IPCP_CONN_CREATE_RESPONSE \<equiv> 23"
abbreviation (input) RINA_C_IPCP_CONN_CREATE_ARRIVED :: nat where "RINA_C_IPCP_CONN_CREATE_ARRIVED \<equiv> 24"
abbreviation (input) RINA_C_IPCP_CONN_CREATE_RESULT :: nat where "RINA_C_IPCP_CONN_CREATE_RESULT \<equiv> 25"
abbreviation (input) RINA_C_IPCP_CONN_UPDATE_REQUEST :: nat where "RINA_C_IPCP_CONN_UPDATE_REQUEST \<equiv> 26"
abbreviation (input) RINA_C_IPCP_CONN_UPDATE_RESULT :: nat where "RINA_C_IPCP_CONN_UPDATE_RESULT \<equiv> 27"
abbreviation (input) RINA_C_IPCP_CONN_DESTROY_REQUEST :: nat where "RINA_C_IPCP_CONN_DESTROY_REQUEST \<equiv> 28"
abbreviation (input) RINA_C_IPCP_CONN_DESTROY_RESULT :: nat where "RINA_C_IPCP_CONN_DESTROY_RESULT \<equiv> 29"
abbreviation (input) RINA_C_IPCP_SET_POLICY_SET_PARAM_REQUEST :: nat where "RINA_C_IPCP_SET_POLICY_SET_PARAM_REQUEST \<equiv> 30"
abbreviation (input) RINA_C_IPCP_SET_POLICY_SET_PARAM_RESPONSE :: nat where "RINA_C_IPCP_SET_POLICY_SET_PARAM_RESPONSE \<equiv> 31"
abbreviation (input) RINA_C_IPCP_SELECT_POLICY_SET_REQUEST :: nat where "RINA_C_IPCP_SELECT_POLICY_SET_REQUEST \<equiv> 32"
abbreviation (input) RINA_C_IPCP_SELECT_POLICY_SET_RESPONSE :: nat where "RINA_C_IPCP_SELECT_POLICY_SET_RESPONSE \<equiv> 33"
abbreviation (input) RINA_C_IPCP_UPDATE_CRYPTO_STATE_REQUEST :: nat where "RINA_C_IPCP_UPDATE_CRYPTO_STATE_REQUEST \<equiv> 34"
abbreviation (input) RINA_C_IPCP_UPDATE_CRYPTO_STATE_RESPONSE :: nat where "RINA_C_IPCP_UPDATE_CRYPTO_STATE_RESPONSE \<equiv> 35"
abbreviation (input) RINA_C_IPCP_ADDRESS_CHANGE_REQUEST :: nat where "RINA_C_IPCP_ADDRESS_CHANGE_REQUEST \<equiv> 36"
abbreviation (input) RINA_C_IPCP_ALLOCATE_PORT_REQUEST :: nat where "RINA_C_IPCP_ALLOCATE_PORT_REQUEST \<equiv> 37"
abbreviation (input) RINA_C_IPCP_ALLOCATE_PORT_RESPONSE :: nat where "RINA_C_IPCP_ALLOCATE_PORT_RESPONSE \<equiv> 38"
abbreviation (input) RINA_C_IPCP_DEALLOCATE_PORT_REQUEST :: nat where "RINA_C_IPCP_DEALLOCATE_PORT_REQUEST \<equiv> 39"
abbreviation (input) RINA_C_IPCP_DEALLOCATE_PORT_RESPONSE :: nat where "RINA_C_IPCP_DEALLOCATE_PORT_RESPONSE \<equiv> 40"
abbreviation (input) RINA_C_IPCP_MANAGEMENT_SDU_WRITE_REQUEST :: nat where "RINA_C_IPCP_MANAGEMENT_SDU_WRITE_REQUEST \<equiv> 41"
abbreviation (input) RINA_C_IPCP_MANAGEMENT_SDU_WRITE_RESPONSE :: nat where "RINA_C_IPCP_MANAGEMENT_SDU_WRITE_RESPONSE \<equiv> 42"
abbreviation (input) RINA_C_IPCP_MANAGEMENT_SDU_READ_NOTIF :: nat where "RINA_C_IPCP_MANAGEMENT_SDU_READ_NOTIF \<equiv> 43"
abbreviation (input) RINA_C_IPCM_CREATE_IPCP_REQUEST :: nat where "RINA_C_IPCM_CREATE_IPCP_REQUEST \<equiv> 44"
abbreviation (input) RINA_C_IPCM_CREATE_IPCP_RESPONSE :: nat where "RINA_C_IPCM_CREATE_IPCP_RESPONSE \<equiv> 45"
abbreviation (input) RINA_C_IPCM_DESTROY_IPCP_REQUEST :: nat where "RINA_C_IPCM_DESTROY_IPCP_REQUEST \<equiv> 46"
abbreviation (input) RINA_C_IPCM_DESTROY_IPCP_RESPONSE :: nat where "RINA_C_IPCM_DESTROY_IPCP_RESPONSE \<equiv> 47"
abbreviation (input) RINA_C_IPCM_ENROLL_TO_DIF_REQUEST :: nat where "RINA_C_IPCM_ENROLL_TO_DIF_REQUEST \<equiv> 48"
abbreviation (input) RINA_C_IPCM_ENROLL_TO_DIF_RESPONSE :: nat where "RINA_C_IPCM_ENROLL_TO_DIF_RESPONSE \<equiv> 49"
abbreviation (input) RINA_C_IPCM_DISCONNECT_FROM_NEIGHBOR_REQUEST :: nat where "RINA_C_IPCM_DISCONNECT_FROM_NEIGHBOR_REQUEST \<equiv> 50"
abbreviation (input) RINA_C_IPCM_DISCONNECT_FROM_NEIGHBOR_RESPONSE :: nat where "RINA_C_IPCM_DISCONNECT_FROM_NEIGHBOR_RESPONSE \<equiv> 51"
abbreviation (input) RINA_C_IPCM_IPC_PROCESS_INITIALIZED :: nat where "RINA_C_IPCM_IPC_PROCESS_INITIALIZED \<equiv> 52"
abbreviation (input) RINA_C_APP_ALLOCATE_FLOW_REQUEST :: nat where "RINA_C_APP_ALLOCATE_FLOW_REQUEST \<equiv> 53"
abbreviation (input) RINA_C_APP_ALLOCATE_FLOW_REQUEST_RESULT :: nat where "RINA_C_APP_ALLOCATE_FLOW_REQUEST_RESULT \<equiv> 54"
abbreviation (input) RINA_C_APP_ALLOCATE_FLOW_REQUEST_ARRIVED :: nat where "RINA_C_APP_ALLOCATE_FLOW_REQUEST_ARRIVED \<equiv> 55"
abbreviation (input) RINA_C_APP_ALLOCATE_FLOW_RESPONSE :: nat where "RINA_C_APP_ALLOCATE_FLOW_RESPONSE \<equiv> 56"
abbreviation (input) RINA_C_APP_DEALLOCATE_FLOW_REQUEST :: nat where "RINA_C_APP_DEALLOCATE_FLOW_REQUEST \<equiv> 57"
abbreviation (input) RINA_C_APP_FLOW_DEALLOCATED_NOTIFICATION :: nat where "RINA_C_APP_FLOW_DEALLOCATED_NOTIFICATION \<equiv> 58"
abbreviation (input) RINA_C_APP_REGISTER_APPLICATION_REQUEST :: nat where "RINA_C_APP_REGISTER_APPLICATION_REQUEST \<equiv> 59"
abbreviation (input) RINA_C_APP_REGISTER_APPLICATION_RESPONSE :: nat where "RINA_C_APP_REGISTER_APPLICATION_RESPONSE \<equiv> 60"
abbreviation (input) RINA_C_APP_UNREGISTER_APPLICATION_REQUEST :: nat where "RINA_C_APP_UNREGISTER_APPLICATION_REQUEST \<equiv> 61"
abbreviation (input) RINA_C_APP_UNREGISTER_APPLICATION_RESPONSE :: nat where "RINA_C_APP_UNREGISTER_APPLICATION_RESPONSE \<equiv> 62"
abbreviation (input) RINA_C_APP_APPLICATION_REGISTRATION_CANCELED_NOTIFICATION :: nat where "RINA_C_APP_APPLICATION_REGISTRATION_CANCELED_NOTIFICATION \<equiv> 63"
abbreviation (input) RINA_C_APP_GET_DIF_PROPERTIES_REQUEST :: nat where "RINA_C_APP_GET_DIF_PROPERTIES_REQUEST \<equiv> 64"
abbreviation (input) RINA_C_APP_GET_DIF_PROPERTIES_RESPONSE :: nat where "RINA_C_APP_GET_DIF_PROPERTIES_RESPONSE \<equiv> 65"
abbreviation (input) RINA_C_IPCM_PLUGIN_LOAD_REQUEST :: nat where "RINA_C_IPCM_PLUGIN_LOAD_REQUEST \<equiv> 66"
abbreviation (input) RINA_C_IPCM_PLUGIN_LOAD_RESPONSE :: nat where "RINA_C_IPCM_PLUGIN_LOAD_RESPONSE \<equiv> 67"
abbreviation (input) RINA_C_IPCM_FWD_CDAP_MSG_REQUEST :: nat where "RINA_C_IPCM_FWD_CDAP_MSG_REQUEST \<equiv> 68"
abbreviation (input) RINA_C_IPCM_FWD_CDAP_MSG_RESPONSE :: nat where "RINA_C_IPCM_FWD_CDAP_MSG_RESPONSE \<equiv> 69"
abbreviation (input) RINA_C_IPCM_MEDIA_REPORT :: nat where "RINA_C_IPCM_MEDIA_REPORT \<equiv> 70"
abbreviation (input) RINA_C_IPCM_FINALIZE_REQUEST :: nat where "RINA_C_IPCM_FINALIZE_REQUEST \<equiv> 71"
abbreviation (input) RINA_C_IPCP_CONN_MODIFY_REQUEST :: nat where "RINA_C_IPCP_CONN_MODIFY_REQUEST \<equiv> 72"
abbreviation (input) RINA_C_IPCM_SCAN_MEDIA_REQUEST :: nat where "RINA_C_IPCM_SCAN_MEDIA_REQUEST \<equiv> 73"
abbreviation (input) RINA_C_MAX :: nat where "RINA_C_MAX \<equiv> 74"

section \<open>Structures\<close>

datatype mfield =
  Val nat
| PName
| PString
| PFlow_spec
| PDif_config
| PDtp_config
| PDtcp_config
| PQuery_rib_resp
| PPff_entry_list
| PCrypto_state
| PDif_props
| PNeigh_list
| PMedia_report
| PBuffer

fun field_size :: "mfield \<Rightarrow> nat" where
  "field_size (Val n) = n"
| "field_size _ = 8"

definition sizeof :: "mfield list \<Rightarrow> nat" where
  "sizeof fs = sum_list (map field_size fs)"

definition irati_msg_base :: "mfield list" where
  "irati_msg_base = [Val 2, Val 4, Val 4, Val 2, Val 2, Val 4]"

definition irati_msg_base_resp :: "mfield list" where
  "irati_msg_base_resp = irati_msg_base @ [Val 1]"

definition irati_kmsg_ipcm_assign_to_dif :: "mfield list" where
  "irati_kmsg_ipcm_assign_to_dif = irati_msg_base @ [PName, PString, PDif_config]"

definition irati_kmsg_ipcm_update_config :: "mfield list" where
  "irati_kmsg_ipcm_update_config = irati_msg_base @ [PDif_config]"

definition irati_kmsg_ipcp_dif_reg_not :: "mfield list" where
  "irati_kmsg_ipcp_dif_reg_not = irati_msg_base @ [Val 1, PName, PName]"

definition irati_kmsg_ipcm_allocate_flow :: "mfield list" where
  "irati_kmsg_ipcm_allocate_flow =
     irati_msg_base @ [Val 4, Val 4, PName, PName, PName, PFlow_spec]"

definition irati_kmsg_ipcm_allocate_flow_resp :: "mfield list" where
  "irati_kmsg_ipcm_allocate_flow_resp = irati_msg_base @ [Val 1, Val 1, Val 4]"

definition irati_kmsg_ipcm_reg_app :: "mfield list" where
  "irati_kmsg_ipcm_reg_app = irati_msg_base @ [Val 2, PName, PName, PName]"

definition irati_kmsg_ipcm_unreg_app :: "mfield list" where
  "irati_kmsg_ipcm_unreg_app = irati_msg_base @ [PName, PName]"

definition irati_kmsg_ipcm_query_rib :: "mfield list" where
  "irati_kmsg_ipcm_query_rib = irati_msg_base @ [Val 8, Val 4, PString, PString, PString]"

definition irati_kmsg_ipcm_query_rib_resp :: "mfield list" where
  "irati_kmsg_ipcm_query_rib_resp = irati_msg_base @ [Val 1, PQuery_rib_resp]"

definition irati_kmsg_rmt_dump_ft :: "mfield list" where
  "irati_kmsg_rmt_dump_ft = irati_msg_base @ [Val 1, Val 1, PPff_entry_list]"

definition irati_kmsg_ipcp_conn_create_arrived :: "mfield list" where
  "irati_kmsg_ipcp_conn_create_arrived =
     irati_msg_base @ [Val 4, Val 4, Val 4, Val 4, Val 4, Val 2, Val 2, PDtp_config, PDtcp_config]"

definition irati_kmsg_ipcp_conn_update :: "mfield list" where
  "irati_kmsg_ipcp_conn_update = irati_msg_base @ [Val 4, Val 4, Val 4, Val 4, Val 4]"

definition irati_kmsg_ipcp_select_ps_param :: "mfield list" where
  "irati_kmsg_ipcp_select_ps_param = irati_msg_base @ [PString, PString, PString]"

definition irati_kmsg_ipcp_select_ps :: "mfield list" where
  "irati_kmsg_ipcp_select_ps = irati_msg_base @ [PString, PString]"

definition irati_kmsg_ipcp_update_crypto_state :: "mfield list" where
  "irati_kmsg_ipcp_update_crypto_state = irati_msg_base @ [Val 4, PCrypto_state]"

definition irati_kmsg_ipcp_address_change :: "mfield list" where
  "irati_kmsg_ipcp_address_change = irati_msg_base @ [Val 4, Val 4, Val 4, Val 4]"

definition irati_kmsg_ipcp_allocate_port :: "mfield list" where
  "irati_kmsg_ipcp_allocate_port = irati_msg_base @ [Val 1, PName]"

definition irati_kmsg_multi_msg :: "mfield list" where
  "irati_kmsg_multi_msg = irati_msg_base @ [Val 1, Val 4, Val 4]"

definition irati_kmsg_ipcp_mgmt_sdu :: "mfield list" where
  "irati_kmsg_ipcp_mgmt_sdu = irati_msg_base @ [Val 4, PBuffer]"

definition irati_kmsg_ipcm_create_ipcp :: "mfield list" where
  "irati_kmsg_ipcm_create_ipcp = irati_msg_base @ [Val 2, Val 4, PName, PString]"

definition irati_kmsg_ipcm_destroy_ipcp :: "mfield list" where
  "irati_kmsg_ipcm_destroy_ipcp = irati_msg_base @ [Val 2]"

definition irati_msg_ipcm_enroll_to_dif :: "mfield list" where
  "irati_msg_ipcm_enroll_to_dif = irati_msg_base @ [Val 1, PName, PName, PName, PName]"

definition irati_msg_ipcm_enroll_to_dif_resp :: "mfield list" where
  "irati_msg_ipcm_enroll_to_dif_resp =
     irati_msg_base @ [Val 1, PName, PString, PDif_config, PNeigh_list]"

definition irati_msg_with_name :: "mfield list" where
  "irati_msg_with_name = irati_msg_base @ [PName]"

definition irati_msg_app_alloc_flow_result :: "mfield list" where
  "irati_msg_app_alloc_flow_result = irati_msg_base @ [Val 4, PName, PName, PString]"

definition irati_msg_app_alloc_flow_response :: "mfield list" where
  "irati_msg_app_alloc_flow_response = irati_msg_base @ [Val 1, Val 1, Val 4]"

definition irati_msg_app_dealloc_flow :: "mfield list" where
  "irati_msg_app_dealloc_flow = irati_msg_base @ [Val 1, Val 4]"

definition irati_msg_app_reg_app :: "mfield list" where
  "irati_msg_app_reg_app = irati_msg_base @ [Val 2, Val 4, Val 1, Val 4, PName, PName, PName]"

definition irati_msg_app_reg_app_resp :: "mfield list" where
  "irati_msg_app_reg_app_resp = irati_msg_base @ [Val 1, PName, PName]"

definition irati_msg_app_reg_cancel :: "mfield list" where
  "irati_msg_app_reg_cancel = irati_msg_base @ [Val 1, PName, PName, PString]"

definition irati_msg_get_dif_prop :: "mfield list" where
  "irati_msg_get_dif_prop = irati_msg_base @ [Val 1, PName, PName, PDif_props]"

definition irati_msg_ipcm_plugin_load :: "mfield list" where
  "irati_msg_ipcm_plugin_load = irati_msg_base @ [Val 1, PString]"

definition irati_msg_ipcm_fwd_cdap_msg :: "mfield list" where
  "irati_msg_ipcm_fwd_cdap_msg = irati_msg_base @ [Val 1, PBuffer]"

definition irati_msg_ipcm_media_report :: "mfield list" where
  "irati_msg_ipcm_media_report = irati_msg_base @ [PMedia_report]"

lemmas struct_defs =
  irati_msg_base_def irati_msg_base_resp_def irati_kmsg_ipcm_assign_to_dif_def
  irati_kmsg_ipcm_update_config_def irati_kmsg_ipcp_dif_reg_not_def
  irati_kmsg_ipcm_allocate_flow_def irati_kmsg_ipcm_allocate_flow_resp_def
  irati_kmsg_ipcm_reg_app_def irati_kmsg_ipcm_unreg_app_def irati_kmsg_ipcm_query_rib_def
  irati_kmsg_ipcm_query_rib_resp_def irati_kmsg_rmt_dump_ft_def
  irati_kmsg_ipcp_conn_create_arrived_def irati_kmsg_ipcp_conn_update_def
  irati_kmsg_ipcp_select_ps_param_def irati_kmsg_ipcp_select_ps_def
  irati_kmsg_ipcp_update_crypto_state_def irati_kmsg_ipcp_address_change_def
  irati_kmsg_ipcp_allocate_port_def irati_kmsg_multi_msg_def irati_kmsg_ipcp_mgmt_sdu_def
  irati_kmsg_ipcm_create_ipcp_def irati_kmsg_ipcm_destroy_ipcp_def
  irati_msg_ipcm_enroll_to_dif_def irati_msg_ipcm_enroll_to_dif_resp_def irati_msg_with_name_def
  irati_msg_app_alloc_flow_result_def irati_msg_app_alloc_flow_response_def
  irati_msg_app_dealloc_flow_def irati_msg_app_reg_app_def irati_msg_app_reg_app_resp_def
  irati_msg_app_reg_cancel_def irati_msg_get_dif_prop_def irati_msg_ipcm_plugin_load_def
  irati_msg_ipcm_fwd_cdap_msg_def irati_msg_ipcm_media_report_def

section \<open>The table of layouts\<close>

record irati_msg_layout =
  l_copylen :: nat
  l_names :: nat
  l_strings :: nat
  l_flow_specs :: nat
  l_dif_configs :: nat
  l_dtp_configs :: nat
  l_dtcp_configs :: nat
  l_query_rib_resps :: nat
  l_pff_entry_lists :: nat
  l_sdup_crypto_states :: nat
  l_dif_properties :: nat
  l_ipcp_neigh_lists :: nat
  l_media_reports :: nat
  l_buffers :: nat

definition msg_layout :: "nat \<Rightarrow> irati_msg_layout" where
  "msg_layout n = \<lparr>l_copylen = n, l_names = 0, l_strings = 0, l_flow_specs = 0,
     l_dif_configs = 0, l_dtp_configs = 0, l_dtcp_configs = 0, l_query_rib_resps = 0,
     l_pff_entry_lists = 0, l_sdup_crypto_states = 0, l_dif_properties = 0,
     l_ipcp_neigh_lists = 0, l_media_reports = 0, l_buffers = 0\<rparr>"

definition numtable_entries :: "(nat \<times> irati_msg_layout) list" where
  "numtable_entries =
     [(RINA_C_IPCM_ASSIGN_TO_DIF_REQUEST,
       (msg_layout (sizeof irati_kmsg_ipcm_assign_to_dif - 8 - 8 - 8))
         \<lparr>l_names := 1, l_strings := 1, l_dif_configs := 1\<rparr>),
      (RINA_C_IPCM_ASSIGN_TO_DIF_RESPONSE,
       msg_layout (sizeof irati_msg_base_resp)),
      (RINA_C_IPCM_UPDATE_DIF_CONFIG_REQUEST,
       (msg_layout (sizeof irati_kmsg_ipcm_update_config - 8))
         \<lparr>l_dif_configs := 1\<rparr>),
      (RINA_C_IPCM_UPDATE_DIF_CONFIG_RESPONSE,
       msg_layout (sizeof irati_msg_base_resp)),
      (RINA_C_IPCM_IPC_PROCESS_DIF_REGISTRATION_NOTIFICATION,
       (msg_layout (sizeof irati_kmsg_ipcp_dif_reg_not - 2 * 8))
         \<lparr>l_names := 2\<rparr>),
      (RINA_C_IPCM_IPC_PROCESS_DIF_UNREGISTRATION_NOTIFICATION,
       (msg_layout (sizeof irati_kmsg_ipcp_dif_reg_not - 2 * 8))
         \<lparr>l_names := 2\<rparr>),
      (RINA_C_IPCM_ALLOCATE_FLOW_REQUEST,
       (msg_layout (sizeof irati_kmsg_ipcm_allocate_flow - 3 * 8 - 8))
         \<lparr>l_names := 3, l_flow_specs := 1\<rparr>),
      (RINA_C_IPCM_ALLOCATE_FLOW_REQUEST_ARRIVED,
       (msg_layout (sizeof irati_kmsg_ipcm_allocate_flow - 3 * 8 - 8))
         \<lparr>l_names := 3, l_flow_specs := 1\<rparr>),
      (RINA_C_IPCM_ALLOCATE_FLOW_RESPONSE,
       msg_layout (sizeof irati_kmsg_ipcm_allocate_flow_resp)),
      (RINA_C_IPCM_REGISTER_APPLICATION_REQUEST,
       (msg_layout (sizeof irati_kmsg_ipcm_reg_app - 3 * 8))
         \<lparr>l_names := 3\<rparr>),
      (RINA_C_IPCM_REGISTER_APPLICATION_RESPONSE,
       msg_layout (sizeof irati_msg_base_resp)),
      (RINA_C_IPCM_UNREGISTER_APPLICATION_REQUEST,
       (msg_layout (sizeof irati_kmsg_ipcm_unreg_app - 2 * 8))
         \<lparr>l_names := 2\<rparr>),
      (RINA_C_IPCM_UNREGISTER_APPLICATION_RESPONSE,
       msg_layout (sizeof irati_msg_base_resp)),
      (RINA_C_IPCM_QUERY_RIB_REQUEST,
       (msg_layout (sizeof irati_kmsg_ipcm_query_rib - 3 * 8))
         \<lparr>l_strings := 3\<rparr>),
      (RINA_C_IPCM_QUERY_RIB_RESPONSE,
       (msg_layout (sizeof irati_kmsg_ipcm_query_rib_resp - 8))
         \<lparr>l_query_rib_resps := 1\<rparr>),
      (RINA_C_RMT_DUMP_FT_REQUEST,
       msg_layout (sizeof irati_msg_base)),
      (RINA_C_RMT_MODIFY_FTE_REQUEST,
       (msg_layout (sizeof irati_kmsg_rmt_dump_ft - 8))
         \<lparr>l_pff_entry_lists := 1\<rparr>),
      (RINA_C_RMT_DUMP_FT_REPLY,
       (msg_layout (sizeof irati_kmsg_rmt_dump_ft - 8))
         \<lparr>l_pff_entry_lists := 1\<rparr>),
      (RINA_C_IPCP_CONN_CREATE_REQUEST,
       (msg_layout (sizeof irati_kmsg_ipcp_conn_create_arrived - 8 - 8))
         \<lparr>l_dtp_configs := 1, l_dtcp_configs := 1\<rparr>),
      (RINA_C_IPCP_CONN_CREATE_ARRIVED,
       (msg_layout (sizeof irati_kmsg_ipcp_conn_create_arrived - 8 - 8))
         \<lparr>l_dtp_configs := 1, l_dtcp_configs := 1\<rparr>),
      (RINA_C_IPCP_CONN_CREATE_RESPONSE,
       msg_layout (sizeof irati_kmsg_ipcp_conn_update)),
      (RINA_C_IPCP_CONN_CREATE_RESULT,
       msg_layout (sizeof irati_kmsg_ipcp_conn_update)),
      (RINA_C_IPCP_CONN_UPDATE_REQUEST,
       msg_layout (sizeof irati_kmsg_ipcp_conn_update)),
      (RINA_C_IPCP_SET_POLICY_SET_PARAM_REQUEST,
       (msg_layout (sizeof irati_kmsg_ipcp_select_ps_param - 3 * 8))
         \<lparr>l_strings := 3\<rparr>),
      (RINA_C_IPCP_SET_POLICY_SET_PARAM_RESPONSE,
       msg_layout (sizeof irati_msg_base_resp)),
      (RINA_C_IPCP_SELECT_POLICY_SET_REQUEST,
       (msg_layout (sizeof irati_kmsg_ipcp_select_ps - 2 * 8))
         \<lparr>l_strings := 2\<rparr>),
      (RINA_C_IPCP_SELECT_POLICY_SET_RESPONSE,
       msg_layout (sizeof irati_msg_base_resp)),
      (RINA_C_IPCP_UPDATE_CRYPTO_STATE_REQUEST,
       (msg_layout (sizeof irati_kmsg_ipcp_update_crypto_state - 8))
         \<lparr>l_sdup_crypto_states := 1\<rparr>),
      (RINA_C_IPCP_ADDRESS_CHANGE_REQUEST,
       msg_layout (sizeof irati_kmsg_ipcp_address_change)),
      (RINA_C_IPCP_ALLOCATE_PORT_REQUEST,
       (msg_layout (sizeof irati_kmsg_ipcp_allocate_port - 8))
         \<lparr>l_names := 1\<rparr>),
      (RINA_C_IPCM_ALLOCATE_FLOW_REQUEST_RESULT,
       msg_layout (sizeof irati_kmsg_multi_msg)),
      (RINA_C_IPCM_DEALLOCATE_FLOW_REQUEST,
       msg_layout (sizeof irati_kmsg_multi_msg)),
      (RINA_C_IPCM_FLOW_DEALLOCATED_NOTIFICATION,
       msg_layout (sizeof irati_kmsg_multi_msg)),
      (RINA_C_IPCP_CONN_UPDATE_RESULT,
       msg_layout (sizeof irati_kmsg_multi_msg)),
      (RINA_C_IPCP_CONN_DESTROY_REQUEST,
       msg_layout (sizeof irati_kmsg_multi_msg)),
      (RINA_C_IPCP_CONN_DESTROY_RESULT,
       msg_layout (sizeof irati_kmsg_multi_msg)),
      (RINA_C_IPCP_UPDATE_CRYPTO_STATE_RESPONSE,
       msg_layout (sizeof irati_kmsg_multi_msg)),
      (RINA_C_IPCP_ALLOCATE_PORT_RESPONSE,
       msg_layout (sizeof irati_kmsg_multi_msg)),
      (RINA_C_IPCP_DEALLOCATE_PORT_REQUEST,
       msg_layout (sizeof irati_kmsg_multi_msg)),
      (RINA_C_IPCP_DEALLOCATE_PORT_RESPONSE,
       msg_layout (sizeof irati_kmsg_multi_msg)),
      (RINA_C_IPCP_MANAGEMENT_SDU_WRITE_REQUEST,
       (msg_layout (sizeof irati_kmsg_ipcp_mgmt_sdu - 8))
         \<lparr>l_buffers := 1\<rparr>),
      (RINA_C_IPCP_MANAGEMENT_SDU_READ_NOTIF,
       (msg_layout (sizeof irati_kmsg_ipcp_mgmt_sdu - 8))
         \<lparr>l_buffers := 1\<rparr>),
      (RINA_C_IPCP_MANAGEMENT_SDU_WRITE_RESPONSE,
       msg_layout (sizeof irati_msg_base_resp)),
      (RINA_C_IPCM_CREATE_IPCP_REQUEST,
       (msg_layout (sizeof irati_kmsg_ipcm_create_ipcp - 8 - 8))
         \<lparr>l_names := 1, l_strings := 1\<rparr>),
      (RINA_C_IPCM_CREATE_IPCP_RESPONSE,
       msg_layout (sizeof irati_msg_base_resp)),
      (RINA_C_IPCM_DESTROY_IPCP_REQUEST,
       msg_layout (sizeof irati_kmsg_ipcm_destroy_ipcp)),
      (RINA_C_IPCM_DESTROY_IPCP_RESPONSE,
       msg_layout (sizeof irati_msg_base_resp)),
      (RINA_C_IPCM_ENROLL_TO_DIF_REQUEST,
       (msg_layout (sizeof irati_msg_ipcm_enroll_to_dif - 4 * 8))
         \<lparr>l_names := 4\<rparr>),
      (RINA_C_IPCM_ENROLL_TO_DIF_RESPONSE,
       (msg_layout (sizeof irati_msg_ipcm_enroll_to_dif_resp - 8 - 8 - 8 - 8))
         \<lparr>l_names := 1, l_strings := 1, l_dif_configs := 1, l_ipcp_neigh_lists := 1\<rparr>),
      (RINA_C_IPCM_DISCONNECT_FROM_NEIGHBOR_REQUEST,
       (msg_layout (sizeof irati_msg_with_name - 8))
         \<lparr>l_names := 1\<rparr>),
      (RINA_C_IPCM_DISCONNECT_FROM_NEIGHBOR_RESPONSE,
       msg_layout (sizeof irati_msg_base_resp)),
      (RINA_C_IPCM_IPC_PROCESS_INITIALIZED,
       (msg_layout (sizeof irati_msg_with_name - 8))
         \<lparr>l_names := 1\<rparr>),
      (RINA_C_APP_ALLOCATE_FLOW_REQUEST,
       (msg_layout (sizeof irati_kmsg_ipcm_allocate_flow - 3 * 8 - 8))
         \<lparr>l_names := 3, l_flow_specs := 1\<rparr>),
      (RINA_C_APP_ALLOCATE_FLOW_REQUEST_RESULT,
       (msg_layout (sizeof irati_msg_app_alloc_flow_result - 2 * 8 - 8))
         \<lparr>l_names := 2, l_strings := 1\<rparr>),
      (RINA_C_APP_ALLOCATE_FLOW_REQUEST_ARRIVED,
       (msg_layout (sizeof irati_kmsg_ipcm_allocate_flow - 3 * 8 - 8))
         \<lparr>l_names := 3, l_flow_specs := 1\<rparr>),
      (RINA_C_APP_ALLOCATE_FLOW_RESPONSE,
       msg_layout (sizeof irati_msg_app_alloc_flow_response)),
      (RINA_C_APP_DEALLOCATE_FLOW_REQUEST,
       msg_layout (sizeof irati_msg_app_dealloc_flow)),
      (RINA_C_APP_FLOW_DEALLOCATED_NOTIFICATION,
       msg_layout (sizeof irati_msg_app_dealloc_flow)),
      (RINA_C_APP_REGISTER_APPLICATION_REQUEST,
       (msg_layout (sizeof irati_msg_app_reg_app - 3 * 8))
         \<lparr>l_names := 3\<rparr>),
      (RINA_C_APP_REGISTER_APPLICATION_RESPONSE,
       (msg_layout (sizeof irati_msg_app_reg_app_resp - 2 * 8))
         \<lparr>l_names := 2\<rparr>),
      (RINA_C_APP_UNREGISTER_APPLICATION_REQUEST,
       (msg_layout (sizeof irati_msg_app_reg_app_resp - 2 * 8))
         \<lparr>l_names := 2\<rparr>),
      (RINA_C_APP_UNREGISTER_APPLICATION_RESPONSE,
       (msg_layout (sizeof irati_msg_app_reg_app_resp - 2 * 8))
         \<lparr>l_names := 2\<rparr>),
      (RINA_C_APP_APPLICATION_REGISTRATION_CANCELED_NOTIFICATION,
       (msg_layout (sizeof irati_msg_app_reg_cancel - 2 * 8 - 8))
         \<lparr>l_names := 2, l_strings := 1\<rparr>),
      (RINA_C_APP_GET_DIF_PROPERTIES_REQUEST,
       (msg_layout (sizeof irati_msg_app_reg_app_resp - 2 * 8))
         \<lparr>l_names := 2\<rparr>),
      (RINA_C_APP_GET_DIF_PROPERTIES_RESPONSE,
       (msg_layout (sizeof irati_msg_get_dif_prop - 2 * 8 - 8))
         \<lparr>l_names := 2, l_dif_properties := 1\<rparr>),
      (RINA_C_IPCM_PLUGIN_LOAD_REQUEST,
       (msg_layout (sizeof irati_msg_ipcm_plugin_load - 8))
         \<lparr>l_strings := 1\<rparr>),
      (RINA_C_IPCM_PLUGIN_LOAD_RESPONSE,
       msg_layout (sizeof irati_msg_base_resp)),
      (RINA_C_IPCM_FWD_CDAP_MSG_REQUEST,
       (msg_layout (sizeof irati_msg_ipcm_fwd_cdap_msg - 8))
         \<lparr>l_buffers := 1\<rparr>),
      (RINA_C_IPCM_FWD_CDAP_MSG_RESPONSE,
       (msg_layout (sizeof irati_msg_ipcm_fwd_cdap_msg - 8))
         \<lparr>l_buffers := 1\<rparr>),
      (RINA_C_IPCM_MEDIA_REPORT,
       (msg_layout (sizeof irati_msg_ipcm_media_report - 8))
         \<lparr>l_media_reports := 1\<rparr>),
      (RINA_C_IPCM_FINALIZE_REQUEST,
       msg_layout (sizeof irati_msg_base)),
      (RINA_C_IPCP_CONN_MODIFY_REQUEST,
       msg_layout (sizeof irati_kmsg_ipcp_conn_update)),
      (RINA_C_IPCM_SCAN_MEDIA_REQUEST,
       msg_layout (sizeof irati_msg_base))]"

text \<open>An index without an entry holds zeros.\<close>

definition irati_ker_numtables :: "nat \<Rightarrow> irati_msg_layout" where
  "irati_ker_numtables t =
     (case map_of numtable_entries t of None \<Rightarrow> msg_layout 0 | Some l \<Rightarrow> l)"

section \<open>Allocation\<close>

definition alloc_table :: "(nat list \<times> mfield list) list" where
  "alloc_table =
     [([RINA_C_IPCM_ASSIGN_TO_DIF_REQUEST],
       irati_kmsg_ipcm_assign_to_dif),
      ([RINA_C_IPCM_PLUGIN_LOAD_RESPONSE,
        RINA_C_IPCM_DISCONNECT_FROM_NEIGHBOR_RESPONSE,
        RINA_C_IPCM_DESTROY_IPCP_RESPONSE,
        RINA_C_IPCM_CREATE_IPCP_RESPONSE,
        RINA_C_IPCP_MANAGEMENT_SDU_WRITE_RESPONSE,
        RINA_C_IPCP_SET_POLICY_SET_PARAM_RESPONSE,
        RINA_C_IPCP_SELECT_POLICY_SET_RESPONSE,
        RINA_C_IPCM_UNREGISTER_APPLICATION_RESPONSE,
        RINA_C_IPCM_REGISTER_APPLICATION_RESPONSE,
        RINA_C_IPCM_UPDATE_DIF_CONFIG_RESPONSE,
        RINA_C_IPCM_ASSIGN_TO_DIF_RESPONSE],
       irati_msg_base_resp),
      ([RINA_C_IPCM_UPDATE_DIF_CONFIG_REQUEST],
       irati_kmsg_ipcm_update_config),
      ([RINA_C_IPCM_IPC_PROCESS_DIF_UNREGISTRATION_NOTIFICATION,
        RINA_C_IPCM_IPC_PROCESS_DIF_REGISTRATION_NOTIFICATION],
       irati_kmsg_ipcp_dif_reg_not),
      ([RINA_C_APP_ALLOCATE_FLOW_REQUEST,
        RINA_C_APP_ALLOCATE_FLOW_REQUEST_ARRIVED,
        RINA_C_IPCM_ALLOCATE_FLOW_REQUEST_ARRIVED,
        RINA_C_IPCM_ALLOCATE_FLOW_REQUEST],
       irati_kmsg_ipcm_allocate_flow),
      ([RINA_C_IPCP_CONN_UPDATE_RESULT,
        RINA_C_IPCP_CONN_DESTROY_REQUEST,
        RINA_C_IPCP_CONN_DESTROY_RESULT,
        RINA_C_IPCP_UPDATE_CRYPTO_STATE_RESPONSE,
        RINA_C_IPCP_ALLOCATE_PORT_RESPONSE,
        RINA_C_IPCP_DEALLOCATE_PORT_REQUEST,
        RINA_C_IPCP_DEALLOCATE_PORT_RESPONSE,
        RINA_C_IPCM_DEALLOCATE_FLOW_REQUEST,
        RINA_C_IPCM_FLOW_DEALLOCATED_NOTIFICATION,
        RINA_C_IPCM_ALLOCATE_FLOW_REQUEST_RESULT],
       irati_kmsg_multi_msg),
      ([RINA_C_IPCM_ALLOCATE_FLOW_RESPONSE],
       irati_kmsg_ipcm_allocate_flow_resp),
      ([RINA_C_IPCM_REGISTER_APPLICATION_REQUEST],
       irati_kmsg_ipcm_reg_app),
      ([RINA_C_IPCM_UNREGISTER_APPLICATION_REQUEST],
       irati_kmsg_ipcm_unreg_app),
      ([RINA_C_IPCM_QUERY_RIB_REQUEST],
       irati_kmsg_ipcm_query_rib),
      ([RINA_C_IPCM_QUERY_RIB_RESPONSE],
       irati_kmsg_ipcm_query_rib_resp),
      ([RINA_C_IPCM_SCAN_MEDIA_REQUEST,
        RINA_C_IPCM_FINALIZE_REQUEST,
        RINA_C_RMT_DUMP_FT_REQUEST],
       irati_msg_base),
      ([RINA_C_RMT_MODIFY_FTE_REQUEST,
        RINA_C_RMT_DUMP_FT_REPLY],
       irati_kmsg_rmt_dump_ft),
      ([RINA_C_IPCP_CONN_CREATE_REQUEST,
        RINA_C_IPCP_CONN_CREATE_ARRIVED],
       irati_kmsg_ipcp_conn_create_arrived),
      ([RINA_C_IPCP_CONN_CREATE_RESPONSE,
        RINA_C_IPCP_CONN_CREATE_RESULT,
        RINA_C_IPCP_CONN_MODIFY_REQUEST,
        RINA_C_IPCP_CONN_UPDATE_REQUEST],
       irati_kmsg_ipcp_conn_update),
      ([RINA_C_IPCP_SET_POLICY_SET_PARAM_REQUEST],
       irati_kmsg_ipcp_select_ps_param),
      ([RINA_C_IPCP_SELECT_POLICY_SET_REQUEST],
       irati_kmsg_ipcp_select_ps),
      ([RINA_C_IPCP_UPDATE_CRYPTO_STATE_REQUEST],
       irati_kmsg_ipcp_update_crypto_state),
      ([RINA_C_IPCP_ADDRESS_CHANGE_REQUEST],
       irati_kmsg_ipcp_address_change),
      ([RINA_C_IPCP_ALLOCATE_PORT_REQUEST],
       irati_kmsg_ipcp_allocate_port),
      ([RINA_C_IPCP_MANAGEMENT_SDU_WRITE_REQUEST,
        RINA_C_IPCP_MANAGEMENT_SDU_READ_NOTIF],
       irati_kmsg_ipcp_mgmt_sdu),
      ([RINA_C_IPCM_CREATE_IPCP_REQUEST],
       irati_kmsg_ipcm_create_ipcp),
      ([RINA_C_IPCM_DESTROY_IPCP_REQUEST],
       irati_kmsg_ipcm_destroy_ipcp),
      ([RINA_C_IPCM_ENROLL_TO_DIF_REQUEST],
       irati_msg_ipcm_enroll_to_dif),
      ([RINA_C_IPCM_ENROLL_TO_DIF_RESPONSE],
       irati_msg_ipcm_enroll_to_dif_resp),
      ([RINA_C_IPCM_DISCONNECT_FROM_NEIGHBOR_REQUEST,
        RINA_C_IPCM_IPC_PROCESS_INITIALIZED],
       irati_msg_with_name),
      ([RINA_C_APP_ALLOCATE_FLOW_REQUEST_RESULT],
       irati_msg_app_alloc_flow_result),
      ([RINA_C_APP_ALLOCATE_FLOW_RESPONSE],
       irati_msg_app_alloc_flow_response),
      ([RINA_C_APP_DEALLOCATE_FLOW_REQUEST,
        RINA_C_APP_REGISTER_APPLICATION_REQUEST],
       irati_msg_app_reg_app),
      ([RINA_C_APP_UNREGISTER_APPLICATION_REQUEST,
        RINA_C_APP_UNREGISTER_APPLICATION_RESPONSE,
        RINA_C_APP_GET_DIF_PROPERTIES_REQUEST,
        RINA_C_APP_REGISTER_APPLICATION_RESPONSE],
       irati_msg_app_reg_app_resp),
      ([RINA_C_APP_APPLICATION_REGISTRATION_CANCELED_NOTIFICATION],
       irati_msg_app_reg_cancel),
      ([RINA_C_APP_GET_DIF_PROPERTIES_RESPONSE],
       irati_msg_get_dif_prop),
      ([RINA_C_IPCM_PLUGIN_LOAD_REQUEST],
       irati_msg_ipcm_plugin_load),
      ([RINA_C_IPCM_FWD_CDAP_MSG_REQUEST,
        RINA_C_IPCM_FWD_CDAP_MSG_RESPONSE],
       irati_msg_ipcm_fwd_cdap_msg),
      ([RINA_C_IPCM_MEDIA_REPORT],
       irati_msg_ipcm_media_report)]"

text \<open>The structure that is allocated for a type; NULL for a type without a case.\<close>

fun find_struct :: "nat \<Rightarrow> (nat list \<times> mfield list) list \<Rightarrow> mfield list ptr" where
  "find_struct t [] = None"
| "find_struct t ((ts, s) # rest) = (if t \<in> set ts then Some s else find_struct t rest)"

definition allocate_irati_msg :: "nat \<Rightarrow> mfield list ptr" where
  "allocate_irati_msg t = find_struct t alloc_table"

text \<open>
  The pointers behind the copied part, in the order in which the codec walks over them, and the
  room they need.
\<close>

definition layout_pointers :: "irati_msg_layout \<Rightarrow> mfield list" where
  "layout_pointers l =
     replicate (l_names l) PName @
     replicate (l_strings l) PString @
     replicate (l_flow_specs l) PFlow_spec @
     replicate (l_dif_configs l) PDif_config @
     replicate (l_dtp_configs l) PDtp_config @
     replicate (l_dtcp_configs l) PDtcp_config @
     replicate (l_query_rib_resps l) PQuery_rib_resp @
     replicate (l_pff_entry_lists l) PPff_entry_list @
     replicate (l_sdup_crypto_states l) PCrypto_state @
     replicate (l_dif_properties l) PDif_props @
     replicate (l_ipcp_neigh_lists l) PNeigh_list @
     replicate (l_media_reports l) PMedia_report @
     replicate (l_buffers l) PBuffer"

definition layout_size :: "irati_msg_layout \<Rightarrow> nat" where
  "layout_size l = l_copylen l + sizeof (layout_pointers l)"

text \<open>\<^verbatim>\<open>irati_numtables_max_size\<close>, with the sizes of the objects as a parameter.\<close>

fun irati_numtables_max_size :: "(mfield \<Rightarrow> nat) \<Rightarrow> (nat \<Rightarrow> irati_msg_layout) \<Rightarrow> nat \<Rightarrow> nat" where
  "irati_numtables_max_size obj nt 0 = 0"
| "irati_numtables_max_size obj nt (Suc i) =
     (let cur = l_copylen (nt i) + l_names (nt i) * obj PName + l_strings (nt i) * 8 +
                l_flow_specs (nt i) * obj PFlow_spec + l_dif_configs (nt i) * obj PDif_config +
                l_dtp_configs (nt i) * obj PDtp_config + l_dtcp_configs (nt i) * obj PDtcp_config +
                l_query_rib_resps (nt i) * obj PQuery_rib_resp +
                l_pff_entry_lists (nt i) * obj PPff_entry_list +
                l_sdup_crypto_states (nt i) * obj PCrypto_state +
                l_dif_properties (nt i) * obj PDif_props +
                l_ipcp_neigh_lists (nt i) * obj PNeigh_list +
                l_media_reports (nt i) * obj PMedia_report;
          best = irati_numtables_max_size obj nt i
      in if cur > best then cur else best)"

definition is_val :: "mfield \<Rightarrow> bool" where
  "is_val f \<longleftrightarrow> (case f of Val _ \<Rightarrow> True | _ \<Rightarrow> False)"

text \<open>
  A structure agrees with a layout when its values come first and have the length of the copied
  part, and its pointers follow in the order of the codec.
\<close>

definition struct_agrees :: "irati_msg_layout \<Rightarrow> mfield list \<Rightarrow> bool" where
  "struct_agrees l s \<longleftrightarrow>
     sizeof (takeWhile is_val s) = l_copylen l \<and> dropWhile is_val s = layout_pointers l"

definition layout_checked :: "(nat \<times> irati_msg_layout) list \<Rightarrow> (nat list \<times> mfield list) list \<Rightarrow> nat \<Rightarrow> bool" where
  "layout_checked tab als t \<longleftrightarrow>
     (case find_struct t als of
        None \<Rightarrow> t \<in> {RINA_C_MIN, RINA_C_APP_FLOW_DEALLOCATED_NOTIFICATION}
      | Some s \<Rightarrow>
          (case map_of tab t of
             None \<Rightarrow> False
           | Some l \<Rightarrow>
               2 \<le> l_copylen l \<and>
               (if t = RINA_C_APP_DEALLOCATE_FLOW_REQUEST then layout_size l \<le> sizeof s
                else struct_agrees l s)))"

lemma layouts_checked: "list_all (layout_checked numtable_entries alloc_table) [0..<RINA_C_MAX]"
  by code_simp

lemma sizeof_append [simp]: "sizeof (a @ b) = sizeof a + sizeof b"
  by (simp add: sizeof_def)

lemma agrees_size: "struct_agrees l s \<Longrightarrow> layout_size l = sizeof s"
  unfolding struct_agrees_def layout_size_def
  by (metis sizeof_append takeWhile_dropWhile_id)

section \<open>Properties\<close>



end
