(* ===== verification/Serdes.thy ===== *)
theory Serdes
  imports Rina_Prelude
begin

text \<open>
  The codec of the control messages between kernel and user space,
  \<^verbatim>\<open>common/serdes-utils.c\<close>: primitive values, strings, buffers, application names and policies,
  and the functions on names.

  Serializing. The functions that write at \<^verbatim>\<open>*pptr\<close> and advance it give the bytes they write; the
  writes of a function follow each other in the list. Values are stored in host order, here the
  little-endian one.

  Deserializing. A function reads from the bytes that follow \<^verbatim>\<open>*pptr\<close>; reading beyond the end of
  the message is the outcome \<open>None\<close>, since no function checks for it. The state has those bytes,
  the outcomes of the coming allocations and the number of blocks allocated so far. A function
  that fills an object of its caller is a \<open>step\<close> on that object, one that creates it is a
  \<open>reader\<close>; both give the return code, and what they read before an error stays in the object.

  Releasing. A \<^verbatim>\<open>_free\<close> function gives the number of blocks it releases.

  Integers are words of their width, the signed ones as well: the codec only copies them. A
  string is the list of its characters before the terminator.
\<close>

unbundle bit_operations_syntax

named_theorems serdes_simps \<open>definitions of the codec\<close>

section \<open>Primitives\<close>

type_synonym bytes = "u8 list"
type_synonym cstr = "u8 list"
type_synonym dstate = "bytes \<times> allocs \<times> nat"
type_synonym 'v reader = "dstate \<Rightarrow> (rc \<times> 'v \<times> dstate) option"
type_synonym 'o step = "'o \<Rightarrow> dstate \<Rightarrow> (rc \<times> 'o \<times> dstate) option"

fun le_bytes :: "nat \<Rightarrow> 'a::len word \<Rightarrow> bytes" where
  "le_bytes 0 v = []"
| "le_bytes (Suc n) v = ucast v # le_bytes n (drop_bit 8 v)"

fun of_le :: "bytes \<Rightarrow> 'a::len word" where
  "of_le [] = 0"
| "of_le (b # bs) = ucast b OR push_bit 8 (of_le bs)"

definition serialize_obj :: "nat \<Rightarrow> 'a::len word \<Rightarrow> bytes" where
  "serialize_obj k v = le_bytes k v"

abbreviation serialize_u8 :: "u8 \<Rightarrow> bytes" where "serialize_u8 \<equiv> serialize_obj 1"
abbreviation serialize_u16 :: "u16 \<Rightarrow> bytes" where "serialize_u16 \<equiv> serialize_obj 2"
abbreviation serialize_u32 :: "u32 \<Rightarrow> bytes" where "serialize_u32 \<equiv> serialize_obj 4"
abbreviation serialize_u64 :: "u64 \<Rightarrow> bytes" where "serialize_u64 \<equiv> serialize_obj 8"

definition serialize_bool :: "bool \<Rightarrow> bytes" where
  "serialize_bool b = serialize_u8 (if b then 1 else 0)"

fun get_bytes :: "nat \<Rightarrow> dstate \<Rightarrow> (bytes \<times> dstate) option" where
  "get_bytes k (bs, ms, n) = (if k \<le> length bs then Some (take k bs, drop k bs, ms, n) else None)"

definition deserialize_obj :: "nat \<Rightarrow> dstate \<Rightarrow> ('a::len word \<times> dstate) option" where
  "deserialize_obj k d = (case get_bytes k d of None \<Rightarrow> None | Some (b, d') \<Rightarrow> Some (of_le b, d'))"

fun common_alloc :: "dstate \<Rightarrow> bool \<times> dstate" where
  "common_alloc (bs, ms, n) =
     (let (ok, ms') = rkmalloc ms in (ok, bs, ms', if ok then Suc n else n))"

subsection \<open>Sequences of steps\<close>

text \<open>
  \<open>run_steps\<close> is a function body that returns at the first error. \<open>des_obj\<close> stores a value in a
  field, \<open>des_field\<close> the object of a reader; \<open>des_when\<close> is conditional, \<open>des_ignore\<close> a call whose return code is ignored.
\<close>

definition and_then :: "'o step \<Rightarrow> (rc \<times> 'o \<times> dstate) option \<Rightarrow> (rc \<times> 'o \<times> dstate) option" where
  "and_then s r =
     (case r of None \<Rightarrow> None | Some (c, x, d) \<Rightarrow> if c \<noteq> 0 then Some (c, x, d) else s x d)"

fun run_steps :: "'o step list \<Rightarrow> 'o step" where
  "run_steps [] x d = Some (0, x, d)"
| "run_steps (s # ss) x d = and_then (run_steps ss) (s x d)"

lemma and_then_simps [simp]:
  "and_then s None = None"
  "and_then s (Some (0, x, d)) = s x d"
  "c \<noteq> 0 \<Longrightarrow> and_then s (Some (c, x, d)) = Some (c, x, d)"
  by (simp_all add: and_then_def)

lemma and_then_last [simp]: "and_then (run_steps []) r = r"
  by (auto simp: and_then_def split: option.splits)

definition des_obj :: "nat \<Rightarrow> (('a::len word \<Rightarrow> 'a word) \<Rightarrow> 'o \<Rightarrow> 'o) \<Rightarrow> 'o step" where
  "des_obj k upd x d =
     (case deserialize_obj k d of None \<Rightarrow> None | Some (v, d') \<Rightarrow> Some (0, upd (\<lambda>_. v) x, d'))"

abbreviation des_u8 :: "((u8 \<Rightarrow> u8) \<Rightarrow> 'o \<Rightarrow> 'o) \<Rightarrow> 'o step" where "des_u8 \<equiv> des_obj 1"
abbreviation des_u16 :: "((u16 \<Rightarrow> u16) \<Rightarrow> 'o \<Rightarrow> 'o) \<Rightarrow> 'o step" where "des_u16 \<equiv> des_obj 2"
abbreviation des_u32 :: "((u32 \<Rightarrow> u32) \<Rightarrow> 'o \<Rightarrow> 'o) \<Rightarrow> 'o step" where "des_u32 \<equiv> des_obj 4"
abbreviation des_u64 :: "((u64 \<Rightarrow> u64) \<Rightarrow> 'o \<Rightarrow> 'o) \<Rightarrow> 'o step" where "des_u64 \<equiv> des_obj 8"

definition des_bool :: "((bool \<Rightarrow> bool) \<Rightarrow> 'o \<Rightarrow> 'o) \<Rightarrow> 'o step" where
  "des_bool upd x d =
     (case deserialize_obj 1 d of
        None \<Rightarrow> None
      | Some (v :: u8, d') \<Rightarrow> Some (0, upd (\<lambda>_. v \<noteq> 0) x, d'))"

definition des_field :: "'v reader \<Rightarrow> (('v \<Rightarrow> 'v) \<Rightarrow> 'o \<Rightarrow> 'o) \<Rightarrow> 'o step" where
  "des_field rd upd x d =
     (case rd d of None \<Rightarrow> None | Some (c, v, d') \<Rightarrow> Some (c, upd (\<lambda>_. v) x, d'))"

definition des_when :: "('o \<Rightarrow> bool) \<Rightarrow> 'o step \<Rightarrow> 'o step" where
  "des_when c s x d = (if c x then s x d else Some (0, x, d))"

definition des_ignore :: "'o step \<Rightarrow> 'o step" where
  "des_ignore s x d = (case s x d of None \<Rightarrow> None | Some (c, x', d') \<Rightarrow> Some (0, x', d'))"

text \<open>Allocation of a zeroed object, and an object that is created and then filled.\<close>

definition create_obj :: "'o \<Rightarrow> dstate \<Rightarrow> 'o ptr \<times> dstate" where
  "create_obj z d = (let (ok, d') = common_alloc d in (if ok then Some z else None, d'))"

definition des_new :: "(dstate \<Rightarrow> 'o ptr \<times> dstate) \<Rightarrow> 'o step \<Rightarrow> 'o ptr reader" where
  "des_new create s d =
     (case create d of
        (None, d') \<Rightarrow> Some (-1, None, d')
      | (Some z, d') \<Rightarrow>
          (case s z d' of None \<Rightarrow> None | Some (c, x, d'') \<Rightarrow> Some (c, Some x, d'')))"

text \<open>
  Lists. The writer stores the number of elements in 16 bits and then the elements; the reader
  appends what it has read, and an element that failed is not appended. \<open>des_entry\<close> is the list
  entry that is allocated around an element.
\<close>

definition serialize_list :: "('e \<Rightarrow> bytes) \<Rightarrow> 'e list \<Rightarrow> bytes" where
  "serialize_list ser xs = serialize_u16 (of_nat (length xs)) @ concat (map ser xs)"

fun read_items :: "nat \<Rightarrow> 'v reader \<Rightarrow> dstate \<Rightarrow> (rc \<times> 'v list \<times> dstate) option" where
  "read_items 0 rd d = Some (0, [], d)"
| "read_items (Suc k) rd d =
     (case rd d of
        None \<Rightarrow> None
      | Some (c, v, d') \<Rightarrow>
          if c \<noteq> 0 then Some (c, [], d')
          else (case read_items k rd d' of
                  None \<Rightarrow> None
                | Some (c', vs, d'') \<Rightarrow> Some (c', v # vs, d'')))"

definition des_list :: "'v reader \<Rightarrow> (('v list \<Rightarrow> 'v list) \<Rightarrow> 'o \<Rightarrow> 'o) \<Rightarrow> 'o step" where
  "des_list rd upd x d =
     (case deserialize_obj 2 d of
        None \<Rightarrow> None
      | Some (sz :: u16, d') \<Rightarrow>
          (case read_items (unat sz) rd d' of
             None \<Rightarrow> None
           | Some (c, vs, d'') \<Rightarrow> Some (c, upd (\<lambda>l. l @ vs) x, d'')))"

definition des_entry :: "'v ptr reader \<Rightarrow> 'v ptr reader" where
  "des_entry rd d = (case common_alloc d of (False, d') \<Rightarrow> Some (-1, None, d') | (True, d') \<Rightarrow> rd d')"

section \<open>Strings and buffers\<close>

fun str_chars :: "cstr ptr \<Rightarrow> cstr" where
  "str_chars None = []"
| "str_chars (Some s) = s"

definition string_prlen :: "cstr ptr \<Rightarrow> nat" where
  "string_prlen s = (let slen = length (str_chars s) in if slen > 65535 then 65535 else slen)"

definition serialize_string :: "cstr ptr \<Rightarrow> bytes" where
  "serialize_string s =
     (let slen = string_prlen s in serialize_u16 (of_nat slen) @ take slen (str_chars s))"

definition deserialize_string :: "cstr ptr reader" where
  "deserialize_string d =
     (case deserialize_obj 2 d of
        None \<Rightarrow> None
      | Some (slen :: u16, d1) \<Rightarrow>
          (case common_alloc d1 of
             (False, d2) \<Rightarrow> Some (-1, None, d2)
           | (True, d2) \<Rightarrow>
               (case get_bytes (unat slen) d2 of
                  None \<Rightarrow> None
                | Some (cs, d3) \<Rightarrow> Some (0, Some (takeWhile (\<lambda>c. c \<noteq> 0) cs), d3))))"

definition free_ptr :: "'a ptr \<Rightarrow> nat" where
  "free_ptr p = (case p of None \<Rightarrow> 0 | Some _ \<Rightarrow> 1)"

text \<open>
  A buffer is the list of its bytes, \<^verbatim>\<open>size\<close> of them; the empty one is a buffer without data.
\<close>

definition buffer_prlen :: "bytes ptr \<Rightarrow> nat" where
  "buffer_prlen b = (case b of None \<Rightarrow> 0 | Some bs \<Rightarrow> length bs)"

definition serialize_buffer :: "bytes ptr \<Rightarrow> bytes" where
  "serialize_buffer b =
     (case b of None \<Rightarrow> serialize_u32 0 | Some bs \<Rightarrow> serialize_u32 (of_nat (length bs)) @ bs)"

definition deserialize_buffer :: "bytes ptr reader" where
  "deserialize_buffer d =
     (case deserialize_obj 4 d of
        None \<Rightarrow> None
      | Some (blen :: u32, d1) \<Rightarrow>
          if blen \<noteq> 0
          then (case common_alloc d1 of
                  (False, d2) \<Rightarrow> Some (-1, None, d2)
                | (True, d2) \<Rightarrow>
                    (case common_alloc d2 of
                       (False, d3) \<Rightarrow> Some (-1, Some [], d3)
                     | (True, d3) \<Rightarrow>
                         (case get_bytes (unat blen) d3 of
                            None \<Rightarrow> None
                          | Some (bs, d4) \<Rightarrow> Some (0, Some bs, d4))))
          else Some (0, None, d1))"

definition buffer_destroy :: "bytes ptr \<Rightarrow> nat" where
  "buffer_destroy b = (case b of None \<Rightarrow> 0 | Some bs \<Rightarrow> (if bs = [] then 0 else 1) + 1)"

section \<open>Application names\<close>

record ku_name =
  process_name :: "cstr ptr"
  process_instance :: "cstr ptr"
  entity_name :: "cstr ptr"
  entity_instance :: "cstr ptr"

definition name_zero :: ku_name where
  "name_zero = \<lparr>process_name = None, process_instance = None, entity_name = None,
     entity_instance = None\<rparr>"

definition rina_name_create :: "dstate \<Rightarrow> ku_name ptr \<times> dstate" where
  "rina_name_create = create_obj name_zero"

definition rina_name_serlen :: "ku_name ptr \<Rightarrow> nat" where
  "rina_name_serlen p =
     (let ret = 4 * 2
      in case p of
           None \<Rightarrow> ret
         | Some x \<Rightarrow> ret + string_prlen (process_name x) + string_prlen (process_instance x)
                       + string_prlen (entity_name x) + string_prlen (entity_instance x))"

definition serialize_rina_name :: "ku_name ptr \<Rightarrow> bytes" where
  "serialize_rina_name p =
     (case p of
        None \<Rightarrow> []
      | Some x \<Rightarrow> serialize_string (process_name x) @ serialize_string (process_instance x) @
                  serialize_string (entity_name x) @ serialize_string (entity_instance x))"

definition deserialize_rina_name :: "ku_name ptr reader" where
  "deserialize_rina_name =
     des_new rina_name_create (run_steps
       [des_field deserialize_string process_name_update,
        des_field deserialize_string process_instance_update,
        des_field deserialize_string entity_name_update,
        des_field deserialize_string entity_instance_update])"

definition rina_name_free :: "ku_name ptr \<Rightarrow> nat" where
  "rina_name_free p =
     (case p of
        None \<Rightarrow> 0
      | Some x \<Rightarrow> free_ptr (process_name x) + free_ptr (process_instance x)
                    + free_ptr (entity_name x) + free_ptr (entity_instance x) + 1)"

subsection \<open>Functions on names\<close>

text \<open>
  \<open>strdup\<close> takes the outcome of its allocation. The three characters: \<^verbatim>\<open>|\<close> separates the parts of
  a printed name, \<^verbatim>\<open>:\<close> is what \<^verbatim>\<open>rina_sername_valid\<close> counts.
\<close>

abbreviation (input) BAR :: u8 where "BAR \<equiv> 124"
abbreviation (input) COLON :: u8 where "COLON \<equiv> 58"

fun common_strdup :: "allocs \<Rightarrow> cstr ptr \<Rightarrow> cstr ptr \<times> allocs" where
  "common_strdup ms s = (let (ok, ms') = rkmalloc ms in (if ok then s else None, ms'))"

fun colons_ok :: "nat \<Rightarrow> cstr \<Rightarrow> bool" where
  "colons_ok cnt [] = True"
| "colons_ok cnt (c # cs) =
     (if c = COLON then (if Suc cnt > 3 then False else colons_ok (Suc cnt) cs)
      else colons_ok cnt cs)"

definition rina_sername_valid :: "cstr ptr \<Rightarrow> int" where
  "rina_sername_valid s =
     (case s of
        None \<Rightarrow> 0
      | Some [] \<Rightarrow> 0
      | Some (c # cs) \<Rightarrow>
          if \<not> colons_ok 0 (c # cs) then 0 else if c = COLON then 0 else 1)"

definition rina_name_move :: "ku_name ptr \<Rightarrow> ku_name ptr \<Rightarrow> ku_name ptr \<times> ku_name ptr" where
  "rina_name_move dst src =
     (case (dst, src) of (Some _, Some s) \<Rightarrow> (Some s, Some name_zero) | _ \<Rightarrow> (dst, src))"

text \<open>The fields of a name are copied or filled in their order.\<close>

definition dup_field :: "(cstr ptr \<Rightarrow> bool) \<Rightarrow> allocs \<Rightarrow> cstr ptr \<Rightarrow> cstr ptr \<times> allocs" where
  "dup_field has ms s = (if has s then common_strdup ms s else (None, ms))"

definition dup_fields :: "(cstr ptr \<Rightarrow> bool) \<Rightarrow> allocs \<Rightarrow> cstr ptr \<Rightarrow> cstr ptr \<Rightarrow> cstr ptr \<Rightarrow> cstr ptr
    \<Rightarrow> ku_name \<times> allocs" where
  "dup_fields has ms a b c d =
     (let (a', m1) = dup_field has ms a; (b', m2) = dup_field has m1 b;
          (c', m3) = dup_field has m2 c; (d', m4) = dup_field has m3 d
      in (\<lparr>process_name = a', process_instance = b', entity_name = c', entity_instance = d'\<rparr>, m4))"

definition rina_name_copy :: "allocs \<Rightarrow> ku_name ptr \<Rightarrow> ku_name ptr \<Rightarrow> rc \<times> ku_name ptr" where
  "rina_name_copy ms dst src =
     (case (dst, src) of
        (Some _, Some s) \<Rightarrow>
          (0, Some (fst (dup_fields (\<lambda>p. p \<noteq> None) ms (process_name s) (process_instance s)
                           (entity_name s) (entity_instance s))))
      | _ \<Rightarrow> (0, dst))"

text \<open>
  A part that is missing or empty becomes NULL. When a copy fails, the name is released, so that
  the second result, the number of blocks released, counts the name object as well.
\<close>

definition str_filled :: "cstr ptr \<Rightarrow> bool" where
  "str_filled s \<longleftrightarrow> str_chars s \<noteq> []"

definition rina_name_fill :: "allocs \<Rightarrow> cstr ptr \<Rightarrow> cstr ptr \<Rightarrow> cstr ptr \<Rightarrow> cstr ptr \<Rightarrow> ku_name ptr
    \<Rightarrow> rc \<times> ku_name ptr \<times> nat" where
  "rina_name_fill ms apn api aen aei name =
     (case name of
        None \<Rightarrow> (-1, None, 0)
      | Some _ \<Rightarrow>
          (let n = fst (dup_fields str_filled ms apn api aen aei)
           in if (str_filled apn \<and> process_name n = None) \<or> (str_filled api \<and> process_instance n = None) \<or>
                 (str_filled aen \<and> entity_name n = None) \<or> (str_filled aei \<and> entity_instance n = None)
              then (-1, None, rina_name_free (Some n))
              else (0, Some n, 0)))"

definition rina_name_to_string :: "bool \<Rightarrow> ku_name ptr \<Rightarrow> cstr ptr" where
  "rina_name_to_string ok p =
     (case p of
        None \<Rightarrow> None
      | Some x \<Rightarrow>
          if \<not> ok then None
          else Some (str_chars (process_name x) @ [BAR] @ str_chars (process_instance x) @ [BAR] @
                     str_chars (entity_name x) @ [BAR] @ str_chars (entity_instance x)))"

text \<open>\<^verbatim>\<open>strsep\<close> gives the part before the next separator; behind the last part the rest is NULL.\<close>

fun strsep :: "u8 \<Rightarrow> cstr ptr \<Rightarrow> cstr ptr \<times> cstr ptr" where
  "strsep sep None = (None, None)"
| "strsep sep (Some s) =
     (let tok = takeWhile (\<lambda>c. c \<noteq> sep) s; rest = dropWhile (\<lambda>c. c \<noteq> sep) s
      in (Some tok, if rest = [] then None else Some (tl rest)))"

definition rina_name_from_string :: "allocs \<Rightarrow> cstr \<Rightarrow> rc \<times> ku_name ptr" where
  "rina_name_from_string ms str =
     (let (strc, ms') = common_strdup ms (Some str)
      in if strc = None then (-1, Some name_zero)
         else (let (apn, r1) = strsep BAR strc; (api, r2) = strsep BAR r1;
                   (aen, r3) = strsep BAR r2; (aei, r4) = strsep BAR r3
               in if apn = None then (-1, Some name_zero)
                  else (0, fst (snd (rina_name_fill ms' apn api aen aei (Some name_zero))))))"

definition part_differs :: "cstr ptr \<Rightarrow> cstr ptr \<Rightarrow> bool" where
  "part_differs a b \<longleftrightarrow>
     ((a \<noteq> None) \<noteq> (b \<noteq> None)) \<or> (a \<noteq> None \<and> str_chars a \<noteq> str_chars b)"

definition rina_name_cmp :: "ku_name ptr \<Rightarrow> ku_name ptr \<Rightarrow> int" where
  "rina_name_cmp one two =
     (case (one, two) of
        (Some a, Some b) \<Rightarrow>
          if part_differs (process_name a) (process_name b) then -1
          else if part_differs (process_instance a) (process_instance b) then -1
          else if part_differs (entity_name a) (entity_name b) then -1
          else if part_differs (entity_instance a) (entity_instance b) then -1
          else 0
      | (None, None) \<Rightarrow> 0
      | _ \<Rightarrow> 1)"

definition rina_name_valid :: "ku_name ptr \<Rightarrow> int" where
  "rina_name_valid p =
     (case p of
        None \<Rightarrow> 0
      | Some x \<Rightarrow> if process_name x = None \<or> str_chars (process_name x) = [] then 0 else 1)"

section \<open>Policies\<close>

record ku_policy_parm =
  prm_name :: "cstr ptr"
  prm_value :: "cstr ptr"

record ku_policy =
  pol_name :: "cstr ptr"
  pol_version :: "cstr ptr"
  pol_params :: "ku_policy_parm ptr list"

definition policy_parm_create :: "dstate \<Rightarrow> ku_policy_parm ptr \<times> dstate" where
  "policy_parm_create = create_obj \<lparr>prm_name = None, prm_value = None\<rparr>"

definition policy_parm_serlen :: "ku_policy_parm ptr \<Rightarrow> nat" where
  "policy_parm_serlen p =
     (case p of
        None \<Rightarrow> 0
      | Some x \<Rightarrow> 2 * 2 + string_prlen (prm_name x) + string_prlen (prm_value x))"

definition serialize_policy_parm :: "ku_policy_parm ptr \<Rightarrow> bytes" where
  "serialize_policy_parm p =
     (case p of
        None \<Rightarrow> []
      | Some x \<Rightarrow> serialize_string (prm_name x) @ serialize_string (prm_value x))"

definition deserialize_policy_parm :: "ku_policy_parm step" where
  "deserialize_policy_parm = run_steps
     [des_field deserialize_string prm_name_update,
      des_field deserialize_string prm_value_update]"

definition policy_parm_free :: "ku_policy_parm ptr \<Rightarrow> nat" where
  "policy_parm_free p =
     (case p of None \<Rightarrow> 0 | Some x \<Rightarrow> free_ptr (prm_name x) + free_ptr (prm_value x) + 1)"

definition policy_create :: "dstate \<Rightarrow> ku_policy ptr \<times> dstate" where
  "policy_create = create_obj \<lparr>pol_name = None, pol_version = None, pol_params = []\<rparr>"

definition policy_serlen :: "ku_policy ptr \<Rightarrow> nat" where
  "policy_serlen p =
     (case p of
        None \<Rightarrow> 0
      | Some x \<Rightarrow> 2 * 2 + string_prlen (pol_name x) + string_prlen (pol_version x) + 2
                    + sum_list (map policy_parm_serlen (pol_params x)))"

definition serialize_policy :: "ku_policy ptr \<Rightarrow> bytes" where
  "serialize_policy p =
     (case p of
        None \<Rightarrow> []
      | Some x \<Rightarrow> serialize_string (pol_name x) @ serialize_string (pol_version x) @
                  serialize_list serialize_policy_parm (pol_params x))"

definition deserialize_policy :: "ku_policy step" where
  "deserialize_policy = run_steps
     [des_field deserialize_string pol_name_update,
      des_field deserialize_string pol_version_update,
      des_list (des_new policy_parm_create deserialize_policy_parm) pol_params_update]"

definition policy_free :: "ku_policy ptr \<Rightarrow> nat" where
  "policy_free p =
     (case p of
        None \<Rightarrow> 0
      | Some x \<Rightarrow> free_ptr (pol_name x) + free_ptr (pol_version x)
                    + sum_list (map policy_parm_free (pol_params x)) + 1)"

definition new_policy :: "ku_policy ptr reader" where
  "new_policy = des_new policy_create deserialize_policy"

section \<open>Reading back what was written\<close>

lemma length_le_bytes [simp]: "length (le_bytes k v) = k"
  by (induction k v rule: le_bytes.induct) auto

lemma length_serialize_obj [simp]: "length (serialize_obj k v) = k"
  by (simp add: serialize_obj_def)

lemma of_le_le_bytes: "of_le (le_bytes k v) = take_bit (8 * k) v"
proof (induction k v rule: le_bytes.induct)
  case (2 n v)
  show ?case
    unfolding le_bytes.simps of_le.simps 2
    by (rule bit_word_eqI)
      (auto simp: bit_simps bit_ucast_iff not_le less_diff_conv2 dest: bit_imp_le_length)
qed simp

lemma deserialize_serialize_obj:
  fixes v :: "'a::len word"
  assumes "LENGTH('a) \<le> 8 * k"
  shows "deserialize_obj k (serialize_obj k v @ rest, ms, n) = Some (v, rest, ms, n)"
proof -
  have "take_bit (8 * k) v = v"
    using assms by (rule take_bit_word_eq_self)
  then show ?thesis
    by (simp add: deserialize_obj_def serialize_obj_def of_le_le_bytes)
qed

lemmas deserialize_obj_simps [simp] =
  deserialize_serialize_obj [where 'a = 8 and k = 1, simplified]
  deserialize_serialize_obj [where 'a = 16 and k = 2, simplified]
  deserialize_serialize_obj [where 'a = 32 and k = 4, simplified]
  deserialize_serialize_obj [where 'a = 64 and k = 8, simplified]

lemma des_obj_simps [simp]:
  "des_u8 upd8 x (serialize_u8 v8 @ rest, ms, n) = Some (0, upd8 (\<lambda>_. v8) x, rest, ms, n)"
  "des_u16 upd16 x (serialize_u16 v16 @ rest, ms, n) = Some (0, upd16 (\<lambda>_. v16) x, rest, ms, n)"
  "des_u32 upd32 x (serialize_u32 v32 @ rest, ms, n) = Some (0, upd32 (\<lambda>_. v32) x, rest, ms, n)"
  "des_u64 upd64 x (serialize_u64 v64 @ rest, ms, n) = Some (0, upd64 (\<lambda>_. v64) x, rest, ms, n)"
  by (simp_all add: des_obj_def)

lemma des_bool_simp [simp]:
  "des_bool upd x (serialize_bool b @ rest, ms, n) = Some (0, upd (\<lambda>_. b) x, rest, ms, n)"
  by (simp add: des_bool_def serialize_bool_def)

lemma length_serialize_bool [simp]: "length (serialize_bool b) = 1"
  by (simp add: serialize_bool_def)

subsection \<open>The contract of a codec\<close>

text \<open>
  What the writer, the size function, the reader and the release function of a kind of object
  promise to each other: for every object that is \<open>ok\<close> the writer writes as many bytes as the
  size function says, and the reader, given those bytes and memory, succeeds, consumes exactly
  them, produces the object \<open>recv x\<close> and allocates as many blocks as its release will free.
\<close>

locale codec =
  fixes ser :: "'a \<Rightarrow> bytes"
    and serlen :: "'a \<Rightarrow> nat"
    and rd :: "'b reader"
    and blocks :: "'b \<Rightarrow> nat"
    and ok :: "'a \<Rightarrow> bool"
    and recv :: "'a \<Rightarrow> 'b"
  assumes ser_len: "ok x \<Longrightarrow> length (ser x) = serlen x"
    and rd_ser: "ok x \<Longrightarrow> rd (ser x @ rest, [], n) = Some (0, recv x, rest, [], n + blocks (recv x))"
begin

lemma field: "ok x \<Longrightarrow>
    des_field rd upd obj (ser x @ rest, [], n) =
      Some (0, upd (\<lambda>_. recv x) obj, rest, [], n + blocks (recv x))"
  by (simp add: des_field_def rd_ser)

lemma items: "\<forall>x\<in>set xs. ok x \<Longrightarrow>
    read_items (length xs) rd (concat (map ser xs) @ rest, [], n) =
      Some (0, map recv xs, rest, [], n + sum_list (map (\<lambda>x. blocks (recv x)) xs))"
  by (induction xs arbitrary: n) (simp_all add: rd_ser add.assoc)

lemma items_len: "\<forall>x\<in>set xs. ok x \<Longrightarrow> length (concat (map ser xs)) = sum_list (map serlen xs)"
  by (induction xs) (simp_all add: ser_len)

lemma counted: "\<forall>x\<in>set xs. ok x \<Longrightarrow> length xs < 65536 \<Longrightarrow>
    des_list rd upd obj (serialize_list ser xs @ rest, [], n) =
      Some (0, upd (\<lambda>l. l @ map recv xs) obj, rest, [],
            n + sum_list (map (\<lambda>x. blocks (recv x)) xs))"
  by (simp add: des_list_def serialize_list_def items unat_of_nat take_bit_eq_mod
      take_bit_nat_def)

lemma counted_len: "\<forall>x\<in>set xs. ok x \<Longrightarrow>
    length (serialize_list ser xs) = 2 + sum_list (map serlen xs)"
  unfolding serialize_list_def by (simp add: items_len del: length_concat)

lemmas laws = ser_len rd_ser field counted counted_len

end

text \<open>The entry allocated around an element is one block more.\<close>

lemma entry_codec:
  assumes "codec ser serlen rd blocks ok recv"
  shows "codec ser serlen (des_entry rd) (\<lambda>e. Suc (blocks e)) ok recv"
  using assms by (auto simp: codec_def des_entry_def)

lemma ignore_codec:
  assumes "codec ser serlen (des_new create s) blocks ok recv"
  shows "codec ser serlen (des_new create (des_ignore s)) blocks ok recv"
proof -
  have "des_new create (des_ignore s) d = Some (0, x, d')" if "des_new create s d = Some (0, x, d')"
    for d x d'
    using that by (auto simp: des_new_def des_ignore_def split: prod.splits option.splits)
  with assms show ?thesis by (auto simp: codec_def)
qed

subsection \<open>Strings, buffers and names\<close>

definition str_ok :: "cstr ptr \<Rightarrow> bool" where
  "str_ok s \<longleftrightarrow> 0 \<notin> set (str_chars s)"

definition str_recv :: "cstr ptr \<Rightarrow> cstr ptr" where
  "str_recv s = Some (take 65535 (str_chars s))"

lemma string_prlen_alt: "string_prlen s = min (length (str_chars s)) 65535"
  by (simp add: string_prlen_def Let_def)

interpretation str: codec serialize_string "\<lambda>s. 2 + string_prlen s" deserialize_string free_ptr
  str_ok str_recv
proof
  fix s rest n
  show "length (serialize_string s) = 2 + string_prlen s"
    by (simp add: serialize_string_def string_prlen_alt Let_def)
  assume "str_ok s"
  then have "\<forall>c\<in>set (take k (str_chars s)). c \<noteq> 0" for k
    by (auto simp: str_ok_def dest: in_set_takeD)
  then have tw: "takeWhile (\<lambda>c. c \<noteq> 0) (take k (str_chars s)) = take k (str_chars s)" for k
    by (simp add: takeWhile_eq_all_conv)
  have le: "string_prlen s \<le> length (str_chars s)" "string_prlen s < 65536"
    by (simp_all add: string_prlen_alt)
  have len: "unat (of_nat (string_prlen s) :: u16) = string_prlen s"
    using le(2) by (simp add: unat_of_nat take_bit_eq_mod)
  have "take (string_prlen s) (str_chars s) = take 65535 (str_chars s)"
    by (simp add: string_prlen_alt min_def)
  then have recv: "str_recv s = Some (take (string_prlen s) (str_chars s))"
    by (simp add: str_recv_def)
  show "deserialize_string (serialize_string s @ rest, [], n) =
      Some (0, str_recv s, rest, [], n + free_ptr (str_recv s))"
    unfolding recv serialize_string_def deserialize_string_def Let_def free_ptr_def
    using tw len le(1) by simp
qed

definition buf_ok :: "bytes ptr \<Rightarrow> bool" where
  "buf_ok b \<longleftrightarrow> buffer_prlen b < 2 ^ 32"

definition buf_recv :: "bytes ptr \<Rightarrow> bytes ptr" where
  "buf_recv b = (if b = Some [] then None else b)"

interpretation buf: codec serialize_buffer "\<lambda>b. 4 + buffer_prlen b" deserialize_buffer
  buffer_destroy buf_ok buf_recv
proof
  fix b rest n
  show "length (serialize_buffer b) = 4 + buffer_prlen b"
    by (simp add: serialize_buffer_def buffer_prlen_def split: option.splits)
  assume ok: "buf_ok b"
  show "deserialize_buffer (serialize_buffer b @ rest, [], n) =
      Some (0, buf_recv b, rest, [], n + buffer_destroy (buf_recv b))"
  proof (cases b)
    case None
    then show ?thesis
      by (simp add: serialize_buffer_def deserialize_buffer_def buf_recv_def buffer_destroy_def)
  next
    case (Some bs)
    define k where "k = (of_nat (length bs) :: u32)"
    from Some ok have k: "unat k = length bs"
      by (simp add: k_def buf_ok_def buffer_prlen_def unat_of_nat take_bit_eq_mod)
    have "k = 0 \<longleftrightarrow> bs = []"
      using k by (metis length_0_conv unat_eq_0)
    with Some k show ?thesis
      by (auto simp: serialize_buffer_def deserialize_buffer_def buf_recv_def buffer_destroy_def
          k_def [symmetric])
  qed
qed

definition name_ok :: "ku_name ptr \<Rightarrow> bool" where
  "name_ok p \<longleftrightarrow>
     (case p of
        None \<Rightarrow> False
      | Some x \<Rightarrow> str_ok (process_name x) \<and> str_ok (process_instance x) \<and>
                  str_ok (entity_name x) \<and> str_ok (entity_instance x))"

definition name_recv :: "ku_name ptr \<Rightarrow> ku_name ptr" where
  "name_recv = map_option (\<lambda>x. \<lparr>process_name = str_recv (process_name x),
     process_instance = str_recv (process_instance x), entity_name = str_recv (entity_name x),
     entity_instance = str_recv (entity_instance x)\<rparr>)"

lemma free_str_recv [simp]: "free_ptr (str_recv s) = 1"
  by (simp add: free_ptr_def str_recv_def)

lemmas serdes_prim [simp] = str.field str.counted str.ser_len buf.field buf.ser_len

lemma des_new_create:
  "des_new (create_obj z) s (bs, [], n) =
     (case s z (bs, [], Suc n) of None \<Rightarrow> None | Some (c, x, d) \<Rightarrow> Some (c, Some x, d))"
  by (simp add: des_new_def create_obj_def)

lemmas des_simps = des_new_def create_obj_def des_when_def

interpretation name: codec serialize_rina_name rina_name_serlen deserialize_rina_name
  rina_name_free name_ok name_recv
  by unfold_locales
    (auto simp: name_ok_def serialize_rina_name_def rina_name_serlen_def deserialize_rina_name_def
      rina_name_free_def name_recv_def rina_name_create_def name_zero_def des_simps
      split: option.splits)

subsection \<open>Policies\<close>

definition parm_ok :: "ku_policy_parm ptr \<Rightarrow> bool" where
  "parm_ok p \<longleftrightarrow> (case p of None \<Rightarrow> False | Some x \<Rightarrow> str_ok (prm_name x) \<and> str_ok (prm_value x))"

definition parm_recv :: "ku_policy_parm ptr \<Rightarrow> ku_policy_parm ptr" where
  "parm_recv =
     map_option (\<lambda>x. \<lparr>prm_name = str_recv (prm_name x), prm_value = str_recv (prm_value x)\<rparr>)"

interpretation parm: codec serialize_policy_parm policy_parm_serlen
  "des_new policy_parm_create deserialize_policy_parm" policy_parm_free parm_ok parm_recv
  by unfold_locales
    (auto simp: parm_ok_def serialize_policy_parm_def policy_parm_serlen_def des_simps
      deserialize_policy_parm_def policy_parm_free_def parm_recv_def policy_parm_create_def
      split: option.splits)

definition policy_ok :: "ku_policy ptr \<Rightarrow> bool" where
  "policy_ok p \<longleftrightarrow>
     (case p of
        None \<Rightarrow> False
      | Some x \<Rightarrow> str_ok (pol_name x) \<and> str_ok (pol_version x) \<and>
                  list_all parm_ok (pol_params x) \<and> length (pol_params x) < 65536)"

definition policy_recv :: "ku_policy ptr \<Rightarrow> ku_policy ptr" where
  "policy_recv =
     map_option (\<lambda>x. \<lparr>pol_name = str_recv (pol_name x), pol_version = str_recv (pol_version x),
       pol_params = map parm_recv (pol_params x)\<rparr>)"

interpretation policy: codec serialize_policy policy_serlen new_policy policy_free policy_ok
  policy_recv
  by unfold_locales
    (auto simp: policy_ok_def serialize_policy_def policy_serlen_def des_simps new_policy_def
      deserialize_policy_def policy_free_def policy_recv_def policy_create_def list_all_iff
      parm.counted parm.counted_len comp_def
      split: option.splits)

lemmas policy_laws [simp] = policy.field policy.ser_len

section \<open>Properties\<close>

definition strip_part :: "cstr ptr \<Rightarrow> cstr ptr" where
  "strip_part s = (if str_filled s then s else None)"

definition name_strip :: "ku_name \<Rightarrow> ku_name" where
  "name_strip x = \<lparr>process_name = strip_part (process_name x),
     process_instance = strip_part (process_instance x), entity_name = strip_part (entity_name x),
     entity_instance = strip_part (entity_instance x)\<rparr>"

lemma strsep_bar:
  "BAR \<notin> set a \<Longrightarrow> strsep BAR (Some (a @ BAR # r)) = (Some a, Some r)"
  "BAR \<notin> set a \<Longrightarrow> strsep BAR (Some a) = (Some a, None)"
proof -
  assume a: "BAR \<notin> set a"
  then have "takeWhile (\<lambda>c. c \<noteq> BAR) (a @ BAR # r) = a" "dropWhile (\<lambda>c. c \<noteq> BAR) (a @ BAR # r) = BAR # r"
    by (induction a) auto
  then show "strsep BAR (Some (a @ BAR # r)) = (Some a, Some r)" by (simp add: Let_def)
  from a have "takeWhile (\<lambda>c. c \<noteq> BAR) a = a" "dropWhile (\<lambda>c. c \<noteq> BAR) a = []"
    by (induction a) auto
  then show "strsep BAR (Some a) = (Some a, None)" by (simp add: Let_def)
qed

lemma dup_part: "dup_field str_filled [] (Some (str_chars s)) = (strip_part s, [])"
  by (cases s) (auto simp: dup_field_def str_filled_def strip_part_def)

text \<open>
  C33. Round trip of printed names: a name whose parts contain no \<^verbatim>\<open>|\<close> is printed, and parsing the
  string gives a name with the same parts; a part that is missing or empty becomes NULL.
\<close>

theorem name_string_roundtrip:
  assumes "BAR \<notin> set (str_chars (process_name x))" "BAR \<notin> set (str_chars (process_instance x))"
    "BAR \<notin> set (str_chars (entity_name x))" "BAR \<notin> set (str_chars (entity_instance x))"
  shows "\<exists>s. rina_name_to_string True (Some x) = Some s \<and>
    rina_name_from_string [] s = (0, Some (name_strip x))"
proof -
  have "\<not> (str_filled (Some (str_chars s)) \<and> strip_part s = None)" for s
    by (cases s) (auto simp: strip_part_def str_filled_def)
  then show ?thesis
    using strsep_bar [OF assms(1)] strsep_bar [OF assms(2)] strsep_bar [OF assms(3)]
      strsep_bar [OF assms(4)]
    by (simp add: rina_name_to_string_def rina_name_from_string_def rina_name_fill_def
        dup_fields_def dup_part name_strip_def Let_def del: strsep.simps not_None_eq)
qed

theorem name_string_roundtrip_witness:
  "\<exists>s. rina_name_to_string True (Some (name_zero\<lparr>process_name := Some [97, 98], entity_name := Some []\<rparr>)) =
      Some s \<and>
    rina_name_from_string [] s = (0, Some (name_zero\<lparr>process_name := Some [97, 98]\<rparr>))"
  using name_string_roundtrip [of "name_zero\<lparr>process_name := Some [97, 98], entity_name := Some []\<rparr>"]
  by (simp add: name_zero_def name_strip_def strip_part_def str_filled_def)

section \<open>Where the code goes wrong\<close>

text \<open>
  The validity check of a printed name counts \<^verbatim>\<open>:\<close>, the character that separated the parts once: a
  name with more than three of them in its parts is printed and parsed but not valid.
\<close>

lemma sername_counts_colons:
  "rina_sername_valid (Some [97, 58, 58, 58, 58]) = 0"
  "rina_sername_valid (Some [97, 124, 124, 124, 124, 124]) = 1"
  by (simp_all add: rina_sername_valid_def)

text \<open>Without memory for a part the name is released, and parsing answers 0 all the same.\<close>

lemma from_string_dangling:
  "rina_name_from_string [True, False] [97] = (0, None)"
  by (simp add: rina_name_from_string_def rina_name_fill_def dup_fields_def dup_field_def
      str_filled_def)

end
