(* ===== verification/Serdes_Flow.thy ===== *)
theory Serdes_Flow
  imports Serdes
begin

text \<open>
  The codec of flow specifications and of the connection configurations of
  \<^verbatim>\<open>common/serdes-utils.c\<close>: DTP, window and rate based flow control, retransmission control, DTCP.
  Every structure of \<^verbatim>\<open>include/irati/kucommon.h\<close> is a record with its fields in their order, and has
  its creation, size, writing, reading and release functions; the second half shows that each of
  them keeps the contract of a codec.
\<close>

section \<open>Structures and their functions\<close>

record ku_flow_spec =
  fs_average_bandwidth :: u32
  fs_average_sdu_bandwidth :: u32
  fs_delay :: u32
  fs_jitter :: u32
  fs_loss :: u16
  fs_max_allowable_gap :: u32
  fs_max_sdu_size :: u32
  fs_ordered_delivery :: bool
  fs_partial_delivery :: bool
  fs_peak_bandwidth_duration :: u32
  fs_peak_sdu_bandwidth_duration :: u32
  fs_undetected_bit_error_rate :: u32
  fs_msg_boundaries :: bool

definition rina_fspec_create :: "dstate \<Rightarrow> ku_flow_spec ptr \<times> dstate" where
  "rina_fspec_create = create_obj \<lparr>fs_average_bandwidth = 0, fs_average_sdu_bandwidth = 0,
    fs_delay = 0, fs_jitter = 0, fs_loss = 0, fs_max_allowable_gap = 0, fs_max_sdu_size = 0,
    fs_ordered_delivery = False, fs_partial_delivery = False, fs_peak_bandwidth_duration = 0,
    fs_peak_sdu_bandwidth_duration = 0, fs_undetected_bit_error_rate = 0,
    fs_msg_boundaries = False\<rparr>"

definition flow_spec_serlen :: "ku_flow_spec ptr \<Rightarrow> nat" where
  "flow_spec_serlen p =
     (case p of
        None \<Rightarrow> 0
      | Some x \<Rightarrow> 8 * 4 + 4 + 2 + 3 * 1)"

definition serialize_flow_spec :: "ku_flow_spec ptr \<Rightarrow> bytes" where
  "serialize_flow_spec p =
     (case p of
        None \<Rightarrow> []
      | Some x \<Rightarrow> serialize_u32 (fs_average_bandwidth x) @
               serialize_u32 (fs_average_sdu_bandwidth x) @ serialize_u32 (fs_delay x) @
               serialize_u32 (fs_jitter x) @ serialize_u16 (fs_loss x) @
               serialize_u32 (fs_max_allowable_gap x) @ serialize_u32 (fs_max_sdu_size x) @
               serialize_bool (fs_ordered_delivery x) @ serialize_bool (fs_partial_delivery x) @
               serialize_u32 (fs_peak_bandwidth_duration x) @
               serialize_u32 (fs_peak_sdu_bandwidth_duration x) @
               serialize_u32 (fs_undetected_bit_error_rate x) @
               serialize_bool (fs_msg_boundaries x))"

definition deserialize_flow_spec :: "ku_flow_spec ptr reader" where
  "deserialize_flow_spec = des_new rina_fspec_create (run_steps
     [des_u32 fs_average_bandwidth_update, des_u32 fs_average_sdu_bandwidth_update,
      des_u32 fs_delay_update, des_u32 fs_jitter_update, des_u16 fs_loss_update,
      des_u32 fs_max_allowable_gap_update, des_u32 fs_max_sdu_size_update,
      des_bool fs_ordered_delivery_update, des_bool fs_partial_delivery_update,
      des_u32 fs_peak_bandwidth_duration_update, des_u32 fs_peak_sdu_bandwidth_duration_update,
      des_u32 fs_undetected_bit_error_rate_update, des_bool fs_msg_boundaries_update])"

definition flow_spec_free :: "ku_flow_spec ptr \<Rightarrow> nat" where
  "flow_spec_free p =
     (case p of
        None \<Rightarrow> 0
      | Some x \<Rightarrow> 1)"

record ku_dtp_config =
  dtpc_dtcp_present :: bool
  dtpc_seq_num_ro_th :: u32
  dtpc_initial_a_timer :: u32
  dtpc_partial_delivery :: bool
  dtpc_incomplete_delivery :: bool
  dtpc_in_order_delivery :: bool
  dtpc_max_sdu_gap :: u32
  dtpc_dtp_ps :: "ku_policy ptr"

definition dtp_config_create :: "dstate \<Rightarrow> ku_dtp_config ptr \<times> dstate" where
  "dtp_config_create = create_obj \<lparr>dtpc_dtcp_present = False, dtpc_seq_num_ro_th = 0,
    dtpc_initial_a_timer = 0, dtpc_partial_delivery = False, dtpc_incomplete_delivery = False,
    dtpc_in_order_delivery = False, dtpc_max_sdu_gap = 0, dtpc_dtp_ps = None\<rparr>"

definition dtp_config_serlen :: "ku_dtp_config ptr \<Rightarrow> nat" where
  "dtp_config_serlen p =
     (case p of
        None \<Rightarrow> 0
      | Some x \<Rightarrow> 4 * 1 + 4 + 4 + 4 + policy_serlen (dtpc_dtp_ps x))"

definition serialize_dtp_config :: "ku_dtp_config ptr \<Rightarrow> bytes" where
  "serialize_dtp_config p =
     (case p of
        None \<Rightarrow> []
      | Some x \<Rightarrow> serialize_bool (dtpc_dtcp_present x) @ serialize_u32 (dtpc_seq_num_ro_th x) @
               serialize_u32 (dtpc_initial_a_timer x) @
               serialize_bool (dtpc_partial_delivery x) @
               serialize_bool (dtpc_incomplete_delivery x) @
               serialize_bool (dtpc_in_order_delivery x) @ serialize_u32 (dtpc_max_sdu_gap x) @
               serialize_policy (dtpc_dtp_ps x))"

definition deserialize_dtp_config :: "ku_dtp_config ptr reader" where
  "deserialize_dtp_config = des_new dtp_config_create (run_steps
     [des_bool dtpc_dtcp_present_update, des_u32 dtpc_seq_num_ro_th_update,
      des_u32 dtpc_initial_a_timer_update, des_bool dtpc_partial_delivery_update,
      des_bool dtpc_incomplete_delivery_update, des_bool dtpc_in_order_delivery_update,
      des_u32 dtpc_max_sdu_gap_update, des_field new_policy dtpc_dtp_ps_update])"

definition dtp_config_free :: "ku_dtp_config ptr \<Rightarrow> nat" where
  "dtp_config_free p =
     (case p of
        None \<Rightarrow> 0
      | Some x \<Rightarrow> policy_free (dtpc_dtp_ps x) + 1)"

record ku_window_fctrl_config =
  wfc_max_closed_winq_length :: u32
  wfc_initial_credit :: u32
  wfc_rcvr_flow_control :: "ku_policy ptr"
  wfc_tx_control :: "ku_policy ptr"

definition window_fctrl_config_create :: "dstate \<Rightarrow> ku_window_fctrl_config ptr \<times> dstate" where
  "window_fctrl_config_create = create_obj \<lparr>wfc_max_closed_winq_length = 0,
    wfc_initial_credit = 0, wfc_rcvr_flow_control = None, wfc_tx_control = None\<rparr>"

definition window_fctrl_config_serlen :: "ku_window_fctrl_config ptr \<Rightarrow> nat" where
  "window_fctrl_config_serlen p =
     (case p of
        None \<Rightarrow> 0
      | Some x \<Rightarrow> 2 * 4 + policy_serlen (wfc_rcvr_flow_control x) +
               policy_serlen (wfc_tx_control x))"

definition serialize_window_fctrl_config :: "ku_window_fctrl_config ptr \<Rightarrow> bytes" where
  "serialize_window_fctrl_config p =
     (case p of
        None \<Rightarrow> []
      | Some x \<Rightarrow> serialize_u32 (wfc_initial_credit x) @
               serialize_u32 (wfc_max_closed_winq_length x) @
               serialize_policy (wfc_rcvr_flow_control x) @
               serialize_policy (wfc_tx_control x))"

definition deserialize_window_fctrl_config :: "ku_window_fctrl_config step" where
  "deserialize_window_fctrl_config = run_steps
     [des_u32 wfc_initial_credit_update, des_u32 wfc_max_closed_winq_length_update,
      des_field new_policy wfc_rcvr_flow_control_update,
      des_field new_policy wfc_tx_control_update]"

definition window_fctrl_config_free :: "ku_window_fctrl_config ptr \<Rightarrow> nat" where
  "window_fctrl_config_free p =
     (case p of
        None \<Rightarrow> 0
      | Some x \<Rightarrow> policy_free (wfc_rcvr_flow_control x) + policy_free (wfc_tx_control x) + 1)"

record ku_rate_fctrl_config =
  rfc_sending_rate :: u32
  rfc_time_period :: u32
  rfc_no_rate_slow_down :: "ku_policy ptr"
  rfc_no_override_default_peak :: "ku_policy ptr"
  rfc_rate_reduction :: "ku_policy ptr"

definition rate_fctrl_config_create :: "dstate \<Rightarrow> ku_rate_fctrl_config ptr \<times> dstate" where
  "rate_fctrl_config_create = create_obj \<lparr>rfc_sending_rate = 0, rfc_time_period = 0,
    rfc_no_rate_slow_down = None, rfc_no_override_default_peak = None,
    rfc_rate_reduction = None\<rparr>"

definition rate_fctrl_config_serlen :: "ku_rate_fctrl_config ptr \<Rightarrow> nat" where
  "rate_fctrl_config_serlen p =
     (case p of
        None \<Rightarrow> 0
      | Some x \<Rightarrow> 2 * 4 + policy_serlen (rfc_rate_reduction x) +
               policy_serlen (rfc_no_rate_slow_down x) +
               policy_serlen (rfc_no_override_default_peak x))"

definition serialize_rate_fctrl_config :: "ku_rate_fctrl_config ptr \<Rightarrow> bytes" where
  "serialize_rate_fctrl_config p =
     (case p of
        None \<Rightarrow> []
      | Some x \<Rightarrow> serialize_u32 (rfc_sending_rate x) @ serialize_u32 (rfc_time_period x) @
               serialize_policy (rfc_no_override_default_peak x) @
               serialize_policy (rfc_no_rate_slow_down x) @
               serialize_policy (rfc_rate_reduction x))"

definition deserialize_rate_fctrl_config :: "ku_rate_fctrl_config step" where
  "deserialize_rate_fctrl_config = run_steps
     [des_u32 rfc_sending_rate_update, des_u32 rfc_time_period_update,
      des_field new_policy rfc_no_override_default_peak_update,
      des_field new_policy rfc_no_rate_slow_down_update,
      des_field new_policy rfc_rate_reduction_update]"

definition rate_fctrl_config_free :: "ku_rate_fctrl_config ptr \<Rightarrow> nat" where
  "rate_fctrl_config_free p =
     (case p of
        None \<Rightarrow> 0
      | Some x \<Rightarrow> policy_free (rfc_no_override_default_peak x) +
               policy_free (rfc_no_rate_slow_down x) + policy_free (rfc_rate_reduction x) + 1)"

text \<open>
  The four policies of the flow control configuration are read in another order than the one they
  are written in.
\<close>

record ku_dtcp_fctrl_config =
  dfc_window_based_fctrl :: bool
  dfc_wfctrl_cfg :: "ku_window_fctrl_config ptr"
  dfc_rate_based_fctrl :: bool
  dfc_rfctrl_cfg :: "ku_rate_fctrl_config ptr"
  dfc_sent_bytes_th :: u32
  dfc_sent_bytes_percent_th :: u32
  dfc_sent_buffers_th :: u32
  dfc_rcvd_bytes_th :: u32
  dfc_rcvd_bytes_percent_th :: u32
  dfc_rcvd_buffers_th :: u32
  dfc_closed_window :: "ku_policy ptr"
  dfc_reconcile_flow_conflict :: "ku_policy ptr"
  dfc_receiving_flow_control :: "ku_policy ptr"
  dfc_flow_control_overrun :: "ku_policy ptr"

definition dtcp_fctrl_config_create :: "dstate \<Rightarrow> ku_dtcp_fctrl_config ptr \<times> dstate" where
  "dtcp_fctrl_config_create = create_obj \<lparr>dfc_window_based_fctrl = False, dfc_wfctrl_cfg = None,
    dfc_rate_based_fctrl = False, dfc_rfctrl_cfg = None, dfc_sent_bytes_th = 0,
    dfc_sent_bytes_percent_th = 0, dfc_sent_buffers_th = 0, dfc_rcvd_bytes_th = 0,
    dfc_rcvd_bytes_percent_th = 0, dfc_rcvd_buffers_th = 0, dfc_closed_window = None,
    dfc_reconcile_flow_conflict = None, dfc_receiving_flow_control = None,
    dfc_flow_control_overrun = None\<rparr>"

definition dtcp_fctrl_config_serlen :: "ku_dtcp_fctrl_config ptr \<Rightarrow> nat" where
  "dtcp_fctrl_config_serlen p =
     (case p of
        None \<Rightarrow> 0
      | Some x \<Rightarrow>
          6 * 4 + 2 * 1 + policy_serlen (dfc_closed_window x)
            + policy_serlen (dfc_receiving_flow_control x)
            + policy_serlen (dfc_reconcile_flow_conflict x)
            + policy_serlen (dfc_flow_control_overrun x)
            + (if dfc_window_based_fctrl x then window_fctrl_config_serlen (dfc_wfctrl_cfg x) else 0)
            + (if dfc_rate_based_fctrl x then rate_fctrl_config_serlen (dfc_rfctrl_cfg x) else 0))"

definition serialize_dtcp_fctrl_config :: "ku_dtcp_fctrl_config ptr \<Rightarrow> bytes" where
  "serialize_dtcp_fctrl_config p =
     (case p of
        None \<Rightarrow> []
      | Some x \<Rightarrow>
          serialize_u32 (dfc_rcvd_buffers_th x) @ serialize_u32 (dfc_rcvd_bytes_percent_th x) @
          serialize_u32 (dfc_rcvd_bytes_th x) @ serialize_u32 (dfc_sent_buffers_th x) @
          serialize_u32 (dfc_sent_bytes_percent_th x) @ serialize_u32 (dfc_sent_bytes_th x) @
          serialize_bool (dfc_window_based_fctrl x) @ serialize_bool (dfc_rate_based_fctrl x) @
          serialize_policy (dfc_closed_window x) @ serialize_policy (dfc_receiving_flow_control x) @
          serialize_policy (dfc_reconcile_flow_conflict x) @
          serialize_policy (dfc_flow_control_overrun x) @
          (if dfc_window_based_fctrl x then serialize_window_fctrl_config (dfc_wfctrl_cfg x) else []) @
          (if dfc_rate_based_fctrl x then serialize_rate_fctrl_config (dfc_rfctrl_cfg x) else []))"

definition deserialize_dtcp_fctrl_config :: "ku_dtcp_fctrl_config step" where
  "deserialize_dtcp_fctrl_config = run_steps
     [des_u32 dfc_rcvd_buffers_th_update, des_u32 dfc_rcvd_bytes_percent_th_update,
      des_u32 dfc_rcvd_bytes_th_update, des_u32 dfc_sent_buffers_th_update,
      des_u32 dfc_sent_bytes_percent_th_update, des_u32 dfc_sent_bytes_th_update,
      des_bool dfc_window_based_fctrl_update, des_bool dfc_rate_based_fctrl_update,
      des_field new_policy dfc_closed_window_update,
      des_field new_policy dfc_flow_control_overrun_update,
      des_field new_policy dfc_receiving_flow_control_update,
      des_field new_policy dfc_reconcile_flow_conflict_update,
      des_when dfc_window_based_fctrl
        (des_field (des_new window_fctrl_config_create deserialize_window_fctrl_config)
           dfc_wfctrl_cfg_update),
      des_when dfc_rate_based_fctrl
        (des_field (des_new rate_fctrl_config_create deserialize_rate_fctrl_config)
           dfc_rfctrl_cfg_update)]"

definition dtcp_fctrl_config_free :: "ku_dtcp_fctrl_config ptr \<Rightarrow> nat" where
  "dtcp_fctrl_config_free p =
     (case p of
        None \<Rightarrow> 0
      | Some x \<Rightarrow>
          policy_free (dfc_closed_window x) + policy_free (dfc_receiving_flow_control x) +
          policy_free (dfc_reconcile_flow_conflict x) + policy_free (dfc_flow_control_overrun x) +
          window_fctrl_config_free (dfc_wfctrl_cfg x) + rate_fctrl_config_free (dfc_rfctrl_cfg x) + 1)"

record ku_dtcp_rxctrl_config =
  rxfc_max_time_retry :: u32
  rxfc_data_retransmit_max :: u32
  rxfc_initial_tr :: u32
  rxfc_retransmission_timer_expiry :: "ku_policy ptr"
  rxfc_sender_ack :: "ku_policy ptr"
  rxfc_receiving_ack_list :: "ku_policy ptr"
  rxfc_rcvr_ack :: "ku_policy ptr"
  rxfc_sending_ack :: "ku_policy ptr"
  rxfc_rcvr_control_ack :: "ku_policy ptr"

definition dtcp_rxctrl_config_create :: "dstate \<Rightarrow> ku_dtcp_rxctrl_config ptr \<times> dstate" where
  "dtcp_rxctrl_config_create = create_obj \<lparr>rxfc_max_time_retry = 0, rxfc_data_retransmit_max = 0,
    rxfc_initial_tr = 0, rxfc_retransmission_timer_expiry = None, rxfc_sender_ack = None,
    rxfc_receiving_ack_list = None, rxfc_rcvr_ack = None, rxfc_sending_ack = None,
    rxfc_rcvr_control_ack = None\<rparr>"

definition dtcp_rxctrl_config_serlen :: "ku_dtcp_rxctrl_config ptr \<Rightarrow> nat" where
  "dtcp_rxctrl_config_serlen p =
     (case p of
        None \<Rightarrow> 0
      | Some x \<Rightarrow> 3 * 4 + policy_serlen (rxfc_rcvr_ack x) +
               policy_serlen (rxfc_rcvr_control_ack x) +
               policy_serlen (rxfc_receiving_ack_list x) +
               policy_serlen (rxfc_retransmission_timer_expiry x) +
               policy_serlen (rxfc_sender_ack x) + policy_serlen (rxfc_sending_ack x))"

definition serialize_dtcp_rxctrl_config :: "ku_dtcp_rxctrl_config ptr \<Rightarrow> bytes" where
  "serialize_dtcp_rxctrl_config p =
     (case p of
        None \<Rightarrow> []
      | Some x \<Rightarrow> serialize_u32 (rxfc_data_retransmit_max x) @
               serialize_u32 (rxfc_initial_tr x) @ serialize_u32 (rxfc_max_time_retry x) @
               serialize_policy (rxfc_rcvr_ack x) @ serialize_policy (rxfc_rcvr_control_ack x) @
               serialize_policy (rxfc_receiving_ack_list x) @
               serialize_policy (rxfc_retransmission_timer_expiry x) @
               serialize_policy (rxfc_sender_ack x) @ serialize_policy (rxfc_sending_ack x))"

definition deserialize_dtcp_rxctrl_config :: "ku_dtcp_rxctrl_config step" where
  "deserialize_dtcp_rxctrl_config = run_steps
     [des_u32 rxfc_data_retransmit_max_update, des_u32 rxfc_initial_tr_update,
      des_u32 rxfc_max_time_retry_update, des_field new_policy rxfc_rcvr_ack_update,
      des_field new_policy rxfc_rcvr_control_ack_update,
      des_field new_policy rxfc_receiving_ack_list_update,
      des_field new_policy rxfc_retransmission_timer_expiry_update,
      des_field new_policy rxfc_sender_ack_update, des_field new_policy rxfc_sending_ack_update]"

definition dtcp_rxctrl_config_free :: "ku_dtcp_rxctrl_config ptr \<Rightarrow> nat" where
  "dtcp_rxctrl_config_free p =
     (case p of
        None \<Rightarrow> 0
      | Some x \<Rightarrow> policy_free (rxfc_rcvr_ack x) + policy_free (rxfc_rcvr_control_ack x) +
               policy_free (rxfc_receiving_ack_list x) +
               policy_free (rxfc_retransmission_timer_expiry x) +
               policy_free (rxfc_sender_ack x) + policy_free (rxfc_sending_ack x) + 1)"

record ku_dtcp_config =
  dtcpc_flow_ctrl :: bool
  dtcpc_fctrl_cfg :: "ku_dtcp_fctrl_config ptr"
  dtcpc_rtx_ctrl :: bool
  dtcpc_rxctrl_cfg :: "ku_dtcp_rxctrl_config ptr"
  dtcpc_lost_control_pdu :: "ku_policy ptr"
  dtcpc_dtcp_ps :: "ku_policy ptr"
  dtcpc_rtt_estimator :: "ku_policy ptr"

definition dtcp_config_create :: "dstate \<Rightarrow> ku_dtcp_config ptr \<times> dstate" where
  "dtcp_config_create = create_obj \<lparr>dtcpc_flow_ctrl = False, dtcpc_fctrl_cfg = None,
    dtcpc_rtx_ctrl = False, dtcpc_rxctrl_cfg = None, dtcpc_lost_control_pdu = None,
    dtcpc_dtcp_ps = None, dtcpc_rtt_estimator = None\<rparr>"

definition dtcp_config_serlen :: "ku_dtcp_config ptr \<Rightarrow> nat" where
  "dtcp_config_serlen p =
     (case p of
        None \<Rightarrow> 0
      | Some x \<Rightarrow>
          2 * 1 + policy_serlen (dtcpc_dtcp_ps x) + policy_serlen (dtcpc_lost_control_pdu x)
            + policy_serlen (dtcpc_rtt_estimator x)
            + (if dtcpc_flow_ctrl x then dtcp_fctrl_config_serlen (dtcpc_fctrl_cfg x) else 0)
            + (if dtcpc_rtx_ctrl x then dtcp_rxctrl_config_serlen (dtcpc_rxctrl_cfg x) else 0))"

definition serialize_dtcp_config :: "ku_dtcp_config ptr \<Rightarrow> bytes" where
  "serialize_dtcp_config p =
     (case p of
        None \<Rightarrow> []
      | Some x \<Rightarrow>
          serialize_bool (dtcpc_flow_ctrl x) @ serialize_bool (dtcpc_rtx_ctrl x) @
          serialize_policy (dtcpc_dtcp_ps x) @ serialize_policy (dtcpc_lost_control_pdu x) @
          serialize_policy (dtcpc_rtt_estimator x) @
          (if dtcpc_flow_ctrl x then serialize_dtcp_fctrl_config (dtcpc_fctrl_cfg x) else []) @
          (if dtcpc_rtx_ctrl x then serialize_dtcp_rxctrl_config (dtcpc_rxctrl_cfg x) else []))"

definition deserialize_dtcp_config :: "ku_dtcp_config ptr reader" where
  "deserialize_dtcp_config = des_new dtcp_config_create (run_steps
     [des_bool dtcpc_flow_ctrl_update, des_bool dtcpc_rtx_ctrl_update,
      des_field new_policy dtcpc_dtcp_ps_update,
      des_field new_policy dtcpc_lost_control_pdu_update,
      des_field new_policy dtcpc_rtt_estimator_update,
      des_when dtcpc_flow_ctrl
        (des_field (des_new dtcp_fctrl_config_create deserialize_dtcp_fctrl_config)
           dtcpc_fctrl_cfg_update),
      des_when dtcpc_rtx_ctrl
        (des_field (des_new dtcp_rxctrl_config_create deserialize_dtcp_rxctrl_config)
           dtcpc_rxctrl_cfg_update)])"

definition dtcp_config_free :: "ku_dtcp_config ptr \<Rightarrow> nat" where
  "dtcp_config_free p =
     (case p of
        None \<Rightarrow> 0
      | Some x \<Rightarrow>
          policy_free (dtcpc_dtcp_ps x) + policy_free (dtcpc_lost_control_pdu x) +
          policy_free (dtcpc_rtt_estimator x) + dtcp_fctrl_config_free (dtcpc_fctrl_cfg x) +
          dtcp_rxctrl_config_free (dtcpc_rxctrl_cfg x) + 1)"

section \<open>Codecs\<close>

definition flow_spec_ok :: "ku_flow_spec ptr \<Rightarrow> bool" where
  "flow_spec_ok p \<longleftrightarrow> p \<noteq> None"

interpretation fs: codec serialize_flow_spec flow_spec_serlen
  deserialize_flow_spec
  flow_spec_free flow_spec_ok "\<lambda>p. p"
  by unfold_locales
    (auto simp: des_simps
      flow_spec_ok_def serialize_flow_spec_def flow_spec_serlen_def deserialize_flow_spec_def
        flow_spec_free_def rina_fspec_create_def
      split: option.splits)

lemmas fs_laws [simp] = fs.field fs.ser_len

definition dtp_config_ok :: "ku_dtp_config ptr \<Rightarrow> bool" where
  "dtp_config_ok p \<longleftrightarrow>
     (case p of
        None \<Rightarrow> False
      | Some x \<Rightarrow> policy_ok (dtpc_dtp_ps x))"

definition dtp_config_recv :: "ku_dtp_config ptr \<Rightarrow> ku_dtp_config ptr" where
  "dtp_config_recv = map_option (\<lambda>x. x\<lparr>dtpc_dtp_ps := policy_recv (dtpc_dtp_ps x)\<rparr>)"

interpretation dtpc: codec serialize_dtp_config dtp_config_serlen
  deserialize_dtp_config
  dtp_config_free dtp_config_ok dtp_config_recv
  by unfold_locales
    (auto simp: des_simps
      dtp_config_ok_def serialize_dtp_config_def dtp_config_serlen_def deserialize_dtp_config_def
        dtp_config_free_def dtp_config_create_def dtp_config_recv_def
      split: option.splits)

lemmas dtpc_laws [simp] = dtpc.field dtpc.ser_len

definition window_fctrl_config_ok :: "ku_window_fctrl_config ptr \<Rightarrow> bool" where
  "window_fctrl_config_ok p \<longleftrightarrow>
     (case p of
        None \<Rightarrow> False
      | Some x \<Rightarrow> policy_ok (wfc_rcvr_flow_control x) \<and> policy_ok (wfc_tx_control x))"

definition window_fctrl_config_recv :: "ku_window_fctrl_config ptr \<Rightarrow> ku_window_fctrl_config ptr" where
  "window_fctrl_config_recv = map_option (\<lambda>x. x\<lparr>
    wfc_rcvr_flow_control := policy_recv (wfc_rcvr_flow_control x),
    wfc_tx_control := policy_recv (wfc_tx_control x)\<rparr>)"

interpretation wfc: codec serialize_window_fctrl_config window_fctrl_config_serlen
  "des_new window_fctrl_config_create deserialize_window_fctrl_config"
  window_fctrl_config_free window_fctrl_config_ok window_fctrl_config_recv
  by unfold_locales
    (auto simp: des_simps
      window_fctrl_config_ok_def serialize_window_fctrl_config_def window_fctrl_config_serlen_def
        deserialize_window_fctrl_config_def window_fctrl_config_free_def
        window_fctrl_config_create_def window_fctrl_config_recv_def
      split: option.splits)

lemmas wfc_laws [simp] = wfc.field wfc.ser_len

definition rate_fctrl_config_ok :: "ku_rate_fctrl_config ptr \<Rightarrow> bool" where
  "rate_fctrl_config_ok p \<longleftrightarrow>
     (case p of
        None \<Rightarrow> False
      | Some x \<Rightarrow> policy_ok (rfc_no_rate_slow_down x) \<and>
               policy_ok (rfc_no_override_default_peak x) \<and> policy_ok (rfc_rate_reduction x))"

definition rate_fctrl_config_recv :: "ku_rate_fctrl_config ptr \<Rightarrow> ku_rate_fctrl_config ptr" where
  "rate_fctrl_config_recv = map_option (\<lambda>x. x\<lparr>
    rfc_no_rate_slow_down := policy_recv (rfc_no_rate_slow_down x),
    rfc_no_override_default_peak := policy_recv (rfc_no_override_default_peak x),
    rfc_rate_reduction := policy_recv (rfc_rate_reduction x)\<rparr>)"

interpretation rfc: codec serialize_rate_fctrl_config rate_fctrl_config_serlen
  "des_new rate_fctrl_config_create deserialize_rate_fctrl_config"
  rate_fctrl_config_free rate_fctrl_config_ok rate_fctrl_config_recv
  by unfold_locales
    (auto simp: des_simps
      rate_fctrl_config_ok_def serialize_rate_fctrl_config_def rate_fctrl_config_serlen_def
        deserialize_rate_fctrl_config_def rate_fctrl_config_free_def rate_fctrl_config_create_def
        rate_fctrl_config_recv_def
      split: option.splits)

lemmas rfc_laws [simp] = rfc.field rfc.ser_len

definition dtcp_fctrl_config_ok :: "ku_dtcp_fctrl_config ptr \<Rightarrow> bool" where
  "dtcp_fctrl_config_ok p \<longleftrightarrow>
     (case p of
        None \<Rightarrow> False
      | Some x \<Rightarrow>
          policy_ok (dfc_closed_window x) \<and> policy_ok (dfc_receiving_flow_control x) \<and>
          policy_ok (dfc_reconcile_flow_conflict x) \<and> policy_ok (dfc_flow_control_overrun x) \<and>
          (dfc_window_based_fctrl x \<longrightarrow> window_fctrl_config_ok (dfc_wfctrl_cfg x)) \<and>
          (dfc_rate_based_fctrl x \<longrightarrow> rate_fctrl_config_ok (dfc_rfctrl_cfg x)))"

text \<open>The receiver gets three of the policies in each other's place.\<close>

definition dtcp_fctrl_config_recv :: "ku_dtcp_fctrl_config ptr \<Rightarrow> ku_dtcp_fctrl_config ptr" where
  "dtcp_fctrl_config_recv = map_option (\<lambda>x. x\<lparr>
     dfc_closed_window := policy_recv (dfc_closed_window x),
     dfc_flow_control_overrun := policy_recv (dfc_receiving_flow_control x),
     dfc_receiving_flow_control := policy_recv (dfc_reconcile_flow_conflict x),
     dfc_reconcile_flow_conflict := policy_recv (dfc_flow_control_overrun x),
     dfc_wfctrl_cfg :=
       (if dfc_window_based_fctrl x then window_fctrl_config_recv (dfc_wfctrl_cfg x) else None),
     dfc_rfctrl_cfg :=
       (if dfc_rate_based_fctrl x then rate_fctrl_config_recv (dfc_rfctrl_cfg x) else None)\<rparr>)"

lemma free_None [simp]:
  "policy_free None = 0" "window_fctrl_config_free None = 0" "rate_fctrl_config_free None = 0"
  by (simp_all add: policy_free_def window_fctrl_config_free_def rate_fctrl_config_free_def)

interpretation dfc: codec serialize_dtcp_fctrl_config dtcp_fctrl_config_serlen
  "des_new dtcp_fctrl_config_create deserialize_dtcp_fctrl_config"
  dtcp_fctrl_config_free dtcp_fctrl_config_ok dtcp_fctrl_config_recv
  by unfold_locales
    (auto simp: des_simps dtcp_fctrl_config_ok_def serialize_dtcp_fctrl_config_def
      dtcp_fctrl_config_serlen_def deserialize_dtcp_fctrl_config_def dtcp_fctrl_config_free_def
      dtcp_fctrl_config_create_def dtcp_fctrl_config_recv_def
      split: option.splits)

lemmas dfc_laws [simp] = dfc.field dfc.ser_len

definition dtcp_rxctrl_config_ok :: "ku_dtcp_rxctrl_config ptr \<Rightarrow> bool" where
  "dtcp_rxctrl_config_ok p \<longleftrightarrow>
     (case p of
        None \<Rightarrow> False
      | Some x \<Rightarrow> policy_ok (rxfc_retransmission_timer_expiry x) \<and>
               policy_ok (rxfc_sender_ack x) \<and> policy_ok (rxfc_receiving_ack_list x) \<and>
               policy_ok (rxfc_rcvr_ack x) \<and> policy_ok (rxfc_sending_ack x) \<and>
               policy_ok (rxfc_rcvr_control_ack x))"

definition dtcp_rxctrl_config_recv :: "ku_dtcp_rxctrl_config ptr \<Rightarrow> ku_dtcp_rxctrl_config ptr" where
  "dtcp_rxctrl_config_recv = map_option (\<lambda>x. x\<lparr>
    rxfc_retransmission_timer_expiry := policy_recv (rxfc_retransmission_timer_expiry x),
    rxfc_sender_ack := policy_recv (rxfc_sender_ack x),
    rxfc_receiving_ack_list := policy_recv (rxfc_receiving_ack_list x),
    rxfc_rcvr_ack := policy_recv (rxfc_rcvr_ack x),
    rxfc_sending_ack := policy_recv (rxfc_sending_ack x),
    rxfc_rcvr_control_ack := policy_recv (rxfc_rcvr_control_ack x)\<rparr>)"

interpretation rxfc: codec serialize_dtcp_rxctrl_config dtcp_rxctrl_config_serlen
  "des_new dtcp_rxctrl_config_create deserialize_dtcp_rxctrl_config"
  dtcp_rxctrl_config_free dtcp_rxctrl_config_ok dtcp_rxctrl_config_recv
  by unfold_locales
    (auto simp: des_simps
      dtcp_rxctrl_config_ok_def serialize_dtcp_rxctrl_config_def dtcp_rxctrl_config_serlen_def
        deserialize_dtcp_rxctrl_config_def dtcp_rxctrl_config_free_def
        dtcp_rxctrl_config_create_def dtcp_rxctrl_config_recv_def
      split: option.splits)

lemmas rxfc_laws [simp] = rxfc.field rxfc.ser_len

definition dtcp_config_ok :: "ku_dtcp_config ptr \<Rightarrow> bool" where
  "dtcp_config_ok p \<longleftrightarrow>
     (case p of
        None \<Rightarrow> False
      | Some x \<Rightarrow>
          policy_ok (dtcpc_dtcp_ps x) \<and> policy_ok (dtcpc_lost_control_pdu x) \<and>
          policy_ok (dtcpc_rtt_estimator x) \<and>
          (dtcpc_flow_ctrl x \<longrightarrow> dtcp_fctrl_config_ok (dtcpc_fctrl_cfg x)) \<and>
          (dtcpc_rtx_ctrl x \<longrightarrow> dtcp_rxctrl_config_ok (dtcpc_rxctrl_cfg x)))"

definition dtcp_config_recv :: "ku_dtcp_config ptr \<Rightarrow> ku_dtcp_config ptr" where
  "dtcp_config_recv = map_option (\<lambda>x. x\<lparr>
     dtcpc_dtcp_ps := policy_recv (dtcpc_dtcp_ps x),
     dtcpc_lost_control_pdu := policy_recv (dtcpc_lost_control_pdu x),
     dtcpc_rtt_estimator := policy_recv (dtcpc_rtt_estimator x),
     dtcpc_fctrl_cfg :=
       (if dtcpc_flow_ctrl x then dtcp_fctrl_config_recv (dtcpc_fctrl_cfg x) else None),
     dtcpc_rxctrl_cfg :=
       (if dtcpc_rtx_ctrl x then dtcp_rxctrl_config_recv (dtcpc_rxctrl_cfg x) else None)\<rparr>)"

lemma free_ctrl_None [simp]:
  "dtcp_fctrl_config_free None = 0" "dtcp_rxctrl_config_free None = 0"
  by (simp_all add: dtcp_fctrl_config_free_def dtcp_rxctrl_config_free_def)

interpretation dtcpc: codec serialize_dtcp_config dtcp_config_serlen deserialize_dtcp_config
  dtcp_config_free dtcp_config_ok dtcp_config_recv
  by unfold_locales
    (auto simp: des_simps dtcp_config_ok_def serialize_dtcp_config_def dtcp_config_serlen_def
      deserialize_dtcp_config_def dtcp_config_free_def dtcp_config_create_def dtcp_config_recv_def
      split: option.splits)

lemmas dtcpc_laws [simp] = dtcpc.field dtcpc.ser_len

section \<open>Where the code goes wrong\<close>

text \<open>
  The receiver finds the policy for receiving flow control in the place of the one for flow control
  overrun, and so on around the three of them.
\<close>

lemma fctrl_policies_permuted:
  assumes "dtcp_fctrl_config_ok (Some x)"
  shows "\<exists>y k. des_new dtcp_fctrl_config_create deserialize_dtcp_fctrl_config
       (serialize_dtcp_fctrl_config (Some x) @ rest, [], n) = Some (0, Some y, rest, [], k) \<and>
     dfc_flow_control_overrun y = policy_recv (dfc_receiving_flow_control x) \<and>
     dfc_receiving_flow_control y = policy_recv (dfc_reconcile_flow_conflict x) \<and>
     dfc_reconcile_flow_conflict y = policy_recv (dfc_flow_control_overrun x)"
  using dfc.rd_ser [OF assms] by (simp add: dtcp_fctrl_config_recv_def)

end
