(* ===== verification/Serdes_Dif.thy ===== *)
theory Serdes_Dif
  imports Serdes_Flow
begin

text \<open>
  The codec of the configuration of a DIF, \<^verbatim>\<open>common/serdes-utils.c\<close>: data transfer constants, QoS cubes,
  and the configurations of EFCP, RMT, flow allocator, enrolment, namespace manager, routing,
  resource allocator and security manager.
\<close>

section \<open>Structures and their functions\<close>

record ku_pff_config =
  pffc_policy_set :: "ku_policy ptr"

definition pff_config_create :: "dstate \<Rightarrow> ku_pff_config ptr \<times> dstate" where
  "pff_config_create = create_obj \<lparr>pffc_policy_set = None\<rparr>"

definition pff_config_serlen :: "ku_pff_config ptr \<Rightarrow> nat" where
  "pff_config_serlen p =
     (case p of
        None \<Rightarrow> 0
      | Some x \<Rightarrow> policy_serlen (pffc_policy_set x))"

definition serialize_pff_config :: "ku_pff_config ptr \<Rightarrow> bytes" where
  "serialize_pff_config p =
     (case p of
        None \<Rightarrow> []
      | Some x \<Rightarrow> serialize_policy (pffc_policy_set x))"

definition deserialize_pff_config :: "ku_pff_config step" where
  "deserialize_pff_config = run_steps
     [des_field new_policy pffc_policy_set_update]"

definition pff_config_free :: "ku_pff_config ptr \<Rightarrow> nat" where
  "pff_config_free p =
     (case p of
        None \<Rightarrow> 0
      | Some x \<Rightarrow> policy_free (pffc_policy_set x) + 1)"

record ku_rmt_config =
  rmtc_policy_set :: "ku_policy ptr"
  rmtc_pff_conf :: "ku_pff_config ptr"

definition rmt_config_create :: "dstate \<Rightarrow> ku_rmt_config ptr \<times> dstate" where
  "rmt_config_create = create_obj \<lparr>rmtc_policy_set = None, rmtc_pff_conf = None\<rparr>"

definition rmt_config_serlen :: "ku_rmt_config ptr \<Rightarrow> nat" where
  "rmt_config_serlen p =
     (case p of
        None \<Rightarrow> 0
      | Some x \<Rightarrow> policy_serlen (rmtc_policy_set x) + pff_config_serlen (rmtc_pff_conf x))"

definition serialize_rmt_config :: "ku_rmt_config ptr \<Rightarrow> bytes" where
  "serialize_rmt_config p =
     (case p of
        None \<Rightarrow> []
      | Some x \<Rightarrow> serialize_policy (rmtc_policy_set x) @ serialize_pff_config (rmtc_pff_conf x))"

definition deserialize_rmt_config :: "ku_rmt_config step" where
  "deserialize_rmt_config = run_steps
     [des_field new_policy rmtc_policy_set_update,
      des_field (des_new pff_config_create deserialize_pff_config) rmtc_pff_conf_update]"

definition rmt_config_free :: "ku_rmt_config ptr \<Rightarrow> nat" where
  "rmt_config_free p =
     (case p of
        None \<Rightarrow> 0
      | Some x \<Rightarrow> policy_free (rmtc_policy_set x) + pff_config_free (rmtc_pff_conf x) + 1)"

record ku_dt_cons =
  dtc_address_length :: u16
  dtc_cep_id_length :: u16
  dtc_length_length :: u16
  dtc_port_id_length :: u16
  dtc_qos_id_length :: u16
  dtc_seq_num_length :: u16
  dtc_ctrl_seq_num_length :: u16
  dtc_max_pdu_size :: u32
  dtc_max_sdu_size :: u32
  dtc_max_pdu_life :: u32
  dtc_rate_length :: u16
  dtc_frame_length :: u16
  dtc_dif_integrity :: bool
  dtc_seq_rollover_thres :: u32
  dtc_dif_concat :: bool
  dtc_dif_frag :: bool
  dtc_max_time_to_keep_ret :: u32
  dtc_max_time_to_ack :: u32

definition dt_cons_create :: "dstate \<Rightarrow> ku_dt_cons ptr \<times> dstate" where
  "dt_cons_create = create_obj \<lparr>dtc_address_length = 0, dtc_cep_id_length = 0,
    dtc_length_length = 0, dtc_port_id_length = 0, dtc_qos_id_length = 0, dtc_seq_num_length = 0,
    dtc_ctrl_seq_num_length = 0, dtc_max_pdu_size = 0, dtc_max_sdu_size = 0, dtc_max_pdu_life = 0,
    dtc_rate_length = 0, dtc_frame_length = 0, dtc_dif_integrity = False,
    dtc_seq_rollover_thres = 0, dtc_dif_concat = False, dtc_dif_frag = False,
    dtc_max_time_to_keep_ret = 0, dtc_max_time_to_ack = 0\<rparr>"

definition dt_cons_serlen :: "ku_dt_cons ptr \<Rightarrow> nat" where
  "dt_cons_serlen p =
     (case p of
        None \<Rightarrow> 0
      | Some x \<Rightarrow> 9 * 2 + 6 * 4 + 3 * 1)"

definition serialize_dt_cons :: "ku_dt_cons ptr \<Rightarrow> bytes" where
  "serialize_dt_cons p =
     (case p of
        None \<Rightarrow> []
      | Some x \<Rightarrow> serialize_u16 (dtc_address_length x) @ serialize_u16 (dtc_cep_id_length x) @
               serialize_u16 (dtc_ctrl_seq_num_length x) @
               serialize_bool (dtc_dif_integrity x) @ serialize_u16 (dtc_frame_length x) @
               serialize_u16 (dtc_length_length x) @ serialize_u32 (dtc_max_pdu_life x) @
               serialize_u32 (dtc_max_pdu_size x) @ serialize_u32 (dtc_max_sdu_size x) @
               serialize_u16 (dtc_port_id_length x) @ serialize_u16 (dtc_qos_id_length x) @
               serialize_u16 (dtc_rate_length x) @ serialize_u16 (dtc_seq_num_length x) @
               serialize_u32 (dtc_seq_rollover_thres x) @
               serialize_u32 (dtc_max_time_to_ack x) @
               serialize_u32 (dtc_max_time_to_keep_ret x) @ serialize_bool (dtc_dif_frag x) @
               serialize_bool (dtc_dif_concat x))"

definition deserialize_dt_cons :: "ku_dt_cons step" where
  "deserialize_dt_cons = run_steps
     [des_u16 dtc_address_length_update, des_u16 dtc_cep_id_length_update,
      des_u16 dtc_ctrl_seq_num_length_update, des_bool dtc_dif_integrity_update,
      des_u16 dtc_frame_length_update, des_u16 dtc_length_length_update,
      des_u32 dtc_max_pdu_life_update, des_u32 dtc_max_pdu_size_update,
      des_u32 dtc_max_sdu_size_update, des_u16 dtc_port_id_length_update,
      des_u16 dtc_qos_id_length_update, des_u16 dtc_rate_length_update,
      des_u16 dtc_seq_num_length_update, des_u32 dtc_seq_rollover_thres_update,
      des_u32 dtc_max_time_to_ack_update, des_u32 dtc_max_time_to_keep_ret_update,
      des_bool dtc_dif_frag_update, des_bool dtc_dif_concat_update]"

definition dt_cons_free :: "ku_dt_cons ptr \<Rightarrow> nat" where
  "dt_cons_free p =
     (case p of
        None \<Rightarrow> 0
      | Some x \<Rightarrow> 1)"

record ku_qos_cube =
  qos_name :: "cstr ptr"
  qos_id :: u16
  qos_avg_bw :: u32
  qos_avg_sdu_bw :: u32
  qos_peak_bw_duration :: u32
  qos_peak_sdu_bw_duration :: u32
  qos_partial_delivery :: bool
  qos_ordered_delivery :: bool
  qos_max_allowed_gap :: u32
  qos_delay :: u32
  qos_jitter :: u32
  qos_loss :: u16
  qos_dtpc :: "ku_dtp_config ptr"
  qos_dtcpc :: "ku_dtcp_config ptr"

definition qos_cube_create :: "dstate \<Rightarrow> ku_qos_cube ptr \<times> dstate" where
  "qos_cube_create = create_obj \<lparr>qos_name = None, qos_id = 0, qos_avg_bw = 0, qos_avg_sdu_bw = 0,
    qos_peak_bw_duration = 0, qos_peak_sdu_bw_duration = 0, qos_partial_delivery = False,
    qos_ordered_delivery = False, qos_max_allowed_gap = 0, qos_delay = 0, qos_jitter = 0,
    qos_loss = 0, qos_dtpc = None, qos_dtcpc = None\<rparr>"

definition qos_cube_serlen :: "ku_qos_cube ptr \<Rightarrow> nat" where
  "qos_cube_serlen p =
     (case p of
        None \<Rightarrow> 0
      | Some x \<Rightarrow> 6 * 4 + 2 * 1 + 4 + 3 * 2 + string_prlen (qos_name x) +
               dtp_config_serlen (qos_dtpc x) + dtcp_config_serlen (qos_dtcpc x))"

definition serialize_qos_cube :: "ku_qos_cube ptr \<Rightarrow> bytes" where
  "serialize_qos_cube p =
     (case p of
        None \<Rightarrow> []
      | Some x \<Rightarrow> serialize_u16 (qos_id x) @ serialize_u32 (qos_avg_bw x) @
               serialize_u32 (qos_avg_sdu_bw x) @ serialize_u32 (qos_peak_bw_duration x) @
               serialize_u32 (qos_peak_sdu_bw_duration x) @
               serialize_bool (qos_partial_delivery x) @
               serialize_bool (qos_ordered_delivery x) @ serialize_u32 (qos_max_allowed_gap x) @
               serialize_u32 (qos_delay x) @ serialize_u32 (qos_jitter x) @
               serialize_u16 (qos_loss x) @ serialize_string (qos_name x) @
               serialize_dtp_config (qos_dtpc x) @ serialize_dtcp_config (qos_dtcpc x))"

definition deserialize_qos_cube :: "ku_qos_cube step" where
  "deserialize_qos_cube = run_steps
     [des_u16 qos_id_update, des_u32 qos_avg_bw_update, des_u32 qos_avg_sdu_bw_update,
      des_u32 qos_peak_bw_duration_update, des_u32 qos_peak_sdu_bw_duration_update,
      des_bool qos_partial_delivery_update, des_bool qos_ordered_delivery_update,
      des_u32 qos_max_allowed_gap_update, des_u32 qos_delay_update, des_u32 qos_jitter_update,
      des_u16 qos_loss_update, des_field deserialize_string qos_name_update,
      des_field deserialize_dtp_config qos_dtpc_update,
      des_field deserialize_dtcp_config qos_dtcpc_update]"

definition qos_cube_free :: "ku_qos_cube ptr \<Rightarrow> nat" where
  "qos_cube_free p =
     (case p of
        None \<Rightarrow> 0
      | Some x \<Rightarrow> free_ptr (qos_name x) + dtp_config_free (qos_dtpc x) +
               dtcp_config_free (qos_dtcpc x) + 1)"

text \<open>
  The table of PCI offsets is the memory it points to. Only the first \<^verbatim>\<open>ssize_t\<close> of it, 8 bytes, is
  written.
\<close>

record ku_efcp_config =
  efc_dt_cons :: "ku_dt_cons ptr"
  efc_pci_offset_table :: "bytes ptr"
  efc_unknown_flow :: "ku_policy ptr"
  efc_qos_cubes :: "ku_qos_cube ptr list"

definition efcp_config_create :: "dstate \<Rightarrow> ku_efcp_config ptr \<times> dstate" where
  "efcp_config_create = create_obj \<lparr>efc_dt_cons = None, efc_pci_offset_table = None,
    efc_unknown_flow = None, efc_qos_cubes = []\<rparr>"

definition efcp_config_serlen :: "ku_efcp_config ptr \<Rightarrow> nat" where
  "efcp_config_serlen p =
     (case p of
        None \<Rightarrow> 0
      | Some x \<Rightarrow>
          dt_cons_serlen (efc_dt_cons x) + 1 + 2 + policy_serlen (efc_unknown_flow x)
            + (if efc_pci_offset_table x \<noteq> None then 8 else 0)
            + sum_list (map qos_cube_serlen (efc_qos_cubes x)))"

definition serialize_efcp_config :: "ku_efcp_config ptr \<Rightarrow> bytes" where
  "serialize_efcp_config p =
     (case p of
        None \<Rightarrow> []
      | Some x \<Rightarrow>
          serialize_dt_cons (efc_dt_cons x) @ serialize_policy (efc_unknown_flow x) @
          (case efc_pci_offset_table x of
             None \<Rightarrow> serialize_u8 0
           | Some tab \<Rightarrow> serialize_u8 8 @ take 8 tab) @
          serialize_list serialize_qos_cube (efc_qos_cubes x))"

definition des_offset_table :: "ku_efcp_config step" where
  "des_offset_table x d =
     (case deserialize_obj 1 d of
        None \<Rightarrow> None
      | Some (sz :: u8, d1) \<Rightarrow>
          if sz > 0
          then (case common_alloc d1 of
                  (False, d2) \<Rightarrow> Some (-1, x\<lparr>efc_pci_offset_table := None\<rparr>, d2)
                | (True, d2) \<Rightarrow>
                    (case get_bytes (unat sz) d2 of
                       None \<Rightarrow> None
                     | Some (bs, d3) \<Rightarrow> Some (0, x\<lparr>efc_pci_offset_table := Some bs\<rparr>, d3)))
          else Some (0, x\<lparr>efc_pci_offset_table := None\<rparr>, d1))"

definition deserialize_efcp_config :: "ku_efcp_config step" where
  "deserialize_efcp_config = run_steps
     [des_field (des_new dt_cons_create deserialize_dt_cons) efc_dt_cons_update,
      des_field new_policy efc_unknown_flow_update,
      des_offset_table,
      des_list (des_entry (des_new qos_cube_create deserialize_qos_cube)) efc_qos_cubes_update]"

definition efcp_config_free :: "ku_efcp_config ptr \<Rightarrow> nat" where
  "efcp_config_free p =
     (case p of
        None \<Rightarrow> 0
      | Some x \<Rightarrow>
          dt_cons_free (efc_dt_cons x) + policy_free (efc_unknown_flow x) +
          free_ptr (efc_pci_offset_table x) +
          sum_list (map (\<lambda>e. Suc (qos_cube_free e)) (efc_qos_cubes x)) + 1)"

record ku_fa_config =
  fac_ps :: "ku_policy ptr"
  fac_allocate_notify :: "ku_policy ptr"
  fac_allocate_retry :: "ku_policy ptr"
  fac_new_flow_req :: "ku_policy ptr"
  fac_seq_roll_over :: "ku_policy ptr"
  fac_max_create_flow_retries :: u32

definition fa_config_create :: "dstate \<Rightarrow> ku_fa_config ptr \<times> dstate" where
  "fa_config_create = create_obj \<lparr>fac_ps = None, fac_allocate_notify = None,
    fac_allocate_retry = None, fac_new_flow_req = None, fac_seq_roll_over = None,
    fac_max_create_flow_retries = 0\<rparr>"

definition fa_config_serlen :: "ku_fa_config ptr \<Rightarrow> nat" where
  "fa_config_serlen p =
     (case p of
        None \<Rightarrow> 0
      | Some x \<Rightarrow> 4 + policy_serlen (fac_allocate_notify x) +
               policy_serlen (fac_allocate_retry x) + policy_serlen (fac_new_flow_req x) +
               policy_serlen (fac_ps x) + policy_serlen (fac_seq_roll_over x))"

definition serialize_fa_config :: "ku_fa_config ptr \<Rightarrow> bytes" where
  "serialize_fa_config p =
     (case p of
        None \<Rightarrow> []
      | Some x \<Rightarrow> serialize_u32 (fac_max_create_flow_retries x) @
               serialize_policy (fac_allocate_notify x) @
               serialize_policy (fac_allocate_retry x) @ serialize_policy (fac_new_flow_req x) @
               serialize_policy (fac_ps x) @ serialize_policy (fac_seq_roll_over x))"

definition deserialize_fa_config :: "ku_fa_config step" where
  "deserialize_fa_config = run_steps
     [des_u32 fac_max_create_flow_retries_update, des_field new_policy fac_allocate_notify_update,
      des_field new_policy fac_allocate_retry_update,
      des_field new_policy fac_new_flow_req_update, des_field new_policy fac_ps_update,
      des_field new_policy fac_seq_roll_over_update]"

definition fa_config_free :: "ku_fa_config ptr \<Rightarrow> nat" where
  "fa_config_free p =
     (case p of
        None \<Rightarrow> 0
      | Some x \<Rightarrow> policy_free (fac_allocate_notify x) + policy_free (fac_allocate_retry x) +
               policy_free (fac_new_flow_req x) + policy_free (fac_ps x) +
               policy_free (fac_seq_roll_over x) + 1)"

record ku_resall_config =
  resc_pff_gen :: "ku_policy ptr"

definition resall_config_create :: "dstate \<Rightarrow> ku_resall_config ptr \<times> dstate" where
  "resall_config_create = create_obj \<lparr>resc_pff_gen = None\<rparr>"

definition resall_config_serlen :: "ku_resall_config ptr \<Rightarrow> nat" where
  "resall_config_serlen p =
     (case p of
        None \<Rightarrow> 0
      | Some x \<Rightarrow> policy_serlen (resc_pff_gen x))"

definition serialize_resall_config :: "ku_resall_config ptr \<Rightarrow> bytes" where
  "serialize_resall_config p =
     (case p of
        None \<Rightarrow> []
      | Some x \<Rightarrow> serialize_policy (resc_pff_gen x))"

definition deserialize_resall_config :: "ku_resall_config step" where
  "deserialize_resall_config = run_steps
     [des_field new_policy resc_pff_gen_update]"

definition resall_config_free :: "ku_resall_config ptr \<Rightarrow> nat" where
  "resall_config_free p =
     (case p of
        None \<Rightarrow> 0
      | Some x \<Rightarrow> policy_free (resc_pff_gen x) + 1)"

record ku_et_config =
  etc_ps :: "ku_policy ptr"

definition et_config_create :: "dstate \<Rightarrow> ku_et_config ptr \<times> dstate" where
  "et_config_create = create_obj \<lparr>etc_ps = None\<rparr>"

definition et_config_serlen :: "ku_et_config ptr \<Rightarrow> nat" where
  "et_config_serlen p =
     (case p of
        None \<Rightarrow> 0
      | Some x \<Rightarrow> policy_serlen (etc_ps x))"

definition serialize_et_config :: "ku_et_config ptr \<Rightarrow> bytes" where
  "serialize_et_config p =
     (case p of
        None \<Rightarrow> []
      | Some x \<Rightarrow> serialize_policy (etc_ps x))"

definition deserialize_et_config :: "ku_et_config step" where
  "deserialize_et_config = run_steps
     [des_field new_policy etc_ps_update]"

definition et_config_free :: "ku_et_config ptr \<Rightarrow> nat" where
  "et_config_free p =
     (case p of
        None \<Rightarrow> 0
      | Some x \<Rightarrow> policy_free (etc_ps x) + 1)"

record ku_static_ipcp_addr =
  addr_ap_name :: "cstr ptr"
  addr_ap_instance :: "cstr ptr"
  addr_address :: u32

definition static_ipcp_addr_create :: "dstate \<Rightarrow> ku_static_ipcp_addr ptr \<times> dstate" where
  "static_ipcp_addr_create = create_obj \<lparr>addr_ap_name = None, addr_ap_instance = None,
    addr_address = 0\<rparr>"

definition static_ipcp_addr_serlen :: "ku_static_ipcp_addr ptr \<Rightarrow> nat" where
  "static_ipcp_addr_serlen p =
     (case p of
        None \<Rightarrow> 0
      | Some x \<Rightarrow> 2 * 2 + 4 + string_prlen (addr_ap_name x) + string_prlen (addr_ap_instance x))"

definition serialize_static_ipcp_addr :: "ku_static_ipcp_addr ptr \<Rightarrow> bytes" where
  "serialize_static_ipcp_addr p =
     (case p of
        None \<Rightarrow> []
      | Some x \<Rightarrow> serialize_u32 (addr_address x) @ serialize_string (addr_ap_name x) @
               serialize_string (addr_ap_instance x))"

definition deserialize_static_ipcp_addr :: "ku_static_ipcp_addr step" where
  "deserialize_static_ipcp_addr = run_steps
     [des_u32 addr_address_update, des_field deserialize_string addr_ap_name_update,
      des_field deserialize_string addr_ap_instance_update]"

definition static_ipcp_addr_free :: "ku_static_ipcp_addr ptr \<Rightarrow> nat" where
  "static_ipcp_addr_free p =
     (case p of
        None \<Rightarrow> 0
      | Some x \<Rightarrow> free_ptr (addr_ap_name x) + free_ptr (addr_ap_instance x) + 1)"

record ku_address_pref_config =
  apc_org :: "cstr ptr"
  apc_prefix :: u32

definition address_pref_config_create :: "dstate \<Rightarrow> ku_address_pref_config ptr \<times> dstate" where
  "address_pref_config_create = create_obj \<lparr>apc_org = None, apc_prefix = 0\<rparr>"

definition address_pref_config_serlen :: "ku_address_pref_config ptr \<Rightarrow> nat" where
  "address_pref_config_serlen p =
     (case p of
        None \<Rightarrow> 0
      | Some x \<Rightarrow> 2 + 4 + string_prlen (apc_org x))"

definition serialize_address_pref_config :: "ku_address_pref_config ptr \<Rightarrow> bytes" where
  "serialize_address_pref_config p =
     (case p of
        None \<Rightarrow> []
      | Some x \<Rightarrow> serialize_u32 (apc_prefix x) @ serialize_string (apc_org x))"

definition deserialize_address_pref_config :: "ku_address_pref_config step" where
  "deserialize_address_pref_config = run_steps
     [des_u32 apc_prefix_update, des_field deserialize_string apc_org_update]"

definition address_pref_config_free :: "ku_address_pref_config ptr \<Rightarrow> nat" where
  "address_pref_config_free p =
     (case p of
        None \<Rightarrow> 0
      | Some x \<Rightarrow> free_ptr (apc_org x) + 1)"

text \<open>
  \<^verbatim>\<open>deserialize_addressing_config\<close> returns a variable that it only sets when one of the lists has
  an element; \<open>ret\<close> is what the variable holds before.
\<close>

record ku_addressing_config =
  ac_static_ipcp_addrs :: "ku_static_ipcp_addr ptr list"
  ac_address_prefixes :: "ku_address_pref_config ptr list"

definition addressing_config_create :: "dstate \<Rightarrow> ku_addressing_config ptr \<times> dstate" where
  "addressing_config_create = create_obj \<lparr>ac_static_ipcp_addrs = [], ac_address_prefixes = []\<rparr>"

definition addressing_config_serlen :: "ku_addressing_config ptr \<Rightarrow> nat" where
  "addressing_config_serlen p =
     (case p of
        None \<Rightarrow> 0
      | Some x \<Rightarrow>
          2 * 2 + sum_list (map static_ipcp_addr_serlen (ac_static_ipcp_addrs x))
            + sum_list (map address_pref_config_serlen (ac_address_prefixes x)))"

definition serialize_addressing_config :: "ku_addressing_config ptr \<Rightarrow> bytes" where
  "serialize_addressing_config p =
     (case p of
        None \<Rightarrow> []
      | Some x \<Rightarrow>
          serialize_list serialize_static_ipcp_addr (ac_static_ipcp_addrs x) @
          serialize_list serialize_address_pref_config (ac_address_prefixes x))"

definition deserialize_addressing_config :: "rc \<Rightarrow> ku_addressing_config step" where
  "deserialize_addressing_config ret x d =
     (case deserialize_obj 2 d of
        None \<Rightarrow> None
      | Some (n1 :: u16, d1) \<Rightarrow>
          (case read_items (unat n1)
                  (des_entry (des_new static_ipcp_addr_create deserialize_static_ipcp_addr)) d1 of
             None \<Rightarrow> None
           | Some (c1, addrs, d2) \<Rightarrow>
               (let x1 = x\<lparr>ac_static_ipcp_addrs := ac_static_ipcp_addrs x @ addrs\<rparr>
                in if c1 \<noteq> 0 then Some (c1, x1, d2)
                   else (case deserialize_obj 2 d2 of
                           None \<Rightarrow> None
                         | Some (n2 :: u16, d3) \<Rightarrow>
                             (case read_items (unat n2)
                                     (des_entry (des_new address_pref_config_create
                                        deserialize_address_pref_config)) d3 of
                                None \<Rightarrow> None
                              | Some (c2, prefs, d4) \<Rightarrow>
                                  Some (if n1 = 0 \<and> n2 = 0 then ret else c2,
                                        x1\<lparr>ac_address_prefixes := ac_address_prefixes x1 @ prefs\<rparr>,
                                        d4))))))"

definition addressing_config_free :: "ku_addressing_config ptr \<Rightarrow> nat" where
  "addressing_config_free p =
     (case p of
        None \<Rightarrow> 0
      | Some x \<Rightarrow>
          sum_list (map (\<lambda>e. Suc (static_ipcp_addr_free e)) (ac_static_ipcp_addrs x)) +
          sum_list (map (\<lambda>e. Suc (address_pref_config_free e)) (ac_address_prefixes x)) + 1)"

record ku_nsm_config =
  nsmc_ps :: "ku_policy ptr"
  nsmc_addr_conf :: "ku_addressing_config ptr"

definition nsm_config_create :: "dstate \<Rightarrow> ku_nsm_config ptr \<times> dstate" where
  "nsm_config_create = create_obj \<lparr>nsmc_ps = None, nsmc_addr_conf = None\<rparr>"

definition nsm_config_serlen :: "ku_nsm_config ptr \<Rightarrow> nat" where
  "nsm_config_serlen p =
     (case p of
        None \<Rightarrow> 0
      | Some x \<Rightarrow> addressing_config_serlen (nsmc_addr_conf x) + policy_serlen (nsmc_ps x))"

definition serialize_nsm_config :: "ku_nsm_config ptr \<Rightarrow> bytes" where
  "serialize_nsm_config p =
     (case p of
        None \<Rightarrow> []
      | Some x \<Rightarrow> serialize_policy (nsmc_ps x) @ serialize_addressing_config (nsmc_addr_conf x))"

definition deserialize_nsm_config :: "rc \<Rightarrow> ku_nsm_config step" where
  "deserialize_nsm_config ret = run_steps
     [des_field new_policy nsmc_ps_update,
      des_field (des_new addressing_config_create (deserialize_addressing_config ret))
        nsmc_addr_conf_update]"

definition nsm_config_free :: "ku_nsm_config ptr \<Rightarrow> nat" where
  "nsm_config_free p =
     (case p of
        None \<Rightarrow> 0
      | Some x \<Rightarrow> policy_free (nsmc_ps x) + addressing_config_free (nsmc_addr_conf x) + 1)"

record ku_auth_sdup_profile =
  asp_auth :: "ku_policy ptr"
  asp_encrypt :: "ku_policy ptr"
  asp_crc :: "ku_policy ptr"
  asp_ttl :: "ku_policy ptr"

definition auth_sdup_profile_create :: "dstate \<Rightarrow> ku_auth_sdup_profile ptr \<times> dstate" where
  "auth_sdup_profile_create = create_obj \<lparr>asp_auth = None, asp_encrypt = None, asp_crc = None,
    asp_ttl = None\<rparr>"

definition auth_sdup_profile_serlen :: "ku_auth_sdup_profile ptr \<Rightarrow> nat" where
  "auth_sdup_profile_serlen p =
     (case p of
        None \<Rightarrow> 0
      | Some x \<Rightarrow> policy_serlen (asp_auth x) + policy_serlen (asp_encrypt x) +
               policy_serlen (asp_crc x) + policy_serlen (asp_ttl x))"

definition serialize_auth_sdup_profile :: "ku_auth_sdup_profile ptr \<Rightarrow> bytes" where
  "serialize_auth_sdup_profile p =
     (case p of
        None \<Rightarrow> []
      | Some x \<Rightarrow> serialize_policy (asp_auth x) @ serialize_policy (asp_encrypt x) @
               serialize_policy (asp_crc x) @ serialize_policy (asp_ttl x))"

definition deserialize_auth_sdup_profile :: "ku_auth_sdup_profile step" where
  "deserialize_auth_sdup_profile = run_steps
     [des_field new_policy asp_auth_update, des_field new_policy asp_encrypt_update,
      des_field new_policy asp_crc_update, des_field new_policy asp_ttl_update]"

definition auth_sdup_profile_free :: "ku_auth_sdup_profile ptr \<Rightarrow> nat" where
  "auth_sdup_profile_free p =
     (case p of
        None \<Rightarrow> 0
      | Some x \<Rightarrow> policy_free (asp_auth x) + policy_free (asp_encrypt x) +
               policy_free (asp_crc x) + policy_free (asp_ttl x) + 1)"

text \<open>
  The return codes of the policy and of the default profile are ignored. A list entry has a string
  beside the profile.
\<close>

record ku_auth_sdup_profile_entry =
  aspe_n1_dif_name :: "cstr ptr"
  aspe_entry :: "ku_auth_sdup_profile ptr"

record ku_secman_config =
  sc_ps :: "ku_policy ptr"
  sc_default_profile :: "ku_auth_sdup_profile ptr"
  sc_specific_profiles :: "ku_auth_sdup_profile_entry ptr list"

definition secman_config_create :: "dstate \<Rightarrow> ku_secman_config ptr \<times> dstate" where
  "secman_config_create =
     create_obj \<lparr>sc_ps = None, sc_default_profile = None, sc_specific_profiles = []\<rparr>"

definition profile_entry_serlen :: "ku_auth_sdup_profile_entry ptr \<Rightarrow> nat" where
  "profile_entry_serlen p =
     (case p of
        None \<Rightarrow> 0
      | Some x \<Rightarrow> auth_sdup_profile_serlen (aspe_entry x) + 2 + string_prlen (aspe_n1_dif_name x))"

definition secman_config_serlen :: "ku_secman_config ptr \<Rightarrow> nat" where
  "secman_config_serlen p =
     (case p of
        None \<Rightarrow> 0
      | Some x \<Rightarrow>
          2 + policy_serlen (sc_ps x) + auth_sdup_profile_serlen (sc_default_profile x)
            + sum_list (map profile_entry_serlen (sc_specific_profiles x)))"

definition serialize_profile_entry :: "ku_auth_sdup_profile_entry ptr \<Rightarrow> bytes" where
  "serialize_profile_entry p =
     (case p of
        None \<Rightarrow> []
      | Some x \<Rightarrow>
          serialize_string (aspe_n1_dif_name x) @ serialize_auth_sdup_profile (aspe_entry x))"

definition serialize_secman_config :: "ku_secman_config ptr \<Rightarrow> bytes" where
  "serialize_secman_config p =
     (case p of
        None \<Rightarrow> []
      | Some x \<Rightarrow>
          serialize_policy (sc_ps x) @ serialize_auth_sdup_profile (sc_default_profile x) @
          serialize_list serialize_profile_entry (sc_specific_profiles x))"

definition new_profile_entry :: "ku_auth_sdup_profile_entry ptr reader" where
  "new_profile_entry =
     des_new (create_obj \<lparr>aspe_n1_dif_name = None, aspe_entry = None\<rparr>) (run_steps
       [des_field deserialize_string aspe_n1_dif_name_update,
        des_field (des_new auth_sdup_profile_create deserialize_auth_sdup_profile)
          aspe_entry_update])"

definition deserialize_secman_config :: "ku_secman_config step" where
  "deserialize_secman_config = run_steps
     [des_field (des_new policy_create (des_ignore deserialize_policy)) sc_ps_update,
      des_field (des_new auth_sdup_profile_create (des_ignore deserialize_auth_sdup_profile))
        sc_default_profile_update,
      des_list new_profile_entry sc_specific_profiles_update]"

definition profile_entry_free :: "ku_auth_sdup_profile_entry ptr \<Rightarrow> nat" where
  "profile_entry_free p =
     (case p of
        None \<Rightarrow> 0
      | Some x \<Rightarrow> free_ptr (aspe_n1_dif_name x) + auth_sdup_profile_free (aspe_entry x) + 1)"

definition secman_config_free :: "ku_secman_config ptr \<Rightarrow> nat" where
  "secman_config_free p =
     (case p of
        None \<Rightarrow> 0
      | Some x \<Rightarrow>
          policy_free (sc_ps x) + auth_sdup_profile_free (sc_default_profile x) +
          sum_list (map profile_entry_free (sc_specific_profiles x)) + 1)"

record ku_routing_config =
  rc_ps :: "ku_policy ptr"

definition routing_config_create :: "dstate \<Rightarrow> ku_routing_config ptr \<times> dstate" where
  "routing_config_create = create_obj \<lparr>rc_ps = None\<rparr>"

definition routing_config_serlen :: "ku_routing_config ptr \<Rightarrow> nat" where
  "routing_config_serlen p =
     (case p of
        None \<Rightarrow> 0
      | Some x \<Rightarrow> policy_serlen (rc_ps x))"

definition serialize_routing_config :: "ku_routing_config ptr \<Rightarrow> bytes" where
  "serialize_routing_config p =
     (case p of
        None \<Rightarrow> []
      | Some x \<Rightarrow> serialize_policy (rc_ps x))"

definition deserialize_routing_config :: "ku_routing_config step" where
  "deserialize_routing_config = run_steps
     [des_field new_policy rc_ps_update]"

definition routing_config_free :: "ku_routing_config ptr \<Rightarrow> nat" where
  "routing_config_free p =
     (case p of
        None \<Rightarrow> 0
      | Some x \<Rightarrow> policy_free (rc_ps x) + 1)"

record ku_ipcp_config_entry =
  ice_name :: "cstr ptr"
  ice_value :: "cstr ptr"

definition ipcp_config_entry_create :: "dstate \<Rightarrow> ku_ipcp_config_entry ptr \<times> dstate" where
  "ipcp_config_entry_create = create_obj \<lparr>ice_name = None, ice_value = None\<rparr>"

definition ipcp_config_entry_serlen :: "ku_ipcp_config_entry ptr \<Rightarrow> nat" where
  "ipcp_config_entry_serlen p =
     (case p of
        None \<Rightarrow> 0
      | Some x \<Rightarrow> 2 * 2 + string_prlen (ice_name x) + string_prlen (ice_value x))"

definition serialize_ipcp_config_entry :: "ku_ipcp_config_entry ptr \<Rightarrow> bytes" where
  "serialize_ipcp_config_entry p =
     (case p of
        None \<Rightarrow> []
      | Some x \<Rightarrow> serialize_string (ice_name x) @ serialize_string (ice_value x))"

definition deserialize_ipcp_config_entry :: "ku_ipcp_config_entry step" where
  "deserialize_ipcp_config_entry = run_steps
     [des_field deserialize_string ice_name_update,
      des_field deserialize_string ice_value_update]"

definition ipcp_config_entry_free :: "ku_ipcp_config_entry ptr \<Rightarrow> nat" where
  "ipcp_config_entry_free p =
     (case p of
        None \<Rightarrow> 0
      | Some x \<Rightarrow> free_ptr (ice_name x) + free_ptr (ice_value x) + 1)"

text \<open>
  Here, too, the variable that is returned is only set when there is a configuration entry; the
  return codes of the eight parts are ignored. \<open>ret1\<close> and \<open>ret\<close> are what the variables of
  \<^verbatim>\<open>deserialize_addressing_config\<close> and of this function hold before.
\<close>

record ku_dif_config =
  difc_ipcp_config_entries :: "ku_ipcp_config_entry ptr list"
  difc_efcp_config :: "ku_efcp_config ptr"
  difc_rmt_config :: "ku_rmt_config ptr"
  difc_address :: u32
  difc_fa_config :: "ku_fa_config ptr"
  difc_et_config :: "ku_et_config ptr"
  difc_nsm_config :: "ku_nsm_config ptr"
  difc_routing_config :: "ku_routing_config ptr"
  difc_resall_config :: "ku_resall_config ptr"
  difc_secman_config :: "ku_secman_config ptr"

definition dif_config_create :: "dstate \<Rightarrow> ku_dif_config ptr \<times> dstate" where
  "dif_config_create = create_obj \<lparr>difc_ipcp_config_entries = [], difc_efcp_config = None,
    difc_rmt_config = None, difc_address = 0, difc_fa_config = None, difc_et_config = None,
    difc_nsm_config = None, difc_routing_config = None, difc_resall_config = None,
    difc_secman_config = None\<rparr>"

definition dif_config_serlen :: "ku_dif_config ptr \<Rightarrow> nat" where
  "dif_config_serlen p =
     (case p of
        None \<Rightarrow> 0
      | Some x \<Rightarrow>
          4 + 2 + sum_list (map ipcp_config_entry_serlen (difc_ipcp_config_entries x))
            + efcp_config_serlen (difc_efcp_config x) + rmt_config_serlen (difc_rmt_config x)
            + fa_config_serlen (difc_fa_config x) + et_config_serlen (difc_et_config x)
            + nsm_config_serlen (difc_nsm_config x) + routing_config_serlen (difc_routing_config x)
            + resall_config_serlen (difc_resall_config x)
            + secman_config_serlen (difc_secman_config x))"

definition serialize_dif_config :: "ku_dif_config ptr \<Rightarrow> bytes" where
  "serialize_dif_config p =
     (case p of
        None \<Rightarrow> []
      | Some x \<Rightarrow>
          serialize_u32 (difc_address x) @
          serialize_list serialize_ipcp_config_entry (difc_ipcp_config_entries x) @
          serialize_efcp_config (difc_efcp_config x) @ serialize_rmt_config (difc_rmt_config x) @
          serialize_fa_config (difc_fa_config x) @ serialize_et_config (difc_et_config x) @
          serialize_nsm_config (difc_nsm_config x) @
          serialize_routing_config (difc_routing_config x) @
          serialize_resall_config (difc_resall_config x) @
          serialize_secman_config (difc_secman_config x))"

definition des_dif_parts :: "rc \<Rightarrow> ku_dif_config step" where
  "des_dif_parts ret1 = run_steps
     [des_field (des_new efcp_config_create (des_ignore deserialize_efcp_config))
        difc_efcp_config_update,
      des_field (des_new rmt_config_create (des_ignore deserialize_rmt_config))
        difc_rmt_config_update,
      des_field (des_new fa_config_create (des_ignore deserialize_fa_config))
        difc_fa_config_update,
      des_field (des_new et_config_create (des_ignore deserialize_et_config))
        difc_et_config_update,
      des_field (des_new nsm_config_create (des_ignore (deserialize_nsm_config ret1)))
        difc_nsm_config_update,
      des_field (des_new routing_config_create (des_ignore deserialize_routing_config))
        difc_routing_config_update,
      des_field (des_new resall_config_create (des_ignore deserialize_resall_config))
        difc_resall_config_update,
      des_field (des_new secman_config_create (des_ignore deserialize_secman_config))
        difc_secman_config_update]"

definition deserialize_dif_config :: "rc \<Rightarrow> rc \<Rightarrow> ku_dif_config ptr reader" where
  "deserialize_dif_config ret1 ret = des_new dif_config_create (\<lambda>x d.
     (case des_u32 difc_address_update x d of
        None \<Rightarrow> None
      | Some (_, x1, d1) \<Rightarrow>
          (case deserialize_obj 2 d1 of
             None \<Rightarrow> None
           | Some (sz :: u16, d2) \<Rightarrow>
               (case read_items (unat sz)
                       (des_entry (des_new ipcp_config_entry_create deserialize_ipcp_config_entry)) d2 of
                  None \<Rightarrow> None
                | Some (c, es, d3) \<Rightarrow>
                    (let x2 = x1\<lparr>difc_ipcp_config_entries := difc_ipcp_config_entries x1 @ es\<rparr>
                     in if c \<noteq> 0 then Some (c, x2, d3)
                        else (case des_dif_parts ret1 x2 d3 of
                                None \<Rightarrow> None
                              | Some (c', x3, d4) \<Rightarrow>
                                  Some (if c' \<noteq> 0 then c' else if sz = 0 then ret else 0, x3, d4)))))))"

definition dif_config_free :: "ku_dif_config ptr \<Rightarrow> nat" where
  "dif_config_free p =
     (case p of
        None \<Rightarrow> 0
      | Some x \<Rightarrow>
          efcp_config_free (difc_efcp_config x) + rmt_config_free (difc_rmt_config x) +
          fa_config_free (difc_fa_config x) + et_config_free (difc_et_config x) +
          nsm_config_free (difc_nsm_config x) + routing_config_free (difc_routing_config x) +
          resall_config_free (difc_resall_config x) + secman_config_free (difc_secman_config x) +
          sum_list (map (\<lambda>e. Suc (ipcp_config_entry_free e)) (difc_ipcp_config_entries x)) + 1)"

section \<open>Codecs\<close>

definition pff_config_ok :: "ku_pff_config ptr \<Rightarrow> bool" where
  "pff_config_ok p \<longleftrightarrow>
     (case p of
        None \<Rightarrow> False
      | Some x \<Rightarrow> policy_ok (pffc_policy_set x))"

definition pff_config_recv :: "ku_pff_config ptr \<Rightarrow> ku_pff_config ptr" where
  "pff_config_recv = map_option (\<lambda>x. x\<lparr>
    pffc_policy_set := policy_recv (pffc_policy_set x)\<rparr>)"

interpretation pffc: codec serialize_pff_config pff_config_serlen
  "des_new pff_config_create deserialize_pff_config"
  pff_config_free pff_config_ok pff_config_recv
  by unfold_locales
    (auto simp: des_simps
      pff_config_ok_def serialize_pff_config_def pff_config_serlen_def deserialize_pff_config_def
        pff_config_free_def pff_config_create_def pff_config_recv_def
      split: option.splits)

lemmas pffc_laws [simp] = pffc.field pffc.ser_len

definition rmt_config_ok :: "ku_rmt_config ptr \<Rightarrow> bool" where
  "rmt_config_ok p \<longleftrightarrow>
     (case p of
        None \<Rightarrow> False
      | Some x \<Rightarrow> policy_ok (rmtc_policy_set x) \<and> pff_config_ok (rmtc_pff_conf x))"

definition rmt_config_recv :: "ku_rmt_config ptr \<Rightarrow> ku_rmt_config ptr" where
  "rmt_config_recv = map_option (\<lambda>x. x\<lparr>rmtc_policy_set := policy_recv (rmtc_policy_set x),
    rmtc_pff_conf := pff_config_recv (rmtc_pff_conf x)\<rparr>)"

interpretation rmtc: codec serialize_rmt_config rmt_config_serlen
  "des_new rmt_config_create deserialize_rmt_config"
  rmt_config_free rmt_config_ok rmt_config_recv
  by unfold_locales
    (auto simp: des_simps
      rmt_config_ok_def serialize_rmt_config_def rmt_config_serlen_def deserialize_rmt_config_def
        rmt_config_free_def rmt_config_create_def rmt_config_recv_def
      split: option.splits)

lemmas rmtc_laws [simp] = rmtc.field rmtc.ser_len

definition dt_cons_ok :: "ku_dt_cons ptr \<Rightarrow> bool" where
  "dt_cons_ok p \<longleftrightarrow> p \<noteq> None"

interpretation dtc: codec serialize_dt_cons dt_cons_serlen
  "des_new dt_cons_create deserialize_dt_cons"
  dt_cons_free dt_cons_ok "\<lambda>p. p"
  by unfold_locales
    (auto simp: des_simps
      dt_cons_ok_def serialize_dt_cons_def dt_cons_serlen_def deserialize_dt_cons_def
        dt_cons_free_def dt_cons_create_def
      split: option.splits)

lemmas dtc_laws [simp] = dtc.field dtc.ser_len

definition qos_cube_ok :: "ku_qos_cube ptr \<Rightarrow> bool" where
  "qos_cube_ok p \<longleftrightarrow>
     (case p of
        None \<Rightarrow> False
      | Some x \<Rightarrow> str_ok (qos_name x) \<and> dtp_config_ok (qos_dtpc x) \<and>
               dtcp_config_ok (qos_dtcpc x))"

definition qos_cube_recv :: "ku_qos_cube ptr \<Rightarrow> ku_qos_cube ptr" where
  "qos_cube_recv = map_option (\<lambda>x. x\<lparr>qos_name := str_recv (qos_name x),
    qos_dtpc := dtp_config_recv (qos_dtpc x),
    qos_dtcpc := dtcp_config_recv (qos_dtcpc x)\<rparr>)"

interpretation qos: codec serialize_qos_cube qos_cube_serlen
  "des_new qos_cube_create deserialize_qos_cube"
  qos_cube_free qos_cube_ok qos_cube_recv
  by unfold_locales
    (auto simp: des_simps
      qos_cube_ok_def serialize_qos_cube_def qos_cube_serlen_def deserialize_qos_cube_def
        qos_cube_free_def qos_cube_create_def qos_cube_recv_def
      split: option.splits)

lemmas qos_laws [simp] = qos.field qos.ser_len

definition efcp_config_ok :: "ku_efcp_config ptr \<Rightarrow> bool" where
  "efcp_config_ok p \<longleftrightarrow>
     (case p of
        None \<Rightarrow> False
      | Some x \<Rightarrow>
          dt_cons_ok (efc_dt_cons x) \<and> policy_ok (efc_unknown_flow x) \<and>
          (case efc_pci_offset_table x of None \<Rightarrow> True | Some tab \<Rightarrow> 8 \<le> length tab) \<and>
          list_all qos_cube_ok (efc_qos_cubes x) \<and> length (efc_qos_cubes x) < 65536)"

definition efcp_config_recv :: "ku_efcp_config ptr \<Rightarrow> ku_efcp_config ptr" where
  "efcp_config_recv = map_option (\<lambda>x. x\<lparr>
     efc_unknown_flow := policy_recv (efc_unknown_flow x),
     efc_pci_offset_table := map_option (take 8) (efc_pci_offset_table x),
     efc_qos_cubes := map qos_cube_recv (efc_qos_cubes x)\<rparr>)"

interpretation qos_entry: codec serialize_qos_cube qos_cube_serlen
  "des_entry (des_new qos_cube_create deserialize_qos_cube)"
  "\<lambda>e. Suc (qos_cube_free e)" qos_cube_ok qos_cube_recv
  by (rule entry_codec) (rule qos.codec_axioms)

lemma des_offset_table_ser [simp]:
  "des_offset_table x (serialize_u8 0 @ rest, [], n) =
     Some (0, x\<lparr>efc_pci_offset_table := None\<rparr>, rest, [], n)"
  "8 \<le> length tab \<Longrightarrow> des_offset_table x (serialize_u8 8 @ take 8 tab @ rest, [], n) =
     Some (0, x\<lparr>efc_pci_offset_table := Some (take 8 tab)\<rparr>, rest, [], Suc n)"
  by (simp_all add: des_offset_table_def)

interpretation efc: codec serialize_efcp_config efcp_config_serlen
  "des_new efcp_config_create deserialize_efcp_config"
  efcp_config_free efcp_config_ok efcp_config_recv
  by unfold_locales
    (auto simp: des_simps efcp_config_ok_def serialize_efcp_config_def efcp_config_serlen_def
      deserialize_efcp_config_def efcp_config_free_def efcp_config_create_def efcp_config_recv_def
      list_all_iff qos_entry.counted qos_entry.counted_len free_ptr_def comp_def
      simp del: One_nat_def split: option.splits)

definition fa_config_ok :: "ku_fa_config ptr \<Rightarrow> bool" where
  "fa_config_ok p \<longleftrightarrow>
     (case p of
        None \<Rightarrow> False
      | Some x \<Rightarrow> policy_ok (fac_ps x) \<and> policy_ok (fac_allocate_notify x) \<and>
               policy_ok (fac_allocate_retry x) \<and> policy_ok (fac_new_flow_req x) \<and>
               policy_ok (fac_seq_roll_over x))"

definition fa_config_recv :: "ku_fa_config ptr \<Rightarrow> ku_fa_config ptr" where
  "fa_config_recv = map_option (\<lambda>x. x\<lparr>fac_ps := policy_recv (fac_ps x),
    fac_allocate_notify := policy_recv (fac_allocate_notify x),
    fac_allocate_retry := policy_recv (fac_allocate_retry x),
    fac_new_flow_req := policy_recv (fac_new_flow_req x),
    fac_seq_roll_over := policy_recv (fac_seq_roll_over x)\<rparr>)"

interpretation fac: codec serialize_fa_config fa_config_serlen
  "des_new fa_config_create deserialize_fa_config"
  fa_config_free fa_config_ok fa_config_recv
  by unfold_locales
    (auto simp: des_simps
      fa_config_ok_def serialize_fa_config_def fa_config_serlen_def deserialize_fa_config_def
        fa_config_free_def fa_config_create_def fa_config_recv_def
      split: option.splits)

lemmas fac_laws [simp] = fac.field fac.ser_len

definition resall_config_ok :: "ku_resall_config ptr \<Rightarrow> bool" where
  "resall_config_ok p \<longleftrightarrow>
     (case p of
        None \<Rightarrow> False
      | Some x \<Rightarrow> policy_ok (resc_pff_gen x))"

definition resall_config_recv :: "ku_resall_config ptr \<Rightarrow> ku_resall_config ptr" where
  "resall_config_recv = map_option (\<lambda>x. x\<lparr>resc_pff_gen := policy_recv (resc_pff_gen x)\<rparr>)"

interpretation resc: codec serialize_resall_config resall_config_serlen
  "des_new resall_config_create deserialize_resall_config"
  resall_config_free resall_config_ok resall_config_recv
  by unfold_locales
    (auto simp: des_simps
      resall_config_ok_def serialize_resall_config_def resall_config_serlen_def
        deserialize_resall_config_def resall_config_free_def resall_config_create_def
        resall_config_recv_def
      split: option.splits)

lemmas resc_laws [simp] = resc.field resc.ser_len

definition et_config_ok :: "ku_et_config ptr \<Rightarrow> bool" where
  "et_config_ok p \<longleftrightarrow>
     (case p of
        None \<Rightarrow> False
      | Some x \<Rightarrow> policy_ok (etc_ps x))"

definition et_config_recv :: "ku_et_config ptr \<Rightarrow> ku_et_config ptr" where
  "et_config_recv = map_option (\<lambda>x. x\<lparr>etc_ps := policy_recv (etc_ps x)\<rparr>)"

interpretation etc: codec serialize_et_config et_config_serlen
  "des_new et_config_create deserialize_et_config"
  et_config_free et_config_ok et_config_recv
  by unfold_locales
    (auto simp: des_simps
      et_config_ok_def serialize_et_config_def et_config_serlen_def deserialize_et_config_def
        et_config_free_def et_config_create_def et_config_recv_def
      split: option.splits)

lemmas etc_laws [simp] = etc.field etc.ser_len

definition static_ipcp_addr_ok :: "ku_static_ipcp_addr ptr \<Rightarrow> bool" where
  "static_ipcp_addr_ok p \<longleftrightarrow>
     (case p of
        None \<Rightarrow> False
      | Some x \<Rightarrow> str_ok (addr_ap_name x) \<and> str_ok (addr_ap_instance x))"

definition static_ipcp_addr_recv :: "ku_static_ipcp_addr ptr \<Rightarrow> ku_static_ipcp_addr ptr" where
  "static_ipcp_addr_recv = map_option (\<lambda>x. x\<lparr>addr_ap_name := str_recv (addr_ap_name x),
    addr_ap_instance := str_recv (addr_ap_instance x)\<rparr>)"

interpretation addr: codec serialize_static_ipcp_addr static_ipcp_addr_serlen
  "des_new static_ipcp_addr_create deserialize_static_ipcp_addr"
  static_ipcp_addr_free static_ipcp_addr_ok static_ipcp_addr_recv
  by unfold_locales
    (auto simp: des_simps
      static_ipcp_addr_ok_def serialize_static_ipcp_addr_def static_ipcp_addr_serlen_def
        deserialize_static_ipcp_addr_def static_ipcp_addr_free_def static_ipcp_addr_create_def
        static_ipcp_addr_recv_def
      split: option.splits)

lemmas addr_laws [simp] = addr.field addr.ser_len

definition address_pref_config_ok :: "ku_address_pref_config ptr \<Rightarrow> bool" where
  "address_pref_config_ok p \<longleftrightarrow>
     (case p of
        None \<Rightarrow> False
      | Some x \<Rightarrow> str_ok (apc_org x))"

definition address_pref_config_recv :: "ku_address_pref_config ptr \<Rightarrow> ku_address_pref_config ptr" where
  "address_pref_config_recv = map_option (\<lambda>x. x\<lparr>apc_org := str_recv (apc_org x)\<rparr>)"

interpretation apc: codec serialize_address_pref_config address_pref_config_serlen
  "des_new address_pref_config_create deserialize_address_pref_config"
  address_pref_config_free address_pref_config_ok address_pref_config_recv
  by unfold_locales
    (auto simp: des_simps
      address_pref_config_ok_def serialize_address_pref_config_def address_pref_config_serlen_def
        deserialize_address_pref_config_def address_pref_config_free_def
        address_pref_config_create_def address_pref_config_recv_def
      split: option.splits)

lemmas apc_laws [simp] = apc.field apc.ser_len

definition addressing_config_ok :: "ku_addressing_config ptr \<Rightarrow> bool" where
  "addressing_config_ok p \<longleftrightarrow>
     (case p of
        None \<Rightarrow> False
      | Some x \<Rightarrow>
          list_all static_ipcp_addr_ok (ac_static_ipcp_addrs x) \<and>
          length (ac_static_ipcp_addrs x) < 65536 \<and>
          list_all address_pref_config_ok (ac_address_prefixes x) \<and>
          length (ac_address_prefixes x) < 65536)"

definition addressing_config_recv :: "ku_addressing_config ptr \<Rightarrow> ku_addressing_config ptr" where
  "addressing_config_recv = map_option (\<lambda>x. x\<lparr>
     ac_static_ipcp_addrs := map static_ipcp_addr_recv (ac_static_ipcp_addrs x),
     ac_address_prefixes := map address_pref_config_recv (ac_address_prefixes x)\<rparr>)"

interpretation addr_entry: codec serialize_static_ipcp_addr static_ipcp_addr_serlen
  "des_entry (des_new static_ipcp_addr_create deserialize_static_ipcp_addr)"
  "\<lambda>e. Suc (static_ipcp_addr_free e)" static_ipcp_addr_ok static_ipcp_addr_recv
  by (rule entry_codec) (rule addr.codec_axioms)

interpretation apc_entry: codec serialize_address_pref_config address_pref_config_serlen
  "des_entry (des_new address_pref_config_create deserialize_address_pref_config)"
  "\<lambda>e. Suc (address_pref_config_free e)" address_pref_config_ok address_pref_config_recv
  by (rule entry_codec) (rule apc.codec_axioms)

lemma addressing_len:
  "addressing_config_ok p \<Longrightarrow>
     length (serialize_addressing_config p) = addressing_config_serlen p"
  by (auto simp: addressing_config_ok_def serialize_addressing_config_def list_all_iff
      addressing_config_serlen_def addr_entry.counted_len apc_entry.counted_len
      split: option.splits)

lemma addressing_ret:
  assumes "addressing_config_ok (Some x)"
  shows "\<exists>c. des_new addressing_config_create (deserialize_addressing_config ret)
           (serialize_addressing_config (Some x) @ rest, [], n) =
         Some (c, addressing_config_recv (Some x), rest, [],
               n + addressing_config_free (addressing_config_recv (Some x)))"
proof -
  let ?as = "ac_static_ipcp_addrs x" and ?ps = "ac_address_prefixes x"
  have ok: "\<forall>e\<in>set ?as. static_ipcp_addr_ok e" "\<forall>e\<in>set ?ps. address_pref_config_ok e"
    and len: "unat (of_nat (length ?as) :: u16) = length ?as"
      "unat (of_nat (length ?ps) :: u16) = length ?ps"
    using assms by (auto simp: addressing_config_ok_def list_all_iff unat_of_nat take_bit_eq_mod)
  show ?thesis
    using addr_entry.items [OF ok(1)] apc_entry.items [OF ok(2)] len
    by (cases x) (simp add: des_new_def addressing_config_create_def create_obj_def
        deserialize_addressing_config_def serialize_addressing_config_def serialize_list_def
        addressing_config_recv_def addressing_config_free_def comp_def Let_def)
qed

definition nsm_config_ok :: "ku_nsm_config ptr \<Rightarrow> bool" where
  "nsm_config_ok p \<longleftrightarrow>
     (case p of
        None \<Rightarrow> False
      | Some x \<Rightarrow> policy_ok (nsmc_ps x) \<and> addressing_config_ok (nsmc_addr_conf x))"

definition nsm_config_recv :: "ku_nsm_config ptr \<Rightarrow> ku_nsm_config ptr" where
  "nsm_config_recv = map_option (\<lambda>x. x\<lparr>nsmc_ps := policy_recv (nsmc_ps x),
     nsmc_addr_conf := addressing_config_recv (nsmc_addr_conf x)\<rparr>)"

lemma nsm_len: "nsm_config_ok p \<Longrightarrow> length (serialize_nsm_config p) = nsm_config_serlen p"
  by (auto simp: nsm_config_ok_def serialize_nsm_config_def nsm_config_serlen_def addressing_len
      split: option.splits)

interpretation nsm_ignored: codec serialize_nsm_config nsm_config_serlen
  "des_new nsm_config_create (des_ignore (deserialize_nsm_config ret))"
  nsm_config_free nsm_config_ok nsm_config_recv for ret
proof
  fix p rest n
  assume ok: "nsm_config_ok p"
  then show "length (serialize_nsm_config p) = nsm_config_serlen p" by (rule nsm_len)
  from ok obtain x y where x: "p = Some x" "nsmc_addr_conf x = Some y" "policy_ok (nsmc_ps x)"
    "addressing_config_ok (Some y)"
    by (auto simp: nsm_config_ok_def addressing_config_ok_def split: option.splits)
  define m where "m = Suc n + policy_free (policy_recv (nsmc_ps x))"
  obtain c where "des_new addressing_config_create (deserialize_addressing_config ret)
      (serialize_addressing_config (Some y) @ rest, [], m) =
      Some (c, addressing_config_recv (Some y), rest, [],
            m + addressing_config_free (addressing_config_recv (Some y)))"
    using addressing_ret [OF x(4)] by blast
  with x show "des_new nsm_config_create (des_ignore (deserialize_nsm_config ret))
      (serialize_nsm_config p @ rest, [], n) =
      Some (0, nsm_config_recv p, rest, [], n + nsm_config_free (nsm_config_recv p))"
    by (simp add: des_new_create nsm_config_create_def des_ignore_def
        deserialize_nsm_config_def serialize_nsm_config_def nsm_config_recv_def nsm_config_free_def
        des_field_def [of "des_new addressing_config_create (deserialize_addressing_config ret)"]
        m_def)
qed

definition auth_sdup_profile_ok :: "ku_auth_sdup_profile ptr \<Rightarrow> bool" where
  "auth_sdup_profile_ok p \<longleftrightarrow>
     (case p of
        None \<Rightarrow> False
      | Some x \<Rightarrow> policy_ok (asp_auth x) \<and> policy_ok (asp_encrypt x) \<and>
               policy_ok (asp_crc x) \<and> policy_ok (asp_ttl x))"

definition auth_sdup_profile_recv :: "ku_auth_sdup_profile ptr \<Rightarrow> ku_auth_sdup_profile ptr" where
  "auth_sdup_profile_recv = map_option (\<lambda>x. x\<lparr>asp_auth := policy_recv (asp_auth x),
    asp_encrypt := policy_recv (asp_encrypt x), asp_crc := policy_recv (asp_crc x),
    asp_ttl := policy_recv (asp_ttl x)\<rparr>)"

interpretation asp: codec serialize_auth_sdup_profile auth_sdup_profile_serlen
  "des_new auth_sdup_profile_create deserialize_auth_sdup_profile"
  auth_sdup_profile_free auth_sdup_profile_ok auth_sdup_profile_recv
  by unfold_locales
    (auto simp: des_simps
      auth_sdup_profile_ok_def serialize_auth_sdup_profile_def auth_sdup_profile_serlen_def
        deserialize_auth_sdup_profile_def auth_sdup_profile_free_def auth_sdup_profile_create_def
        auth_sdup_profile_recv_def
      split: option.splits)

lemmas asp_laws [simp] = asp.field asp.ser_len

definition profile_entry_ok :: "ku_auth_sdup_profile_entry ptr \<Rightarrow> bool" where
  "profile_entry_ok p \<longleftrightarrow>
     (case p of
        None \<Rightarrow> False
      | Some x \<Rightarrow> str_ok (aspe_n1_dif_name x) \<and> auth_sdup_profile_ok (aspe_entry x))"

definition profile_entry_recv :: "ku_auth_sdup_profile_entry ptr \<Rightarrow> ku_auth_sdup_profile_entry ptr" where
  "profile_entry_recv = map_option (\<lambda>x. x\<lparr>aspe_n1_dif_name := str_recv (aspe_n1_dif_name x),
     aspe_entry := auth_sdup_profile_recv (aspe_entry x)\<rparr>)"

interpretation aspe: codec serialize_profile_entry profile_entry_serlen new_profile_entry
  profile_entry_free profile_entry_ok profile_entry_recv
  by unfold_locales
    (auto simp: des_simps profile_entry_ok_def serialize_profile_entry_def profile_entry_serlen_def
      new_profile_entry_def profile_entry_free_def profile_entry_recv_def
      split: option.splits)

definition secman_config_ok :: "ku_secman_config ptr \<Rightarrow> bool" where
  "secman_config_ok p \<longleftrightarrow>
     (case p of
        None \<Rightarrow> False
      | Some x \<Rightarrow>
          policy_ok (sc_ps x) \<and> auth_sdup_profile_ok (sc_default_profile x) \<and>
          list_all profile_entry_ok (sc_specific_profiles x) \<and>
          length (sc_specific_profiles x) < 65536)"

definition secman_config_recv :: "ku_secman_config ptr \<Rightarrow> ku_secman_config ptr" where
  "secman_config_recv = map_option (\<lambda>x. x\<lparr>sc_ps := policy_recv (sc_ps x),
     sc_default_profile := auth_sdup_profile_recv (sc_default_profile x),
     sc_specific_profiles := map profile_entry_recv (sc_specific_profiles x)\<rparr>)"

interpretation policy_ignored: codec serialize_policy policy_serlen
  "des_new policy_create (des_ignore deserialize_policy)" policy_free policy_ok policy_recv
  by (rule ignore_codec) (rule policy.codec_axioms [unfolded new_policy_def])

interpretation asp_ignored: codec serialize_auth_sdup_profile auth_sdup_profile_serlen
  "des_new auth_sdup_profile_create (des_ignore deserialize_auth_sdup_profile)"
  auth_sdup_profile_free auth_sdup_profile_ok auth_sdup_profile_recv
  by (rule ignore_codec) (rule asp.codec_axioms)

interpretation sc: codec serialize_secman_config secman_config_serlen
  "des_new secman_config_create deserialize_secman_config"
  secman_config_free secman_config_ok secman_config_recv
  by unfold_locales
    (auto simp: des_new_create secman_config_ok_def
      serialize_secman_config_def secman_config_serlen_def deserialize_secman_config_def
      secman_config_free_def secman_config_create_def secman_config_recv_def list_all_iff
      aspe.counted aspe.counted_len policy_ignored.field asp_ignored.field comp_def
      split: option.splits)

definition routing_config_ok :: "ku_routing_config ptr \<Rightarrow> bool" where
  "routing_config_ok p \<longleftrightarrow>
     (case p of
        None \<Rightarrow> False
      | Some x \<Rightarrow> policy_ok (rc_ps x))"

definition routing_config_recv :: "ku_routing_config ptr \<Rightarrow> ku_routing_config ptr" where
  "routing_config_recv = map_option (\<lambda>x. x\<lparr>rc_ps := policy_recv (rc_ps x)\<rparr>)"

interpretation rc: codec serialize_routing_config routing_config_serlen
  "des_new routing_config_create deserialize_routing_config"
  routing_config_free routing_config_ok routing_config_recv
  by unfold_locales
    (auto simp: des_simps
      routing_config_ok_def serialize_routing_config_def routing_config_serlen_def
        deserialize_routing_config_def routing_config_free_def routing_config_create_def
        routing_config_recv_def
      split: option.splits)

lemmas rc_laws [simp] = rc.field rc.ser_len

definition ipcp_config_entry_ok :: "ku_ipcp_config_entry ptr \<Rightarrow> bool" where
  "ipcp_config_entry_ok p \<longleftrightarrow>
     (case p of
        None \<Rightarrow> False
      | Some x \<Rightarrow> str_ok (ice_name x) \<and> str_ok (ice_value x))"

definition ipcp_config_entry_recv :: "ku_ipcp_config_entry ptr \<Rightarrow> ku_ipcp_config_entry ptr" where
  "ipcp_config_entry_recv = map_option (\<lambda>x. x\<lparr>ice_name := str_recv (ice_name x),
    ice_value := str_recv (ice_value x)\<rparr>)"

interpretation ice: codec serialize_ipcp_config_entry ipcp_config_entry_serlen
  "des_new ipcp_config_entry_create deserialize_ipcp_config_entry"
  ipcp_config_entry_free ipcp_config_entry_ok ipcp_config_entry_recv
  by unfold_locales
    (auto simp: des_simps
      ipcp_config_entry_ok_def serialize_ipcp_config_entry_def ipcp_config_entry_serlen_def
        deserialize_ipcp_config_entry_def ipcp_config_entry_free_def ipcp_config_entry_create_def
        ipcp_config_entry_recv_def
      split: option.splits)

lemmas ice_laws [simp] = ice.field ice.ser_len

text \<open>
  A configuration reads back when every part is there. Without a configuration entry the code that
  is returned is the value \<open>ret\<close> of the variable that was not set.
\<close>

definition dif_config_ok :: "rc \<Rightarrow> ku_dif_config ptr \<Rightarrow> bool" where
  "dif_config_ok ret p \<longleftrightarrow>
     (case p of
        None \<Rightarrow> False
      | Some x \<Rightarrow>
          list_all ipcp_config_entry_ok (difc_ipcp_config_entries x) \<and>
          length (difc_ipcp_config_entries x) < 65536 \<and>
          (ret = 0 \<or> difc_ipcp_config_entries x \<noteq> []) \<and>
          efcp_config_ok (difc_efcp_config x) \<and> rmt_config_ok (difc_rmt_config x) \<and>
          fa_config_ok (difc_fa_config x) \<and> et_config_ok (difc_et_config x) \<and>
          nsm_config_ok (difc_nsm_config x) \<and> routing_config_ok (difc_routing_config x) \<and>
          resall_config_ok (difc_resall_config x) \<and> secman_config_ok (difc_secman_config x))"

definition dif_config_recv :: "ku_dif_config ptr \<Rightarrow> ku_dif_config ptr" where
  "dif_config_recv = map_option (\<lambda>x. x\<lparr>
     difc_ipcp_config_entries := map ipcp_config_entry_recv (difc_ipcp_config_entries x),
     difc_efcp_config := efcp_config_recv (difc_efcp_config x),
     difc_rmt_config := rmt_config_recv (difc_rmt_config x),
     difc_fa_config := fa_config_recv (difc_fa_config x),
     difc_et_config := et_config_recv (difc_et_config x),
     difc_nsm_config := nsm_config_recv (difc_nsm_config x),
     difc_routing_config := routing_config_recv (difc_routing_config x),
     difc_resall_config := resall_config_recv (difc_resall_config x),
     difc_secman_config := secman_config_recv (difc_secman_config x)\<rparr>)"

interpretation ice_entry: codec serialize_ipcp_config_entry ipcp_config_entry_serlen
  "des_entry (des_new ipcp_config_entry_create deserialize_ipcp_config_entry)"
  "\<lambda>e. Suc (ipcp_config_entry_free e)" ipcp_config_entry_ok ipcp_config_entry_recv
  by (rule entry_codec) (rule ice.codec_axioms)

lemmas part_fields =
  codec.field [OF ignore_codec [OF efc.codec_axioms]]
  codec.field [OF ignore_codec [OF rmtc.codec_axioms]]
  codec.field [OF ignore_codec [OF fac.codec_axioms]]
  codec.field [OF ignore_codec [OF etc.codec_axioms]]
  nsm_ignored.field
  codec.field [OF ignore_codec [OF rc.codec_axioms]]
  codec.field [OF ignore_codec [OF resc.codec_axioms]]
  codec.field [OF ignore_codec [OF sc.codec_axioms]]

lemmas part_lens =
  efc.ser_len rmtc.ser_len fac.ser_len etc.ser_len nsm_len rc.ser_len resc.ser_len sc.ser_len

lemma dif_config_len:
  "dif_config_ok ret p \<Longrightarrow> length (serialize_dif_config p) = dif_config_serlen p"
  by (auto simp: dif_config_ok_def serialize_dif_config_def dif_config_serlen_def part_lens
      list_all_iff ice_entry.counted_len split: option.splits)

lemma dif_config_read:
  assumes ok: "dif_config_ok 0 (Some x)"
  shows "deserialize_dif_config ret1 ret (serialize_dif_config (Some x) @ rest, [], n) =
      Some (if difc_ipcp_config_entries x = [] then ret else 0, dif_config_recv (Some x), rest, [],
            n + dif_config_free (dif_config_recv (Some x)))"
proof -
  let ?es = "difc_ipcp_config_entries x"
  have es: "\<forall>e\<in>set ?es. ipcp_config_entry_ok e"
    using ok by (simp add: dif_config_ok_def list_all_iff)
  have len: "unat (of_nat (length ?es) :: u16) = length ?es"
    using ok by (simp add: dif_config_ok_def unat_of_nat take_bit_eq_mod)
  then have empty: "(of_nat (length ?es) :: u16) = 0 \<longleftrightarrow> ?es = []"
    by (metis length_0_conv unat_eq_0)
  show ?thesis
    using ok len empty ice_entry.items [OF es]
    by (cases x) (auto simp: deserialize_dif_config_def serialize_dif_config_def dif_config_ok_def
        des_new_create dif_config_create_def serialize_list_def
        des_dif_parts_def part_fields dif_config_recv_def dif_config_free_def Let_def comp_def)
qed

interpretation difc: codec serialize_dif_config dif_config_serlen
  "deserialize_dif_config ret1 ret" dif_config_free "dif_config_ok ret" dif_config_recv for ret1 ret
proof
  fix p rest n
  assume ok: "dif_config_ok ret p"
  then show "length (serialize_dif_config p) = dif_config_serlen p" by (rule dif_config_len)
  from ok obtain x where p: "p = Some x" by (auto simp: dif_config_ok_def split: option.splits)
  with ok have "dif_config_ok 0 (Some x)" "ret = 0 \<or> difc_ipcp_config_entries x \<noteq> []"
    by (auto simp: dif_config_ok_def)
  with p show "deserialize_dif_config ret1 ret (serialize_dif_config p @ rest, [], n) =
      Some (0, dif_config_recv p, rest, [], n + dif_config_free (dif_config_recv p))"
    by (auto simp: dif_config_read)
qed

section \<open>Where the code goes wrong\<close>

text \<open>
  Without configuration entries the reader answers what the variable it never set happens to hold,
  and the message is refused when that is not 0.
\<close>

lemma empty_config_refused:
  assumes "dif_config_ok 0 (Some x)" "difc_ipcp_config_entries x = []"
  shows "fst (the (deserialize_dif_config ret1 ret (serialize_dif_config (Some x) @ rest, [], n))) = ret"
  using dif_config_read [OF assms(1), of ret1 ret rest n] assms(2) by simp

end
