(* ===== verification/Serdes_Lists.thy ===== *)
theory Serdes_Lists
  imports Serdes
begin

text \<open>
  The codec of the objects that carry lists, \<^verbatim>\<open>common/serdes-utils.c\<close>: the answer to a RIB query,
  forwarding table entries, the state of the cryptographic SDU protection, DIF properties,
  neighbours and media reports.
\<close>

section \<open>Structures and their functions\<close>

record ku_rib_object_data =
  rod_clazz :: "cstr ptr"
  rod_name :: "cstr ptr"
  rod_disp_value :: "cstr ptr"
  rod_instance :: u64

definition rib_object_data_create :: "dstate \<Rightarrow> ku_rib_object_data ptr \<times> dstate" where
  "rib_object_data_create = create_obj \<lparr>rod_clazz = None, rod_name = None, rod_disp_value = None,
    rod_instance = 0\<rparr>"

definition rib_object_data_serlen :: "ku_rib_object_data ptr \<Rightarrow> nat" where
  "rib_object_data_serlen p =
     (case p of
        None \<Rightarrow> 0
      | Some x \<Rightarrow> 3 * 2 + string_prlen (rod_name x) + string_prlen (rod_clazz x) +
               string_prlen (rod_disp_value x) + 8)"

definition serialize_rib_object_data :: "ku_rib_object_data ptr \<Rightarrow> bytes" where
  "serialize_rib_object_data p =
     (case p of
        None \<Rightarrow> []
      | Some x \<Rightarrow> serialize_u64 (rod_instance x) @ serialize_string (rod_name x) @
               serialize_string (rod_clazz x) @ serialize_string (rod_disp_value x))"

definition deserialize_rib_object_data :: "ku_rib_object_data step" where
  "deserialize_rib_object_data = run_steps
     [des_u64 rod_instance_update, des_field deserialize_string rod_name_update,
      des_field deserialize_string rod_clazz_update,
      des_field deserialize_string rod_disp_value_update]"

definition rib_object_data_free :: "ku_rib_object_data ptr \<Rightarrow> nat" where
  "rib_object_data_free p =
     (case p of
        None \<Rightarrow> 0
      | Some x \<Rightarrow> free_ptr (rod_name x) + free_ptr (rod_clazz x) + free_ptr (rod_disp_value x) +
               1)"

record ku_query_rib_resp =
  qrr_rib_object_data_entries :: "ku_rib_object_data ptr list"

definition query_rib_resp_create :: "dstate \<Rightarrow> ku_query_rib_resp ptr \<times> dstate" where
  "query_rib_resp_create = create_obj \<lparr>qrr_rib_object_data_entries = []\<rparr>"

definition query_rib_resp_serlen :: "ku_query_rib_resp ptr \<Rightarrow> nat" where
  "query_rib_resp_serlen p =
     (case p of None \<Rightarrow> 0 | Some x \<Rightarrow> 2 + sum_list (map rib_object_data_serlen (qrr_rib_object_data_entries x)))"

definition serialize_query_rib_resp :: "ku_query_rib_resp ptr \<Rightarrow> bytes" where
  "serialize_query_rib_resp p =
     (case p of None \<Rightarrow> [] | Some x \<Rightarrow> serialize_list serialize_rib_object_data (qrr_rib_object_data_entries x))"

definition deserialize_query_rib_resp :: "ku_query_rib_resp ptr reader" where
  "deserialize_query_rib_resp = des_new query_rib_resp_create (run_steps
     [des_list (des_new rib_object_data_create deserialize_rib_object_data)
        qrr_rib_object_data_entries_update])"

definition query_rib_resp_free :: "ku_query_rib_resp ptr \<Rightarrow> nat" where
  "query_rib_resp_free p =
     (case p of None \<Rightarrow> 0 | Some x \<Rightarrow> sum_list (map rib_object_data_free (qrr_rib_object_data_entries x)) + 1)"

text \<open>
  The array of port ids is the memory it points to, 4 bytes for each. The allocation for it is not
  checked before the bytes are copied.
\<close>

record ku_port_id_altlist =
  pia_ports :: "bytes ptr"
  pia_num_ports :: u16

definition port_id_altlist_create :: "dstate \<Rightarrow> ku_port_id_altlist ptr \<times> dstate" where
  "port_id_altlist_create = create_obj \<lparr>pia_ports = None, pia_num_ports = 0\<rparr>"

definition port_id_altlist_serlen :: "ku_port_id_altlist ptr \<Rightarrow> nat" where
  "port_id_altlist_serlen p =
     (case p of None \<Rightarrow> 0 | Some x \<Rightarrow> 2 + unat (pia_num_ports x) * 4)"

definition serialize_port_id_altlist :: "ku_port_id_altlist ptr \<Rightarrow> bytes" where
  "serialize_port_id_altlist p =
     (case p of
        None \<Rightarrow> []
      | Some x \<Rightarrow>
          (let plength = unat (pia_num_ports x) * 4
           in serialize_u16 (pia_num_ports x) @
              (if plength > 0 then take plength (case pia_ports x of None \<Rightarrow> [] | Some a \<Rightarrow> a) else [])))"

definition deserialize_port_id_altlist :: "ku_port_id_altlist step" where
  "deserialize_port_id_altlist x d =
     (case deserialize_obj 2 d of
        None \<Rightarrow> None
      | Some (k :: u16, d1) \<Rightarrow>
          (let x1 = x\<lparr>pia_num_ports := k\<rparr>; plength = unat k * 4
           in if plength > 0
              then (case common_alloc d1 of
                      (False, d2) \<Rightarrow> None
                    | (True, d2) \<Rightarrow>
                        (case get_bytes plength d2 of
                           None \<Rightarrow> None
                         | Some (a, d3) \<Rightarrow> Some (0, x1\<lparr>pia_ports := Some a\<rparr>, d3)))
              else Some (0, x1, d1)))"

definition port_id_altlist_free :: "ku_port_id_altlist ptr \<Rightarrow> nat" where
  "port_id_altlist_free p =
     (case p of None \<Rightarrow> 0 | Some x \<Rightarrow> (if pia_num_ports x > 0 then 1 else 0) + 1)"

record ku_mod_pff_entry =
  pffe_fwd_info :: u32
  pffe_qos_id :: u16
  pffe_cost :: u32
  pffe_port_id_altlists :: "ku_port_id_altlist ptr list"

definition mod_pff_entry_create :: "dstate \<Rightarrow> ku_mod_pff_entry ptr \<times> dstate" where
  "mod_pff_entry_create = create_obj
     \<lparr>pffe_fwd_info = 0, pffe_qos_id = 0, pffe_cost = 0, pffe_port_id_altlists = []\<rparr>"

definition mod_pff_entry_serlen :: "ku_mod_pff_entry ptr \<Rightarrow> nat" where
  "mod_pff_entry_serlen p =
     (case p of
        None \<Rightarrow> 0
      | Some x \<Rightarrow> 4 + 2 + 2 + 4 + sum_list (map port_id_altlist_serlen (pffe_port_id_altlists x)))"

definition serialize_mod_pff_entry :: "ku_mod_pff_entry ptr \<Rightarrow> bytes" where
  "serialize_mod_pff_entry p =
     (case p of
        None \<Rightarrow> []
      | Some x \<Rightarrow>
          serialize_u32 (pffe_fwd_info x) @ serialize_u16 (pffe_qos_id x) @
          serialize_u32 (pffe_cost x) @
          serialize_list serialize_port_id_altlist (pffe_port_id_altlists x))"

definition deserialize_mod_pff_entry :: "ku_mod_pff_entry step" where
  "deserialize_mod_pff_entry = run_steps
     [des_u32 pffe_fwd_info_update, des_u16 pffe_qos_id_update, des_u32 pffe_cost_update,
      des_list (des_new port_id_altlist_create deserialize_port_id_altlist)
        pffe_port_id_altlists_update]"

definition mod_pff_entry_free :: "ku_mod_pff_entry ptr \<Rightarrow> nat" where
  "mod_pff_entry_free p =
     (case p of
        None \<Rightarrow> 0
      | Some x \<Rightarrow> sum_list (map port_id_altlist_free (pffe_port_id_altlists x)) + 1)"

record ku_pff_entry_list =
  pel_pff_entries :: "ku_mod_pff_entry ptr list"

definition pff_entry_list_create :: "dstate \<Rightarrow> ku_pff_entry_list ptr \<times> dstate" where
  "pff_entry_list_create = create_obj \<lparr>pel_pff_entries = []\<rparr>"

definition pff_entry_list_serlen :: "ku_pff_entry_list ptr \<Rightarrow> nat" where
  "pff_entry_list_serlen p =
     (case p of None \<Rightarrow> 0 | Some x \<Rightarrow> 2 + sum_list (map mod_pff_entry_serlen (pel_pff_entries x)))"

definition serialize_pff_entry_list :: "ku_pff_entry_list ptr \<Rightarrow> bytes" where
  "serialize_pff_entry_list p =
     (case p of None \<Rightarrow> [] | Some x \<Rightarrow> serialize_list serialize_mod_pff_entry (pel_pff_entries x))"

definition deserialize_pff_entry_list :: "ku_pff_entry_list ptr reader" where
  "deserialize_pff_entry_list = des_new pff_entry_list_create (run_steps
     [des_list (des_new mod_pff_entry_create deserialize_mod_pff_entry)
        pel_pff_entries_update])"

definition pff_entry_list_free :: "ku_pff_entry_list ptr \<Rightarrow> nat" where
  "pff_entry_list_free p =
     (case p of None \<Rightarrow> 0 | Some x \<Rightarrow> sum_list (map mod_pff_entry_free (pel_pff_entries x)) + 1)"

record ku_sdup_crypto_state =
  scs_enable_crypto_tx :: bool
  scs_enable_crypto_rx :: bool
  scs_mac_alg :: "cstr ptr"
  scs_mac_key_tx :: "bytes ptr"
  scs_mac_key_rx :: "bytes ptr"
  scs_enc_alg :: "cstr ptr"
  scs_encrypt_key_tx :: "bytes ptr"
  scs_encrypt_key_rx :: "bytes ptr"
  scs_iv_tx :: "bytes ptr"
  scs_iv_rx :: "bytes ptr"
  scs_compress_alg :: "cstr ptr"
  scs_port_id :: u32

definition sdup_crypto_state_create :: "dstate \<Rightarrow> ku_sdup_crypto_state ptr \<times> dstate" where
  "sdup_crypto_state_create = create_obj \<lparr>scs_enable_crypto_tx = False,
    scs_enable_crypto_rx = False, scs_mac_alg = None, scs_mac_key_tx = None,
    scs_mac_key_rx = None, scs_enc_alg = None, scs_encrypt_key_tx = None,
    scs_encrypt_key_rx = None, scs_iv_tx = None, scs_iv_rx = None, scs_compress_alg = None,
    scs_port_id = 0\<rparr>"

definition sdup_crypto_state_serlen :: "ku_sdup_crypto_state ptr \<Rightarrow> nat" where
  "sdup_crypto_state_serlen p =
     (case p of
        None \<Rightarrow> 0
      | Some x \<Rightarrow> 2 * 1 + 3 * 2 + 4 + string_prlen (scs_compress_alg x) +
               string_prlen (scs_enc_alg x) + string_prlen (scs_mac_alg x) + 6 * 4 +
               buffer_prlen (scs_encrypt_key_rx x) + buffer_prlen (scs_encrypt_key_tx x) +
               buffer_prlen (scs_iv_rx x) + buffer_prlen (scs_iv_tx x) +
               buffer_prlen (scs_mac_key_rx x) + buffer_prlen (scs_mac_key_tx x))"

definition serialize_sdup_crypto_state :: "ku_sdup_crypto_state ptr \<Rightarrow> bytes" where
  "serialize_sdup_crypto_state p =
     (case p of
        None \<Rightarrow> []
      | Some x \<Rightarrow> serialize_bool (scs_enable_crypto_rx x) @
               serialize_bool (scs_enable_crypto_tx x) @ serialize_u32 (scs_port_id x) @
               serialize_string (scs_compress_alg x) @ serialize_string (scs_enc_alg x) @
               serialize_string (scs_mac_alg x) @ serialize_buffer (scs_encrypt_key_rx x) @
               serialize_buffer (scs_encrypt_key_tx x) @ serialize_buffer (scs_iv_rx x) @
               serialize_buffer (scs_iv_tx x) @ serialize_buffer (scs_mac_key_rx x) @
               serialize_buffer (scs_mac_key_tx x))"

definition deserialize_sdup_crypto_state :: "ku_sdup_crypto_state ptr reader" where
  "deserialize_sdup_crypto_state = des_new sdup_crypto_state_create (run_steps
     [des_bool scs_enable_crypto_rx_update, des_bool scs_enable_crypto_tx_update,
      des_u32 scs_port_id_update, des_field deserialize_string scs_compress_alg_update,
      des_field deserialize_string scs_enc_alg_update,
      des_field deserialize_string scs_mac_alg_update,
      des_field deserialize_buffer scs_encrypt_key_rx_update,
      des_field deserialize_buffer scs_encrypt_key_tx_update,
      des_field deserialize_buffer scs_iv_rx_update,
      des_field deserialize_buffer scs_iv_tx_update,
      des_field deserialize_buffer scs_mac_key_rx_update,
      des_field deserialize_buffer scs_mac_key_tx_update])"

definition sdup_crypto_state_free :: "ku_sdup_crypto_state ptr \<Rightarrow> nat" where
  "sdup_crypto_state_free p =
     (case p of
        None \<Rightarrow> 0
      | Some x \<Rightarrow> free_ptr (scs_compress_alg x) + free_ptr (scs_enc_alg x) +
               free_ptr (scs_mac_alg x) + buffer_destroy (scs_encrypt_key_rx x) +
               buffer_destroy (scs_encrypt_key_tx x) + buffer_destroy (scs_iv_rx x) +
               buffer_destroy (scs_iv_tx x) + buffer_destroy (scs_mac_key_rx x) +
               buffer_destroy (scs_mac_key_tx x) + 1)"

record ku_dif_properties_entry =
  dpe_dif_name :: "ku_name ptr"
  dpe_max_sdu_size :: u16

definition dif_properties_entry_create :: "dstate \<Rightarrow> ku_dif_properties_entry ptr \<times> dstate" where
  "dif_properties_entry_create = create_obj \<lparr>dpe_dif_name = None, dpe_max_sdu_size = 0\<rparr>"

definition dif_properties_entry_serlen :: "ku_dif_properties_entry ptr \<Rightarrow> nat" where
  "dif_properties_entry_serlen p =
     (case p of
        None \<Rightarrow> 0
      | Some x \<Rightarrow> 2 + rina_name_serlen (dpe_dif_name x))"

definition serialize_dif_properties_entry :: "ku_dif_properties_entry ptr \<Rightarrow> bytes" where
  "serialize_dif_properties_entry p =
     (case p of
        None \<Rightarrow> []
      | Some x \<Rightarrow> serialize_u16 (dpe_max_sdu_size x) @ serialize_rina_name (dpe_dif_name x))"

definition deserialize_dif_properties_entry :: "ku_dif_properties_entry step" where
  "deserialize_dif_properties_entry = run_steps
     [des_u16 dpe_max_sdu_size_update, des_field deserialize_rina_name dpe_dif_name_update]"

definition dif_properties_entry_free :: "ku_dif_properties_entry ptr \<Rightarrow> nat" where
  "dif_properties_entry_free p =
     (case p of
        None \<Rightarrow> 0
      | Some x \<Rightarrow> rina_name_free (dpe_dif_name x) + 1)"

record ku_get_dif_prop_resp =
  gdp_dif_propery_entries :: "ku_dif_properties_entry ptr list"

definition get_dif_prop_resp_create :: "dstate \<Rightarrow> ku_get_dif_prop_resp ptr \<times> dstate" where
  "get_dif_prop_resp_create = create_obj \<lparr>gdp_dif_propery_entries = []\<rparr>"

definition get_dif_prop_resp_serlen :: "ku_get_dif_prop_resp ptr \<Rightarrow> nat" where
  "get_dif_prop_resp_serlen p =
     (case p of None \<Rightarrow> 0 | Some x \<Rightarrow> 2 + sum_list (map dif_properties_entry_serlen (gdp_dif_propery_entries x)))"

definition serialize_get_dif_prop_resp :: "ku_get_dif_prop_resp ptr \<Rightarrow> bytes" where
  "serialize_get_dif_prop_resp p =
     (case p of None \<Rightarrow> [] | Some x \<Rightarrow> serialize_list serialize_dif_properties_entry (gdp_dif_propery_entries x))"

definition deserialize_get_dif_prop_resp :: "ku_get_dif_prop_resp ptr reader" where
  "deserialize_get_dif_prop_resp = des_new get_dif_prop_resp_create (run_steps
     [des_list (des_new dif_properties_entry_create deserialize_dif_properties_entry)
        gdp_dif_propery_entries_update])"

definition get_dif_prop_resp_free :: "ku_get_dif_prop_resp ptr \<Rightarrow> nat" where
  "get_dif_prop_resp_free p =
     (case p of None \<Rightarrow> 0 | Some x \<Rightarrow> sum_list (map dif_properties_entry_free (gdp_dif_propery_entries x)) + 1)"

text \<open>The return codes of the two names of a neighbour are ignored.\<close>

record ku_ipcp_neighbor =
  nei_ipcp_name :: "ku_name ptr"
  nei_sup_dif_name :: "ku_name ptr"
  nei_supporting_difs :: "ku_name ptr list"
  nei_address :: u32
  nei_old_address :: u32
  nei_enrolled :: bool
  nei_average_rtt_in_ms :: u32
  nei_under_port_id :: u32
  nei_intern_port_id :: u32
  nei_last_heard_time_ms :: u32
  nei_num_enroll_attempts :: u32

definition ipcp_neighbor_create :: "dstate \<Rightarrow> ku_ipcp_neighbor ptr \<times> dstate" where
  "ipcp_neighbor_create = create_obj \<lparr>nei_ipcp_name = None, nei_sup_dif_name = None,
     nei_supporting_difs = [], nei_address = 0, nei_old_address = 0, nei_enrolled = False,
     nei_average_rtt_in_ms = 0, nei_under_port_id = 0, nei_intern_port_id = 0,
     nei_last_heard_time_ms = 0, nei_num_enroll_attempts = 0\<rparr>"

definition ipcp_neighbor_serlen :: "ku_ipcp_neighbor ptr \<Rightarrow> nat" where
  "ipcp_neighbor_serlen p =
     (case p of
        None \<Rightarrow> 0
      | Some x \<Rightarrow>
          4 * 4 + 1 + 3 * 4 + 2 + rina_name_serlen (nei_ipcp_name x)
            + rina_name_serlen (nei_sup_dif_name x)
            + sum_list (map rina_name_serlen (nei_supporting_difs x)))"

definition serialize_ipcp_neighbor :: "ku_ipcp_neighbor ptr \<Rightarrow> bytes" where
  "serialize_ipcp_neighbor p =
     (case p of
        None \<Rightarrow> []
      | Some x \<Rightarrow>
          serialize_u32 (nei_address x) @ serialize_u32 (nei_old_address x) @
          serialize_u32 (nei_average_rtt_in_ms x) @ serialize_u32 (nei_num_enroll_attempts x) @
          serialize_bool (nei_enrolled x) @ serialize_u32 (nei_under_port_id x) @
          serialize_u32 (nei_intern_port_id x) @ serialize_u32 (nei_last_heard_time_ms x) @
          serialize_rina_name (nei_ipcp_name x) @ serialize_rina_name (nei_sup_dif_name x) @
          serialize_list serialize_rina_name (nei_supporting_difs x))"

definition deserialize_ipcp_neighbor :: "ku_ipcp_neighbor step" where
  "deserialize_ipcp_neighbor = run_steps
     [des_u32 nei_address_update, des_u32 nei_old_address_update,
      des_u32 nei_average_rtt_in_ms_update, des_u32 nei_num_enroll_attempts_update,
      des_bool nei_enrolled_update, des_u32 nei_under_port_id_update,
      des_u32 nei_intern_port_id_update, des_u32 nei_last_heard_time_ms_update,
      des_ignore (des_field deserialize_rina_name nei_ipcp_name_update),
      des_ignore (des_field deserialize_rina_name nei_sup_dif_name_update),
      des_list (des_entry deserialize_rina_name) nei_supporting_difs_update]"

definition ipcp_neighbor_free :: "ku_ipcp_neighbor ptr \<Rightarrow> nat" where
  "ipcp_neighbor_free p =
     (case p of
        None \<Rightarrow> 0
      | Some x \<Rightarrow>
          rina_name_free (nei_ipcp_name x) + rina_name_free (nei_sup_dif_name x) +
          sum_list (map (\<lambda>e. Suc (rina_name_free e)) (nei_supporting_difs x)) + 1)"

record ku_ipcp_neigh_list =
  neil_ipcp_neighbors :: "ku_ipcp_neighbor ptr list"

definition ipcp_neigh_list_create :: "dstate \<Rightarrow> ku_ipcp_neigh_list ptr \<times> dstate" where
  "ipcp_neigh_list_create = create_obj \<lparr>neil_ipcp_neighbors = []\<rparr>"

definition ipcp_neigh_list_serlen :: "ku_ipcp_neigh_list ptr \<Rightarrow> nat" where
  "ipcp_neigh_list_serlen p =
     (case p of None \<Rightarrow> 0 | Some x \<Rightarrow> 2 + sum_list (map ipcp_neighbor_serlen (neil_ipcp_neighbors x)))"

definition serialize_ipcp_neigh_list :: "ku_ipcp_neigh_list ptr \<Rightarrow> bytes" where
  "serialize_ipcp_neigh_list p =
     (case p of None \<Rightarrow> [] | Some x \<Rightarrow> serialize_list serialize_ipcp_neighbor (neil_ipcp_neighbors x))"

definition deserialize_ipcp_neigh_list :: "ku_ipcp_neigh_list ptr reader" where
  "deserialize_ipcp_neigh_list = des_new ipcp_neigh_list_create (run_steps
     [des_list (des_entry (des_new ipcp_neighbor_create deserialize_ipcp_neighbor))
        neil_ipcp_neighbors_update])"

definition ipcp_neigh_list_free :: "ku_ipcp_neigh_list ptr \<Rightarrow> nat" where
  "ipcp_neigh_list_free p =
     (case p of None \<Rightarrow> 0 | Some x \<Rightarrow> sum_list (map (\<lambda>e. Suc (ipcp_neighbor_free e)) (neil_ipcp_neighbors x)) + 1)"

record ku_bs_info_entry =
  bie_signal_strength :: u32
  bie_ipcp_addr :: "cstr ptr"

definition bs_info_entry_create :: "dstate \<Rightarrow> ku_bs_info_entry ptr \<times> dstate" where
  "bs_info_entry_create = create_obj \<lparr>bie_signal_strength = 0, bie_ipcp_addr = None\<rparr>"

definition bs_info_entry_serlen :: "ku_bs_info_entry ptr \<Rightarrow> nat" where
  "bs_info_entry_serlen p =
     (case p of
        None \<Rightarrow> 0
      | Some x \<Rightarrow> 4 + 2 + string_prlen (bie_ipcp_addr x))"

definition serialize_bs_info_entry :: "ku_bs_info_entry ptr \<Rightarrow> bytes" where
  "serialize_bs_info_entry p =
     (case p of
        None \<Rightarrow> []
      | Some x \<Rightarrow> serialize_u32 (bie_signal_strength x) @ serialize_string (bie_ipcp_addr x))"

definition deserialize_bs_info_entry :: "ku_bs_info_entry step" where
  "deserialize_bs_info_entry = run_steps
     [des_u32 bie_signal_strength_update, des_field deserialize_string bie_ipcp_addr_update]"

definition bs_info_entry_free :: "ku_bs_info_entry ptr \<Rightarrow> nat" where
  "bs_info_entry_free p =
     (case p of
        None \<Rightarrow> 0
      | Some x \<Rightarrow> free_ptr (bie_ipcp_addr x) + 1)"

record ku_media_dif_info =
  mdi_dif_name :: "cstr ptr"
  mdi_sec_policies :: "cstr ptr"
  mdi_available_bs_ipcps :: "ku_bs_info_entry ptr list"

definition media_dif_info_create :: "dstate \<Rightarrow> ku_media_dif_info ptr \<times> dstate" where
  "media_dif_info_create = create_obj
     \<lparr>mdi_dif_name = None, mdi_sec_policies = None, mdi_available_bs_ipcps = []\<rparr>"

definition media_dif_info_serlen :: "ku_media_dif_info ptr \<Rightarrow> nat" where
  "media_dif_info_serlen p =
     (case p of
        None \<Rightarrow> 0
      | Some x \<Rightarrow>
          3 * 2 + string_prlen (mdi_dif_name x) + string_prlen (mdi_sec_policies x)
            + sum_list (map bs_info_entry_serlen (mdi_available_bs_ipcps x)))"

definition serialize_media_dif_info :: "ku_media_dif_info ptr \<Rightarrow> bytes" where
  "serialize_media_dif_info p =
     (case p of
        None \<Rightarrow> []
      | Some x \<Rightarrow>
          serialize_string (mdi_dif_name x) @ serialize_string (mdi_sec_policies x) @
          serialize_list serialize_bs_info_entry (mdi_available_bs_ipcps x))"

definition deserialize_media_dif_info :: "ku_media_dif_info step" where
  "deserialize_media_dif_info = run_steps
     [des_field deserialize_string mdi_dif_name_update,
      des_field deserialize_string mdi_sec_policies_update,
      des_list (des_new bs_info_entry_create deserialize_bs_info_entry)
        mdi_available_bs_ipcps_update]"

definition media_dif_info_free :: "ku_media_dif_info ptr \<Rightarrow> nat" where
  "media_dif_info_free p =
     (case p of
        None \<Rightarrow> 0
      | Some x \<Rightarrow>
          free_ptr (mdi_dif_name x) + free_ptr (mdi_sec_policies x) +
          sum_list (map bs_info_entry_free (mdi_available_bs_ipcps x)) + 1)"

text \<open>An entry of the report has the name of the DIF beside its description.\<close>

record ku_media_info_entry =
  mie_entry :: "ku_media_dif_info ptr"
  mie_dif_name :: "cstr ptr"

record ku_media_report =
  mre_ipcp_id :: u16
  mre_dif_name :: "cstr ptr"
  mre_bs_ipcp_addr :: "cstr ptr"
  mre_available_difs :: "ku_media_info_entry ptr list"

definition media_report_create :: "dstate \<Rightarrow> ku_media_report ptr \<times> dstate" where
  "media_report_create = create_obj \<lparr>mre_ipcp_id = 0, mre_dif_name = None,
     mre_bs_ipcp_addr = None, mre_available_difs = []\<rparr>"

definition media_info_entry_serlen :: "ku_media_info_entry ptr \<Rightarrow> nat" where
  "media_info_entry_serlen p =
     (case p of
        None \<Rightarrow> 0
      | Some x \<Rightarrow> 2 + string_prlen (mie_dif_name x) + media_dif_info_serlen (mie_entry x))"

definition media_report_serlen :: "ku_media_report ptr \<Rightarrow> nat" where
  "media_report_serlen p =
     (case p of
        None \<Rightarrow> 0
      | Some x \<Rightarrow>
          3 * 2 + string_prlen (mre_dif_name x) + string_prlen (mre_bs_ipcp_addr x) + 2
            + sum_list (map media_info_entry_serlen (mre_available_difs x)))"

definition serialize_media_info_entry :: "ku_media_info_entry ptr \<Rightarrow> bytes" where
  "serialize_media_info_entry p =
     (case p of
        None \<Rightarrow> []
      | Some x \<Rightarrow> serialize_string (mie_dif_name x) @ serialize_media_dif_info (mie_entry x))"

definition serialize_media_report :: "ku_media_report ptr \<Rightarrow> bytes" where
  "serialize_media_report p =
     (case p of
        None \<Rightarrow> []
      | Some x \<Rightarrow>
          serialize_u16 (mre_ipcp_id x) @ serialize_string (mre_dif_name x) @
          serialize_string (mre_bs_ipcp_addr x) @
          serialize_list serialize_media_info_entry (mre_available_difs x))"

definition new_media_info_entry :: "ku_media_info_entry ptr reader" where
  "new_media_info_entry =
     des_new (create_obj \<lparr>mie_entry = None, mie_dif_name = None\<rparr>) (run_steps
       [des_field deserialize_string mie_dif_name_update,
        des_field (des_new media_dif_info_create deserialize_media_dif_info) mie_entry_update])"

definition deserialize_media_report :: "ku_media_report ptr reader" where
  "deserialize_media_report = des_new media_report_create (run_steps
     [des_u16 mre_ipcp_id_update,
      des_field deserialize_string mre_dif_name_update,
      des_field deserialize_string mre_bs_ipcp_addr_update,
      des_list new_media_info_entry mre_available_difs_update])"

definition media_info_entry_free :: "ku_media_info_entry ptr \<Rightarrow> nat" where
  "media_info_entry_free p =
     (case p of
        None \<Rightarrow> 0
      | Some x \<Rightarrow> free_ptr (mie_dif_name x) + media_dif_info_free (mie_entry x) + 1)"

definition media_report_free :: "ku_media_report ptr \<Rightarrow> nat" where
  "media_report_free p =
     (case p of
        None \<Rightarrow> 0
      | Some x \<Rightarrow>
          free_ptr (mre_dif_name x) + free_ptr (mre_bs_ipcp_addr x) +
          sum_list (map media_info_entry_free (mre_available_difs x)) + 1)"

section \<open>Codecs\<close>

definition rib_object_data_ok :: "ku_rib_object_data ptr \<Rightarrow> bool" where
  "rib_object_data_ok p \<longleftrightarrow>
     (case p of
        None \<Rightarrow> False
      | Some x \<Rightarrow> str_ok (rod_clazz x) \<and> str_ok (rod_name x) \<and> str_ok (rod_disp_value x))"

definition rib_object_data_recv :: "ku_rib_object_data ptr \<Rightarrow> ku_rib_object_data ptr" where
  "rib_object_data_recv = map_option (\<lambda>x. x\<lparr>rod_clazz := str_recv (rod_clazz x),
    rod_name := str_recv (rod_name x), rod_disp_value := str_recv (rod_disp_value x)\<rparr>)"

interpretation rod: codec serialize_rib_object_data rib_object_data_serlen
  "des_new rib_object_data_create deserialize_rib_object_data"
  rib_object_data_free rib_object_data_ok rib_object_data_recv
  by unfold_locales
    (auto simp: des_simps
      rib_object_data_ok_def serialize_rib_object_data_def rib_object_data_serlen_def
        deserialize_rib_object_data_def rib_object_data_free_def rib_object_data_create_def
        rib_object_data_recv_def
      split: option.splits)

lemmas rod_laws [simp] = rod.field rod.ser_len

definition query_rib_resp_ok :: "ku_query_rib_resp ptr \<Rightarrow> bool" where
  "query_rib_resp_ok p \<longleftrightarrow>
     (case p of
        None \<Rightarrow> False
      | Some x \<Rightarrow> list_all rib_object_data_ok (qrr_rib_object_data_entries x) \<and> length (qrr_rib_object_data_entries x) < 65536)"

definition query_rib_resp_recv :: "ku_query_rib_resp ptr \<Rightarrow> ku_query_rib_resp ptr" where
  "query_rib_resp_recv = map_option (\<lambda>x. x\<lparr>
     qrr_rib_object_data_entries := map rib_object_data_recv (qrr_rib_object_data_entries x)\<rparr>)"

interpretation qrr: codec serialize_query_rib_resp query_rib_resp_serlen
  deserialize_query_rib_resp query_rib_resp_free query_rib_resp_ok query_rib_resp_recv
  by unfold_locales
    (auto simp: des_new_create query_rib_resp_ok_def serialize_query_rib_resp_def
      query_rib_resp_serlen_def deserialize_query_rib_resp_def query_rib_resp_free_def
      query_rib_resp_create_def query_rib_resp_recv_def list_all_iff rod.counted
      rod.counted_len comp_def
      split: option.splits)

definition port_id_altlist_ok :: "ku_port_id_altlist ptr \<Rightarrow> bool" where
  "port_id_altlist_ok p \<longleftrightarrow>
     (case p of
        None \<Rightarrow> False
      | Some x \<Rightarrow>
          (case pia_ports x of
             None \<Rightarrow> pia_num_ports x = 0
           | Some a \<Rightarrow> unat (pia_num_ports x) * 4 \<le> length a))"

definition port_id_altlist_recv :: "ku_port_id_altlist ptr \<Rightarrow> ku_port_id_altlist ptr" where
  "port_id_altlist_recv = map_option (\<lambda>x. x\<lparr>pia_ports :=
     (if pia_num_ports x = 0 then None
      else map_option (take (unat (pia_num_ports x) * 4)) (pia_ports x))\<rparr>)"

interpretation pia: codec serialize_port_id_altlist port_id_altlist_serlen
  "des_new port_id_altlist_create deserialize_port_id_altlist"
  port_id_altlist_free port_id_altlist_ok port_id_altlist_recv
  by unfold_locales
    (auto simp: des_new_create port_id_altlist_ok_def serialize_port_id_altlist_def
      port_id_altlist_serlen_def deserialize_port_id_altlist_def port_id_altlist_free_def
      port_id_altlist_create_def port_id_altlist_recv_def Let_def word_gt_0 unat_gt_0 unat_eq_0
      min_def
      split: option.splits)

definition mod_pff_entry_ok :: "ku_mod_pff_entry ptr \<Rightarrow> bool" where
  "mod_pff_entry_ok p \<longleftrightarrow>
     (case p of
        None \<Rightarrow> False
      | Some x \<Rightarrow>
          list_all port_id_altlist_ok (pffe_port_id_altlists x) \<and>
          length (pffe_port_id_altlists x) < 65536)"

definition mod_pff_entry_recv :: "ku_mod_pff_entry ptr \<Rightarrow> ku_mod_pff_entry ptr" where
  "mod_pff_entry_recv = map_option (\<lambda>x. x\<lparr>
     pffe_port_id_altlists := map port_id_altlist_recv (pffe_port_id_altlists x)\<rparr>)"

interpretation pffe: codec serialize_mod_pff_entry mod_pff_entry_serlen
  "des_new mod_pff_entry_create deserialize_mod_pff_entry"
  mod_pff_entry_free mod_pff_entry_ok mod_pff_entry_recv
  by unfold_locales
    (auto simp: des_new_create mod_pff_entry_ok_def serialize_mod_pff_entry_def
      mod_pff_entry_serlen_def deserialize_mod_pff_entry_def mod_pff_entry_free_def
      mod_pff_entry_create_def mod_pff_entry_recv_def list_all_iff pia.counted pia.counted_len
      comp_def
      split: option.splits)

definition pff_entry_list_ok :: "ku_pff_entry_list ptr \<Rightarrow> bool" where
  "pff_entry_list_ok p \<longleftrightarrow>
     (case p of
        None \<Rightarrow> False
      | Some x \<Rightarrow> list_all mod_pff_entry_ok (pel_pff_entries x) \<and> length (pel_pff_entries x) < 65536)"

definition pff_entry_list_recv :: "ku_pff_entry_list ptr \<Rightarrow> ku_pff_entry_list ptr" where
  "pff_entry_list_recv = map_option (\<lambda>x. x\<lparr>
     pel_pff_entries := map mod_pff_entry_recv (pel_pff_entries x)\<rparr>)"

interpretation pel: codec serialize_pff_entry_list pff_entry_list_serlen
  deserialize_pff_entry_list pff_entry_list_free pff_entry_list_ok pff_entry_list_recv
  by unfold_locales
    (auto simp: des_new_create pff_entry_list_ok_def serialize_pff_entry_list_def
      pff_entry_list_serlen_def deserialize_pff_entry_list_def pff_entry_list_free_def
      pff_entry_list_create_def pff_entry_list_recv_def list_all_iff pffe.counted
      pffe.counted_len comp_def
      split: option.splits)

definition sdup_crypto_state_ok :: "ku_sdup_crypto_state ptr \<Rightarrow> bool" where
  "sdup_crypto_state_ok p \<longleftrightarrow>
     (case p of
        None \<Rightarrow> False
      | Some x \<Rightarrow> str_ok (scs_mac_alg x) \<and> buf_ok (scs_mac_key_tx x) \<and>
               buf_ok (scs_mac_key_rx x) \<and> str_ok (scs_enc_alg x) \<and>
               buf_ok (scs_encrypt_key_tx x) \<and> buf_ok (scs_encrypt_key_rx x) \<and>
               buf_ok (scs_iv_tx x) \<and> buf_ok (scs_iv_rx x) \<and> str_ok (scs_compress_alg x))"

definition sdup_crypto_state_recv :: "ku_sdup_crypto_state ptr \<Rightarrow> ku_sdup_crypto_state ptr" where
  "sdup_crypto_state_recv = map_option (\<lambda>x. x\<lparr>scs_mac_alg := str_recv (scs_mac_alg x),
    scs_mac_key_tx := buf_recv (scs_mac_key_tx x), scs_mac_key_rx := buf_recv (scs_mac_key_rx x),
    scs_enc_alg := str_recv (scs_enc_alg x),
    scs_encrypt_key_tx := buf_recv (scs_encrypt_key_tx x),
    scs_encrypt_key_rx := buf_recv (scs_encrypt_key_rx x), scs_iv_tx := buf_recv (scs_iv_tx x),
    scs_iv_rx := buf_recv (scs_iv_rx x),
    scs_compress_alg := str_recv (scs_compress_alg x)\<rparr>)"

interpretation scs: codec serialize_sdup_crypto_state sdup_crypto_state_serlen
  deserialize_sdup_crypto_state
  sdup_crypto_state_free sdup_crypto_state_ok sdup_crypto_state_recv
  by unfold_locales
    (auto simp: des_simps
      sdup_crypto_state_ok_def serialize_sdup_crypto_state_def sdup_crypto_state_serlen_def
        deserialize_sdup_crypto_state_def sdup_crypto_state_free_def sdup_crypto_state_create_def
        sdup_crypto_state_recv_def
      split: option.splits)

lemmas scs_laws [simp] = scs.field scs.ser_len

lemmas name_laws [simp] = name.field name.ser_len

definition dif_properties_entry_ok :: "ku_dif_properties_entry ptr \<Rightarrow> bool" where
  "dif_properties_entry_ok p \<longleftrightarrow>
     (case p of
        None \<Rightarrow> False
      | Some x \<Rightarrow> name_ok (dpe_dif_name x))"

definition dif_properties_entry_recv :: "ku_dif_properties_entry ptr \<Rightarrow> ku_dif_properties_entry ptr" where
  "dif_properties_entry_recv = map_option (\<lambda>x. x\<lparr>
    dpe_dif_name := name_recv (dpe_dif_name x)\<rparr>)"

interpretation dpe: codec serialize_dif_properties_entry dif_properties_entry_serlen
  "des_new dif_properties_entry_create deserialize_dif_properties_entry"
  dif_properties_entry_free dif_properties_entry_ok dif_properties_entry_recv
  by unfold_locales
    (auto simp: des_simps
      dif_properties_entry_ok_def serialize_dif_properties_entry_def
        dif_properties_entry_serlen_def deserialize_dif_properties_entry_def
        dif_properties_entry_free_def dif_properties_entry_create_def
        dif_properties_entry_recv_def
      split: option.splits)

lemmas dpe_laws [simp] = dpe.field dpe.ser_len

definition get_dif_prop_resp_ok :: "ku_get_dif_prop_resp ptr \<Rightarrow> bool" where
  "get_dif_prop_resp_ok p \<longleftrightarrow>
     (case p of
        None \<Rightarrow> False
      | Some x \<Rightarrow> list_all dif_properties_entry_ok (gdp_dif_propery_entries x) \<and> length (gdp_dif_propery_entries x) < 65536)"

definition get_dif_prop_resp_recv :: "ku_get_dif_prop_resp ptr \<Rightarrow> ku_get_dif_prop_resp ptr" where
  "get_dif_prop_resp_recv = map_option (\<lambda>x. x\<lparr>
     gdp_dif_propery_entries := map dif_properties_entry_recv (gdp_dif_propery_entries x)\<rparr>)"

interpretation gdp: codec serialize_get_dif_prop_resp get_dif_prop_resp_serlen
  deserialize_get_dif_prop_resp get_dif_prop_resp_free get_dif_prop_resp_ok get_dif_prop_resp_recv
  by unfold_locales
    (auto simp: des_new_create get_dif_prop_resp_ok_def serialize_get_dif_prop_resp_def
      get_dif_prop_resp_serlen_def deserialize_get_dif_prop_resp_def get_dif_prop_resp_free_def
      get_dif_prop_resp_create_def get_dif_prop_resp_recv_def list_all_iff dpe.counted
      dpe.counted_len comp_def
      split: option.splits)

definition ipcp_neighbor_ok :: "ku_ipcp_neighbor ptr \<Rightarrow> bool" where
  "ipcp_neighbor_ok p \<longleftrightarrow>
     (case p of
        None \<Rightarrow> False
      | Some x \<Rightarrow>
          name_ok (nei_ipcp_name x) \<and> name_ok (nei_sup_dif_name x) \<and>
          list_all name_ok (nei_supporting_difs x) \<and> length (nei_supporting_difs x) < 65536)"

definition ipcp_neighbor_recv :: "ku_ipcp_neighbor ptr \<Rightarrow> ku_ipcp_neighbor ptr" where
  "ipcp_neighbor_recv = map_option (\<lambda>x. x\<lparr>nei_ipcp_name := name_recv (nei_ipcp_name x),
     nei_sup_dif_name := name_recv (nei_sup_dif_name x),
     nei_supporting_difs := map name_recv (nei_supporting_difs x)\<rparr>)"

interpretation name_entry: codec serialize_rina_name rina_name_serlen
  "des_entry deserialize_rina_name" "\<lambda>e. Suc (rina_name_free e)" name_ok name_recv
  by (rule entry_codec) (rule name.codec_axioms)

interpretation nei: codec serialize_ipcp_neighbor ipcp_neighbor_serlen
  "des_new ipcp_neighbor_create deserialize_ipcp_neighbor"
  ipcp_neighbor_free ipcp_neighbor_ok ipcp_neighbor_recv
  by unfold_locales
    (auto simp: des_new_create ipcp_neighbor_ok_def serialize_ipcp_neighbor_def
      ipcp_neighbor_serlen_def deserialize_ipcp_neighbor_def ipcp_neighbor_free_def
      ipcp_neighbor_create_def ipcp_neighbor_recv_def des_ignore_def list_all_iff name.field
      name.ser_len name_entry.counted name_entry.counted_len comp_def
      split: option.splits)

interpretation nei_entry: codec serialize_ipcp_neighbor ipcp_neighbor_serlen
  "des_entry (des_new ipcp_neighbor_create deserialize_ipcp_neighbor)"
  "\<lambda>e. Suc (ipcp_neighbor_free e)" ipcp_neighbor_ok ipcp_neighbor_recv
  by (rule entry_codec) (rule nei.codec_axioms)

definition ipcp_neigh_list_ok :: "ku_ipcp_neigh_list ptr \<Rightarrow> bool" where
  "ipcp_neigh_list_ok p \<longleftrightarrow>
     (case p of
        None \<Rightarrow> False
      | Some x \<Rightarrow> list_all ipcp_neighbor_ok (neil_ipcp_neighbors x) \<and> length (neil_ipcp_neighbors x) < 65536)"

definition ipcp_neigh_list_recv :: "ku_ipcp_neigh_list ptr \<Rightarrow> ku_ipcp_neigh_list ptr" where
  "ipcp_neigh_list_recv = map_option (\<lambda>x. x\<lparr>
     neil_ipcp_neighbors := map ipcp_neighbor_recv (neil_ipcp_neighbors x)\<rparr>)"

interpretation neil: codec serialize_ipcp_neigh_list ipcp_neigh_list_serlen
  deserialize_ipcp_neigh_list ipcp_neigh_list_free ipcp_neigh_list_ok ipcp_neigh_list_recv
  by unfold_locales
    (auto simp: des_new_create ipcp_neigh_list_ok_def serialize_ipcp_neigh_list_def
      ipcp_neigh_list_serlen_def deserialize_ipcp_neigh_list_def ipcp_neigh_list_free_def
      ipcp_neigh_list_create_def ipcp_neigh_list_recv_def list_all_iff nei_entry.counted
      nei_entry.counted_len comp_def
      split: option.splits)

definition bs_info_entry_ok :: "ku_bs_info_entry ptr \<Rightarrow> bool" where
  "bs_info_entry_ok p \<longleftrightarrow>
     (case p of
        None \<Rightarrow> False
      | Some x \<Rightarrow> str_ok (bie_ipcp_addr x))"

definition bs_info_entry_recv :: "ku_bs_info_entry ptr \<Rightarrow> ku_bs_info_entry ptr" where
  "bs_info_entry_recv = map_option (\<lambda>x. x\<lparr>bie_ipcp_addr := str_recv (bie_ipcp_addr x)\<rparr>)"

interpretation bie: codec serialize_bs_info_entry bs_info_entry_serlen
  "des_new bs_info_entry_create deserialize_bs_info_entry"
  bs_info_entry_free bs_info_entry_ok bs_info_entry_recv
  by unfold_locales
    (auto simp: des_simps
      bs_info_entry_ok_def serialize_bs_info_entry_def bs_info_entry_serlen_def
        deserialize_bs_info_entry_def bs_info_entry_free_def bs_info_entry_create_def
        bs_info_entry_recv_def
      split: option.splits)

lemmas bie_laws [simp] = bie.field bie.ser_len

definition media_dif_info_ok :: "ku_media_dif_info ptr \<Rightarrow> bool" where
  "media_dif_info_ok p \<longleftrightarrow>
     (case p of
        None \<Rightarrow> False
      | Some x \<Rightarrow>
          str_ok (mdi_dif_name x) \<and> str_ok (mdi_sec_policies x) \<and>
          list_all bs_info_entry_ok (mdi_available_bs_ipcps x) \<and>
          length (mdi_available_bs_ipcps x) < 65536)"

definition media_dif_info_recv :: "ku_media_dif_info ptr \<Rightarrow> ku_media_dif_info ptr" where
  "media_dif_info_recv = map_option (\<lambda>x. x\<lparr>mdi_dif_name := str_recv (mdi_dif_name x),
     mdi_sec_policies := str_recv (mdi_sec_policies x),
     mdi_available_bs_ipcps := map bs_info_entry_recv (mdi_available_bs_ipcps x)\<rparr>)"

interpretation mdi: codec serialize_media_dif_info media_dif_info_serlen
  "des_new media_dif_info_create deserialize_media_dif_info"
  media_dif_info_free media_dif_info_ok media_dif_info_recv
  by unfold_locales
    (auto simp: des_new_create media_dif_info_ok_def serialize_media_dif_info_def
      media_dif_info_serlen_def deserialize_media_dif_info_def media_dif_info_free_def
      media_dif_info_create_def media_dif_info_recv_def list_all_iff bie.counted bie.counted_len
      comp_def
      split: option.splits)

definition media_info_entry_ok :: "ku_media_info_entry ptr \<Rightarrow> bool" where
  "media_info_entry_ok p \<longleftrightarrow>
     (case p of
        None \<Rightarrow> False
      | Some x \<Rightarrow> str_ok (mie_dif_name x) \<and> media_dif_info_ok (mie_entry x))"

definition media_info_entry_recv :: "ku_media_info_entry ptr \<Rightarrow> ku_media_info_entry ptr" where
  "media_info_entry_recv = map_option (\<lambda>x. x\<lparr>mie_dif_name := str_recv (mie_dif_name x),
     mie_entry := media_dif_info_recv (mie_entry x)\<rparr>)"

interpretation mie: codec serialize_media_info_entry media_info_entry_serlen
  new_media_info_entry media_info_entry_free media_info_entry_ok media_info_entry_recv
  by unfold_locales
    (auto simp: des_new_create media_info_entry_ok_def serialize_media_info_entry_def
      media_info_entry_serlen_def new_media_info_entry_def media_info_entry_free_def
      media_info_entry_recv_def mdi.field mdi.ser_len
      split: option.splits)

definition media_report_ok :: "ku_media_report ptr \<Rightarrow> bool" where
  "media_report_ok p \<longleftrightarrow>
     (case p of
        None \<Rightarrow> False
      | Some x \<Rightarrow>
          str_ok (mre_dif_name x) \<and> str_ok (mre_bs_ipcp_addr x) \<and>
          list_all media_info_entry_ok (mre_available_difs x) \<and>
          length (mre_available_difs x) < 65536)"

definition media_report_recv :: "ku_media_report ptr \<Rightarrow> ku_media_report ptr" where
  "media_report_recv = map_option (\<lambda>x. x\<lparr>mre_dif_name := str_recv (mre_dif_name x),
     mre_bs_ipcp_addr := str_recv (mre_bs_ipcp_addr x),
     mre_available_difs := map media_info_entry_recv (mre_available_difs x)\<rparr>)"

interpretation mre: codec serialize_media_report media_report_serlen
  deserialize_media_report media_report_free media_report_ok media_report_recv
  by unfold_locales
    (auto simp: des_new_create media_report_ok_def serialize_media_report_def
      media_report_serlen_def deserialize_media_report_def media_report_free_def
      media_report_create_def media_report_recv_def list_all_iff mie.counted mie.counted_len
      comp_def
      split: option.splits)

end
