(* ===== verification/Serdes_Msg.thy ===== *)
theory Serdes_Msg
  imports Serdes_Layout Serdes_Dif Serdes_Lists
begin

text \<open>
  Whole control messages, \<^verbatim>\<open>common/serdes-utils.c\<close>: \<^verbatim>\<open>serialize_irati_msg\<close>, \<^verbatim>\<open>irati_msg_serlen\<close>,
  \<^verbatim>\<open>deserialize_irati_msg\<close> and \<^verbatim>\<open>irati_msg_free\<close>, as the kernel is built.

  A message is the memory of its structure: the bytes of the copied part, which start with the
  16 bits of the message type, and the pointers that follow, one list for each kind of object.
\<close>

section \<open>Messages\<close>

record irati_msg =
  m_copied :: bytes
  m_names :: "ku_name ptr list"
  m_strings :: "cstr ptr list"
  m_flow_specs :: "ku_flow_spec ptr list"
  m_dif_configs :: "ku_dif_config ptr list"
  m_dtp_configs :: "ku_dtp_config ptr list"
  m_dtcp_configs :: "ku_dtcp_config ptr list"
  m_query_rib_resps :: "ku_query_rib_resp ptr list"
  m_pff_entry_lists :: "ku_pff_entry_list ptr list"
  m_sdup_crypto_states :: "ku_sdup_crypto_state ptr list"
  m_dif_properties :: "ku_get_dif_prop_resp ptr list"
  m_ipcp_neigh_lists :: "ku_ipcp_neigh_list ptr list"
  m_media_reports :: "ku_media_report ptr list"
  m_buffers :: "bytes ptr list"

definition msg_type :: "irati_msg \<Rightarrow> nat" where
  "msg_type m = unat (of_le (take 2 (m_copied m)) :: u16)"

definition msg_bytes :: "irati_msg \<Rightarrow> bytes" where
  "msg_bytes m =
     m_copied m @
     concat (map serialize_rina_name (m_names m)) @
     concat (map serialize_string (m_strings m)) @
     concat (map serialize_flow_spec (m_flow_specs m)) @
     concat (map serialize_dif_config (m_dif_configs m)) @
     concat (map serialize_dtp_config (m_dtp_configs m)) @
     concat (map serialize_dtcp_config (m_dtcp_configs m)) @
     concat (map serialize_query_rib_resp (m_query_rib_resps m)) @
     concat (map serialize_pff_entry_list (m_pff_entry_lists m)) @
     concat (map serialize_sdup_crypto_state (m_sdup_crypto_states m)) @
     concat (map serialize_get_dif_prop_resp (m_dif_properties m)) @
     concat (map serialize_ipcp_neigh_list (m_ipcp_neigh_lists m)) @
     concat (map serialize_media_report (m_media_reports m)) @
     concat (map serialize_buffer (m_buffers m))"

definition serialize_irati_msg :: "(nat \<Rightarrow> irati_msg_layout) \<Rightarrow> nat \<Rightarrow> irati_msg \<Rightarrow> int \<times> bytes" where
  "serialize_irati_msg numtables num_entries m =
     (if msg_type m \<ge> num_entries then (-1, [])
      else (int (length (msg_bytes m)), msg_bytes m))"

text \<open>The size of a buffer is read without a check for NULL.\<close>

definition buffers_serlen :: "bytes ptr list \<Rightarrow> nat option" where
  "buffers_serlen bfs =
     (if None \<in> set bfs then None else Some (sum_list (map (\<lambda>b. 4 + length (the b)) bfs)))"

definition objects_serlen :: "irati_msg \<Rightarrow> nat" where
  "objects_serlen m =
     sum_list (map rina_name_serlen (m_names m)) +
     sum_list (map (\<lambda>s. 2 + string_prlen s) (m_strings m)) +
     sum_list (map flow_spec_serlen (m_flow_specs m)) +
     sum_list (map dif_config_serlen (m_dif_configs m)) +
     sum_list (map dtp_config_serlen (m_dtp_configs m)) +
     sum_list (map dtcp_config_serlen (m_dtcp_configs m)) +
     sum_list (map query_rib_resp_serlen (m_query_rib_resps m)) +
     sum_list (map pff_entry_list_serlen (m_pff_entry_lists m)) +
     sum_list (map sdup_crypto_state_serlen (m_sdup_crypto_states m)) +
     sum_list (map get_dif_prop_resp_serlen (m_dif_properties m)) +
     sum_list (map ipcp_neigh_list_serlen (m_ipcp_neigh_lists m)) +
     sum_list (map media_report_serlen (m_media_reports m))"

definition irati_msg_serlen :: "(nat \<Rightarrow> irati_msg_layout) \<Rightarrow> nat \<Rightarrow> irati_msg \<Rightarrow> u32 option" where
  "irati_msg_serlen numtables num_entries m =
     (if msg_type m \<ge> num_entries then Some (-1)
      else (case buffers_serlen (m_buffers m) of
              None \<Rightarrow> None
            | Some k \<Rightarrow>
                Some (of_nat (l_copylen (numtables (msg_type m)) + objects_serlen m + k))))"

text \<open>
  Releasing the objects of a message. The test before a string is released looks at the address of
  the pointer, so that a NULL string reaches \<^verbatim>\<open>rkfree\<close>, which stops the kernel: the outcome
  \<open>None\<close>. The block of the message itself is left to the caller.
\<close>

definition irati_msg_free :: "(nat \<Rightarrow> irati_msg_layout) \<Rightarrow> nat \<Rightarrow> irati_msg \<Rightarrow> nat option" where
  "irati_msg_free numtables num_entries m =
     (if msg_type m \<ge> num_entries then Some 0
      else if None \<in> set (m_strings m) then None
      else Some (sum_list (map rina_name_free (m_names m)) +
                 length (m_strings m) +
                 sum_list (map flow_spec_free (m_flow_specs m)) +
                 sum_list (map dif_config_free (m_dif_configs m)) +
                 sum_list (map dtp_config_free (m_dtp_configs m)) +
                 sum_list (map dtcp_config_free (m_dtcp_configs m)) +
                 sum_list (map query_rib_resp_free (m_query_rib_resps m)) +
                 sum_list (map pff_entry_list_free (m_pff_entry_lists m)) +
                 sum_list (map sdup_crypto_state_free (m_sdup_crypto_states m)) +
                 sum_list (map get_dif_prop_resp_free (m_dif_properties m)) +
                 sum_list (map ipcp_neigh_list_free (m_ipcp_neigh_lists m)) +
                 sum_list (map media_report_free (m_media_reports m)) +
                 sum_list (map buffer_destroy (m_buffers m))))"

text \<open>
  Reading. A slot is filled even when its reader fails; the slots behind it keep the NULL of the
  zeroed block.
\<close>

fun read_slots :: "nat \<Rightarrow> 'v ptr reader \<Rightarrow> dstate \<Rightarrow> (rc \<times> 'v ptr list \<times> dstate) option" where
  "read_slots 0 rd d = Some (0, [], d)"
| "read_slots (Suc k) rd d =
     (case rd d of
        None \<Rightarrow> None
      | Some (c, v, d') \<Rightarrow>
          if c \<noteq> 0 then Some (c, v # replicate k None, d')
          else (case read_slots k rd d' of
                  None \<Rightarrow> None
                | Some (c', vs, d'') \<Rightarrow> Some (c', v # vs, d'')))"

definition des_slots :: "nat \<Rightarrow> 'v ptr reader \<Rightarrow> (('v ptr list \<Rightarrow> 'v ptr list) \<Rightarrow> 'o \<Rightarrow> 'o) \<Rightarrow> 'o step" where
  "des_slots k rd upd x d =
     (case read_slots k rd d of None \<Rightarrow> None | Some (c, vs, d') \<Rightarrow> Some (c, upd (\<lambda>_. vs) x, d'))"

definition zero_msg :: "irati_msg_layout \<Rightarrow> bytes \<Rightarrow> irati_msg" where
  "zero_msg l bs = \<lparr>m_copied = bs,
     m_names = replicate (l_names l) None,
     m_strings = replicate (l_strings l) None,
     m_flow_specs = replicate (l_flow_specs l) None,
     m_dif_configs = replicate (l_dif_configs l) None,
     m_dtp_configs = replicate (l_dtp_configs l) None,
     m_dtcp_configs = replicate (l_dtcp_configs l) None,
     m_query_rib_resps = replicate (l_query_rib_resps l) None,
     m_pff_entry_lists = replicate (l_pff_entry_lists l) None,
     m_sdup_crypto_states = replicate (l_sdup_crypto_states l) None,
     m_dif_properties = replicate (l_dif_properties l) None,
     m_ipcp_neigh_lists = replicate (l_ipcp_neigh_lists l) None,
     m_media_reports = replicate (l_media_reports l) None,
     m_buffers = replicate (l_buffers l) None\<rparr>"

definition des_objects :: "rc \<Rightarrow> rc \<Rightarrow> irati_msg_layout \<Rightarrow> irati_msg step" where
  "des_objects ret1 ret l = run_steps
     [des_slots (l_names l) deserialize_rina_name m_names_update,
      des_slots (l_strings l) deserialize_string m_strings_update,
      des_slots (l_flow_specs l) deserialize_flow_spec m_flow_specs_update,
      des_slots (l_dif_configs l) (deserialize_dif_config ret1 ret) m_dif_configs_update,
      des_slots (l_dtp_configs l) deserialize_dtp_config m_dtp_configs_update,
      des_slots (l_dtcp_configs l) deserialize_dtcp_config m_dtcp_configs_update,
      des_slots (l_query_rib_resps l) deserialize_query_rib_resp m_query_rib_resps_update,
      des_slots (l_pff_entry_lists l) deserialize_pff_entry_list m_pff_entry_lists_update,
      des_slots (l_sdup_crypto_states l) deserialize_sdup_crypto_state m_sdup_crypto_states_update,
      des_slots (l_dif_properties l) deserialize_get_dif_prop_resp m_dif_properties_update,
      des_slots (l_ipcp_neigh_lists l) deserialize_ipcp_neigh_list m_ipcp_neigh_lists_update,
      des_slots (l_media_reports l) deserialize_media_report m_media_reports_update,
      des_slots (l_buffers l) deserialize_buffer m_buffers_update]"

text \<open>
  \<^verbatim>\<open>deserialize_irati_msg\<close>: the message, or NULL, and the number of blocks that stay allocated. The
  type is read before anything is checked; when an object cannot be read, or the message does not
  have the length of the buffer, the objects are released but the block of the message is not.
\<close>

definition drop_msg :: "(nat \<Rightarrow> irati_msg_layout) \<Rightarrow> nat \<Rightarrow> irati_msg \<Rightarrow> nat
    \<Rightarrow> (irati_msg ptr \<times> nat) option" where
  "drop_msg numtables num_entries m live =
     (case irati_msg_free numtables num_entries m of None \<Rightarrow> None | Some k \<Rightarrow> Some (None, live - k))"

definition deserialize_irati_msg :: "(nat \<Rightarrow> irati_msg_layout) \<Rightarrow> nat \<Rightarrow> rc \<Rightarrow> rc \<Rightarrow> allocs \<Rightarrow> bytes
    \<Rightarrow> nat \<Rightarrow> (irati_msg ptr \<times> nat) option" where
  "deserialize_irati_msg numtables num_entries ret1 ret ms serbuf serbuf_len =
     (case deserialize_obj 2 (serbuf, ms, 0) of
        None \<Rightarrow> None
      | Some (t :: u16, _) \<Rightarrow>
          if unat t \<ge> num_entries then Some (None, 0)
          else (case allocate_irati_msg (unat t) of
                  None \<Rightarrow> Some (None, 0)
                | Some s \<Rightarrow>
                    (let l = numtables (unat t); (ok, d) = common_alloc (serbuf, ms, 0)
                     in if \<not> ok then Some (None, 0)
                        else if layout_size l > sizeof s then None
                        else (case get_bytes (l_copylen l) d of
                                None \<Rightarrow> None
                              | Some (bs, d1) \<Rightarrow>
                                  (case des_objects ret1 ret l (zero_msg l bs) d1 of
                                     None \<Rightarrow> None
                                   | Some (c, m, desptr, _, live) \<Rightarrow>
                                       if c \<noteq> 0 \<or> length serbuf - length desptr \<noteq> serbuf_len
                                       then drop_msg numtables num_entries m live
                                       else Some (Some m, live))))))"

section \<open>Reading back a message\<close>

definition msg_ok :: "rc \<Rightarrow> irati_msg \<Rightarrow> bool" where
  "msg_ok ret m \<longleftrightarrow>
     list_all name_ok (m_names m) \<and>
     list_all str_ok (m_strings m) \<and>
     list_all flow_spec_ok (m_flow_specs m) \<and>
     list_all (dif_config_ok ret) (m_dif_configs m) \<and>
     list_all dtp_config_ok (m_dtp_configs m) \<and>
     list_all dtcp_config_ok (m_dtcp_configs m) \<and>
     list_all query_rib_resp_ok (m_query_rib_resps m) \<and>
     list_all pff_entry_list_ok (m_pff_entry_lists m) \<and>
     list_all sdup_crypto_state_ok (m_sdup_crypto_states m) \<and>
     list_all get_dif_prop_resp_ok (m_dif_properties m) \<and>
     list_all ipcp_neigh_list_ok (m_ipcp_neigh_lists m) \<and>
     list_all media_report_ok (m_media_reports m) \<and>
     list_all buf_ok (m_buffers m)"

definition msg_shape :: "irati_msg_layout \<Rightarrow> irati_msg \<Rightarrow> bool" where
  "msg_shape l m \<longleftrightarrow>
     length (m_copied m) = l_copylen l \<and>
     length (m_names m) = l_names l \<and>
     length (m_strings m) = l_strings l \<and>
     length (m_flow_specs m) = l_flow_specs l \<and>
     length (m_dif_configs m) = l_dif_configs l \<and>
     length (m_dtp_configs m) = l_dtp_configs l \<and>
     length (m_dtcp_configs m) = l_dtcp_configs l \<and>
     length (m_query_rib_resps m) = l_query_rib_resps l \<and>
     length (m_pff_entry_lists m) = l_pff_entry_lists l \<and>
     length (m_sdup_crypto_states m) = l_sdup_crypto_states l \<and>
     length (m_dif_properties m) = l_dif_properties l \<and>
     length (m_ipcp_neigh_lists m) = l_ipcp_neigh_lists l \<and>
     length (m_media_reports m) = l_media_reports l \<and>
     length (m_buffers m) = l_buffers l"

definition msg_recv :: "irati_msg \<Rightarrow> irati_msg" where
  "msg_recv m = m\<lparr>
     m_names := map name_recv (m_names m),
     m_strings := map str_recv (m_strings m),
     m_dif_configs := map dif_config_recv (m_dif_configs m),
     m_dtp_configs := map dtp_config_recv (m_dtp_configs m),
     m_dtcp_configs := map dtcp_config_recv (m_dtcp_configs m),
     m_query_rib_resps := map query_rib_resp_recv (m_query_rib_resps m),
     m_pff_entry_lists := map pff_entry_list_recv (m_pff_entry_lists m),
     m_sdup_crypto_states := map sdup_crypto_state_recv (m_sdup_crypto_states m),
     m_dif_properties := map get_dif_prop_resp_recv (m_dif_properties m),
     m_ipcp_neigh_lists := map ipcp_neigh_list_recv (m_ipcp_neigh_lists m),
     m_media_reports := map media_report_recv (m_media_reports m),
     m_buffers := map buf_recv (m_buffers m)\<rparr>"

lemma slots_items:
  "read_items k rd d = Some (0, vs, d') \<Longrightarrow> read_slots k rd d = Some (0, vs, d')"
  by (induction k arbitrary: d vs) (auto split: option.splits if_splits prod.splits)

lemma slots_codec:
  assumes "codec ser serlen rd blocks ok recv" "list_all ok xs" "k = length xs"
  shows "des_slots k rd upd obj (concat (map ser xs) @ rest, [], n) =
     Some (0, upd (\<lambda>_. map recv xs) obj, rest, [], n + sum_list (map blocks (map recv xs)))"
  using slots_items [OF codec.items [OF assms(1)], of xs rest n] assms(2,3)
  by (simp add: des_slots_def list_all_iff comp_def)

lemmas slot_fields =
  slots_codec [OF name.codec_axioms]
  slots_codec [OF str.codec_axioms]
  slots_codec [OF fs.codec_axioms]
  slots_codec [OF difc.codec_axioms]
  slots_codec [OF dtpc.codec_axioms]
  slots_codec [OF dtcpc.codec_axioms]
  slots_codec [OF qrr.codec_axioms]
  slots_codec [OF pel.codec_axioms]
  slots_codec [OF scs.codec_axioms]
  slots_codec [OF gdp.codec_axioms]
  slots_codec [OF neil.codec_axioms]
  slots_codec [OF mre.codec_axioms]
  slots_codec [OF buf.codec_axioms]

lemma items_length:
  assumes "codec ser serlen rd blocks ok recv" "list_all ok xs"
  shows "length (concat (map ser xs)) = sum_list (map serlen xs)"
  using codec.items_len [OF assms(1), of xs] assms(2) by (simp add: list_all_iff)

lemmas item_lengths =
  items_length [OF name.codec_axioms]
  items_length [OF str.codec_axioms]
  items_length [OF fs.codec_axioms]
  items_length [OF difc.codec_axioms]
  items_length [OF dtpc.codec_axioms]
  items_length [OF dtcpc.codec_axioms]
  items_length [OF qrr.codec_axioms]
  items_length [OF pel.codec_axioms]
  items_length [OF scs.codec_axioms]
  items_length [OF gdp.codec_axioms]
  items_length [OF neil.codec_axioms]
  items_length [OF mre.codec_axioms]
  items_length [OF buf.codec_axioms]

text \<open>The blocks allocated for the objects are those that their release frees.\<close>

lemma strings_freed: "sum_list (map free_ptr (map str_recv ss)) = length ss"
  by (induction ss) simp_all

lemma received_free:
  assumes "msg_type m < num_entries"
  shows "irati_msg_free nt num_entries (msg_recv m) =
    Some (sum_list (map rina_name_free (map name_recv (m_names m))) +
      sum_list (map free_ptr (map str_recv (m_strings m))) +
      sum_list (map flow_spec_free (map (\<lambda>p. p) (m_flow_specs m))) +
      sum_list (map dif_config_free (map dif_config_recv (m_dif_configs m))) +
      sum_list (map dtp_config_free (map dtp_config_recv (m_dtp_configs m))) +
      sum_list (map dtcp_config_free (map dtcp_config_recv (m_dtcp_configs m))) +
      sum_list (map query_rib_resp_free (map query_rib_resp_recv (m_query_rib_resps m))) +
      sum_list (map pff_entry_list_free (map pff_entry_list_recv (m_pff_entry_lists m))) +
      sum_list (map sdup_crypto_state_free (map sdup_crypto_state_recv (m_sdup_crypto_states m))) +
      sum_list (map get_dif_prop_resp_free (map get_dif_prop_resp_recv (m_dif_properties m))) +
      sum_list (map ipcp_neigh_list_free (map ipcp_neigh_list_recv (m_ipcp_neigh_lists m))) +
      sum_list (map media_report_free (map media_report_recv (m_media_reports m))) +
      sum_list (map buffer_destroy (map buf_recv (m_buffers m))))"
proof -
  have "None \<notin> set (map str_recv (m_strings m))" by (auto simp: str_recv_def)
  with assms show ?thesis
    unfolding irati_msg_free_def strings_freed by (simp add: msg_recv_def msg_type_def)
qed

lemma objects_read:
  assumes "msg_ok ret m" "msg_shape l m" "msg_type m < num_entries"
  shows "\<exists>k. irati_msg_free nt num_entries (msg_recv m) = Some k \<and>
    des_objects ret1 ret l (zero_msg l (m_copied m)) (drop (l_copylen l) (msg_bytes m), [], n) =
      Some (0, msg_recv m, [], [], n + k)"
  unfolding received_free [OF assms(3)]
  using assms(1,2)
  by (simp add: des_objects_def zero_msg_def msg_bytes_def msg_ok_def msg_shape_def slot_fields
      slots_codec [OF buf.codec_axioms, where rest = "[]", unfolded append_Nil2] msg_recv_def add.assoc
      del: map_map)

lemma objects_written:
  assumes "msg_ok ret m" "None \<notin> set (m_buffers m)"
  shows "\<exists>k. buffers_serlen (m_buffers m) = Some k \<and>
    length (msg_bytes m) = length (m_copied m) + objects_serlen m + k"
proof -
  have "sum_list (map (\<lambda>b. 4 + buffer_prlen b) (m_buffers m)) =
      sum_list (map (\<lambda>b. 4 + length (the b)) (m_buffers m))"
    using assms(2)
    by (intro arg_cong [where f = sum_list] map_cong) (auto simp: buffer_prlen_def split: option.splits)
  with assms show ?thesis
    unfolding msg_bytes_def objects_serlen_def buffers_serlen_def
    by (simp add: item_lengths items_length [OF difc.codec_axioms, of ret] msg_ok_def
        del: length_concat)
qed

lemma type_read:
  assumes "2 \<le> length (m_copied m)"
  shows "deserialize_obj 2 (msg_bytes m, ms, n) =
    Some (of_le (take 2 (m_copied m)) :: u16, drop 2 (msg_bytes m), ms, n)"
  using assms by (simp add: deserialize_obj_def msg_bytes_def)

text \<open>What the receiver finds in the table for a type that it can allocate.\<close>

lemma ker_layout:
  assumes "t < RINA_C_MAX" "allocate_irati_msg t = Some s"
  shows "2 \<le> l_copylen (irati_ker_numtables t)" "layout_size (irati_ker_numtables t) \<le> sizeof s"
proof -
  from layouts_checked assms(1) have "layout_checked numtable_entries alloc_table t"
    by (simp add: list_all_iff)
  with assms(2) show "2 \<le> l_copylen (irati_ker_numtables t)"
    "layout_size (irati_ker_numtables t) \<le> sizeof s"
    by (auto simp: layout_checked_def allocate_irati_msg_def irati_ker_numtables_def agrees_size
        split: if_splits option.splits)
qed

lemma message_read:
  assumes "msg_ok ret m" "msg_shape (irati_ker_numtables (msg_type m)) m" "msg_type m < RINA_C_MAX"
    "allocate_irati_msg (msg_type m) = Some s"
  obtains k where "irati_msg_free irati_ker_numtables RINA_C_MAX (msg_recv m) = Some k"
    "deserialize_irati_msg irati_ker_numtables RINA_C_MAX ret1 ret [] (msg_bytes m) n =
       (if n = length (msg_bytes m) then Some (Some (msg_recv m), Suc k)
        else drop_msg irati_ker_numtables RINA_C_MAX (msg_recv m) (Suc k))"
proof -
  let ?l = "irati_ker_numtables (msg_type m)"
  note lay = ker_layout [OF assms(3,4)]
  have len: "length (m_copied m) = l_copylen ?l" using assms(2) by (simp add: msg_shape_def)
  obtain k where k: "irati_msg_free irati_ker_numtables RINA_C_MAX (msg_recv m) = Some k"
    "des_objects ret1 ret ?l (zero_msg ?l (m_copied m)) (drop (l_copylen ?l) (msg_bytes m), [], 1) =
       Some (0, msg_recv m, [], [], 1 + k)"
    using objects_read [OF assms(1-3)] by blast
  have get: "get_bytes (l_copylen ?l) (msg_bytes m, [], Suc 0) =
      Some (m_copied m, drop (l_copylen ?l) (msg_bytes m), [], Suc 0)"
    using len by (simp add: msg_bytes_def)
  have "deserialize_irati_msg irati_ker_numtables RINA_C_MAX ret1 ret [] (msg_bytes m) n =
       (if n = length (msg_bytes m) then Some (Some (msg_recv m), Suc k)
        else drop_msg irati_ker_numtables RINA_C_MAX (msg_recv m) (Suc k))"
    unfolding deserialize_irati_msg_def
    using type_read [of m] lay len get k(2) assms(3,4)
    by (simp add: msg_type_def [symmetric] Let_def del: get_bytes.simps)
  with k(1) that show thesis by blast
qed

section \<open>Properties\<close>

text \<open>
  C30. Round trip of control messages: a message whose objects are there, whose strings have no
  zero bytes and whose lists have less than 65536 elements is written, and reading the bytes back
  gives the same message, with NULL strings read as empty ones, strings cut to 65535 bytes and the
  policies of the DTCP flow control configuration in other places; every byte is consumed, the
  reader needs one block for the message, and releasing the message frees every other block it
  allocated.
\<close>

theorem irati_msg_roundtrip:
  assumes "msg_ok ret m" "msg_shape (irati_ker_numtables (msg_type m)) m" "msg_type m < RINA_C_MAX"
    "allocate_irati_msg (msg_type m) \<noteq> None"
  shows "\<exists>bs k. serialize_irati_msg irati_ker_numtables RINA_C_MAX m = (int (length bs), bs) \<and>
    deserialize_irati_msg irati_ker_numtables RINA_C_MAX ret1 ret [] bs (length bs) =
      Some (Some (msg_recv m), Suc k) \<and>
    irati_msg_free irati_ker_numtables RINA_C_MAX (msg_recv m) = Some k"
proof -
  from assms(4) obtain s where s: "allocate_irati_msg (msg_type m) = Some s" by blast
  obtain k where "irati_msg_free irati_ker_numtables RINA_C_MAX (msg_recv m) = Some k"
    "deserialize_irati_msg irati_ker_numtables RINA_C_MAX ret1 ret [] (msg_bytes m)
       (length (msg_bytes m)) = Some (Some (msg_recv m), Suc k)"
    by (rule message_read [OF assms(1-3) s, where n = "length (msg_bytes m)"]) simp
  with assms(3) show ?thesis
    by (simp add: serialize_irati_msg_def not_le)
qed

definition ex_copied :: "nat \<Rightarrow> bytes" where
  "ex_copied t = serialize_u16 (of_nat t) @ replicate 16 0"

definition ex_select_ps :: irati_msg where
  "ex_select_ps = (zero_msg (msg_layout 0) (ex_copied RINA_C_IPCP_SELECT_POLICY_SET_REQUEST))
     \<lparr>m_strings := [Some [114, 109, 116], None]\<rparr>"

lemma ex_select_ps_type: "msg_type ex_select_ps = RINA_C_IPCP_SELECT_POLICY_SET_REQUEST"
  by code_simp

lemma ex_select_ps_layout:
  "irati_ker_numtables RINA_C_IPCP_SELECT_POLICY_SET_REQUEST = (msg_layout 18)\<lparr>l_strings := 2\<rparr>"
  "allocate_irati_msg RINA_C_IPCP_SELECT_POLICY_SET_REQUEST = Some irati_kmsg_ipcp_select_ps"
  by (simp_all add: irati_ker_numtables_def numtable_entries_def sizeof_def struct_defs
      allocate_irati_msg_def alloc_table_def)

lemma ex_select_ps_ok:
  "msg_ok ret ex_select_ps" "msg_shape (irati_ker_numtables (msg_type ex_select_ps)) ex_select_ps"
  by (simp_all add: ex_select_ps_type ex_select_ps_layout)
    (simp_all add: msg_ok_def msg_shape_def ex_select_ps_def zero_msg_def msg_layout_def ex_copied_def
      str_ok_def)

theorem irati_msg_roundtrip_witness:
  "\<exists>bs k. serialize_irati_msg irati_ker_numtables RINA_C_MAX ex_select_ps = (int (length bs), bs) \<and>
    deserialize_irati_msg irati_ker_numtables RINA_C_MAX 0 7 [] bs (length bs) =
      Some (Some (ex_select_ps\<lparr>m_strings := [Some [114, 109, 116], Some []]\<rparr>), Suc k) \<and>
    irati_msg_free irati_ker_numtables RINA_C_MAX (msg_recv ex_select_ps) = Some k"
proof -
  have "msg_recv ex_select_ps = ex_select_ps\<lparr>m_strings := [Some [114, 109, 116], Some []]\<rparr>"
    by (simp add: msg_recv_def ex_select_ps_def zero_msg_def msg_layout_def str_recv_def)
  with irati_msg_roundtrip [OF ex_select_ps_ok, of 0] show ?thesis
    by (simp add: ex_select_ps_type ex_select_ps_layout)
qed



section \<open>Where the code goes wrong\<close>

text \<open>\<^verbatim>\<open>RINA_C_APP_FLOW_DEALLOCATED_NOTIFICATION\<close> is never received: nothing is allocated for it.\<close>

lemma notification_refused:
  assumes "msg_type m = RINA_C_APP_FLOW_DEALLOCATED_NOTIFICATION" "2 \<le> length (m_copied m)"
  shows "deserialize_irati_msg irati_ker_numtables RINA_C_MAX ret1 ret [] (msg_bytes m) n = Some (None, 0)"
  using type_read [OF assms(2)] assms(1)
  by (simp add: deserialize_irati_msg_def msg_type_def allocate_irati_msg_def alloc_table_def)

text \<open>A message of the wrong length is refused and its block is never released.\<close>

lemma wrong_length_leaks:
  assumes "msg_ok ret m" "msg_shape (irati_ker_numtables (msg_type m)) m" "msg_type m < RINA_C_MAX"
    "allocate_irati_msg (msg_type m) = Some s" "n \<noteq> length (msg_bytes m)"
  shows "deserialize_irati_msg irati_ker_numtables RINA_C_MAX ret1 ret [] (msg_bytes m) n = Some (None, 1)"
  by (rule message_read [OF assms(1-4), of ret1 n]) (use assms(5) in \<open>simp add: drop_msg_def\<close>)

text \<open>Without memory for a string the release of the message passes NULL to \<^verbatim>\<open>rkfree\<close>.\<close>

lemma string_without_memory:
  "deserialize_irati_msg irati_ker_numtables RINA_C_MAX ret1 ret [True, False]
     (msg_bytes ex_select_ps) n = None"
proof -
  have copied: "m_copied ex_select_ps = ex_copied RINA_C_IPCP_SELECT_POLICY_SET_REQUEST"
    "m_strings ex_select_ps = [Some [114, 109, 116], None]" "length (m_copied ex_select_ps) = 18"
    by (simp_all add: ex_select_ps_def zero_msg_def ex_copied_def)
  have t: "unat (of_le (take 2 (m_copied ex_select_ps)) :: u16) = RINA_C_IPCP_SELECT_POLICY_SET_REQUEST"
    using ex_select_ps_type by (simp add: msg_type_def)
  have rest: "drop 18 (msg_bytes ex_select_ps) =
      serialize_string (Some [114, 109, 116]) @ serialize_string None"
    by (simp add: msg_bytes_def copied(3))
      (simp add: ex_select_ps_def zero_msg_def msg_layout_def)
  have "deserialize_string (serialize_string (Some [114, 109, 116]) @ bs, [False], k) =
      Some (-1, None, [114, 109, 116] @ bs, [], k)" for bs k
    by (simp add: deserialize_string_def serialize_string_def string_prlen_def)
  then have "des_objects ret1 ret ((msg_layout 18)\<lparr>l_strings := 2\<rparr>)
      (zero_msg ((msg_layout 18)\<lparr>l_strings := 2\<rparr>) (m_copied ex_select_ps))
      (drop 18 (msg_bytes ex_select_ps), [False], 1) =
    Some (-1, zero_msg ((msg_layout 18)\<lparr>l_strings := 2\<rparr>) (m_copied ex_select_ps),
      [114, 109, 116] @ serialize_string None, [], 1)"
    unfolding rest
    by (simp add: des_objects_def des_slots_def msg_layout_def zero_msg_def numeral_2_eq_2)
  moreover have "length (msg_bytes ex_select_ps) \<ge> 18" using copied(3) by (simp add: msg_bytes_def)
  moreover have "take 18 (msg_bytes ex_select_ps) = m_copied ex_select_ps"
    using copied(3) by (simp add: msg_bytes_def)
  moreover have "layout_size ((msg_layout 18)\<lparr>l_strings := 2\<rparr>) = sizeof irati_kmsg_ipcp_select_ps"
    by (simp add: layout_size_def layout_pointers_def msg_layout_def sizeof_def struct_defs
        numeral_2_eq_2)
  moreover have "l_copylen ((msg_layout 18)\<lparr>l_strings := 2\<rparr>) = 18" by (simp add: msg_layout_def)
  moreover have "irati_msg_free irati_ker_numtables RINA_C_MAX
      (zero_msg ((msg_layout 18)\<lparr>l_strings := 2\<rparr>) (m_copied ex_select_ps)) = None"
    using t by (simp add: irati_msg_free_def msg_type_def zero_msg_def msg_layout_def)
  ultimately show ?thesis
    using type_read [of ex_select_ps "[True, False]" 0] copied(3)
    by (simp add: deserialize_irati_msg_def t ex_select_ps_layout drop_msg_def)
qed

text \<open>The size of a message with a NULL buffer cannot be computed; a NULL name is sized but not written.\<close>

lemma null_buffer_faults:
  "msg_type m < RINA_C_MAX \<Longrightarrow> None \<in> set (m_buffers m) \<Longrightarrow>
     irati_msg_serlen irati_ker_numtables RINA_C_MAX m = None"
  by (simp add: irati_msg_serlen_def buffers_serlen_def)

lemma null_name_not_written:
  "rina_name_serlen None = 8 \<and> serialize_rina_name None = []"
  by (simp add: rina_name_serlen_def serialize_rina_name_def)

end
