(* ===== verification/Kfa.thy ===== *)
theory Kfa
  imports Du Id_Mgmt Rds_Queues "HOL-Library.Monad_Syntax"
begin

text \<open>
  The kernel flow allocator (\<^verbatim>\<open>kernel/kfa.c\<close>, \<^verbatim>\<open>kernel/kfa-utils.c\<close>), the network device over a
  flow (\<^verbatim>\<open>kernel/rina-device.c\<close>) and the read and write calls of the I/O device
  (\<^verbatim>\<open>kernel/iodev.c\<close>): the flows bound to port-ids, their states, and the transfer of data units
  between applications and IPC processes.

  Flow structures live at addresses (\<open>kf_mem\<close>); the port map holds addresses, so that a use of a
  freed structure is a fault (\<open>None\<close>). Every function works under the lock of the allocator and
  gives it up to sleep, to copy user data or to call the IPC process. It is therefore a chain of
  sections, one for each stretch of code between two acquisitions of the lock, with the local
  variables that live across them in a record: \<open>Cont\<close> is a section that another one continues.
  \<open>kf_lock\<close> counts acquisitions minus releases of the lock. \<open>kf_log\<close> records the calls that leave
  the component, newest first.
\<close>

section \<open>Data\<close>

abbreviation (input) EIO :: rc where "EIO \<equiv> 5"
abbreviation (input) EBADF :: rc where "EBADF \<equiv> 9"
abbreviation (input) E_AGAIN :: rc where "E_AGAIN \<equiv> 11"
abbreviation (input) ENOMEM :: rc where "ENOMEM \<equiv> 12"
abbreviation (input) EINVAL :: rc where "EINVAL \<equiv> 22"
abbreviation (input) EMSGSIZE :: rc where "EMSGSIZE \<equiv> 90"
abbreviation (input) ESHUTDOWN :: rc where "ESHUTDOWN \<equiv> 108"

datatype port_state =
  PORT_STATE_NULL | PORT_STATE_PENDING | PORT_STATE_ALLOCATED | PORT_STATE_DEALLOCATED
| PORT_STATE_DISABLED

record net_device_stats =
  rx_packets :: u64
  rx_bytes :: u64
  rx_dropped :: u64
  tx_packets :: u64
  tx_bytes :: u64
  tx_dropped :: u64

record rina_device =
  rd_name :: string
  rd_port :: port_id_t
  rd_stats :: net_device_stats

type_synonym faddr = nat
type_synonym wqaddr = nat
type_synonym ipcp = nat

record ipcp_flow =
  fl_state :: port_state
  fl_ipc_process :: "ipcp ptr"
  fl_sdu_ready :: "du rfifo ptr"
  fl_wqs :: "wqaddr ptr"
  fl_readers :: int
  fl_writers :: int
  fl_posters :: int
  fl_msg_boundaries :: bool
  fl_ip_dev :: "rina_device ptr"

datatype flowdel_data =
  DelFlow port_id_t
| DelDevice rina_device

datatype kfa_event =
  KDestroy du
| KFreeSkb skb
| KWakeRead wqaddr
| KWakeWrite wqaddr
| KWrite ipcp port_id_t du
| KNetRx skb
| KUnregister rina_device

record kfa =
  kf_lock :: int
  kf_pidm :: "pidm ptr"
  kf_flows :: "(port_id_t \<times> faddr) list"
  kf_mem :: "faddr \<Rightarrow> ipcp_flow option"
  kf_next :: faddr
  kf_flowdelq :: "flowdel_data list"
  kf_log :: "kfa_event list"

datatype 'c after = Ret rc | Got rc du bool | Cont 'c

definition spin_lock :: "kfa \<Rightarrow> kfa" where
  "spin_lock k = k\<lparr>kf_lock := kf_lock k + 1\<rparr>"

definition spin_unlock :: "kfa \<Rightarrow> kfa" where
  "spin_unlock k = k\<lparr>kf_lock := kf_lock k - 1\<rparr>"

definition kemit :: "kfa_event list \<Rightarrow> kfa \<Rightarrow> kfa" where
  "kemit es k = k\<lparr>kf_log := rev es @ kf_log k\<rparr>"

definition kput :: "faddr \<Rightarrow> ipcp_flow \<Rightarrow> kfa \<Rightarrow> kfa" where
  "kput a f k = k\<lparr>kf_mem := (kf_mem k)(a \<mapsto> f)\<rparr>"

definition kfree :: "faddr \<Rightarrow> kfa \<Rightarrow> kfa" where
  "kfree a k = k\<lparr>kf_mem := (kf_mem k)(a := None)\<rparr>"

text \<open>\<^verbatim>\<open>wake_up_interruptible_all\<close> on both queues of a flow that has them.\<close>

definition wake_both :: "wqaddr ptr \<Rightarrow> kfa \<Rightarrow> kfa" where
  "wake_both w k = (case w of None \<Rightarrow> k | Some q \<Rightarrow> kemit [KWakeRead q, KWakeWrite q] k)"

section \<open>The port map\<close>

text \<open>
  The entries, newest first. Entries of one key are in one bucket of the hash table, newest
  first, so a search meets them in this order.
\<close>

definition kfa_pmap_create :: "bool \<Rightarrow> (port_id_t \<times> faddr) list ptr" where
  "kfa_pmap_create ok = (if ok then Some [] else None)"

definition kfa_pmap_empty :: "(port_id_t \<times> faddr) list \<Rightarrow> bool" where
  "kfa_pmap_empty m \<longleftrightarrow> m = []"

fun kfa_pmap_find :: "(port_id_t \<times> faddr) list \<Rightarrow> port_id_t \<Rightarrow> faddr ptr" where
  "kfa_pmap_find [] key = None"
| "kfa_pmap_find ((i, a) # m) key = (if i = key then Some a else kfa_pmap_find m key)"

fun kfa_pmap_update :: "(port_id_t \<times> faddr) list \<Rightarrow> port_id_t \<Rightarrow> faddr \<Rightarrow> rc \<times> (port_id_t \<times> faddr) list" where
  "kfa_pmap_update [] key v = (-1, [])"
| "kfa_pmap_update ((i, a) # m) key v =
     (if i = key then (0, (i, v) # m)
      else (let (r, m') = kfa_pmap_update m key v in (r, (i, a) # m')))"

definition kfa_pmap_add_gfp :: "bool \<Rightarrow> (port_id_t \<times> faddr) list \<Rightarrow> port_id_t \<Rightarrow> faddr \<Rightarrow> rc \<times> (port_id_t \<times> faddr) list" where
  "kfa_pmap_add_gfp ok m key v = (if ok then (0, (key, v) # m) else (-1, m))"

fun kfa_pmap_remove :: "(port_id_t \<times> faddr) list \<Rightarrow> port_id_t \<Rightarrow> rc \<times> (port_id_t \<times> faddr) list" where
  "kfa_pmap_remove [] key = (-1, [])"
| "kfa_pmap_remove ((i, a) # m) key =
     (if i = key then (0, m)
      else (let (r, m') = kfa_pmap_remove m key in (r, (i, a) # m')))"

definition find_flow :: "kfa \<Rightarrow> port_id_t \<Rightarrow> faddr ptr" where
  "find_flow k i = kfa_pmap_find (kf_flows k) i"

section \<open>The network device over a flow\<close>

definition IFNAMSIZ :: nat where "IFNAMSIZ = 16"

text \<open>
  \<^verbatim>\<open>alloc_netdev\<close> stops the kernel on a name that does not fit its \<open>IFNAMSIZ\<close> bytes with the final
  NUL; \<open>ok\<close> are the outcomes of the allocation and of \<^verbatim>\<open>register_netdev\<close>.
\<close>

definition rina_dev_create :: "allocs \<Rightarrow> string \<Rightarrow> bool \<Rightarrow> port_id_t \<Rightarrow> rina_device ptr option" where
  "rina_dev_create ms name kfa_ipcp port =
     (if \<not> kfa_ipcp then Some None
      else if length name > IFNAMSIZ then Some None
      else if length name \<ge> IFNAMSIZ then None
      else Some (if fst (rkmalloc_n 2 ms)
                 then Some \<lparr>rd_name = name, rd_port = port,
                            rd_stats = \<lparr>rx_packets = 0, rx_bytes = 0, rx_dropped = 0,
                                        tx_packets = 0, tx_bytes = 0, tx_dropped = 0\<rparr>\<rparr>
                 else None))"

text \<open>
  A received packet whose first byte has no IP version is dropped; \<open>netif\<close> says whether the
  network stack took the packet. The first byte is read also from an empty buffer.
\<close>

definition rina_dev_rcv :: "bool \<Rightarrow> skb \<Rightarrow> rina_device \<Rightarrow> (rc \<times> rina_device \<times> kfa_event list) option" where
  "rina_dev_rcv netif s d =
     (let st = rd_stats d in
      if sk_data s \<ge> length (sk_buf s) then None
      else if and (sk_buf s ! sk_data s) 0xf0 = 0
      then Some (-1, d\<lparr>rd_stats := st\<lparr>rx_dropped := rx_dropped st + 1\<rparr>\<rparr>, [KFreeSkb s])
      else Some (0, d\<lparr>rd_stats :=
                  (if netif then st\<lparr>rx_packets := rx_packets st + 1,
                                    rx_bytes := rx_bytes st + of_nat (sk_len s)\<rparr>
                   else st\<lparr>rx_dropped := rx_dropped st + 1\<rparr>)\<rparr>, [KNetRx s]))"

definition NET_XMIT_DROP :: rc where "NET_XMIT_DROP = 1"
definition NETDEV_TX_OK :: rc where "NETDEV_TX_OK = 0"

text \<open>The end of \<^verbatim>\<open>rina_dev_start_xmit\<close>, with the result of \<^verbatim>\<open>kfa_flow_skb_write\<close>.\<close>

definition rina_dev_start_xmit :: "int \<Rightarrow> rina_device \<Rightarrow> rc \<times> rina_device" where
  "rina_dev_start_xmit data_sent d =
     (let st = rd_stats d in
      if data_sent < 0 then (NET_XMIT_DROP, d\<lparr>rd_stats := st\<lparr>tx_dropped := tx_dropped st + 1\<rparr>\<rparr>)
      else (NETDEV_TX_OK, d\<lparr>rd_stats := st\<lparr>tx_packets := tx_packets st + 1,
                                           tx_bytes := tx_bytes st + of_int data_sent\<rparr>\<rparr>))"

definition rina_dev_destroy :: "rina_device ptr \<Rightarrow> rc \<times> kfa_event list" where
  "rina_dev_destroy d = (case d of None \<Rightarrow> (-1, []) | Some e \<Rightarrow> (0, [KUnregister e]))"

section \<open>Port-ids\<close>

text \<open>\<open>None\<close>: the search for a free port-id does not end.\<close>

definition kfa_port_id_reserve :: "bool \<Rightarrow> kfa \<Rightarrow> (port_id_t \<times> kfa) option" where
  "kfa_port_id_reserve ok k0 =
     (let k = spin_lock k0 in
      if kf_pidm k = None then Some (port_id_bad, spin_unlock k)
      else do {
        (i, p) \<leftarrow> pidm_allocate ok (kf_pidm k);
        let k' = spin_unlock (k\<lparr>kf_pidm := p\<rparr>);
        Some (if is_port_id_ok i then i else port_id_bad, k')
      })"

definition kfa_port_id_release :: "kfa \<Rightarrow> port_id_t \<Rightarrow> rc \<times> kfa" where
  "kfa_port_id_release k0 i =
     (if \<not> is_port_id_ok i then (-1, k0)
      else
        (let k = spin_lock k0 in
         if find_flow k i \<noteq> None then (0, spin_unlock k)
         else if kf_pidm k = None then (-1, spin_unlock k)
         else (let (r, p) = pidm_release (kf_pidm k) i; k' = k\<lparr>kf_pidm := p\<rparr>
               in if r \<noteq> 0 then (-1, spin_unlock k') else (0, spin_unlock k'))))"

section \<open>Destruction of flows\<close>

text \<open>
  The memory of the work item is used without a check (\<open>None\<close> when it could not be had); the
  outcomes in \<open>ms\<close> are those of the data and of the item.
\<close>

definition kfa_flow_destroy :: "allocs \<Rightarrow> faddr \<Rightarrow> port_id_t \<Rightarrow> kfa \<Rightarrow> (rc \<times> kfa) option" where
  "kfa_flow_destroy ms a i k = do {
     f \<leftarrow> kf_mem k a;
     let (r1, ds) = (case fl_sdu_ready f of None \<Rightarrow> (0, []) | q \<Rightarrow> rfifo_destroy q True);
     let (r2, m) = kfa_pmap_remove (kf_flows k) i;
     let (r3, p) = pidm_release (kf_pidm k) i;
     let retval = (if r1 \<noteq> 0 \<or> r2 \<noteq> 0 \<or> r3 \<noteq> 0 then -1 else 0 :: rc);
     let k1 = kfree a (wake_both (fl_wqs f)
                (kemit (map KDestroy ds) (k\<lparr>kf_flows := m, kf_pidm := p\<rparr>)));
     (case fl_ip_dev f of
        None \<Rightarrow> Some (retval, k1)
      | Some d \<Rightarrow>
          (case rkmalloc ms of
             (False, _) \<Rightarrow> None
           | (True, ms') \<Rightarrow>
               (if fst (rkmalloc ms')
                then Some (retval, k1\<lparr>kf_flowdelq := kf_flowdelq k1 @ [DelDevice d]\<rparr>)
                else Some (-1, k1))))
   }"

definition unused :: "ipcp_flow \<Rightarrow> bool" where
  "unused f \<longleftrightarrow> fl_readers f = 0 \<and> fl_writers f = 0 \<and> fl_posters f = 0"

text \<open>
  The worker: one section, and after the release of the lock a look at the wait queues of the flow
  that was found in use.
\<close>

definition kfa_flow_deallocate_worker :: "allocs \<Rightarrow> flowdel_data ptr \<Rightarrow> kfa \<Rightarrow> (faddr after \<times> kfa) option" where
  "kfa_flow_deallocate_worker ms wqdata k0 =
     (case wqdata of
        None \<Rightarrow> Some (Ret (-1), k0)
      | Some (DelDevice d) \<Rightarrow> (let (r, es) = rina_dev_destroy (Some d) in Some (Ret r, kemit es k0))
      | Some (DelFlow i) \<Rightarrow>
          (if \<not> is_port_id_ok i then Some (Ret (-1), k0)
           else
             (let k = spin_lock k0 in
              case find_flow k i of
                None \<Rightarrow> Some (Ret 0, spin_unlock k)
              | Some a \<Rightarrow> do {
                  f \<leftarrow> kf_mem k a;
                  if fl_state f \<noteq> PORT_STATE_DEALLOCATED then Some (Ret 0, spin_unlock k)
                  else if unused f
                  then do { (r, k') \<leftarrow> kfa_flow_destroy ms a i k; Some (Ret 0, spin_unlock k') }
                  else Some (Cont a, spin_unlock k)
                })))"

definition worker_wake :: "faddr \<Rightarrow> kfa \<Rightarrow> (rc \<times> kfa) option" where
  "worker_wake a k = do { f \<leftarrow> kf_mem k a; Some (0, wake_both (fl_wqs f) k) }"

text \<open>When the work item cannot be had, the function returns without releasing the lock.\<close>

definition kfa_flow_deallocate :: "allocs \<Rightarrow> port_id_t \<Rightarrow> kfa \<Rightarrow> (rc \<times> kfa) option" where
  "kfa_flow_deallocate ms i k0 =
     (if \<not> is_port_id_ok i then Some (-1, k0)
      else
        (let k = spin_lock k0 in
         case find_flow k i of
           None \<Rightarrow> Some (-1, spin_unlock k)
         | Some a \<Rightarrow> do {
             f \<leftarrow> kf_mem k a;
             let k1 = wake_both (fl_wqs f) (kput a (f\<lparr>fl_state := PORT_STATE_DEALLOCATED\<rparr>) k);
             if unused f
             then do { (r, k2) \<leftarrow> kfa_flow_destroy ms a i k1; Some (0, spin_unlock k2) }
             else (case rkmalloc ms of
                     (False, _) \<Rightarrow> None
                   | (True, ms') \<Rightarrow>
                       (if fst (rkmalloc ms')
                        then Some (0, spin_unlock (k1\<lparr>kf_flowdelq := kf_flowdelq k1 @ [DelFlow i]\<rparr>))
                        else Some (-1, k1)))
           }))"

section \<open>Flow control towards the writers\<close>

definition ok_write :: "ipcp_flow \<Rightarrow> bool" where
  "ok_write f \<longleftrightarrow>
     \<not> (fl_state f = PORT_STATE_PENDING \<or> fl_state f = PORT_STATE_DISABLED) \<or>
     fl_state f = PORT_STATE_DEALLOCATED"

definition disable_write :: "port_id_t \<Rightarrow> kfa \<Rightarrow> (rc \<times> kfa) option" where
  "disable_write i k0 =
     (if \<not> is_port_id_ok i then Some (-1, k0)
      else
        (let k = spin_lock k0 in
         case find_flow k i of
           None \<Rightarrow> Some (-1, spin_unlock k)
         | Some a \<Rightarrow> do {
             f \<leftarrow> kf_mem k a;
             if fl_state f = PORT_STATE_DEALLOCATED then Some (0, spin_unlock k)
             else Some (0, spin_unlock (kput a (f\<lparr>fl_state := PORT_STATE_DISABLED\<rparr>) k))
           }))"

definition enable_write :: "port_id_t \<Rightarrow> kfa \<Rightarrow> (rc \<times> kfa) option" where
  "enable_write i k0 =
     (if \<not> is_port_id_ok i then Some (-1, k0)
      else
        (let k = spin_lock k0 in
         case find_flow k i of
           None \<Rightarrow> Some (-1, spin_unlock k)
         | Some a \<Rightarrow> do {
             f \<leftarrow> kf_mem k a;
             if fl_state f = PORT_STATE_DEALLOCATED then Some (0, spin_unlock k)
             else if fl_state f = PORT_STATE_DISABLED
             then (let k1 = kput a (f\<lparr>fl_state := PORT_STATE_ALLOCATED\<rparr>) k in
                   case fl_wqs f of
                     None \<Rightarrow> Some (0, spin_unlock k1)
                   | Some w \<Rightarrow> Some (0, kemit [KWakeWrite w] (spin_unlock k1)))
             else Some (0, spin_unlock k)
           }))"

section \<open>Writing\<close>

text \<open>The label \<^verbatim>\<open>finish\<close> of the two write functions: the last user of a deallocated flow destroys it.\<close>

definition finish_write :: "allocs \<Rightarrow> faddr \<Rightarrow> port_id_t \<Rightarrow> kfa \<Rightarrow> kfa option" where
  "finish_write ms a i k = do {
     f0 \<leftarrow> kf_mem k a;
     let f = f0\<lparr>fl_writers := fl_writers f0 - 1\<rparr>;
     let k1 = kput a f k;
     k2 \<leftarrow> (if unused f \<and> fl_state f = PORT_STATE_DEALLOCATED
            then map_option snd (kfa_flow_destroy ms a i k1) else Some k1);
     Some (spin_unlock k2)
   }"

text \<open>
  \<^verbatim>\<open>kfa_flow_du_write\<close> up to the call of the IPC process, and from its return \<open>res\<close> on. \<open>mss\<close> is
  the largest data unit each IPC process takes (\<^verbatim>\<open>ops->max_sdu_size\<close>).
\<close>

definition kfa_flow_du_write ::
    "allocs \<Rightarrow> (ipcp \<Rightarrow> nat) \<Rightarrow> port_id_t \<Rightarrow> du \<Rightarrow> kfa \<Rightarrow> ((faddr \<times> nat) after \<times> kfa) option" where
  "kfa_flow_du_write ms mss i d k0 = do {
     len \<leftarrow> got (du_len d);
     let k = spin_lock k0;
     (case find_flow k i of
        None \<Rightarrow> Some (Ret (- EBADF), kemit [KDestroy d] (spin_unlock k))
      | Some a \<Rightarrow> do {
          f \<leftarrow> kf_mem k a;
          if fl_state f = PORT_STATE_DEALLOCATED
          then Some (Ret (- ESHUTDOWN), kemit [KDestroy d] (spin_unlock k))
          else do {
            p \<leftarrow> fl_ipc_process f;
            if len > mss p then Some (Ret (- EMSGSIZE), kemit [KDestroy d] (spin_unlock k))
            else
              (let k1 = kput a (f\<lparr>fl_writers := fl_writers f + 1\<rparr>) k in
               if fl_state f = PORT_STATE_PENDING \<or> fl_state f = PORT_STATE_DISABLED
               then map_option (Pair (Ret (- E_AGAIN))) (finish_write ms a i (kemit [KDestroy d] k1))
               else Some (Cont (a, len), kemit [KWrite p i d] (spin_unlock k1)))
          }
        })
   }"

definition du_write_end :: "allocs \<Rightarrow> rc \<Rightarrow> port_id_t \<Rightarrow> faddr \<times> nat \<Rightarrow> kfa \<Rightarrow> (rc \<times> kfa) option" where
  "du_write_end ms res i c k =
     map_option (Pair (if res \<noteq> 0 then - EIO else int (snd c))) (finish_write ms (fst c) i (spin_lock k))"

text \<open>
  \<^verbatim>\<open>kfa_flow_ub_write\<close>: data of an application, at \<open>buffer\<close> or under an iterator, is cut into units
  of at most the size the IPC process takes; a packet of the network stack is one unit. The record
  holds the local variables.
\<close>

datatype ub_source = UbBuffer "u8 list" | UbIov "u8 list" | UbSkb skb

record ub =
  ub_id :: port_id_t
  ub_source :: ub_source
  ub_blocking :: bool
  ub_flow :: faddr
  ub_max :: nat
  ub_left :: nat
  ub_written :: nat
  ub_wqs :: "wqaddr ptr"
  ub_du :: "du ptr"

text \<open>What a writer does between two sections.\<close>

datatype ub_next =
  UbCopying ub
| UbAsleep ub
| UbCalling ub

definition ub_drop_skb :: "ub_source \<Rightarrow> kfa \<Rightarrow> kfa" where
  "ub_drop_skb src k = (case src of UbSkb s \<Rightarrow> kemit [KFreeSkb s] k | _ \<Rightarrow> k)"

definition ub_du_destroy :: "ub \<Rightarrow> kfa \<Rightarrow> kfa" where
  "ub_du_destroy u k = (case ub_du u of None \<Rightarrow> k | Some d \<Rightarrow> kemit [KDestroy d] k)"

definition ub_finish :: "allocs \<Rightarrow> rc \<Rightarrow> ub \<Rightarrow> kfa \<Rightarrow> (ub_next after \<times> kfa) option" where
  "ub_finish ms retval u k =
     map_option (Pair (Ret (if ub_written u = 0 then retval else int (ub_written u))))
       (finish_write ms (ub_flow u) (ub_id u) k)"

text \<open>The loop head: the next round starts with the release of the lock.\<close>

definition ub_round :: "allocs \<Rightarrow> ub \<Rightarrow> kfa \<Rightarrow> (ub_next after \<times> kfa) option" where
  "ub_round ms u k = (if ub_left u \<noteq> 0 then Some (Cont (UbCopying u), spin_unlock k) else ub_finish ms 0 u k)"

definition kfa_flow_ub_write ::
    "allocs \<Rightarrow> (ipcp \<Rightarrow> nat) \<Rightarrow> port_id_t \<Rightarrow> ub_source \<Rightarrow> nat \<Rightarrow> bool \<Rightarrow> kfa \<Rightarrow> (ub_next after \<times> kfa) option" where
  "kfa_flow_ub_write ms mss i src sz blocking k0 =
     (let k = spin_lock k0 in
      case find_flow k i of
        None \<Rightarrow> Some (Ret (- EBADF), ub_drop_skb src (spin_unlock k))
      | Some a \<Rightarrow> do {
          f \<leftarrow> kf_mem k a;
          if fl_state f = PORT_STATE_DEALLOCATED
          then Some (Ret (- ESHUTDOWN), ub_drop_skb src (spin_unlock k))
          else do {
            p \<leftarrow> fl_ipc_process f;
            if fl_msg_boundaries f \<and> sz > mss p
            then Some (Ret (- EMSGSIZE), ub_drop_skb src (spin_unlock k))
            else ub_round ms
                   \<lparr>ub_id = i, ub_source = src, ub_blocking = blocking, ub_flow = a,
                    ub_max = mss p, ub_left = sz, ub_written = 0, ub_wqs = None, ub_du = None\<rparr>
                   (kput a (f\<lparr>fl_writers := fl_writers f + 1\<rparr>) k)
          }
        })"

definition kfa_flow_skb_write ::
    "allocs \<Rightarrow> (ipcp \<Rightarrow> nat) \<Rightarrow> port_id_t \<Rightarrow> skb \<Rightarrow> nat \<Rightarrow> bool \<Rightarrow> kfa \<Rightarrow> (ub_next after \<times> kfa) option" where
  "kfa_flow_skb_write ms mss i s sz blocking k = kfa_flow_ub_write ms mss i (UbSkb s) sz blocking k"

text \<open>
  The round without the lock: a unit is made and filled. \<open>fault\<close> says that the copy from user
  memory failed; a copy behind the mapped bytes fails too. An error goes to \<^verbatim>\<open>finish\<close>, which
  releases the lock that is not held here.
\<close>

definition ub_copylen :: "ub \<Rightarrow> nat" where
  "ub_copylen u = min (ub_left u) (ub_max u)"

definition ub_bytes :: "ub \<Rightarrow> u8 list ptr" where
  "ub_bytes u =
     (case ub_source u of
        UbSkb s \<Rightarrow> None
      | UbBuffer bs \<Rightarrow> (if ub_written u + ub_copylen u \<le> length bs
                        then Some (take (ub_copylen u) (drop (ub_written u) bs)) else None)
      | UbIov bs \<Rightarrow> (if ub_written u + ub_copylen u \<le> length bs
                     then Some (take (ub_copylen u) (drop (ub_written u) bs)) else None))"

definition ub_fill :: "allocs \<Rightarrow> fresh_mem \<Rightarrow> bool \<Rightarrow> ub \<Rightarrow> ((rc + du) \<times> kfa_event list) option" where
  "ub_fill ms mem fault u =
     (case ub_source u of
        UbSkb s \<Rightarrow>
          (case du_create_from_skb (fst (rkmalloc ms)) (Some s) of
             None \<Rightarrow> Some (Inl (- ENOMEM), [KFreeSkb s])
           | Some d \<Rightarrow> Some (Inr d, []))
      | _ \<Rightarrow> do {
          (q, ms') \<leftarrow> got (du_create ms mem (ub_copylen u));
          (case q of
             None \<Rightarrow> Some (Inl (- ENOMEM), [])
           | Some d \<Rightarrow>
               (case (if fault then None else ub_bytes u) of
                  None \<Rightarrow> Some (Inl (- EIO), [KDestroy d])
                | Some bs \<Rightarrow> do { d' \<leftarrow> got (du_write 0 bs d); Some (Inr d', []) }))
        })"

text \<open>
  The unit goes to the IPC process, for a blocking writer once the flow can be written. \<open>ds\<close> are
  the outcomes of the allocations of the destruction of the flow.
\<close>

definition ub_call :: "allocs \<Rightarrow> ub \<Rightarrow> ipcp_flow \<Rightarrow> kfa \<Rightarrow> (ub_next after \<times> kfa) option" where
  "ub_call ms u f k =
     (case (fl_ipc_process f, ub_du u) of
        (Some p, Some d) \<Rightarrow> Some (Cont (UbCalling u), kemit [KWrite p (ub_id u) d] (spin_unlock k))
      | _ \<Rightarrow> ub_finish ms (- EBADF) u (ub_du_destroy u k))"

definition ub_wait :: "allocs \<Rightarrow> ub \<Rightarrow> ipcp_flow \<Rightarrow> kfa \<Rightarrow> (ub_next after \<times> kfa) option" where
  "ub_wait ms u f k =
     (if \<not> ok_write f then Some (Cont (UbAsleep u), spin_unlock k) else ub_call ms u f k)"

definition ub_copy ::
    "allocs \<Rightarrow> allocs \<Rightarrow> fresh_mem \<Rightarrow> bool \<Rightarrow> ub \<Rightarrow> kfa \<Rightarrow> (ub_next after \<times> kfa) option" where
  "ub_copy ms ds mem fault u0 k0 = do {
     (r, es) \<leftarrow> ub_fill ms mem fault u0;
     (case r of
        Inl e \<Rightarrow> ub_finish ds e u0 (kemit es k0)
      | Inr d \<Rightarrow> do {
          let u = u0\<lparr>ub_du := Some d\<rparr>;
          let k = spin_lock k0;
          f \<leftarrow> kf_mem k (ub_flow u);
          if ub_blocking u
          then (case fl_wqs f of
                  None \<Rightarrow> ub_finish ds (- EBADF) u (ub_du_destroy u k)
                | Some w \<Rightarrow> ub_wait ds (u\<lparr>ub_wqs := Some w\<rparr>) f k)
          else if fl_state f = PORT_STATE_PENDING \<or> fl_state f = PORT_STATE_DISABLED
          then ub_finish ds (- E_AGAIN) u k
          else if fl_state f = PORT_STATE_DEALLOCATED
          then ub_finish ds (- ESHUTDOWN) u k
          else ub_call ds u f k
        })
   }"

text \<open>
  A sleeping writer wakes up with \<open>retval\<close>, negative when a signal ended the wait. A flow that is
  gone is used at \<^verbatim>\<open>finish\<close> nevertheless.
\<close>

definition ub_woken :: "allocs \<Rightarrow> rc \<Rightarrow> ub \<Rightarrow> kfa \<Rightarrow> (ub_next after \<times> kfa) option" where
  "ub_woken ds retval u0 k0 =
     (let k = spin_lock k0 in
      case find_flow k (ub_id u0) of
        None \<Rightarrow> None
      | Some a \<Rightarrow> do {
          let u = u0\<lparr>ub_flow := a\<rparr>;
          f \<leftarrow> kf_mem k a;
          if fl_wqs f = None then ub_finish ds (- EBADF) u (ub_du_destroy u k)
          else if retval < 0 then ub_finish ds retval u (ub_du_destroy u k)
          else if fl_state f = PORT_STATE_DEALLOCATED
          then ub_finish ds (- ESHUTDOWN) u (ub_du_destroy u k)
          else ub_wait ds u f k
        })"

definition ub_called :: "allocs \<Rightarrow> rc \<Rightarrow> ub \<Rightarrow> kfa \<Rightarrow> (ub_next after \<times> kfa) option" where
  "ub_called ds res u k0 =
     (let k = spin_lock k0 in
      if res \<noteq> 0 then ub_finish ds (- EIO) u k
      else ub_round ds (u\<lparr>ub_left := ub_left u - ub_copylen u,
                         ub_written := ub_written u + ub_copylen u\<rparr>) k)"

section \<open>Reading\<close>

definition queue_ready :: "ipcp_flow \<Rightarrow> bool" where
  "queue_ready f \<longleftrightarrow>
     fl_state f = PORT_STATE_DEALLOCATED \<or>
     fl_state f \<noteq> PORT_STATE_PENDING \<and> \<not> rfifo_is_empty (fl_sdu_ready f)"

text \<open>
  \<^verbatim>\<open>kfa_flow_readable\<close>: the answer and whether the events of a readable file are set; the wait
  queues of the flow are used without a check.
\<close>

definition kfa_flow_readable :: "port_id_t \<Rightarrow> kfa \<Rightarrow> (rc \<times> bool \<times> kfa) option" where
  "kfa_flow_readable i k0 =
     (if \<not> is_port_id_ok i then Some (-1, False, k0)
      else
        (let k = spin_lock k0 in
         case find_flow k i of
           None \<Rightarrow> Some (0, True, spin_unlock k)
         | Some a \<Rightarrow> do {
             f \<leftarrow> kf_mem k a;
             w \<leftarrow> fl_wqs f;
             Some (0, queue_ready f, spin_unlock k)
           }))"

definition kfa_flow_set_iowqs :: "wqaddr \<Rightarrow> port_id_t \<Rightarrow> kfa \<Rightarrow> (rc \<times> kfa) option" where
  "kfa_flow_set_iowqs w i k0 =
     (if \<not> is_port_id_ok i then Some (-1, k0)
      else
        (let k = spin_lock k0 in
         case find_flow k i of
           None \<Rightarrow> Some (-1, spin_unlock k)
         | Some a \<Rightarrow> do {
             f \<leftarrow> kf_mem k a;
             Some (0, spin_unlock (kput a (f\<lparr>fl_wqs := Some w\<rparr>) k))
           }))"

definition kfa_flow_cancel_iowqs :: "port_id_t \<Rightarrow> kfa \<Rightarrow> (rc \<times> kfa) option" where
  "kfa_flow_cancel_iowqs i k0 =
     (if \<not> is_port_id_ok i then Some (-1, k0)
      else
        (let k = spin_lock k0 in
         case find_flow k i of
           None \<Rightarrow> Some (-1, spin_unlock k)
         | Some a \<Rightarrow> do {
             f \<leftarrow> kf_mem k a;
             let k1 = spin_unlock (kput a (f\<lparr>fl_wqs := None\<rparr>) k);
             if fl_wqs f \<noteq> None then Some (0, wake_both (fl_wqs f) k1) else Some (-1, k1)
           }))"

text \<open>
  The next unit, and whether it stays in the queue because the reader has less room than its
  length.
\<close>

definition get_du_to_read :: "nat \<Rightarrow> du rfifo ptr \<Rightarrow> (du \<times> bool \<times> du rfifo ptr) option" where
  "get_du_to_read sz q = do {
     d \<leftarrow> rfifo_peek q;
     len \<leftarrow> got (du_len d);
     if sz \<ge> len
     then (let (e, q') = rfifo_pop q in map_option (\<lambda>e. (e, False, q')) e)
     else Some (d, True, q)
   }"

record rd =
  rd_id :: port_id_t
  rd_flow :: faddr
  rd_size :: nat
  rd_wqs :: "wqaddr ptr"

definition finish_read :: "allocs \<Rightarrow> rd after \<Rightarrow> rd \<Rightarrow> kfa \<Rightarrow> (rd after \<times> kfa) option" where
  "finish_read ms r c k = do {
     f0 \<leftarrow> kf_mem k (rd_flow c);
     let f = f0\<lparr>fl_readers := fl_readers f0 - 1\<rparr>;
     let k1 = kput (rd_flow c) f k;
     k2 \<leftarrow> (if unused f \<and> fl_state f = PORT_STATE_DEALLOCATED
            then map_option snd (kfa_flow_destroy ms (rd_flow c) (rd_id c) k1) else Some k1);
     Some (r, spin_unlock k2)
   }"

text \<open>A unit that is not valid answers its length too: the error code is overwritten.\<close>

definition read_take :: "allocs \<Rightarrow> rd \<Rightarrow> ipcp_flow \<Rightarrow> kfa \<Rightarrow> (rd after \<times> kfa) option" where
  "read_take ms c f k =
     (if rfifo_is_empty (fl_sdu_ready f) then finish_read ms (Ret (- EIO)) c k
      else do {
        (d, stays, q) \<leftarrow> get_du_to_read (rd_size c) (fl_sdu_ready f);
        len \<leftarrow> got (du_len d);
        finish_read ms (Got (int len) d stays) c (kput (rd_flow c) (f\<lparr>fl_sdu_ready := q\<rparr>) k)
      })"

definition read_wait :: "allocs \<Rightarrow> rd \<Rightarrow> ipcp_flow \<Rightarrow> kfa \<Rightarrow> (rd after \<times> kfa) option" where
  "read_wait ms c f k =
     (if fl_state f = PORT_STATE_PENDING \<or> rfifo_is_empty (fl_sdu_ready f)
      then Some (Cont c, spin_unlock k)
      else read_take ms c f k)"

definition kfa_flow_du_read ::
    "allocs \<Rightarrow> port_id_t \<Rightarrow> nat \<Rightarrow> bool \<Rightarrow> kfa \<Rightarrow> (rd after \<times> kfa) option" where
  "kfa_flow_du_read ms i sz blocking k0 =
     (if \<not> is_port_id_ok i then Some (Ret (- EINVAL), k0)
      else
        (let k = spin_lock k0 in
         case find_flow k i of
           None \<Rightarrow> Some (Ret (- EBADF), spin_unlock k)
         | Some a \<Rightarrow> do {
             f0 \<leftarrow> kf_mem k a;
             if fl_state f0 = PORT_STATE_DEALLOCATED then Some (Ret (- ESHUTDOWN), spin_unlock k)
             else do {
               let f = f0\<lparr>fl_readers := fl_readers f0 + 1\<rparr>;
               let k1 = kput a f k;
               let c = \<lparr>rd_id = i, rd_flow = a, rd_size = sz, rd_wqs = fl_wqs f\<rparr>;
               if blocking
               then (if fl_wqs f = None then finish_read ms (Ret 0) c k1
                     else read_wait ms c f k1)
               else if fl_state f = PORT_STATE_PENDING then finish_read ms (Ret (- E_AGAIN)) c k1
               else if rfifo_is_empty (fl_sdu_ready f)
               then finish_read ms (Ret (- E_AGAIN)) c k1
               else read_take ms c f k1
             }
           }))"

definition read_woken :: "allocs \<Rightarrow> rc \<Rightarrow> rd \<Rightarrow> kfa \<Rightarrow> (rd after \<times> kfa) option" where
  "read_woken ms retval c0 k0 =
     (let k = spin_lock k0 in
      case find_flow k (rd_id c0) of
        None \<Rightarrow> Some (Ret 0, spin_unlock k)
      | Some a \<Rightarrow> do {
          let c = c0\<lparr>rd_flow := a\<rparr>;
          f \<leftarrow> kf_mem k a;
          if fl_wqs f = None then finish_read ms (Ret 0) c k
          else if retval < 0 then finish_read ms (Ret retval) c k
          else if fl_state f = PORT_STATE_DEALLOCATED
          then (if rfifo_is_empty (fl_sdu_ready f) then finish_read ms (Ret 0) c k
                else read_take ms c f k)
          else read_wait ms c f k
        })"

section \<open>Delivery\<close>

text \<open>
  \<^verbatim>\<open>kfa_du_post\<close>: \<open>ok\<close> is the outcome of the allocation of the queue entry. A NULL unit is
  refused and then destroyed, which dereferences it. The wait queues of the
  flow are read after the lock was released (\<open>post_wake\<close>).
\<close>

definition kfa_du_post ::
    "allocs \<Rightarrow> bool \<Rightarrow> bool \<Rightarrow> port_id_t \<Rightarrow> du ptr \<Rightarrow> kfa \<Rightarrow> ((faddr \<times> rc) after \<times> kfa) option" where
  "kfa_du_post ms ok netif i q k0 =
     (if \<not> is_port_id_ok i \<or> \<not> is_du_ok q
      then do { d \<leftarrow> q; Some (Ret (-1), kemit [KDestroy d] k0) }
      else do {
        d \<leftarrow> q;
        let k = spin_lock k0;
        (case find_flow k i of
           None \<Rightarrow> Some (Ret (-1), kemit [KDestroy d] (spin_unlock k))
         | Some a \<Rightarrow> do {
             f \<leftarrow> kf_mem k a;
             if fl_state f = PORT_STATE_DEALLOCATED
             then Some (Ret (-1), kemit [KDestroy d] (spin_unlock k))
             else do {
               (r, f1, es) \<leftarrow>
                 (case fl_ip_dev f of
                    Some dev \<Rightarrow> do {
                      s \<leftarrow> fst (du_detach_skb d);
                      (r, dev', es) \<leftarrow> rina_dev_rcv netif s dev;
                      Some (r, f\<lparr>fl_ip_dev := Some dev'\<rparr>, es)
                    }
                  | None \<Rightarrow>
                      (let (r, q') = rfifo_push ok (fl_sdu_ready f) d
                       in Some (if r \<noteq> 0 then -1 else 0, f\<lparr>fl_sdu_ready := q'\<rparr>, [])));
               let f2 = f1\<lparr>fl_posters := fl_posters f1 + 1 - 1\<rparr>;
               let k1 = kput a f2 (kemit es k);
               if unused f2 \<and> fl_state f2 = PORT_STATE_DEALLOCATED
               then do { (x, k2) \<leftarrow> kfa_flow_destroy ms a i k1; Some (Ret r, spin_unlock k2) }
               else Some (Cont (a, r), spin_unlock k1)
             }
           })
      })"

definition post_wake :: "faddr \<times> rc \<Rightarrow> kfa \<Rightarrow> (rc \<times> kfa) option" where
  "post_wake c k =
     (if snd c \<noteq> 0 then Some (snd c, k)
      else do {
        f \<leftarrow> kf_mem k (fst c);
        Some (0, case fl_wqs f of None \<Rightarrow> k | Some w \<Rightarrow> kemit [KWakeRead w] k)
      })"

section \<open>Creation and binding\<close>

text \<open>
  \<^verbatim>\<open>kfa_flow_create\<close>: \<open>name\<close> is the entity name of the user when it has one, \<open>dev_name\<close> the name
  printed for the device. Outcomes: the flow, the device (two), the entry of the port map.
\<close>

definition RINA_IP_FLOW_ENT_NAME :: string where
  "RINA_IP_FLOW_ENT_NAME = ''RINA_IP''"

definition new_flow :: "ipcp ptr \<Rightarrow> bool \<Rightarrow> rina_device ptr \<Rightarrow> ipcp_flow" where
  "new_flow p mb dev =
     \<lparr>fl_state = PORT_STATE_PENDING, fl_ipc_process = p, fl_sdu_ready = None, fl_wqs = None,
      fl_readers = 0, fl_writers = 0, fl_posters = 0, fl_msg_boundaries = mb, fl_ip_dev = dev\<rparr>"

definition kfa_flow_create ::
    "bool \<Rightarrow> allocs \<Rightarrow> bool \<Rightarrow> string \<Rightarrow> port_id_t \<Rightarrow> ipcp ptr \<Rightarrow> string ptr \<Rightarrow> bool \<Rightarrow> kfa
     \<Rightarrow> (rc \<times> kfa) option" where
  "kfa_flow_create ok1 ms ok2 dev_name i p name msg_boundaries k0 =
     (if \<not> ok1 then Some (-1, k0)
      else
        (let ip_flow = (name = Some RINA_IP_FLOW_ENT_NAME) in do {
           dev \<leftarrow> (if ip_flow then rina_dev_create ms dev_name True i else Some None);
           if ip_flow \<and> dev = None then Some (-1, k0)
           else
             (let k = spin_lock k0;
                  f = new_flow p (ip_flow \<or> msg_boundaries) dev;
                  a = kf_next k;
                  (r, m) = kfa_pmap_add_gfp ok2 (kf_flows k) i a
              in if r \<noteq> 0 then Some (-1, spin_unlock (k\<lparr>kf_flows := m\<rparr>))
                 else Some (0, spin_unlock (kput a f (k\<lparr>kf_flows := m, kf_next := a + 1\<rparr>))))
         }))"

text \<open>Without memory for the queue the flow is freed at once, whoever uses it.\<close>

definition kfa_flow_ipcp_bind :: "allocs \<Rightarrow> port_id_t \<Rightarrow> ipcp ptr \<Rightarrow> kfa \<Rightarrow> (rc \<times> kfa) option" where
  "kfa_flow_ipcp_bind ms i p k0 =
     (if p = None then Some (-1, k0)
      else if \<not> is_port_id_ok i then Some (-1, k0)
      else
        (let k = spin_lock k0 in
         case find_flow k i of
           None \<Rightarrow> Some (-1, spin_unlock k)
         | Some a \<Rightarrow> do {
             f \<leftarrow> kf_mem k a;
             let (ok1, ms1) = rkmalloc ms;
             let q = rfifo_create ok1 (fst (rkmalloc ms1));
             if q = None
             then Some (-1, spin_unlock (kfree a (k\<lparr>kf_flows := snd (kfa_pmap_remove (kf_flows k) i)\<rparr>)))
             else Some (0, spin_unlock (kput a (f\<lparr>fl_ipc_process := p, fl_state := PORT_STATE_ALLOCATED,
                                                  fl_sdu_ready := q\<rparr>) k))
           }))"

text \<open>
  \<^verbatim>\<open>kfa_create\<close>: the structure, the port-id manager, the port map, the IPC process instance, its
  data and the work queue.
\<close>

definition kfa_create :: "allocs \<Rightarrow> kfa ptr" where
  "kfa_create ms =
     (case rkmalloc ms of (False, _) \<Rightarrow> None | (True, ms1) \<Rightarrow>
     (case rkmalloc ms1 of (ok2, ms2) \<Rightarrow>
      case pidm_create ok2 of None \<Rightarrow> None | Some pm \<Rightarrow>
     (case rkmalloc ms2 of (ok3, ms3) \<Rightarrow>
      case kfa_pmap_create ok3 of None \<Rightarrow> None | Some m \<Rightarrow>
      if fst (rkmalloc_n 3 ms3)
      then Some \<lparr>kf_lock = 0, kf_pidm = Some pm, kf_flows = m, kf_mem = (\<lambda>_. None), kf_next = 0,
                 kf_flowdelq = [], kf_log = []\<rparr>
      else None)))"

text \<open>\<open>None\<close>: the assertion that no flow is left fails.\<close>

definition kfa_destroy :: "kfa ptr \<Rightarrow> rc option" where
  "kfa_destroy q =
     (case q of None \<Rightarrow> Some (-1) | Some k \<Rightarrow> if kfa_pmap_empty (kf_flows k) then Some 0 else None)"

definition kfa_flow_exists :: "kfa \<Rightarrow> port_id_t \<Rightarrow> bool" where
  "kfa_flow_exists k i \<longleftrightarrow> find_flow k i \<noteq> None"

definition kfa_flow_max_sdu_size :: "(ipcp \<Rightarrow> nat) \<Rightarrow> kfa \<Rightarrow> port_id_t \<Rightarrow> nat option" where
  "kfa_flow_max_sdu_size mss k i =
     (case find_flow k i of
        None \<Rightarrow> Some 0
      | Some a \<Rightarrow> do { f \<leftarrow> kf_mem k a; p \<leftarrow> fl_ipc_process f; Some (mss p) })"

end
