(* ===== verification/Kfa_Run.thy ===== *)
theory Kfa_Run
  imports Kfa "HOL-Library.Multiset"
begin

text \<open>
  The kernel flow allocator with any number of callers at once: a state is the allocator and the
  multiset of the calls in progress, each between two of its sections. A step is a new call, the
  next section of a call in progress, or the next item of the work queue. The invariant says that
  the counters of every flow count exactly the calls in progress on it, so that a flow is freed by
  its last user and by nobody else.
\<close>

section \<open>Calls in progress\<close>

datatype kthread =
  TWrite port_id_t "faddr \<times> nat"
| TUb ub_next
| TRead rd
| TPost "faddr \<times> rc"
| TWorker faddr

fun ub_of :: "ub_next \<Rightarrow> ub" where
  "ub_of (UbCopying u) = u"
| "ub_of (UbAsleep u) = u"
| "ub_of (UbCalling u) = u"

text \<open>The port-id and the flow of a call that is counted as a user of the flow.\<close>

fun tport :: "kthread \<Rightarrow> (port_id_t \<times> faddr) option" where
  "tport (TWrite i c) = Some (i, fst c)"
| "tport (TUb n) = Some (ub_id (ub_of n), ub_flow (ub_of n))"
| "tport (TRead c) = Some (rd_id c, rd_flow c)"
| "tport (TPost c) = None"
| "tport (TWorker a) = None"

fun is_reader :: "kthread \<Rightarrow> bool" where
  "is_reader (TRead c) = True"
| "is_reader _ = False"

definition on_flow :: "faddr \<Rightarrow> kthread \<Rightarrow> bool" where
  "on_flow a t \<longleftrightarrow> map_option snd (tport t) = Some a"

definition nread :: "faddr \<Rightarrow> kthread multiset \<Rightarrow> nat" where
  "nread a T = size (filter_mset (\<lambda>t. is_reader t \<and> on_flow a t) T)"

definition nwrite :: "faddr \<Rightarrow> kthread multiset \<Rightarrow> nat" where
  "nwrite a T = size (filter_mset (\<lambda>t. \<not> is_reader t \<and> on_flow a t) T)"

fun threads :: "('c \<Rightarrow> kthread) \<Rightarrow> 'c after \<Rightarrow> kthread multiset" where
  "threads f (Ret r) = {#}"
| "threads f (Got r d b) = {#}"
| "threads f (Cont c) = {#f c#}"

section \<open>Steps\<close>

text \<open>What the environment decides in a section: the answer of the call or of the wait, and memory.\<close>

record kenv =
  ke_rc :: rc
  ke_ms :: allocs
  ke_mem :: fresh_mem

fun resume :: "kenv \<Rightarrow> kthread \<Rightarrow> kfa \<Rightarrow> (kthread multiset \<times> kfa) option" where
  "resume e (TWrite i c) k = map_option (\<lambda>(r, k'). ({#}, k')) (du_write_end [] (ke_rc e) i c k)"
| "resume e (TUb (UbCopying u)) k =
     map_option (\<lambda>(r, k'). (threads TUb r, k')) (ub_copy (ke_ms e) [] (ke_mem e) False u k)"
| "resume e (TUb (UbAsleep u)) k =
     map_option (\<lambda>(r, k'). (threads TUb r, k')) (ub_woken [] (ke_rc e) u k)"
| "resume e (TUb (UbCalling u)) k =
     map_option (\<lambda>(r, k'). (threads TUb r, k')) (ub_called [] (ke_rc e) u k)"
| "resume e (TRead c) k =
     map_option (\<lambda>(r, k'). (threads TRead r, k')) (read_woken [] (ke_rc e) c k)"
| "resume e (TPost c) k = map_option (\<lambda>(r, k'). ({#}, k')) (post_wake c k)"
| "resume e (TWorker a) k = map_option (\<lambda>(r, k'). ({#}, k')) (worker_wake a k)"

text \<open>A writer that copies gets its unit and the bytes.\<close>

fun copy_ok :: "kenv \<Rightarrow> kthread \<Rightarrow> bool" where
  "copy_ok e (TUb (UbCopying u)) \<longleftrightarrow>
     (case ub_fill (ke_ms e) (ke_mem e) False u of Some (Inr d, es) \<Rightarrow> True | _ \<Rightarrow> False)"
| "copy_ok e _ \<longleftrightarrow> True"

datatype kcall =
  CReserve bool
| CRelease port_id_t
| CCreate string port_id_t ipcp "string ptr" bool
| CBind port_id_t ipcp
| CDeallocate port_id_t
| CDisable port_id_t
| CEnable port_id_t
| CSetWqs wqaddr port_id_t
| CCancelWqs port_id_t
| CDuWrite port_id_t du
| CUbWrite port_id_t ub_source nat bool
| CRead port_id_t nat bool
| CPost bool bool port_id_t du

fun kfa_call :: "(ipcp \<Rightarrow> nat) \<Rightarrow> kcall \<Rightarrow> kfa \<Rightarrow> (kthread multiset \<times> kfa) option" where
  "kfa_call mss (CReserve ok) k = map_option (\<lambda>(r, k'). ({#}, k')) (kfa_port_id_reserve ok k)"
| "kfa_call mss (CRelease i) k = Some ({#}, snd (kfa_port_id_release k i))"
| "kfa_call mss (CCreate dn i p nm mb) k =
     map_option (\<lambda>(r, k'). ({#}, k')) (kfa_flow_create True [] True dn i (Some p) nm mb k)"
| "kfa_call mss (CBind i p) k =
     map_option (\<lambda>(r, k'). ({#}, k')) (kfa_flow_ipcp_bind [] i (Some p) k)"
| "kfa_call mss (CDeallocate i) k = map_option (\<lambda>(r, k'). ({#}, k')) (kfa_flow_deallocate [] i k)"
| "kfa_call mss (CDisable i) k = map_option (\<lambda>(r, k'). ({#}, k')) (disable_write i k)"
| "kfa_call mss (CEnable i) k = map_option (\<lambda>(r, k'). ({#}, k')) (enable_write i k)"
| "kfa_call mss (CSetWqs w i) k = map_option (\<lambda>(r, k'). ({#}, k')) (kfa_flow_set_iowqs w i k)"
| "kfa_call mss (CCancelWqs i) k = map_option (\<lambda>(r, k'). ({#}, k')) (kfa_flow_cancel_iowqs i k)"
| "kfa_call mss (CDuWrite i d) k =
     map_option (\<lambda>(r, k'). (threads (TWrite i) r, k')) (kfa_flow_du_write [] mss i d k)"
| "kfa_call mss (CUbWrite i src sz b) k =
     map_option (\<lambda>(r, k'). (threads TUb r, k')) (kfa_flow_ub_write [] mss i src sz b k)"
| "kfa_call mss (CRead i sz b) k =
     map_option (\<lambda>(r, k'). (threads TRead r, k')) (kfa_flow_du_read [] i sz b k)"
| "kfa_call mss (CPost ok netif i d) k =
     map_option (\<lambda>(r, k'). (threads TPost r, k')) (kfa_du_post [] ok netif i (Some d) k)"

text \<open>
  How the callers use the interface: a port-id is reserved before a flow is created on it and has
  one flow; data units are sound; an IPC process disables a flow only once it is bound to it; a
  flow is not deallocated under a reader that waits for the binding.
\<close>

definition bound_flow :: "kfa \<Rightarrow> port_id_t \<Rightarrow> bool" where
  "bound_flow k i =
     (case find_flow k i of
        None \<Rightarrow> True
      | Some a \<Rightarrow> (case kf_mem k a of None \<Rightarrow> True | Some f \<Rightarrow> fl_sdu_ready f \<noteq> None))"

definition no_reader :: "kfa \<Rightarrow> port_id_t \<Rightarrow> kthread multiset \<Rightarrow> bool" where
  "no_reader k i T = (case find_flow k i of None \<Rightarrow> True | Some a \<Rightarrow> nread a T = 0)"

fun call_ok :: "kcall \<Rightarrow> kfa \<Rightarrow> kthread multiset \<Rightarrow> bool" where
  "call_ok (CReserve ok) k T \<longleftrightarrow> int (length (pidm_ids (kf_pidm k))) < MAX_PORT_ID"
| "call_ok (CCreate dn i p nm mb) k T \<longleftrightarrow>
     i \<in> set (pidm_ids (kf_pidm k)) \<and> find_flow k i = None \<and> length dn < IFNAMSIZ"
| "call_ok (CDeallocate i) k T \<longleftrightarrow> bound_flow k i \<or> no_reader k i T"
| "call_ok (CDisable i) k T \<longleftrightarrow> bound_flow k i"
| "call_ok (CDuWrite i d) k T \<longleftrightarrow> du_ok d"
| "call_ok (CPost ok netif i d) k T \<longleftrightarrow> du_ok d \<and> du_bytes d \<noteq> []"
| "call_ok _ k T \<longleftrightarrow> True"

inductive kfa_step :: "(ipcp \<Rightarrow> nat) \<Rightarrow> kfa \<times> kthread multiset \<Rightarrow> kfa \<times> kthread multiset \<Rightarrow> bool"
  for mss where
  call: "call_ok c k T \<Longrightarrow> kfa_call mss c k = Some (T', k') \<Longrightarrow> kfa_step mss (k, T) (k', T + T')"
| resume: "copy_ok e t \<Longrightarrow> resume e t k = Some (T', k') \<Longrightarrow>
     kfa_step mss (k, add_mset t T) (k', T + T')"
| work: "kf_flowdelq k = w # ws \<Longrightarrow>
     kfa_flow_deallocate_worker [] (Some w) (k\<lparr>kf_flowdelq := ws\<rparr>) = Some (r, k') \<Longrightarrow>
     kfa_step mss (k, T) (k', T + threads TWorker r)"

section \<open>The invariant\<close>

text \<open>The queue of a flow: missing only before the binding, or with no reader left.\<close>

definition queue_inv :: "du rfifo ptr \<Rightarrow> port_state \<Rightarrow> nat \<Rightarrow> bool" where
  "queue_inv q st nr \<longleftrightarrow>
     (case q of
        None \<Rightarrow> st = PORT_STATE_PENDING \<or> st = PORT_STATE_DEALLOCATED \<and> nr = 0
      | Some _ \<Rightarrow> rfifo_inv q \<and> (\<forall>d\<in>set (rfifo_list q). du_ok d))"

definition flow_inv :: "ipcp_flow \<Rightarrow> nat \<Rightarrow> nat \<Rightarrow> bool" where
  "flow_inv f nr nw \<longleftrightarrow>
     fl_readers f = int nr \<and> fl_writers f = int nw \<and> fl_posters f = 0 \<and>
     fl_ipc_process f \<noteq> None \<and>
     (fl_state f = PORT_STATE_DEALLOCATED \<longrightarrow> 0 < nr + nw) \<and>
     queue_inv (fl_sdu_ready f) (fl_state f) nr"

definition kfa_ok :: "int \<Rightarrow> kfa \<Rightarrow> kthread multiset \<Rightarrow> bool" where
  "kfa_ok l k T \<longleftrightarrow>
     kf_lock k = l \<and> pidm_inv (kf_pidm k) \<and>
     distinct (map fst (kf_flows k)) \<and> distinct (map snd (kf_flows k)) \<and>
     (\<forall>(i, a)\<in>set (kf_flows k).
        i \<in> set (pidm_ids (kf_pidm k)) \<and> a < kf_next k \<and>
        (\<exists>f. kf_mem k a = Some f \<and> flow_inv f (nread a T) (nwrite a T))) \<and>
     (\<forall>a. kf_mem k a \<noteq> None \<longrightarrow> a \<in> snd ` set (kf_flows k)) \<and>
     (\<forall>t\<in>#T. \<forall>p. tport t = Some p \<longrightarrow> p \<in> set (kf_flows k))"

section \<open>Lookups and updates\<close>

lemma kfa_pmap_find_map_of: "kfa_pmap_find m = map_of m"
  by (rule ext, rename_tac i, induct_tac m) auto

lemma find_flow_iff:
  "distinct (map fst (kf_flows k)) \<Longrightarrow> find_flow k i = Some a \<longleftrightarrow> (i, a) \<in> set (kf_flows k)"
  by (simp add: find_flow_def kfa_pmap_find_map_of)

lemma kfa_pmap_remove_filter:
  "distinct (map fst m) \<Longrightarrow> snd (kfa_pmap_remove m i) = filter (\<lambda>x. fst x \<noteq> i) m"
  by (induction m i rule: kfa_pmap_remove.induct)
    (auto simp: split_beta filter_id_conv image_iff intro!: sym [OF filter_True])

lemma kfa_sel [simp]:
  "kf_mem (spin_lock k) = kf_mem k" "kf_mem (spin_unlock k) = kf_mem k"
  "kf_mem (kemit es k) = kf_mem k" "kf_mem (wake_both w k) = kf_mem k"
  "kf_flows (spin_lock k) = kf_flows k" "kf_flows (spin_unlock k) = kf_flows k"
  "kf_flows (kemit es k) = kf_flows k" "kf_flows (wake_both w k) = kf_flows k"
  "kf_flows (kput a f k) = kf_flows k" "kf_flows (kfree a k) = kf_flows k"
  "kf_pidm (spin_lock k) = kf_pidm k" "kf_pidm (spin_unlock k) = kf_pidm k"
  "kf_pidm (kemit es k) = kf_pidm k" "kf_pidm (wake_both w k) = kf_pidm k"
  "kf_pidm (kput a f k) = kf_pidm k" "kf_pidm (kfree a k) = kf_pidm k"
  "kf_next (spin_lock k) = kf_next k" "kf_next (spin_unlock k) = kf_next k"
  "kf_next (kemit es k) = kf_next k" "kf_next (wake_both w k) = kf_next k"
  "kf_next (kput a f k) = kf_next k" "kf_next (kfree a k) = kf_next k"
  "kf_mem (kput a f k) = (kf_mem k)(a \<mapsto> f)" "kf_mem (kfree a k) = (kf_mem k)(a := None)"
  "kf_lock (spin_lock k) = kf_lock k + 1" "kf_lock (spin_unlock k) = kf_lock k - 1"
  "kf_lock (kemit es k) = kf_lock k" "kf_lock (wake_both w k) = kf_lock k"
  "kf_lock (kput a f k) = kf_lock k" "kf_lock (kfree a k) = kf_lock k"
  by (simp_all add: spin_lock_def spin_unlock_def kemit_def wake_both_def kput_def kfree_def
      split: option.split)

lemma find_flow_sel [simp]:
  "find_flow (spin_lock k) = find_flow k" "find_flow (spin_unlock k) = find_flow k"
  "find_flow (kemit es k) = find_flow k" "find_flow (wake_both w k) = find_flow k"
  "find_flow (kput a f k) = find_flow k" "find_flow (kf_flowdelq_update g k) = find_flow k"
  by (simp_all add: find_flow_def fun_eq_iff)

lemma kfa_ok_sel [simp]:
  "kfa_ok l (spin_lock k) T = kfa_ok (l - 1) k T"
  "kfa_ok l (spin_unlock k) T = kfa_ok (l + 1) k T"
  "kfa_ok l (kemit es k) T = kfa_ok l k T"
  "kfa_ok l (wake_both w k) T = kfa_ok l k T"
  "kfa_ok l (kf_flowdelq_update g k) T = kfa_ok l k T"
  by (auto simp: kfa_ok_def)

lemma kfa_ok_flow:
  assumes "kfa_ok l k T" "find_flow k i = Some a"
  obtains f where "kf_mem k a = Some f" "flow_inv f (nread a T) (nwrite a T)"
proof -
  from assms have "(i, a) \<in> set (kf_flows k)" by (simp add: kfa_ok_def find_flow_iff)
  with assms(1) that show thesis unfolding kfa_ok_def by blast
qed

lemma kfa_ok_flow_inv:
  assumes "kfa_ok l k T" "find_flow k i = Some a" "kf_mem k a = Some f"
  shows "flow_inv f (nread a T) (nwrite a T)"
  by (rule kfa_ok_flow [OF assms(1,2)]) (use assms(3) in simp)

lemma kfa_ok_thread:
  assumes "kfa_ok l k T" "t \<in># T" "tport t = Some (i, a)"
  shows "find_flow k i = Some a"
  using assms by (simp add: kfa_ok_def find_flow_iff)

lemma nread_add [simp]:
  "nread a (add_mset t T) = (if is_reader t \<and> on_flow a t then Suc (nread a T) else nread a T)"
  by (simp add: nread_def)

lemma nwrite_add [simp]:
  "nwrite a (add_mset t T) = (if \<not> is_reader t \<and> on_flow a t then Suc (nwrite a T) else nwrite a T)"
  by (simp add: nwrite_def)

lemma on_flow_tport: "tport t = Some (i, a) \<Longrightarrow> on_flow b t \<longleftrightarrow> a = b"
  by (simp add: on_flow_def)

lemma on_flow_none: "tport t = None \<Longrightarrow> \<not> on_flow b t"
  by (simp add: on_flow_def)

lemma nobody_on_flow:
  "nread a T = 0 \<Longrightarrow> nwrite a T = 0 \<Longrightarrow> t \<in># T \<Longrightarrow> \<not> on_flow a t"
proof
  assume z: "nread a T = 0" "nwrite a T = 0" "t \<in># T" and "on_flow a t"
  then have "t \<in># filter_mset (\<lambda>t. is_reader t \<and> on_flow a t) T \<or>
      t \<in># filter_mset (\<lambda>t. \<not> is_reader t \<and> on_flow a t) T" by auto
  then show False using z(1,2) by (auto simp: nread_def nwrite_def)
qed

lemma kfa_ok_put:
  assumes "kfa_ok l k T" "find_flow k i = Some a"
    and "flow_inv f (nread a T') (nwrite a T')"
    and "\<And>b. b \<noteq> a \<Longrightarrow> nread b T' = nread b T \<and> nwrite b T' = nwrite b T"
    and "\<And>t p. t \<in># T' \<Longrightarrow> tport t = Some p \<Longrightarrow> p \<in> set (kf_flows k)"
  shows "kfa_ok l (kput a f k) T'"
  using assms unfolding kfa_ok_def by (force simp: find_flow_iff)

lemma kfa_ok_put_same:
  assumes "kfa_ok l k T" "find_flow k i = Some a" "flow_inv f (nread a T) (nwrite a T)"
  shows "kfa_ok l (kput a f k) T"
  by (rule kfa_ok_put [OF assms]) (use assms(1) in \<open>auto simp: kfa_ok_def\<close>)

lemma kfa_ok_put_add:
  assumes "kfa_ok l k T" "find_flow k i = Some a" "tport t = Some (i, a)"
    and "flow_inv f (nread a (add_mset t T)) (nwrite a (add_mset t T))"
  shows "kfa_ok l (kput a f k) (add_mset t T)"
  by (rule kfa_ok_put [OF assms(1,2,4)])
    (use assms(1-3) in \<open>auto simp: kfa_ok_def find_flow_iff on_flow_tport\<close>)

lemma kfa_ok_put_del:
  assumes "kfa_ok l k (add_mset t T)" "tport t = Some (i, a)"
    and "flow_inv f (nread a T) (nwrite a T)"
  shows "kfa_ok l (kput a f k) T"
  by (rule kfa_ok_put [OF assms(1) kfa_ok_thread [OF assms(1) _ assms(2)] assms(3)])
    (use assms(1,2) in \<open>auto simp: kfa_ok_def on_flow_tport\<close>)

lemma kfa_ok_swap:
  assumes "kfa_ok l k (add_mset t T)" "tport t' = tport t" "is_reader t' = is_reader t"
  shows "kfa_ok l k (add_mset t' T)"
  using assms by (simp add: kfa_ok_def on_flow_def)

lemma kfa_ok_add_none: "tport t = None \<Longrightarrow> kfa_ok l k (add_mset t T) = kfa_ok l k T"
  by (simp add: kfa_ok_def on_flow_none)

section \<open>Destruction\<close>

lemma kfa_flow_destroy_ok:
  assumes ok: "kfa_ok l k T" "find_flow k i = Some a"
    and k1: "kf_flows k1 = kf_flows k" "kf_mem k1 = (kf_mem k)(a \<mapsto> f)" "kf_pidm k1 = kf_pidm k"
      "kf_next k1 = kf_next k" "kf_lock k1 = l"
    and T': "nread a T' = 0" "nwrite a T' = 0"
      "\<And>b. b \<noteq> a \<Longrightarrow> nread b T' = nread b T \<and> nwrite b T' = nwrite b T"
      "\<And>t p. t \<in># T' \<Longrightarrow> tport t = Some p \<Longrightarrow> p \<in> set (kf_flows k)"
  shows "\<exists>r k'. kfa_flow_destroy [] a i k1 = Some (r, k') \<and> kfa_ok l k' T'"
proof -
  have d: "distinct (map fst (kf_flows k))" and "distinct (map snd (kf_flows k))"
    and ia: "(i, a) \<in> set (kf_flows k)" and pm: "pidm_inv (kf_pidm k)"
    using ok by (simp_all add: kfa_ok_def find_flow_iff)
  let ?m = "filter (\<lambda>x. fst x \<noteq> i) (kf_flows k)"
  let ?p = "snd (pidm_release (kf_pidm k) i)"
  have other: "fst x \<noteq> i \<longleftrightarrow> snd x \<noteq> a" if "x \<in> set (kf_flows k)" for x
    using that ia \<open>distinct (map fst _)\<close> \<open>distinct (map snd _)\<close>
    by (metis distinct_map inj_onD prod.collapse fst_conv snd_conv)
  obtain r k' where r: "kfa_flow_destroy [] a i k1 = Some (r, k')"
    and k': "kf_flows k' = ?m" "kf_mem k' = (kf_mem k)(a := None)" "kf_pidm k' = ?p"
      "kf_next k' = kf_next k" "kf_lock k' = l"
    using k1 kfa_pmap_remove_filter [OF d, of i]
    by (cases "fl_ip_dev f")
      (auto simp: kfa_flow_destroy_def split_beta kfree_def wake_both_def kemit_def
        split: option.splits)
  have t: "fst p \<noteq> i" if "t \<in># T'" "tport t = Some p" for t p
    using nobody_on_flow [OF T'(1,2) that(1)] that other T'(4) by (auto simp: on_flow_def)
  have img: "x \<in> snd ` {x \<in> set (kf_flows k). fst x \<noteq> i}" if "x \<in> snd ` set (kf_flows k)" "x \<noteq> a" for x
    using that other by auto
  have "kfa_ok l k' T'"
    using ok(1) T'(3,4) t k' pm other img unfolding kfa_ok_def
    by (auto simp: pidm_pool.release_ids pidm_pool.release_invar distinct_map_filter)
  with r show ?thesis by blast
qed

lemma queue_inv_less: "queue_inv q st (Suc n) \<Longrightarrow> queue_inv q st n"
  by (auto simp: queue_inv_def split: option.splits)

text \<open>The end of a call: the user is counted out, and the last one destroys a deallocated flow.\<close>

lemma flow_inv_unused:
  "flow_inv f nr nw \<Longrightarrow> unused f \<longleftrightarrow> nr = 0 \<and> nw = 0"
  by (simp add: flow_inv_def unused_def)

lemma finish_write_ok:
  assumes ok: "kfa_ok l k (add_mset t T)" and t: "tport t = Some (i, a)" "\<not> is_reader t"
  shows "\<exists>k'. finish_write [] a i k = Some k' \<and> kfa_ok (l - 1) k' T"
proof -
  have fl: "find_flow k i = Some a" using kfa_ok_thread [OF ok _ t(1)] by simp
  from kfa_ok_flow [OF ok this] obtain f where f: "kf_mem k a = Some f"
    "flow_inv f (nread a T) (Suc (nwrite a T))" using t by (auto simp: on_flow_tport)
  let ?f = "f\<lparr>fl_writers := fl_writers f - 1\<rparr>"
  show ?thesis
  proof (cases "unused ?f \<and> fl_state f = PORT_STATE_DEALLOCATED")
    case True
    with f have z: "nread a T = 0" "nwrite a T = 0" by (auto simp: flow_inv_def unused_def)
    have "\<exists>r k'. kfa_flow_destroy [] a i (kput a ?f k) = Some (r, k') \<and> kfa_ok l k' T"
      by (rule kfa_flow_destroy_ok [OF ok fl])
        (use ok z t in \<open>auto simp: kfa_ok_def on_flow_tport\<close>)
    with f True show ?thesis by (auto simp: finish_write_def)
  next
    case False
    with f have "flow_inv ?f (nread a T) (nwrite a T)" by (auto simp: flow_inv_def unused_def)
    with kfa_ok_put_del [OF ok t(1)] f False show ?thesis by (auto simp: finish_write_def)
  qed
qed

lemma finish_read_ok:
  assumes ok: "kfa_ok l k (add_mset (TRead c) T)"
  shows "\<exists>k'. finish_read [] r c k = Some (r, k') \<and> kfa_ok (l - 1) k' T"
proof -
  let ?a = "rd_flow c" and ?i = "rd_id c"
  have fl: "find_flow k ?i = Some ?a" using kfa_ok_thread [OF ok, of "TRead c"] by simp
  from kfa_ok_flow [OF ok this] obtain f where f: "kf_mem k ?a = Some f"
    "flow_inv f (Suc (nread ?a T)) (nwrite ?a T)" by (auto simp: on_flow_def)
  let ?f = "f\<lparr>fl_readers := fl_readers f - 1\<rparr>"
  show ?thesis
  proof (cases "unused ?f \<and> fl_state f = PORT_STATE_DEALLOCATED")
    case True
    with f have z: "nread ?a T = 0" "nwrite ?a T = 0" by (auto simp: flow_inv_def unused_def)
    have "\<exists>r k'. kfa_flow_destroy [] ?a ?i (kput ?a ?f k) = Some (r, k') \<and> kfa_ok l k' T"
      by (rule kfa_flow_destroy_ok [OF ok fl])
        (use ok z in \<open>auto simp: kfa_ok_def on_flow_def\<close>)
    with f True show ?thesis by (auto simp: finish_read_def)
  next
    case False
    with f have "flow_inv ?f (nread ?a T) (nwrite ?a T)"
      by (auto simp: flow_inv_def unused_def queue_inv_less)
    with kfa_ok_put_del [OF ok, of ?i ?a ?f] f False show ?thesis by (auto simp: finish_read_def)
  qed
qed

section \<open>Writers\<close>

text \<open>
  What a section must deliver: it does not fault, and the invariant holds again with the call
  itself back in the multiset when it goes on.
\<close>

definition goes_on :: "int \<Rightarrow> kthread multiset \<Rightarrow> (kthread multiset \<times> kfa) option \<Rightarrow> bool" where
  "goes_on l T x \<longleftrightarrow> (\<exists>T' k'. x = Some (T', k') \<and> kfa_ok l k' (T + T'))"

lemma goes_on_Some [simp]: "goes_on l T (Some (T', k')) \<longleftrightarrow> kfa_ok l k' (T + T')"
  by (simp add: goes_on_def)

abbreviation ub_threads :: "(ub_next after \<times> kfa) option \<Rightarrow> (kthread multiset \<times> kfa) option" where
  "ub_threads \<equiv> map_option (\<lambda>(r, k'). (threads TUb r, k'))"

lemma kfa_ok_ub:
  assumes "ub_id (ub_of n) = ub_id (ub_of n')" "ub_flow (ub_of n) = ub_flow (ub_of n')"
  shows "kfa_ok l k (add_mset (TUb n) T) = kfa_ok l k (add_mset (TUb n') T)"
  using kfa_ok_swap [of l k "TUb n" T "TUb n'"] kfa_ok_swap [of l k "TUb n'" T "TUb n"] assms
  by auto

definition ub_ok :: "int \<Rightarrow> kfa \<Rightarrow> ub \<Rightarrow> kthread multiset \<Rightarrow> bool" where
  "ub_ok l k u T \<longleftrightarrow> kfa_ok l k (add_mset (TUb (UbCopying u)) T)"

lemma ub_ok_iff [simp]: "kfa_ok l k (add_mset (TUb n) T) = ub_ok l k (ub_of n) T"
  unfolding ub_ok_def by (rule kfa_ok_ub) simp_all

lemma ub_ok_cong:
  "ub_id u' = ub_id u \<Longrightarrow> ub_flow u' = ub_flow u \<Longrightarrow> ub_ok l k u' T = ub_ok l k u T"
  unfolding ub_ok_def by (rule kfa_ok_ub) simp_all

lemma ub_ok_upd [simp]:
  "ub_ok l k (ub_du_update x u) T = ub_ok l k u T"
  "ub_ok l k (ub_wqs_update y u) T = ub_ok l k u T"
  "ub_ok l k (ub_left_update z u) T = ub_ok l k u T"
  "ub_ok l k (ub_written_update z u) T = ub_ok l k u T"
  by (rule ub_ok_cong; simp)+

lemma ub_ok_sel [simp]:
  "ub_ok l (spin_lock k) u T = ub_ok (l - 1) k u T"
  "ub_ok l (spin_unlock k) u T = ub_ok (l + 1) k u T"
  "ub_ok l (kemit es k) u T = ub_ok l k u T"
  "ub_ok l (ub_du_destroy v k) u T = ub_ok l k u T"
  by (simp_all add: ub_ok_def ub_du_destroy_def del: ub_ok_iff split: option.split)

lemma ub_ok_flow:
  assumes "ub_ok l k u T"
  shows "find_flow k (ub_id u) = Some (ub_flow u)" "\<exists>f. kf_mem k (ub_flow u) = Some f"
proof -
  show *: "find_flow k (ub_id u) = Some (ub_flow u)"
    by (rule kfa_ok_thread [of l k "add_mset (TUb (UbCopying u)) T" "TUb (UbCopying u)"])
      (use assms in simp_all)
  show "\<exists>f. kf_mem k (ub_flow u) = Some f"
    using kfa_ok_flow [OF _ *, of l "add_mset (TUb (UbCopying u)) T"] assms by auto
qed

lemma ub_finish_ok:
  assumes "ub_ok 1 k u T"
  shows "goes_on 0 T (ub_threads (ub_finish [] r u k))"
  using finish_write_ok [of 1 k "TUb (UbCopying u)" T "ub_id u" "ub_flow u"] assms
  by (auto simp: ub_finish_def goes_on_def)

lemma ub_round_ok: "ub_ok 1 k u T \<Longrightarrow> goes_on 0 T (ub_threads (ub_round [] u k))"
  by (auto simp: ub_round_def ub_finish_ok)

lemma ub_call_ok: "ub_ok 1 k u T \<Longrightarrow> goes_on 0 T (ub_threads (ub_call [] u f k))"
  by (auto simp: ub_call_def ub_finish_ok split: option.split)

lemma ub_wait_ok: "ub_ok 1 k u T \<Longrightarrow> goes_on 0 T (ub_threads (ub_wait [] u f k))"
  by (simp add: ub_wait_def ub_call_ok)

lemma ub_copy_ok:
  assumes "ub_ok 0 k u T" "ub_fill ms mem False u = Some (Inr d, es)"
  shows "goes_on 0 T (ub_threads (ub_copy ms [] mem False u k))"
  using ub_ok_flow(2) [OF assms(1)] assms
  by (auto simp: ub_copy_def Let_def ub_finish_ok ub_wait_ok ub_call_ok split: option.split)

lemma ub_woken_ok:
  assumes "ub_ok 0 k u T"
  shows "goes_on 0 T (ub_threads (ub_woken [] r u k))"
proof -
  have "u\<lparr>ub_flow := ub_flow u\<rparr> = u" by simp
  then show ?thesis
    using ub_ok_flow [OF assms] assms
    by (auto simp: ub_woken_def Let_def ub_finish_ok ub_wait_ok)
qed

lemma ub_called_ok: "ub_ok 0 k u T \<Longrightarrow> goes_on 0 T (ub_threads (ub_called [] r u k))"
  by (simp add: ub_called_def Let_def ub_finish_ok ub_round_ok)

lemma flow_inv_writer:
  "flow_inv f nr nw \<Longrightarrow> flow_inv (f\<lparr>fl_writers := fl_writers f + 1\<rparr>) nr (Suc nw)"
  by (auto simp: flow_inv_def)

lemma writer_enters:
  assumes "kfa_ok l k T" "find_flow k i = Some a" "kf_mem k a = Some f"
    and "tport t = Some (i, a)" "\<not> is_reader t"
  shows "kfa_ok l (kput a (f\<lparr>fl_writers := fl_writers f + 1\<rparr>) k) (add_mset t T)"
proof (rule kfa_ok_put_add [OF assms(1,2,4)])
  from flow_inv_writer [OF kfa_ok_flow_inv [OF assms(1-3)]] assms(4,5) show
    "flow_inv (f\<lparr>fl_writers := fl_writers f + 1\<rparr>) (nread a (add_mset t T)) (nwrite a (add_mset t T))"
    by (simp add: on_flow_tport)
qed

lemma kfa_ok_ipcp:
  assumes "kfa_ok l k T" "find_flow k i = Some a" "kf_mem k a = Some f"
  shows "\<exists>p. fl_ipc_process f = Some p"
  using kfa_ok_flow_inv [OF assms] by (auto simp: flow_inv_def)

lemma kfa_flow_ub_write_ok:
  assumes ok: "kfa_ok 0 k T"
  shows "goes_on 0 T (ub_threads (kfa_flow_ub_write [] mss i src sz b k))"
proof (cases "find_flow k i")
  case None
  with ok show ?thesis
    by (auto simp: kfa_flow_ub_write_def Let_def ub_drop_skb_def split: ub_source.split)
next
  case (Some a)
  with kfa_ok_flow [OF ok] obtain f where f: "kf_mem k a = Some f" by blast
  with kfa_ok_ipcp [OF ok Some] obtain p where p: "fl_ipc_process f = Some p" by blast
  let ?u = "\<lparr>ub_id = i, ub_source = src, ub_blocking = b, ub_flow = a, ub_max = mss p,
             ub_left = sz, ub_written = 0, ub_wqs = None, ub_du = None\<rparr>"
  have "ub_ok 1 (kput a (f\<lparr>fl_writers := fl_writers f + 1\<rparr>) (spin_lock k)) ?u T"
    using writer_enters [of 1 "spin_lock k" T i a f "TUb (UbCopying ?u)"] ok Some f by simp
  from ub_round_ok [OF this] show ?thesis
    using ok Some f p
    by (auto simp: kfa_flow_ub_write_def Let_def ub_drop_skb_def split: ub_source.split)
qed

lemma kfa_flow_du_write_ok:
  assumes ok: "kfa_ok 0 k T" and d: "du_ok d"
  shows "goes_on 0 T (map_option (\<lambda>(r, k'). (threads (TWrite i) r, k')) (kfa_flow_du_write [] mss i d k))"
proof -
  from d have len: "got (du_len d) = Some (length (du_bytes d))" by (simp add: du_len_bytes)
  show ?thesis
  proof (cases "find_flow k i")
    case None
    with ok len show ?thesis by (simp add: kfa_flow_du_write_def Let_def)
  next
    case (Some a)
    with kfa_ok_flow [OF ok] obtain f where f: "kf_mem k a = Some f" by blast
    with kfa_ok_ipcp [OF ok Some] obtain p where p: "fl_ipc_process f = Some p" by blast
    let ?k = "kput a (f\<lparr>fl_writers := fl_writers f + 1\<rparr>) (spin_lock k)"
    let ?t = "TWrite i (a, length (du_bytes d))"
    have in1: "kfa_ok 1 ?k (add_mset ?t T)"
      using writer_enters [of 1 "spin_lock k" T i a f ?t] ok Some f by simp
    with finish_write_ok [of 1 "kemit [KDestroy d] ?k" ?t T i a] obtain k' where
      "finish_write [] a i (kemit [KDestroy d] ?k) = Some k'" "kfa_ok 0 k' T" by auto
    with in1 ok Some f p len show ?thesis by (auto simp: kfa_flow_du_write_def Let_def)
  qed
qed

section \<open>Readers\<close>

abbreviation rd_threads :: "(rd after \<times> kfa) option \<Rightarrow> (kthread multiset \<times> kfa) option" where
  "rd_threads \<equiv> map_option (\<lambda>(r, k'). (threads TRead r, k'))"

lemma finish_read_goes_on:
  assumes "kfa_ok 1 k (add_mset (TRead c) T)" "threads TRead r = {#}"
  shows "goes_on 0 T (rd_threads (finish_read [] r c k))"
  using finish_read_ok [OF assms(1), of r] assms(2) by (auto simp: goes_on_def)

lemma get_du_to_read_ok:
  assumes q: "rfifo_inv q" "\<not> rfifo_is_empty q" "\<forall>d\<in>set (rfifo_list q). du_ok d"
  shows "\<exists>d stays q'. get_du_to_read sz q = Some (d, stays, q') \<and> du_ok d \<and> q' \<noteq> None \<and> rfifo_inv q' \<and>
    rfifo_list q' = (if stays then rfifo_list q else tl (rfifo_list q)) \<and> d = hd (rfifo_list q) \<and>
    (stays \<longleftrightarrow> sz < length (du_bytes d))"
proof -
  obtain d ds where l: "rfifo_list q = d # ds"
    using q(1,2) rfifo_fifo.is_empty_iff by (cases "rfifo_list q") auto
  with q have d: "du_ok d" "got (du_len d) = Some (length (du_bytes d))"
    by (simp_all add: du_len_bytes)
  have peek: "rfifo_peek q = Some d"
    using l by (auto simp: rfifo_peek_def rfifo_list_def rqueue_head_peek_def rqueue_list_def
        split: option.splits)
  have pop: "fst (rfifo_pop q) = Some d" "rfifo_list (snd (rfifo_pop q)) = ds"
    "rfifo_inv (snd (rfifo_pop q))"
    using rfifo_fifo.laws(4-6) [OF q(1)] l by simp_all
  then have "snd (rfifo_pop q) \<noteq> None" "q \<noteq> None"
    using q(1) by (auto simp: rfifo_inv_def split: option.splits)
  then show ?thesis
    using peek pop d l q(1) by (auto simp: get_du_to_read_def split_beta)
qed

lemma read_take_ok:
  assumes ok: "kfa_ok 1 k (add_mset (TRead c) T)" and f: "kf_mem k (rd_flow c) = Some f"
    and st: "fl_state f \<noteq> PORT_STATE_PENDING"
  shows "goes_on 0 T (rd_threads (read_take [] c f k))"
proof (cases "rfifo_is_empty (fl_sdu_ready f)")
  case True
  with finish_read_goes_on [OF ok] show ?thesis by (simp add: read_take_def)
next
  case False
  let ?T = "add_mset (TRead c) T" and ?a = "rd_flow c"
  have fl: "find_flow k (rd_id c) = Some ?a" using kfa_ok_thread [OF ok, of "TRead c"] by simp
  have inv: "flow_inv f (nread ?a ?T) (nwrite ?a ?T)" by (rule kfa_ok_flow_inv [OF ok fl f])
  then have q: "rfifo_inv (fl_sdu_ready f)" "\<forall>d\<in>set (rfifo_list (fl_sdu_ready f)). du_ok d"
    using st by (auto simp: flow_inv_def queue_inv_def on_flow_def split: option.splits)
  have tl: "set (tl xs) \<subseteq> set xs" for xs :: "du list" by (cases xs) auto
  from get_du_to_read_ok [OF q(1) False q(2), of "rd_size c"] obtain d s q' where
    g: "get_du_to_read (rd_size c) (fl_sdu_ready f) = Some (d, s, q')" "du_ok d" "q' \<noteq> None"
      "rfifo_inv q'"
      "rfifo_list q' = (if s then rfifo_list (fl_sdu_ready f) else tl (rfifo_list (fl_sdu_ready f)))"
    by blast
  then have "set (rfifo_list q') \<subseteq> set (rfifo_list (fl_sdu_ready f))" using tl by simp
  with g have "flow_inv (f\<lparr>fl_sdu_ready := q'\<rparr>) (nread ?a ?T) (nwrite ?a ?T)"
    using inv q(2) by (auto simp: flow_inv_def queue_inv_def split: option.splits)
  from finish_read_goes_on [OF kfa_ok_put_same [OF ok fl this], of "Got (int (length (du_bytes d))) d s"]
  show ?thesis using False g by (simp add: read_take_def du_len_bytes)
qed

lemma read_wait_ok:
  assumes "kfa_ok 1 k (add_mset (TRead c) T)" "kf_mem k (rd_flow c) = Some f"
  shows "goes_on 0 T (rd_threads (read_wait [] c f k))"
  using assms read_take_ok [OF assms] by (auto simp: read_wait_def)

lemma read_woken_ok:
  assumes ok: "kfa_ok 0 k (add_mset (TRead c) T)"
  shows "goes_on 0 T (rd_threads (read_woken [] r c k))"
proof -
  have fl: "find_flow k (rd_id c) = Some (rd_flow c)"
    using kfa_ok_thread [OF ok, of "TRead c"] by simp
  from kfa_ok_flow [OF ok fl] obtain f where f: "kf_mem k (rd_flow c) = Some f" by blast
  have c: "c\<lparr>rd_flow := rd_flow c\<rparr> = c" by simp
  from ok have ok1: "kfa_ok 1 (spin_lock k) (add_mset (TRead c) T)" by simp
  show ?thesis
    using fl f finish_read_goes_on [OF ok1] read_take_ok [OF ok1] read_wait_ok [OF ok1]
    by (auto simp: read_woken_def Let_def c)
qed

lemma kfa_flow_du_read_ok:
  assumes ok: "kfa_ok 0 k T"
  shows "goes_on 0 T (rd_threads (kfa_flow_du_read [] i sz b k))"
proof (cases "find_flow k i")
  case None
  with ok show ?thesis by (simp add: kfa_flow_du_read_def Let_def)
next
  case (Some a)
  with kfa_ok_flow [OF ok] obtain f where f: "kf_mem k a = Some f"
    "flow_inv f (nread a T) (nwrite a T)" by blast
  let ?f = "f\<lparr>fl_readers := fl_readers f + 1\<rparr>"
  let ?c = "\<lparr>rd_id = i, rd_flow = a, rd_size = sz, rd_wqs = fl_wqs f\<rparr>"
  let ?k = "kput a ?f (spin_lock k)"
  show ?thesis
  proof (cases "fl_state f = PORT_STATE_DEALLOCATED")
    case True
    with ok Some f show ?thesis by (simp add: kfa_flow_du_read_def Let_def)
  next
    case False
    with f have "flow_inv ?f (nread a (add_mset (TRead ?c) T)) (nwrite a (add_mset (TRead ?c) T))"
      by (auto simp: flow_inv_def on_flow_def queue_inv_def split: option.splits)
    with kfa_ok_put_add [of 1 "spin_lock k" T i a "TRead ?c" ?f] ok Some
    have in1: "kfa_ok 1 ?k (add_mset (TRead ?c) T)" by simp
    show ?thesis
      using ok Some f False finish_read_goes_on [OF in1] read_take_ok [OF in1] read_wait_ok [OF in1]
      by (auto simp: kfa_flow_du_read_def Let_def)
  qed
qed

section \<open>The other operations\<close>

abbreviation no_thread :: "('r \<times> kfa) option \<Rightarrow> (kthread multiset \<times> kfa) option" where
  "no_thread \<equiv> map_option (\<lambda>(r, k'). ({#}, k'))"

lemma disable_write_ok:
  assumes ok: "kfa_ok 0 k T" and b: "bound_flow k i"
  shows "goes_on 0 T (no_thread (disable_write i k))"
proof (cases "find_flow k i")
  case (Some a)
  with kfa_ok_flow [OF ok] obtain f where f: "kf_mem k a = Some f"
    "flow_inv f (nread a T) (nwrite a T)" by blast
  with b Some have "flow_inv (f\<lparr>fl_state := PORT_STATE_DISABLED\<rparr>) (nread a T) (nwrite a T)"
    by (auto simp: bound_flow_def flow_inv_def queue_inv_def)
  with kfa_ok_put_same [of 1 "spin_lock k" T i a] ok Some f show ?thesis
    by (simp add: disable_write_def Let_def)
qed (use ok in \<open>simp add: disable_write_def Let_def\<close>)

lemma enable_write_ok:
  assumes ok: "kfa_ok 0 k T"
  shows "goes_on 0 T (no_thread (enable_write i k))"
proof (cases "find_flow k i")
  case (Some a)
  with kfa_ok_flow [OF ok] obtain f where f: "kf_mem k a = Some f"
    "flow_inv f (nread a T) (nwrite a T)" by blast
  then have "fl_state f = PORT_STATE_DISABLED \<Longrightarrow>
      flow_inv (f\<lparr>fl_state := PORT_STATE_ALLOCATED\<rparr>) (nread a T) (nwrite a T)"
    by (auto simp: flow_inv_def queue_inv_def split: option.splits)
  with kfa_ok_put_same [of 1 "spin_lock k" T i a] ok Some f show ?thesis
    by (auto simp: enable_write_def Let_def split: option.split)
qed (use ok in \<open>simp add: enable_write_def Let_def\<close>)

lemma flow_inv_wqs: "flow_inv (f\<lparr>fl_wqs := w\<rparr>) nr nw = flow_inv f nr nw"
  by (simp add: flow_inv_def)

lemma kfa_flow_iowqs_ok:
  assumes ok: "kfa_ok 0 k T"
  shows "goes_on 0 T (no_thread (kfa_flow_set_iowqs w i k))"
    and "goes_on 0 T (no_thread (kfa_flow_cancel_iowqs i k))"
proof -
  have "goes_on 0 T (no_thread (kfa_flow_set_iowqs w i k)) \<and>
      goes_on 0 T (no_thread (kfa_flow_cancel_iowqs i k))"
  proof (cases "find_flow k i")
    case (Some a)
    with kfa_ok_flow [OF ok] obtain f where f: "kf_mem k a = Some f"
      "flow_inv f (nread a T) (nwrite a T)" by blast
    have "kfa_ok 1 (kput a (f\<lparr>fl_wqs := v\<rparr>) (spin_lock k)) T" for v
      using kfa_ok_put_same [of 1 "spin_lock k" T i a "f\<lparr>fl_wqs := v\<rparr>"] ok Some f
      by (simp add: flow_inv_wqs)
    with ok Some f show ?thesis
      by (simp add: kfa_flow_set_iowqs_def kfa_flow_cancel_iowqs_def Let_def)
  qed (use ok in \<open>simp add: kfa_flow_set_iowqs_def kfa_flow_cancel_iowqs_def Let_def\<close>)
  then show "goes_on 0 T (no_thread (kfa_flow_set_iowqs w i k))"
    "goes_on 0 T (no_thread (kfa_flow_cancel_iowqs i k))" by simp_all
qed

lemma kfa_flow_deallocate_ok:
  assumes ok: "kfa_ok 0 k T" and b: "bound_flow k i \<or> no_reader k i T"
  shows "goes_on 0 T (no_thread (kfa_flow_deallocate [] i k))"
proof (cases "find_flow k i")
  case (Some a)
  with kfa_ok_flow [OF ok] obtain f where f: "kf_mem k a = Some f"
    "flow_inv f (nread a T) (nwrite a T)" by blast
  let ?f = "f\<lparr>fl_state := PORT_STATE_DEALLOCATED\<rparr>"
  let ?k = "wake_both (fl_wqs f) (kput a ?f (spin_lock k))"
  from ok have ok1: "kfa_ok 1 (spin_lock k) T" by simp
  show ?thesis
  proof (cases "unused f")
    case True
    with f have "nread a T = 0" "nwrite a T = 0" by (simp_all add: flow_inv_unused)
    then have "\<exists>r k'. kfa_flow_destroy [] a i ?k = Some (r, k') \<and> kfa_ok 1 k' T"
      using ok1 Some by (intro kfa_flow_destroy_ok [OF ok1]) (auto simp: kfa_ok_def)
    with True ok Some f show ?thesis by (auto simp: kfa_flow_deallocate_def Let_def)
  next
    case False
    with f b Some have "flow_inv ?f (nread a T) (nwrite a T)"
      by (auto simp: flow_inv_def queue_inv_def unused_def bound_flow_def no_reader_def
          split: option.splits)
    from kfa_ok_put_same [OF ok1 _ this, of i] ok Some f False show ?thesis
      by (auto simp: kfa_flow_deallocate_def Let_def)
  qed
qed (use ok in \<open>simp add: kfa_flow_deallocate_def Let_def\<close>)

lemma worker_ok:
  assumes ok: "kfa_ok 0 k T"
  shows "goes_on 0 T (map_option (\<lambda>(r, k'). (threads TWorker r, k'))
           (kfa_flow_deallocate_worker [] (Some w) k))"
proof (cases w)
  case (DelFlow i)
  show ?thesis
  proof (cases "find_flow k i")
    case (Some a)
    with kfa_ok_flow [OF ok] obtain f where f: "kf_mem k a = Some f"
      "flow_inv f (nread a T) (nwrite a T)" by blast
    then have "\<not> (fl_state f = PORT_STATE_DEALLOCATED \<and> unused f)"
      by (auto simp: flow_inv_def unused_def)
    with ok Some f DelFlow show ?thesis
      by (auto simp: kfa_flow_deallocate_worker_def Let_def kfa_ok_add_none)
  qed (use ok DelFlow in \<open>simp add: kfa_flow_deallocate_worker_def Let_def\<close>)
qed (use ok in \<open>simp add: kfa_flow_deallocate_worker_def rina_dev_destroy_def\<close>)

lemma kfa_flow_ipcp_bind_ok:
  assumes ok: "kfa_ok 0 k T"
  shows "goes_on 0 T (no_thread (kfa_flow_ipcp_bind [] i (Some p) k))"
proof (cases "find_flow k i")
  case (Some a)
  with kfa_ok_flow [OF ok] obtain f where f: "kf_mem k a = Some f"
    "flow_inv f (nread a T) (nwrite a T)" by blast
  let ?f = "f\<lparr>fl_ipc_process := Some p, fl_state := PORT_STATE_ALLOCATED,
             fl_sdu_ready := rfifo_create True True\<rparr>"
  from f have "flow_inv ?f (nread a T) (nwrite a T)"
    by (simp add: flow_inv_def queue_inv_def queue_simps)
  with kfa_ok_put_same [of 1 "spin_lock k" T i a ?f] ok Some f show ?thesis
    by (auto simp: kfa_flow_ipcp_bind_def Let_def rfifo_create_def rqueue_create_def)
qed (use ok in \<open>simp add: kfa_flow_ipcp_bind_def Let_def\<close>)

lemma kfa_ok_fresh:
  assumes "kfa_ok l k T"
  shows "nread (kf_next k) T = 0" "nwrite (kf_next k) T = 0"
proof -
  have "\<not> on_flow (kf_next k) t" if "t \<in># T" for t
    using assms that by (fastforce simp: kfa_ok_def on_flow_def)
  then show "nread (kf_next k) T = 0" "nwrite (kf_next k) T = 0"
    by (auto simp: nread_def nwrite_def)
qed

lemma kfa_ok_create:
  assumes ok: "kfa_ok l k T" and i: "i \<in> set (pidm_ids (kf_pidm k))" "find_flow k i = None"
  shows "kfa_ok l (kput (kf_next k) (new_flow (Some p) mb dev)
           (k\<lparr>kf_flows := (i, kf_next k) # kf_flows k, kf_next := kf_next k + 1\<rparr>)) T"
proof -
  have new: "i \<notin> fst ` set (kf_flows k)"
    using i(2) by (simp add: find_flow_def kfa_pmap_find_map_of map_of_eq_None_iff)
  have fresh: "kf_next k \<notin> snd ` set (kf_flows k)" using ok by (fastforce simp: kfa_ok_def)
  have "flow_inv (new_flow (Some p) mb dev) (nread (kf_next k) T) (nwrite (kf_next k) T)"
    using kfa_ok_fresh [OF ok] by (simp add: flow_inv_def new_flow_def queue_inv_def)
  moreover have "b < kf_next k \<and> b \<noteq> kf_next k" if "(j, b) \<in> set (kf_flows k)" for j b
    using ok that by (fastforce simp: kfa_ok_def)
  ultimately show ?thesis
    using ok i(1) new fresh unfolding kfa_ok_def
    by (auto simp: kput_def less_Suc_eq split: prod.splits)
qed

lemma kfa_flow_create_ok:
  assumes ok: "kfa_ok 0 k T" and i: "i \<in> set (pidm_ids (kf_pidm k))" "find_flow k i = None"
    and dn: "length dn < IFNAMSIZ"
  shows "goes_on 0 T (no_thread (kfa_flow_create True [] True dn i (Some p) nm mb k))"
proof -
  have "\<exists>dev. rina_dev_create [] dn True i = Some (Some dev)"
    using dn by (simp add: rina_dev_create_def)
  with kfa_ok_create [of 1 "spin_lock k" T i p] ok i show ?thesis
    by (auto simp: kfa_flow_create_def kfa_pmap_add_gfp_def Let_def)
qed

lemma kfa_ok_pidm:
  assumes "kfa_ok l k T" "pidm_inv p"
    and "\<And>j. j \<in> fst ` set (kf_flows k) \<Longrightarrow> j \<in> set (pidm_ids p)"
  shows "kfa_ok l (k\<lparr>kf_pidm := p\<rparr>) T"
proof -
  have "i \<in> set (pidm_ids p)" if "(i, a) \<in> set (kf_flows k)" for i a
    using assms(3) that by force
  with assms(1,2) show ?thesis unfolding kfa_ok_def by (auto split: prod.splits)
qed

lemma kfa_ok_reserved: "kfa_ok l k T \<Longrightarrow> j \<in> fst ` set (kf_flows k) \<Longrightarrow> j \<in> set (pidm_ids (kf_pidm k))"
  by (auto simp: kfa_ok_def)

lemma kfa_port_id_reserve_ok:
  assumes ok: "kfa_ok 0 k T" and free: "int (length (pidm_ids (kf_pidm k))) < MAX_PORT_ID"
  shows "goes_on 0 T (no_thread (kfa_port_id_reserve b k))"
proof -
  from ok have pm: "pidm_inv (kf_pidm k)" by (simp add: kfa_ok_def)
  from pidm_pool.alloc_returns [OF pm, of b] short_list_misses [OF free] obtain i p where
    a: "pidm_allocate b (kf_pidm k) = Some (i, p)" by (metis surj_pair)
  then have p: "pidm_inv p" "set (pidm_ids (kf_pidm k)) \<subseteq> set (pidm_ids p)"
    using pidm_pool.alloc_fresh [OF pm, of i p] pidm_pool.alloc_nomem [OF pm, of i p]
    by (cases b; auto)+
  have "kfa_ok 1 ((spin_lock k)\<lparr>kf_pidm := p\<rparr>) T"
    by (rule kfa_ok_pidm) (use ok p kfa_ok_reserved [OF ok] in auto)
  with ok a pm show ?thesis
    by (auto simp: kfa_port_id_reserve_def Let_def pidm_inv_def)
qed

lemma kfa_port_id_release_ok:
  assumes ok: "kfa_ok 0 k T"
  shows "kfa_ok 0 (snd (kfa_port_id_release k i)) T"
proof (cases "find_flow k i")
  case None
  from ok have pm: "pidm_inv (kf_pidm k)" by (simp add: kfa_ok_def)
  have "i \<notin> fst ` set (kf_flows k)"
    using None by (simp add: find_flow_def kfa_pmap_find_map_of map_of_eq_None_iff)
  then have "kfa_ok 1 ((spin_lock k)\<lparr>kf_pidm := snd (pidm_release (kf_pidm k) i)\<rparr>) T"
    using ok kfa_ok_reserved [OF ok] pidm_pool.release_invar [OF pm]
    by (intro kfa_ok_pidm) (auto simp: pidm_pool.release_ids [OF pm])
  with None ok show ?thesis by (simp add: kfa_port_id_release_def Let_def split_beta)
qed (use ok in \<open>simp add: kfa_port_id_release_def Let_def\<close>)

text \<open>A delivery never finds the flow both deallocated and unused, so it destroys nothing.\<close>

lemma kfa_du_post_ok:
  assumes ok: "kfa_ok 0 k T" and d: "du_ok d" "du_bytes d \<noteq> []"
  shows "goes_on 0 T (map_option (\<lambda>(r, k'). (threads TPost r, k'))
           (kfa_du_post [] b netif i (Some d) k))"
proof (cases "find_flow k i")
  case (Some a)
  with kfa_ok_flow [OF ok] obtain f where f: "kf_mem k a = Some f"
    "flow_inv f (nread a T) (nwrite a T)" by blast
  from d obtain s where s: "du_skb d = Some s" "sk_data s < length (sk_buf s)"
    by (auto simp: du_bytes_def skb_bytes_def split: option.splits)
  let ?q = "rfifo_push b (fl_sdu_ready f) d"
  have "fl_state f \<noteq> PORT_STATE_DEALLOCATED \<Longrightarrow>
      flow_inv (f\<lparr>fl_sdu_ready := snd ?q\<rparr>) (nread a T) (nwrite a T)"
    using f(2) d(1) rfifo_fifo.push_invar [of "fl_sdu_ready f" b d]
      rfifo_fifo.push_contents [of "fl_sdu_ready f" b d]
    by (cases "fl_sdu_ready f") (auto simp: flow_inv_def queue_inv_def rfifo_push_def split_beta)
  moreover have "flow_inv (f\<lparr>fl_ip_dev := dev\<rparr>) (nread a T) (nwrite a T)" for dev
    using f(2) by (simp add: flow_inv_def)
  ultimately have put: "fl_state f \<noteq> PORT_STATE_DEALLOCATED \<Longrightarrow>
      kfa_ok 1 (kput a (f\<lparr>fl_sdu_ready := snd ?q\<rparr>) (kemit [] (spin_lock k))) T"
    "kfa_ok 1 (kput a (f\<lparr>fl_ip_dev := dev\<rparr>) (kemit es (spin_lock k))) T" for dev es
    using ok Some by (auto intro!: kfa_ok_put_same)
  then show ?thesis
    using ok Some f(1) s
    by (auto simp: kfa_du_post_def Let_def is_du_ok_def du_detach_skb_def rina_dev_rcv_def
        kfa_ok_add_none split_beta split: option.split)
next
  case None
  with ok d show ?thesis by (auto simp: kfa_du_post_def Let_def du_ok_def is_du_ok_def)
qed

section \<open>Every step keeps the invariant\<close>

lemma kfa_call_ok:
  assumes "kfa_ok 0 k T" "call_ok c k T"
  shows "goes_on 0 T (kfa_call mss c k)"
  using assms
  by (cases c)
    (simp_all add: kfa_port_id_reserve_ok kfa_port_id_release_ok kfa_flow_create_ok
      kfa_flow_ipcp_bind_ok kfa_flow_deallocate_ok disable_write_ok enable_write_ok
      kfa_flow_iowqs_ok kfa_flow_du_write_ok kfa_flow_ub_write_ok kfa_flow_du_read_ok
      kfa_du_post_ok)

lemma resume_ok:
  assumes ok: "kfa_ok 0 k (add_mset t T)" and t: "tport t \<noteq> None" "copy_ok e t"
  shows "goes_on 0 T (resume e t k)"
proof (cases t)
  case (TWrite i c)
  with finish_write_ok [of 1 "spin_lock k" t T i "fst c"] ok show ?thesis
    by (auto simp: du_write_end_def goes_on_def)
next
  case (TUb n)
  show ?thesis
  proof (cases n)
    case (UbCopying u)
    with t(2) TUb obtain d es where "ub_fill (ke_ms e) (ke_mem e) False u = Some (Inr d, es)"
      by (auto split: option.splits sum.splits)
    from ub_copy_ok [OF _ this, of k T] ok TUb UbCopying show ?thesis by simp
  next
    case (UbAsleep u)
    with ub_woken_ok [of k u T "ke_rc e"] ok TUb show ?thesis by simp
  next
    case (UbCalling u)
    with ub_called_ok [of k u T "ke_rc e"] ok TUb show ?thesis by simp
  qed
next
  case (TRead c)
  with read_woken_ok [of k c T "ke_rc e"] ok show ?thesis by simp
qed (use t in simp_all)

lemma resume_wake_ok:
  assumes "kfa_ok 0 k (add_mset t T)" "tport t = None" "resume e t k = Some (T', k')"
  shows "kfa_ok 0 k' (T + T')"
  using assms
  by (cases t) (auto simp: kfa_ok_add_none post_wake_def worker_wake_def bind_eq_Some_conv
      split: if_splits option.splits)

inductive_cases kfa_stepE: "kfa_step mss (k, T) s"

lemma kfa_step_ok:
  assumes "kfa_step mss (k, T) (k', T')" "kfa_ok 0 k T"
  shows "kfa_ok 0 k' T'"
  using assms(1)
proof (rule kfa_stepE, goal_cases)
  case (1 c T1 k1)
  with kfa_call_ok [OF assms(2), of c mss] show ?case by (simp add: goes_on_def)
next
  case (2 e t T1 k1 T0)
  show ?case
  proof (cases "tport t")
    case None
    with resume_wake_ok [of k t T0 e T1 k1] 2 assms(2) show ?thesis by simp
  next
    case (Some p)
    with resume_ok [of k t T0 e] 2 assms(2) show ?thesis by (simp add: goes_on_def)
  qed
next
  case (3 w ws r k1)
  with worker_ok [of "k\<lparr>kf_flowdelq := ws\<rparr>" T w] assms(2) show ?case by (simp add: goes_on_def)
qed

lemma kfa_create_ok: "kfa_create ms = Some k \<Longrightarrow> kfa_ok 0 k {#}"
  by (auto simp: kfa_create_def kfa_ok_def kfa_pmap_create_def pidm_create_def pidm_inv_def
      MAX_PORT_ID_def split: prod.splits bool.splits if_splits)

lemma kfa_reachable_ok:
  assumes "(kfa_step mss)\<^sup>*\<^sup>* (k0, {#}) (k, T)" "kfa_create ms = Some k0"
  shows "kfa_ok 0 k T"
  using assms(1)
proof (induction "(k, T)" arbitrary: k T rule: rtranclp_induct)
  case base
  with kfa_create_ok [OF assms(2)] show ?case by simp
next
  case (step s)
  then show ?case using kfa_step_ok by (cases s) blast
qed

section \<open>Runs of calls\<close>

text \<open>A sequence of new calls, each under the conditions of \<open>call_ok\<close>; it is a run of steps.\<close>

fun kfa_calls :: "(ipcp \<Rightarrow> nat) \<Rightarrow> kcall list \<Rightarrow> kfa \<times> kthread multiset \<Rightarrow> (kfa \<times> kthread multiset) option" where
  "kfa_calls mss [] s = Some s"
| "kfa_calls mss (c # cs) (k, T) =
     (if call_ok c k T
      then (case kfa_call mss c k of None \<Rightarrow> None | Some (T', k') \<Rightarrow> kfa_calls mss cs (k', T + T'))
      else None)"

lemma kfa_calls_steps: "kfa_calls mss cs s = Some s' \<Longrightarrow> (kfa_step mss)\<^sup>*\<^sup>* s s'"
proof (induction mss cs s rule: kfa_calls.induct)
  case (2 mss c cs k T)
  then obtain T' k' where "call_ok c k T" "kfa_call mss c k = Some (T', k')"
    "kfa_calls mss cs (k', T + T') = Some s'" by (auto split: if_splits option.splits)
  with 2(1) kfa_step.call [of c k T mss T' k'] show ?case
    by (simp add: converse_rtranclp_into_rtranclp)
qed simp

section \<open>Properties\<close>

text \<open>
  C34. The kernel flow allocator, used by any number of callers at once, never uses a flow it has
  freed: in every state that calls, sections of calls in progress and the work queue can reach from
  a new allocator, the lock is free; the flow of every port-id is allocated and its counters are the
  numbers of the readers and writers in progress on it; a deallocated flow is kept only while it has
  users; and the next section of every reader and writer, and every call under \<open>call_ok\<close>, runs
  without a fault.
\<close>

theorem kfa_safe:
  assumes "kfa_create ms = Some k0" "(kfa_step mss)\<^sup>*\<^sup>* (k0, {#}) (k, T)"
  shows "kf_lock k = 0 \<and>
    (\<forall>(i, a)\<in>set (kf_flows k). \<exists>f. kf_mem k a = Some f \<and>
       fl_readers f = int (nread a T) \<and> fl_writers f = int (nwrite a T) \<and>
       (fl_state f = PORT_STATE_DEALLOCATED \<longrightarrow> 0 < nread a T + nwrite a T)) \<and>
    (\<forall>t e. t \<in># T \<longrightarrow> tport t \<noteq> None \<longrightarrow> copy_ok e t \<longrightarrow> resume e t k \<noteq> None) \<and>
    (\<forall>c. call_ok c k T \<longrightarrow> kfa_call mss c k \<noteq> None)"
proof -
  have ok: "kfa_ok 0 k T" by (rule kfa_reachable_ok [OF assms(2,1)])
  have "resume e t k \<noteq> None" if "t \<in># T" "tport t \<noteq> None" "copy_ok e t" for t e
  proof -
    from that(1) obtain T0 where "T = add_mset t T0" by (metis mset_add)
    with resume_ok [of k t T0 e] ok that show ?thesis by (auto simp: goes_on_def)
  qed
  moreover have "kfa_call mss c k \<noteq> None" if "call_ok c k T" for c
    using kfa_call_ok [OF ok that, of mss] by (auto simp: goes_on_def)
  ultimately show ?thesis using ok by (fastforce simp: kfa_ok_def flow_inv_def)
qed

definition example_calls :: "kcall list" where
  "example_calls = [CReserve True, CCreate ''rina.1.1'' 1 0 None False, CSetWqs 5 1, CRead 1 100 True]"

definition kfa0 :: kfa where
  "kfa0 = the (kfa_create [])"

lemma kfa0_create: "kfa_create [] = Some kfa0"
  by (simp add: kfa0_def kfa_create_def pidm_create_def kfa_pmap_create_def)

lemmas kfa_eval =
  kfa0_def kfa_create_def pidm_create_def kfa_pmap_create_def kfa_port_id_reserve_def
  pidm_allocate_def pidm_allocated_def id_search.simps id_step_def MAX_PORT_ID_def pidm_ids_def
  kfa_flow_create_def kfa_pmap_add_gfp_def new_flow_def find_flow_def spin_lock_def spin_unlock_def
  kput_def kemit_def kfa_flow_set_iowqs_def kfa_flow_du_read_def read_wait_def common_defs
  IFNAMSIZ_def kfa_flow_ipcp_bind_def rfifo_create_def rqueue_create_def

lemma example_run:
  "\<exists>k. kfa_calls (\<lambda>_. 100) example_calls (kfa0, {#}) =
     Some (k, {#TRead \<lparr>rd_id = 1, rd_flow = 0, rd_size = 100, rd_wqs = Some 5\<rparr>#})"
  by (simp add: example_calls_def kfa_eval)

theorem kfa_safe_witness:
  "\<exists>k T. kfa_calls (\<lambda>_. 100) example_calls (kfa0, {#}) = Some (k, T) \<and> size T = 1 \<and>
     kf_lock k = 0 \<and> (\<forall>t e. t \<in># T \<longrightarrow> resume e t k \<noteq> None)"
proof -
  obtain k where k: "kfa_calls (\<lambda>_. 100) example_calls (kfa0, {#}) =
      Some (k, {#TRead \<lparr>rd_id = 1, rd_flow = 0, rd_size = 100, rd_wqs = Some 5\<rparr>#})"
    using example_run by blast
  from kfa_safe [OF kfa0_create kfa_calls_steps [OF this]] k show ?thesis
    by (auto simp del: resume.simps)
qed

section \<open>Where the code goes wrong\<close>

text \<open>
  A writer whose copy from user memory fails ends without the lock and releases it all the same.
\<close>

lemma failed_copy_unlocks:
  assumes "ub_ok 0 k u T" "ub_fill ms mem fault u = Some (Inl e, es)"
  shows "\<exists>r k'. ub_copy ms [] mem fault u k = Some (Ret r, k') \<and> kf_lock k' = - 1"
proof -
  from finish_write_ok [of 0 "kemit es k" "TUb (UbCopying u)" T "ub_id u" "ub_flow u"] assms(1)
  obtain k' where "finish_write [] (ub_flow u) (ub_id u) (kemit es k) = Some k'" "kfa_ok (-1) k' T"
    by auto
  with assms(2) show ?thesis by (auto simp: ub_copy_def ub_finish_def kfa_ok_def)
qed

text \<open>
  The delivery reads the wait queues of the flow after it released the lock. When the last user
  destroys the flow in between, this is a use of freed memory.
\<close>

definition bind_calls :: "kcall list" where
  "bind_calls = [CReserve True, CCreate ''rina.1.1'' 1 0 None False, CBind 1 0]"

lemma post_after_free:
  assumes "is_du_ok (Some d)"
  shows "\<exists>k k1 k2 c. kfa_calls (\<lambda>_. 100) bind_calls (kfa0, {#}) = Some (k, {#}) \<and>
    kfa_du_post [] True True 1 (Some d) k = Some (Cont c, k1) \<and>
    kfa_flow_deallocate [] 1 k1 = Some (0, k2) \<and> post_wake c k2 = None"
  using assms
  by (simp add: bind_calls_def kfa_eval kfa_du_post_def kfa_flow_deallocate_def
      kfa_flow_destroy_def unused_def wake_both_def rfifo_defs rqueue_defs pidm_release_def
      kfree_def post_wake_def)

text \<open>When the item of the deferred deallocation cannot be allocated, the lock is never released.\<close>

lemma deallocate_keeps_lock:
  assumes "kfa_ok 0 k T" "find_flow k i = Some a" "is_port_id_ok i" "0 < nread a T"
  shows "\<exists>k'. kfa_flow_deallocate [True, False] i k = Some (-1, k') \<and> kf_lock k' = 1"
proof -
  from kfa_ok_flow [OF assms(1,2)] obtain f where f: "kf_mem k a = Some f"
    "flow_inv f (nread a T) (nwrite a T)" by blast
  then have "\<not> unused f" using assms(4) by (simp add: flow_inv_unused)
  with f assms show ?thesis by (auto simp: kfa_flow_deallocate_def Let_def kfa_ok_def)
qed

text \<open>Disabling a flow before it is bound to an IPC process lets a non-blocking reader use a missing queue.\<close>

definition disable_unbound :: "kcall list" where
  "disable_unbound = [CReserve True, CCreate ''rina.1.1'' 1 0 None False]"

lemma disable_unbound_faults:
  "\<exists>k k'. kfa_calls (\<lambda>_. 100) disable_unbound (kfa0, {#}) = Some (k, {#}) \<and>
     disable_write 1 k = Some (0, k') \<and> kfa_flow_du_read [] 1 100 False k' = None"
  by (simp add: disable_unbound_def kfa_eval disable_write_def read_take_def get_du_to_read_def
      rfifo_defs)

end
