(* ===== verification/Iodev.thy ===== *)
theory Iodev
  imports Kfa_Run
begin

text \<open>
  The I/O device of applications (\<^verbatim>\<open>kernel/iodev.c\<close>) over the kernel flow allocator, and what an
  application gets from it: a write goes out completely in units the IPC process takes, and the reads
  of a flow deliver its units in order, a unit longer than the buffer in several reads.
\<close>

section \<open>The device\<close>

abbreviation (input) EFAULT :: rc where "EFAULT \<equiv> 14"
abbreviation (input) EBUSY :: rc where "EBUSY \<equiv> 16"
abbreviation (input) ENXIO :: rc where "ENXIO \<equiv> 6"

record iodev_priv =
  io_port :: port_id_t
  io_wqs :: wqaddr
  io_dealloc :: bool

text \<open>Outcomes: the private data and the wait queues; \<open>w\<close> is the address of the latter.\<close>

definition iodev_open :: "allocs \<Rightarrow> wqaddr \<Rightarrow> rc \<times> iodev_priv ptr" where
  "iodev_open ms w =
     (if fst (rkmalloc_n 2 ms)
      then (0, Some \<lparr>io_port = port_id_bad, io_wqs = w, io_dealloc = False\<rparr>)
      else (- ENOMEM, None))"

definition iodev_write ::
    "allocs \<Rightarrow> (ipcp \<Rightarrow> nat) \<Rightarrow> bool \<Rightarrow> iodev_priv \<Rightarrow> u8 list ptr \<Rightarrow> nat \<Rightarrow> kfa \<Rightarrow> (ub_next after \<times> kfa) option" where
  "iodev_write ms mss nonblock v buffer sz k =
     (case buffer of
        None \<Rightarrow> Some (Ret (- EINVAL), k)
      | Some bs \<Rightarrow>
          (if sz = 0 then Some (Ret (- EINVAL), k)
           else kfa_flow_ub_write ms mss (io_port v) (UbBuffer bs) sz (\<not> nonblock) k))"

definition iodev_write_iter ::
    "allocs \<Rightarrow> (ipcp \<Rightarrow> nat) \<Rightarrow> bool \<Rightarrow> iodev_priv \<Rightarrow> u8 list \<Rightarrow> kfa \<Rightarrow> (ub_next after \<times> kfa) option" where
  "iodev_write_iter ms mss nonblock v bs k =
     kfa_flow_ub_write ms mss (io_port v) (UbIov bs) (length bs) (\<not> nonblock) k"

text \<open>
  \<^verbatim>\<open>common_read\<close> from the return of \<^verbatim>\<open>kfa_flow_du_read\<close> on: the answer, the bytes copied out, and
  the allocator. \<open>fault\<close> says that the copy to user memory failed. A unit that is longer than the
  buffer has stayed at the head of the queue of the flow and is shortened there, without the lock;
  when the queue does not hold it any more the access is a fault.
\<close>

definition consume_head :: "nat \<Rightarrow> port_id_t \<Rightarrow> kfa \<Rightarrow> kfa option" where
  "consume_head n i k = do {
     a \<leftarrow> find_flow k i;
     f \<leftarrow> kf_mem k a;
     g \<leftarrow> fl_sdu_ready f;
     r \<leftarrow> rf_q g;
     (case rq_head r of
        [] \<Rightarrow> None
      | d # ds \<Rightarrow> do {
          d' \<leftarrow> got (du_consume_data n d);
          Some (kput a (f\<lparr>fl_sdu_ready := Some (g\<lparr>rf_q := Some (r\<lparr>rq_head := d' # ds\<rparr>)\<rparr>)\<rparr>) k)
        })
   }"

definition common_read :: "bool \<Rightarrow> nat \<Rightarrow> port_id_t \<Rightarrow> rd after \<Rightarrow> kfa \<Rightarrow> (rc \<times> u8 list \<times> kfa) option" where
  "common_read fault sz i r k =
     (case r of
        Cont c \<Rightarrow> None
      | Ret retval \<Rightarrow> (if retval \<le> 0 then Some (retval, [], k) else Some (- EIO, [], k))
      | Got retval d stays \<Rightarrow>
          (if retval \<le> 0 then Some (retval, [], k)
           else if \<not> is_du_ok (Some d) then Some (- EIO, [], k)
           else
             (let partial_read = nat retval > sz;
                  retsize = (if partial_read then sz else nat retval)
              in do {
                data \<leftarrow> got (du_read 0 retsize d);
                if fault then Some (- EIO, [], kemit [KDestroy d] k)
                else if partial_read
                then do { k' \<leftarrow> consume_head sz i k; Some (int retsize, data, k') }
                else Some (int retsize, data, kemit [KDestroy d] k)
              })))"

definition iodev_read :: "bool \<Rightarrow> bool \<Rightarrow> iodev_priv \<Rightarrow> nat \<Rightarrow> kfa \<Rightarrow> (rc \<times> u8 list \<times> kfa) option" where
  "iodev_read fault nonblock v sz k = do {
     (r, k') \<leftarrow> kfa_flow_du_read [] (io_port v) sz (\<not> nonblock) k;
     common_read fault sz (io_port v) r k'
   }"

text \<open>\<^verbatim>\<open>iodev_poll\<close>: the answer is negative, or the two events: readable, writable.\<close>

definition iodev_poll :: "iodev_priv \<Rightarrow> kfa \<Rightarrow> ((rc + bool \<times> bool) \<times> kfa) option" where
  "iodev_poll v k =
     (if \<not> is_port_id_ok (io_port v) then Some (Inl (- ENXIO), k)
      else do {
        (res, pollin, k') \<leftarrow> kfa_flow_readable (io_port v) k;
        Some (Inr (pollin, res = 0), k')
      })"

text \<open>
  \<^verbatim>\<open>deallocate_flow\<close>: whether the IPC Manager is asked to deallocate the flow. The message itself is
  sent by the control device.
\<close>

definition deallocate_flow :: "iodev_priv \<Rightarrow> kfa \<Rightarrow> (bool \<times> iodev_priv \<times> kfa) option" where
  "deallocate_flow v k =
     (if io_dealloc v then Some (False, v, k)
      else do {
        (r, k') \<leftarrow> kfa_flow_cancel_iowqs (io_port v) k;
        Some (r = 0, v\<lparr>io_dealloc := True\<rparr>, k')
      })"

definition iodev_release :: "iodev_priv \<Rightarrow> kfa \<Rightarrow> (rc \<times> bool \<times> kfa) option" where
  "iodev_release v k = do { (asked, v', k') \<leftarrow> deallocate_flow v k; Some (0, asked, k') }"

datatype iodev_cmd = IRATI_FLOW_BIND "port_id_t ptr" | IRATI_IOCTL_MSS_GET bool | IOCTL_OTHER

text \<open>
  \<^verbatim>\<open>iodev_ioctl\<close>: the port-id read from user memory, \<open>None\<close> when that failed; for the size query
  whether the answer can be written back. The second component is the answer of that query.
\<close>

definition iodev_ioctl ::
    "(ipcp \<Rightarrow> nat) \<Rightarrow> iodev_cmd \<Rightarrow> iodev_priv \<Rightarrow> kfa \<Rightarrow> (rc \<times> nat ptr \<times> iodev_priv \<times> kfa) option" where
  "iodev_ioctl mss cmd v k =
     (case cmd of
        IRATI_FLOW_BIND None \<Rightarrow> Some (- EFAULT, None, v, k)
      | IRATI_FLOW_BIND (Some i) \<Rightarrow>
          (if \<not> is_port_id_ok i then Some (- EINVAL, None, v, k)
           else if is_port_id_ok (io_port v) then Some (- EBUSY, None, v, k)
           else do {
             (r, k') \<leftarrow> kfa_flow_set_iowqs (io_wqs v) i k;
             if r \<noteq> 0 then Some (- ENXIO, None, v, k') else Some (0, None, v\<lparr>io_port := i\<rparr>, k')
           })
      | IRATI_IOCTL_MSS_GET writable \<Rightarrow> do {
          m \<leftarrow> kfa_flow_max_sdu_size mss k (io_port v);
          if m = 0 then Some (- EFAULT, None, v, k)
          else if \<not> writable then Some (- EFAULT, None, v, k)
          else Some (0, Some m, v, k)
        }
      | IOCTL_OTHER \<Rightarrow> Some (- EINVAL, None, v, k))"

section \<open>A write of its own\<close>

text \<open>
  A write with nobody else at work: the sections one after the other, the copies and the calls of
  the IPC process succeed. \<open>None\<close> when the fuel ends first, or the writer falls asleep.
\<close>

fun ub_drive :: "fresh_mem \<Rightarrow> nat \<Rightarrow> ub_next after \<Rightarrow> kfa \<Rightarrow> (rc \<times> kfa) option" where
  "ub_drive mem n (Ret r) k = Some (r, k)"
| "ub_drive mem n (Got r d b) k = None"
| "ub_drive mem n (Cont (UbAsleep u)) k = None"
| "ub_drive mem 0 (Cont c) k = None"
| "ub_drive mem (Suc n) (Cont (UbCopying u)) k =
     Option.bind (ub_copy [] [] mem False u k) (\<lambda>(r, k'). ub_drive mem n r k')"
| "ub_drive mem (Suc n) (Cont (UbCalling u)) k =
     Option.bind (ub_called [] 0 u k) (\<lambda>(r, k'). ub_drive mem n r k')"

text \<open>The cut of the data into units of at most \<open>m\<close> bytes.\<close>

function chunks :: "nat \<Rightarrow> 'a list \<Rightarrow> 'a list list" where
  "chunks m xs = (if xs = [] \<or> m = 0 then [] else take m xs # chunks m (drop m xs))"
  by pat_completeness auto
termination by (relation "measure (length \<circ> snd)") auto

declare chunks.simps [simp del]

lemma concat_chunks: "0 < m \<Longrightarrow> concat (chunks m xs) = xs"
  by (induction m xs rule: chunks.induct) (subst chunks.simps, auto)

lemma chunks_length: "c \<in> set (chunks m xs) \<Longrightarrow> 0 < length c \<and> length c \<le> m"
  by (induction m xs rule: chunks.induct) (subst (asm) chunks.simps, auto split: if_splits)

lemma chunks_step:
  assumes "w + l = length bs" "0 < l" "0 < m"
  shows "chunks m (drop w bs) = take (min l m) (drop w bs) # chunks m (drop (w + min l m) bs)"
proof -
  have "chunks m (drop w bs) = take m (drop w bs) # chunks m (drop (w + m) bs)"
    using assms by (subst chunks.simps) (simp add: add.commute)
  moreover have "take m (drop w bs) = take (min l m) (drop w bs)" using assms(1) by (auto simp: min_def)
  moreover have "chunks m (drop (w + m) bs) = chunks m (drop (w + min l m) bs)"
    using assms(1) by (cases "l \<le> m") (simp_all add: chunks.simps)
  ultimately show ?thesis by simp
qed

text \<open>The state of the flow during the write: allocated, with wait queues, this is its only user.\<close>

definition writing :: "ub \<Rightarrow> ipcp \<Rightarrow> kfa \<Rightarrow> bool" where
  "writing u p k \<longleftrightarrow>
     (\<exists>f. kf_mem k (ub_flow u) = Some f \<and> fl_state f = PORT_STATE_ALLOCATED \<and>
        fl_ipc_process f = Some p \<and> (ub_blocking u \<longrightarrow> fl_wqs f \<noteq> None))"

lemma writing_sel [simp]:
  "writing u p (spin_lock k) = writing u p k" "writing u p (spin_unlock k) = writing u p k"
  "writing u p (kemit es k) = writing u p k"
  by (simp_all add: writing_def)

lemma ub_fill_buffer:
  assumes "ub_source u = UbBuffer bs \<or> ub_source u = UbIov bs"
    and "ub_written u + ub_copylen u \<le> length bs"
  shows "\<exists>d. ub_fill [] mem False u = Some (Inr d, []) \<and> du_ok d \<and>
    du_bytes d = take (ub_copylen u) (drop (ub_written u) bs)"
proof -
  obtain d where d: "du_create [] mem (ub_copylen u) = Done (Some d, [])"
    using du_create_Nil by blast
  from du_create_Done [OF this] have l: "du_ok d" "length (du_bytes d) = ub_copylen u" by simp_all
  let ?b = "take (ub_copylen u) (drop (ub_written u) bs)"
  have "length ?b = ub_copylen u" using assms(2) by simp
  with l du_write_Done [OF l(1), of 0 ?b] obtain d' where
    "du_write 0 ?b d = Done d'" "du_ok d'" "du_bytes d' = ?b" by auto
  moreover have "ub_bytes u = Some ?b" using assms by (auto simp: ub_bytes_def)
  ultimately show ?thesis using assms(1) d by (auto simp: ub_fill_def)
qed

lemma kf_log_sel [simp]:
  "kf_log (spin_lock k) = kf_log k" "kf_log (spin_unlock k) = kf_log k"
  "kf_log (kput a f k) = kf_log k" "kf_log (kemit es k) = rev es @ kf_log k"
  by (simp_all add: spin_lock_def spin_unlock_def kput_def kemit_def)

text \<open>One round: the copy and the call, and back at the loop head with the lock.\<close>

definition ub_sent :: "ub \<Rightarrow> du \<Rightarrow> wqaddr ptr \<Rightarrow> ub" where
  "ub_sent u d w =
     u\<lparr>ub_du := Some d, ub_wqs := w, ub_left := ub_left u - ub_copylen u,
       ub_written := ub_written u + ub_copylen u\<rparr>"

lemma ub_copylen_upd [simp]:
  "ub_copylen (ub_du_update x u) = ub_copylen u" "ub_copylen (ub_wqs_update y u) = ub_copylen u"
  by (simp_all add: ub_copylen_def)

lemma ub_copy_calls:
  assumes w: "writing u p k" and fill: "ub_fill [] mem False u = Some (Inr d, [])"
  shows "\<exists>w. ub_copy [] [] mem False u k =
    Some (Cont (UbCalling (u\<lparr>ub_du := Some d, ub_wqs := w\<rparr>)),
          kemit [KWrite p (ub_id u) d] (spin_unlock (spin_lock k)))"
proof -
  from w obtain f where f: "kf_mem k (ub_flow u) = Some f" "fl_state f = PORT_STATE_ALLOCATED"
    "fl_ipc_process f = Some p" "ub_blocking u \<Longrightarrow> fl_wqs f \<noteq> None" by (auto simp: writing_def)
  show ?thesis
    using f fill
    by (intro exI [of _ "if ub_blocking u then fl_wqs f else ub_wqs u"])
      (auto simp: ub_copy_def Let_def ub_wait_def ub_call_def ok_write_def)
qed

lemma ub_one_round:
  assumes "writing u p k" "ub_fill [] mem False u = Some (Inr d, [])"
  shows "\<exists>w. ub_drive mem (Suc (Suc n)) (Cont (UbCopying u)) k =
    Option.bind (ub_round [] (ub_sent u d w)
      (spin_lock (kemit [KWrite p (ub_id u) d] (spin_unlock (spin_lock k)))))
      (\<lambda>(r, k'). ub_drive mem n r k')"
  using ub_copy_calls [OF assms] by (auto simp: ub_called_def ub_sent_def Let_def)

lemma ub_ok_sent: "ub_ok l k (ub_sent u d w) T = ub_ok l k u T"
  by (rule ub_ok_cong) (simp_all add: ub_sent_def)

lemma ub_sent_sel [simp]:
  "ub_id (ub_sent u d w) = ub_id u" "ub_flow (ub_sent u d w) = ub_flow u"
  "ub_source (ub_sent u d w) = ub_source u" "ub_max (ub_sent u d w) = ub_max u"
  "ub_blocking (ub_sent u d w) = ub_blocking u"
  "ub_left (ub_sent u d w) = ub_left u - ub_copylen u"
  "ub_written (ub_sent u d w) = ub_written u + ub_copylen u"
  by (simp_all add: ub_sent_def)

lemma writing_sent [simp]: "writing (ub_sent u d w) p k = writing u p k"
  by (simp add: writing_def)

lemma ub_finish_alone:
  assumes "ub_ok 1 k u T" "writing u p k" "0 < ub_written u"
  shows "\<exists>k'. ub_finish [] 0 u k = Some (Ret (int (ub_written u)), k') \<and> kf_log k' = kf_log k \<and>
    kfa_ok 0 k' T"
proof -
  from finish_write_ok [of 1 k "TUb (UbCopying u)" T "ub_id u" "ub_flow u"] assms(1) obtain k' where
    k': "finish_write [] (ub_flow u) (ub_id u) k = Some k'" "kfa_ok 0 k' T" by auto
  moreover have "kf_log k' = kf_log k"
    using k'(1) assms(2) by (auto simp: finish_write_def writing_def)
  ultimately show ?thesis using assms(3) by (simp add: ub_finish_def)
qed

lemma ub_drive_complete:
  assumes "ub_ok 0 k u T" "writing u p k" "ub_source u = UbBuffer bs \<or> ub_source u = UbIov bs"
    and "ub_written u + ub_left u = length bs" "0 < ub_max u" "0 < ub_left u" "2 * ub_left u \<le> n"
  shows "\<exists>k' ds. ub_drive mem n (Cont (UbCopying u)) k = Some (int (length bs), k') \<and>
    map du_bytes ds = chunks (ub_max u) (drop (ub_written u) bs) \<and>
    kf_log k' = rev (map (KWrite p (ub_id u)) ds) @ kf_log k \<and> kfa_ok 0 k' T"
  using assms
proof (induction "ub_left u" arbitrary: u k n rule: less_induct)
  case less
  define k1 where "k1 d = spin_lock (kemit [KWrite p (ub_id u) d] (spin_unlock (spin_lock k)))" for d
  from less.prems(6,7) obtain m where n: "n = Suc (Suc m)" "2 * (ub_left u - 1) \<le> m"
    by (cases n; cases "n - 1") auto
  have c: "ub_copylen u = min (ub_left u) (ub_max u)" "0 < ub_copylen u" "ub_copylen u \<le> ub_left u"
    using less.prems(5,6) by (auto simp: ub_copylen_def)
  with ub_fill_buffer [OF less.prems(3), of mem] less.prems(4) obtain d where
    d: "ub_fill [] mem False u = Some (Inr d, [])"
      "du_bytes d = take (ub_copylen u) (drop (ub_written u) bs)" by auto
  from ub_one_round [OF less.prems(2) d(1), of m] obtain w where
    r: "ub_drive mem n (Cont (UbCopying u)) k =
      Option.bind (ub_round [] (ub_sent u d w) (k1 d)) (\<lambda>(r, k'). ub_drive mem m r k')"
    by (auto simp: n k1_def)
  let ?u = "ub_sent u d w"
  have k1: "ub_ok 1 (k1 d) ?u T" "writing ?u p (k1 d)" "kf_log (k1 d) = KWrite p (ub_id u) d # kf_log k"
    using less.prems(1,2) by (simp_all add: k1_def ub_ok_sent)
  have ch: "chunks (ub_max u) (drop (ub_written u) bs) =
      du_bytes d # chunks (ub_max u) (drop (ub_written ?u) bs)"
    using chunks_step [OF less.prems(4,6,5)] d(2) c(1) by simp
  show ?case
  proof (cases "ub_left ?u = 0")
    case True
    then have full: "ub_written ?u = length bs" "drop (ub_written ?u) bs = []"
      using c less.prems(4) by auto
    with ub_finish_alone [OF k1(1,2)] c(2) obtain k' where
      "ub_finish [] 0 ?u (k1 d) = Some (Ret (int (length bs)), k')" "kf_log k' = kf_log (k1 d)"
      "kfa_ok 0 k' T" by auto
    with True full ch r k1(3) show ?thesis
      by (intro exI [of _ k'] exI [of _ "[d]"]) (simp add: ub_round_def chunks.simps)
  next
    case False
    let ?k = "spin_unlock (k1 d)"
    have "\<exists>k' ds. ub_drive mem m (Cont (UbCopying ?u)) ?k = Some (int (length bs), k') \<and>
      map du_bytes ds = chunks (ub_max ?u) (drop (ub_written ?u) bs) \<and>
      kf_log k' = rev (map (KWrite p (ub_id ?u)) ds) @ kf_log ?k \<and> kfa_ok 0 k' T"
      by (rule less.hyps) (use False k1 c less.prems n(2) in simp_all)
    then obtain k' ds where "ub_drive mem m (Cont (UbCopying ?u)) ?k = Some (int (length bs), k')"
      "map du_bytes ds = chunks (ub_max u) (drop (ub_written ?u) bs)"
      "kf_log k' = rev (map (KWrite p (ub_id u)) ds) @ kf_log ?k" "kfa_ok 0 k' T" by auto
    with False ch r k1(3) show ?thesis
      by (intro exI [of _ k'] exI [of _ "d # ds"]) (simp add: ub_round_def)
  qed
qed

lemma iodev_write_complete:
  assumes ok: "kfa_ok 0 k T" and fl: "find_flow k (io_port v) = Some a" "kf_mem k a = Some f"
    and f: "fl_state f = PORT_STATE_ALLOCATED" "fl_ipc_process f = Some p" "fl_wqs f \<noteq> None"
    and bs: "bs \<noteq> []" "0 < mss p" "fl_msg_boundaries f \<longrightarrow> length bs \<le> mss p"
  shows "\<exists>r k1 k' ds. iodev_write [] mss nb v (Some bs) (length bs) k = Some (r, k1) \<and>
    ub_drive mem (2 * length bs) r k1 = Some (int (length bs), k') \<and>
    map du_bytes ds = chunks (mss p) bs \<and>
    kf_log k' = rev (map (KWrite p (io_port v)) ds) @ kf_log k \<and> kfa_ok 0 k' T"
proof -
  let ?u = "\<lparr>ub_id = io_port v, ub_source = UbBuffer bs, ub_blocking = \<not> nb, ub_flow = a,
             ub_max = mss p, ub_left = length bs, ub_written = 0, ub_wqs = None, ub_du = None\<rparr>"
  let ?k = "kput a (f\<lparr>fl_writers := fl_writers f + 1\<rparr>) (spin_lock k)"
  have "ub_ok 1 ?k ?u T"
    using writer_enters [of 1 "spin_lock k" T "io_port v" a f "TUb (UbCopying ?u)"] ok fl by simp
  then have u: "ub_ok 0 (spin_unlock ?k) ?u T" by simp
  have w: "writing ?u p (spin_unlock ?k)" using f by (simp add: writing_def)
  from bs have "iodev_write [] mss nb v (Some bs) (length bs) k =
      Some (Cont (UbCopying ?u), spin_unlock ?k)"
    using fl f by (auto simp: iodev_write_def kfa_flow_ub_write_def Let_def ub_round_def)
  with ub_drive_complete [OF u w, of bs "2 * length bs" mem] bs show ?thesis by auto
qed

section \<open>Reads\<close>

text \<open>
  What the application sees of a flow: the byte strings of its units in order. A read takes the
  first one, or a prefix of it that fits the buffer; it never joins two.
\<close>

datatype ioop = IoPost du | IoRead nat

fun stream_run :: "ioop list \<Rightarrow> u8 list list \<Rightarrow> (rc \<times> u8 list) list \<times> u8 list list" where
  "stream_run [] bs = ([], bs)"
| "stream_run (IoPost d # ops) bs = stream_run ops (bs @ [du_bytes d])"
| "stream_run (IoRead n # ops) [] =
     (let (rs, bs') = stream_run ops [] in ((- E_AGAIN, []) # rs, bs'))"
| "stream_run (IoRead n # ops) (b # bs) =
     (let (rs, bs') = stream_run ops (if length b \<le> n then bs else drop n b # bs)
      in ((int (length (take n b)), take n b) # rs, bs'))"

text \<open>The same on the code: deliveries by the IPC process and non-blocking reads.\<close>

fun iodev_run :: "iodev_priv \<Rightarrow> ioop list \<Rightarrow> kfa \<Rightarrow> ((rc \<times> u8 list) list \<times> kfa) option" where
  "iodev_run v [] k = Some ([], k)"
| "iodev_run v (IoPost d # ops) k =
     Option.bind (kfa_du_post [] True True (io_port v) (Some d) k) (\<lambda>(r, k1).
     Option.bind (case r of Cont c \<Rightarrow> post_wake c k1 | _ \<Rightarrow> None) (\<lambda>(x, k2). iodev_run v ops k2))"
| "iodev_run v (IoRead n # ops) k =
     Option.bind (iodev_read False True v n k) (\<lambda>(r, bs, k1).
     map_option (\<lambda>(rs, k2). ((r, bs) # rs, k2)) (iodev_run v ops k1))"

fun ioop_ok :: "ioop \<Rightarrow> bool" where
  "ioop_ok (IoPost d) \<longleftrightarrow> du_ok d \<and> du_bytes d \<noteq> []"
| "ioop_ok (IoRead n) \<longleftrightarrow> 0 < n"

text \<open>The flow at work: bound, not deallocated, read through the device.\<close>

definition reading :: "port_id_t \<Rightarrow> kfa \<Rightarrow> u8 list list \<Rightarrow> bool" where
  "reading i k bs \<longleftrightarrow>
     is_port_id_ok i \<and>
     (\<exists>a f. find_flow k i = Some a \<and> kf_mem k a = Some f \<and>
        fl_state f \<noteq> PORT_STATE_DEALLOCATED \<and> fl_state f \<noteq> PORT_STATE_PENDING \<and>
        fl_ip_dev f = None \<and> rfifo_inv (fl_sdu_ready f) \<and>
        (\<forall>d\<in>set (rfifo_list (fl_sdu_ready f)). du_ok d \<and> du_bytes d \<noteq> []) \<and>
        bs = map du_bytes (rfifo_list (fl_sdu_ready f)))"

lemma readingI:
  assumes "is_port_id_ok i" "find_flow k i = Some a" "kf_mem k a = Some f"
    "fl_state f \<noteq> PORT_STATE_DEALLOCATED" "fl_state f \<noteq> PORT_STATE_PENDING" "fl_ip_dev f = None"
    "rfifo_inv (fl_sdu_ready f)" "\<forall>d\<in>set (rfifo_list (fl_sdu_ready f)). du_ok d \<and> du_bytes d \<noteq> []"
    "bs = map du_bytes (rfifo_list (fl_sdu_ready f))"
  shows "reading i k bs"
  using assms by (auto simp: reading_def)

lemma post_reading:
  assumes r: "reading i k bs" and d: "du_ok d" "du_bytes d \<noteq> []"
  shows "\<exists>c k1 k2 x. kfa_du_post [] True True i (Some d) k = Some (Cont c, k1) \<and>
    post_wake c k1 = Some (x, k2) \<and> reading i k2 (bs @ [du_bytes d])"
proof -
  from r obtain a f where f: "is_port_id_ok i" "find_flow k i = Some a" "kf_mem k a = Some f"
    "fl_state f \<noteq> PORT_STATE_DEALLOCATED" "fl_state f \<noteq> PORT_STATE_PENDING" "fl_ip_dev f = None"
    and q: "rfifo_inv (fl_sdu_ready f)"
      "\<forall>d\<in>set (rfifo_list (fl_sdu_ready f)). du_ok d \<and> du_bytes d \<noteq> []"
      "bs = map du_bytes (rfifo_list (fl_sdu_ready f))" by (auto simp: reading_def)
  let ?q = "rfifo_push True (fl_sdu_ready f) d"
  let ?f = "f\<lparr>fl_sdu_ready := snd ?q\<rparr>"
  let ?k = "spin_unlock (kput a ?f (kemit [] (spin_lock k)))"
  from q(1) have p: "fst ?q = 0" "rfifo_inv (snd ?q)" "rfifo_list (snd ?q) = rfifo_list (fl_sdu_ready f) @ [d]"
    by (simp_all add: rfifo_fifo.laws)
  have "kfa_du_post [] True True i (Some d) k = Some (Cont (a, 0), ?k)"
    using f p(1) d by (auto simp: kfa_du_post_def Let_def is_du_ok_def du_ok_def split_beta split: option.splits)
  moreover obtain x k2 where w: "post_wake (a, 0) ?k = Some (x, k2)" "k2 = ?k \<or> (\<exists>es. k2 = kemit es ?k)"
    by (cases "fl_wqs f") (auto simp: post_wake_def)
  moreover have "reading i k2 (bs @ [du_bytes d])"
    by (rule readingI [of i k2 a ?f]) (use w(2) f p q d in auto)
  ultimately show ?thesis by blast
qed

lemma du_consume_bytes:
  assumes "du_ok d" "n \<le> length (du_bytes d)"
  shows "\<exists>d'. du_consume_data n d = Done d' \<and> du_ok d' \<and> du_bytes d' = drop n (du_bytes d)"
proof -
  obtain s where s: "du_skb d = Some s" using assms(1) by (auto simp: du_ok_def split: option.splits)
  from du_head_shrink_bytes [OF assms] obtain d' where
    d': "du_head_shrink n d = Done (0, d')" "du_ok d'" "du_bytes d' = drop n (du_bytes d)" by blast
  have "du_consume_data n d = Done (d\<lparr>du_skb := du_skb d'\<rparr>)"
    using s d'(1) by (auto simp: du_consume_data_def du_head_shrink_def with_skb_def skb_pull_def
        split: if_splits)
  with d'(2,3) show ?thesis by (simp add: du_ok_def du_bytes_def)
qed

text \<open>The queue after the first unit was taken or shortened.\<close>

lemma finish_read_alone:
  assumes "kf_mem k (rd_flow c) = Some f" "fl_state f \<noteq> PORT_STATE_DEALLOCATED"
  shows "finish_read [] r c k =
    Some (r, spin_unlock (kput (rd_flow c) (f\<lparr>fl_readers := fl_readers f - 1\<rparr>) k))"
  using assms by (simp add: finish_read_def)

lemma read_reading_Nil:
  assumes "reading (io_port v) k []"
  shows "\<exists>k1. iodev_read False True v n k = Some (- E_AGAIN, [], k1) \<and> reading (io_port v) k1 []"
proof -
  let ?i = "io_port v"
  from assms obtain a f where f: "is_port_id_ok ?i" "find_flow k ?i = Some a" "kf_mem k a = Some f"
    "fl_state f \<noteq> PORT_STATE_DEALLOCATED" "fl_state f \<noteq> PORT_STATE_PENDING" "fl_ip_dev f = None"
    and q: "rfifo_inv (fl_sdu_ready f)" "rfifo_list (fl_sdu_ready f) = []" by (auto simp: reading_def)
  let ?f = "f\<lparr>fl_readers := fl_readers f + 1\<rparr>"
  let ?k1 = "spin_unlock (kput a f (kput a ?f (spin_lock k)))"
  have "kfa_flow_du_read [] ?i n False k = Some (Ret (- E_AGAIN), ?k1)"
    using f q by (simp add: kfa_flow_du_read_def Let_def rfifo_fifo.is_empty_iff finish_read_alone)
  then have "iodev_read False True v n k = Some (- E_AGAIN, [], ?k1)"
    by (simp add: iodev_read_def common_read_def)
  moreover have "reading ?i ?k1 []"
    by (rule readingI [of ?i _ a f]) (use f q in auto)
  ultimately show ?thesis by blast
qed

lemma read_reading_Cons:
  assumes "reading (io_port v) k (b # bs)" "0 < n"
  shows "\<exists>k1. iodev_read False True v n k = Some (int (length (take n b)), take n b, k1) \<and>
    reading (io_port v) k1 (if length b \<le> n then bs else drop n b # bs)"
proof -
  let ?i = "io_port v"
  from assms(1) obtain a f d ds where
    f: "is_port_id_ok ?i" "find_flow k ?i = Some a" "kf_mem k a = Some f"
    "fl_state f \<noteq> PORT_STATE_DEALLOCATED" "fl_state f \<noteq> PORT_STATE_PENDING" "fl_ip_dev f = None"
    and inv: "rfifo_inv (fl_sdu_ready f)"
    and q: "rfifo_list (fl_sdu_ready f) = d # ds" "b = du_bytes d" "bs = map du_bytes ds"
      "\<forall>e\<in>set (d # ds). du_ok e \<and> du_bytes e \<noteq> []"
    by (auto simp: reading_def)
  have ne: "\<not> rfifo_is_empty (fl_sdu_ready f)" using inv q(1) by (simp add: rfifo_fifo.is_empty_iff)
  from get_du_to_read_ok [OF inv ne, of n] q(1,4) obtain q' where
    g: "get_du_to_read n (fl_sdu_ready f) = Some (d, n < length b, q')" "rfifo_inv q'"
      "rfifo_list q' = (if n < length b then d # ds else ds)" by (auto simp: q(2))
  let ?c = "\<lparr>rd_id = ?i, rd_flow = a, rd_size = n, rd_wqs = fl_wqs f\<rparr>"
  let ?f = "f\<lparr>fl_readers := fl_readers f + 1, fl_sdu_ready := q'\<rparr>"
  let ?k1 = "spin_unlock (kput a (f\<lparr>fl_sdu_ready := q'\<rparr>)
    (kput a ?f (kput a (f\<lparr>fl_readers := fl_readers f + 1\<rparr>) (spin_lock k))))"
  have d: "du_ok d" "du_bytes d \<noteq> []" "is_du_ok (Some d)"
    using q(4) by (auto simp: du_ok_def is_du_ok_def split: option.splits)
  have r: "kfa_flow_du_read [] ?i n False k = Some (Got (int (length b)) d (n < length b), ?k1)"
    using f ne g(1) d(1) q(2)
    by (simp add: kfa_flow_du_read_def Let_def read_take_def finish_read_alone du_len_bytes)
  show ?thesis
  proof (cases "n < length b")
    case False
    have "iodev_read False True v n k = Some (int (length b), b, kemit [KDestroy d] ?k1)"
      using r False d q(2) by (auto simp: iodev_read_def common_read_def du_read_bytes Let_def)
    moreover have "reading ?i (kemit [KDestroy d] ?k1) bs"
      by (rule readingI [of ?i _ a "f\<lparr>fl_sdu_ready := q'\<rparr>"]) (use f g q False in auto)
    ultimately show ?thesis using False by auto
  next
    case True
    then obtain d' where d': "du_consume_data n d = Done d'" "du_ok d'" "du_bytes d' = drop n b"
      using du_consume_bytes [OF d(1), of n] q(2) by auto
    obtain g' r' where gr: "q' = Some g'" "rf_q g' = Some r'" "rq_head r' = d # ds"
      "rq_length r' = length (d # ds)"
      using g(2,3) True by (auto simp: rfifo_inv_def rfifo_list_def rqueue_inv_def rqueue_list_def
          split: option.splits)
    let ?q = "Some (g'\<lparr>rf_q := Some (r'\<lparr>rq_head := d' # ds\<rparr>)\<rparr>)"
    let ?k2 = "kput a (f\<lparr>fl_sdu_ready := ?q\<rparr>) ?k1"
    have "consume_head n ?i ?k1 = Some ?k2" using f gr d' by (simp add: consume_head_def)
    then have "iodev_read False True v n k = Some (int n, take n b, ?k2)"
      using r True assms(2) d q(2) by (auto simp: iodev_read_def common_read_def du_read_bytes Let_def)
    moreover have "reading ?i ?k2 (drop n b # bs)"
      by (rule readingI [of ?i _ a "f\<lparr>fl_sdu_ready := ?q\<rparr>"])
        (use f q(3,4) gr d' True in \<open>auto simp: rfifo_inv_def rfifo_list_def rqueue_inv_def rqueue_list_def\<close>)
    ultimately show ?thesis using True by auto
  qed
qed

lemma iodev_run_stream:
  assumes "reading (io_port v) k bs" "list_all ioop_ok ops"
  shows "\<exists>k'. iodev_run v ops k = Some (fst (stream_run ops bs), k') \<and>
    reading (io_port v) k' (snd (stream_run ops bs))"
  using assms
proof (induction ops bs arbitrary: k rule: stream_run.induct)
  case (2 d ops bs)
  with post_reading [of "io_port v" k bs d] obtain c k1 k2 x where
    "kfa_du_post [] True True (io_port v) (Some d) k = Some (Cont c, k1)"
    "post_wake c k1 = Some (x, k2)" "reading (io_port v) k2 (bs @ [du_bytes d])" by auto
  with 2 show ?case by simp
next
  case (3 n ops)
  with read_reading_Nil [of v k n] obtain k1 where
    "iodev_read False True v n k = Some (- E_AGAIN, [], k1)" "reading (io_port v) k1 []" by auto
  with 3(1) [of k1] 3(3) show ?case by (auto simp: split_beta)
next
  case (4 n ops b bs)
  with read_reading_Cons [of v k b bs n] obtain k1 where
    "iodev_read False True v n k = Some (int (length (take n b)), take n b, k1)"
    "reading (io_port v) k1 (if length b \<le> n then bs else drop n b # bs)" by auto
  with 4(1) [of k1] 4(3) show ?case by (auto simp: split_beta simp del: length_take)
qed simp

section \<open>Properties\<close>


definition io_calls :: "kcall list" where
  "io_calls = [CReserve True, CCreate ''rina.1.1'' 1 0 None False, CBind 1 0, CSetWqs 5 1]"

definition kfa1 :: kfa where
  "kfa1 = fst (the (kfa_calls (\<lambda>_. 3) io_calls (kfa0, {#})))"

lemma kfa1_calls: "kfa_calls (\<lambda>_. 3) io_calls (kfa0, {#}) = Some (kfa1, {#})"
  by (simp add: kfa1_def io_calls_def kfa_eval)

lemma kfa1_flow:
  "find_flow kfa1 1 = Some 0"
  "kf_mem kfa1 0 = Some \<lparr>fl_state = PORT_STATE_ALLOCATED, fl_ipc_process = Some 0,
     fl_sdu_ready = Some \<lparr>rf_q = Some \<lparr>rq_head = [], rq_length = 0\<rparr>\<rparr>, fl_wqs = Some 5,
     fl_readers = 0, fl_writers = 0, fl_posters = 0, fl_msg_boundaries = False, fl_ip_dev = None\<rparr>"
  by (simp_all add: kfa1_def io_calls_def kfa_eval)

lemma kfa1_ok: "kfa_ok 0 kfa1 {#}"
  by (rule kfa_reachable_ok [OF kfa_calls_steps [OF kfa1_calls] kfa0_create])

abbreviation priv1 :: iodev_priv where
  "priv1 \<equiv> \<lparr>io_port = 1, io_wqs = 5, io_dealloc = False\<rparr>"


text \<open>
  C36. What an application reads from a bound flow is exactly what the IPC process delivered: any
  interleaving of deliveries and non-blocking reads runs without a fault and answers as the queue of
  byte strings \<open>stream_run\<close> does, where a read takes the oldest unit, or as much of it as fits the
  buffer and leaves the rest, and answers \<^verbatim>\<open>-EAGAIN\<close> when there is none.
\<close>

theorem iodev_reads_stream:
  assumes "reading (io_port v) k bs" "list_all ioop_ok ops"
  shows "\<exists>k'. iodev_run v ops k = Some (fst (stream_run ops bs), k') \<and>
    reading (io_port v) k' (snd (stream_run ops bs))"
  by (rule iodev_run_stream [OF assms])

definition hello_du :: du where
  "hello_du = \<lparr>du_cfg = None, du_pci_h = None, du_pci_len = 0,
     du_skb = Some \<lparr>sk_buf = [1, 2, 3, 4, 5], sk_data = 0, sk_len = 5, sk_users = 1\<rparr>\<rparr>"

theorem iodev_reads_stream_witness:
  "\<exists>k'. iodev_run priv1 [IoPost hello_du, IoRead 3, IoRead 10, IoRead 10] kfa1 =
     Some ([(3, [1, 2, 3]), (2, [4, 5]), (- 11, [])], k')"
proof -
  have "reading (io_port priv1) kfa1 []"
    by (rule readingI [OF _ _ kfa1_flow(2)]) (simp_all add: kfa1_flow(1) common_defs rfifo_defs rqueue_defs)
  from iodev_reads_stream [OF this, of "[IoPost hello_du, IoRead 3, IoRead 10, IoRead 10]"]
  show ?thesis by (auto simp: hello_du_def du_ok_def skb_ok_def du_bytes_def skb_bytes_def)
qed

section \<open>Where the code goes wrong\<close>

text \<open>
  A flow without message boundaries over an IPC process that takes no data at all, as
  \<^verbatim>\<open>normal_max_sdu_size\<close> answers before its configuration is there: the write hands out empty units
  and never returns.
\<close>

lemma write_without_mss_loops:
  assumes "ub_ok 0 k u T" "writing u p k" "ub_source u = UbBuffer bs" "ub_written u \<le> length bs"
    "ub_max u = 0" "0 < ub_left u"
  shows "ub_drive mem n (Cont (UbCopying u)) k = None"
  using assms
proof (induction n arbitrary: u k rule: less_induct)
  case (less n)
  have c: "ub_copylen u = 0" using less.prems(5) by (simp add: ub_copylen_def)
  with ub_fill_buffer [of u bs mem] less.prems(3,4) obtain d where
    d: "ub_fill [] mem False u = Some (Inr d, [])" by auto
  consider "n = 0" | "n = Suc 0" | m where "n = Suc (Suc m)" by (metis old.nat.exhaust)
  then show ?case
  proof cases
    case 2
    with ub_copy_calls [OF less.prems(2) d] show ?thesis by auto
  next
    case n: (3 m)
    from ub_one_round [OF less.prems(2) d, of m] obtain w where
      "ub_drive mem n (Cont (UbCopying u)) k = Option.bind (ub_round [] (ub_sent u d w)
        (spin_lock (kemit [KWrite p (ub_id u) d] (spin_unlock (spin_lock k)))))
        (\<lambda>(r, k'). ub_drive mem m r k')" unfolding n by blast
    moreover have "ub_drive mem m (Cont (UbCopying (ub_sent u d w)))
        (spin_unlock (spin_lock (kemit [KWrite p (ub_id u) d] (spin_unlock (spin_lock k))))) = None"
      by (rule less.IH) (use less.prems c n in \<open>simp_all add: ub_ok_sent\<close>)
    ultimately show ?thesis using less.prems(6) c by (simp add: ub_round_def)
  qed simp
qed

text \<open>A failing copy to the user destroys the unit although it is still at the head of the queue.\<close>

lemma failed_read_destroys_queued:
  assumes "is_du_ok (Some d)" "got (du_read 0 sz d) = Some bs" "int sz < len"
  shows "common_read True sz i (Got len d True) k = Some (- EIO, [], kemit [KDestroy d] k)"
  using assms by (auto simp: common_read_def Let_def)

end
