(* ===== verification/Du_Layout.thy ===== *)
theory Du_Layout
  imports Du
begin

text \<open>
  A data unit as three byte strings: the free bytes in front of its data, the data, and the free bytes
  behind it. The operations that grow, cut, read and write a unit move the borders and change the
  data; SDU protection is proved over these equations.
\<close>

definition lay :: "du \<Rightarrow> u8 list \<Rightarrow> u8 list \<Rightarrow> u8 list \<Rightarrow> bool" where
  "lay d hr bs tr \<longleftrightarrow>
     (\<exists>s. du_skb d = Some s \<and> sk_buf s = hr @ bs @ tr \<and> sk_data s = length hr \<and>
        sk_len s = length bs \<and> 0 < sk_users s \<and> pci_gap d s \<le> 0 \<and> length bs < 2 ^ 32)"

lemma layE:
  assumes "lay d hr bs tr"
  obtains s where "du_skb d = Some s" "sk_buf s = hr @ bs @ tr" "sk_data s = length hr"
    "sk_len s = length bs" "0 < sk_users s" "pci_gap d s \<le> 0" "length bs < 2 ^ 32"
  using assms by (auto simp: lay_def)

lemma lay_bytes: "lay d hr bs tr \<Longrightarrow> du_bytes d = bs"
  by (auto simp: lay_def du_bytes_def skb_bytes_def)

lemma lay_ok: "lay d hr bs tr \<Longrightarrow> du_ok d"
  by (auto simp: lay_def du_ok_def skb_ok_def)

lemma lay_len: "lay d hr bs tr \<Longrightarrow> du_len d = Done (length bs)"
  by (auto simp: lay_def du_len_def with_skb_def)

lemma lay_buffer: "lay d hr bs tr \<Longrightarrow> du_buffer d = Done (length hr)"
  by (auto simp: lay_def du_buffer_def with_skb_def)

lemma lay_short: "lay d hr bs tr \<Longrightarrow> length bs < 2 ^ 32"
  by (auto simp: lay_def)

lemma lay_read:
  "lay d hr bs tr \<Longrightarrow> off + n \<le> length bs \<Longrightarrow> du_read off n d = Done (take n (drop off bs))"
  by (auto simp: lay_def du_read_def with_skb_def)

lemma lay_write:
  assumes "lay d hr bs tr" "off + length xs \<le> length bs"
  shows "\<exists>d'. du_write off xs d = Done d' \<and>
    lay d' hr (take off bs @ xs @ drop (off + length xs) bs) tr"
proof -
  from assms(1) obtain s where s: "du_skb d = Some s" "sk_buf s = hr @ bs @ tr"
    "sk_data s = length hr" "sk_len s = length bs" "0 < sk_users s" "pci_gap d s \<le> 0"
    "length bs < 2 ^ 32" by (rule layE)
  then show ?thesis using assms(2)
    by (auto simp: du_write_def with_skb_def lay_def pci_gap_def split: option.splits)
qed

lemma lay_tail_grow:
  assumes "lay d hr bs tr" "n \<le> length tr" "length bs + n < 2 ^ 32"
  shows "\<exists>d'. du_tail_grow ok mem n d = Done (0, d') \<and> lay d' hr (bs @ take n tr) (drop n tr)"
proof -
  from assms(1) obtain s where s: "du_skb d = Some s" "sk_buf s = hr @ bs @ tr"
    "sk_data s = length hr" "sk_len s = length bs" "0 < sk_users s" "pci_gap d s \<le> 0"
    "length bs < 2 ^ 32" by (rule layE)
  then have "skb_tailroom s = length tr" by (simp add: skb_tailroom_def)
  with s assms(2,3) show ?thesis
    by (auto simp: du_tail_grow_def with_skb_def lay_def pci_gap_def skb_put_def split: option.splits)
qed

lemma lay_tail_shrink:
  assumes "lay d hr bs tr" "n \<le> length bs"
  shows "\<exists>d'. du_tail_shrink (int n) d = Done (0, d') \<and>
    lay d' hr (take (length bs - n) bs) (drop (length bs - n) bs @ tr)"
proof -
  from assms(1) obtain s where s: "du_skb d = Some s" "sk_buf s = hr @ bs @ tr"
    "sk_data s = length hr" "sk_len s = length bs" "0 < sk_users s" "pci_gap d s \<le> 0"
    "length bs < 2 ^ 32" by (rule layE)
  have "(int (length bs) - int n) mod 2 ^ 32 = int (length bs - n)"
    using s(7) assms(2) by (simp add: of_nat_diff)
  then have "trim_by (int n) s = s\<lparr>sk_len := length bs - n\<rparr>"
    using s(4) assms(2) by (cases "n = 0") (simp_all add: trim_by_def skb_trim_def)
  with s assms(2) show ?thesis
    by (auto simp: du_tail_shrink_def with_skb_def lay_def pci_gap_def split: option.splits)
qed

lemma lay_head_grow:
  assumes "lay d hr bs tr" "n \<le> length hr" "length bs + n < 2 ^ 32"
  shows "\<exists>d'. du_head_grow ok mem n d = Done (0, d') \<and>
    lay d' (take (length hr - n) hr) (drop (length hr - n) hr @ bs) tr"
proof -
  from assms(1) obtain s where s: "du_skb d = Some s" "sk_buf s = hr @ bs @ tr"
    "sk_data s = length hr" "sk_len s = length bs" "0 < sk_users s" "pci_gap d s \<le> 0"
    "length bs < 2 ^ 32" by (rule layE)
  then have "skb_headroom s = length hr" by (simp add: skb_headroom_def)
  with s assms(2,3) show ?thesis
    by (auto simp: du_head_grow_def with_skb_def lay_def pci_gap_def skb_push_def Let_def
        append_take_drop_assoc split: option.splits)
qed

lemma lay_head_shrink:
  assumes "lay d hr bs tr" "n \<le> length bs"
  shows "\<exists>d'. du_head_shrink n d = Done (0, d') \<and> lay d' (hr @ take n bs) (drop n bs) tr"
proof -
  from assms(1) obtain s where s: "du_skb d = Some s" "sk_buf s = hr @ bs @ tr"
    "sk_data s = length hr" "sk_len s = length bs" "0 < sk_users s" "pci_gap d s \<le> 0"
    "length bs < 2 ^ 32" by (rule layE)
  with assms(2) show ?thesis
    by (auto simp: du_head_shrink_def with_skb_def lay_def pci_gap_def skb_pull_def
        append_take_drop_assoc split: option.splits)
qed

text \<open>A sound unit without control information behind its data start has such a layout.\<close>

definition du_room :: "nat \<Rightarrow> nat \<Rightarrow> du \<Rightarrow> bool" where
  "du_room h t d \<longleftrightarrow> (\<exists>hr tr. lay d hr (du_bytes d) tr \<and> h \<le> length hr \<and> t \<le> length tr)"

lemma du_roomE:
  assumes "du_room h t d"
  obtains hr tr where "lay d hr (du_bytes d) tr" "h \<le> length hr" "t \<le> length tr"
  using assms by (auto simp: du_room_def)

lemma layI:
  assumes "lay d hr bs tr" "h \<le> length hr" "t \<le> length tr"
  shows "du_room h t d" "du_bytes d = bs"
  using assms lay_bytes by (auto simp: du_room_def)

end
