(* ===== verification/Sdup_Crypto.thy ===== *)
theory Sdup_Crypto
  imports Du_Layout Serdes_Dif Serdes_Lists "HOL-Library.Monad_Syntax"
begin

unbundle bit_operations_syntax

text \<open>
  The cryptographic policy of SDU protection (\<^verbatim>\<open>kernel/sdup-crypto-ps-default.c\<close>): compression,
  sequence numbers with a replay window, a keyed digest, padding and encryption of a data unit, and
  the way back.

  The algorithms are the kernel's: a cipher, a digest and a compressor under their keys are
  arguments, with what the code relies on in \<open>cipher_ok\<close>, \<open>shash_ok\<close> and \<open>comp_ok\<close>. \<open>None\<close> is a fault:
  an access outside the unit or the bitmap, a use of a pointer into a buffer that was replaced, or
  a dereference of NULL or of an error pointer. The block cipher interface is the one of kernels
  before 5.5.
\<close>

section \<open>State\<close>

record cipher =
  ci_blocksize :: nat
  ci_ivsize :: nat
  ci_encrypt :: "u8 list \<Rightarrow> u8 list \<Rightarrow> u8 list option"
  ci_decrypt :: "u8 list \<Rightarrow> u8 list \<Rightarrow> u8 list option"

record shash =
  sh_digestsize :: nat
  sh_digest :: "u8 list \<Rightarrow> u8 list option"

text \<open>The compressors get the room for their result and fail when it does not suffice.\<close>

record comp =
  co_compress :: "nat \<Rightarrow> u8 list \<Rightarrow> u8 list option"
  co_decompress :: "nat \<Rightarrow> u8 list \<Rightarrow> u8 list option"

text \<open>A handle that could not be allocated is an error pointer, which is not NULL.\<close>

datatype 'a handle = Tfm 'a | ErrPtr

primrec tfm :: "'a handle \<Rightarrow> 'a option" where
  "tfm (Tfm x) = Some x"
| "tfm ErrPtr = None"

record crypto_state =
  cs_blkcipher :: "cipher handle ptr"
  cs_shash :: "shash handle ptr"
  cs_compress :: "comp handle ptr"
  cs_scratch :: "nat ptr"
  cs_enc_alg :: "cstr ptr"
  cs_mac_alg :: "cstr ptr"
  cs_compress_alg :: "cstr ptr"

record crypto_data =
  current_rx_state :: crypto_state
  current_tx_state :: crypto_state
  next_rx_state :: crypto_state
  next_tx_state :: crypto_state
  tx_seq_num :: u32
  rx_seq_num :: u32
  seq_bmap :: "u8 list"
  seq_bmap_len :: nat
  seq_win_size :: nat

text \<open>What the environment gives: outcomes of allocations, fresh memory, and random bytes.\<close>

record cenv =
  ce_ok :: bool
  ce_mem :: fresh_mem
  ce_random :: "nat \<Rightarrow> u8"

text \<open>The allocation of a state is not checked before it is filled (\<open>None\<close> when it failed).\<close>

definition crypto_state_create :: "bool \<Rightarrow> crypto_state option" where
  "crypto_state_create ok =
     (if ok then Some \<lparr>cs_blkcipher = None, cs_shash = None, cs_compress = None, cs_scratch = None,
                       cs_enc_alg = None, cs_mac_alg = None, cs_compress_alg = None\<rparr>
      else None)"

definition priv_data_create :: "allocs \<Rightarrow> (crypto_data ptr \<times> allocs) option" where
  "priv_data_create ms =
     (let (ok0, ms0) = rkmalloc ms; (ok1, ms1) = rkmalloc ms0; (ok2, ms2) = rkmalloc ms1;
          (ok3, ms3) = rkmalloc ms2; (ok4, ms4) = rkmalloc ms3
      in if \<not> ok0 then Some (None, ms0)
         else do {
           tx \<leftarrow> crypto_state_create ok1;
           rx \<leftarrow> crypto_state_create ok2;
           ntx \<leftarrow> crypto_state_create ok3;
           nrx \<leftarrow> crypto_state_create ok4;
           Some (Some \<lparr>current_rx_state = rx, current_tx_state = tx, next_rx_state = nrx,
                       next_tx_state = ntx, tx_seq_num = 0, rx_seq_num = 0, seq_bmap = [],
                       seq_bmap_len = 0, seq_win_size = 0\<rparr>, ms4)
         })"

section \<open>Padding\<close>

definition add_padding :: "cenv \<Rightarrow> crypto_data \<Rightarrow> du \<Rightarrow> (rc \<times> du) option" where
  "add_padding e p d =
     (case cs_blkcipher (current_tx_state p) of
        None \<Rightarrow> Some (0, d)
      | Some h \<Rightarrow> do {
          c \<leftarrow> tfm h;
          len \<leftarrow> got (du_len d);
          let padded = (len div ci_blocksize c + 1) * ci_blocksize c;
          (r, d1) \<leftarrow> got (du_tail_grow (ce_ok e) (ce_mem e) (padded - len) d);
          if r \<noteq> 0 then Some (-1, d1)
          else do {
            d2 \<leftarrow> got (du_write len (replicate (padded - len) (of_nat (padded - len))) d1);
            Some (0, d2)
          }
        })"

text \<open>
  The loop that checks the padding from the last byte down, \<open>n\<close> rounds; the bytes are those of the
  unit in reverse order. It leaves the unit when the count is larger than its length.
\<close>

fun check_padding :: "u8 list \<Rightarrow> nat \<Rightarrow> u8 \<Rightarrow> bool option" where
  "check_padding bs 0 p = Some True"
| "check_padding [] (Suc n) p = None"
| "check_padding (b # bs) (Suc n) p = (if b \<noteq> p then Some False else check_padding bs n p)"

text \<open>The count is the last byte, read as a signed \<^verbatim>\<open>char\<close>.\<close>

definition remove_padding :: "crypto_data \<Rightarrow> du \<Rightarrow> (rc \<times> du) option" where
  "remove_padding p d =
     (case cs_blkcipher (current_rx_state p) of
        None \<Rightarrow> Some (0, d)
      | Some h \<Rightarrow> do {
          len \<leftarrow> got (du_len d);
          bs \<leftarrow> got (du_read 0 len d);
          if bs = [] then None
          else do {
            let pad_len = sint (last bs);
            ok \<leftarrow> check_padding (rev bs) (nat pad_len) (last bs);
            if \<not> ok then Some (-1, d)
            else do {
              (r, d1) \<leftarrow> got (du_tail_shrink pad_len d);
              if r \<noteq> 0 then Some (-1, d1) else Some (0, d1)
            }
          }
        })"

section \<open>Encryption\<close>

text \<open>
  The address of the data is taken before the unit grows for the initialisation vector. It is the
  old one when the buffer was replaced: writing there is a fault. A failure to grow is reported and
  otherwise ignored.
\<close>

definition stale_head :: "nat \<Rightarrow> du \<Rightarrow> bool" where
  "stale_head n d = (case du_skb d of None \<Rightarrow> True | Some s \<Rightarrow> skb_headroom s < n)"

definition stale_tail :: "nat \<Rightarrow> du \<Rightarrow> bool" where
  "stale_tail n d = (case du_skb d of None \<Rightarrow> True | Some s \<Rightarrow> skb_tailroom s < n)"

definition data_offset :: "du \<Rightarrow> du \<Rightarrow> nat option" where
  "data_offset d d1 = do { a \<leftarrow> got (du_buffer d); b \<leftarrow> got (du_buffer d1); Some (a - b) }"

definition encrypt :: "cenv \<Rightarrow> crypto_data \<Rightarrow> du \<Rightarrow> (rc \<times> du) option" where
  "encrypt e p d =
     (case cs_blkcipher (current_tx_state p) of
        None \<Rightarrow> Some (0, d)
      | Some h \<Rightarrow> do {
          c \<leftarrow> tfm h;
          len \<leftarrow> got (du_len d);
          (iv, d2) \<leftarrow>
            (if ci_ivsize c \<noteq> 0
             then do {
               (r, d1) \<leftarrow> got (du_head_grow (ce_ok e) (ce_mem e) (ci_ivsize c) d);
               let iv = map (ce_random e) [0..<ci_ivsize c];
               d2 \<leftarrow> got (du_write 0 iv d1);
               if r = 0 \<and> stale_head (ci_ivsize c) d then None else Some (iv, d2)
             }
             else Some ([], d));
          off \<leftarrow> data_offset d d2;
          bs \<leftarrow> got (du_read off len d2);
          (case ci_encrypt c iv bs of
             None \<Rightarrow> do {
               (r, d3) \<leftarrow> (if ci_ivsize c \<noteq> 0 then got (du_head_shrink (ci_ivsize c) d2) else Some (0, d2));
               Some (-1, d3)
             }
           | Some cs \<Rightarrow> do { d3 \<leftarrow> got (du_write off cs d2); Some (0, d3) })
        })"

definition decrypt :: "crypto_data \<Rightarrow> du \<Rightarrow> (rc \<times> du) option" where
  "decrypt p d =
     (case cs_blkcipher (current_rx_state p) of
        None \<Rightarrow> Some (0, d)
      | Some h \<Rightarrow> do {
          c \<leftarrow> tfm h;
          (r, iv, d1) \<leftarrow>
            (if ci_ivsize c \<noteq> 0
             then do {
               iv \<leftarrow> got (du_read 0 (ci_ivsize c) d);
               (r, d1) \<leftarrow> got (du_head_shrink (ci_ivsize c) d);
               Some (r, iv, d1)
             }
             else Some (0, [], d));
          if r \<noteq> 0 then Some (-1, d1)
          else do {
            len \<leftarrow> got (du_len d1);
            cs \<leftarrow> got (du_read 0 len d1);
            (case ci_decrypt c iv cs of
               None \<Rightarrow> Some (-1, d1)
             | Some bs \<Rightarrow> do { d2 \<leftarrow> got (du_write 0 bs d1); Some (0, d2) })
          }
        })"

section \<open>Digest\<close>

definition add_hmac :: "cenv \<Rightarrow> crypto_data \<Rightarrow> du \<Rightarrow> (rc \<times> du) option" where
  "add_hmac e p d =
     (case cs_shash (current_tx_state p) of
        None \<Rightarrow> Some (0, d)
      | Some h \<Rightarrow> do {
          sh \<leftarrow> tfm h;
          len \<leftarrow> got (du_len d);
          (r, d1) \<leftarrow> got (du_tail_grow (ce_ok e) (ce_mem e) (sh_digestsize sh) d);
          if r \<noteq> 0 then Some (-1, d1)
          else if stale_tail (sh_digestsize sh) d then None
          else do {
            bs \<leftarrow> got (du_read 0 len d1);
            (case sh_digest sh bs of
               None \<Rightarrow> Some (-1, d1)
             | Some m \<Rightarrow> do { d2 \<leftarrow> got (du_write len m d1); Some (0, d2) })
          }
        })"

text \<open>The length of the digested bytes is computed at \<^verbatim>\<open>unsigned int\<close>: a unit shorter than a digest is a fault.\<close>

definition check_hmac :: "cenv \<Rightarrow> crypto_data \<Rightarrow> du \<Rightarrow> (rc \<times> du) option" where
  "check_hmac e p d =
     (case cs_shash (current_rx_state p) of
        None \<Rightarrow> Some (0, d)
      | Some h \<Rightarrow> do {
          sh \<leftarrow> tfm h;
          len \<leftarrow> got (du_len d);
          if \<not> ce_ok e then Some (-1, d)
          else if len < sh_digestsize sh then None
          else do {
            bs \<leftarrow> got (du_read 0 (len - sh_digestsize sh) d);
            m \<leftarrow> got (du_read (len - sh_digestsize sh) (sh_digestsize sh) d);
            (case sh_digest sh bs of
               None \<Rightarrow> Some (-1, d)
             | Some v \<Rightarrow>
                 (if v \<noteq> m then Some (-1, d)
                  else do {
                    (r, d1) \<leftarrow> got (du_tail_shrink (int (sh_digestsize sh)) d);
                    if r \<noteq> 0 then Some (-1, d1) else Some (0, d1)
                  }))
          }
        })"

section \<open>Compression\<close>

text \<open>The unit is cut or grown at its head to the new length, and the result copied in.\<close>

definition resize_head :: "cenv \<Rightarrow> nat \<Rightarrow> nat \<Rightarrow> du \<Rightarrow> (rc \<times> du) option" where
  "resize_head e old new d =
     (if old > new then got (du_head_shrink (old - new) d)
      else got (du_head_grow (ce_ok e) (ce_mem e) (new - old) d))"

definition compress :: "cenv \<Rightarrow> crypto_data \<Rightarrow> du \<Rightarrow> (rc \<times> du) option" where
  "compress e p d =
     (case cs_compress (current_tx_state p) of
        None \<Rightarrow> Some (0, d)
      | Some h \<Rightarrow> do {
          c \<leftarrow> tfm h;
          cap \<leftarrow> cs_scratch (current_tx_state p);
          len \<leftarrow> got (du_len d);
          bs \<leftarrow> got (du_read 0 len d);
          (case co_compress c cap bs of
             None \<Rightarrow> Some (-1, d)
           | Some cs \<Rightarrow> do {
               (r, d1) \<leftarrow> resize_head e len (length cs) d;
               if r \<noteq> 0 then Some (-1, d1)
               else do { d2 \<leftarrow> got (du_write 0 cs d1); Some (0, d2) }
             })
        })"

definition decompress :: "cenv \<Rightarrow> nat \<Rightarrow> crypto_data \<Rightarrow> du \<Rightarrow> (rc \<times> du) option" where
  "decompress e maxp p d =
     (case cs_compress (current_rx_state p) of
        None \<Rightarrow> Some (0, d)
      | Some h \<Rightarrow> do {
          c \<leftarrow> tfm h;
          len \<leftarrow> got (du_len d);
          cs \<leftarrow> got (du_read 0 len d);
          if \<not> ce_ok e then Some (-1, d)
          else
            (case co_decompress c maxp cs of
               None \<Rightarrow> Some (-1, d)
             | Some bs \<Rightarrow> do {
                 (r, d1) \<leftarrow> resize_head e len (length bs) d;
                 if r \<noteq> 0 then Some (-1, d1)
                 else do { d2 \<leftarrow> got (du_write 0 bs d1); Some (0, d2) }
               })
        })"

section \<open>Sequence numbers\<close>

definition add_seq_num :: "cenv \<Rightarrow> crypto_data \<Rightarrow> du \<Rightarrow> (rc \<times> crypto_data \<times> du) option" where
  "add_seq_num e p d =
     (case cs_blkcipher (current_tx_state p) of
        None \<Rightarrow> Some (0, p, d)
      | Some h \<Rightarrow> do {
          (r, d1) \<leftarrow> got (du_head_grow (ce_ok e) (ce_mem e) 4 d);
          if r \<noteq> 0 then Some (-1, p, d1)
          else do {
            d2 \<leftarrow> got (du_write 0 (bytes_of 4 (tx_seq_num p)) d1);
            Some (0, p\<lparr>tx_seq_num := tx_seq_num p + 1\<rparr>, d2)
          }
        })"

text \<open>
  One step of the inner loop of the shift, from the byte \<open>i\<close> down to 0: every byte takes over the
  lowest bit of the one in front of it.
\<close>

fun shift_bytes :: "nat \<Rightarrow> u8 list \<Rightarrow> u8 list" where
  "shift_bytes 0 bm = bm"
| "shift_bytes (Suc i) bm =
     shift_bytes i (bm[i := drop_bit 1 (bm ! i) OR
                            (if 0 < i \<and> bm ! (i - 1) AND 1 \<noteq> 0 then push_bit 7 1 else 0)])"

text \<open>
  The check of a received number against the window: too old, a duplicate, or new. The shift is the
  difference of the numbers as an \<^verbatim>\<open>int\<close>. A position behind the bitmap is a fault.
\<close>

definition check_window :: "u32 \<Rightarrow> crypto_data \<Rightarrow> (rc \<times> crypto_data) option" where
  "check_window seq_num p =
     (if int (unat seq_num) < int (unat (rx_seq_num p)) - int (seq_win_size p) then Some (-1, p)
      else
        (let shift_length = sint (seq_num - rx_seq_num p);
             bm = (shift_bytes (seq_bmap_len p) ^^ nat shift_length) (seq_bmap p);
             p1 = p\<lparr>seq_bmap := bm,
                    rx_seq_num := (if seq_num > rx_seq_num p then seq_num else rx_seq_num p)\<rparr>;
             pos = unat (rx_seq_num p1 - seq_num);
             byte = pos div 8;
             b = 7 - pos mod 8
         in if byte \<ge> length bm then None
            else if bm ! byte AND push_bit b 1 \<noteq> 0 then Some (-1, p1)
            else Some (0, p1\<lparr>seq_bmap := bm[byte := bm ! byte OR push_bit b 1]\<rparr>)))"

definition del_seq_num :: "crypto_data \<Rightarrow> du \<Rightarrow> (rc \<times> crypto_data \<times> du) option" where
  "del_seq_num p d =
     (case cs_blkcipher (current_rx_state p) of
        None \<Rightarrow> Some (0, p, d)
      | Some h \<Rightarrow> do {
          bs \<leftarrow> got (du_read 0 4 d);
          (r, d1) \<leftarrow> got (du_head_shrink 4 d);
          if r \<noteq> 0 then Some (-1, p, d1)
          else if seq_win_size p = 0 then Some (0, p, d1)
          else do { (r, p1) \<leftarrow> check_window (of_bytes bs) p; Some (r, p1, d1) }
        })"

section \<open>The policy\<close>

definition default_sdup_apply_crypto :: "cenv \<Rightarrow> crypto_data \<Rightarrow> du \<Rightarrow> (rc \<times> crypto_data \<times> du) option" where
  "default_sdup_apply_crypto e p0 d0 = do {
     (r1, d1) \<leftarrow> compress e p0 d0;
     if r1 \<noteq> 0 then Some (r1, p0, d1) else do {
     (r2, p, d2) \<leftarrow> add_seq_num e p0 d1;
     if r2 \<noteq> 0 then Some (r2, p, d2) else do {
     (r3, d3) \<leftarrow> add_hmac e p d2;
     if r3 \<noteq> 0 then Some (r3, p, d3) else do {
     (r4, d4) \<leftarrow> add_padding e p d3;
     if r4 \<noteq> 0 then Some (r4, p, d4) else do {
     (r5, d5) \<leftarrow> encrypt e p d4;
     Some (r5, p, d5) }}}}}"

definition default_sdup_remove_crypto ::
    "cenv \<Rightarrow> nat \<Rightarrow> crypto_data \<Rightarrow> du \<Rightarrow> (rc \<times> crypto_data \<times> du) option" where
  "default_sdup_remove_crypto e maxp p0 d0 = do {
     (r1, d1) \<leftarrow> decrypt p0 d0;
     if r1 \<noteq> 0 then Some (r1, p0, d1) else do {
     (r2, d2) \<leftarrow> remove_padding p0 d1;
     if r2 \<noteq> 0 then Some (r2, p0, d2) else do {
     (r3, d3) \<leftarrow> check_hmac e p0 d2;
     if r3 \<noteq> 0 then Some (r3, p0, d3) else do {
     (r4, p, d4) \<leftarrow> del_seq_num p0 d3;
     if r4 \<noteq> 0 then Some (r4, p, d4) else do {
     (r5, d5) \<leftarrow> decompress e maxp p d4;
     Some (r5, p, d5) }}}}}"

section \<open>Keys\<close>

text \<open>The kernel's allocation of algorithms by name, and the setting of their keys.\<close>

record crypto_lib =
  crypto_alloc_blkcipher :: "cstr \<Rightarrow> cipher handle"
  crypto_blkcipher_setkey :: "cipher \<Rightarrow> bytes \<Rightarrow> cipher option"
  crypto_alloc_shash :: "cstr \<Rightarrow> shash handle"
  crypto_shash_setkey :: "shash \<Rightarrow> bytes \<Rightarrow> shash option"
  crypto_alloc_comp :: "cstr \<Rightarrow> comp handle"

definition cstr_of :: "string \<Rightarrow> cstr" where
  "cstr_of s = map of_char s"

definition MAX_COMP_INFLATION :: nat where "MAX_COMP_INFLATION = 1024"

text \<open>
  The three algorithms are taken into the next states one after the other; an error leaves what was
  done before. The name is not empty and one of those the kernel code knows.
\<close>

definition filled :: "cstr ptr \<Rightarrow> bool" where
  "filled s = (case s of None \<Rightarrow> False | Some c \<Rightarrow> c \<noteq> [])"

definition update_cipher ::
    "crypto_lib \<Rightarrow> bool \<Rightarrow> bool \<Rightarrow> ku_sdup_crypto_state \<Rightarrow> crypto_data \<Rightarrow> rc \<times> crypto_data" where
  "update_cipher lib ok1 ok2 st p =
     (if \<not> filled (scs_enc_alg st) then (0, p)
      else if scs_enc_alg st \<noteq> Some (cstr_of ''AES128'') \<and> scs_enc_alg st \<noteq> Some (cstr_of ''AES256'')
      then (-1, p)
      else if \<not> ok1 then (-1, p\<lparr>next_tx_state := (next_tx_state p)\<lparr>cs_enc_alg := None\<rparr>\<rparr>)
      else
        (let alg = cstr_of ''cbc(aes)'';
             p1 = p\<lparr>next_tx_state := (next_tx_state p)\<lparr>cs_enc_alg := Some alg\<rparr>\<rparr>
         in if \<not> ok2 then (-1, p1\<lparr>next_rx_state := (next_rx_state p)\<lparr>cs_enc_alg := None\<rparr>\<rparr>)
            else
              (let h = crypto_alloc_blkcipher lib alg;
                   p2 = p1\<lparr>next_tx_state := (next_tx_state p1)\<lparr>cs_blkcipher := Some h\<rparr>,
                           next_rx_state := (next_rx_state p)\<lparr>cs_enc_alg := Some alg, cs_blkcipher := Some h\<rparr>\<rparr>
               in (if h = ErrPtr then -1 else 0, p2))))"

text \<open>The key goes into the handle of the state, which is used without a check.\<close>

definition set_cipher_key :: "crypto_lib \<Rightarrow> bytes ptr \<Rightarrow> crypto_state \<Rightarrow> (rc \<times> crypto_state) option" where
  "set_cipher_key lib key cs =
     (case key of
        None \<Rightarrow> Some (0, cs)
      | Some kb \<Rightarrow> do {
          h \<leftarrow> cs_blkcipher cs;
          c \<leftarrow> tfm h;
          Some (case crypto_blkcipher_setkey lib c kb of
                  None \<Rightarrow> (-1, cs)
                | Some c' \<Rightarrow> (0, cs\<lparr>cs_blkcipher := Some (Tfm c')\<rparr>))
        })"

definition set_mac_key :: "crypto_lib \<Rightarrow> bytes ptr \<Rightarrow> crypto_state \<Rightarrow> (rc \<times> crypto_state) option" where
  "set_mac_key lib key cs =
     (case key of
        None \<Rightarrow> Some (0, cs)
      | Some kb \<Rightarrow> do {
          h \<leftarrow> cs_shash cs;
          c \<leftarrow> tfm h;
          Some (case crypto_shash_setkey lib c kb of
                  None \<Rightarrow> (-1, cs)
                | Some c' \<Rightarrow> (0, cs\<lparr>cs_shash := Some (Tfm c')\<rparr>))
        })"

definition mac_name :: "cstr ptr \<Rightarrow> cstr ptr" where
  "mac_name s =
     (if s = Some (cstr_of ''SHA256'') then Some (cstr_of ''hmac(sha256)'')
      else if s = Some (cstr_of ''MD5'') then Some (cstr_of ''hmac(md5)'')
      else None)"

definition update_mac ::
    "crypto_lib \<Rightarrow> bool \<Rightarrow> bool \<Rightarrow> ku_sdup_crypto_state \<Rightarrow> crypto_data \<Rightarrow> rc \<times> crypto_data" where
  "update_mac lib ok1 ok2 st p =
     (if \<not> filled (scs_mac_alg st) then (0, p)
      else
        (case mac_name (scs_mac_alg st) of
           None \<Rightarrow> (-1, p)
         | Some alg \<Rightarrow>
             (if \<not> ok1 then (-1, p\<lparr>next_tx_state := (next_tx_state p)\<lparr>cs_mac_alg := None\<rparr>\<rparr>)
              else
                (let p1 = p\<lparr>next_tx_state := (next_tx_state p)\<lparr>cs_mac_alg := Some alg\<rparr>\<rparr>
                 in if \<not> ok2 then (-1, p1\<lparr>next_rx_state := (next_rx_state p)\<lparr>cs_mac_alg := None\<rparr>\<rparr>)
                    else
                      (let h = crypto_alloc_shash lib alg;
                           p2 = p1\<lparr>next_tx_state := (next_tx_state p1)\<lparr>cs_shash := Some h\<rparr>,
                                   next_rx_state := (next_rx_state p)\<lparr>cs_mac_alg := Some alg, cs_shash := Some h\<rparr>\<rparr>
                       in (if h = ErrPtr then -1 else 0, p2))))))"

text \<open>\<open>ok1\<close> to \<open>ok4\<close>: the two names and the two scratch buffers.\<close>

definition update_comp ::
    "crypto_lib \<Rightarrow> nat \<Rightarrow> bool \<Rightarrow> bool \<Rightarrow> bool \<Rightarrow> bool \<Rightarrow> ku_sdup_crypto_state \<Rightarrow> crypto_data \<Rightarrow> rc \<times> crypto_data" where
  "update_comp lib maxp ok1 ok2 ok3 ok4 st p =
     (if \<not> filled (scs_compress_alg st) then (0, p)
      else if scs_compress_alg st \<noteq> Some (cstr_of ''deflate'') then (-1, p)
      else if \<not> ok1 then (-1, p\<lparr>next_tx_state := (next_tx_state p)\<lparr>cs_compress_alg := None\<rparr>\<rparr>)
      else
        (let alg = cstr_of ''deflate'';
             p1 = p\<lparr>next_tx_state := (next_tx_state p)\<lparr>cs_compress_alg := Some alg\<rparr>\<rparr>
         in if \<not> ok2 then (-1, p1\<lparr>next_rx_state := (next_rx_state p)\<lparr>cs_compress_alg := None\<rparr>\<rparr>)
            else
              (let h = crypto_alloc_comp lib alg;
                   room = maxp + MAX_COMP_INFLATION;
                   p2 = p1\<lparr>next_tx_state := (next_tx_state p1)\<lparr>cs_compress := Some h\<rparr>,
                           next_rx_state := (next_rx_state p)\<lparr>cs_compress_alg := Some alg, cs_compress := Some h\<rparr>\<rparr>
               in if h = ErrPtr then (-1, p2)
                  else if \<not> ok3 then (-1, p2\<lparr>next_tx_state := (next_tx_state p2)\<lparr>cs_scratch := None\<rparr>\<rparr>)
                  else
                    (let p3 = p2\<lparr>next_tx_state := (next_tx_state p2)\<lparr>cs_scratch := Some room\<rparr>\<rparr>
                     in if \<not> ok4 then (-1, p3\<lparr>next_rx_state := (next_rx_state p3)\<lparr>cs_scratch := None\<rparr>\<rparr>)
                        else (0, p3\<lparr>next_rx_state := (next_rx_state p3)\<lparr>cs_scratch := Some room\<rparr>\<rparr>)))))"

definition default_sdup_update_crypto_state ::
    "crypto_lib \<Rightarrow> nat \<Rightarrow> (nat \<Rightarrow> bool) \<Rightarrow> ku_sdup_crypto_state ptr \<Rightarrow> crypto_data \<Rightarrow> (rc \<times> crypto_data) option" where
  "default_sdup_update_crypto_state lib maxp ok q p0 =
     (case q of
        None \<Rightarrow> Some (-1, p0)
      | Some st \<Rightarrow> do {
          let (r1, p1) = update_cipher lib (ok 0) (ok 1) st p0;
          if r1 \<noteq> 0 then Some (-1, p1) else do {
          (r2, tx) \<leftarrow> set_cipher_key lib (scs_encrypt_key_tx st) (next_tx_state p1);
          let p2 = p1\<lparr>next_tx_state := tx\<rparr>;
          if r2 \<noteq> 0 then Some (-1, p2) else do {
          (r3, rx) \<leftarrow> set_cipher_key lib (scs_encrypt_key_rx st) (next_rx_state p2);
          let p3 = p2\<lparr>next_rx_state := rx\<rparr>;
          if r3 \<noteq> 0 then Some (-1, p3) else do {
          let (r4, p4) = update_mac lib (ok 2) (ok 3) st p3;
          if r4 \<noteq> 0 then Some (-1, p4) else do {
          (r5, tx) \<leftarrow> set_mac_key lib (scs_mac_key_tx st) (next_tx_state p4);
          let p5 = p4\<lparr>next_tx_state := tx\<rparr>;
          if r5 \<noteq> 0 then Some (-1, p5) else do {
          (r6, rx) \<leftarrow> set_mac_key lib (scs_mac_key_rx st) (next_rx_state p5);
          let p6 = p5\<lparr>next_rx_state := rx\<rparr>;
          if r6 \<noteq> 0 then Some (-1, p6) else do {
          let (r7, p7) = update_comp lib maxp (ok 4) (ok 5) (ok 6) (ok 7) st p6;
          if r7 \<noteq> 0 then Some (-1, p7) else do {
          p8 \<leftarrow> (if scs_enable_crypto_rx st
                 then do { n \<leftarrow> crypto_state_create (ok 8);
                           Some (p7\<lparr>current_rx_state := next_rx_state p7, next_rx_state := n\<rparr>) }
                 else Some p7);
          p9 \<leftarrow> (if scs_enable_crypto_tx st
                 then do { n \<leftarrow> crypto_state_create (ok 9);
                           Some (p8\<lparr>current_tx_state := next_tx_state p8, next_tx_state := n\<rparr>) }
                 else Some p8);
          Some (0, p9) }}}}}}}})"

text \<open>
  The creation: the window size from the configuration of the encryption, \<open>kstrtoint\<close> is the
  kernel's; the size is stored in an unsigned field. A parameter without a name is compared all the
  same, a fault.
\<close>

fun policy_param_find :: "cstr \<Rightarrow> ku_policy_parm ptr list \<Rightarrow> ku_policy_parm ptr option" where
  "policy_param_find n [] = Some None"
| "policy_param_find n (None # ps) = None"
| "policy_param_find n (Some q # ps) = do {
     m \<leftarrow> prm_name q;
     if m = n then Some (Some q) else policy_param_find n ps
   }"

definition sdup_crypto_ps_default_create ::
    "(cstr ptr \<Rightarrow> int option) \<Rightarrow> allocs \<Rightarrow> ku_auth_sdup_profile \<Rightarrow> crypto_data ptr option" where
  "sdup_crypto_ps_default_create kstrtoint ms conf =
     (case rkmalloc ms of
        (False, _) \<Rightarrow> Some None
      | (True, ms1) \<Rightarrow> do {
          (q, ms2) \<leftarrow> priv_data_create ms1;
          (case q of
             None \<Rightarrow> Some None
           | Some p \<Rightarrow>
               (case asp_encrypt conf of
                  None \<Rightarrow> Some None
                | Some enc \<Rightarrow> do {
                    prm \<leftarrow> policy_param_find (cstr_of ''seq_win_size'') (pol_params enc);
                    (case prm of
                       None \<Rightarrow> Some (Some (p\<lparr>seq_win_size := 0\<rparr>))
                     | Some prm \<Rightarrow>
                         (case kstrtoint (prm_value prm) of
                            None \<Rightarrow> Some None
                          | Some v \<Rightarrow>
                              (let win = nat (v mod 2 ^ 32);
                                   len = win div 8 + (if win mod 8 \<noteq> 0 then 1 else 0)
                               in Some (if fst (rkmalloc ms2)
                                        then Some (p\<lparr>seq_win_size := win, seq_bmap_len := len,
                                                     seq_bmap := replicate len 0\<rparr>)
                                        else None))))
                  }))
        })"

section \<open>What the algorithms promise\<close>

definition cipher_ok :: "cipher \<Rightarrow> bool" where
  "cipher_ok c \<longleftrightarrow>
     0 < ci_blocksize c \<and> ci_blocksize c < 128 \<and>
     (\<forall>iv x. length iv = ci_ivsize c \<longrightarrow> ci_blocksize c dvd length x \<longrightarrow>
        (\<exists>y. ci_encrypt c iv x = Some y \<and> length y = length x \<and> ci_decrypt c iv y = Some x))"

definition shash_ok :: "shash \<Rightarrow> bool" where
  "shash_ok h \<longleftrightarrow> (\<forall>x. \<exists>m. sh_digest h x = Some m \<and> length m = sh_digestsize h)"

definition comp_ok :: "nat \<Rightarrow> comp \<Rightarrow> bool" where
  "comp_ok maxp c \<longleftrightarrow>
     (\<forall>x. length x \<le> maxp \<longrightarrow>
        (\<exists>y. co_compress c (maxp + MAX_COMP_INFLATION) x = Some y \<and>
             length y \<le> maxp + MAX_COMP_INFLATION \<and> co_decompress c maxp y = Some x))"

text \<open>The state of a sender and the state of its receiver: the same algorithms under the same keys.\<close>

definition state_ok :: "nat \<Rightarrow> crypto_state \<Rightarrow> bool" where
  "state_ok maxp cs \<longleftrightarrow>
     (case cs_blkcipher cs of None \<Rightarrow> True | Some (Tfm c) \<Rightarrow> cipher_ok c | Some ErrPtr \<Rightarrow> False) \<and>
     (case cs_shash cs of None \<Rightarrow> True | Some (Tfm h) \<Rightarrow> shash_ok h | Some ErrPtr \<Rightarrow> False) \<and>
     (case cs_compress cs of
        None \<Rightarrow> True
      | Some (Tfm c) \<Rightarrow> comp_ok maxp c \<and> cs_scratch cs = Some (maxp + MAX_COMP_INFLATION)
      | Some ErrPtr \<Rightarrow> False)"

definition same_algs :: "crypto_state \<Rightarrow> crypto_state \<Rightarrow> bool" where
  "same_algs a b \<longleftrightarrow> cs_blkcipher a = cs_blkcipher b \<and> cs_shash a = cs_shash b \<and>
     cs_compress a = cs_compress b"

text \<open>The bytes each stage may add.\<close>

definition comp_extra :: "crypto_state \<Rightarrow> nat" where
  "comp_extra cs = (case cs_compress cs of None \<Rightarrow> 0 | Some _ \<Rightarrow> MAX_COMP_INFLATION)"

definition blk_size :: "crypto_state \<Rightarrow> nat" where
  "blk_size cs = (case cs_blkcipher cs of Some (Tfm c) \<Rightarrow> ci_blocksize c | _ \<Rightarrow> 0)"

definition iv_size :: "crypto_state \<Rightarrow> nat" where
  "iv_size cs = (case cs_blkcipher cs of Some (Tfm c) \<Rightarrow> ci_ivsize c | _ \<Rightarrow> 0)"

definition mac_size :: "crypto_state \<Rightarrow> nat" where
  "mac_size cs = (case cs_shash cs of Some (Tfm h) \<Rightarrow> sh_digestsize h | _ \<Rightarrow> 0)"

definition seq_size :: "crypto_state \<Rightarrow> nat" where
  "seq_size cs = (case cs_blkcipher cs of None \<Rightarrow> 0 | Some _ \<Rightarrow> 4)"

section \<open>The stages and their inverses\<close>

lemma mod_pad:
  fixes n b :: nat
  assumes "0 < b"
  shows "n < (n div b + 1) * b" "(n div b + 1) * b - n \<le> b" "b dvd n + ((n div b + 1) * b - n)"
proof -
  have *: "(n div b + 1) * b = n - n mod b + b"
    by (simp add: minus_mod_eq_div_mult)
  have m: "n mod b < b" "n mod b \<le> n" using assms by auto
  show "n < (n div b + 1) * b" "(n div b + 1) * b - n \<le> b" using * m by linarith+
  then have "n + ((n div b + 1) * b - n) = (n div b + 1) * b" by simp
  then show "b dvd n + ((n div b + 1) * b - n)" by simp
qed

definition pad_rel :: "crypto_state \<Rightarrow> u8 list \<Rightarrow> u8 list \<Rightarrow> bool" where
  "pad_rel cs bs xs \<longleftrightarrow>
     (case cs_blkcipher cs of
        Some (Tfm c) \<Rightarrow> \<exists>n. 0 < n \<and> n < 128 \<and> xs = bs @ replicate n (of_nat n) \<and>
          ci_blocksize c dvd length xs
      | _ \<Rightarrow> xs = bs)"

lemma add_padding_ok:
  assumes "lay d hr bs tr" "state_ok maxp (current_tx_state p)" "blk_size (current_tx_state p) \<le> length tr"
    "length bs + blk_size (current_tx_state p) < 2 ^ 32"
  shows "\<exists>d' xs tr'. add_padding e p d = Some (0, d') \<and> lay d' hr xs tr' \<and>
    pad_rel (current_tx_state p) bs xs \<and> length xs \<le> length bs + blk_size (current_tx_state p) \<and>
    length tr \<le> length tr' + blk_size (current_tx_state p)"
proof (cases "cs_blkcipher (current_tx_state p)")
  case None
  with assms(1) show ?thesis by (auto simp: add_padding_def pad_rel_def)
next
  case (Some h)
  then obtain c where c: "h = Tfm c" "cipher_ok c" using assms(2)
    by (auto simp: state_ok_def split: handle.splits)
  let ?b = "ci_blocksize c" and ?l = "length bs"
  let ?n = "(?l div ?b + 1) * ?b - ?l"
  from c have b: "0 < ?b" "?b < 128" by (simp_all add: cipher_ok_def)
  note m = mod_pad [OF b(1), of ?l]
  have blk: "blk_size (current_tx_state p) = ?b" using Some c by (simp add: blk_size_def)
  from lay_tail_grow [OF assms(1), of ?n "ce_ok e" "ce_mem e"] assms(3,4) m(2) blk obtain d1 where
    d1: "du_tail_grow (ce_ok e) (ce_mem e) ?n d = Done (0, d1)"
      "lay d1 hr (bs @ take ?n tr) (drop ?n tr)" by auto
  let ?x = "replicate ?n (of_nat ?n :: u8)"
  have "?n \<le> length tr" using assms(3) m(2) blk by linarith
  with lay_write [OF d1(2), of ?l ?x] obtain d2 where
    d2: "du_write ?l ?x d1 = Done d2" "lay d2 hr (bs @ ?x) (drop ?n tr)" by auto
  have "add_padding e p d = Some (0, d2)"
    using Some c d1(1) d2(1) lay_len [OF assms(1)] by (simp add: add_padding_def Let_def)
  moreover have "pad_rel (current_tx_state p) bs (bs @ ?x)"
    using Some c m b by (auto simp: pad_rel_def intro!: exI [of _ ?n])
  ultimately show ?thesis using d2(2) m(2) blk by (intro exI conjI) auto
qed

lemma check_padding_replicate: "check_padding (replicate n p @ bs) n p = Some True"
  by (induction n) auto

lemma sint_of_nat_small: "n < 128 \<Longrightarrow> sint (of_nat n :: u8) = int n"
  using int_word_sint [of "int n", where 'a = 8] by simp

lemma remove_padding_ok:
  assumes "lay d hr xs tr" "pad_rel (current_rx_state p) bs xs"
    "state_ok maxp (current_rx_state p)"
  shows "\<exists>d' tr'. remove_padding p d = Some (0, d') \<and> lay d' hr bs tr'"
proof (cases "cs_blkcipher (current_rx_state p)")
  case None
  with assms show ?thesis by (auto simp: remove_padding_def pad_rel_def)
next
  case (Some h)
  then obtain c where c: "h = Tfm c" using assms(3)
    by (auto simp: state_ok_def split: handle.splits)
  with Some assms(2) obtain n where n: "0 < n" "n < 128" "xs = bs @ replicate n (of_nat n :: u8)"
    by (auto simp: pad_rel_def)
  have last: "last xs = of_nat n" "xs \<noteq> []" using n by (auto simp: last_append)
  have read: "du_read 0 (length xs) d = Done xs" using lay_read [OF assms(1), of 0 "length xs"] by simp
  have "check_padding (rev xs) n (of_nat n) = Some True"
    using n(3) check_padding_replicate by simp
  moreover from lay_tail_shrink [OF assms(1), of n] n(3) obtain d1 where
    "du_tail_shrink (int n) d = Done (0, d1)" "lay d1 hr bs (replicate n (of_nat n) @ tr)" by auto
  ultimately show ?thesis
    using Some read last lay_len [OF assms(1)] sint_of_nat_small [OF n(2)]
    by (auto simp: remove_padding_def Let_def)
qed

definition enc_rel :: "crypto_state \<Rightarrow> u8 list \<Rightarrow> u8 list \<Rightarrow> bool" where
  "enc_rel cs bs xs \<longleftrightarrow>
     (case cs_blkcipher cs of
        Some (Tfm c) \<Rightarrow> \<exists>iv ys. xs = iv @ ys \<and> length iv = ci_ivsize c \<and> length ys = length bs \<and>
          ci_decrypt c iv ys = Some bs
      | _ \<Rightarrow> xs = bs)"

lemma encrypt_ok:
  assumes lay: "lay d hr bs tr" and st: "state_ok maxp (current_tx_state p)"
    and room: "iv_size (current_tx_state p) \<le> length hr"
      "length bs + iv_size (current_tx_state p) < 2 ^ 32"
    and blk: "pad_rel (current_tx_state p) bs0 bs"
  shows "\<exists>d' hr' xs. encrypt e p d = Some (0, d') \<and> lay d' hr' xs tr \<and>
    enc_rel (current_tx_state p) bs xs \<and> length xs = length bs + iv_size (current_tx_state p)"
proof (cases "cs_blkcipher (current_tx_state p)")
  case None
  with lay show ?thesis by (auto simp: encrypt_def enc_rel_def iv_size_def)
next
  case (Some h)
  then obtain c where c: "h = Tfm c" "cipher_ok c" using st
    by (auto simp: state_ok_def split: handle.splits)
  let ?n = "ci_ivsize c" and ?iv = "map (ce_random e) [0..<ci_ivsize c]"
  have iv: "iv_size (current_tx_state p) = ?n" using Some c by (simp add: iv_size_def)
  have "ci_blocksize c dvd length bs" using blk Some c by (auto simp: pad_rel_def)
  moreover have "length ?iv = ?n" by simp
  ultimately obtain ys where ys: "ci_encrypt c ?iv bs = Some ys" "length ys = length bs"
    "ci_decrypt c ?iv ys = Some bs" using c(2) unfolding cipher_ok_def by blast
  show ?thesis
  proof (cases "?n = 0")
    case True
    from lay_write [OF lay, of 0 ys] ys(2) obtain d3 where
      "du_write 0 ys d = Done d3" "lay d3 hr ys tr" by auto
    with Some c True ys lay_len [OF lay] lay_buffer [OF lay] lay_read [OF lay, of 0 "length bs"] iv
    show ?thesis by (auto simp: encrypt_def enc_rel_def data_offset_def)
  next
    case False
    let ?hr = "take (length hr - ?n) hr"
    from lay_head_grow [OF lay, of ?n "ce_ok e" "ce_mem e"] room iv obtain d1 where
      d1: "du_head_grow (ce_ok e) (ce_mem e) ?n d = Done (0, d1)"
        "lay d1 ?hr (drop (length hr - ?n) hr @ bs) tr" by auto
    from lay_write [OF d1(2), of 0 ?iv] room iv obtain d2 where
      d2: "du_write 0 ?iv d1 = Done d2" "lay d2 ?hr (?iv @ bs) tr" by auto
    have off: "data_offset d d2 = Some ?n"
      using lay_buffer [OF lay] lay_buffer [OF d2(2)] room(1) iv by (simp add: data_offset_def)
    have read: "du_read ?n (length bs) d2 = Done bs" using lay_read [OF d2(2), of ?n "length bs"] by simp
    from lay_write [OF d2(2), of ?n ys] ys(2) obtain d3 where
      d3: "du_write ?n ys d2 = Done d3" "lay d3 ?hr (?iv @ ys) tr" by auto
    have "\<not> stale_head ?n d" using lay room(1) iv by (auto simp: lay_def stale_head_def skb_headroom_def)
    with Some c False d1(1) d2(1) d3(1) off read ys(1) lay_len [OF lay]
    have "encrypt e p d = Some (0, d3)" by (simp add: encrypt_def Let_def)
    moreover have "enc_rel (current_tx_state p) bs (?iv @ ys)"
      using Some c ys
      by (simp add: enc_rel_def) (rule exI [of _ ?iv], rule exI [of _ ys], simp)
    ultimately show ?thesis using d3(2) ys(2) iv by (intro exI conjI) auto
  qed
qed

lemma decrypt_ok:
  assumes lay: "lay d hr xs tr" and st: "state_ok maxp (current_rx_state p)"
    and rel: "enc_rel (current_rx_state p) bs xs"
  shows "\<exists>d' hr'. decrypt p d = Some (0, d') \<and> lay d' hr' bs tr \<and> length hr \<le> length hr'"
proof (cases "cs_blkcipher (current_rx_state p)")
  case None
  with lay rel show ?thesis by (auto simp: decrypt_def enc_rel_def)
next
  case (Some h)
  then obtain c where c: "h = Tfm c" using st by (auto simp: state_ok_def split: handle.splits)
  with Some rel obtain iv ys where x: "xs = iv @ ys" "length iv = ci_ivsize c"
    "length ys = length bs" "ci_decrypt c iv ys = Some bs" by (auto simp: enc_rel_def)
  from lay_head_shrink [OF lay, of "length iv"] x(1) obtain d1 where
    d1: "du_head_shrink (length iv) d = Done (0, d1)" "lay d1 (hr @ iv) ys tr" by auto
  from lay_write [OF d1(2), of 0 bs] x(3) obtain d2 where
    d2: "du_write 0 bs d1 = Done d2" "lay d2 (hr @ iv) bs tr" by auto
  have reads: "du_read 0 (length iv) d = Done iv" "du_read 0 (length ys) d1 = Done ys"
    using lay_read [OF lay, of 0 "length iv"] lay_read [OF d1(2), of 0 "length ys"] x(1) by auto
  show ?thesis
  proof (cases "ci_ivsize c = 0")
    case True
    with x have "iv = []" by simp
    with lay_write [OF lay, of 0 bs] x obtain d3 where "du_write 0 bs d = Done d3" "lay d3 hr bs tr"
      by auto
    with Some c True x \<open>iv = []\<close> lay_len [OF lay] lay_read [OF lay, of 0 "length ys"] show ?thesis
      by (auto simp: decrypt_def)
  next
    case False
    with Some c x d1 d2 reads lay_len [OF d1(2)] show ?thesis
      by (intro exI [of _ d2] exI [of _ "hr @ iv"]) (simp add: decrypt_def)
  qed
qed

definition mac_rel :: "crypto_state \<Rightarrow> u8 list \<Rightarrow> u8 list \<Rightarrow> bool" where
  "mac_rel cs bs xs \<longleftrightarrow>
     (case cs_shash cs of
        Some (Tfm h) \<Rightarrow> \<exists>m. xs = bs @ m \<and> length m = sh_digestsize h \<and> sh_digest h bs = Some m
      | _ \<Rightarrow> xs = bs)"

lemma add_hmac_ok:
  assumes lay: "lay d hr bs tr" and st: "state_ok maxp (current_tx_state p)"
    and room: "mac_size (current_tx_state p) \<le> length tr"
      "length bs + mac_size (current_tx_state p) < 2 ^ 32"
  shows "\<exists>d' xs tr'. add_hmac e p d = Some (0, d') \<and> lay d' hr xs tr' \<and>
    mac_rel (current_tx_state p) bs xs \<and> length xs = length bs + mac_size (current_tx_state p) \<and>
    length tr = length tr' + mac_size (current_tx_state p)"
proof (cases "cs_shash (current_tx_state p)")
  case None
  with lay show ?thesis by (auto simp: add_hmac_def mac_rel_def mac_size_def)
next
  case (Some h)
  then obtain sh where sh: "h = Tfm sh" "shash_ok sh" using st
    by (auto simp: state_ok_def split: handle.splits)
  let ?n = "sh_digestsize sh"
  have n: "mac_size (current_tx_state p) = ?n" using Some sh by (simp add: mac_size_def)
  from sh(2) obtain m where m: "sh_digest sh bs = Some m" "length m = ?n"
    by (auto simp: shash_ok_def)
  from lay_tail_grow [OF lay, of ?n "ce_ok e" "ce_mem e"] room n obtain d1 where
    d1: "du_tail_grow (ce_ok e) (ce_mem e) ?n d = Done (0, d1)"
      "lay d1 hr (bs @ take ?n tr) (drop ?n tr)" by auto
  from lay_write [OF d1(2), of "length bs" m] m(2) room(1) n obtain d2 where
    d2: "du_write (length bs) m d1 = Done d2" "lay d2 hr (bs @ m) (drop ?n tr)" by auto
  have "\<not> stale_tail ?n d" using lay room(1) n by (auto simp: lay_def stale_tail_def skb_tailroom_def)
  moreover have "du_read 0 (length bs) d1 = Done bs"
    using lay_read [OF d1(2), of 0 "length bs"] by simp
  ultimately have "add_hmac e p d = Some (0, d2)"
    using Some sh(1) d1(1) d2(1) m(1) lay_len [OF lay] by (simp add: add_hmac_def)
  then show ?thesis
    using d2(2) Some sh m room(1) n
    by (intro exI [of _ d2] exI [of _ "bs @ m"] exI [of _ "drop ?n tr"]) (simp add: mac_rel_def)
qed

lemma check_hmac_ok:
  assumes lay: "lay d hr xs tr" and st: "state_ok maxp (current_rx_state p)"
    and rel: "mac_rel (current_rx_state p) bs xs" and ok: "ce_ok e"
  shows "\<exists>d' tr'. check_hmac e p d = Some (0, d') \<and> lay d' hr bs tr'"
proof (cases "cs_shash (current_rx_state p)")
  case None
  with lay rel show ?thesis by (auto simp: check_hmac_def mac_rel_def)
next
  case (Some h)
  then obtain sh where sh: "h = Tfm sh" using st by (auto simp: state_ok_def split: handle.splits)
  with Some rel obtain m where m: "xs = bs @ m" "length m = sh_digestsize sh"
    "sh_digest sh bs = Some m" by (auto simp: mac_rel_def)
  have "du_read 0 (length bs) d = Done bs" "du_read (length bs) (length m) d = Done m"
    using lay_read [OF lay, of 0 "length bs"] lay_read [OF lay, of "length bs" "length m"] m(1) by auto
  moreover from lay_tail_shrink [OF lay, of "length m"] m(1) obtain d1 where
    "du_tail_shrink (int (length m)) d = Done (0, d1)" "lay d1 hr bs (m @ tr)" by auto
  ultimately show ?thesis
    using Some sh m ok lay_len [OF lay] by (auto simp: check_hmac_def)
qed

lemma resize_head_ok:
  assumes lay: "lay d hr bs tr" and room: "length ys \<le> length bs + length hr" "length ys < 2 ^ 32"
  shows "\<exists>d' hr' zs. resize_head e (length bs) (length ys) d = Some (0, d') \<and> lay d' hr' zs tr \<and>
    length zs = length ys \<and> length hr' + length ys = length hr + length bs"
proof (cases "length ys < length bs")
  case True
  with lay_head_shrink [OF lay, of "length bs - length ys"] show ?thesis
    by (fastforce simp: resize_head_def)
next
  case False
  with lay_head_grow [OF lay, of "length ys - length bs" "ce_ok e" "ce_mem e"] room show ?thesis
    by (fastforce simp: resize_head_def)
qed

lemma put_resized:
  assumes "lay d hr bs tr" "length ys \<le> length bs + length hr" "length ys < 2 ^ 32"
  shows "\<exists>d1 d' hr'. resize_head e (length bs) (length ys) d = Some (0, d1) \<and>
    du_write 0 ys d1 = Done d' \<and> lay d' hr' ys tr \<and> length hr' + length ys = length hr + length bs"
proof -
  from resize_head_ok [OF assms, of e] obtain d1 hr' zs where
    d1: "resize_head e (length bs) (length ys) d = Some (0, d1)" "lay d1 hr' zs tr"
      "length zs = length ys" "length hr' + length ys = length hr + length bs" by blast
  with lay_write [OF d1(2), of 0 ys] show ?thesis by auto
qed

definition comp_rel :: "nat \<Rightarrow> crypto_state \<Rightarrow> u8 list \<Rightarrow> u8 list \<Rightarrow> bool" where
  "comp_rel maxp cs bs xs \<longleftrightarrow>
     (case cs_compress cs of Some (Tfm c) \<Rightarrow> co_decompress c maxp xs = Some bs | _ \<Rightarrow> xs = bs)"

lemma compress_ok:
  assumes lay: "lay d hr bs tr" and st: "state_ok maxp (current_tx_state p)"
    and room: "cs_compress (current_tx_state p) \<noteq> None \<Longrightarrow> maxp + MAX_COMP_INFLATION \<le> length bs + length hr"
    and max: "length bs \<le> maxp" "maxp + MAX_COMP_INFLATION < 2 ^ 32"
  shows "\<exists>d' hr' xs. compress e p d = Some (0, d') \<and> lay d' hr' xs tr \<and>
    comp_rel maxp (current_tx_state p) bs xs \<and> length hr' + length xs = length hr + length bs \<and>
    length xs \<le> maxp + MAX_COMP_INFLATION"
proof (cases "cs_compress (current_tx_state p)")
  case None
  with lay max show ?thesis by (auto simp: compress_def comp_rel_def)
next
  case (Some h)
  then obtain c where c: "h = Tfm c" "comp_ok maxp c"
    "cs_scratch (current_tx_state p) = Some (maxp + MAX_COMP_INFLATION)" using st
    by (auto simp: state_ok_def split: handle.splits)
  with max(1) obtain ys where ys: "co_compress c (maxp + MAX_COMP_INFLATION) bs = Some ys"
    "length ys \<le> maxp + MAX_COMP_INFLATION" "co_decompress c maxp ys = Some bs"
    unfolding comp_ok_def by blast
  from put_resized [OF lay, of ys e] room max ys(2) Some obtain d1 d' hr' where
    d: "resize_head e (length bs) (length ys) d = Some (0, d1)" "du_write 0 ys d1 = Done d'"
      "lay d' hr' ys tr" "length hr' + length ys = length hr + length bs" by auto
  moreover have "du_read 0 (length bs) d = Done bs" using lay_read [OF lay, of 0 "length bs"] by simp
  ultimately have "compress e p d = Some (0, d')"
    using Some c ys(1) lay_len [OF lay] by (simp add: compress_def)
  then show ?thesis using d Some c ys by (auto simp: comp_rel_def)
qed

lemma decompress_ok:
  assumes lay: "lay d hr xs tr" and st: "state_ok maxp (current_rx_state p)"
    and rel: "comp_rel maxp (current_rx_state p) bs xs" and ok: "ce_ok e"
    and room: "length bs \<le> length xs + length hr" "length bs < 2 ^ 32"
  shows "\<exists>d' hr'. decompress e maxp p d = Some (0, d') \<and> lay d' hr' bs tr"
proof (cases "cs_compress (current_rx_state p)")
  case None
  with lay rel show ?thesis by (auto simp: decompress_def comp_rel_def)
next
  case (Some h)
  then obtain c where c: "h = Tfm c" using st by (auto simp: state_ok_def split: handle.splits)
  with Some rel have x: "co_decompress c maxp xs = Some bs" by (simp add: comp_rel_def)
  from put_resized [OF lay room, of e] obtain d1 d' hr' where
    "resize_head e (length xs) (length bs) d = Some (0, d1)" "du_write 0 bs d1 = Done d'"
    "lay d' hr' bs tr" by blast
  moreover have "du_read 0 (length xs) d = Done xs" using lay_read [OF lay, of 0 "length xs"] by simp
  ultimately show ?thesis
    using Some c x ok lay_len [OF lay] by (auto simp: decompress_def)
qed

definition seq_rel :: "crypto_state \<Rightarrow> u32 \<Rightarrow> u8 list \<Rightarrow> u8 list \<Rightarrow> bool" where
  "seq_rel cs n bs xs \<longleftrightarrow>
     (case cs_blkcipher cs of None \<Rightarrow> xs = bs | Some _ \<Rightarrow> xs = bytes_of 4 n @ bs)"

lemma add_seq_num_ok:
  assumes lay: "lay d hr bs tr"
    and room: "seq_size (current_tx_state p) \<le> length hr" "length bs + seq_size (current_tx_state p) < 2 ^ 32"
  shows "\<exists>d' p' hr' xs. add_seq_num e p d = Some (0, p', d') \<and> lay d' hr' xs tr \<and>
    seq_rel (current_tx_state p) (tx_seq_num p) bs xs \<and>
    length xs = length bs + seq_size (current_tx_state p) \<and>
    length hr = length hr' + seq_size (current_tx_state p) \<and> current_tx_state p' = current_tx_state p"
proof (cases "cs_blkcipher (current_tx_state p)")
  case None
  with lay show ?thesis by (auto simp: add_seq_num_def seq_rel_def seq_size_def)
next
  case (Some h)
  let ?hr = "take (length hr - 4) hr"
  have n: "seq_size (current_tx_state p) = 4" using Some by (simp add: seq_size_def)
  from lay_head_grow [OF lay, of 4 "ce_ok e" "ce_mem e"] room n obtain d1 where
    d1: "du_head_grow (ce_ok e) (ce_mem e) 4 d = Done (0, d1)"
      "lay d1 ?hr (drop (length hr - 4) hr @ bs) tr" by auto
  from lay_write [OF d1(2), of 0 "bytes_of 4 (tx_seq_num p)"] room n obtain d2 where
    d2: "du_write 0 (bytes_of 4 (tx_seq_num p)) d1 = Done d2"
      "lay d2 ?hr (bytes_of 4 (tx_seq_num p) @ bs) tr" by auto
  have "add_seq_num e p d = Some (0, p\<lparr>tx_seq_num := tx_seq_num p + 1\<rparr>, d2)"
    using Some d1(1) d2(1) by (simp add: add_seq_num_def)
  then show ?thesis
    using d2(2) Some room n
    by (intro exI [of _ d2] exI [of _ "p\<lparr>tx_seq_num := tx_seq_num p + 1\<rparr>"] exI [of _ ?hr]
        exI [of _ "bytes_of 4 (tx_seq_num p) @ bs"]) (simp add: seq_rel_def)
qed

text \<open>Whether the receiver takes the number, and its state then.\<close>

definition window_takes :: "u32 \<Rightarrow> crypto_data \<Rightarrow> crypto_data \<Rightarrow> bool" where
  "window_takes n p p' \<longleftrightarrow>
     (if cs_blkcipher (current_rx_state p) = None \<or> seq_win_size p = 0 then p' = p
      else check_window n p = Some (0, p'))"

lemma del_seq_num_ok:
  assumes lay: "lay d hr xs tr" and rel: "seq_rel (current_rx_state p) n bs xs"
    and win: "window_takes n p p'"
  shows "\<exists>d' hr'. del_seq_num p d = Some (0, p', d') \<and> lay d' hr' bs tr \<and> length hr \<le> length hr'"
proof (cases "cs_blkcipher (current_rx_state p)")
  case None
  with assms show ?thesis by (auto simp: del_seq_num_def seq_rel_def window_takes_def)
next
  case (Some h)
  with rel have x: "xs = bytes_of 4 n @ bs" by (simp add: seq_rel_def)
  from lay_read [OF lay, of 0 4] x have "du_read 0 4 d = Done (bytes_of 4 n)" by simp
  moreover have "of_bytes (bytes_of 4 n) = n" by (simp add: of_bytes_bytes_of take_bit_word_eq_self)
  moreover from lay_head_shrink [OF lay, of 4] x obtain d1 where
    "du_head_shrink 4 d = Done (0, d1)" "lay d1 (hr @ bytes_of 4 n) bs tr" by auto
  ultimately show ?thesis
    using Some win by (auto simp: del_seq_num_def window_takes_def split: if_splits)
qed

lemma check_window_algs: "check_window n p = Some (r, p') \<Longrightarrow> current_rx_state p' = current_rx_state p"
  by (auto simp: check_window_def Let_def split: if_splits)

lemma window_takes_algs: "window_takes n p p' \<Longrightarrow> current_rx_state p' = current_rx_state p"
  by (auto simp: window_takes_def check_window_algs split: if_splits)

section \<open>The whole way\<close>

text \<open>The room a unit needs in front of and behind its data, and the longest unit on the way.\<close>

definition crypto_head :: "nat \<Rightarrow> crypto_state \<Rightarrow> nat" where
  "crypto_head maxp cs = comp_extra cs + (case cs_compress cs of None \<Rightarrow> 0 | Some _ \<Rightarrow> maxp) +
     seq_size cs + iv_size cs"

definition crypto_tail :: "crypto_state \<Rightarrow> nat" where
  "crypto_tail cs = mac_size cs + blk_size cs"

definition crypto_long :: "nat \<Rightarrow> crypto_state \<Rightarrow> nat" where
  "crypto_long maxp cs =
     maxp + MAX_COMP_INFLATION + seq_size cs + mac_size cs + blk_size cs + iv_size cs"

definition crypto_short :: "nat \<Rightarrow> crypto_state \<Rightarrow> bool" where
  "crypto_short maxp cs \<longleftrightarrow> crypto_long maxp cs < 2 ^ 32"

definition protected :: "nat \<Rightarrow> crypto_state \<Rightarrow> u32 \<Rightarrow> u8 list \<Rightarrow> u8 list \<Rightarrow> bool" where
  "protected maxp cs n bs xs \<longleftrightarrow>
     (\<exists>b1 b2 b3 b4. comp_rel maxp cs bs b1 \<and> seq_rel cs n b1 b2 \<and> mac_rel cs b2 b3 \<and>
        pad_rel cs b3 b4 \<and> enc_rel cs b4 xs)"

lemma apply_crypto_ok:
  assumes lay: "lay d hr bs tr" and st: "state_ok maxp (current_tx_state p)"
    and room: "crypto_head maxp (current_tx_state p) \<le> length hr"
      "crypto_tail (current_tx_state p) \<le> length tr"
    and max: "length bs \<le> maxp" "crypto_short maxp (current_tx_state p)"
  shows "\<exists>d' p' hr' xs tr'. default_sdup_apply_crypto e p d = Some (0, p', d') \<and> lay d' hr' xs tr' \<and>
    protected maxp (current_tx_state p) (tx_seq_num p) bs xs \<and>
    length xs \<le> crypto_long maxp (current_tx_state p) \<and>
    length tr \<le> length tr' + crypto_tail (current_tx_state p)"
proof -
  let ?cs = "current_tx_state p"
  note sizes = crypto_head_def crypto_tail_def crypto_short_def crypto_long_def
  obtain d1 hr1 b1 where 1: "compress e p d = Some (0, d1)" "lay d1 hr1 b1 tr" "comp_rel maxp ?cs bs b1"
    "length hr1 + length b1 = length hr + length bs" "length b1 \<le> maxp + MAX_COMP_INFLATION"
    using compress_ok [OF lay st _ max(1), of e] room(1) max(2)
    by (auto simp: sizes comp_extra_def split: option.splits)
  have h1: "seq_size ?cs + iv_size ?cs \<le> length hr1"
  proof (cases "cs_compress ?cs")
    case None
    with 1(3,4) room(1) show ?thesis by (simp add: comp_rel_def sizes comp_extra_def)
  next
    case (Some h)
    with 1(4,5) room(1) show ?thesis by (simp add: sizes comp_extra_def)
  qed
  obtain d2 p2 hr2 b2 where 2: "add_seq_num e p d1 = Some (0, p2, d2)" "lay d2 hr2 b2 tr"
    "seq_rel ?cs (tx_seq_num p) b1 b2" "length b2 = length b1 + seq_size ?cs"
    "length hr1 = length hr2 + seq_size ?cs" "current_tx_state p2 = ?cs"
    using add_seq_num_ok [OF 1(2), of p e] h1 1(5) max(2) by (auto simp: sizes)
  obtain d3 b3 tr3 where 3: "add_hmac e p2 d2 = Some (0, d3)" "lay d3 hr2 b3 tr3" "mac_rel ?cs b2 b3"
    "length b3 = length b2 + mac_size ?cs" "length tr = length tr3 + mac_size ?cs"
    using add_hmac_ok [OF 2(2), of maxp p2 e] st room(2) 1(5) 2(4,6) max(2) by (auto simp: sizes)
  obtain d4 b4 tr4 where 4: "add_padding e p2 d3 = Some (0, d4)" "lay d4 hr2 b4 tr4"
    "pad_rel ?cs b3 b4" "length b4 \<le> length b3 + blk_size ?cs" "length tr3 \<le> length tr4 + blk_size ?cs"
    using add_padding_ok [OF 3(2), of maxp p2 e] st room(2) 1(5) 2(4,6) 3(4,5) max(2)
    by (auto simp: sizes)
  obtain d5 hr5 b5 where 5: "encrypt e p2 d4 = Some (0, d5)" "lay d5 hr5 b5 tr4" "enc_rel ?cs b4 b5"
    "length b5 = length b4 + iv_size ?cs"
    using encrypt_ok [OF 4(2), of maxp p2 b3 e] st h1 1(5) 2(4,5,6) 3(4) 4(3,4) max(2)
    by (auto simp: sizes)
  have "default_sdup_apply_crypto e p d = Some (0, p2, d5)"
    using 1(1) 2(1) 3(1) 4(1) 5(1) by (simp add: default_sdup_apply_crypto_def)
  moreover have "protected maxp ?cs (tx_seq_num p) bs b5"
    unfolding protected_def using 1(3) 2(3) 3(3) 4(3) 5(3) by blast
  moreover have "length b5 \<le> crypto_long maxp ?cs" "length tr \<le> length tr4 + crypto_tail ?cs"
    using 1(5) 2(4) 3(4,5) 4(4,5) 5(4) by (simp_all add: sizes)
  ultimately show ?thesis using 5(2) by blast
qed

lemma remove_crypto_ok:
  assumes lay: "lay d hr xs tr" and st: "state_ok maxp (current_rx_state p)"
    and prot: "protected maxp (current_rx_state p) n bs xs" and win: "window_takes n p p'"
    and ok: "ce_ok e" and room: "length bs \<le> length hr" "length bs < 2 ^ 32"
  shows "\<exists>d' hr' tr'. default_sdup_remove_crypto e maxp p d = Some (0, p', d') \<and> lay d' hr' bs tr'"
proof -
  let ?cs = "current_rx_state p"
  from prot obtain b1 b2 b3 b4 where r: "comp_rel maxp ?cs bs b1" "seq_rel ?cs n b1 b2"
    "mac_rel ?cs b2 b3" "pad_rel ?cs b3 b4" "enc_rel ?cs b4 xs" by (auto simp: protected_def)
  obtain d1 hr1 where 1: "decrypt p d = Some (0, d1)" "lay d1 hr1 b4 tr" "length hr \<le> length hr1"
    using decrypt_ok [OF lay st r(5)] by blast
  obtain d2 tr2 where 2: "remove_padding p d1 = Some (0, d2)" "lay d2 hr1 b3 tr2"
    using remove_padding_ok [OF 1(2) r(4) st] by blast
  obtain d3 tr3 where 3: "check_hmac e p d2 = Some (0, d3)" "lay d3 hr1 b2 tr3"
    using check_hmac_ok [OF 2(2) st r(3) ok] by blast
  obtain d4 hr4 where 4: "del_seq_num p d3 = Some (0, p', d4)" "lay d4 hr4 b1 tr3"
    "length hr1 \<le> length hr4" using del_seq_num_ok [OF 3(2) r(2) win] by blast
  obtain d5 hr5 where 5: "decompress e maxp p' d4 = Some (0, d5)" "lay d5 hr5 bs tr3"
    using decompress_ok [OF 4(2), of maxp p' bs e] st r(1) ok room 1(3) 4(3) window_takes_algs [OF win]
    by auto
  have "default_sdup_remove_crypto e maxp p d = Some (0, p', d5)"
    using 1(1) 2(1) 3(1) 4(1) 5(1) by (simp add: default_sdup_remove_crypto_def)
  with 5(2) show ?thesis by blast
qed

lemma protected_same:
  assumes "same_algs a b"
  shows "protected maxp a n bs xs = protected maxp b n bs xs"
  using assms
  by (simp add: protected_def comp_rel_def seq_rel_def mac_rel_def pad_rel_def enc_rel_def same_algs_def)

end
