(* ===== verification/Sdup_Window.thy ===== *)
theory Sdup_Window
  imports Sdup_Crypto
begin

unbundle bit_operations_syntax

text \<open>
  The replay window of the cryptographic policy: the bitmap that \<^verbatim>\<open>del_seq_num\<close> shifts and tests
  stands for the set of the numbers received so far.
\<close>

section \<open>The bitmap\<close>

definition seen :: "u8 list \<Rightarrow> nat \<Rightarrow> bool" where
  "seen bm pos \<longleftrightarrow> bit (bm ! (pos div 8)) (7 - pos mod 8)"

lemma seen_test: "(bm ! (pos div 8) AND push_bit (7 - pos mod 8) 1 \<noteq> 0) = seen bm pos"
  by (simp add: seen_def bit_iff_and_push_bit_not_eq_0)

lemma length_shift_bytes [simp]: "length (shift_bytes i bm) = length bm"
  by (induction i bm rule: shift_bytes.induct) auto

lemma nth_shift_bytes:
  assumes "i \<le> length bm" "j < length bm"
  shows "shift_bytes i bm ! j =
    (if j < i then drop_bit 1 (bm ! j) OR (if 0 < j \<and> bm ! (j - 1) AND 1 \<noteq> 0 then push_bit 7 1 else 0)
     else bm ! j)"
  using assms
proof (induction i arbitrary: bm)
  case (Suc i)
  let ?v = "drop_bit 1 (bm ! i) OR (if 0 < i \<and> bm ! (i - 1) AND 1 \<noteq> 0 then push_bit 7 1 else 0)"
  have *: "shift_bytes (Suc i) bm ! j = shift_bytes i (bm[i := ?v]) ! j" by simp
  consider "j < i" | "j = i" | "i < j" by linarith
  then show ?case
  proof cases
    case 1
    with Suc show ?thesis unfolding * by simp
  next
    case 2
    with Suc show ?thesis unfolding * by simp
  next
    case 3
    with Suc show ?thesis unfolding * by simp
  qed
qed simp

lemma bit_push_1: "bit (push_bit k 1 :: u8) m \<longleftrightarrow> m = k \<and> k < 8"
  by (auto simp: bit_exp_iff)

lemma bit_shifted:
  "bit (drop_bit 1 x OR (if c then push_bit 7 1 else 0) :: u8) m \<longleftrightarrow> bit x (Suc m) \<or> c \<and> m = 7"
  by (cases c) (simp_all only: if_True if_False bit_or_iff bit_push_1, simp_all add: bit_drop_bit_eq)

lemma no_bit_8: "\<not> bit (x :: u8) 8"
  by (auto dest: bit_imp_le_length)

lemma low_bit: "(x :: u8) AND 1 \<noteq> 0 \<longleftrightarrow> bit x 0"
  using bit_iff_and_push_bit_not_eq_0 [of x 0] by simp

lemma seen_shift_0: "bm \<noteq> [] \<Longrightarrow> \<not> seen (shift_bytes (length bm) bm) 0"
  by (simp add: seen_def nth_shift_bytes bit_shifted no_bit_8 del: push_bit_of_1)
     (simp add: bit_drop_bit_eq no_bit_8)

lemma seen_shift_Suc:
  assumes "Suc p < 8 * length bm"
  shows "seen (shift_bytes (length bm) bm) (Suc p) = seen bm p"
proof -
  let ?j = "Suc p div 8"
  have j: "?j < length bm" using assms by auto
  have "seen (shift_bytes (length bm) bm) (Suc p) \<longleftrightarrow>
      bit (bm ! ?j) (Suc (7 - Suc p mod 8)) \<or> 0 < ?j \<and> bit (bm ! (?j - 1)) 0 \<and> 7 - Suc p mod 8 = 7"
    unfolding seen_def nth_shift_bytes [OF order_refl j] using j by (simp only: bit_shifted low_bit if_True) auto
  also have "\<dots> = seen bm p"
  proof (cases "Suc p mod 8 = 0")
    case True
    then have "?j = Suc (p div 8)" "p mod 8 = 7" by (simp_all add: div_Suc mod_Suc split: if_splits)
    with True show ?thesis by (simp add: seen_def no_bit_8)
  next
    case False
    then have "?j = p div 8" "Suc p mod 8 = Suc (p mod 8)" "p mod 8 < 7"
      using mod_less_divisor [of 8 p] by (simp_all add: div_Suc mod_Suc split: if_splits)
    then have "7 - p mod 8 = Suc (6 - p mod 8)" "6 - p mod 8 \<noteq> 7" by linarith+
    with \<open>?j = p div 8\<close> \<open>Suc p mod 8 = Suc (p mod 8)\<close> show ?thesis
      unfolding seen_def by simp
  qed
  finally show ?thesis .
qed

lemma length_shifts [simp]: "length ((shift_bytes n ^^ k) bm) = length bm"
  by (induction k) auto

lemma seen_shifts:
  assumes "pos < 8 * length bm"
  shows "seen ((shift_bytes (length bm) ^^ k) bm) pos \<longleftrightarrow> k \<le> pos \<and> seen bm (pos - k)"
  using assms
proof (induction k arbitrary: pos)
  case (Suc k)
  let ?b = "(shift_bytes (length bm) ^^ k) bm"
  have l: "length ?b = length bm" by simp
  have "(shift_bytes (length bm) ^^ Suc k) bm = shift_bytes (length ?b) ?b" by simp
  moreover have "?b \<noteq> []" using Suc.prems l by fastforce
  ultimately show ?case
    using seen_shift_0 [of ?b] seen_shift_Suc [of "pos - 1" ?b] Suc.IH [of "pos - 1"] Suc.prems l
    by (cases pos) simp_all
qed simp

lemma seen_set:
  assumes "pos < 8 * length bm" "q < 8 * length bm"
  shows "seen (bm[pos div 8 := bm ! (pos div 8) OR push_bit (7 - pos mod 8) 1]) q \<longleftrightarrow> seen bm q \<or> q = pos"
proof -
  have "q div 8 < length bm" "pos div 8 < length bm" using assms by auto
  moreover have "q = pos" if "q div 8 = pos div 8" "7 - q mod 8 = 7 - pos mod 8"
  proof -
    have "q mod 8 < 8" "pos mod 8 < 8" by simp_all
    with that(2) have "q mod 8 = pos mod 8" by linarith
    with that(1) show ?thesis by (metis mult_div_mod_eq)
  qed
  moreover have "7 - pos mod 8 < (8 :: nat)" by simp
  ultimately show ?thesis
    by (auto simp: seen_def nth_list_update bit_or_iff bit_exp_iff)
qed

section \<open>The window as a set of numbers\<close>

text \<open>
  What a replay window promises: a number is taken if it is not older than the window below the
  highest one, and was not taken before.
\<close>

fun win_spec :: "nat \<Rightarrow> u32 \<Rightarrow> u32 set \<Rightarrow> u32 list \<Rightarrow> bool list" where
  "win_spec w rx acc [] = []"
| "win_spec w rx acc (s # ss) =
     (if unat s + w < unat rx then False # win_spec w rx acc ss
      else if s \<in> acc then False # win_spec w rx acc ss
      else True # win_spec w (max rx s) (insert s acc) ss)"

fun win_run :: "crypto_data \<Rightarrow> u32 list \<Rightarrow> (bool list \<times> crypto_data) option" where
  "win_run p [] = Some ([], p)"
| "win_run p (s # ss) =
     (case check_window s p of
        None \<Rightarrow> None
      | Some (r, p1) \<Rightarrow> map_option (\<lambda>(rs, p2). ((r = 0) # rs, p2)) (win_run p1 ss))"

text \<open>No number runs half the number space ahead of the highest one.\<close>

fun no_jump :: "u32 \<Rightarrow> u32 list \<Rightarrow> bool" where
  "no_jump rx [] \<longleftrightarrow> True"
| "no_jump rx (s # ss) \<longleftrightarrow> unat s < unat rx + 2 ^ 31 \<and> no_jump (max rx s) ss"

definition win_inv :: "crypto_data \<Rightarrow> u32 set \<Rightarrow> bool" where
  "win_inv p acc \<longleftrightarrow>
     length (seq_bmap p) = seq_bmap_len p \<and> seq_win_size p < 8 * seq_bmap_len p \<and>
     seq_win_size p < 2 ^ 31 \<and>
     (\<forall>s\<in>acc. s \<le> rx_seq_num p) \<and>
     (\<forall>pos < 8 * seq_bmap_len p. seen (seq_bmap p) pos \<longleftrightarrow>
        (\<exists>s\<in>acc. unat s + pos = unat (rx_seq_num p)))"

lemma seen_and: "bm ! (pos div 8) AND push_bit (7 - pos mod 8) 1 \<noteq> 0 \<longleftrightarrow> seen bm pos"
  for bm :: "u8 list"
proof -
  have k: "7 - pos mod 8 < (8 :: nat)" by simp
  have "bm ! (pos div 8) AND push_bit (7 - pos mod 8) 1 \<noteq> 0 \<longleftrightarrow>
      (\<exists>m. bit (bm ! (pos div 8)) m \<and> m = 7 - pos mod 8)"
    unfolding bit_eq_iff [of _ 0] bit_and_iff bit_push_1 using k by auto
  then show ?thesis by (simp add: seen_def)
qed

lemma sint_small: "unat x < 2 ^ 31 \<Longrightarrow> sint x = int (unat x)" for x :: u32
proof -
  assume "unat x < 2 ^ 31"
  then have "int (unat x) < int (2 ^ 31)" by (simp only: of_nat_less_iff)
  then have "uint x < 2 ^ 31" by simp
  have "sint x = signed_take_bit 31 (uint x)" unfolding sint_uint by simp
  also have "\<dots> = uint x"
    using \<open>uint x < 2 ^ 31\<close> by (intro signed_take_bit_int_eq_self order_trans [OF _ uint_ge_0]) simp_all
  finally show ?thesis by simp
qed

lemma too_old: "int (unat s) < int (unat rx) - int w \<longleftrightarrow> unat s + w < unat rx" for s rx :: u32
  by linarith

lemma sint_ahead: "rx < s \<Longrightarrow> unat s < unat rx + 2 ^ 31 \<Longrightarrow> nat (sint (s - rx)) = unat s - unat rx"
  for s rx :: u32
proof -
  assume a: "rx < s" "unat s < unat rx + 2 ^ 31"
  then have u: "unat (s - rx) = unat s - unat rx" using unat_sub [of rx s] by simp
  with a have "unat (s - rx) < 2 ^ 31" by simp
  then have "sint (s - rx) = int (unat (s - rx))" by (rule sint_small)
  with u show ?thesis by (simp del: of_nat_unat)
qed

lemma sint_behind: "s \<le> rx \<Longrightarrow> unat rx \<le> unat s + w \<Longrightarrow> w < 2 ^ 31 \<Longrightarrow> nat (sint (s - rx)) = 0"
  for s rx :: u32
proof (cases "s = rx")
  case False
  assume a: "s \<le> rx" "unat rx \<le> unat s + w" "w < 2 ^ 31"
  with False have "unat s < unat rx" by (simp add: word_le_nat_alt word_unat_eq_iff)
  with a have u: "unat (rx - s) = unat rx - unat s" "0 < unat (rx - s)"
    using unat_sub [of s rx] by simp_all
  have d: "unat (rx - s) < 2 ^ 31" using u a by linarith
  have "s - rx = - of_nat (unat (rx - s))" by simp
  also have "\<dots> = of_int (- int (unat (rx - s)))" by (simp only: of_int_minus of_int_of_nat_eq)
  finally have "sint (s - rx) = sint (of_int (- int (unat (rx - s))) :: u32)" by (rule arg_cong)
  also have "\<dots> = signed_take_bit 31 (- int (unat (rx - s)))"
    unfolding sint_sbintrunc' by simp
  also have "\<dots> = - int (unat (rx - s))"
  proof (rule signed_take_bit_int_eq_self)
    have "int (unat (rx - s)) < int (2 ^ 31)" using d by (simp only: of_nat_less_iff)
    then show "- (2 ^ 31) \<le> - int (unat (rx - s))" by (simp del: of_nat_unat)
    show "- int (unat (rx - s)) < 2 ^ 31" by (rule order.strict_trans1 [of _ 0]) simp_all
  qed
  finally show ?thesis by simp
qed simp

lemma check_window_behind:
  assumes inv: "win_inv p acc" and s: "s \<le> rx_seq_num p" "unat (rx_seq_num p) \<le> unat s + seq_win_size p"
  shows "s \<in> acc \<Longrightarrow> check_window s p = Some (-1, p)"
    and "s \<notin> acc \<Longrightarrow> \<exists>p'. check_window s p = Some (0, p') \<and> win_inv p' (insert s acc) \<and>
      rx_seq_num p' = rx_seq_num p \<and> seq_win_size p' = seq_win_size p"
proof -
  let ?rx = "rx_seq_num p" and ?bm = "seq_bmap p"
  let ?pos = "unat ?rx - unat s"
  have w: "seq_win_size p < 2 ^ 31" and len: "length ?bm = seq_bmap_len p"
    and seen: "\<And>pos. pos < 8 * seq_bmap_len p \<Longrightarrow> seen ?bm pos \<longleftrightarrow> (\<exists>s\<in>acc. unat s + pos = unat ?rx)"
    using inv by (simp_all add: win_inv_def)
  have pos: "unat (?rx - s) = ?pos" using s(1) by (rule unat_sub)
  have le: "unat s \<le> unat ?rx" using s(1) by (simp add: word_le_nat_alt)
  have in_bm: "?pos < 8 * seq_bmap_len p" using inv s(2) unfolding win_inv_def by linarith
  have old: "\<not> unat s + seq_win_size p < unat ?rx" using s(2) by linarith
  have was: "seen ?bm ?pos \<longleftrightarrow> s \<in> acc"
  proof -
    have "unat x + ?pos = unat ?rx \<longleftrightarrow> x = s" for x
      using le by (auto simp: word_unat_eq_iff)
    then show ?thesis unfolding seen [OF in_bm] by simp
  qed
  have max: "\<not> ?rx < s" using s(1) by simp
  have eq: "check_window s p =
      (if seen ?bm ?pos then Some (-1, p)
       else Some (0, p\<lparr>seq_bmap := ?bm[?pos div 8 := ?bm ! (?pos div 8) OR push_bit (7 - ?pos mod 8) 1]\<rparr>))"
    using in_bm len
    unfolding check_window_def too_old
    by (simp add: Let_def old max sint_behind [OF s w] pos seen_and del: push_bit_of_1)
  show "s \<in> acc \<Longrightarrow> check_window s p = Some (-1, p)" by (simp add: eq was)
  show "s \<notin> acc \<Longrightarrow> \<exists>p'. check_window s p = Some (0, p') \<and> win_inv p' (insert s acc) \<and>
      rx_seq_num p' = rx_seq_num p \<and> seq_win_size p' = seq_win_size p"
  proof -
    assume "s \<notin> acc"
    let ?p = "p\<lparr>seq_bmap := ?bm[?pos div 8 := ?bm ! (?pos div 8) OR push_bit (7 - ?pos mod 8) 1]\<rparr>"
    have "win_inv ?p (insert s acc)"
      unfolding win_inv_def
    proof (intro conjI allI impI)
      fix q assume "q < 8 * seq_bmap_len ?p"
      then have "q < 8 * seq_bmap_len p" by simp
      then show "seen (seq_bmap ?p) q \<longleftrightarrow> (\<exists>s\<in>insert s acc. unat s + q = unat (rx_seq_num ?p))"
        using seen_set [of ?pos ?bm q] seen [of q] in_bm len le by auto
    qed (use inv s(1) in \<open>auto simp: win_inv_def\<close>)
    with eq was \<open>s \<notin> acc\<close> show ?thesis by simp
  qed
qed

lemma check_window_ahead:
  assumes inv: "win_inv p acc" and s: "rx_seq_num p < s" "unat s < unat (rx_seq_num p) + 2 ^ 31"
  shows "s \<notin> acc"
    and "\<exists>p'. check_window s p = Some (0, p') \<and> win_inv p' (insert s acc) \<and>
      rx_seq_num p' = s \<and> seq_win_size p' = seq_win_size p"
proof -
  let ?rx = "rx_seq_num p" and ?bm = "seq_bmap p" and ?k = "unat s - unat (rx_seq_num p)"
  let ?bk = "(shift_bytes (seq_bmap_len p) ^^ ?k) ?bm"
  have len: "length ?bm = seq_bmap_len p" and ord: "\<And>x. x \<in> acc \<Longrightarrow> unat x \<le> unat ?rx"
    and seen: "\<And>pos. pos < 8 * seq_bmap_len p \<Longrightarrow> seen ?bm pos \<longleftrightarrow> (\<exists>s\<in>acc. unat s + pos = unat ?rx)"
    using inv by (simp_all add: win_inv_def word_le_nat_alt)
  have lt: "unat ?rx < unat s" using s(1) by (simp add: word_less_nat_alt)
  then show "s \<notin> acc" using ord by fastforce
  have ne: "0 < seq_bmap_len p" using inv unfolding win_inv_def by linarith
  have seenk: "seen ?bk q \<longleftrightarrow> (\<exists>x\<in>acc. unat x + q = unat s)" if q: "q < 8 * seq_bmap_len p" for q
  proof -
    have "seen ?bk q \<longleftrightarrow> ?k \<le> q \<and> (\<exists>x\<in>acc. unat x + (q - ?k) = unat ?rx)"
      using seen_shifts [of q ?bm ?k] seen [of "q - ?k"] q len by auto
    also have "\<dots> \<longleftrightarrow> (\<exists>x\<in>acc. unat x + q = unat s)"
    proof -
      have "?k \<le> q \<and> unat x + (q - ?k) = unat ?rx \<longleftrightarrow> unat x + q = unat s" if "x \<in> acc" for x
        using ord [OF that] lt by linarith
      then show ?thesis by blast
    qed
    finally show ?thesis .
  qed
  have new: "\<not> seen ?bk 0" using seenk [of 0] ne ord lt by fastforce
  let ?p = "p\<lparr>seq_bmap := ?bk[0 := ?bk ! 0 OR push_bit 7 1], rx_seq_num := s\<rparr>"
  have eq: "check_window s p = Some (0, ?p)"
    using seen_and [of ?bk 0] new ne len lt s(1)
    unfolding check_window_def too_old
    by (simp add: Let_def sint_ahead [OF s] flip: length_greater_0_conv del: push_bit_of_1)
  have "win_inv ?p (insert s acc)"
    unfolding win_inv_def
  proof (intro conjI allI impI)
    fix q assume "q < 8 * seq_bmap_len ?p"
    then have "q < 8 * seq_bmap_len p" by simp
    then show "seen (seq_bmap ?p) q \<longleftrightarrow> (\<exists>s\<in>insert s acc. unat s + q = unat (rx_seq_num ?p))"
      using seen_set [of 0 ?bk q] seenk [of q] ne len by (auto simp del: push_bit_of_1)
  next
    show "\<forall>x\<in>insert s acc. x \<le> rx_seq_num ?p"
      using ord lt by (fastforce simp: word_le_nat_alt)
  qed (use inv in \<open>auto simp: win_inv_def\<close>)
  with eq show "\<exists>p'. check_window s p = Some (0, p') \<and> win_inv p' (insert s acc) \<and>
      rx_seq_num p' = s \<and> seq_win_size p' = seq_win_size p" by simp
qed

lemma win_run_Cons:
  "check_window s p = Some (r, p1) \<Longrightarrow>
     map_option fst (win_run p (s # ss)) = map_option ((#) (r = 0)) (map_option fst (win_run p1 ss))"
  by (cases "win_run p1 ss") auto

lemma max_word_alt: "max rx s = (if unat rx \<le> unat s then s else rx)" for rx s :: u32
  by (simp add: max_def word_le_nat_alt)

lemma win_run_spec:
  assumes "win_inv p acc" "no_jump (rx_seq_num p) ss"
  shows "map_option fst (win_run p ss) = Some (win_spec (seq_win_size p) (rx_seq_num p) acc ss)"
  using assms
proof (induction ss arbitrary: p acc)
  case (Cons s ss)
  let ?rx = "rx_seq_num p"
  note inv = Cons.prems(1)
  have nj: "unat s < unat ?rx + 2 ^ 31" "no_jump (max ?rx s) ss" using Cons.prems(2) by simp_all
  consider (old) "unat s + seq_win_size p < unat ?rx" | (ahead) "?rx < s"
    | (behind) "s \<le> ?rx" "unat ?rx \<le> unat s + seq_win_size p" by fastforce
  then show ?case
  proof cases
    case old
    then have "check_window s p = Some (-1, p)" unfolding check_window_def too_old by simp
    moreover have "max ?rx s = ?rx" using old by (simp add: max_word_alt)
    ultimately show ?thesis using old Cons.IH [OF inv] nj(2) by (simp add: win_run_Cons del: win_run.simps)
  next
    case ahead
    then have "max ?rx s = s" "unat ?rx < unat s"
      by (simp add: max_def less_imp_le, simp add: word_less_nat_alt)
    moreover obtain p' where "check_window s p = Some (0, p')" "win_inv p' (insert s acc)"
      "rx_seq_num p' = s" "seq_win_size p' = seq_win_size p"
      using check_window_ahead(2) [OF inv ahead nj(1)] by blast
    ultimately show ?thesis
      using check_window_ahead(1) [OF inv ahead nj(1)] Cons.IH [of p' "insert s acc"] nj(2)
      by (simp add: win_run_Cons del: win_run.simps)
  next
    case behind
    then have m: "max ?rx s = ?rx" by (simp add: max_def)
    show ?thesis
    proof (cases "s \<in> acc")
      case True
      with check_window_behind(1) [OF inv behind] Cons.IH [OF inv] behind nj(2) m show ?thesis
        by (simp add: win_run_Cons del: win_run.simps)
    next
      case False
      then obtain p' where "check_window s p = Some (0, p')" "win_inv p' (insert s acc)"
        "rx_seq_num p' = ?rx" "seq_win_size p' = seq_win_size p"
        using check_window_behind(2) [OF inv behind] by blast
      with Cons.IH [of p' "insert s acc"] behind nj(2) m False show ?thesis
        by (simp add: win_run_Cons del: win_run.simps)
    qed
  qed
qed simp

text \<open>The state the policy is created with when it is given a window.\<close>

definition crypto_fresh :: "nat \<Rightarrow> crypto_data \<Rightarrow> bool" where
  "crypto_fresh w p \<longleftrightarrow>
     seq_win_size p = w \<and> rx_seq_num p = 0 \<and> seq_bmap p = replicate (seq_bmap_len p) 0 \<and>
     seq_bmap_len p = w div 8 + (if w mod 8 \<noteq> 0 then 1 else 0)"

lemma priv_data_create_rx: "priv_data_create ms = Some (Some p, ms') \<Longrightarrow> rx_seq_num p = 0"
  by (auto simp: priv_data_create_def Let_def bind_eq_Some_conv split: prod.splits if_splits)

lemma create_fresh:
  assumes "sdup_crypto_ps_default_create kstrtoint ms conf = Some (Some p)" "asp_encrypt conf = Some enc"
    "policy_param_find (cstr_of ''seq_win_size'') (pol_params enc) = Some (Some prm)"
    "kstrtoint (prm_value prm) = Some v"
  shows "crypto_fresh (nat (v mod 2 ^ 32)) p"
proof -
  obtain ok ms1 where m: "rkmalloc ms = (ok, ms1)" by (cases "rkmalloc ms")
  with assms(1) obtain q ms2 where q: "ok" "priv_data_create ms1 = Some (q, ms2)"
    by (cases ok) (auto simp: sdup_crypto_ps_default_create_def bind_eq_Some_conv)
  with m assms obtain p0 where "q = Some p0" "fst (rkmalloc ms2)"
    by (cases q; cases "fst (rkmalloc ms2)") (simp_all add: sdup_crypto_ps_default_create_def Let_def)
  with m q assms priv_data_create_rx [of ms1 p0 ms2] show ?thesis
    by (auto simp: sdup_crypto_ps_default_create_def crypto_fresh_def Let_def simp del: replicate_Suc)
qed

lemma fresh_win_inv:
  assumes "crypto_fresh w p" "w mod 8 \<noteq> 0" "w < 2 ^ 31"
  shows "win_inv p {}"
proof -
  have f: "seq_win_size p = w" "rx_seq_num p = 0" "seq_bmap p = replicate (seq_bmap_len p) 0"
    "seq_bmap_len p = w div 8 + 1" using assms by (simp_all add: crypto_fresh_def)
  have "w < 8 * (w div 8 + 1)" by (simp add: mult.commute dividend_less_div_times)
  then have "w < 8 * seq_bmap_len p" by (simp only: f(4))
  moreover have "\<not> seen (replicate (seq_bmap_len p) 0) pos" if "pos < 8 * seq_bmap_len p" for pos
    using that by (simp add: seen_def)
  ultimately show ?thesis using assms(3) unfolding win_inv_def f(1-3) by simp
qed

section \<open>A small instance\<close>

text \<open>Algorithms that satisfy the hypotheses, and a state and a unit for them.\<close>

definition xor_cipher :: cipher where
  "xor_cipher = \<lparr>ci_blocksize = 4, ci_ivsize = 2, ci_encrypt = (\<lambda>iv x. Some (map (\<lambda>b. b XOR 90) x)),
     ci_decrypt = (\<lambda>iv x. Some (map (\<lambda>b. b XOR 90) x))\<rparr>"

definition sum_digest :: shash where
  "sum_digest = \<lparr>sh_digestsize = 1, sh_digest = (\<lambda>x. Some [sum_list x])\<rparr>"

definition store_comp :: comp where
  "store_comp = \<lparr>co_compress = (\<lambda>n x. if Suc (length x) \<le> n then Some (7 # x) else None),
     co_decompress = (\<lambda>n x. if length x \<le> Suc n then Some (tl x) else None)\<rparr>"

definition small_state :: crypto_state where
  "small_state = \<lparr>cs_blkcipher = Some (Tfm xor_cipher), cs_shash = Some (Tfm sum_digest),
     cs_compress = Some (Tfm store_comp), cs_scratch = Some (8 + MAX_COMP_INFLATION),
     cs_enc_alg = None, cs_mac_alg = None, cs_compress_alg = None\<rparr>"

definition small_crypto :: crypto_data where
  "small_crypto = \<lparr>current_rx_state = small_state, current_tx_state = small_state,
     next_rx_state = small_state, next_tx_state = small_state, tx_seq_num = 3, rx_seq_num = 0,
     seq_bmap = [0], seq_bmap_len = 1, seq_win_size = 5\<rparr>"

lemma small_state_ok: "state_ok 8 small_state"
proof -
  have "map ((\<lambda>b. b XOR 90) \<circ> (\<lambda>b. b XOR 90)) x = x" for x :: "u8 list"
    by (induction x) (simp_all add: xor.assoc)
  then have "cipher_ok xor_cipher" by (simp add: cipher_ok_def xor_cipher_def)
  moreover have "shash_ok sum_digest" by (simp add: shash_ok_def sum_digest_def)
  moreover have "comp_ok 8 store_comp" by (simp add: comp_ok_def store_comp_def MAX_COMP_INFLATION_def)
  ultimately show ?thesis by (simp add: state_ok_def small_state_def)
qed

definition headroom :: "u8 list" where
  "headroom = replicate 1100 0"

lemma length_headroom [simp]: "length headroom = 1100"
  by (simp only: headroom_def length_replicate)

definition roomy_du :: du where
  "roomy_du = \<lparr>du_cfg = None, du_pci_h = None, du_pci_len = 0,
     du_skb = Some \<lparr>sk_buf = headroom @ [1, 2, 3] @ replicate 20 0, sk_data = 1100,
                    sk_len = 3, sk_users = 1\<rparr>\<rparr>"

lemma roomy_lay: "lay roomy_du headroom [1, 2, 3] (replicate 20 0)"
  by (simp add: lay_def roomy_du_def pci_gap_def)

definition calm :: cenv where
  "calm = \<lparr>ce_ok = True, ce_mem = (\<lambda>_. 0), ce_random = (\<lambda>_. 0)\<rparr>"

lemma small_takes: "window_takes 3 small_crypto (small_crypto\<lparr>seq_bmap := [128], rx_seq_num := 3\<rparr>)"
  by (simp add: window_takes_def check_window_def Let_def small_crypto_def small_state_def numeral_3_eq_3)

lemma small_sizes:
  "crypto_head 8 small_state = 1038" "crypto_tail small_state = 5" "crypto_long 8 small_state = 1043"
  by (simp_all add: crypto_head_def crypto_tail_def crypto_long_def small_state_def seq_size_def
      iv_size_def mac_size_def blk_size_def comp_extra_def xor_cipher_def sum_digest_def
      MAX_COMP_INFLATION_def)

section \<open>Properties\<close>



section \<open>Where the code goes wrong\<close>

text \<open>
  A window of eight has a bitmap of one byte, and the number eight below the highest one is still in
  the window: its bit lies behind the bitmap.
\<close>

lemma window_of_8_faults:
  "check_window 1 (small_crypto\<lparr>rx_seq_num := 9, seq_bmap := [1], seq_win_size := 8\<rparr>) = None"
  by (simp add: check_window_def Let_def small_crypto_def)

text \<open>After the sequence numbers wrapped, every number is too old.\<close>

lemma window_wrap_refuses: "check_window 0 (small_crypto\<lparr>rx_seq_num := 4294967295\<rparr>) =
    Some (- 1, small_crypto\<lparr>rx_seq_num := 4294967295\<rparr>)"
  by (simp add: check_window_def small_crypto_def)

end
