(* ===== verification/Ps_Factory.thy ===== *)
theory Ps_Factory
  imports Serdes "HOL-Library.Monad_Syntax"
begin

text \<open>
  Policy sets (\<^verbatim>\<open>kernel/ps-factory.c\<close>): the lists of factories that plugins publish, and the
  two-phase selection of a policy set for a component.

  A module is a number with a reference count; a policy set is an address and its content, and the
  addresses in use are recorded. The mutex of a component is the number of times it is held; taking
  it when it is held does not return, and an unlock of a mutex that is not held is an error that
  shows as a negative number. \<open>None\<close> is a fault, a \<^verbatim>\<open>BUG\<close> or a call that does not return.
\<close>

section \<open>Factories\<close>

text \<open>The name is an array, so the test of its address in \<^verbatim>\<open>ps_publish\<close> never fails.\<close>

record ps_factory =
  pf_name :: cstr
  pf_owner :: "nat ptr"
  pf_create :: bool
  pf_destroy :: bool

type_synonym policy_set_list = "ps_factory list"

fun ps_find :: "cstr \<Rightarrow> policy_set_list \<Rightarrow> ps_factory ptr" where
  "ps_find name [] = None"
| "ps_find name (cur # l) = (if name = pf_name cur then Some cur else ps_find name l)"

definition ps_publish :: "policy_set_list ptr \<Rightarrow> ps_factory ptr \<Rightarrow> rc \<times> policy_set_list ptr" where
  "ps_publish list factory =
     (case factory of
        None \<Rightarrow> (-1, list)
      | Some f \<Rightarrow>
          if pf_owner f = None \<or> \<not> pf_create f \<or> \<not> pf_destroy f then (-1, list)
          else
            (case list of
               None \<Rightarrow> (-1, None)
             | Some l \<Rightarrow> if ps_find (pf_name f) l \<noteq> None then (-1, list) else (0, Some (f # l))))"

definition ps_lookup :: "policy_set_list ptr \<Rightarrow> cstr ptr \<Rightarrow> ps_factory ptr" where
  "ps_lookup list name =
     (case name of None \<Rightarrow> None | Some n \<Rightarrow> (case list of None \<Rightarrow> None | Some l \<Rightarrow> ps_find n l))"

definition ps_unpublish :: "policy_set_list ptr \<Rightarrow> cstr ptr \<Rightarrow> rc \<times> policy_set_list ptr" where
  "ps_unpublish list name =
     (case ps_lookup list name of
        None \<Rightarrow> (-1, list)
      | Some f \<Rightarrow> (0, map_option (remove1 f) list))"

section \<open>Components\<close>

record 'ps rina_component =
  rc_ps_factory :: "ps_factory ptr"
  rc_ps :: "(nat \<times> 'ps) ptr"
  rc_lock :: int

record ps_world =
  pw_alive :: "nat \<Rightarrow> bool"
  pw_refs :: "nat \<Rightarrow> int"
  pw_live :: "nat list"
  pw_next :: nat

definition rina_component_init :: "'ps rina_component" where
  "rina_component_init = \<lparr>rc_ps_factory = None, rc_ps = None, rc_lock = 0\<rparr>"

definition mutex_lock :: "'ps rina_component \<Rightarrow> 'ps rina_component option" where
  "mutex_lock c = (if rc_lock c > 0 then None else Some (c\<lparr>rc_lock := rc_lock c + 1\<rparr>))"

definition mutex_unlock :: "'ps rina_component \<Rightarrow> 'ps rina_component" where
  "mutex_unlock c = c\<lparr>rc_lock := rc_lock c - 1\<rparr>"

definition module_ref :: "nat ptr \<Rightarrow> int \<Rightarrow> ps_world \<Rightarrow> ps_world option" where
  "module_ref owner n w =
     (case owner of None \<Rightarrow> None | Some m \<Rightarrow> Some (w\<lparr>pw_refs := (pw_refs w)(m := pw_refs w m + n)\<rparr>))"

text \<open>A policy set that is not there can not be destroyed again.\<close>

definition ps_destroy :: "nat \<times> 'ps \<Rightarrow> ps_world \<Rightarrow> ps_world option" where
  "ps_destroy ps w =
     (if fst ps \<in> set (pw_live w) then Some (w\<lparr>pw_live := remove1 (fst ps) (pw_live w)\<rparr>) else None)"

datatype ps_sel_trans = PS_SEL_TRANS_PENDING | PS_SEL_TRANS_COMMITTED | PS_SEL_TRANS_ABORTED

record 'ps ps_select_transaction =
  tr_state :: ps_sel_trans
  tr_candidate_ps :: "(nat \<times> 'ps) ptr"
  tr_candidate_ps_factory :: "ps_factory ptr"

text \<open>The constructor of a factory is the argument \<open>create\<close>; two factories are the same when they are equal.\<close>

definition base_select_policy_set_start ::
    "(ps_factory \<Rightarrow> 'ps ptr) \<Rightarrow> policy_set_list ptr \<Rightarrow> cstr ptr \<Rightarrow> 'ps rina_component \<Rightarrow> ps_world
     \<Rightarrow> ('ps ps_select_transaction \<times> 'ps rina_component \<times> ps_world) option" where
  "base_select_policy_set_start create list name cmp w =
     (let aborted = \<lparr>tr_state = PS_SEL_TRANS_ABORTED, tr_candidate_ps = None,
                     tr_candidate_ps_factory = None\<rparr>
      in if name = None then Some (aborted, cmp, w)
         else
           (case ps_lookup list name of
              None \<Rightarrow> Some (aborted, cmp, w)
            | Some f \<Rightarrow> do {
                cmp1 \<leftarrow> mutex_lock cmp;
                if rc_ps_factory cmp1 = Some f
                then Some (aborted\<lparr>tr_state := PS_SEL_TRANS_COMMITTED\<rparr>, cmp1, w)
                else (case pf_owner f of
                  None \<Rightarrow> None
                | Some m \<Rightarrow>
                    if \<not> pw_alive w m then Some (aborted, cmp1, w)
                    else do {
                      w1 \<leftarrow> module_ref (pf_owner f) 1 w;
                      (case create f of
                         None \<Rightarrow> do { w2 \<leftarrow> module_ref (pf_owner f) (-1) w1; Some (aborted, cmp1, w2) }
                       | Some ps \<Rightarrow>
                           Some (\<lparr>tr_state = PS_SEL_TRANS_PENDING, tr_candidate_ps = Some (pw_next w1, ps),
                                  tr_candidate_ps_factory = Some f\<rparr>, cmp1,
                                 w1\<lparr>pw_live := pw_next w1 # pw_live w1, pw_next := pw_next w1 + 1\<rparr>))
                    })
              }))"

definition base_select_policy_set_finish ::
    "'ps rina_component \<Rightarrow> 'ps ps_select_transaction \<Rightarrow> ps_world
     \<Rightarrow> ('ps rina_component \<times> 'ps ps_select_transaction \<times> ps_world) option" where
  "base_select_policy_set_finish cmp tr w =
     (if tr_state tr \<noteq> PS_SEL_TRANS_PENDING
      then
        (let cmp1 = mutex_unlock cmp
         in if tr_state tr = PS_SEL_TRANS_COMMITTED
            then (if tr_candidate_ps_factory tr \<noteq> None \<or> tr_candidate_ps tr \<noteq> None then None
                  else Some (cmp1, tr, w))
            else (case tr_candidate_ps tr of
                    None \<Rightarrow> Some (cmp1, tr, w)
                  | Some ps \<Rightarrow>
                      if tr_candidate_ps_factory tr = None then None
                      else do {
                        w1 \<leftarrow> ps_destroy ps w;
                        Some (cmp1, tr\<lparr>tr_candidate_ps := None, tr_candidate_ps_factory := None\<rparr>, w1)
                      }))
      else if tr_candidate_ps tr = None \<or> tr_candidate_ps_factory tr = None then None
      else do {
        let cmp1 = cmp\<lparr>rc_ps := tr_candidate_ps tr\<rparr>;
        w1 \<leftarrow> (case rc_ps cmp of
                None \<Rightarrow> Some w
              | Some old \<Rightarrow>
                  (case rc_ps_factory cmp of
                     None \<Rightarrow> None
                   | Some f \<Rightarrow> do { w1 \<leftarrow> ps_destroy old w; module_ref (pf_owner f) (-1) w1 }));
        Some (mutex_unlock (cmp1\<lparr>rc_ps_factory := tr_candidate_ps_factory tr\<rparr>),
              tr\<lparr>tr_state := PS_SEL_TRANS_COMMITTED\<rparr>, w1)
      })"

text \<open>
  The way every component selects a policy set: start, give up when the candidate lacks a policy
  (\<open>valid\<close>), finish. The final state is the transaction's.
\<close>

definition select_policy_set ::
    "('ps \<Rightarrow> bool) \<Rightarrow> (ps_factory \<Rightarrow> 'ps ptr) \<Rightarrow> policy_set_list ptr \<Rightarrow> cstr ptr \<Rightarrow> 'ps rina_component \<Rightarrow> ps_world
     \<Rightarrow> (ps_sel_trans \<times> 'ps rina_component \<times> ps_world) option" where
  "select_policy_set valid create list name cmp w = do {
     (tr, cmp1, w1) \<leftarrow> base_select_policy_set_start create list name cmp w;
     tr1 \<leftarrow> (if tr_state tr = PS_SEL_TRANS_PENDING
             then do {
               ps \<leftarrow> tr_candidate_ps tr;
               Some (if valid (snd ps) then tr else tr\<lparr>tr_state := PS_SEL_TRANS_ABORTED\<rparr>)
             }
             else Some tr);
     (cmp2, tr2, w2) \<leftarrow> base_select_policy_set_finish cmp1 tr1 w1;
     Some (tr_state tr2, cmp2, w2)
   }"

text \<open>The value that the selections return, \<^verbatim>\<open>trans.state = PS_SEL_TRANS_COMMITTED ? 0 : -1\<close>: an assignment.\<close>

definition select_result :: "ps_sel_trans \<Rightarrow> rc" where
  "select_result st = 0"

text \<open>The setter of a policy set is the argument \<open>setp\<close>; the set keeps its address.\<close>

definition default_set_policy_set_param :: "'ps \<Rightarrow> cstr ptr \<Rightarrow> cstr ptr \<Rightarrow> rc \<times> 'ps" where
  "default_set_policy_set_param ps name val =
     (if name = None then (-1, ps) else if val = None then (-1, ps) else (-1, ps))"

definition base_set_policy_set_param ::
    "('ps \<Rightarrow> cstr ptr \<Rightarrow> cstr ptr \<Rightarrow> rc \<times> 'ps) \<Rightarrow> 'ps rina_component \<Rightarrow> cstr \<Rightarrow> cstr ptr \<Rightarrow> cstr ptr
     \<Rightarrow> (rc \<times> 'ps rina_component) option" where
  "base_set_policy_set_param setp cmp path name val = do {
     cmp1 \<leftarrow> mutex_lock cmp;
     (r, cmp2) \<leftarrow>
       (case rc_ps cmp1 of
          None \<Rightarrow> Some (-1, cmp1)
        | Some ps \<Rightarrow>
            (case rc_ps_factory cmp1 of
               None \<Rightarrow> None
             | Some f \<Rightarrow>
                 if path = pf_name f
                 then (let (r, ps1) = setp (snd ps) name val in Some (r, cmp1\<lparr>rc_ps := Some (fst ps, ps1)\<rparr>))
                 else Some (-1, cmp1)));
     Some (r, mutex_unlock cmp2)
   }"

definition rina_component_fini :: "'ps rina_component \<Rightarrow> ps_world \<Rightarrow> ('ps rina_component \<times> ps_world) option" where
  "rina_component_fini cmp w = do {
     cmp1 \<leftarrow> mutex_lock cmp;
     w1 \<leftarrow> (case rc_ps cmp1 of
             None \<Rightarrow> Some w
           | Some ps \<Rightarrow>
               (case rc_ps_factory cmp1 of
                  None \<Rightarrow> None
                | Some f \<Rightarrow> do { w1 \<leftarrow> ps_destroy ps w; module_ref (pf_owner f) (-1) w1 }));
     Some (mutex_unlock cmp1, w1)
   }"

text \<open>The first component of a path: its length, and where the rest begins.\<close>

definition ps_factory_parse_component_id :: "cstr \<Rightarrow> nat \<times> nat" where
  "ps_factory_parse_component_id path =
     (let cmplen = length (takeWhile (\<lambda>c. c \<noteq> 46) path)
      in (cmplen, if cmplen < length path then cmplen + 1 else cmplen))"

section \<open>Lists of factories\<close>

definition factories_ok :: "policy_set_list \<Rightarrow> bool" where
  "factories_ok l \<longleftrightarrow> distinct (map pf_name l) \<and>
     list_all (\<lambda>f. pf_owner f \<noteq> None \<and> pf_create f \<and> pf_destroy f) l"

lemma ps_find_None: "ps_find n l = None \<longleftrightarrow> n \<notin> pf_name ` set l"
  by (induction l) auto

lemma ps_find_Some: "ps_find n l = Some f \<Longrightarrow> f \<in> set l \<and> pf_name f = n"
  by (induction l) (auto split: if_splits)

lemma ps_find_mem: "distinct (map pf_name l) \<Longrightarrow> f \<in> set l \<Longrightarrow> ps_find (pf_name f) l = Some f"
  by (induction l) (auto simp: rev_image_eqI)

lemma ps_find_remove1:
  "distinct (map pf_name l) \<Longrightarrow> f \<in> set l \<Longrightarrow>
     ps_find n (remove1 f l) = (if n = pf_name f then None else ps_find n l)"
  by (induction l) (auto simp: ps_find_None rev_image_eqI)

lemma remove1_names: "f \<in> set l \<Longrightarrow> distinct (map pf_name l) \<Longrightarrow>
    distinct (map pf_name (remove1 f l)) \<and> set (map pf_name (remove1 f l)) = set (map pf_name l) - {pf_name f}"
  by (induction l) (auto simp: rev_image_eqI)

lemma ps_publish_ok:
  assumes "factories_ok l" "ps_publish (Some l) (Some f) = (r, l')"
  shows "\<exists>l1. l' = Some l1 \<and> factories_ok l1 \<and>
    (r = 0 \<longrightarrow> (\<forall>n. ps_find n l1 = (if n = pf_name f then Some f else ps_find n l))) \<and> (r \<noteq> 0 \<longrightarrow> l1 = l)"
  using assms by (auto simp: ps_publish_def factories_ok_def ps_find_None split: if_splits)

lemma ps_unpublish_ok:
  assumes "factories_ok l" "ps_unpublish (Some l) (Some n) = (r, l')"
  shows "\<exists>l1. l' = Some l1 \<and> factories_ok l1 \<and> (r = 0 \<longleftrightarrow> ps_find n l \<noteq> None) \<and>
    (\<forall>m. ps_find m l1 = (if m = n then None else ps_find m l))"
proof (cases "ps_find n l")
  case None
  with assms show ?thesis by (auto simp: ps_unpublish_def ps_lookup_def)
next
  case (Some f)
  then have f: "f \<in> set l" "pf_name f = n" using ps_find_Some by auto
  have "factories_ok (remove1 f l)"
    using assms(1) remove1_names [OF f(1)] set_remove1_subset [of f l]
    by (auto simp: factories_ok_def list_all_iff)
  moreover have "ps_find m (remove1 f l) = (if m = n then None else ps_find m l)" for m
    using ps_find_remove1 [OF _ f(1)] assms(1) f(2) by (simp add: factories_ok_def)
  ultimately show ?thesis using assms(2) Some by (auto simp: ps_unpublish_def ps_lookup_def)
qed

section \<open>The books of a component\<close>

text \<open>
  What a component holds: one reference to the module of the factory it uses and one policy set.
  \<open>refs\<close> and \<open>live\<close> are what everybody else holds.
\<close>

definition owns :: "'ps rina_component \<Rightarrow> nat \<Rightarrow> int" where
  "owns c m = (case rc_ps_factory c of None \<Rightarrow> 0 | Some f \<Rightarrow> if pf_owner f = Some m then 1 else 0)"

definition component_ok :: "(nat \<Rightarrow> int) \<Rightarrow> nat set \<Rightarrow> 'ps rina_component \<Rightarrow> ps_world \<Rightarrow> bool" where
  "component_ok refs live c w \<longleftrightarrow>
     rc_lock c = 0 \<and> (rc_ps c = None) = (rc_ps_factory c = None) \<and>
     (\<forall>f. rc_ps_factory c = Some f \<longrightarrow> pf_owner f \<noteq> None) \<and>
     pw_refs w = (\<lambda>m. refs m + owns c m) \<and>
     distinct (pw_live w) \<and> (\<forall>a \<in> set (pw_live w). a < pw_next w) \<and>
     (case rc_ps c of
        None \<Rightarrow> set (pw_live w) = live
      | Some ps \<Rightarrow> fst ps \<notin> live \<and> set (pw_live w) = insert (fst ps) live)"

lemmas select_defs = select_policy_set_def base_select_policy_set_start_def
  base_select_policy_set_finish_def mutex_lock_def mutex_unlock_def module_ref_def ps_destroy_def
  ps_lookup_def Let_def

lemma ps_find_owner: "factories_ok l \<Longrightarrow> ps_find n l = Some f \<Longrightarrow> pf_owner f \<noteq> None"
  using ps_find_Some [of n l f] by (auto simp: factories_ok_def list_all_iff)

lemma select_same:
  assumes "component_ok refs live c w" "ps_find n l = Some f" "rc_ps_factory c = Some f"
  shows "select_policy_set valid create (Some l) (Some n) c w = Some (PS_SEL_TRANS_COMMITTED, c, w)"
  using assms by (simp add: select_defs component_ok_def)

lemma select_fails:
  assumes "component_ok refs live c w" "ps_find n l = Some f" "rc_ps_factory c \<noteq> Some f"
    "pf_owner f = Some m" "\<not> pw_alive w m \<or> create f = None"
  shows "select_policy_set valid create (Some l) (Some n) c w = Some (PS_SEL_TRANS_ABORTED, c, w)"
proof -
  have "rc_lock c = 0" using assms(1) by (simp add: component_ok_def)
  moreover have "c\<lparr>rc_lock := 0\<rparr> = c" using calculation by simp
  ultimately show ?thesis using assms(2-) by (auto simp: select_defs)
qed

lemma select_takes:
  assumes ok: "component_ok refs live c w" and f: "ps_find n l = Some f" "rc_ps_factory c \<noteq> Some f"
    "pf_owner f = Some m" "pw_alive w m" "create f = Some ps" "valid ps"
  shows "\<exists>w'. select_policy_set valid create (Some l) (Some n) c w =
      Some (PS_SEL_TRANS_COMMITTED, c\<lparr>rc_ps_factory := Some f, rc_ps := Some (pw_next w, ps)\<rparr>, w') \<and>
    component_ok refs live (c\<lparr>rc_ps_factory := Some f, rc_ps := Some (pw_next w, ps)\<rparr>) w' \<and>
    pw_alive w' = pw_alive w"
proof (cases "rc_ps c")
  case None
  with assms show ?thesis
    by (auto simp: select_defs component_ok_def owns_def fun_eq_iff)
next
  case (Some old)
  with ok obtain g k where g: "rc_ps_factory c = Some g" "pf_owner g = Some k"
    by (auto simp: component_ok_def)
  from Some g assms show ?thesis
    by (auto simp: select_defs component_ok_def owns_def fun_eq_iff intro: less_SucI)
qed

text \<open>A component selects one policy set after the other.\<close>

fun select_run ::
    "('ps \<Rightarrow> bool) \<Rightarrow> (ps_factory \<Rightarrow> 'ps ptr) \<Rightarrow> policy_set_list \<Rightarrow> cstr list \<Rightarrow> 'ps rina_component \<Rightarrow> ps_world
     \<Rightarrow> ('ps rina_component \<times> ps_world) option" where
  "select_run valid create l [] c w = Some (c, w)"
| "select_run valid create l (n # ns) c w = do {
     (st, c1, w1) \<leftarrow> select_policy_set valid create (Some l) (Some n) c w;
     select_run valid create l ns c1 w1
   }"

text \<open>Which factory is in use then: the last one whose module is there and whose constructor gave a set.\<close>

fun selected :: "(nat \<Rightarrow> bool) \<Rightarrow> (ps_factory \<Rightarrow> 'ps ptr) \<Rightarrow> policy_set_list \<Rightarrow> cstr list \<Rightarrow> ps_factory ptr \<Rightarrow> ps_factory ptr" where
  "selected alive create l [] cur = cur"
| "selected alive create l (n # ns) cur =
     (case ps_find n l of
        None \<Rightarrow> selected alive create l ns cur
      | Some f \<Rightarrow> selected alive create l ns
          (if alive (the (pf_owner f)) \<and> create f \<noteq> None then Some f else cur))"

lemma select_run_ok:
  assumes "component_ok refs live c w" "factories_ok l" "list_all (\<lambda>n. ps_find n l \<noteq> None) ns"
    "\<forall>f \<in> set l. \<forall>ps. create f = Some ps \<longrightarrow> valid ps"
  shows "\<exists>c' w'. select_run valid create l ns c w = Some (c', w') \<and> component_ok refs live c' w' \<and>
    rc_ps_factory c' = selected (pw_alive w) create l ns (rc_ps_factory c)"
  using assms
proof (induction ns arbitrary: c w)
  case (Cons n ns)
  then obtain f where f: "ps_find n l = Some f" by auto
  then obtain m where m: "pf_owner f = Some m" using ps_find_owner [OF Cons.prems(2)] by auto
  consider (same) "rc_ps_factory c = Some f"
    | (fails) "rc_ps_factory c \<noteq> Some f" "\<not> pw_alive w m \<or> create f = None"
    | (takes) ps where "rc_ps_factory c \<noteq> Some f" "pw_alive w m" "create f = Some ps" by fastforce
  then show ?case
  proof cases
    case same
    then show ?thesis
      using select_same [OF Cons.prems(1) f same, of valid create] Cons.IH [OF Cons.prems(1)] Cons.prems f
      by (simp split: if_splits)
  next
    case fails
    then show ?thesis
      using select_fails [where create = create and valid = valid, OF Cons.prems(1) f fails(1) m fails(2)] Cons.IH [OF Cons.prems(1)]
        Cons.prems f m by auto
  next
    case takes
    have "valid ps" using Cons.prems(4) ps_find_Some [OF f] takes(3) by blast
    from select_takes [where valid = valid and create = create, OF Cons.prems(1) f takes(1) m takes(2,3) this]
    obtain w' where w': "select_policy_set valid create (Some l) (Some n) c w =
        Some (PS_SEL_TRANS_COMMITTED, c\<lparr>rc_ps_factory := Some f, rc_ps := Some (pw_next w, ps)\<rparr>, w')"
      "component_ok refs live (c\<lparr>rc_ps_factory := Some f, rc_ps := Some (pw_next w, ps)\<rparr>) w'"
      "pw_alive w' = pw_alive w" by blast
    with Cons.IH [OF w'(2)] Cons.prems f m takes(2,3) show ?thesis by simp
  qed
qed simp

lemma fini_ok:
  assumes "component_ok refs live c w"
  shows "\<exists>c' w'. rina_component_fini c w = Some (c', w') \<and> pw_refs w' = refs \<and> set (pw_live w') = live"
proof (cases "rc_ps c")
  case None
  with assms show ?thesis
    by (auto simp: rina_component_fini_def mutex_lock_def component_ok_def owns_def)
next
  case (Some ps)
  with assms obtain g k where "rc_ps_factory c = Some g" "pf_owner g = Some k"
    by (auto simp: component_ok_def)
  with Some assms show ?thesis
    by (auto simp: rina_component_fini_def mutex_lock_def component_ok_def owns_def module_ref_def
        ps_destroy_def fun_eq_iff)
qed

section \<open>Properties\<close>


definition two_factories :: policy_set_list where
  "two_factories = [\<lparr>pf_name = [1], pf_owner = Some 7, pf_create = True, pf_destroy = True\<rparr>,
     \<lparr>pf_name = [2], pf_owner = Some 8, pf_create = True, pf_destroy = True\<rparr>]"

definition calm_world :: ps_world where
  "calm_world = \<lparr>pw_alive = (\<lambda>_. True), pw_refs = (\<lambda>_. 0), pw_live = [3], pw_next = 5\<rparr>"


section \<open>Where the code goes wrong\<close>

text \<open>
  A name that is not published: the first phase gives up before it takes the mutex, the second phase
  releases it, and the caller hears of a success.
\<close>

lemma unpublished_unlocks:
  "select_policy_set valid create (Some []) (Some n) rina_component_init w =
     Some (PS_SEL_TRANS_ABORTED, rina_component_init\<lparr>rc_lock := -1\<rparr>, w)"
  "select_result PS_SEL_TRANS_ABORTED = 0"
  by (simp_all add: select_defs rina_component_init_def select_result_def)

text \<open>A candidate that lacks a policy is destroyed, and the reference to its module is not given back.\<close>

lemma invalid_keeps_reference:
  "\<exists>w. select_policy_set (\<lambda>_. False) (\<lambda>_. Some ()) (Some two_factories) (Some [1]) rina_component_init calm_world =
     Some (PS_SEL_TRANS_ABORTED, rina_component_init, w) \<and> pw_refs w 7 = 1 \<and> pw_live w = [3]"
  by (simp add: select_defs rina_component_init_def two_factories_def calm_world_def)

end
