(* ===== verification/Sdup.thy ===== *)
theory Sdup
  imports Sdup_Window Ps_Factory
begin

unbundle bit_operations_syntax

text \<open>
  SDU protection: the error check policy (\<^verbatim>\<open>kernel/sdup-errc-ps-default.c\<close>), the lifetime policy
  (\<^verbatim>\<open>kernel/sdup-ttl-ps-default.c\<close>), and the component that applies the policies of a port to the
  units that leave through it and come in from it (\<^verbatim>\<open>kernel/sdup.c\<close>).

  The checksum \<^verbatim>\<open>crc32_le\<close> and the conversion \<^verbatim>\<open>kstrtoint\<close> are the kernel's and are arguments.
  \<open>None\<close> is a fault: an access outside a unit, a use of a NULL, freed or uninitialised pointer, or a
  \<^verbatim>\<open>BUG\<close>.
\<close>

section \<open>Error check\<close>

definition default_sdup_add_error_check_policy :: "(u8 list \<Rightarrow> u32) \<Rightarrow> cenv \<Rightarrow> du \<Rightarrow> (rc \<times> du) option" where
  "default_sdup_add_error_check_policy crc32_le e d = do {
     len \<leftarrow> got (du_len d);
     bs \<leftarrow> got (du_read 0 len d);
     let crc = crc32_le bs;
     (r, d1) \<leftarrow> got (du_tail_grow (ce_ok e) (ce_mem e) 4 d);
     if r \<noteq> 0 then Some (-1, d1)
     else if stale_tail 4 d then None
     else do { d2 \<leftarrow> got (du_write len (bytes_of 4 crc) d1); Some (0, d2) }
   }"

text \<open>A unit shorter than the checksum gives a length that wraps around: the checksum reads far behind the unit.\<close>

definition default_sdup_check_error_check_policy :: "(u8 list \<Rightarrow> u32) \<Rightarrow> du \<Rightarrow> (rc \<times> du) option" where
  "default_sdup_check_error_check_policy crc32_le d = do {
     len \<leftarrow> got (du_len d);
     if len < 4 then None
     else do {
       bs \<leftarrow> got (du_read 0 (len - 4) d);
       fcs \<leftarrow> got (du_read (len - 4) 4 d);
       if fcs \<noteq> bytes_of 4 (crc32_le bs) then Some (-1, d)
       else do {
         (r, d1) \<leftarrow> got (du_tail_shrink 4 d);
         if r \<noteq> 0 then Some (-1, d1) else Some (0, d1)
       }
     }
   }"

definition sdup_errc_ps_default_create :: "bool \<Rightarrow> unit ptr" where
  "sdup_errc_ps_default_create ok = (if ok then Some () else None)"

section \<open>Lifetime\<close>

text \<open>
  The lifetime policies use one more field of a unit, \<^verbatim>\<open>sdup_head\<close>, a pointer into its buffer. The
  state of the policy is the initial value; zero turns it off.
\<close>

type_synonym tdu = "du \<times> nat ptr"

definition du_sdup_head_set :: "nat \<Rightarrow> tdu \<Rightarrow> tdu" where
  "du_sdup_head_set pos t = (fst t, Some pos)"

definition default_sdup_set_lifetime_limit_policy :: "cenv \<Rightarrow> u8 \<Rightarrow> tdu \<Rightarrow> (rc \<times> tdu) option" where
  "default_sdup_set_lifetime_limit_policy e initial_ttl_value t =
     (if snd t = None \<and> initial_ttl_value > 0
      then do {
        (r, d1) \<leftarrow> got (du_head_grow (ce_ok e) (ce_mem e) 1 (fst t));
        if r \<noteq> 0 then Some (-1, d1, snd t)
        else do {
          pos \<leftarrow> got (du_buffer d1);
          d2 \<leftarrow> got (du_write 0 [initial_ttl_value] d1);
          Some (0, du_sdup_head_set pos (d2, snd t))
        }
      }
      else Some (0, t))"

definition default_sdup_get_lifetime_limit_policy :: "u8 \<Rightarrow> tdu \<Rightarrow> (rc \<times> tdu) option" where
  "default_sdup_get_lifetime_limit_policy initial_ttl_value t =
     (if initial_ttl_value > 0
      then do {
        pos \<leftarrow> got (du_buffer (fst t));
        let t1 = du_sdup_head_set pos t;
        (r, d1) \<leftarrow> got (du_head_shrink 1 (fst t1));
        if r \<noteq> 0 then Some (-1, d1, snd t1) else Some (0, d1, snd t1)
      }
      else Some (0, t))"

text \<open>The byte at an address of the buffer of a unit.\<close>

definition buf_get :: "nat \<Rightarrow> du \<Rightarrow> u8 option" where
  "buf_get pos d =
     (case du_skb d of
        None \<Rightarrow> None
      | Some s \<Rightarrow> if pos < length (sk_buf s) then Some (sk_buf s ! pos) else None)"

definition buf_put :: "nat \<Rightarrow> u8 \<Rightarrow> du \<Rightarrow> du option" where
  "buf_put pos b d =
     (case du_skb d of
        None \<Rightarrow> None
      | Some s \<Rightarrow>
          if pos < length (sk_buf s) then Some (d\<lparr>du_skb := Some (s\<lparr>sk_buf := (sk_buf s)[pos := b]\<rparr>)\<rparr>)
          else None)"

text \<open>The result of the last \<^verbatim>\<open>du_head_grow\<close> is not looked at.\<close>

definition default_sdup_dec_check_lifetime_limit_policy :: "cenv \<Rightarrow> u8 \<Rightarrow> tdu \<Rightarrow> (rc \<times> tdu) option" where
  "default_sdup_dec_check_lifetime_limit_policy e initial_ttl_value t =
     (if initial_ttl_value > 0
      then do {
        pos \<leftarrow> snd t;
        v \<leftarrow> buf_get pos (fst t);
        let ttl = v - 1;
        if ttl = 0 then Some (-1, t)
        else do {
          d1 \<leftarrow> buf_put pos ttl (fst t);
          (r, d2) \<leftarrow> got (du_head_grow (ce_ok e) (ce_mem e) 1 d1);
          Some (0, d2, snd t)
        }
      }
      else Some (0, t))"

text \<open>The parameter is an \<^verbatim>\<open>int\<close> stored in a byte; a string that is no number leaves the value as it is.\<close>

definition sdu_ttl_ps_default_set_policy_set_param ::
    "(cstr \<Rightarrow> int option) \<Rightarrow> cstr ptr \<Rightarrow> cstr ptr \<Rightarrow> u8 \<Rightarrow> rc \<times> u8" where
  "sdu_ttl_ps_default_set_policy_set_param kstrtoint name val initial_ttl_value =
     (case name of
        None \<Rightarrow> (-1, initial_ttl_value)
      | Some n \<Rightarrow>
          (case val of
             None \<Rightarrow> (-1, initial_ttl_value)
           | Some v \<Rightarrow>
               if n = cstr_of ''initialValue''
               then (0, case kstrtoint v of None \<Rightarrow> initial_ttl_value | Some i \<Rightarrow> of_int i)
               else (0, initial_ttl_value)))"

definition DEFAULT_TTL_VALUE :: u8 where "DEFAULT_TTL_VALUE = 64"

definition sdup_ttl_ps_default_create ::
    "(cstr \<Rightarrow> int option) \<Rightarrow> allocs \<Rightarrow> ku_auth_sdup_profile ptr \<Rightarrow> u8 ptr option" where
  "sdup_ttl_ps_default_create kstrtoint ms conf =
     (case conf of
        None \<Rightarrow> Some None
      | Some c \<Rightarrow>
          (let (ok1, ms1) = rkmalloc ms; (ok2, ms2) = rkmalloc ms1
           in if \<not> ok1 then Some None
              else if \<not> ok2 then Some None
              else
                (case asp_ttl c of
                   None \<Rightarrow> Some None
                 | Some pol \<Rightarrow> do {
                     prm \<leftarrow> policy_param_find (cstr_of ''initialValue'') (pol_params pol);
                     Some (Some (case prm of
                        None \<Rightarrow> DEFAULT_TTL_VALUE
                      | Some prm \<Rightarrow>
                          snd (sdu_ttl_ps_default_set_policy_set_param kstrtoint (prm_name prm)
                            (prm_value prm) 0)))
                   })))"

section \<open>Ports\<close>

text \<open>
  The policy sets that were published for the three components, and the constructors of their
  factories.
\<close>

record sdup_env =
  crypto_policy_sets :: policy_set_list
  errc_policy_sets :: policy_set_list
  ttl_policy_sets :: policy_set_list
  mk_crypto :: "ku_auth_sdup_profile \<Rightarrow> ps_factory \<Rightarrow> crypto_data ptr"
  mk_errc :: "ku_auth_sdup_profile \<Rightarrow> ps_factory \<Rightarrow> unit ptr"
  mk_ttl :: "ku_auth_sdup_profile \<Rightarrow> ps_factory \<Rightarrow> u8 ptr"
  se_crc32_le :: "u8 list \<Rightarrow> u32"
  se_kstrtoint :: "cstr \<Rightarrow> int option"

record sdup_port =
  sp_addr :: nat
  sp_port_id :: int
  sp_crypto :: "crypto_data rina_component ptr"
  sp_errc :: "unit rina_component ptr"
  sp_ttl :: "u8 rina_component ptr"
  sp_conf :: ku_auth_sdup_profile
  sp_dt_cons :: "ku_dt_cons ptr"

record sdup =
  sm_conf :: "ku_secman_config ptr"
  su_dt_cons :: "ku_dt_cons ptr"
  su_instances :: "sdup_port list"
  su_next :: nat

text \<open>
  The selection for one component; the sets here have all their policies, so a candidate is never
  given up. The component may be NULL.
\<close>

definition sdup_select ::
    "(ps_factory \<Rightarrow> 'ps ptr) \<Rightarrow> policy_set_list \<Rightarrow> cstr ptr \<Rightarrow> cstr ptr \<Rightarrow> 'ps rina_component ptr \<Rightarrow> ps_world
     \<Rightarrow> (rc \<times> 'ps rina_component ptr \<times> ps_world) option" where
  "sdup_select mk sets path name q w = do {
     p \<leftarrow> path;
     if p \<noteq> [] then Some (-1, q, w)
     else do {
       c \<leftarrow> q;
       (st, c1, w1) \<leftarrow> select_policy_set (\<lambda>_. True) mk (Some sets) name c w;
       Some (select_result st, Some c1, w1)
     }
   }"

definition sdup_crypto_select_policy_set ::
    "sdup_env \<Rightarrow> ku_auth_sdup_profile \<Rightarrow> cstr ptr \<Rightarrow> cstr ptr \<Rightarrow> crypto_data rina_component ptr \<Rightarrow> ps_world
     \<Rightarrow> (rc \<times> crypto_data rina_component ptr \<times> ps_world) option" where
  "sdup_crypto_select_policy_set env conf = sdup_select (mk_crypto env conf) (crypto_policy_sets env)"

definition sdup_errc_select_policy_set ::
    "sdup_env \<Rightarrow> ku_auth_sdup_profile \<Rightarrow> cstr ptr \<Rightarrow> cstr ptr \<Rightarrow> unit rina_component ptr \<Rightarrow> ps_world
     \<Rightarrow> (rc \<times> unit rina_component ptr \<times> ps_world) option" where
  "sdup_errc_select_policy_set env conf = sdup_select (mk_errc env conf) (errc_policy_sets env)"

definition sdup_ttl_select_policy_set ::
    "sdup_env \<Rightarrow> ku_auth_sdup_profile \<Rightarrow> cstr ptr \<Rightarrow> cstr ptr \<Rightarrow> u8 rina_component ptr \<Rightarrow> ps_world
     \<Rightarrow> (rc \<times> u8 rina_component ptr \<times> ps_world) option" where
  "sdup_ttl_select_policy_set env conf = sdup_select (mk_ttl env conf) (ttl_policy_sets env)"

definition sdup_crypto_ps_publish :: "ps_factory ptr \<Rightarrow> sdup_env \<Rightarrow> rc \<times> sdup_env" where
  "sdup_crypto_ps_publish factory env =
     (if factory = None then (-1, env)
      else
        (let (r, l) = ps_publish (Some (crypto_policy_sets env)) factory
         in (r, env\<lparr>crypto_policy_sets := (case l of None \<Rightarrow> [] | Some l \<Rightarrow> l)\<rparr>)))"

definition sdup_crypto_ps_unpublish :: "cstr ptr \<Rightarrow> sdup_env \<Rightarrow> rc \<times> sdup_env" where
  "sdup_crypto_ps_unpublish name env =
     (let (r, l) = ps_unpublish (Some (crypto_policy_sets env)) name
      in (r, env\<lparr>crypto_policy_sets := (case l of None \<Rightarrow> [] | Some l \<Rightarrow> l)\<rparr>))"

definition sdup_errc_ps_publish :: "ps_factory ptr \<Rightarrow> sdup_env \<Rightarrow> rc \<times> sdup_env" where
  "sdup_errc_ps_publish factory env =
     (if factory = None then (-1, env)
      else
        (let (r, l) = ps_publish (Some (errc_policy_sets env)) factory
         in (r, env\<lparr>errc_policy_sets := (case l of None \<Rightarrow> [] | Some l \<Rightarrow> l)\<rparr>)))"

definition sdup_errc_ps_unpublish :: "cstr ptr \<Rightarrow> sdup_env \<Rightarrow> rc \<times> sdup_env" where
  "sdup_errc_ps_unpublish name env =
     (let (r, l) = ps_unpublish (Some (errc_policy_sets env)) name
      in (r, env\<lparr>errc_policy_sets := (case l of None \<Rightarrow> [] | Some l \<Rightarrow> l)\<rparr>))"

definition sdup_ttl_ps_publish :: "ps_factory ptr \<Rightarrow> sdup_env \<Rightarrow> rc \<times> sdup_env" where
  "sdup_ttl_ps_publish factory env =
     (if factory = None then (-1, env)
      else
        (let (r, l) = ps_publish (Some (ttl_policy_sets env)) factory
         in (r, env\<lparr>ttl_policy_sets := (case l of None \<Rightarrow> [] | Some l \<Rightarrow> l)\<rparr>)))"

definition sdup_ttl_ps_unpublish :: "cstr ptr \<Rightarrow> sdup_env \<Rightarrow> rc \<times> sdup_env" where
  "sdup_ttl_ps_unpublish name env =
     (let (r, l) = ps_unpublish (Some (ttl_policy_sets env)) name
      in (r, env\<lparr>ttl_policy_sets := (case l of None \<Rightarrow> [] | Some l \<Rightarrow> l)\<rparr>))"

text \<open>
  The comparison of a path component with a name stops at the length of the component, so a prefix
  of the name does.
\<close>

definition component_is :: "cstr \<Rightarrow> nat \<Rightarrow> string \<Rightarrow> bool" where
  "component_is path cmplen name \<longleftrightarrow> cmplen \<noteq> 0 \<and> take cmplen path = take cmplen (cstr_of name)"

definition sdup_port_select_policy_set ::
    "sdup_env \<Rightarrow> sdup_port \<Rightarrow> cstr \<Rightarrow> cstr ptr \<Rightarrow> ps_world \<Rightarrow> (rc \<times> sdup_port \<times> ps_world) option" where
  "sdup_port_select_policy_set env p path name w =
     (let (cmplen, offset) = ps_factory_parse_component_id path;
          rest = Some (drop offset path)
      in if component_is path cmplen ''crypto''
         then do { (r, c, w1) \<leftarrow> sdup_crypto_select_policy_set env (sp_conf p) rest name (sp_crypto p) w;
                   Some (r, p\<lparr>sp_crypto := c\<rparr>, w1) }
         else if component_is path cmplen ''errc''
         then do { (r, c, w1) \<leftarrow> sdup_errc_select_policy_set env (sp_conf p) rest name (sp_errc p) w;
                   Some (r, p\<lparr>sp_errc := c\<rparr>, w1) }
         else if component_is path cmplen ''ttl''
         then do { (r, c, w1) \<leftarrow> sdup_ttl_select_policy_set env (sp_conf p) rest name (sp_ttl p) w;
                   Some (r, p\<lparr>sp_ttl := c\<rparr>, w1) }
         else Some (-1, p, w))"

fun sdup_find_port :: "sdup_port list \<Rightarrow> int \<Rightarrow> sdup_port ptr" where
  "sdup_find_port [] port_id = None"
| "sdup_find_port (pos # l) port_id = (if port_id = sp_port_id pos then Some pos else sdup_find_port l port_id)"

text \<open>A port that was changed through a pointer.\<close>

definition put_port :: "sdup_port \<Rightarrow> sdup_port list \<Rightarrow> sdup_port list" where
  "put_port p l = map (\<lambda>q. if sp_addr q = sp_addr p then p else q) l"

definition sdup_select_policy_set ::
    "sdup_env \<Rightarrow> sdup \<Rightarrow> cstr ptr \<Rightarrow> cstr ptr \<Rightarrow> ps_world \<Rightarrow> (rc \<times> sdup \<times> ps_world) option" where
  "sdup_select_policy_set env i path name w =
     (case path of
        None \<Rightarrow> Some (-1, i, w)
      | Some pth \<Rightarrow>
          (let (cmplen, offset) = ps_factory_parse_component_id pth
           in if cmplen > 7 then Some (-1, i, w)
              else
                (case se_kstrtoint env (take cmplen pth) of
                   None \<Rightarrow> Some (-1, i, w)
                 | Some portid \<Rightarrow>
                     (case sdup_find_port (su_instances i) portid of
                        None \<Rightarrow> Some (-1, i, w)
                      | Some p \<Rightarrow> do {
                          (r, p1, w1) \<leftarrow> sdup_port_select_policy_set env p (drop offset pth) name w;
                          Some (r, i\<lparr>su_instances := put_port p1 (su_instances i)\<rparr>, w1)
                        }))))"

definition sdup_comp_create :: "bool \<Rightarrow> 'ps rina_component ptr" where
  "sdup_comp_create ok = (if ok then Some rina_component_init else None)"

definition sdup_comp_destroy :: "'ps rina_component ptr \<Rightarrow> ps_world \<Rightarrow> ps_world option" where
  "sdup_comp_destroy q w =
     (case q of None \<Rightarrow> Some w | Some c \<Rightarrow> map_option snd (rina_component_fini c w))"

definition sdup_port_destroy :: "sdup_port \<Rightarrow> ps_world \<Rightarrow> ps_world option" where
  "sdup_port_destroy p w = do {
     w1 \<leftarrow> sdup_comp_destroy (sp_crypto p) w;
     w2 \<leftarrow> sdup_comp_destroy (sp_errc p) w1;
     sdup_comp_destroy (sp_ttl p) w2
   }"

text \<open>The name of a policy that is configured.\<close>

definition ps_name_of :: "ku_policy ptr \<Rightarrow> cstr ptr" where
  "ps_name_of q = (case q of None \<Rightarrow> None | Some pol \<Rightarrow> pol_name pol)"

text \<open>
  One component of a new port: nothing when it is not configured. \<open>Inl\<close> is the failure that makes
  the caller destroy the port.
\<close>

definition sdup_port_comp ::
    "(cstr ptr \<Rightarrow> cstr ptr \<Rightarrow> 'ps rina_component ptr \<Rightarrow> ps_world \<Rightarrow> (rc \<times> 'ps rina_component ptr \<times> ps_world) option)
     \<Rightarrow> ku_policy ptr \<Rightarrow> bool \<Rightarrow> ps_world \<Rightarrow> ((unit + 'ps rina_component ptr) \<times> ps_world) option" where
  "sdup_port_comp sel pol ok w =
     (case ps_name_of pol of
        None \<Rightarrow> Some (Inr None, w)
      | Some n \<Rightarrow>
          (case sdup_comp_create ok of
             None \<Rightarrow> Some (Inl (), w)
           | Some c \<Rightarrow> do {
               (r, c1, w1) \<leftarrow> sel (Some []) (Some n) (Some c) w;
               Some (if r \<noteq> 0 then Inl () else Inr c1, w1)
             }))"

text \<open>
  The port is not cleared when it is allocated: a failure at the first or the second component
  destroys components whose pointers were never set.
\<close>

definition sdup_port_create ::
    "sdup_env \<Rightarrow> allocs \<Rightarrow> nat \<Rightarrow> int \<Rightarrow> ku_auth_sdup_profile ptr \<Rightarrow> ku_dt_cons ptr \<Rightarrow> ps_world
     \<Rightarrow> (sdup_port ptr \<times> ps_world) option" where
  "sdup_port_create env ms addr port_id q dt_cons w =
     (case q of
        None \<Rightarrow> Some (None, w)
      | Some conf \<Rightarrow>
          (let (ok0, ms0) = rkmalloc ms; (ok1, ms1) = rkmalloc ms0; (ok2, ms2) = rkmalloc ms1;
               (ok3, ms3) = rkmalloc ms2
           in if \<not> ok0 then Some (None, w)
              else do {
                (crypto, w1) \<leftarrow> sdup_port_comp (sdup_crypto_select_policy_set env conf) (asp_encrypt conf) ok1 w;
                case crypto of Inl _ \<Rightarrow> None | Inr cc \<Rightarrow> do {
                (errc, w2) \<leftarrow> sdup_port_comp (sdup_errc_select_policy_set env conf) (asp_crc conf) ok2 w1;
                case errc of Inl _ \<Rightarrow> None | Inr ec \<Rightarrow> do {
                (ttl, w3) \<leftarrow> sdup_port_comp (sdup_ttl_select_policy_set env conf) (asp_ttl conf) ok3 w2;
                let p = \<lparr>sp_addr = addr, sp_port_id = port_id, sp_crypto = cc, sp_errc = ec, sp_ttl = None,
                         sp_conf = conf, sp_dt_cons = dt_cons\<rparr>;
                case ttl of
                  Inl _ \<Rightarrow> do { w4 \<leftarrow> sdup_port_destroy p w3; Some (None, w4) }
                | Inr tc \<Rightarrow> Some (Some (p\<lparr>sp_ttl := tc\<rparr>), w3) }}
              }))"

text \<open>The profile of an N-1 DIF, by the name of the DIF; a NULL name is compared, a fault.\<close>

fun find_dup_entry :: "ku_auth_sdup_profile_entry ptr list \<Rightarrow> cstr ptr \<Rightarrow> ku_auth_sdup_profile ptr option option" where
  "find_dup_entry [] n = Some None"
| "find_dup_entry (None # l) n = None"
| "find_dup_entry (Some en # l) n = do {
     a \<leftarrow> aspe_n1_dif_name en;
     b \<leftarrow> n;
     if a = b then Some (Some (aspe_entry en)) else find_dup_entry l n
   }"

definition find_dup_config :: "ku_secman_config ptr \<Rightarrow> cstr ptr \<Rightarrow> ku_auth_sdup_profile ptr option" where
  "find_dup_config conf n =
     (case conf of
        None \<Rightarrow> Some None
      | Some sc \<Rightarrow> do {
          q \<leftarrow> find_dup_entry (sc_specific_profiles sc) n;
          Some (case q of None \<Rightarrow> sc_default_profile sc | Some en \<Rightarrow> en)
        })"

definition sdup_init_port_config ::
    "sdup_env \<Rightarrow> allocs \<Rightarrow> sdup \<Rightarrow> cstr ptr \<Rightarrow> int \<Rightarrow> ps_world \<Rightarrow> (sdup_port ptr \<times> sdup \<times> ps_world) option" where
  "sdup_init_port_config env ms i n1_dif_name port_id w = do {
     conf \<leftarrow> find_dup_config (sm_conf i) n1_dif_name;
     if conf = None then Some (None, i, w)
     else do {
       (q, w1) \<leftarrow> sdup_port_create env ms (su_next i) port_id conf (su_dt_cons i) w;
       Some (case q of
               None \<Rightarrow> (None, i, w1)
             | Some p \<Rightarrow> (Some p, i\<lparr>su_instances := p # su_instances i, su_next := su_next i + 1\<rparr>, w1))
     }
   }"

definition sdup_destroy_port_config :: "nat ptr \<Rightarrow> sdup \<Rightarrow> ps_world \<Rightarrow> (rc \<times> sdup \<times> ps_world) option" where
  "sdup_destroy_port_config q i w =
     (case q of
        None \<Rightarrow> Some (-1, i, w)
      | Some a \<Rightarrow> do {
          p \<leftarrow> List.find (\<lambda>p. sp_addr p = a) (su_instances i);
          w1 \<leftarrow> sdup_port_destroy p w;
          Some (0, i\<lparr>su_instances := remove1 p (su_instances i)\<rparr>, w1)
        })"

definition sdup_config_set :: "sdup ptr \<Rightarrow> ku_secman_config ptr \<Rightarrow> rc \<times> sdup ptr" where
  "sdup_config_set q sm_config =
     (case q of
        None \<Rightarrow> (-1, None)
      | Some i \<Rightarrow> if sm_config = None then (-1, q) else (0, Some (i\<lparr>sm_conf := sm_config\<rparr>)))"

definition sdup_dt_cons_set :: "sdup ptr \<Rightarrow> ku_dt_cons ptr \<Rightarrow> rc \<times> sdup ptr" where
  "sdup_dt_cons_set q dt_cons =
     (case q of
        None \<Rightarrow> (-1, None)
      | Some i \<Rightarrow> if dt_cons = None then (-1, q) else (0, Some (i\<lparr>su_dt_cons := dt_cons\<rparr>)))"

definition sdup_create :: "bool \<Rightarrow> bool \<Rightarrow> sdup ptr" where
  "sdup_create parent ok =
     (if \<not> parent then None
      else if ok then Some \<lparr>sm_conf = None, su_dt_cons = None, su_instances = [], su_next = 0\<rparr>
      else None)"

fun destroy_ports :: "sdup_port list \<Rightarrow> ps_world \<Rightarrow> ps_world option" where
  "destroy_ports [] w = Some w"
| "destroy_ports (p # l) w = do { w1 \<leftarrow> sdup_port_destroy p w; destroy_ports l w1 }"

definition sdup_destroy :: "sdup ptr \<Rightarrow> ps_world \<Rightarrow> (rc \<times> ps_world) option" where
  "sdup_destroy q w =
     (case q of
        None \<Rightarrow> Some (-1, w)
      | Some i \<Rightarrow> do { w1 \<leftarrow> destroy_ports (su_instances i) w; Some (0, w1) })"

section \<open>Parameters\<close>

text \<open>
  A parameter of a component itself is never known; one of its policy set goes to the set. Only the
  lifetime policy has a setter of its own.
\<close>

definition sdup_comp_set_param ::
    "('ps \<Rightarrow> cstr ptr \<Rightarrow> cstr ptr \<Rightarrow> rc \<times> 'ps) \<Rightarrow> 'ps rina_component ptr \<Rightarrow> cstr ptr \<Rightarrow> cstr ptr \<Rightarrow> cstr ptr
     \<Rightarrow> (rc \<times> 'ps rina_component ptr) option" where
  "sdup_comp_set_param setp q path name val =
     (case q of
        None \<Rightarrow> Some (-1, q)
      | Some c \<Rightarrow>
          (case path of
             None \<Rightarrow> Some (-1, q)
           | Some pth \<Rightarrow>
               if name = None \<or> val = None then Some (-1, q)
               else if pth = [] then Some (-1, q)
               else do {
                 (r, c1) \<leftarrow> base_set_policy_set_param setp c pth name val;
                 Some (r, Some c1)
               }))"

definition sdup_crypto_set_policy_set_param ::
    "crypto_data rina_component ptr \<Rightarrow> cstr ptr \<Rightarrow> cstr ptr \<Rightarrow> cstr ptr \<Rightarrow> (rc \<times> crypto_data rina_component ptr) option" where
  "sdup_crypto_set_policy_set_param = sdup_comp_set_param default_set_policy_set_param"

definition sdup_errc_set_policy_set_param ::
    "unit rina_component ptr \<Rightarrow> cstr ptr \<Rightarrow> cstr ptr \<Rightarrow> cstr ptr \<Rightarrow> (rc \<times> unit rina_component ptr) option" where
  "sdup_errc_set_policy_set_param = sdup_comp_set_param default_set_policy_set_param"

definition sdup_ttl_set_policy_set_param ::
    "sdup_env \<Rightarrow> u8 rina_component ptr \<Rightarrow> cstr ptr \<Rightarrow> cstr ptr \<Rightarrow> cstr ptr \<Rightarrow> (rc \<times> u8 rina_component ptr) option" where
  "sdup_ttl_set_policy_set_param env =
     sdup_comp_set_param (\<lambda>ps name val. sdu_ttl_ps_default_set_policy_set_param (se_kstrtoint env) name val ps)"

definition sdup_set_policy_set_param ::
    "sdup_env \<Rightarrow> sdup_port ptr \<Rightarrow> cstr ptr \<Rightarrow> cstr ptr \<Rightarrow> cstr ptr \<Rightarrow> (rc \<times> sdup_port ptr) option" where
  "sdup_set_policy_set_param env q path name val =
     (case q of
        None \<Rightarrow> Some (-1, q)
      | Some p \<Rightarrow>
          (case path of
             None \<Rightarrow> Some (-1, q)
           | Some pth \<Rightarrow>
               if name = None \<or> val = None then Some (-1, q)
               else
                 (let (cmplen, offset) = ps_factory_parse_component_id pth;
                      rest = Some (drop offset pth)
                  in if pth = [] then Some (-1, q)
                     else if component_is pth cmplen ''crypto''
                     then do { (r, c) \<leftarrow> sdup_crypto_set_policy_set_param (sp_crypto p) rest name val;
                               Some (r, Some (p\<lparr>sp_crypto := c\<rparr>)) }
                     else if component_is pth cmplen ''errc''
                     then do { (r, c) \<leftarrow> sdup_errc_set_policy_set_param (sp_errc p) rest name val;
                               Some (r, Some (p\<lparr>sp_errc := c\<rparr>)) }
                     else if component_is pth cmplen ''ttl''
                     then do { (r, c) \<leftarrow> sdup_ttl_set_policy_set_param env (sp_ttl p) rest name val;
                               Some (r, Some (p\<lparr>sp_ttl := c\<rparr>)) }
                     else Some (-1, q))))"

section \<open>Units\<close>

text \<open>The policy set of a component, used without a test for NULL.\<close>

definition comp_ps :: "'ps rina_component \<Rightarrow> 'ps option" where
  "comp_ps c = map_option snd (rc_ps c)"

definition put_ps :: "'ps \<Rightarrow> 'ps rina_component \<Rightarrow> 'ps rina_component" where
  "put_ps ps c = c\<lparr>rc_ps := map_option (\<lambda>(a, _). (a, ps)) (rc_ps c)\<rparr>"

definition protect_crypto :: "cenv \<Rightarrow> sdup_port \<Rightarrow> du \<Rightarrow> (rc \<times> sdup_port \<times> du) option" where
  "protect_crypto e p d =
     (case sp_crypto p of
        None \<Rightarrow> Some (0, p, d)
      | Some c \<Rightarrow> do {
          ps \<leftarrow> comp_ps c;
          (r, ps1, d1) \<leftarrow> default_sdup_apply_crypto e ps d;
          Some (r, p\<lparr>sp_crypto := Some (put_ps ps1 c)\<rparr>, d1)
        })"

definition sdup_protect_pdu ::
    "sdup_env \<Rightarrow> cenv \<Rightarrow> sdup_port ptr \<Rightarrow> du \<Rightarrow> (rc \<times> sdup_port ptr \<times> du) option" where
  "sdup_protect_pdu env e q d =
     (case q of
        None \<Rightarrow> Some (-1, None, d)
      | Some p \<Rightarrow> do {
          (r, p1, d1) \<leftarrow> protect_crypto e p d;
          if r \<noteq> 0 then Some (-1, Some p1, d1)
          else (case sp_errc p1 of
                  None \<Rightarrow> Some (0, Some p1, d1)
                | Some c \<Rightarrow> do {
                    _ \<leftarrow> comp_ps c;
                    (r, d2) \<leftarrow> default_sdup_add_error_check_policy (se_crc32_le env) e d1;
                    Some (if r \<noteq> 0 then -1 else 0, Some p1, d2)
                  })
        })"

text \<open>The size of a PDU is the one of the data transfer constants, which are used by the decompression only.\<close>

definition max_pdu_of :: "sdup_port \<Rightarrow> nat option" where
  "max_pdu_of p = map_option (\<lambda>dt. unat (dtc_max_pdu_size dt)) (sp_dt_cons p)"

definition unprotect_errc :: "sdup_env \<Rightarrow> sdup_port \<Rightarrow> du \<Rightarrow> (rc \<times> du) option" where
  "unprotect_errc env p d =
     (case sp_errc p of
        None \<Rightarrow> Some (0, d)
      | Some c \<Rightarrow> do {
          _ \<leftarrow> comp_ps c;
          default_sdup_check_error_check_policy (se_crc32_le env) d
        })"

definition sdup_unprotect_pdu ::
    "sdup_env \<Rightarrow> cenv \<Rightarrow> sdup_port ptr \<Rightarrow> du \<Rightarrow> (rc \<times> sdup_port ptr \<times> du) option" where
  "sdup_unprotect_pdu env e q d =
     (case q of
        None \<Rightarrow> Some (-1, None, d)
      | Some p \<Rightarrow> do {
          (r, d1) \<leftarrow> unprotect_errc env p d;
          if r \<noteq> 0 then Some (-1, q, d1)
          else (case sp_crypto p of
                  None \<Rightarrow> Some (0, q, d1)
                | Some c \<Rightarrow> do {
                    ps \<leftarrow> comp_ps c;
                    maxp \<leftarrow> max_pdu_of p;
                    (r, ps1, d2) \<leftarrow> default_sdup_remove_crypto e maxp ps d1;
                    Some (if r \<noteq> 0 then -1 else 0, Some (p\<lparr>sp_crypto := Some (put_ps ps1 c)\<rparr>), d2)
                  })
        })"

definition sdup_lifetime :: "(u8 \<Rightarrow> tdu \<Rightarrow> (rc \<times> tdu) option) \<Rightarrow> sdup_port ptr \<Rightarrow> tdu \<Rightarrow> (rc \<times> tdu) option" where
  "sdup_lifetime policy q t =
     (case q of
        None \<Rightarrow> Some (-1, t)
      | Some p \<Rightarrow>
          (case sp_ttl p of
             None \<Rightarrow> Some (0, t)
           | Some c \<Rightarrow> do {
               v \<leftarrow> comp_ps c;
               (r, t1) \<leftarrow> policy v t;
               Some (if r \<noteq> 0 then -1 else 0, t1)
             }))"

definition sdup_set_lifetime_limit :: "cenv \<Rightarrow> sdup_port ptr \<Rightarrow> tdu \<Rightarrow> (rc \<times> tdu) option" where
  "sdup_set_lifetime_limit e = sdup_lifetime (default_sdup_set_lifetime_limit_policy e)"

definition sdup_get_lifetime_limit :: "sdup_port ptr \<Rightarrow> tdu \<Rightarrow> (rc \<times> tdu) option" where
  "sdup_get_lifetime_limit = sdup_lifetime default_sdup_get_lifetime_limit_policy"

definition sdup_dec_check_lifetime_limit :: "cenv \<Rightarrow> sdup_port ptr \<Rightarrow> tdu \<Rightarrow> (rc \<times> tdu) option" where
  "sdup_dec_check_lifetime_limit e = sdup_lifetime (default_sdup_dec_check_lifetime_limit_policy e)"

definition sdup_update_crypto_state ::
    "crypto_lib \<Rightarrow> (nat \<Rightarrow> bool) \<Rightarrow> sdup ptr \<Rightarrow> ku_sdup_crypto_state ptr \<Rightarrow> int \<Rightarrow> (rc \<times> sdup ptr) option" where
  "sdup_update_crypto_state lib ok q state port_id =
     (case q of
        None \<Rightarrow> Some (-1, None)
      | Some i \<Rightarrow>
          (case sdup_find_port (su_instances i) port_id of
             None \<Rightarrow> Some (-1, q)
           | Some p \<Rightarrow>
               (case sp_crypto p of
                  None \<Rightarrow> Some (0, q)
                | Some c \<Rightarrow> do {
                    ps \<leftarrow> comp_ps c;
                    maxp \<leftarrow> max_pdu_of p;
                    (r, ps1) \<leftarrow> default_sdup_update_crypto_state lib maxp ok state ps;
                    Some (if r \<noteq> 0 then -1 else 0,
                          Some (i\<lparr>su_instances :=
                            put_port (p\<lparr>sp_crypto := Some (put_ps ps1 c)\<rparr>) (su_instances i)\<rparr>))
                  })))"

section \<open>The error check\<close>

lemma add_error_check_ok:
  assumes lay: "lay d hr bs tr" and room: "4 \<le> length tr" "length bs + 4 < 2 ^ 32"
  shows "\<exists>d' tr'. default_sdup_add_error_check_policy crc e d = Some (0, d') \<and>
    lay d' hr (bs @ bytes_of 4 (crc bs)) tr'"
proof -
  obtain d1 where d1: "du_tail_grow (ce_ok e) (ce_mem e) 4 d = Done (0, d1)"
    "lay d1 hr (bs @ take 4 tr) (drop 4 tr)"
    using lay_tail_grow [OF lay room, of "ce_ok e" "ce_mem e"] by blast
  have "\<not> stale_tail 4 d" using lay room(1) by (auto simp: lay_def stale_tail_def skb_tailroom_def)
  moreover from lay_write [OF d1(2), of "length bs" "bytes_of 4 (crc bs)"] room(1) obtain d2 where
    "du_write (length bs) (bytes_of 4 (crc bs)) d1 = Done d2"
    "lay d2 hr (bs @ bytes_of 4 (crc bs)) (drop 4 tr)" by auto
  moreover have "du_read 0 (length bs) d = Done bs" using lay_read [OF lay, of 0 "length bs"] by simp
  ultimately show ?thesis using d1(1) lay_len [OF lay]
    by (auto simp: default_sdup_add_error_check_policy_def Let_def)
qed

text \<open>The check takes a unit if and only if it ends with the checksum of what comes before.\<close>

lemma check_error_check_iff:
  assumes lay: "lay d hr (bs @ fcs) tr" and "length fcs = 4"
  shows "\<exists>d' tr'. default_sdup_check_error_check_policy crc d = Some (if fcs = bytes_of 4 (crc bs) then 0 else -1, d') \<and>
    (fcs = bytes_of 4 (crc bs) \<longrightarrow> lay d' hr bs tr')"
proof -
  have "du_read 0 (length bs) d = Done bs" "du_read (length bs) 4 d = Done fcs"
    using lay_read [OF lay, of 0 "length bs"] lay_read [OF lay, of "length bs" 4] assms(2) by simp_all
  moreover from lay_tail_shrink [OF lay, of 4] assms(2) obtain d1 where
    "du_tail_shrink 4 d = Done (0, d1)" "lay d1 hr bs (fcs @ tr)" by auto
  ultimately show ?thesis using lay_len [OF lay] assms(2)
    by (auto simp: default_sdup_check_error_check_policy_def)
qed

section \<open>A hop\<close>

lemma lay_buf_get: "lay d (hr @ [v]) bs tr \<Longrightarrow> buf_get (length hr) d = Some v"
  by (auto simp: lay_def buf_get_def)

lemma lay_buf_put:
  "lay d (hr @ [v]) bs tr \<Longrightarrow> \<exists>d'. buf_put (length hr) b d = Some d' \<and> lay d' (hr @ [b]) bs tr"
  by (auto simp: lay_def buf_put_def pci_gap_def list_update_append split: option.splits)

text \<open>What a relay does with the lifetime of a unit: read it when the unit comes in, count it down before it goes out.\<close>

definition ttl_hop :: "cenv \<Rightarrow> sdup_port ptr \<Rightarrow> sdup_port ptr \<Rightarrow> du \<Rightarrow> (rc \<times> du) option" where
  "ttl_hop e inp outp d = do {
     (r, t1) \<leftarrow> sdup_get_lifetime_limit inp (d, None);
     if r \<noteq> 0 then Some (r, fst t1)
     else do { (r, t2) \<leftarrow> sdup_dec_check_lifetime_limit e outp t1; Some (r, fst t2) }
   }"

definition ttl_port :: "sdup_port ptr \<Rightarrow> u8 \<Rightarrow> bool" where
  "ttl_port q v \<longleftrightarrow> (\<exists>p c. q = Some p \<and> sp_ttl p = Some c \<and> comp_ps c = Some v)"

lemma ttl_hop_ok:
  assumes lay: "lay d hr (v # bs) tr" and ports: "ttl_port inp a" "ttl_port outp b" "a > 0" "b > 0"
  shows "v = 1 \<Longrightarrow> \<exists>d'. ttl_hop e inp outp d = Some (-1, d')"
    and "v \<noteq> 1 \<Longrightarrow> \<exists>d'. ttl_hop e inp outp d = Some (0, d') \<and> lay d' hr ((v - 1) # bs) tr"
proof -
  obtain p c p' c' where c: "inp = Some p" "sp_ttl p = Some c" "comp_ps c = Some a"
    "outp = Some p'" "sp_ttl p' = Some c'" "comp_ps c' = Some b"
    using ports(1,2) by (auto simp: ttl_port_def)
  obtain d1 where d1: "du_head_shrink 1 d = Done (0, d1)" "lay d1 (hr @ [v]) bs tr"
    using lay_head_shrink [OF lay, of 1] by auto
  have get: "sdup_get_lifetime_limit inp (d, None) = Some (0, d1, Some (length hr))"
    using c ports(3) lay_buffer [OF lay] d1(1)
    by (simp add: sdup_get_lifetime_limit_def sdup_lifetime_def Let_def du_sdup_head_set_def
        default_sdup_get_lifetime_limit_policy_def)
  note dec = sdup_dec_check_lifetime_limit_def sdup_lifetime_def Let_def
    default_sdup_dec_check_lifetime_limit_policy_def
  show "\<exists>d'. ttl_hop e inp outp d = Some (-1, d')" if "v = 1"
    using that get c ports(4) lay_buf_get [OF d1(2)] by (simp add: ttl_hop_def dec)
  show "\<exists>d'. ttl_hop e inp outp d = Some (0, d') \<and> lay d' hr ((v - 1) # bs) tr" if "v \<noteq> 1"
  proof -
    obtain d2 where d2: "buf_put (length hr) (v - 1) d1 = Some d2" "lay d2 (hr @ [v - 1]) bs tr"
      using lay_buf_put [OF d1(2)] by blast
    obtain d3 where "du_head_grow (ce_ok e) (ce_mem e) 1 d2 = Done (0, d3)" "lay d3 hr ((v - 1) # bs) tr"
      using lay_head_grow [OF d2(2), of 1 "ce_ok e" "ce_mem e"] lay_short [OF lay] by auto
    with that get c ports(4) lay_buf_get [OF d1(2)] d2(1) show ?thesis
      by (simp add: ttl_hop_def dec)
  qed
qed

lemma set_lifetime_ok:
  assumes lay: "lay d hr bs tr" and port: "ttl_port q v" "v > 0" and room: "hr \<noteq> []" "length bs + 1 < 2 ^ 32"
  shows "\<exists>d' hr' x. sdup_set_lifetime_limit e q (d, None) = Some (0, d', x) \<and> lay d' hr' (v # bs) tr"
proof -
  from room(1) obtain ys y where hr: "hr = ys @ [y]" by (cases hr rule: rev_cases) auto
  then obtain d1 where d1: "du_head_grow (ce_ok e) (ce_mem e) 1 d = Done (0, d1)" "lay d1 ys (y # bs) tr"
    using lay_head_grow [OF lay _ room(2), of "ce_ok e" "ce_mem e"] by auto
  from lay_write [OF d1(2), of 0 "[v]"] obtain d2 where
    d2: "du_write 0 [v] d1 = Done d2" "lay d2 ys (v # bs) tr" by auto
  with port d1 lay_buffer [OF d1(2)] show ?thesis
    by (auto simp: ttl_port_def sdup_set_lifetime_limit_def sdup_lifetime_def du_sdup_head_set_def
        default_sdup_set_lifetime_limit_policy_def)
qed

text \<open>How many relays a unit passes on a path.\<close>

fun ttl_path :: "cenv \<Rightarrow> (sdup_port ptr \<times> sdup_port ptr) list \<Rightarrow> du \<Rightarrow> nat option" where
  "ttl_path e [] d = Some 0"
| "ttl_path e (h # hs) d = do {
     (r, d1) \<leftarrow> ttl_hop e (fst h) (snd h) d;
     if r \<noteq> 0 then Some 0 else map_option Suc (ttl_path e hs d1)
   }"

definition ttl_relay :: "sdup_port ptr \<times> sdup_port ptr \<Rightarrow> bool" where
  "ttl_relay h \<longleftrightarrow> (\<exists>a b. ttl_port (fst h) a \<and> ttl_port (snd h) b \<and> a > 0 \<and> b > 0)"

lemma ttl_path_ok:
  assumes "lay d hr (v # bs) tr" "list_all ttl_relay hs" "v > 0"
  shows "ttl_path e hs d = Some (min (length hs) (unat v - 1))"
  using assms
proof (induction hs arbitrary: d v)
  case (Cons h hs)
  then obtain a b where h: "ttl_port (fst h) a" "ttl_port (snd h) b" "a > 0" "b > 0"
    by (auto simp: ttl_relay_def)
  show ?case
  proof (cases "v = 1")
    case True
    with ttl_hop_ok(1) [OF Cons.prems(1) h, of e] show ?thesis by auto
  next
    case False
    then obtain d' where d': "ttl_hop e (fst h) (snd h) d = Some (0, d')" "lay d' hr ((v - 1) # bs) tr"
      using ttl_hop_ok(2) [OF Cons.prems(1) h, of e] by blast
    have "1 \<le> v" using Cons.prems(3) by (metis word_le_sub1 word_less_1 linorder_not_le word_gt_0)
    then have u: "unat (v - 1) = unat v - 1" using unat_sub [of 1 v] by simp
    have "v - 1 > 0" using False by (simp add: word_gt_0)
    moreover from False have "unat v \<noteq> 1" "unat v \<noteq> 0" using False Cons.prems(3)
      by (auto simp: word_unat_eq_iff word_less_nat_alt)
    then obtain k where "unat v = Suc (Suc k)" by (metis One_nat_def not0_implies_Suc)
    with calculation Cons.IH [OF d'(2)] Cons.prems(2) d'(1) u show ?thesis by simp
  qed
qed simp

section \<open>Peers\<close>

text \<open>
  Two ports whose configurations fit: both have the policy or none has it, with the same algorithms,
  and the window of the receiver takes the next number of the sender.
\<close>

definition crypto_peers :: "nat \<Rightarrow> sdup_port \<Rightarrow> sdup_port \<Rightarrow> bool" where
  "crypto_peers maxp a b \<longleftrightarrow>
     (case (sp_crypto a, sp_crypto b) of
        (None, None) \<Rightarrow> True
      | (Some c, Some c') \<Rightarrow>
          (\<exists>p q q'. comp_ps c = Some p \<and> comp_ps c' = Some q \<and> max_pdu_of b = Some maxp \<and>
             state_ok maxp (current_tx_state p) \<and> state_ok maxp (current_rx_state q) \<and>
             same_algs (current_tx_state p) (current_rx_state q) \<and> window_takes (tx_seq_num p) q q')
      | _ \<Rightarrow> False)"

definition errc_peers :: "sdup_port \<Rightarrow> sdup_port \<Rightarrow> bool" where
  "errc_peers a b \<longleftrightarrow>
     (case (sp_errc a, sp_errc b) of
        (None, None) \<Rightarrow> True
      | (Some c, Some c') \<Rightarrow> comp_ps c \<noteq> None \<and> comp_ps c' \<noteq> None
      | _ \<Rightarrow> False)"

text \<open>The room the protection needs around a unit, and the longest unit it makes.\<close>

definition of_crypto :: "(crypto_state \<Rightarrow> nat) \<Rightarrow> sdup_port \<Rightarrow> nat" where
  "of_crypto f a = (case sp_crypto a of None \<Rightarrow> 0
     | Some c \<Rightarrow> (case comp_ps c of None \<Rightarrow> 0 | Some p \<Rightarrow> f (current_tx_state p)))"

definition sdup_tail :: "sdup_port \<Rightarrow> nat" where
  "sdup_tail a = of_crypto crypto_tail a + (case sp_errc a of None \<Rightarrow> 0 | Some _ \<Rightarrow> 4)"

text \<open>What the cryptographic stage of the port did to the bytes.\<close>

definition port_crypto_rel :: "nat \<Rightarrow> sdup_port \<Rightarrow> u8 list \<Rightarrow> u8 list \<Rightarrow> bool" where
  "port_crypto_rel maxp a bs xs \<longleftrightarrow>
     (case sp_crypto a of
        None \<Rightarrow> xs = bs
      | Some c \<Rightarrow> (\<exists>p. comp_ps c = Some p \<and> protected maxp (current_tx_state p) (tx_seq_num p) bs xs))"

definition port_errc_rel :: "(u8 list \<Rightarrow> u32) \<Rightarrow> sdup_port \<Rightarrow> u8 list \<Rightarrow> u8 list \<Rightarrow> bool" where
  "port_errc_rel crc a xs ys \<longleftrightarrow> ys = (case sp_errc a of None \<Rightarrow> xs | Some _ \<Rightarrow> xs @ bytes_of 4 (crc xs))"

lemma protect_crypto_ok:
  assumes lay: "lay d hr bs tr" and peers: "crypto_peers maxp a b"
    and room: "of_crypto (crypto_head maxp) a \<le> length hr" "of_crypto crypto_tail a \<le> length tr"
    and max: "length bs \<le> maxp" "maxp + 4 < 2 ^ 32" "of_crypto (crypto_long maxp) a + 4 < 2 ^ 32"
  shows "\<exists>a1 d1 hr1 xs tr1. protect_crypto e a d = Some (0, a1, d1) \<and> sp_errc a1 = sp_errc a \<and>
    lay d1 hr1 xs tr1 \<and> port_crypto_rel maxp a bs xs \<and> length xs + 4 < 2 ^ 32 \<and>
    length tr \<le> length tr1 + of_crypto crypto_tail a"
proof (cases "sp_crypto a")
  case None
  have "length tr \<le> length tr + of_crypto crypto_tail a" by simp
  with None lay max show ?thesis by (fastforce simp: protect_crypto_def port_crypto_rel_def)
next
  case (Some c)
  with peers(1) obtain p where p: "comp_ps c = Some p" "state_ok maxp (current_tx_state p)"
    by (auto simp: crypto_peers_def split: option.splits)
  with Some room max(3) have r: "crypto_head maxp (current_tx_state p) \<le> length hr"
    "crypto_tail (current_tx_state p) \<le> length tr" "crypto_long maxp (current_tx_state p) + 4 < 2 ^ 32"
    by (simp_all add: of_crypto_def)
  then have "crypto_short maxp (current_tx_state p)" by (simp add: crypto_short_def)
  from apply_crypto_ok [OF lay p(2) r(1,2) max(1) this, of e] r(3) p Some show ?thesis
    by (fastforce simp: protect_crypto_def port_crypto_rel_def of_crypto_def)
qed

lemma protect_ok:
  assumes lay: "lay d hr bs tr" and peers: "crypto_peers maxp a b" "errc_peers a b"
    and room: "of_crypto (crypto_head maxp) a \<le> length hr" "sdup_tail a \<le> length tr"
    and max: "length bs \<le> maxp" "maxp + 4 < 2 ^ 32" "of_crypto (crypto_long maxp) a + 4 < 2 ^ 32"
  shows "\<exists>a' d' hr' xs ys tr'. sdup_protect_pdu env e (Some a) d = Some (0, a', d') \<and> lay d' hr' ys tr' \<and>
    port_crypto_rel maxp a bs xs \<and> port_errc_rel (se_crc32_le env) a xs ys"
proof -
  have "of_crypto crypto_tail a \<le> length tr" using room(2) by (simp add: sdup_tail_def)
  from protect_crypto_ok [OF lay peers(1) room(1) this max, of e] obtain a1 d1 hr1 xs tr1 where
    1: "protect_crypto e a d = Some (0, a1, d1)" "sp_errc a1 = sp_errc a" "lay d1 hr1 xs tr1"
      "port_crypto_rel maxp a bs xs" "length xs + 4 < 2 ^ 32" "length tr \<le> length tr1 + of_crypto crypto_tail a"
    by blast
  show ?thesis
  proof (cases "sp_errc a")
    case None
    with 1 show ?thesis by (auto simp: sdup_protect_pdu_def port_errc_rel_def)
  next
    case (Some c)
    with peers(2) have "comp_ps c \<noteq> None" by (auto simp: errc_peers_def split: option.splits)
    moreover have "4 \<le> length tr1" using Some room(2) 1(6) by (simp add: sdup_tail_def)
    ultimately show ?thesis
      using add_error_check_ok [OF 1(3) _ 1(5), of "se_crc32_le env" e] Some 1
      by (fastforce simp: sdup_protect_pdu_def port_errc_rel_def)
  qed
qed

lemma unprotect_errc_ok:
  assumes "lay r hr ys tr" "errc_peers a b" "port_errc_rel (se_crc32_le env) a xs ys"
  shows "\<exists>r' tr'. unprotect_errc env b r = Some (0, r') \<and> lay r' hr xs tr'"
proof (cases "sp_errc a")
  case None
  with assms show ?thesis
    by (auto simp: errc_peers_def port_errc_rel_def unprotect_errc_def split: option.splits)
next
  case (Some c)
  with assms(3) have "ys = xs @ bytes_of 4 (se_crc32_le env xs)" by (simp add: port_errc_rel_def)
  with check_error_check_iff [of r hr xs "bytes_of 4 (se_crc32_le env xs)" tr "se_crc32_le env"] assms Some
  show ?thesis by (auto simp: errc_peers_def unprotect_errc_def split: option.splits)
qed

lemma unprotect_ok:
  assumes "lay r hr ys tr" "crypto_peers maxp a b" "errc_peers a b"
    and "port_crypto_rel maxp a bs xs" "port_errc_rel (se_crc32_le env) a xs ys"
    and "length bs \<le> length hr" "length bs < 2 ^ 32" "ce_ok e"
  shows "\<exists>b' r'. sdup_unprotect_pdu env e (Some b) r = Some (0, b', r') \<and> du_bytes r' = bs"
proof -
  obtain r1 tr1 where 1: "unprotect_errc env b r = Some (0, r1)" "lay r1 hr xs tr1"
    using unprotect_errc_ok [OF assms(1,3,5)] by blast
  show ?thesis
  proof (cases "sp_crypto a")
    case None
    with 1 assms(2,4) lay_bytes [OF 1(2)] show ?thesis
      by (auto simp: sdup_unprotect_pdu_def crypto_peers_def port_crypto_rel_def split: option.splits)
  next
    case (Some c)
    with assms(2) obtain c' p q q' where c: "sp_crypto b = Some c'" "comp_ps c = Some p" "comp_ps c' = Some q"
      "max_pdu_of b = Some maxp" "state_ok maxp (current_rx_state q)"
      "same_algs (current_tx_state p) (current_rx_state q)" "window_takes (tx_seq_num p) q q'"
      by (auto simp: crypto_peers_def split: option.splits)
    have "protected maxp (current_rx_state q) (tx_seq_num p) bs xs"
      using assms(4) Some c(2) protected_same [OF c(6)] by (auto simp: port_crypto_rel_def)
    from remove_crypto_ok [OF 1(2) c(5) this c(7) assms(8,6,7)] obtain d' hr' tr' where
      "default_sdup_remove_crypto e maxp q r1 = Some (0, q', d')" "lay d' hr' bs tr'" by blast
    with 1(1) c lay_bytes show ?thesis by (auto simp: sdup_unprotect_pdu_def)
  qed
qed

section \<open>Properties\<close>


definition small_port :: sdup_port where
  "small_port = \<lparr>sp_addr = 0, sp_port_id = 4,
     sp_crypto = Some \<lparr>rc_ps_factory = None, rc_ps = Some (0, small_crypto), rc_lock = 0\<rparr>,
     sp_errc = Some \<lparr>rc_ps_factory = None, rc_ps = Some (1, ()), rc_lock = 0\<rparr>,
     sp_ttl = Some \<lparr>rc_ps_factory = None, rc_ps = Some (2, 3), rc_lock = 0\<rparr>,
     sp_conf = \<lparr>asp_auth = None, asp_encrypt = None, asp_crc = None, asp_ttl = None\<rparr>,
     sp_dt_cons = Some \<lparr>dtc_address_length = 2, dtc_cep_id_length = 2, dtc_length_length = 2,
       dtc_port_id_length = 2, dtc_qos_id_length = 2, dtc_seq_num_length = 4, dtc_ctrl_seq_num_length = 4,
       dtc_max_pdu_size = 8, dtc_max_sdu_size = 8, dtc_max_pdu_life = 1, dtc_rate_length = 4,
       dtc_frame_length = 4, dtc_dif_integrity = False, dtc_seq_rollover_thres = 0,
       dtc_dif_concat = False, dtc_dif_frag = False, dtc_max_time_to_keep_ret = 0,
       dtc_max_time_to_ack = 0\<rparr>\<rparr>"

definition small_env :: sdup_env where
  "small_env = \<lparr>crypto_policy_sets = [], errc_policy_sets = [], ttl_policy_sets = [],
     mk_crypto = (\<lambda>_ _. None), mk_errc = (\<lambda>_ _. None), mk_ttl = (\<lambda>_ _. None),
     se_crc32_le = (\<lambda>bs. of_nat (length bs)), se_kstrtoint = (\<lambda>_. None)\<rparr>"

lemma small_peers: "crypto_peers 8 small_port small_port" "errc_peers small_port small_port"
proof -
  have st: "current_tx_state small_crypto = small_state" "current_rx_state small_crypto = small_state"
    "tx_seq_num small_crypto = 3" by (simp_all add: small_crypto_def)
  have "same_algs small_state small_state" by (simp add: same_algs_def)
  with small_state_ok small_takes st show "crypto_peers 8 small_port small_port"
    by (auto simp: crypto_peers_def small_port_def comp_ps_def max_pdu_of_def)
  show "errc_peers small_port small_port"
    by (simp add: errc_peers_def small_port_def comp_ps_def)
qed

lemma small_port_sizes:
  "of_crypto (crypto_head 8) small_port = 1038" "sdup_tail small_port = 9"
  "of_crypto (crypto_long 8) small_port = 1043"
  using small_sizes by (simp_all add: of_crypto_def sdup_tail_def small_port_def comp_ps_def small_crypto_def)


text \<open>
  C39. The lifetime bounds the way of a unit: a unit that a port sends with a positive initial
  lifetime is passed on by exactly one relay less than the lifetime, and the next relay drops it,
  whatever initial values the ports of the relays are configured with as long as they are positive.
\<close>

theorem ttl_bounds_path:
  assumes "lay d hr bs tr" "hr \<noteq> []" "length bs + 1 < 2 ^ 32"
    and "ttl_port src v" "v > 0" "list_all ttl_relay hs"
  shows "\<exists>d' x. sdup_set_lifetime_limit e src (d, None) = Some (0, d', x) \<and> du_bytes d' = v # bs \<and>
    ttl_path e hs d' = Some (min (length hs) (unat v - 1))"
proof -
  obtain d' hr' x where s: "sdup_set_lifetime_limit e src (d, None) = Some (0, d', x)" "lay d' hr' (v # bs) tr"
    using set_lifetime_ok [OF assms(1,4,5,2,3)] by blast
  with ttl_path_ok [OF s(2) assms(6,5)] lay_bytes [OF s(2)] show ?thesis by blast
qed

theorem ttl_bounds_path_witness:
  "\<exists>d' x. sdup_set_lifetime_limit calm (Some small_port) (roomy_du, None) = Some (0, d', x) \<and>
     du_bytes d' = [3, 1, 2, 3] \<and>
     ttl_path calm (replicate 5 (Some small_port, Some small_port)) d' = Some 2"
proof -
  have "ttl_port (Some small_port) 3" by (simp add: ttl_port_def small_port_def comp_ps_def)
  then have "list_all ttl_relay (replicate 5 (Some small_port, Some small_port))"
    by (auto simp: list_all_iff ttl_relay_def intro!: exI [of _ 3])
  moreover have "headroom \<noteq> []" using length_headroom by fastforce
  ultimately show ?thesis
    using ttl_bounds_path [OF roomy_lay _ _ \<open>ttl_port (Some small_port) 3\<close>,
        of "replicate 5 (Some small_port, Some small_port)" calm] by simp
qed

section \<open>Where the code goes wrong\<close>

text \<open>
  A lifetime of zero that comes in from the network wraps around, and the unit lives on for 255
  relays.
\<close>

lemma ttl_zero_wraps:
  assumes "lay d hr (0 # bs) tr" "ttl_port inp a" "ttl_port outp b" "a > 0" "b > 0"
  shows "\<exists>d'. ttl_hop e inp outp d = Some (0, d') \<and> lay d' hr (- 1 # bs) tr"
  using ttl_hop_ok(2) [OF assms] by simp

text \<open>An initial value of 256 turns the policy off.\<close>

lemma ttl_256_off:
  "sdu_ttl_ps_default_set_policy_set_param (\<lambda>_. Some 256) (Some (cstr_of ''initialValue'')) (Some v) 9 = (0, 0)"
  by (simp add: sdu_ttl_ps_default_set_policy_set_param_def)

text \<open>A unit shorter than the checksum makes the check run out of the unit.\<close>

lemma short_unit_faults:
  "lay d hr bs tr \<Longrightarrow> length bs < 4 \<Longrightarrow> default_sdup_check_error_check_policy crc d = None"
  by (auto simp: default_sdup_check_error_check_policy_def dest!: lay_len)

text \<open>Without room behind the unit, the checksum is written through a pointer into the replaced buffer.\<close>

lemma error_check_stale:
  assumes "du_skb d = Some s" "skb_tailroom s < 4"
    "du_tail_grow (ce_ok e) (ce_mem e) 4 d = Done (0, d')"
  shows "default_sdup_add_error_check_policy crc e d = None"
  using assms by (auto simp: default_sdup_add_error_check_policy_def stale_tail_def bind_eq_None_conv)

text \<open>
  A policy name that nobody published: the port is created without a policy set, and the first unit
  that it shall protect is a fault.
\<close>

lemma unpublished_port_faults:
  assumes "asp_encrypt conf = Some \<lparr>pol_name = Some n, pol_version = v, pol_params = []\<rparr>"
    "asp_crc conf = None" "asp_ttl conf = None"
  shows "\<exists>p. sdup_port_create small_env [] 0 4 (Some conf) None w = Some (Some p, w) \<and>
    sdup_protect_pdu small_env e (Some p) d = None"
proof -
  let ?c = "rina_component_init\<lparr>rc_lock := -1\<rparr>"
  have 1: "sdup_port_comp (sdup_crypto_select_policy_set small_env conf) (asp_encrypt conf) True w =
      Some (Inr (Some ?c), w)"
    by (simp add: unpublished_unlocks sdup_port_comp_def assms(1) ps_name_of_def sdup_comp_create_def
        sdup_crypto_select_policy_set_def sdup_select_def small_env_def)
  have 2: "sdup_port_comp sel None True w = Some (Inr None, w)"
    for sel :: "cstr ptr \<Rightarrow> cstr ptr \<Rightarrow> 'a rina_component ptr \<Rightarrow> ps_world \<Rightarrow> (rc \<times> 'a rina_component ptr \<times> ps_world) option"
    by (simp add: sdup_port_comp_def ps_name_of_def)
  have "sdup_port_create small_env [] 0 4 (Some conf) None w =
      Some (Some \<lparr>sp_addr = 0, sp_port_id = 4, sp_crypto = Some ?c, sp_errc = None, sp_ttl = None,
        sp_conf = conf, sp_dt_cons = None\<rparr>, w)"
    by (simp add: sdup_port_create_def 1 assms(2,3) 2)
  then show ?thesis
    by (simp add: sdup_protect_pdu_def protect_crypto_def comp_ps_def rina_component_init_def)
qed

text \<open>When the second allocation of a port fails, components that were never set are destroyed.\<close>

lemma port_create_uninitialised:
  assumes "asp_encrypt conf = Some \<lparr>pol_name = Some n, pol_version = v, pol_params = []\<rparr>"
  shows "sdup_port_create env [True, False] 0 4 (Some conf) None w = None"
  using assms by (simp add: sdup_port_create_def sdup_port_comp_def ps_name_of_def sdup_comp_create_def)

end
