(* ===== verification/Spec2Isabelle.thy ===== *)
theory Spec2Isabelle
  imports Id_Mgmt Delim Pff Dtp_Send Rmt_Default Lgcshq_Dtcp Serdes_Msg Iodev Sdup
begin

text \<open>
  A verification library for the kernel data path of the IRATI RINA stack.
\<close>

end
